(* ===== verification/Gdb_Prelude.thy ===== *)
theory Gdb_Prelude
  imports Main "HOL-Library.AList" "HOL-Library.Code_Target_Nat"
begin

text \<open>
  Shared vocabulary of the development: Python values and dictionaries, the string methods
  the sources use, exceptions, and a state monad with exceptions in which the stateful
  operations are written, together with a small calculus of triples for it.

  Text is modelled as \<^typ>\<open>string\<close>, read as a sequence of ASCII code points: the
  predicates below (digits, white space, upper and lower case) are Python's on that range.
\<close>

named_theorems pres_intros \<open>structural rules that show an operation keeps an invariant\<close>
named_theorems hoare_intros \<open>structural rules for triples of the exception state monad\<close>
named_theorems exec_simps \<open>unfolding rules of the exception state monad\<close>

section \<open>Python values\<close>

text \<open>
  The values that flow through GDB/MI payloads and result payloads. A dictionary is an
  association list in insertion order; a dataclass instance carries its class name and its
  fields in declaration order; \<open>POther\<close> is any other object, known by its type name.
  A float is kept as a whole number of microseconds (the only floats are clock readings).
\<close>

datatype pyv =
    PNone
  | PBool bool
  | PInt int
  | PFloat int
  | PStr string
  | PList "pyv list"
  | PTuple "pyv list"
  | PDict "(string \<times> pyv) list"
  | PData string "(string \<times> pyv) list"
  | POther string

type_synonym pydict = "(string \<times> pyv) list"

text \<open>\<open>d.get(k)\<close> and \<open>d.get(k, default)\<close>.\<close>

definition dget :: "pydict \<Rightarrow> string \<Rightarrow> pyv" where
  "dget d k = (case map_of d k of None \<Rightarrow> PNone | Some v \<Rightarrow> v)"

definition dget_default :: "pydict \<Rightarrow> string \<Rightarrow> pyv \<Rightarrow> pyv" where
  "dget_default d k dflt = (case map_of d k of None \<Rightarrow> dflt | Some v \<Rightarrow> v)"

definition dhas :: "pydict \<Rightarrow> string \<Rightarrow> bool" where
  "dhas d k = (map_of d k \<noteq> None)"

text \<open>\<open>d[k] = v\<close> replaces in place or appends, as \<^const>\<open>AList.update\<close> does.\<close>

abbreviation dset :: "string \<Rightarrow> pyv \<Rightarrow> pydict \<Rightarrow> pydict" where
  "dset \<equiv> AList.update"

definition opt_str :: "string option \<Rightarrow> pyv" where
  "opt_str v = (case v of None \<Rightarrow> PNone | Some s \<Rightarrow> PStr s)"

definition opt_int :: "int option \<Rightarrow> pyv" where
  "opt_int v = (case v of None \<Rightarrow> PNone | Some i \<Rightarrow> PInt i)"

lemma dget_Nil [simp]: "dget [] k = PNone"
  by (simp add: dget_def)

lemma dget_Cons [simp]: "dget ((k', v) # d) k = (if k' = k then v else dget d k)"
  by (simp add: dget_def)

lemma dget_default_Nil [simp]: "dget_default [] k x = x"
  by (simp add: dget_default_def)

lemma dget_default_Cons [simp]:
  "dget_default ((k', v) # d) k x = (if k' = k then v else dget_default d k x)"
  by (simp add: dget_default_def)

lemma dhas_Nil [simp]: "\<not> dhas [] k"
  by (simp add: dhas_def)

lemma dhas_Cons [simp]: "dhas ((k', v) # d) k = (k' = k \<or> dhas d k)"
  by (simp add: dhas_def)

lemma dhas_keys: "dhas d k \<longleftrightarrow> k \<in> fst ` set d"
  by (simp add: dhas_def map_of_eq_None_iff)

lemma dget_dset [simp]: "dget (dset k v d) k' = (if k = k' then v else dget d k')"
  by (simp add: dget_def update_conv')

lemma dhas_dset [simp]: "dhas (dset k v d) k' = (k = k' \<or> dhas d k')"
  by (simp add: dhas_def update_conv')

text \<open>Python truth of a value: \<open>if x:\<close>.\<close>

fun truthy :: "pyv \<Rightarrow> bool" where
  "truthy PNone = False"
| "truthy (PBool b) = b"
| "truthy (PInt i) = (i \<noteq> 0)"
| "truthy (PFloat i) = (i \<noteq> 0)"
| "truthy (PStr s) = (s \<noteq> [])"
| "truthy (PList xs) = (xs \<noteq> [])"
| "truthy (PTuple xs) = (xs \<noteq> [])"
| "truthy (PDict d) = (d \<noteq> [])"
| "truthy (PData c d) = True"
| "truthy (POther t) = True"

text \<open>Python truth of an optional string: \<open>None\<close> and \<open>""\<close> are false.\<close>

definition str_truthy :: "string option \<Rightarrow> bool" where
  "str_truthy v = (case v of None \<Rightarrow> False | Some s \<Rightarrow> s \<noteq> [])"

text \<open>\<open>x or y\<close> on optional strings.\<close>

definition str_or :: "string option \<Rightarrow> string \<Rightarrow> string" where
  "str_or v d = (case v of None \<Rightarrow> d | Some s \<Rightarrow> if s = [] then d else s)"

section \<open>Strings\<close>

definition digits10 :: string where
  "digits10 = ''0123456789''"

definition is_digit :: "char \<Rightarrow> bool" where
  "is_digit c = (c \<in> set digits10)"

definition is_space :: "char \<Rightarrow> bool" where
  "is_space c = (c \<in> {CHR 0x09, CHR 0x0A, CHR 0x0B, CHR 0x0C, CHR 0x0D,
                      CHR 0x1C, CHR 0x1D, CHR 0x1E, CHR 0x1F, CHR '' ''})"

definition to_lower :: "char \<Rightarrow> char" where
  "to_lower c =
     (case map_of (zip ''ABCDEFGHIJKLMNOPQRSTUVWXYZ'' ''abcdefghijklmnopqrstuvwxyz'') c of
        None \<Rightarrow> c | Some l \<Rightarrow> l)"

definition lower :: "string \<Rightarrow> string" where
  "lower s = map to_lower s"

definition lstrip :: "string \<Rightarrow> string" where
  "lstrip s = dropWhile is_space s"

definition rstrip :: "string \<Rightarrow> string" where
  "rstrip s = rev (dropWhile is_space (rev s))"

definition strip :: "string \<Rightarrow> string" where
  "strip s = rstrip (lstrip s)"

definition isdigit :: "string \<Rightarrow> bool" where
  "isdigit s = (s \<noteq> [] \<and> list_all is_digit s)"

definition startswith :: "string \<Rightarrow> string \<Rightarrow> bool" where
  "startswith s p = (take (length p) s = p)"

text \<open>\<open>sub in s\<close>.\<close>

fun contains :: "string \<Rightarrow> string \<Rightarrow> bool" where
  "contains sub [] = (sub = [])"
| "contains sub (c # cs) = (startswith (c # cs) sub \<or> contains sub cs)"

text \<open>\<open>s.split()\<close>: the maximal runs of non-space characters.\<close>

function split_ws :: "string \<Rightarrow> string list" where
  "split_ws s =
     (let t = lstrip s in
      if t = [] then []
      else takeWhile (\<lambda>c. \<not> is_space c) t # split_ws (dropWhile (\<lambda>c. \<not> is_space c) t))"
  by pat_completeness auto

lemma lstrip_len: "length (lstrip s) \<le> length s"
  by (simp add: lstrip_def length_dropWhile_le)

lemma lstrip_hd: "lstrip s \<noteq> [] \<Longrightarrow> \<not> is_space (hd (lstrip s))"
  unfolding lstrip_def by (rule hd_dropWhile)

lemma dropWhile_shorter: "t \<noteq> [] \<Longrightarrow> P (hd t) \<Longrightarrow> length (dropWhile P t) < length t"
  by (cases t) (simp_all add: le_imp_less_Suc length_dropWhile_le)

termination split_ws
proof (relation "measure length")
  show "wf (measure (length :: string \<Rightarrow> nat))" by simp
next
  fix s t :: string
  assume t: "t = lstrip s" and ne: "t \<noteq> []"
  have "length (dropWhile (\<lambda>c. \<not> is_space c) t) < length t"
    using ne lstrip_hd t by (intro dropWhile_shorter) auto
  also have "length t \<le> length s" using t lstrip_len by simp
  finally show "(dropWhile (\<lambda>c. \<not> is_space c) t, s) \<in> measure length" by simp
qed

declare split_ws.simps [simp del]

text \<open>\<open>s.split(maxsplit=1)\<close>: the first word and, when more text follows, the rest of the
  line with leading white space removed (trailing white space stays).\<close>

definition split_ws1 :: "string \<Rightarrow> string list" where
  "split_ws1 s =
     (let t = lstrip s in
      if t = [] then []
      else let w = takeWhile (\<lambda>c. \<not> is_space c) t;
               r = lstrip (dropWhile (\<lambda>c. \<not> is_space c) t)
           in if r = [] then [w] else [w, r])"

text \<open>\<open>s.splitlines()\<close> on the ASCII line boundaries; \<open>\r\n\<close> counts once and a final
  boundary does not open another line.\<close>

definition is_linebreak :: "char \<Rightarrow> bool" where
  "is_linebreak c = (c \<in> {CHR 0x0A, CHR 0x0B, CHR 0x0C, CHR 0x0D, CHR 0x1C, CHR 0x1D, CHR 0x1E})"

fun splitlines_acc :: "string \<Rightarrow> string \<Rightarrow> string list" where
  "splitlines_acc acc [] = (if acc = [] then [] else [rev acc])"
| "splitlines_acc acc [c] = (if is_linebreak c then [rev acc] else [rev (c # acc)])"
| "splitlines_acc acc (c # d # cs) =
     (if c = CHR 0x0D \<and> d = CHR 0x0A then rev acc # splitlines_acc [] cs
      else if is_linebreak c then rev acc # splitlines_acc [] (d # cs)
      else splitlines_acc (c # acc) (d # cs))"

definition splitlines :: "string \<Rightarrow> string list" where
  "splitlines s = splitlines_acc [] s"

definition join :: "string \<Rightarrow> string list \<Rightarrow> string" where
  "join sep xs = concat (case xs of [] \<Rightarrow> [] | y # ys \<Rightarrow> y # map (\<lambda>x. sep @ x) ys)"

subsection \<open>Numbers in text\<close>

definition digit_char :: "nat \<Rightarrow> char" where
  "digit_char d = digits10 ! d"

fun index_of :: "'a \<Rightarrow> 'a list \<Rightarrow> nat option" where
  "index_of x [] = None"
| "index_of x (y # ys) = (if x = y then Some 0 else map_option Suc (index_of x ys))"

text \<open>The value of one digit in a base up to 16; letters count from ten in either case.\<close>

definition digit_val :: "char \<Rightarrow> nat option" where
  "digit_val c = index_of (to_lower c) ''0123456789abcdef''"

fun show_nat :: "nat \<Rightarrow> string" where
  "show_nat n = (if n < 10 then [digit_char n] else show_nat (n div 10) @ [digit_char (n mod 10)])"

declare show_nat.simps [simp del]

text \<open>\<open>str(i)\<close>.\<close>

definition show_int :: "int \<Rightarrow> string" where
  "show_int i = (if i < 0 then ''-'' @ show_nat (nat (- i)) else show_nat (nat i))"

fun read_digits :: "nat \<Rightarrow> nat \<Rightarrow> string \<Rightarrow> nat option" where
  "read_digits b acc [] = Some acc"
| "read_digits b acc (c # cs) =
     (case digit_val c of
        None \<Rightarrow> None
      | Some v \<Rightarrow> if v < b then read_digits b (b * acc + v) cs else None)"

text \<open>\<open>int(s)\<close> of a string for which \<open>isdigit\<close> holds.\<close>

definition nat_of_digits :: "string \<Rightarrow> int" where
  "nat_of_digits s = (case read_digits 10 0 s of None \<Rightarrow> 0 | Some n \<Rightarrow> int n)"

text \<open>Underscores in an integer literal may only stand between two digits.\<close>

fun drop_underscores :: "string \<Rightarrow> string option" where
  "drop_underscores [] = None"
| "drop_underscores [c] = (if c = CHR ''_'' then None else Some [c])"
| "drop_underscores (c # d # cs) =
     (if c = CHR ''_'' then None
      else if d = CHR ''_'' then map_option (Cons c) (drop_underscores cs)
      else map_option (Cons c) (drop_underscores (d # cs)))"

definition strip_base_prefix :: "nat \<Rightarrow> string \<Rightarrow> string" where
  "strip_base_prefix b s =
     (if b = 16 \<and> (startswith s ''0x'' \<or> startswith s ''0X'') then
        (let r = drop 2 s in if startswith r ''_'' then drop 1 r else r)
      else s)"

text \<open>\<open>int(s, b)\<close> for \<open>b\<close> 10 or 16; \<open>None\<close> stands for \<open>ValueError\<close>.\<close>

definition py_int :: "nat \<Rightarrow> string \<Rightarrow> int option" where
  "py_int b s =
     (let t = strip s;
          neg = startswith t ''-'';
          u = (if neg \<or> startswith t ''+'' then drop 1 t else t);
          mag = Option.bind (drop_underscores (strip_base_prefix b u)) (read_digits b 0)
      in map_option (\<lambda>n. if neg then - int n else int n) mag)"

subsection \<open>Printing values\<close>

text \<open>\<open>repr(s)\<close> of a string: single quotes unless the text holds a single quote and no double
  quote; backslash and control characters escaped.\<close>

definition hex_char :: "nat \<Rightarrow> char" where
  "hex_char d = ''0123456789abcdef'' ! (d mod 16)"

definition repr_char :: "char \<Rightarrow> char \<Rightarrow> string" where
  "repr_char q c =
     (if c = q \<or> c = CHR 0x5C then [CHR 0x5C, c]
      else if c = CHR 0x0A then [CHR 0x5C, CHR ''n'']
      else if c = CHR 0x0D then [CHR 0x5C, CHR ''r'']
      else if c = CHR 0x09 then [CHR 0x5C, CHR ''t'']
      else let n = of_char c :: nat in
        if 32 \<le> n \<and> n < 127 then [c]
        else [CHR 0x5C, CHR ''x'', hex_char (n div 16), hex_char n])"

definition repr_str :: "string \<Rightarrow> string" where
  "repr_str s =
     (let q = (if CHR 0x27 \<in> set s \<and> CHR 0x22 \<notin> set s then CHR 0x22 else CHR 0x27)
      in [q] @ concat (map (repr_char q) s) @ [q])"

text \<open>\<open>repr(v)\<close> and \<open>str(v)\<close>. Floats, dataclass instances and other objects do not occur where
  the program prints payload values; they print as their kind.\<close>

fun py_repr :: "pyv \<Rightarrow> string" where
  "py_repr PNone = ''None''"
| "py_repr (PBool b) = (if b then ''True'' else ''False'')"
| "py_repr (PInt i) = show_int i"
| "py_repr (PStr s) = repr_str s"
| "py_repr (PList xs) = ''['' @ join '', '' (map py_repr xs) @ '']''"
| "py_repr (PTuple xs) =
     ''('' @ join '', '' (map py_repr xs) @ (if length xs = 1 then '',)'' else '')'')"
| "py_repr (PDict d) =
     ''{'' @ join '', '' (map (\<lambda>p. repr_str (fst p) @ '': '' @ py_repr (snd p)) d) @ ''}''"
| "py_repr (PFloat i) = ''<float>''"
| "py_repr (PData c d) = ''<'' @ c @ ''>''"
| "py_repr (POther t) = ''<'' @ t @ ''>''"

definition py_str :: "pyv \<Rightarrow> string" where
  "py_str v = (case v of PStr s \<Rightarrow> s | _ \<Rightarrow> py_repr v)"

section \<open>Facts about text\<close>

lemma startswith_append [simp]: "startswith (p @ s) p"
  by (simp add: startswith_def)

lemma startswith_Cons_Cons [simp]: "startswith (c # s) (d # p) = (c = d \<and> startswith s p)"
  by (simp add: startswith_def)

lemma startswith_Nil [simp]: "startswith s []"
  by (simp add: startswith_def)

lemma startswith_Nil_Cons [simp]: "\<not> startswith [] (d # p)"
  by (simp add: startswith_def)

lemma lower_append [simp]: "lower (s @ t) = lower s @ lower t"
  by (simp add: lower_def)

lemma lower_Nil [simp]: "lower [] = []"
  by (simp add: lower_def)

lemma lower_Cons [simp]: "lower (c # s) = to_lower c # lower s"
  by (simp add: lower_def)

lemma lower_empty_iff [simp]: "lower s = [] \<longleftrightarrow> s = []"
  by (simp add: lower_def)

lemma is_digit_facts:
  assumes "is_digit c"
  shows is_digit_not_space: "\<not> is_space c" and is_digit_to_lower: "to_lower c = c"
proof -
  have "list_all (\<lambda>c. \<not> is_space c \<and> to_lower c = c) digits10" by code_simp
  with assms show "\<not> is_space c" "to_lower c = c" by (simp_all add: is_digit_def list_all_iff)
qed

lemma lower_digits: "list_all is_digit s \<Longrightarrow> lower s = s"
  by (induction s) (simp_all add: is_digit_to_lower)

lemma rstrip_id: "s = [] \<or> \<not> is_space (last s) \<Longrightarrow> rstrip s = s"
proof (cases s rule: rev_cases)
  case Nil
  then show ?thesis by (simp add: rstrip_def)
next
  case (snoc ys y)
  moreover assume "s = [] \<or> \<not> is_space (last s)"
  ultimately show ?thesis by (simp add: rstrip_def)
qed

lemma lstrip_id: "s = [] \<or> \<not> is_space (hd s) \<Longrightarrow> lstrip s = s"
  by (cases s) (simp_all add: lstrip_def)

lemma strip_id: "s \<noteq> [] \<Longrightarrow> \<not> is_space (hd s) \<Longrightarrow> \<not> is_space (last s) \<Longrightarrow> strip s = s"
  by (simp add: strip_def lstrip_id rstrip_id)

lemma strip_digits: "isdigit s \<Longrightarrow> strip s = s"
  using is_digit_not_space by (intro strip_id) (auto simp: isdigit_def list_all_iff)

lemma last_rstrip: "rstrip s \<noteq> [] \<Longrightarrow> \<not> is_space (last (rstrip s))"
  using hd_dropWhile [of is_space "rev s"] by (simp add: rstrip_def last_rev)

lemma hd_rstrip: "rstrip s \<noteq> [] \<Longrightarrow> hd (rstrip s) = hd s"
proof -
  assume ne: "rstrip s \<noteq> []"
  have "rev s = takeWhile is_space (rev s) @ rev (rstrip s)"
    by (simp add: rstrip_def)
  then have "s = rstrip s @ rev (takeWhile is_space (rev s))"
    by (metis rev_append rev_rev_ident)
  with ne show ?thesis by (metis hd_append2)
qed

lemma strip_idem [simp]: "strip (strip s) = strip s"
proof (cases "strip s = []")
  case False
  then have "lstrip s \<noteq> []" by (auto simp: strip_def rstrip_def)
  moreover from False have "hd (strip s) = hd (lstrip s)" "\<not> is_space (last (strip s))"
    by (simp_all add: strip_def hd_rstrip last_rstrip)
  ultimately show ?thesis using False lstrip_hd [of s] by (intro strip_id) auto
qed (simp add: strip_def [of "[]"] lstrip_def rstrip_def)

lemma contains_append_left [intro]: "contains sub s \<Longrightarrow> contains sub (t @ s)"
  by (induction t) auto

lemma contains_startswith: "startswith s sub \<Longrightarrow> contains sub s"
  by (cases s) (auto simp: startswith_def)

lemma contains_iff: "contains sub s \<longleftrightarrow> (\<exists>pre post. s = pre @ sub @ post)"
proof
  show "contains sub s \<Longrightarrow> \<exists>pre post. s = pre @ sub @ post"
  proof (induction s)
    case (Cons c cs)
    show ?case
    proof (cases "startswith (c # cs) sub")
      case True
      then have "c # cs = [] @ sub @ drop (length sub) (c # cs)"
        by (metis append_Nil append_take_drop_id startswith_def)
      then show ?thesis by blast
    next
      case False
      with Cons obtain pre post where "cs = pre @ sub @ post" by auto
      then have "c # cs = (c # pre) @ sub @ post" by simp
      then show ?thesis by blast
    qed
  qed simp
next
  assume "\<exists>pre post. s = pre @ sub @ post"
  then obtain pre post where s: "s = pre @ sub @ post" by blast
  have "contains sub (sub @ post)" by (rule contains_startswith) simp
  with s show "contains sub s" by (simp add: contains_append_left)
qed

subsection \<open>Printing and reading numbers\<close>

lemma digit_char_facts:
  assumes "d < 10"
  shows digit_char_is_digit: "is_digit (digit_char d)"
    and digit_val_digit_char: "digit_val (digit_char d) = Some d"
proof -
  have "list_all (\<lambda>d. is_digit (digit_char d) \<and> digit_val (digit_char d) = Some d) [0..<10]"
    by code_simp
  with assms show "is_digit (digit_char d)" "digit_val (digit_char d) = Some d"
    by (simp_all add: list_all_iff)
qed

lemma show_nat_digits: "list_all is_digit (show_nat n)"
proof (induction n rule: show_nat.induct)
  case (1 n)
  then show ?case
    by (subst show_nat.simps) (auto simp: digit_char_is_digit)
qed

lemma show_nat_nonempty [simp]: "show_nat n \<noteq> []"
  by (subst show_nat.simps) simp

lemma isdigit_show_nat [simp]: "isdigit (show_nat n)"
  by (simp add: isdigit_def show_nat_digits)

lemma read_digits_append:
  "read_digits b acc (s @ t) = Option.bind (read_digits b acc s) (\<lambda>a. read_digits b a t)"
  by (induction s arbitrary: acc) (auto split: option.splits)

lemma read_digits_show_nat: "read_digits 10 0 (show_nat n) = Some n"
proof (induction n rule: show_nat.induct)
  case (1 n)
  show ?case
  proof (cases "n < 10")
    case True
    then show ?thesis by (subst show_nat.simps) (simp add: digit_val_digit_char)
  next
    case False
    with 1 have "read_digits 10 0 (show_nat (n div 10)) = Some (n div 10)" by simp
    with False show ?thesis
      by (subst show_nat.simps) (simp add: read_digits_append digit_val_digit_char)
  qed
qed

lemma nat_of_digits_show_nat [simp]: "nat_of_digits (show_nat n) = int n"
  by (simp add: nat_of_digits_def read_digits_show_nat)

lemma show_int_nonneg: "0 \<le> i \<Longrightarrow> show_int i = show_nat (nat i)"
  by (simp add: show_int_def)

lemma isdigit_show_int: "0 \<le> i \<Longrightarrow> isdigit (show_int i)"
  by (simp add: show_int_nonneg)

lemma nat_of_digits_show_int: "0 \<le> i \<Longrightarrow> nat_of_digits (show_int i) = i"
  by (simp add: show_int_nonneg)

lemma digits_not_space: "isdigit s \<Longrightarrow> c \<in> set s \<Longrightarrow> \<not> is_space c"
  using is_digit_not_space by (auto simp: isdigit_def list_all_iff)

lemma nat_of_digits_nonneg: "0 \<le> nat_of_digits s"
  by (simp add: nat_of_digits_def split: option.splits)

section \<open>Facts about lists\<close>

text \<open>Keeping the last \<open>n\<close> of a list and adding one is keeping the last \<open>n\<close> of the whole.\<close>

lemma keep_last_snoc:
  assumes "1 \<le> n"
  shows "drop (length (drop (length xs - n) xs @ [e]) - n) (drop (length xs - n) xs @ [e])
       = drop (length (xs @ [e]) - n) (xs @ [e])"
proof (cases "length xs < n")
  case False
  then have "length (drop (length xs - n) xs @ [e]) - n = 1" using assms by simp
  with False assms show ?thesis by (simp add: Suc_diff_le)
qed simp

end
