(* ===== verification/Text_Match.thy ===== *)
theory Text_Match
  imports Gdb_Prelude
begin

text \<open>
  The regular expressions of the session layer, as matchers: a matcher looks at the front of
  a text and gives what it captured together with the text behind the match. \<open>finditer\<close> and
  \<open>search\<close> of the library are built on a matcher.
\<close>

type_synonym 'a matcher = "string \<Rightarrow> ('a \<times> string) option"

text \<open>\<open>finditer\<close> of an expression that never matches the empty string: all matches from left to
  right, each search going on after the previous match.\<close>

function finditer :: "'a matcher \<Rightarrow> string \<Rightarrow> 'a list" where
  "finditer m [] = []"
| "finditer m (c # cs) =
     (case m (c # cs) of
        None \<Rightarrow> finditer m cs
      | Some (x, rest) \<Rightarrow> x # finditer m (if length rest \<le> length cs then rest else cs))"
  by pat_completeness auto
termination
  by (relation "measure (\<lambda>(m, s). length s)") auto

text \<open>\<open>search\<close>: the leftmost match.\<close>

fun search :: "'a matcher \<Rightarrow> string \<Rightarrow> 'a option" where
  "search m [] = map_option fst (m [])"
| "search m (c # cs) = (case m (c # cs) of Some (x, _) \<Rightarrow> Some x | None \<Rightarrow> search m cs)"

text \<open>A literal, and a literal without regard to case: the text after it.\<close>

definition eat :: "string \<Rightarrow> string \<Rightarrow> string option" where
  "eat lit s = (if startswith s lit then Some (drop (length lit) s) else None)"

definition eat_nocase :: "string \<Rightarrow> string \<Rightarrow> string option" where
  "eat_nocase lit s =
     (if startswith (lower s) (lower lit) then Some (drop (length lit) s) else None)"

text \<open>\<open>\s+\<close>, and \<open>\d+\<close> with its digits.\<close>

definition eat_spaces :: "string \<Rightarrow> string option" where
  "eat_spaces s = (if s \<noteq> [] \<and> is_space (hd s) then Some (lstrip s) else None)"

definition match_digits :: "string matcher" where
  "match_digits s =
     (if s \<noteq> [] \<and> is_digit (hd s) then Some (takeWhile is_digit s, dropWhile is_digit s) else None)"

section \<open>Facts about matchers\<close>

lemma eat_append [simp]: "eat lit (lit @ s) = Some s"
  by (simp add: eat_def)

lemma eat_nocase_append [simp]: "eat_nocase lit (lit @ s) = Some s"
  by (simp add: eat_nocase_def)

lemma eat_nocase_first:
  "c \<noteq> [] \<Longrightarrow> lit \<noteq> [] \<Longrightarrow> to_lower (hd c) \<noteq> to_lower (hd lit) \<Longrightarrow> eat_nocase lit c = None"
  by (cases c; cases lit) (auto simp: eat_nocase_def)

lemma eat_spaces_blank [simp]: "eat_spaces (CHR '' '' # s) = Some (lstrip s)"
  by (simp add: eat_spaces_def is_space_def lstrip_def)

lemma match_digits_show_nat:
  "s = [] \<or> \<not> is_digit (hd s) \<Longrightarrow> match_digits (show_nat n @ s) = Some (show_nat n, s)"
  using show_nat_digits [of n] show_nat_nonempty [of n]
  by (cases s) (auto simp: match_digits_def list_all_iff takeWhile_append dropWhile_append)

text \<open>Text in which no position matches is skipped.\<close>

lemma finditer_skip:
  assumes "\<And>p q. u = p @ q \<Longrightarrow> q \<noteq> [] \<Longrightarrow> m (q @ s) = None"
  shows "finditer m (u @ s) = finditer m s"
  using assms
proof (induction u)
  case (Cons c u)
  have "m (c # u @ s) = None" using Cons.prems [of "[]" "c # u"] by simp
  moreover have "finditer m (u @ s) = finditer m s"
    using Cons.prems by (intro Cons.IH) (metis append_Cons)
  ultimately show ?case by simp
qed simp

lemma finditer_hit:
  "m (u @ s) = Some (x, s) \<Longrightarrow> u \<noteq> [] \<Longrightarrow> finditer m (u @ s) = x # finditer m s"
  by (cases u) auto

lemma search_skip:
  assumes "\<And>p q. u = p @ q \<Longrightarrow> q \<noteq> [] \<Longrightarrow> m (q @ s) = None"
  shows "search m (u @ s) = search m s"
  using assms
proof (induction u)
  case (Cons c u)
  have "m (c # u @ s) = None" using Cons.prems [of "[]" "c # u"] by simp
  moreover have "search m (u @ s) = search m s"
    using Cons.prems by (intro Cons.IH) (metis append_Cons)
  ultimately show ?case by simp
qed simp

lemma search_hit: "m s = Some (x, r) \<Longrightarrow> search m s = Some x"
  by (cases s) auto

end
