(* ===== verification/Domain.thy ===== *)
theory Domain
  imports Gdb_Prelude
begin

text \<open>
  The domain layer: execution states and typed payload records (\<open>domain/models.py\<close>), the
  narrowing of untrusted GDB/MI values (\<open>domain/parsing.py\<close>) and the adapters that build
  typed records from raw payloads (\<open>domain/adapters.py\<close>).
\<close>

section \<open>Data\<close>

datatype ExecutionState = Unknown | NotStarted | Running | Paused | Exited

definition exec_state_text :: "ExecutionState \<Rightarrow> string" where
  "exec_state_text e =
     (case e of Unknown \<Rightarrow> ''unknown'' | NotStarted \<Rightarrow> ''not_started'' | Running \<Rightarrow> ''running''
      | Paused \<Rightarrow> ''paused'' | Exited \<Rightarrow> ''exited'')"

datatype FollowForkMode = Parent | Child

definition fork_mode_text :: "FollowForkMode \<Rightarrow> string" where
  "fork_mode_text m = (case m of Parent \<Rightarrow> ''parent'' | Child \<Rightarrow> ''child'')"

text \<open>GDB records are open mappings.\<close>

type_synonym gdb_record = pydict

record InferiorStateRecord =
  isr_inferior_id :: int
  isr_is_current :: bool
  isr_execution_state :: ExecutionState
  isr_stop_reason :: "string option"
  isr_exit_code :: "int option"

record InferiorRecord =
  ir_inferior_id :: int
  ir_is_current :: bool
  ir_display :: string
  ir_description :: "string option"
  ir_connection :: "string option"
  ir_executable :: "string option"

record InferiorListInfo =
  ili_inferiors :: "InferiorRecord list"
  ili_count :: int
  ili_current_inferior_id :: "int option"

record StopEvent =
  sev_execution_state :: ExecutionState
  sev_reason :: "string option"
  sev_command :: "string option"
  sev_inferior_id :: "int option"
  sev_thread_id :: "int option"
  sev_frame :: "gdb_record option"
  sev_signal_name :: "string option"
  sev_signal_meaning :: "string option"
  sev_breakpoint_number :: "string option"
  sev_exit_code :: "int option"
  sev_timestamp :: "nat option"
  sev_details :: pydict

record CommandTranscriptEntry =
  cte_command :: string
  cte_sent_command :: "string option"
  cte_status :: string
  cte_result_class :: "string option"
  cte_timed_out :: bool
  cte_fatal :: bool
  cte_error :: "string option"
  cte_execution_state :: "ExecutionState option"
  cte_stop_reason :: "string option"
  cte_timestamp :: "nat option"

record CommandExecutionInfo =
  cei_command :: string
  cei_output :: "string option"
  cei_result :: "pydict option"

record ThreadListInfo =
  tli_threads :: "gdb_record list"
  tli_current_thread_id :: "string option"
  tli_count :: int

record ThreadSelectionInfo =
  tsi_thread_id :: int
  tsi_new_thread_id :: "string option"
  tsi_frame :: "gdb_record option"

record BacktraceInfo =
  bti_thread_id :: "int option"
  bti_frames :: "gdb_record list"
  bti_count :: int

record FrameInfo =
  fri_frame :: "gdb_record option"

record FrameSelectionInfo =
  fsi_frame_number :: int
  fsi_frame :: "gdb_record option"
  fsi_message :: "string option"

record VariablesInfo =
  vri_thread_id :: "int option"
  vri_frame :: int
  vri_variables :: "gdb_record list"

record RegistersInfo =
  rgi_registers :: "gdb_record list"

record BreakpointListInfo =
  bli_breakpoints :: "gdb_record list"
  bli_count :: int

section \<open>Narrowing of untrusted values\<close>

definition as_mapping :: "pyv \<Rightarrow> pydict" where
  "as_mapping v = (case v of PDict d \<Rightarrow> d | _ \<Rightarrow> [])"

definition as_optional_mapping :: "pyv \<Rightarrow> pydict option" where
  "as_optional_mapping v = (case v of PDict d \<Rightarrow> Some d | _ \<Rightarrow> None)"

definition as_record_list :: "pyv \<Rightarrow> pydict list" where
  "as_record_list v =
     (case v of PList xs \<Rightarrow> List.map_filter as_optional_mapping xs | _ \<Rightarrow> [])"

definition as_text :: "pyv \<Rightarrow> string option" where
  "as_text v = (case v of PStr s \<Rightarrow> Some s | _ \<Rightarrow> None)"

text \<open>\<open>bool\<close> is a subclass of \<open>int\<close>, so a truth value is rendered as Python prints it.\<close>

definition as_text_or_number :: "pyv \<Rightarrow> string option" where
  "as_text_or_number v =
     (case v of
        PStr s \<Rightarrow> Some s
      | PInt i \<Rightarrow> Some (show_int i)
      | PBool b \<Rightarrow> Some (if b then ''True'' else ''False'')
      | _ \<Rightarrow> None)"

definition as_int :: "pyv \<Rightarrow> int option" where
  "as_int v =
     (case v of
        PInt i \<Rightarrow> Some i
      | PBool b \<Rightarrow> Some (if b then 1 else 0)
      | PStr s \<Rightarrow> (if isdigit s then Some (nat_of_digits s) else None)
      | _ \<Rightarrow> None)"

definition all_execution_states :: "ExecutionState list" where
  "all_execution_states = [Unknown, NotStarted, Running, Paused, Exited]"

definition as_execution_state :: "pyv \<Rightarrow> ExecutionState option" where
  "as_execution_state v =
     (case as_text v of
        None \<Rightarrow> None
      | Some t \<Rightarrow> List.find (\<lambda>e. exec_state_text e = t) all_execution_states)"

section \<open>Adapters\<close>

definition string_field :: "pyv \<Rightarrow> string \<Rightarrow> string option" where
  "string_field payload key = as_text (dget (as_mapping payload) key)"

definition thread_records :: "pyv \<Rightarrow> gdb_record list" where
  "thread_records payload = as_record_list (dget (as_mapping payload) ''threads'')"

definition frame_records :: "pyv \<Rightarrow> gdb_record list" where
  "frame_records payload = as_record_list (dget (as_mapping payload) ''stack'')"

definition breakpoint_record :: "pyv \<Rightarrow> gdb_record" where
  "breakpoint_record payload =
     (let raw_mapping = as_mapping payload
      in as_mapping (dget_default raw_mapping ''bkpt'' (PDict raw_mapping)))"

definition breakpoint_records :: "pyv \<Rightarrow> gdb_record list" where
  "breakpoint_records payload =
     (let breakpoint_table = as_mapping (dget (as_mapping payload) ''BreakpointTable'')
      in as_record_list (dget breakpoint_table ''body''))"

definition variable_records :: "pyv \<Rightarrow> gdb_record list" where
  "variable_records payload = as_record_list (dget (as_mapping payload) ''variables'')"

definition register_records :: "pyv \<Rightarrow> gdb_record list" where
  "register_records payload = as_record_list (dget (as_mapping payload) ''register-values'')"

definition memory_block_records :: "pyv \<Rightarrow> gdb_record list" where
  "memory_block_records payload = as_record_list (dget (as_mapping payload) ''memory'')"

definition thread_list_info_from_payload :: "pyv \<Rightarrow> ThreadListInfo" where
  "thread_list_info_from_payload payload =
     (let threads = thread_records payload
      in \<lparr>tli_threads = threads,
          tli_current_thread_id = string_field payload ''current-thread-id'',
          tli_count = int (length threads)\<rparr>)"

definition thread_selection_info_from_payload :: "int \<Rightarrow> pyv \<Rightarrow> ThreadSelectionInfo" where
  "thread_selection_info_from_payload thread_id payload =
     \<lparr>tsi_thread_id = thread_id,
      tsi_new_thread_id = string_field payload ''new-thread-id'',
      tsi_frame = as_optional_mapping (dget (as_mapping payload) ''frame'')\<rparr>"

definition backtrace_info_from_payload :: "int option \<Rightarrow> pyv \<Rightarrow> BacktraceInfo" where
  "backtrace_info_from_payload thread_id payload =
     (let frames = frame_records payload
      in \<lparr>bti_thread_id = thread_id, bti_frames = frames, bti_count = int (length frames)\<rparr>)"

definition frame_info_from_payload :: "pyv \<Rightarrow> FrameInfo" where
  "frame_info_from_payload payload =
     \<lparr>fri_frame = as_optional_mapping (dget (as_mapping payload) ''frame'')\<rparr>"

definition frame_selection_info_from_payload :: "int \<Rightarrow> pyv \<Rightarrow> FrameSelectionInfo" where
  "frame_selection_info_from_payload frame_number payload =
     \<lparr>fsi_frame_number = frame_number,
      fsi_frame = as_optional_mapping (dget (as_mapping payload) ''frame''),
      fsi_message = None\<rparr>"

definition variables_info_from_payload :: "int option \<Rightarrow> int \<Rightarrow> pyv \<Rightarrow> VariablesInfo" where
  "variables_info_from_payload thread_id frame payload =
     \<lparr>vri_thread_id = thread_id, vri_frame = frame, vri_variables = variable_records payload\<rparr>"

definition registers_info_from_payload :: "pyv \<Rightarrow> RegistersInfo" where
  "registers_info_from_payload payload = \<lparr>rgi_registers = register_records payload\<rparr>"

definition breakpoint_list_info_from_payload :: "pyv \<Rightarrow> BreakpointListInfo" where
  "breakpoint_list_info_from_payload payload =
     (let breakpoints = breakpoint_records payload
      in \<lparr>bli_breakpoints = breakpoints, bli_count = int (length breakpoints)\<rparr>)"

section \<open>Facts\<close>

lemma as_record_list_members: "r \<in> set (as_record_list (PList xs)) \<longleftrightarrow> PDict r \<in> set xs"
  by (induction xs)
    (auto simp: as_record_list_def List.map_filter_simps as_optional_mapping_def
      split: pyv.splits option.splits)

lemma as_record_list_clean: "as_record_list (PList (map PDict rs)) = rs"
  by (induction rs)
    (simp_all add: as_record_list_def List.map_filter_simps as_optional_mapping_def)

lemma as_int_text_or_number: "0 \<le> i \<Longrightarrow> as_int (opt_str (as_text_or_number (PInt i))) = Some i"
  by (simp add: as_int_def as_text_or_number_def opt_str_def isdigit_show_int
      nat_of_digits_show_int)

lemma as_execution_state_text: "as_execution_state (PStr (exec_state_text e)) = Some e"
  by (cases e)
    (simp_all add: as_execution_state_def as_text_def all_execution_states_def
      exec_state_text_def)

lemma breakpoint_record_wrapped: "breakpoint_record (PDict ((''bkpt'', PDict b) # d)) = b"
  by (simp add: breakpoint_record_def as_mapping_def)

lemma breakpoint_record_bare: "\<not> dhas b ''bkpt'' \<Longrightarrow> breakpoint_record (PDict b) = b"
  by (simp add: breakpoint_record_def as_mapping_def dget_default_def dhas_def)

end
