(* ===== verification/Exec_Monad.thy ===== *)
theory Exec_Monad
  imports Gdb_Prelude
begin

text \<open>
  Python exceptions, and the state monad with exceptions in which the stateful operations
  of the program are written: an operation maps a state to the value it returns or the
  exception it raises, together with the state it leaves behind in either case. The second
  half is a calculus of triples with one postcondition for returning and one for raising.
\<close>

section \<open>Exceptions\<close>

datatype exn_class =
    OSError | BrokenPipeError | RuntimeError | TypeError | AttributeError | ValueError | EndpointError | OtherError

text \<open>An exception and its text, \<open>str(exc)\<close>.\<close>

datatype exn = Exn (exn_class: exn_class) (exn_text: string)

text \<open>\<open>except (BrokenPipeError, OSError)\<close>.\<close>

definition is_os_error :: "exn \<Rightarrow> bool" where
  "is_os_error e = (exn_class e \<in> {OSError, BrokenPipeError})"

section \<open>Operations\<close>

type_synonym ('s, 'a) exec = "'s \<Rightarrow> (exn + 'a) \<times> 's"

definition ret :: "'a \<Rightarrow> ('s, 'a) exec" where
  "ret x = (\<lambda>s. (Inr x, s))"

definition throw :: "exn \<Rightarrow> ('s, 'a) exec" where
  "throw e = (\<lambda>s. (Inl e, s))"

definition bindE :: "('s, 'a) exec \<Rightarrow> ('a \<Rightarrow> ('s, 'b) exec) \<Rightarrow> ('s, 'b) exec" where
  "bindE m f = (\<lambda>s. case m s of (Inl e, s') \<Rightarrow> (Inl e, s') | (Inr x, s') \<Rightarrow> f x s')"

definition thenE :: "('s, 'a) exec \<Rightarrow> ('s, 'b) exec \<Rightarrow> ('s, 'b) exec" where
  "thenE m k = bindE m (\<lambda>_. k)"

definition gets :: "('s \<Rightarrow> 'a) \<Rightarrow> ('s, 'a) exec" where
  "gets f = (\<lambda>s. (Inr (f s), s))"

definition modify :: "('s \<Rightarrow> 's) \<Rightarrow> ('s, unit) exec" where
  "modify f = (\<lambda>s. (Inr (), f s))"

text \<open>\<open>try: m except Exception as exc: h exc\<close>.\<close>

definition catchE :: "('s, 'a) exec \<Rightarrow> (exn \<Rightarrow> ('s, 'a) exec) \<Rightarrow> ('s, 'a) exec" where
  "catchE m h = (\<lambda>s. case m s of (Inl e, s') \<Rightarrow> h e s' | (Inr x, s') \<Rightarrow> (Inr x, s'))"

text \<open>A value or the exception of the function that computed it.\<close>

definition from_sum :: "exn + 'a \<Rightarrow> ('s, 'a) exec" where
  "from_sum r = (\<lambda>s. (r, s))"

text \<open>An operation on one component of a larger state.\<close>

definition zoom :: "('s \<Rightarrow> 't) \<Rightarrow> (('t \<Rightarrow> 't) \<Rightarrow> 's \<Rightarrow> 's) \<Rightarrow> ('t, 'a) exec \<Rightarrow> ('s, 'a) exec" where
  "zoom sel upd m = (\<lambda>s. case m (sel s) of (r, t) \<Rightarrow> (r, upd (\<lambda>_. t) s))"

lemmas exec_defs = ret_def throw_def bindE_def thenE_def gets_def modify_def catchE_def zoom_def

declare exec_defs [exec_simps]

text \<open>The monad laws.\<close>

lemma bindE_ret_left: "bindE (ret x) f = f x"
  by (simp add: exec_defs)

lemma bindE_ret_right: "bindE m ret = m"
  by (auto simp: exec_defs fun_eq_iff split: prod.splits sum.splits)

lemma bindE_assoc: "bindE (bindE m f) g = bindE m (\<lambda>x. bindE (f x) g)"
  by (auto simp: exec_defs fun_eq_iff split: prod.splits sum.splits)

lemma bindE_throw: "bindE (throw e) f = throw e"
  by (simp add: exec_defs)

text \<open>Running one step of a sequence.\<close>

lemma bindE_gets: "bindE (gets g) f s = f (g s) s"
  by (simp add: exec_defs)

lemma bindE_modify: "bindE (modify g) f s = f () (g s)"
  by (simp add: exec_defs)

lemma thenE_modify: "thenE (modify g) k s = k (g s)"
  by (simp add: exec_defs)

lemma bindE_step: "m s = (Inr x, s') \<Longrightarrow> bindE m f s = f x s'"
  by (simp add: exec_defs)

lemma thenE_step: "m s = (Inr x, s') \<Longrightarrow> thenE m k s = k s'"
  by (simp add: exec_defs)

lemma bindE_raise: "m s = (Inl e, s') \<Longrightarrow> bindE m f s = (Inl e, s')"
  by (simp add: exec_defs)

lemma bindE_InrE:
  assumes "bindE m f s = (Inr y, s2)"
  obtains x s1 where "m s = (Inr x, s1)" "f x s1 = (Inr y, s2)"
  using assms by (auto simp: bindE_def split: prod.splits sum.splits)

lemma thenE_InrE:
  assumes "thenE m k s = (Inr y, s2)"
  obtains x s1 where "m s = (Inr x, s1)" "k s1 = (Inr y, s2)"
  using assms unfolding thenE_def by (rule bindE_InrE)

section \<open>Triples\<close>

definition hoare ::
  "('s \<Rightarrow> bool) \<Rightarrow> ('s, 'a) exec \<Rightarrow> ('a \<Rightarrow> 's \<Rightarrow> bool) \<Rightarrow> (exn \<Rightarrow> 's \<Rightarrow> bool) \<Rightarrow> bool" where
  "hoare P m Q E \<longleftrightarrow>
     (\<forall>s. P s \<longrightarrow> (case m s of (Inr x, s') \<Rightarrow> Q x s' | (Inl e, s') \<Rightarrow> E e s'))"

text \<open>An operation keeps a state predicate, whether it returns or raises.\<close>

definition pres :: "('s \<Rightarrow> bool) \<Rightarrow> ('s, 'a) exec \<Rightarrow> bool" where
  "pres I m \<longleftrightarrow> (\<forall>s. I s \<longrightarrow> I (snd (m s)))"

lemma hoareI:
  assumes "\<And>s x s'. P s \<Longrightarrow> m s = (Inr x, s') \<Longrightarrow> Q x s'"
    and "\<And>s e s'. P s \<Longrightarrow> m s = (Inl e, s') \<Longrightarrow> E e s'"
  shows "hoare P m Q E"
  using assms unfolding hoare_def by (fastforce split: prod.splits sum.splits)

lemma hoare_retD: "hoare P m Q E \<Longrightarrow> P s \<Longrightarrow> m s = (Inr x, s') \<Longrightarrow> Q x s'"
  unfolding hoare_def by fastforce

lemma hoare_throwD: "hoare P m Q E \<Longrightarrow> P s \<Longrightarrow> m s = (Inl e, s') \<Longrightarrow> E e s'"
  unfolding hoare_def by fastforce

lemma pres_hoare: "pres I m \<longleftrightarrow> hoare I m (\<lambda>_. I) (\<lambda>_. I)"
  unfolding pres_def hoare_def by (fastforce split: prod.splits sum.splits)

lemma presD: "pres I m \<Longrightarrow> I s \<Longrightarrow> m s = (r, s') \<Longrightarrow> I s'"
  unfolding pres_def by (metis snd_conv)

lemma hoare_bind:
  "hoare P m R E \<Longrightarrow> (\<And>x. hoare (R x) (f x) Q E) \<Longrightarrow> hoare P (bindE m f) Q E"
  unfolding hoare_def bindE_def by (fastforce split: prod.splits sum.splits)

lemma hoare_then: "hoare P m (\<lambda>_. R) E \<Longrightarrow> hoare R k Q E \<Longrightarrow> hoare P (thenE m k) Q E"
  unfolding thenE_def by (rule hoare_bind)

lemma hoare_catch:
  "hoare P m Q R \<Longrightarrow> (\<And>e. hoare (R e) (h e) Q E) \<Longrightarrow> hoare P (catchE m h) Q E"
  unfolding hoare_def catchE_def by (fastforce split: prod.splits sum.splits)

lemma hoare_weaken:
  "hoare P' m Q' E' \<Longrightarrow> (\<And>s. P s \<Longrightarrow> P' s) \<Longrightarrow> (\<And>x s. Q' x s \<Longrightarrow> Q x s) \<Longrightarrow>
   (\<And>e s. E' e s \<Longrightarrow> E e s) \<Longrightarrow> hoare P m Q E"
  unfolding hoare_def by (fastforce split: prod.splits sum.splits)

lemma hoare_ret: "(\<And>s. P s \<Longrightarrow> Q x s) \<Longrightarrow> hoare P (ret x) Q E"
  by (simp add: hoare_def ret_def)

lemma hoare_throw: "(\<And>s. P s \<Longrightarrow> E e s) \<Longrightarrow> hoare P (throw e) Q E"
  by (simp add: hoare_def throw_def)

lemma hoare_gets: "(\<And>s. P s \<Longrightarrow> Q (f s) s) \<Longrightarrow> hoare P (gets f) Q E"
  by (simp add: hoare_def gets_def)

lemma hoare_modify: "(\<And>s. P s \<Longrightarrow> Q () (f s)) \<Longrightarrow> hoare P (modify f) Q E"
  by (simp add: hoare_def modify_def)

lemma hoare_if:
  "(c \<Longrightarrow> hoare P a Q E) \<Longrightarrow> (\<not> c \<Longrightarrow> hoare P b Q E) \<Longrightarrow> hoare P (if c then a else b) Q E"
  by simp

section \<open>Invariants of operations\<close>

lemma pres_ret [pres_intros]: "pres I (ret x)"
  by (simp add: pres_def ret_def)

lemma pres_throw [pres_intros]: "pres I (throw e)"
  by (simp add: pres_def throw_def)

lemma pres_gets [pres_intros]: "pres I (gets f)"
  by (simp add: pres_def gets_def)

lemma pres_modify: "(\<And>s. I s \<Longrightarrow> I (f s)) \<Longrightarrow> pres I (modify f)"
  by (simp add: pres_def modify_def)

lemma pres_bind [pres_intros]: "pres I m \<Longrightarrow> (\<And>x. pres I (f x)) \<Longrightarrow> pres I (bindE m f)"
  unfolding pres_def bindE_def by (fastforce split: prod.splits sum.splits)

lemma pres_then [pres_intros]: "pres I m \<Longrightarrow> pres I k \<Longrightarrow> pres I (thenE m k)"
  unfolding thenE_def by (rule pres_bind)

lemma pres_catch [pres_intros]: "pres I m \<Longrightarrow> (\<And>e. pres I (h e)) \<Longrightarrow> pres I (catchE m h)"
  unfolding pres_def catchE_def by (fastforce split: prod.splits sum.splits)

lemma pres_if [pres_intros]:
  "(c \<Longrightarrow> pres I a) \<Longrightarrow> (\<not> c \<Longrightarrow> pres I b) \<Longrightarrow> pres I (if c then a else b)"
  by simp

lemma pres_case_option [pres_intros]:
  "pres I a \<Longrightarrow> (\<And>x. pres I (b x)) \<Longrightarrow> pres I (case v of None \<Rightarrow> a | Some x \<Rightarrow> b x)"
  by (cases v) auto

lemma pres_case_sum [pres_intros]:
  "(\<And>x. pres I (a x)) \<Longrightarrow> (\<And>x. pres I (b x)) \<Longrightarrow> pres I (case v of Inl x \<Rightarrow> a x | Inr x \<Rightarrow> b x)"
  by (cases v) auto

lemma pres_case_prod [pres_intros]:
  "(\<And>x y. pres I (a x y)) \<Longrightarrow> pres I (case v of (x, y) \<Rightarrow> a x y)"
  by (cases v) auto

lemma pres_let [pres_intros]: "(\<And>x. pres I (f x)) \<Longrightarrow> pres I (let x = t in f x)"
  by simp

lemma pres_from_sum [pres_intros]: "pres I (from_sum r)"
  by (simp add: from_sum_def pres_def)

lemma pres_zoom: "(\<And>s t. I s \<Longrightarrow> I (upd (\<lambda>_. t) s)) \<Longrightarrow> pres I (zoom sel upd m)"
  by (simp add: pres_def zoom_def split: prod.splits)

lemma pres_conj: "pres I m \<Longrightarrow> pres J m \<Longrightarrow> pres (\<lambda>s. I s \<and> J s) m"
  by (simp add: pres_def)

end
