(* ===== verification/Results.thy ===== *)
theory Results
  imports Domain Exec_Monad
begin

text \<open>
  Internal operation results and their external JSON envelopes (\<open>domain/results.py\<close>).
\<close>

section \<open>Operation results\<close>

datatype OperationError = OpError
  (oe_message: string) (oe_code: string) (oe_fatal: bool) (oe_details: pydict)

datatype 'a OperationResult = Success 'a "string list" | Failure OperationError

text \<open>\<open>OperationError(message=m)\<close> and \<open>OperationError(message=m, fatal=f, details=d)\<close>.\<close>

definition op_error :: "string \<Rightarrow> 'a OperationResult" where
  "op_error m = Failure (OpError m ''error'' False [])"

definition op_error_details :: "string \<Rightarrow> bool \<Rightarrow> pydict \<Rightarrow> 'a OperationResult" where
  "op_error_details m f d = Failure (OpError m ''error'' f d)"

definition op_success :: "'a \<Rightarrow> 'a OperationResult" where
  "op_success v = Success v []"

fun is_failure :: "'a OperationResult \<Rightarrow> bool" where
  "is_failure (Success v ws) = False"
| "is_failure (Failure e) = True"

section \<open>Serialisation\<close>

definition reserved_error_keys :: "string list" where
  "reserved_error_keys = [''status'', ''code'', ''message'', ''fatal'']"

definition error_top_level_detail_keys :: "string list" where
  "error_top_level_detail_keys = [''action'', ''tool'']"

text \<open>
  The serialiser copies mappings and dataclass instances into plain dictionaries and lists
  and tuples into lists; an object with no JSON form raises.
\<close>

fun payload_to_mapping :: "pyv \<Rightarrow> exn + pyv"
  and payload_items :: "pydict \<Rightarrow> pydict \<Rightarrow> exn + pydict"
  and payload_list :: "pyv list \<Rightarrow> exn + pyv list" where
  "payload_to_mapping (PData c fs) =
     (case payload_items [] fs of Inl e \<Rightarrow> Inl e | Inr d \<Rightarrow> Inr (PDict d))"
| "payload_to_mapping (PDict fs) =
     (case payload_items [] fs of Inl e \<Rightarrow> Inl e | Inr d \<Rightarrow> Inr (PDict d))"
| "payload_to_mapping (PList xs) =
     (case payload_list xs of Inl e \<Rightarrow> Inl e | Inr ys \<Rightarrow> Inr (PList ys))"
| "payload_to_mapping (PTuple xs) =
     (case payload_list xs of Inl e \<Rightarrow> Inl e | Inr ys \<Rightarrow> Inr (PList ys))"
| "payload_to_mapping (PStr s) = Inr (PStr s)"
| "payload_to_mapping (PInt i) = Inr (PInt i)"
| "payload_to_mapping (PFloat i) = Inr (PFloat i)"
| "payload_to_mapping (PBool b) = Inr (PBool b)"
| "payload_to_mapping PNone = Inr PNone"
| "payload_to_mapping (POther t) =
     Inl (Exn TypeError (''Value of type '' @ t @ '' is not JSON-serializable''))"
| "payload_items acc [] = Inr acc"
| "payload_items acc ((key, item) # rest) =
     (case payload_to_mapping item of
        Inl e \<Rightarrow> Inl e
      | Inr j \<Rightarrow> payload_items (dset key j acc) rest)"
| "payload_list [] = Inr []"
| "payload_list (x # xs) =
     (case payload_to_mapping x of
        Inl e \<Rightarrow> Inl e
      | Inr j \<Rightarrow> (case payload_list xs of Inl e \<Rightarrow> Inl e | Inr ys \<Rightarrow> Inr (j # ys)))"

text \<open>The loop over the details of an error: two keys go to the top level, reserved ones are
  dropped, the others are nested.\<close>

fun split_error_details :: "pydict \<Rightarrow> pydict \<Rightarrow> pydict \<Rightarrow> pydict \<times> pydict" where
  "split_error_details etop nested [] = (etop, nested)"
| "split_error_details etop nested ((key, value) # rest) =
     (if key \<in> set error_top_level_detail_keys
      then split_error_details (dset key value etop) nested rest
      else if key \<notin> set reserved_error_keys
      then split_error_details etop (dset key value nested) rest
      else split_error_details etop nested rest)"

definition result_to_mapping :: "pyv OperationResult \<Rightarrow> exn + pydict" where
  "result_to_mapping result =
     (case result of
        Success v warnings \<Rightarrow>
          (case payload_to_mapping v of
             Inl e \<Rightarrow> Inl e
           | Inr serialized_value \<Rightarrow>
               (let payload = (case serialized_value of PDict d \<Rightarrow> d
                               | x \<Rightarrow> [(''value'', x)]);
                    payload = (if dhas payload ''status'' then payload
                               else dset ''status'' (PStr ''success'') payload)
                in Inr (if warnings \<noteq> [] \<and> \<not> dhas payload ''warnings''
                        then dset ''warnings'' (PList (map PStr warnings)) payload
                        else payload)))
      | Failure e \<Rightarrow>
          (let error_payload =
                 [(''status'', PStr ''error''), (''code'', PStr (oe_code e)),
                  (''message'', PStr (oe_message e))];
               error_payload = (if oe_fatal e then dset ''fatal'' (PBool True) error_payload
                                else error_payload)
           in case payload_to_mapping (PDict (oe_details e)) of
                Inl x \<Rightarrow> Inl x
              | Inr (PDict details) \<Rightarrow>
                  (case split_error_details error_payload [] details of
                     (etop, nested) \<Rightarrow>
                       Inr (if nested \<noteq> [] then dset ''details'' (PDict nested) etop else etop))
              | Inr _ \<Rightarrow> Inr error_payload))"

text \<open>\<open>CommandExecutionInfo\<close> as the dataclass instance the serialiser sees.\<close>

definition command_info_pyv :: "CommandExecutionInfo \<Rightarrow> pyv" where
  "command_info_pyv i = PData ''CommandExecutionInfo''
     [(''command'', PStr (cei_command i)), (''output'', opt_str (cei_output i)),
      (''result'', case cei_result i of None \<Rightarrow> PNone | Some d \<Rightarrow> PDict d)]"

fun map_result :: "('a \<Rightarrow> 'b) \<Rightarrow> 'a OperationResult \<Rightarrow> 'b OperationResult" where
  "map_result f (Success v ws) = Success (f v) ws"
| "map_result f (Failure e) = Failure e"

section \<open>JSON values\<close>

text \<open>What \<open>json.dumps\<close> accepts: plain scalars, lists, and dictionaries with distinct keys.\<close>

fun is_json :: "pyv \<Rightarrow> bool" where
  "is_json (PList xs) = list_all is_json xs"
| "is_json (PDict d) = (distinct (map fst d) \<and> list_all (\<lambda>p. is_json (snd p)) d)"
| "is_json (PTuple xs) = False"
| "is_json (PData c d) = False"
| "is_json (POther t) = False"
| "is_json v = True"

text \<open>A value that holds, at any depth, an object with no JSON form.\<close>

fun has_opaque :: "pyv \<Rightarrow> bool" where
  "has_opaque (PList xs) = list_ex has_opaque xs"
| "has_opaque (PTuple xs) = list_ex has_opaque xs"
| "has_opaque (PDict d) = list_ex (\<lambda>p. has_opaque (snd p)) d"
| "has_opaque (PData c d) = list_ex (\<lambda>p. has_opaque (snd p)) d"
| "has_opaque (POther t) = True"
| "has_opaque v = False"

section \<open>Facts\<close>

lemma update_snd_all:
  "P v \<Longrightarrow> list_all (\<lambda>p. P (snd p)) d \<Longrightarrow> list_all (\<lambda>p. P (snd p)) (AList.update k v d)"
  by (induction d) auto

lemma payload_json_aux:
  "payload_to_mapping v = Inr j \<Longrightarrow> is_json j"
  "payload_items acc fs = Inr d \<Longrightarrow> distinct (map fst acc) \<Longrightarrow>
     list_all (\<lambda>p. is_json (snd p)) acc \<Longrightarrow>
     distinct (map fst d) \<and> list_all (\<lambda>p. is_json (snd p)) d"
  "payload_list xs = Inr ys \<Longrightarrow> list_all is_json ys"
proof (induction v and acc fs and xs arbitrary: j and d and ys
    rule: payload_to_mapping_payload_items_payload_list.induct)
  case (12 acc key item rest)
  from "12.prems"(1) obtain i where i: "payload_to_mapping item = Inr i"
    and rest: "payload_items (dset key i acc) rest = Inr d" by (auto split: sum.splits)
  from i have "is_json i" by (rule "12.IH"(1))
  with "12.IH"(2) [OF i rest] "12.prems" show ?case
    by (simp add: update_snd_all distinct_update)
qed (auto split: sum.splits)

lemma payload_opaque_aux:
  "isl (payload_to_mapping v) \<longleftrightarrow> has_opaque v"
  "isl (payload_items acc fs) \<longleftrightarrow> list_ex (\<lambda>p. has_opaque (snd p)) fs"
  "isl (payload_list xs) \<longleftrightarrow> list_ex has_opaque xs"
  by (induction v and acc fs and xs rule: payload_to_mapping_payload_items_payload_list.induct)
    (auto split: sum.splits)

lemma update_fresh: "k \<notin> fst ` set acc \<Longrightarrow> AList.update k v acc = acc @ [(k, v)]"
  by (induction acc) auto

lemma payload_id_aux:
  "is_json v \<Longrightarrow> payload_to_mapping v = Inr v"
  "distinct (map fst (acc @ fs)) \<Longrightarrow> list_all (\<lambda>p. is_json (snd p)) fs \<Longrightarrow>
     payload_items acc fs = Inr (acc @ fs)"
  "list_all is_json xs \<Longrightarrow> payload_list xs = Inr xs"
proof (induction v and acc fs and xs rule: payload_to_mapping_payload_items_payload_list.induct)
  case (12 acc key item rest)
  then show ?case by (auto simp: update_fresh)
qed auto

lemma split_error_details_top:
  "split_error_details etop nested d = (etop', nested') \<Longrightarrow> k \<notin> set error_top_level_detail_keys \<Longrightarrow>
   dget etop' k = dget etop k"
  by (induction etop nested d rule: split_error_details.induct) (auto split: if_splits)

lemma split_error_details_nested:
  "split_error_details etop nested d = (etop', nested') \<Longrightarrow> distinct (map fst d) \<Longrightarrow>
   k \<notin> set error_top_level_detail_keys \<Longrightarrow> k \<notin> set reserved_error_keys \<Longrightarrow>
   dget nested' k = (if dhas d k then dget d k else dget nested k)"
  by (induction etop nested d rule: split_error_details.induct)
    (auto split: if_splits simp: dhas_keys image_iff)

text \<open>
  C40. Serialisation is total on values without opaque objects and lands in JSON: it raises
  exactly when the value holds, at some depth, an object with no JSON representation;
  otherwise the result is a plain JSON value, and a value that is already JSON is returned
  unchanged, so that serialising twice changes nothing.
\<close>

theorem payload_to_mapping_correct:
  "(isl (payload_to_mapping v) \<longleftrightarrow> has_opaque v)
   \<and> (\<forall>j. payload_to_mapping v = Inr j \<longrightarrow> is_json j \<and> payload_to_mapping j = Inr j)
   \<and> (is_json v \<longrightarrow> payload_to_mapping v = Inr v)"
  using payload_opaque_aux(1) payload_json_aux(1) payload_id_aux(1) by blast

theorem payload_to_mapping_correct_witness:
  "payload_to_mapping (PData ''D'' [(''a'', PTuple [PInt 1, PNone])])
     = Inr (PDict [(''a'', PList [PInt 1, PNone])])
   \<and> is_json (PDict [(''a'', PList [PInt 1, PNone])])"
  using payload_to_mapping_correct [of "PData ''D'' [(''a'', PTuple [PInt 1, PNone])]"] by simp

text \<open>
  The error envelope cannot be forged by error details: whatever the details hold, the
  envelope's status is ``error'', its code, message and fatal flag are those of the error,
  and every detail key that is neither reserved nor a top-level key is found unchanged
  under ``details''.
\<close>

theorem error_envelope_reserved:
  assumes ok: "result_to_mapping (Failure (OpError m c f d)) = Inr p" and json: "is_json (PDict d)"
  shows "dget p ''status'' = PStr ''error'' \<and> dget p ''code'' = PStr c
     \<and> dget p ''message'' = PStr m \<and> dget p ''fatal'' = (if f then PBool True else PNone)
     \<and> (\<forall>k. k \<notin> set (error_top_level_detail_keys @ reserved_error_keys) \<longrightarrow>
            dget (as_mapping (dget p ''details'')) k = dget d k)"
proof -
  define e0 where "e0 = [(''status'', PStr ''error''), (''code'', PStr c), (''message'', PStr m)]"
  define e1 where "e1 = (if f then dset ''fatal'' (PBool True) e0 else e0)"
  obtain etop nested where sp: "split_error_details e1 [] d = (etop, nested)"
    by (metis surj_pair)
  have "payload_to_mapping (PDict d) = Inr (PDict d)" by (rule payload_id_aux(1) [OF json])
  with ok sp have p: "p = (if nested \<noteq> [] then dset ''details'' (PDict nested) etop else etop)"
    unfolding result_to_mapping_def e1_def e0_def
    by (simp add: Let_def del: payload_to_mapping.simps)
  have keep: "dget etop k = dget e1 k" if "k \<notin> set error_top_level_detail_keys" for k
    using split_error_details_top [OF sp that] .
  have nest: "dget nested k = dget d k"
    if "k \<notin> set (error_top_level_detail_keys @ reserved_error_keys)" for k
    using split_error_details_nested [OF sp, of k] json that
    by (auto simp: dhas_def dget_def split: option.splits)
  have e1: "dget e1 ''status'' = PStr ''error'' \<and> dget e1 ''code'' = PStr c
     \<and> dget e1 ''message'' = PStr m \<and> dget e1 ''fatal'' = (if f then PBool True else PNone)
     \<and> dget e1 ''details'' = PNone"
    by (simp add: e1_def e0_def)
  have keys: "list_all (\<lambda>k. k \<notin> set error_top_level_detail_keys)
      [''status'', ''code'', ''message'', ''fatal'', ''details'']" by code_simp
  have other: "dget p k = dget e1 k"
    if "k \<notin> set error_top_level_detail_keys" "k \<noteq> ''details''" for k
    using keep [OF that(1)] that(2) by (auto simp: p)
  have details: "as_mapping (dget p ''details'') = nested"
    using keep [of "''details''"] keys e1 by (simp add: p as_mapping_def)
  show ?thesis using e1 keys nest by (simp add: other details)
qed

theorem error_envelope_reserved_witness:
  "\<exists>p. result_to_mapping
        (Failure (OpError ''m'' ''error'' True [(''status'', PStr ''success''), (''x'', PInt 1)])) = Inr p
     \<and> dget p ''status'' = PStr ''error'' \<and> dget (as_mapping (dget p ''details'')) ''x'' = PInt 1"
proof -
  let ?d = "[(''status'', PStr ''success''), (''x'', PInt 1)]"
  have json: "is_json (PDict ?d)" by simp
  have "\<not> isl (result_to_mapping (Failure (OpError ''m'' ''error'' True ?d)))" by code_simp
  then obtain p where p: "result_to_mapping (Failure (OpError ''m'' ''error'' True ?d)) = Inr p"
    by (cases "result_to_mapping (Failure (OpError ''m'' ''error'' True ?d))") auto
  from error_envelope_reserved [OF p json] p show ?thesis
    by (intro exI [of _ p]) (auto simp: error_top_level_detail_keys_def reserved_error_keys_def)
qed

end
