(* ===== verification/Mi_Protocol.thy ===== *)
theory Mi_Protocol
  imports Results
begin

text \<open>
  The pure part of the transport: MI command strings (\<open>transport/mi_commands.py\<close>), the
  parsed form of MI records (\<open>transport/mi_models.py\<close>) and the parser that builds it
  (\<open>transport/mi_parser.py\<close>).
\<close>

section \<open>Command strings\<close>

definition is_cli_command :: "string \<Rightarrow> bool" where
  "is_cli_command command = (\<not> startswith (strip command) ''-'')"

definition escape_mi_char :: "char \<Rightarrow> string" where
  "escape_mi_char c =
     (if c = CHR 0x5C then [CHR 0x5C, CHR 0x5C]
      else if c = CHR 0x22 then [CHR 0x5C, CHR 0x22]
      else if c = CHR 0x0A then [CHR 0x5C, CHR ''n'']
      else if c = CHR 0x0D then [CHR 0x5C, CHR ''r'']
      else if c = CHR 0x09 then [CHR 0x5C, CHR ''t'']
      else [c])"

definition escape_mi_string :: "string \<Rightarrow> string" where
  "escape_mi_string value = concat (map escape_mi_char value)"

definition quote_mi_string :: "string \<Rightarrow> string" where
  "quote_mi_string value = [CHR 0x22] @ escape_mi_string value @ [CHR 0x22]"

definition build_evaluate_expression_command :: "string \<Rightarrow> string" where
  "build_evaluate_expression_command expression =
     ''-data-evaluate-expression '' @ quote_mi_string expression"

definition build_exec_arguments_command :: "string list \<Rightarrow> string" where
  "build_exec_arguments_command args =
     (let encoded_args = join '' '' (map quote_mi_string args)
      in if encoded_args \<noteq> [] then ''-exec-arguments '' @ encoded_args else ''-exec-arguments'')"

definition build_read_memory_command :: "string \<Rightarrow> int \<Rightarrow> int \<Rightarrow> string" where
  "build_read_memory_command address count offset =
     (let offset_args = (if offset \<noteq> 0 then ''-o '' @ show_int offset @ '' '' else '''')
      in ''-data-read-memory-bytes '' @ offset_args @ quote_mi_string address @ '' '' @ show_int count)"

definition wrap_cli_command :: "string \<Rightarrow> string" where
  "wrap_cli_command command = ''-interpreter-exec console '' @ quote_mi_string command"

section \<open>Parsed responses\<close>

type_synonym MiRecord = pydict

record MiNotifyRecord =
  mn_message :: "string option"
  mn_payload :: pyv

record ParsedMiResponse =
  pm_console :: "pyv list"
  pm_log :: "pyv list"
  pm_output :: "pyv list"
  pm_result :: pyv
  pm_result_class :: "string option"
  pm_notify :: "MiNotifyRecord list"

definition empty_parsed :: ParsedMiResponse where
  "empty_parsed = \<lparr>pm_console = [], pm_log = [], pm_output = [], pm_result = PNone,
                   pm_result_class = None, pm_notify = []\<rparr>"

definition is_error_result :: "ParsedMiResponse \<Rightarrow> bool" where
  "is_error_result p = (pm_result_class p = Some ''error'')"

text \<open>\<open>"".join(item for item in stream if isinstance(item, str))\<close>.\<close>

definition join_text :: "pyv list \<Rightarrow> string" where
  "join_text items = concat (List.map_filter as_text items)"

definition nonblank_text :: "pyv \<Rightarrow> string option" where
  "nonblank_text v =
     (case v of PStr s \<Rightarrow> (if strip s \<noteq> [] then Some (strip s) else None) | _ \<Rightarrow> None)"

definition nonblank_stream :: "pyv list \<Rightarrow> string option" where
  "nonblank_stream items =
     (let text = strip (join_text items) in if text \<noteq> [] then Some text else None)"

text \<open>The first message found in \<open>msg\<close>, \<open>message\<close>, the console, the log, the target
  output, in that order.\<close>

fun first_some :: "'a option list \<Rightarrow> 'a option" where
  "first_some [] = None"
| "first_some (None # xs) = first_some xs"
| "first_some (Some x # xs) = Some x"

definition error_message :: "ParsedMiResponse \<Rightarrow> string option" where
  "error_message p =
     (if \<not> is_error_result p then None
      else first_some
        ((case pm_result p of
            PDict d \<Rightarrow> [nonblank_text (dget d ''msg''), nonblank_text (dget d ''message'')]
          | _ \<Rightarrow> [])
         @ [nonblank_stream (pm_console p), nonblank_stream (pm_log p),
            nonblank_stream (pm_output p), Some ''GDB returned an error'']))"

definition notify_pyv :: "MiNotifyRecord \<Rightarrow> pyv" where
  "notify_pyv n = PDict [(''message'', opt_str (mn_message n)), (''payload'', mn_payload n)]"

definition parsed_to_dict :: "ParsedMiResponse \<Rightarrow> pydict" where
  "parsed_to_dict p =
     [(''console'', PList (pm_console p)), (''log'', PList (pm_log p)),
      (''output'', PList (pm_output p)), (''result'', pm_result p),
      (''result_class'', opt_str (pm_result_class p)),
      (''notify'', PList (map notify_pyv (pm_notify p)))]"

text \<open>One turn of the parser's loop.\<close>

definition parse_step :: "ParsedMiResponse \<Rightarrow> MiRecord \<Rightarrow> ParsedMiResponse" where
  "parse_step parsed response =
     (let msg_type = dget response ''type''; payload = dget response ''payload'' in
      if msg_type = PStr ''console'' then parsed\<lparr>pm_console := pm_console parsed @ [payload]\<rparr>
      else if msg_type = PStr ''log'' then parsed\<lparr>pm_log := pm_log parsed @ [payload]\<rparr>
      else if msg_type = PStr ''output'' then parsed\<lparr>pm_output := pm_output parsed @ [payload]\<rparr>
      else if msg_type = PStr ''result'' then
        parsed\<lparr>pm_result := payload, pm_result_class := as_text (dget response ''message'')\<rparr>
      else if msg_type = PStr ''notify'' then
        parsed\<lparr>pm_notify := pm_notify parsed @
          [\<lparr>mn_message = as_text (dget response ''message''), mn_payload = payload\<rparr>]\<rparr>
      else parsed)"

definition parse_mi_responses :: "MiRecord list \<Rightarrow> ParsedMiResponse" where
  "parse_mi_responses responses = foldl parse_step empty_parsed responses"

definition extract_mi_result_payload :: "pydict \<Rightarrow> pyv" where
  "extract_mi_result_payload command_result =
     (if dhas command_result ''status'' then
        (if dget command_result ''status'' \<noteq> PStr ''success'' then PNone
         else case dget command_result ''result'' of
                PDict result_container \<Rightarrow> dget result_container ''result''
              | _ \<Rightarrow> PNone)
      else dget command_result ''result'')"

section \<open>Reference reader for MI string arguments\<close>

text \<open>
  How GDB reads a quoted C-string argument: up to the first quote that is not escaped. The
  escapes are the five the server writes; a string is refused when the closing quote is
  missing. This reader is the specification of the quoting, not code of the program.
\<close>

fun read_cstring_body :: "string \<Rightarrow> (string \<times> string) option" where
  "read_cstring_body [] = None"
| "read_cstring_body (c # cs) =
     (if c = CHR 0x22 then Some ([], cs)
      else if c = CHR 0x5C then
        (case cs of
           [] \<Rightarrow> None
         | d # ds \<Rightarrow>
             (let e = (if d = CHR ''n'' then CHR 0x0A else if d = CHR ''r'' then CHR 0x0D
                       else if d = CHR ''t'' then CHR 0x09 else d)
              in map_option (map_prod (Cons e) id) (read_cstring_body ds)))
      else map_option (map_prod (Cons c) id) (read_cstring_body cs))"

fun read_cstring :: "string \<Rightarrow> (string \<times> string) option" where
  "read_cstring [] = None"
| "read_cstring (c # cs) = (if c = CHR 0x22 then read_cstring_body cs else None)"

text \<open>Reading a list of arguments separated by single spaces.\<close>

function read_cstrings :: "string \<Rightarrow> string list option" where
  "read_cstrings s =
     (case read_cstring s of
        None \<Rightarrow> None
      | Some (a, rest) \<Rightarrow>
          (if rest = [] then Some [a]
           else if hd rest = CHR '' '' then map_option (Cons a) (read_cstrings (tl rest))
           else None))"
  by pat_completeness auto

lemma read_cstring_body_shorter: "read_cstring_body s = Some (a, r) \<Longrightarrow> length r < length s"
proof (induction s arbitrary: a r rule: read_cstring_body.induct)
  case (2 c cs)
  show ?case
  proof (cases "c = CHR 0x5C")
    case True
    with "2.prems" obtain d ds a' where cs: "cs = d # ds" "read_cstring_body ds = Some (a', r)"
      by (auto split: list.splits simp: Let_def)
    with True "2.IH"(1) [of d ds _ a' r] show ?thesis by fastforce
  next
    case False
    with "2.prems" "2.IH"(2) show ?thesis by (auto split: if_splits)
  qed
qed simp

lemma read_cstring_shorter: "read_cstring s = Some (a, r) \<Longrightarrow> length r < length s"
  by (cases s) (auto split: if_splits dest: read_cstring_body_shorter)

termination read_cstrings
  by (relation "measure length")
    (auto dest: read_cstring_shorter intro: le_less_trans simp: less_Suc_eq_le)

declare read_cstrings.simps [simp del]

section \<open>Facts\<close>

lemma escape_read_char:
  "read_cstring_body (escape_mi_char c @ rest) =
     map_option (map_prod (Cons c) id) (read_cstring_body rest)"
  by (simp add: escape_mi_char_def)

lemma escape_read_body: "read_cstring_body (escape_mi_string s @ CHR 0x22 # rest) = Some (s, rest)"
proof (induction s)
  case Nil
  show ?case by (simp add: escape_mi_string_def)
next
  case (Cons c s)
  have "escape_mi_string (c # s) = escape_mi_char c @ escape_mi_string s"
    by (simp add: escape_mi_string_def)
  with Cons show ?case by (simp add: escape_read_char)
qed

lemma quote_read: "read_cstring (quote_mi_string s @ rest) = Some (s, rest)"
  by (simp add: quote_mi_string_def escape_read_body)

lemma escape_no_break: "CHR 0x0A \<notin> set (escape_mi_char c) \<and> CHR 0x0D \<notin> set (escape_mi_char c)"
  by (simp add: escape_mi_char_def)

lemma quote_no_break: "CHR 0x0A \<notin> set (quote_mi_string s) \<and> CHR 0x0D \<notin> set (quote_mi_string s)"
  using escape_no_break by (auto simp: quote_mi_string_def escape_mi_string_def)

lemma join_Cons: "xs \<noteq> [] \<Longrightarrow> join sep (x # xs) = x @ sep @ join sep xs"
  by (cases xs) (simp_all add: join_def)

lemma read_cstrings_quoted:
  "args \<noteq> [] \<Longrightarrow> read_cstrings (join '' '' (map quote_mi_string args)) = Some args"
proof (induction args)
  case (Cons a as)
  show ?case
  proof (cases "as = []")
    case True
    then show ?thesis
      using quote_read [of a "[]"] by (subst read_cstrings.simps) (simp add: join_def)
  next
    case False
    with Cons have "read_cstrings (join '' '' (map quote_mi_string as)) = Some as" by simp
    with False show ?thesis by (subst read_cstrings.simps) (simp add: join_Cons quote_read)
  qed
qed simp

lemma parse_append: "parse_mi_responses (xs @ ys) = foldl parse_step (parse_mi_responses xs) ys"
  by (simp add: parse_mi_responses_def)

lemma error_message_None [simp]: "\<not> is_error_result p \<Longrightarrow> error_message p = None"
  by (simp add: error_message_def)

lemma nonblank_text_ne: "nonblank_text v = Some t \<Longrightarrow> t \<noteq> []"
  by (auto simp: nonblank_text_def split: pyv.splits if_splits)

lemma nonblank_stream_ne: "nonblank_stream v = Some t \<Longrightarrow> t \<noteq> []"
  by (auto simp: nonblank_stream_def Let_def split: if_splits)

lemma first_some_mem: "first_some xs = Some x \<Longrightarrow> Some x \<in> set xs"
  by (induction xs rule: first_some.induct) auto

lemma first_some_append:
  "first_some (xs @ ys) = (case first_some xs of None \<Rightarrow> first_some ys | Some x \<Rightarrow> Some x)"
  by (induction xs rule: first_some.induct) auto

lemma foldl_parse_streams:
  "pm_console (foldl parse_step p rs) =
     pm_console p @ [dget r ''payload''. r \<leftarrow> rs, dget r ''type'' = PStr ''console'']"
  "pm_log (foldl parse_step p rs) =
     pm_log p @ [dget r ''payload''. r \<leftarrow> rs, dget r ''type'' = PStr ''log'']"
  "pm_output (foldl parse_step p rs) =
     pm_output p @ [dget r ''payload''. r \<leftarrow> rs, dget r ''type'' = PStr ''output'']"
  "pm_notify (foldl parse_step p rs) =
     pm_notify p @ [\<lparr>mn_message = as_text (dget r ''message''), mn_payload = dget r ''payload''\<rparr>.
                    r \<leftarrow> rs, dget r ''type'' = PStr ''notify'']"
  by (induction rs arbitrary: p; simp add: parse_step_def Let_def)+

lemma foldl_parse_result:
  "(pm_result (foldl parse_step p rs), pm_result_class (foldl parse_step p rs)) =
     (case List.find (\<lambda>r. dget r ''type'' = PStr ''result'') (rev rs) of
        None \<Rightarrow> (pm_result p, pm_result_class p)
      | Some r \<Rightarrow> (dget r ''payload'', as_text (dget r ''message'')))"
  by (induction rs rule: rev_induct) (simp_all add: parse_step_def Let_def)

section \<open>Properties\<close>

text \<open>
  Quoting is injection-safe: an MI argument built by the server is a single line, GDB
  reads it back as exactly the original text, and it reads nothing of what follows the
  argument, whatever characters (quotes, backslashes, line breaks) the text holds.
\<close>

theorem quote_mi_string_roundtrip:
  "read_cstring (quote_mi_string s @ rest) = Some (s, rest)
   \<and> CHR 0x0A \<notin> set (quote_mi_string s) \<and> CHR 0x0D \<notin> set (quote_mi_string s)"
  using quote_read quote_no_break by blast


text \<open>
  C38. The parser is exact: every stream of the parsed response is the payloads of the
  records of that type in arrival order, and result and result class are those of the last
  result record (nothing when there is none). Handing the parsed response on as a
  dictionary and extracting the result payload gives the same payload.
\<close>

theorem parse_mi_responses_exact:
  "pm_console (parse_mi_responses rs) =
     [dget r ''payload''. r \<leftarrow> rs, dget r ''type'' = PStr ''console''] \<and>
   pm_log (parse_mi_responses rs) =
     [dget r ''payload''. r \<leftarrow> rs, dget r ''type'' = PStr ''log''] \<and>
   pm_output (parse_mi_responses rs) =
     [dget r ''payload''. r \<leftarrow> rs, dget r ''type'' = PStr ''output''] \<and>
   pm_notify (parse_mi_responses rs) =
     [\<lparr>mn_message = as_text (dget r ''message''), mn_payload = dget r ''payload''\<rparr>.
        r \<leftarrow> rs, dget r ''type'' = PStr ''notify''] \<and>
   (pm_result (parse_mi_responses rs), pm_result_class (parse_mi_responses rs)) =
     (case List.find (\<lambda>r. dget r ''type'' = PStr ''result'') (rev rs) of
        None \<Rightarrow> (PNone, None)
      | Some r \<Rightarrow> (dget r ''payload'', as_text (dget r ''message''))) \<and>
   extract_mi_result_payload (parsed_to_dict (parse_mi_responses rs)) =
     pm_result (parse_mi_responses rs)"
proof -
  have ext: "extract_mi_result_payload (parsed_to_dict p) = pm_result p" for p
    by (simp add: extract_mi_result_payload_def parsed_to_dict_def)
  show ?thesis
    using ext foldl_parse_result [of empty_parsed rs]
    by (simp add: parse_mi_responses_def foldl_parse_streams empty_parsed_def cong: option.case_cong)
qed

text \<open>
  An error result always has a message to show: the message is present exactly when
  the result class is ``error'', and then it is never empty, so the fall-back text of the
  callers (\<open>error_message() or "GDB returned an error"\<close>) is never needed.
\<close>

theorem error_message_total:
  "(is_error_result p \<longleftrightarrow> error_message p \<noteq> None) \<and> error_message p \<noteq> Some []"
proof -
  let ?xs = "(case pm_result p of
      PDict d \<Rightarrow> [nonblank_text (dget d ''msg''), nonblank_text (dget d ''message'')] | _ \<Rightarrow> [])
     @ [nonblank_stream (pm_console p), nonblank_stream (pm_log p), nonblank_stream (pm_output p)]"
  have ne: "first_some ?xs \<noteq> Some []"
  proof
    assume "first_some ?xs = Some []"
    then have "Some [] \<in> set ?xs" by (rule first_some_mem)
    then show False by (auto split: pyv.splits dest!: sym [of "Some []"] nonblank_text_ne nonblank_stream_ne)
  qed
  have "is_error_result p \<Longrightarrow> error_message p =
      (case first_some ?xs of None \<Rightarrow> Some ''GDB returned an error'' | Some x \<Rightarrow> Some x)"
    using first_some_append [of ?xs "[Some ''GDB returned an error'']"]
    by (simp add: error_message_def cong: option.case_cong)
  with ne show ?thesis by (cases "is_error_result p") (auto split: option.splits)
qed

end
