(* ===== verification/Mi_Client.thy ===== *)
theory Mi_Client
  imports Mi_Protocol
begin

text \<open>
  The transport client (\<open>transport/mi_client.py\<close>): one GDB controller, tokenised commands,
  and the polling loops that collect MI records until a command is complete.

  The debugger, its controller library and the operating system are the client's
  environment. They enter the model as the record \<^verbatim>\<open>world\<close>: a clock in microseconds and
  scripts that say what the successive calls of each outside operation do. A theorem about
  every world is a theorem about every behaviour of the environment. A script that has run
  out stands for the quiet case: a read returns no record after its timeout, a write and an
  exit succeed, the process is running. Every read takes at least one microsecond; code
  between two outside calls takes no time.
\<close>

section \<open>Environment\<close>

datatype read_outcome = Records nat "MiRecord list" | ReadRaises nat exn

text \<open>What \<open>gdb_process.poll()\<close> gives: still running, an exit code, a value that is not an
  integer, or an exception.\<close>

datatype poll_outcome = PollRunning | PollExited int | PollOther | PollRaises

record GdbController =
  ct_process :: "int option"

text \<open>How a debugger is obtained: spawned by an argument vector in a directory, or reached at
  an endpoint.\<close>

datatype launch = Spawn "string list" "string option" | Connect string

record world =
  w_now :: nat
  w_reads :: "read_outcome list"
  w_writes :: "exn option list"
  w_polls :: "poll_outcome list"
  w_exits :: "exn option list"
  w_spawns :: "(exn + GdbController) list"
  w_kills :: "exn option list"
  w_isdir :: "string \<Rightarrow> bool"
  w_environ :: "(string \<times> string) list"
  w_sent :: "string list"
  w_launched :: "launch list"

record MiClient =
  mc_controller :: "GdbController option"
  mc_command_token :: nat
  mc_poll_timeout :: nat
  mc_lock_busy :: bool
  mc_world :: world

abbreviation now :: "MiClient \<Rightarrow> nat" where
  "now c \<equiv> w_now (mc_world c)"

text \<open>The head of a script, or a default, and the script without it.\<close>

fun pop :: "'a \<Rightarrow> 'a list \<Rightarrow> 'a \<times> 'a list" where
  "pop d [] = (d, [])"
| "pop d (x # xs) = (x, xs)"

definition upd_world :: "(world \<Rightarrow> world) \<Rightarrow> MiClient \<Rightarrow> MiClient" where
  "upd_world f c = c\<lparr>mc_world := f (mc_world c)\<rparr>"

definition get_gdb_response :: "nat \<Rightarrow> (MiClient, MiRecord list) exec" where
  "get_gdb_response timeout c =
     (case pop (Records timeout []) (w_reads (mc_world c)) of
        (Records dt rs, rest) \<Rightarrow>
          (Inr rs, upd_world (\<lambda>w. w\<lparr>w_reads := rest, w_now := w_now w + max 1 dt\<rparr>) c)
      | (ReadRaises dt e, rest) \<Rightarrow>
          (Inl e, upd_world (\<lambda>w. w\<lparr>w_reads := rest, w_now := w_now w + max 1 dt\<rparr>) c))"

text \<open>\<open>stdin.write\<close> and \<open>stdin.flush\<close> of one line; a line that was written is remembered.\<close>

definition stdin_write :: "string \<Rightarrow> (MiClient, unit) exec" where
  "stdin_write line c =
     (case pop None (w_writes (mc_world c)) of
        (None, rest) \<Rightarrow>
          (Inr (), upd_world (\<lambda>w. w\<lparr>w_writes := rest, w_sent := w_sent w @ [line]\<rparr>) c)
      | (Some e, rest) \<Rightarrow> (Inl e, upd_world (\<lambda>w. w\<lparr>w_writes := rest\<rparr>) c))"

definition process_poll :: "(MiClient, poll_outcome) exec" where
  "process_poll c =
     (case pop PollRunning (w_polls (mc_world c)) of
        (p, rest) \<Rightarrow> (Inr p, upd_world (\<lambda>w. w\<lparr>w_polls := rest\<rparr>) c))"

definition controller_exit :: "(MiClient, unit) exec" where
  "controller_exit c =
     (case pop None (w_exits (mc_world c)) of
        (None, rest) \<Rightarrow> (Inr (), upd_world (\<lambda>w. w\<lparr>w_exits := rest\<rparr>) c)
      | (Some e, rest) \<Rightarrow> (Inl e, upd_world (\<lambda>w. w\<lparr>w_exits := rest\<rparr>) c))"

text \<open>\<open>os.kill(pid, SIGINT)\<close>.\<close>

definition os_kill :: "(MiClient, unit) exec" where
  "os_kill c =
     (case pop None (w_kills (mc_world c)) of
        (None, rest) \<Rightarrow> (Inr (), upd_world (\<lambda>w. w\<lparr>w_kills := rest\<rparr>) c)
      | (Some e, rest) \<Rightarrow> (Inl e, upd_world (\<lambda>w. w\<lparr>w_kills := rest\<rparr>) c))"

text \<open>The controller factory and \<open>create_external_controller\<close>: a controller or an exception;
  what was asked for is remembered.\<close>

definition spawn_controller :: "launch \<Rightarrow> (MiClient, GdbController) exec" where
  "spawn_controller how c =
     (case pop (Inl (Exn OSError ''no debugger'')) (w_spawns (mc_world c)) of
        (r, rest) \<Rightarrow>
          (r, upd_world (\<lambda>w. w\<lparr>w_spawns := rest, w_launched := w_launched w @ [how]\<rparr>) c))"

section \<open>Responses\<close>

record MiTransportResponse =
  tr_command_responses :: "MiRecord list"
  tr_async_notifications :: "MiRecord list"
  tr_timed_out :: bool
  tr_error :: "string option"
  tr_fatal :: bool

definition empty_response :: MiTransportResponse where
  "empty_response = \<lparr>tr_command_responses = [], tr_async_notifications = [],
                     tr_timed_out = False, tr_error = None, tr_fatal = False\<rparr>"

text \<open>The dictionary view the session layer reads; \<open>error\<close> and \<open>fatal\<close> only when set.\<close>

definition transport_to_dict :: "MiTransportResponse \<Rightarrow> pydict" where
  "transport_to_dict r =
     [(''command_responses'', PList (map PDict (tr_command_responses r))),
      (''async_notifications'', PList (map PDict (tr_async_notifications r))),
      (''timed_out'', PBool (tr_timed_out r))]
     @ (case tr_error r of None \<Rightarrow> [] | Some e \<Rightarrow> [(''error'', PStr e)])
     @ (if tr_fatal r then [(''fatal'', PBool True)] else [])"

definition is_fatal_payload :: "pyv \<Rightarrow> bool" where
  "is_fatal_payload payload =
     (truthy payload \<and>
      (let payload_lower = lower (py_str payload)
       in contains ''internal-error'' payload_lower
          \<or> contains ''fatal error internal to gdb'' payload_lower))"

text \<open>A console or log record whose text says that GDB itself has failed.\<close>

definition is_fatal_record :: "MiRecord \<Rightarrow> bool" where
  "is_fatal_record r =
     (dget r ''type'' \<in> {PStr ''console'', PStr ''log''}
      \<and> is_fatal_payload (dget_default r ''payload'' (PStr '''')))"

definition fatal_text :: "MiRecord \<Rightarrow> string" where
  "fatal_text r =
     ''GDB internal fatal error: '' @ strip (py_str (dget_default r ''payload'' (PStr '''')))"

section \<open>Controller life\<close>

definition exit_unlocked :: "(MiClient, unit) exec" where
  "exit_unlocked c =
     (case mc_controller c of
        None \<Rightarrow> (Inr (), c)
      | Some _ \<Rightarrow> (case controller_exit c of (r, c') \<Rightarrow> (r, c'\<lparr>mc_controller := None\<rparr>)))"

definition mi_exit :: "(MiClient, unit) exec" where
  "mi_exit = exit_unlocked"

definition mi_start :: "string list \<Rightarrow> string option \<Rightarrow> (MiClient, unit) exec" where
  "mi_start command cwd =
     bindE (spawn_controller (Spawn command cwd)) (\<lambda>ctl. modify (\<lambda>c. c\<lparr>mc_controller := Some ctl\<rparr>))"

definition adopt_controller :: "GdbController \<Rightarrow> (MiClient, unit) exec" where
  "adopt_controller ctl = modify (\<lambda>c. c\<lparr>mc_controller := Some ctl\<rparr>)"

definition is_alive_unlocked :: "(MiClient, bool) exec" where
  "is_alive_unlocked =
     bindE (gets mc_controller) (\<lambda>ctl.
       case ctl of
         None \<Rightarrow> ret False
       | Some k \<Rightarrow>
           (case ct_process k of
              None \<Rightarrow> ret True
            | Some _ \<Rightarrow> bindE process_poll (\<lambda>p.
                ret (case p of PollExited _ \<Rightarrow> False | _ \<Rightarrow> True))))"

definition is_alive :: "(MiClient, bool) exec" where
  "is_alive = is_alive_unlocked"

definition extract_exit_code :: "(MiClient, int option) exec" where
  "extract_exit_code =
     bindE (gets mc_controller) (\<lambda>ctl.
       case ctl of
         None \<Rightarrow> ret None
       | Some k \<Rightarrow>
           (case ct_process k of
              None \<Rightarrow> ret None
            | Some _ \<Rightarrow> bindE process_poll (\<lambda>p.
                ret (case p of PollExited code \<Rightarrow> Some code | _ \<Rightarrow> None))))"

text \<open>A read whose communication errors are values; other exceptions go on.\<close>

definition try_read :: "nat \<Rightarrow> (MiClient, exn + MiRecord list) exec" where
  "try_read timeout c =
     (case get_gdb_response timeout c of
        (Inl e, c') \<Rightarrow> (if is_os_error e then (Inr (Inl e), c') else (Inl e, c'))
      | (Inr rs, c') \<Rightarrow> (Inr (Inr rs), c'))"

section \<open>Startup output\<close>

text \<open>Give up on the controller and raise.\<close>

definition exit_and_raise :: "exn \<Rightarrow> (MiClient, 'a) exec" where
  "exit_and_raise e = thenE exit_unlocked (throw e)"

text \<open>One read of the startup loop: the records to add, or \<open>None\<close> when GDB has gone quiet.\<close>

definition startup_turn :: "nat \<Rightarrow> (MiClient, MiRecord list option) exec" where
  "startup_turn poll_timeout =
     bindE (try_read poll_timeout) (\<lambda>outcome.
       case outcome of
         Inl e \<Rightarrow> exit_and_raise
           (Exn RuntimeError (''Communication error while reading startup output: '' @ exn_text e))
       | Inr responses \<Rightarrow>
           if responses = [] then ret None
           else case List.find is_fatal_record responses of
                  Some r \<Rightarrow> exit_and_raise (Exn RuntimeError (fatal_text r))
                | None \<Rightarrow> ret (Some responses))"

lemma get_gdb_response_now: "get_gdb_response t c = (r, c') \<Longrightarrow> now c < now c'"
  by (auto simp: get_gdb_response_def upd_world_def split: prod.splits read_outcome.splits)

lemma try_read_now: "try_read t c = (r, c') \<Longrightarrow> now c < now c'"
  by (auto simp: try_read_def split: prod.splits sum.splits if_splits dest: get_gdb_response_now)

lemma startup_turn_now: "startup_turn t c = (Inr (Some rs), c') \<Longrightarrow> now c < now c'"
  by (auto simp: startup_turn_def exit_and_raise_def exec_defs
      split: prod.splits sum.splits if_splits option.splits dest: try_read_now)

function read_initial_loop :: "nat \<Rightarrow> MiRecord list \<Rightarrow> (MiClient, MiRecord list) exec" where
  "read_initial_loop deadline records c =
     (if mc_controller c \<noteq> None \<and> now c < deadline then
        (let poll_timeout = min (mc_poll_timeout c) (deadline - now c) in
         if poll_timeout = 0 then (Inr records, c)
         else case startup_turn poll_timeout c of
                (Inl e, c') \<Rightarrow> (Inl e, c')
              | (Inr None, c') \<Rightarrow> (Inr records, c')
              | (Inr (Some responses), c') \<Rightarrow> read_initial_loop deadline (records @ responses) c')
      else (Inr records, c))"
  by pat_completeness auto
termination
  by (relation "measure (\<lambda>(deadline, records, c). deadline - now c)")
    (auto dest!: startup_turn_now [OF sym])

declare read_initial_loop.simps [simp del]

definition read_initial_output :: "nat \<Rightarrow> (MiClient, MiRecord list) exec" where
  "read_initial_output timeout c =
     (if mc_controller c = None then (Inr [], c)
      else read_initial_loop (now c + timeout) [] c)"

section \<open>Sending a command\<close>

definition liveness_check_interval :: nat where
  "liveness_check_interval = 1000000"

text \<open>\<open>f"{elapsed:.1f}"\<close> of a time in microseconds, rounding half to even.\<close>

definition fmt_seconds :: "nat \<Rightarrow> string" where
  "fmt_seconds us =
     (let q = us div 100000; r = us mod 100000;
          t = (if 50000 < r \<or> (r = 50000 \<and> odd q) then q + 1 else q)
      in show_nat (t div 10) @ ''.'' @ show_nat (t mod 10))"

definition exit_code_details :: "int option \<Rightarrow> string" where
  "exit_code_details exit_code =
     (case exit_code of
        None \<Rightarrow> ''''
      | Some code \<Rightarrow>
          if code = -9 then '' (exit code -9: killed, likely out of memory)''
          else if code = -6 then '' (exit code -6: aborted, possibly assertion failure)''
          else if code = -11 then '' (exit code -11: segmentation fault)''
          else '' (exit code '' @ show_int code @ '')'')"

text \<open>The local variables of the collecting loop.\<close>

record send_vars =
  sv_command_responses :: "MiRecord list"
  sv_async_notifications :: "MiRecord list"
  sv_last_alive_check :: nat
  sv_saw_result_record :: bool
  sv_saw_stop_after_running :: bool
  sv_result_class :: "string option"

definition init_send_vars :: send_vars where
  "init_send_vars = \<lparr>sv_command_responses = [], sv_async_notifications = [],
     sv_last_alive_check = 0, sv_saw_result_record = False,
     sv_saw_stop_after_running = False, sv_result_class = None\<rparr>"

definition response_of :: "send_vars \<Rightarrow> MiTransportResponse" where
  "response_of v = empty_response\<lparr>tr_command_responses := sv_command_responses v,
                                  tr_async_notifications := sv_async_notifications v\<rparr>"

definition fatal_response :: "send_vars \<Rightarrow> string \<Rightarrow> MiTransportResponse" where
  "fatal_response v m = (response_of v)\<lparr>tr_error := Some m, tr_fatal := True\<rparr>"

definition command_complete :: "send_vars \<Rightarrow> bool" where
  "command_complete v =
     (sv_saw_result_record v
      \<and> (sv_result_class v \<noteq> Some ''running'' \<or> sv_saw_stop_after_running v))"

text \<open>Where one record that is not fatal goes.\<close>

definition take_response :: "nat \<Rightarrow> send_vars \<Rightarrow> MiRecord \<Rightarrow> send_vars" where
  "take_response token v response =
     (let response_type = dget response ''type''; response_token = dget response ''token'' in
      if response_type = PStr ''result'' \<and> response_token = PInt (int token) then
        v\<lparr>sv_command_responses := sv_command_responses v @ [response],
          sv_result_class := as_text (dget response ''message''),
          sv_saw_result_record := True\<rparr>
      else if response_token = PInt (int token) then
        v\<lparr>sv_command_responses := sv_command_responses v @ [response]\<rparr>
      else if response_type = PStr ''notify'' \<and> sv_saw_result_record v
              \<and> sv_result_class v = Some ''running''
              \<and> dget response ''message'' = PStr ''stopped'' then
        v\<lparr>sv_command_responses := sv_command_responses v @ [response],
          sv_saw_stop_after_running := True\<rparr>
      else if response_token = PNone \<and> response_type \<noteq> PStr ''notify'' then
        v\<lparr>sv_command_responses := sv_command_responses v @ [response]\<rparr>
      else v\<lparr>sv_async_notifications := sv_async_notifications v @ [response]\<rparr>)"

text \<open>The loop over one batch; a fatal record ends it.\<close>

fun take_responses :: "nat \<Rightarrow> send_vars \<Rightarrow> MiRecord list \<Rightarrow> send_vars \<times> MiRecord option" where
  "take_responses token v [] = (v, None)"
| "take_responses token v (r # rs) =
     (if is_fatal_record r then (v, Some r)
      else take_responses token (take_response token v r) rs)"

text \<open>\<open>self._exit_unlocked(); return MiTransportResponse(..., fatal=True)\<close>.\<close>

definition give_up :: "send_vars \<Rightarrow> string \<Rightarrow> (MiClient, MiTransportResponse + send_vars) exec" where
  "give_up v m = thenE exit_unlocked (ret (Inl (fatal_response v m)))"

definition check_liveness ::
  "nat \<Rightarrow> send_vars \<Rightarrow> (MiClient, MiTransportResponse + send_vars) exec" where
  "check_liveness start_time v =
     bindE (gets (\<lambda>c. now c - start_time)) (\<lambda>elapsed.
       if elapsed - sv_last_alive_check v \<ge> liveness_check_interval then
         bindE is_alive_unlocked (\<lambda>alive.
           if \<not> alive then
             bindE extract_exit_code (\<lambda>exit_code.
               give_up v (''GDB process exited unexpectedly after '' @ fmt_seconds elapsed @ ''s''
                          @ exit_code_details exit_code))
           else ret (Inr (v\<lparr>sv_last_alive_check := elapsed\<rparr>)))
       else ret (Inr v))"

text \<open>One turn of the loop: a response to return, or the variables to go on with.\<close>

definition send_turn ::
  "nat \<Rightarrow> nat \<Rightarrow> send_vars \<Rightarrow> (MiClient, MiTransportResponse + send_vars) exec" where
  "send_turn start_time token v0 =
     bindE (check_liveness start_time v0) (\<lambda>checked.
       case checked of
         Inl response \<Rightarrow> ret (Inl response)
       | Inr v \<Rightarrow>
           bindE (gets mc_poll_timeout) (\<lambda>poll_timeout.
           bindE (try_read poll_timeout) (\<lambda>outcome.
             case outcome of
               Inl e \<Rightarrow> give_up v (''Communication error: '' @ exn_text e)
             | Inr responses \<Rightarrow>
                 (case take_responses token v responses of
                    (v', Some r) \<Rightarrow> give_up v' (fatal_text r)
                  | (v', None) \<Rightarrow>
                      ret (if command_complete v' then Inl (response_of v') else Inr v')))))"

lemma process_poll_now: "process_poll c = (r, c') \<Longrightarrow> now c' = now c"
  by (auto simp: process_poll_def upd_world_def split: prod.splits)

lemma is_alive_now: "is_alive_unlocked c = (r, c') \<Longrightarrow> now c' = now c"
  by (auto simp: is_alive_unlocked_def exec_defs split: prod.splits option.splits sum.splits
      dest: process_poll_now)

lemma check_liveness_now: "check_liveness t v c = (Inr (Inr v'), c') \<Longrightarrow> now c' = now c"
  by (auto simp: check_liveness_def give_up_def exec_defs
      split: prod.splits sum.splits if_splits dest: is_alive_now)

lemma send_turn_now: "send_turn t k v c = (Inr (Inr v'), c') \<Longrightarrow> now c < now c'"
  by (auto simp: send_turn_def give_up_def exec_defs
      split: prod.splits sum.splits if_splits option.splits
      dest!: check_liveness_now try_read_now)

function send_loop ::
  "nat \<Rightarrow> nat \<Rightarrow> nat \<Rightarrow> send_vars \<Rightarrow> (MiClient, MiTransportResponse) exec" where
  "send_loop start_time timeout token v c =
     (if now c - start_time < timeout then
        (case send_turn start_time token v c of
           (Inl e, c') \<Rightarrow> (Inl e, c')
         | (Inr (Inl response), c') \<Rightarrow> (Inr response, c')
         | (Inr (Inr v'), c') \<Rightarrow> send_loop start_time timeout token v' c')
      else (Inr ((response_of v)\<lparr>tr_timed_out := True\<rparr>), c))"
  by pat_completeness auto
termination
  by (relation "measure (\<lambda>(start_time, timeout, token, v, c). start_time + timeout - now c)")
    (auto dest!: send_turn_now [OF sym])

declare send_loop.simps [simp del]

definition no_session_response :: MiTransportResponse where
  "no_session_response =
     empty_response\<lparr>tr_timed_out := True, tr_error := Some ''No active GDB session''\<rparr>"

definition send_command_and_wait_for_prompt ::
  "string \<Rightarrow> nat \<Rightarrow> (MiClient, MiTransportResponse) exec" where
  "send_command_and_wait_for_prompt command timeout c =
     (if mc_controller c = None then (Inr no_session_response, c)
      else
        (let token = mc_command_token c;
             c1 = c\<lparr>mc_command_token := token + 1\<rparr>
         in case stdin_write (show_nat token @ command @ [CHR 0x0A]) c1 of
              (Inl e, c2) \<Rightarrow>
                (if is_os_error e then
                   thenE exit_unlocked
                     (ret (empty_response\<lparr>tr_error := Some (''Failed to send command: '' @ exn_text e),
                                          tr_fatal := True\<rparr>)) c2
                 else (Inl e, c2))
            | (Inr _, c2) \<Rightarrow> send_loop (now c2) timeout token init_send_vars c2))"

section \<open>Waiting for a stop\<close>

datatype wait_result = WaitMore | WaitStopped | WaitFatal MiRecord

text \<open>The loop over one batch, up to the first stop or fatal record.\<close>

fun take_until_stop :: "MiRecord list \<Rightarrow> MiRecord list \<Rightarrow> MiRecord list \<times> wait_result" where
  "take_until_stop acc [] = (acc, WaitMore)"
| "take_until_stop acc (r # rs) =
     (if is_fatal_record r then (acc @ [r], WaitFatal r)
      else if dget r ''type'' = PStr ''notify'' \<and> dget r ''message'' = PStr ''stopped''
      then (acc @ [r], WaitStopped)
      else take_until_stop (acc @ [r]) rs)"

definition wait_fatal ::
  "MiRecord list \<Rightarrow> string \<Rightarrow> (MiClient, MiTransportResponse + MiRecord list) exec" where
  "wait_fatal acc m = thenE exit_unlocked
     (ret (Inl (empty_response\<lparr>tr_command_responses := acc, tr_error := Some m, tr_fatal := True\<rparr>)))"

definition wait_turn ::
  "MiRecord list \<Rightarrow> (MiClient, MiTransportResponse + MiRecord list) exec" where
  "wait_turn acc =
     bindE (gets mc_poll_timeout) (\<lambda>poll_timeout.
     bindE (try_read poll_timeout) (\<lambda>outcome.
       case outcome of
         Inl e \<Rightarrow> wait_fatal acc (''Communication error: '' @ exn_text e)
       | Inr responses \<Rightarrow>
           (case take_until_stop acc responses of
              (acc', WaitFatal r) \<Rightarrow> wait_fatal acc' (fatal_text r)
            | (acc', WaitStopped) \<Rightarrow> ret (Inl (empty_response\<lparr>tr_command_responses := acc'\<rparr>))
            | (acc', WaitMore) \<Rightarrow> ret (Inr acc'))))"

lemma wait_turn_now: "wait_turn acc c = (Inr (Inr acc'), c') \<Longrightarrow> now c < now c'"
  by (auto simp: wait_turn_def wait_fatal_def exec_defs
      split: prod.splits sum.splits wait_result.splits dest!: try_read_now)

function wait_loop :: "nat \<Rightarrow> nat \<Rightarrow> MiRecord list \<Rightarrow> (MiClient, MiTransportResponse) exec" where
  "wait_loop start_time timeout acc c =
     (if now c - start_time < timeout then
        (case wait_turn acc c of
           (Inl e, c') \<Rightarrow> (Inl e, c')
         | (Inr (Inl response), c') \<Rightarrow> (Inr response, c')
         | (Inr (Inr acc'), c') \<Rightarrow> wait_loop start_time timeout acc' c')
      else (Inr (empty_response\<lparr>tr_command_responses := acc, tr_timed_out := True\<rparr>), c))"
  by pat_completeness auto
termination
  by (relation "measure (\<lambda>(start_time, timeout, acc, c). start_time + timeout - now c)")
    (auto dest!: wait_turn_now [OF sym])

declare wait_loop.simps [simp del]

definition error_response :: "string \<Rightarrow> MiTransportResponse" where
  "error_response m = empty_response\<lparr>tr_error := Some m\<rparr>"

definition wait_for_stopped_notification :: "nat \<Rightarrow> (MiClient, MiTransportResponse) exec" where
  "wait_for_stopped_notification timeout c =
     (if mc_controller c = None then (Inr (error_response ''No active GDB session''), c)
      else wait_loop (now c) timeout [] c)"

definition mi_interrupt_and_wait_for_stop :: "nat \<Rightarrow> (MiClient, MiTransportResponse) exec" where
  "mi_interrupt_and_wait_for_stop timeout c =
     (if mc_controller c = None then (Inr (error_response ''No active GDB session''), c)
      else if mc_lock_busy c then
        (Inr (error_response ''Cannot interrupt while another command is in progress''), c)
      else catchE (thenE os_kill (wait_for_stopped_notification timeout))
             (\<lambda>e. ret (error_response (''Failed to interrupt: '' @ exn_text e))) c)"

definition mi_wait_for_stop :: "nat \<Rightarrow> (MiClient, MiTransportResponse) exec" where
  "mi_wait_for_stop timeout c =
     (if mc_controller c = None then (Inr (error_response ''No active GDB session''), c)
      else if mc_lock_busy c then
        (Inr (error_response ''Cannot wait for stop while another command is in progress''), c)
      else wait_for_stopped_notification timeout c)"

end
