(* ===== verification/Mi_Client_Correct.thy ===== *)
theory Mi_Client_Correct
  imports Mi_Client "HOL-Library.Multiset"
begin

text \<open>
  What the transport client guarantees: how an operation may change the controller (the
  interface the session layer relies on, stated as a locale and interpreted for the three
  MI operations), which records a command's answer may hold, that no record is lost, and
  that tokens are never reused.
\<close>

section \<open>Sample states\<close>

text \<open>A running debugger with a given script of reads, for the examples.\<close>

definition sample_world :: "read_outcome list \<Rightarrow> world" where
  "sample_world reads = \<lparr>w_now = 0, w_reads = reads, w_writes = [], w_polls = [], w_exits = [],
     w_spawns = [Inr \<lparr>ct_process = Some 7\<rparr>], w_kills = [], w_isdir = (\<lambda>_. False),
     w_environ = [], w_sent = [], w_launched = []\<rparr>"

definition sample_client :: "read_outcome list \<Rightarrow> MiClient" where
  "sample_client reads = \<lparr>mc_controller = Some \<lparr>ct_process = Some 7\<rparr>, mc_command_token = 1000,
     mc_poll_timeout = 100000, mc_lock_busy = False, mc_world = sample_world reads\<rparr>"

definition sample_result :: "int \<Rightarrow> string \<Rightarrow> MiRecord" where
  "sample_result k m = [(''type'', PStr ''result''), (''message'', PStr m), (''token'', PInt k)]"

section \<open>Frames\<close>

text \<open>Two client states that differ only in the clock and in what has been read or polled.\<close>

definition same_client :: "MiClient \<Rightarrow> MiClient \<Rightarrow> bool" where
  "same_client c c' \<longleftrightarrow>
     mc_controller c' = mc_controller c \<and> mc_command_token c' = mc_command_token c
     \<and> mc_poll_timeout c' = mc_poll_timeout c \<and> mc_lock_busy c' = mc_lock_busy c
     \<and> w_exits (mc_world c') = w_exits (mc_world c) \<and> w_sent (mc_world c') = w_sent (mc_world c)"

text \<open>The controller has been dropped; token and lines sent are as before.\<close>

definition dropped :: "MiClient \<Rightarrow> MiClient \<Rightarrow> bool" where
  "dropped c c' \<longleftrightarrow>
     mc_controller c' = None \<and> mc_command_token c' = mc_command_token c
     \<and> w_sent (mc_world c') = w_sent (mc_world c)"

text \<open>No \<open>controller.exit()\<close> to come raises.\<close>

definition exits_ok :: "MiClient \<Rightarrow> bool" where
  "exits_ok c \<longleftrightarrow> list_all (\<lambda>e. e = None) (w_exits (mc_world c))"

lemma same_refl [simp, intro]: "same_client c c"
  by (simp add: same_client_def)

lemma same_trans: "same_client a b \<Longrightarrow> same_client b c \<Longrightarrow> same_client a c"
  by (simp add: same_client_def)

lemma same_dropped: "same_client a b \<Longrightarrow> dropped b c \<Longrightarrow> dropped a c"
  by (simp add: same_client_def dropped_def)

lemma same_exits_ok: "same_client a b \<Longrightarrow> exits_ok b = exits_ok a"
  by (simp add: same_client_def exits_ok_def)

lemma try_read_same: "try_read t c = (r, c') \<Longrightarrow> same_client c c'"
  by (auto simp: try_read_def get_gdb_response_def upd_world_def same_client_def
      split: prod.splits read_outcome.splits if_splits)

lemma process_poll_same: "process_poll c = (r, c') \<Longrightarrow> same_client c c'"
  by (auto simp: process_poll_def upd_world_def same_client_def split: prod.splits)

lemma process_poll_returns: "process_poll c = (r, c') \<Longrightarrow> \<exists>p. r = Inr p"
  by (auto simp: process_poll_def split: prod.splits)

lemma is_alive_same: "is_alive_unlocked c = (r, c') \<Longrightarrow> same_client c c' \<and> (\<exists>b. r = Inr b)"
  by (auto simp: is_alive_unlocked_def exec_defs split: prod.splits option.splits sum.splits
      dest: process_poll_same process_poll_returns)

lemma is_alive_no_controller: "mc_controller c = None \<Longrightarrow> is_alive_unlocked c = (Inr False, c)"
  by (simp add: is_alive_unlocked_def exec_defs)

lemma exit_code_same: "extract_exit_code c = (r, c') \<Longrightarrow> same_client c c' \<and> (\<exists>b. r = Inr b)"
  by (auto simp: extract_exit_code_def exec_defs split: prod.splits option.splits sum.splits
      dest: process_poll_same process_poll_returns)

lemma exit_unlocked_dropped: "exit_unlocked c = (r, c') \<Longrightarrow> dropped c c'"
  by (auto simp: exit_unlocked_def controller_exit_def upd_world_def dropped_def
      split: prod.splits option.splits)

lemma exit_unlocked_ok: "exit_unlocked c = (r, c') \<Longrightarrow> exits_ok c \<Longrightarrow> r = Inr () \<and> exits_ok c'"
  by (cases "w_exits (mc_world c)")
    (auto simp: exit_unlocked_def controller_exit_def upd_world_def exits_ok_def
      split: prod.splits option.splits)

section \<open>Outcomes of the loops\<close>

text \<open>
  How an MI operation may end. A fatal response has an error text and the controller is gone;
  any other response leaves the client as it was up to clock and scripts; an exception can
  only have dropped the controller when \<open>controller.exit()\<close> itself raised.
\<close>

fun mi_outcome :: "MiClient \<Rightarrow> (exn + MiTransportResponse) \<times> MiClient \<Rightarrow> bool" where
  "mi_outcome c (Inr r, c') =
     (if tr_fatal r then dropped c c' \<and> tr_error r \<noteq> None \<and> (exits_ok c \<longrightarrow> exits_ok c')
      else same_client c c' \<and> tr_error r = None)"
| "mi_outcome c (Inl e, c') = (same_client c c' \<or> (dropped c c' \<and> \<not> exits_ok c))"

lemma mi_outcome_same: "same_client a b \<Longrightarrow> mi_outcome b p \<Longrightarrow> mi_outcome a p"
  by (cases p; cases "fst p")
    (auto dest: same_trans same_dropped same_exits_ok split: if_splits)

text \<open>The same for one turn of the sending loop; going on leaves the client as it was.\<close>

fun send_turn_outcome ::
  "MiClient \<Rightarrow> (exn + (MiTransportResponse + send_vars)) \<times> MiClient \<Rightarrow> bool" where
  "send_turn_outcome c (Inl e, c') = mi_outcome c (Inl e, c')"
| "send_turn_outcome c (Inr (Inl r), c') =
     (mi_outcome c (Inr r, c') \<and> \<not> tr_timed_out r
      \<and> (\<not> tr_fatal r \<longrightarrow> (\<exists>v. r = response_of v \<and> command_complete v)))"
| "send_turn_outcome c (Inr (Inr v), c') = same_client c c'"

lemma response_of_simps [simp]:
  "tr_fatal (response_of v) = False" "tr_error (response_of v) = None"
  "tr_timed_out (response_of v) = False"
  "tr_command_responses (response_of v) = sv_command_responses v"
  "tr_async_notifications (response_of v) = sv_async_notifications v"
  by (simp_all add: response_of_def empty_response_def)

lemma fatal_response_simps [simp]:
  "tr_fatal (fatal_response v m)" "tr_error (fatal_response v m) = Some m"
  "\<not> tr_timed_out (fatal_response v m)"
  by (simp_all add: fatal_response_def)

lemma give_up_outcome: "send_turn_outcome c (give_up v m c)"
proof -
  obtain r c' where x: "exit_unlocked c = (r, c')" by (cases "exit_unlocked c")
  from exit_unlocked_dropped [OF x] exit_unlocked_ok [OF x] show ?thesis
    by (cases r) (auto simp: give_up_def exec_defs x)
qed

lemma send_turn_outcome_same:
  "same_client a b \<Longrightarrow> send_turn_outcome b p \<Longrightarrow> send_turn_outcome a p"
  by (cases "(b, p)" rule: send_turn_outcome.cases)
    (auto dest: same_trans same_dropped same_exits_ok split: if_splits)

lemma check_liveness_outcome: "send_turn_outcome c (check_liveness t v c)"
proof -
  obtain r c1 where a: "is_alive_unlocked c = (r, c1)" by (cases "is_alive_unlocked c")
  obtain s c2 where x: "extract_exit_code c1 = (s, c2)" by (cases "extract_exit_code c1")
  have "same_client c c2"
    using is_alive_same [OF a] exit_code_same [OF x] by (blast intro: same_trans)
  then have "send_turn_outcome c (give_up v m c2)" for m
    by (rule send_turn_outcome_same) (rule give_up_outcome)
  with is_alive_same [OF a] exit_code_same [OF x] show ?thesis
    by (auto simp: check_liveness_def exec_defs a x)
qed

lemma send_turn_spec: "send_turn_outcome c (send_turn t k v c)"
proof -
  obtain r c1 where l: "check_liveness t v c = (r, c1)" by (cases "check_liveness t v c")
  have lo: "send_turn_outcome c (r, c1)" using check_liveness_outcome [of c t v] l by simp
  obtain s c2 where rd: "try_read (mc_poll_timeout c1) c1 = (s, c2)"
    by (cases "try_read (mc_poll_timeout c1) c1")
  have s2: "same_client c1 c2" using try_read_same [OF rd] .
  have gu: "send_turn_outcome c1 (give_up v m c2)" for v m
    using send_turn_outcome_same [OF s2 give_up_outcome] .
  show ?thesis
  proof (cases "\<exists>v'. r = Inr (Inr v')")
    case False
    then have "send_turn t k v c = (r, c1)"
      by (cases r) (auto simp: send_turn_def exec_defs l split: sum.splits)
    with lo show ?thesis by simp
  next
    case True
    then obtain v' where r: "r = Inr (Inr v')" by blast
    with lo have s1: "same_client c c1" by simp
    have "send_turn_outcome c1 (send_turn t k v c)"
      using s2 gu by (auto simp: send_turn_def exec_defs l r rd split: sum.splits prod.splits option.splits)
    with s1 show ?thesis by (rule send_turn_outcome_same)
  qed
qed

lemma send_loop_outcome: "mi_outcome c (send_loop t d k v c)"
proof (induction t d k v c rule: send_loop.induct)
  case (1 t d k v c)
  show ?case
  proof (cases "now c - t < d")
    case True
    obtain r c' where turn: "send_turn t k v c = (r, c')" by (cases "send_turn t k v c")
    with send_turn_spec have spec: "send_turn_outcome c (r, c')" by metis
    show ?thesis
    proof (cases "\<exists>v'. r = Inr (Inr v')")
      case True
      then obtain v' where r: "r = Inr (Inr v')" by blast
      have "mi_outcome c' (send_loop t d k v' c')"
        using "1.IH" [OF \<open>now c - t < d\<close>] turn r by simp
      moreover have "same_client c c'" using spec r by simp
      ultimately show ?thesis
        using \<open>now c - t < d\<close> turn r by (simp add: send_loop.simps [of t d k v c] mi_outcome_same)
    next
      case False
      with spec \<open>now c - t < d\<close> turn show ?thesis
        by (cases r) (auto simp: send_loop.simps [of t d k v c] split: sum.splits)
    qed
  qed (simp add: send_loop.simps [of t d k v c])
qed

fun wait_turn_outcome ::
  "MiClient \<Rightarrow> (exn + (MiTransportResponse + MiRecord list)) \<times> MiClient \<Rightarrow> bool" where
  "wait_turn_outcome c (Inl e, c') = mi_outcome c (Inl e, c')"
| "wait_turn_outcome c (Inr (Inl r), c') = (mi_outcome c (Inr r, c') \<and> \<not> tr_timed_out r)"
| "wait_turn_outcome c (Inr (Inr acc), c') = same_client c c'"

lemma wait_turn_outcome_same:
  "same_client a b \<Longrightarrow> wait_turn_outcome b p \<Longrightarrow> wait_turn_outcome a p"
  by (cases "(b, p)" rule: wait_turn_outcome.cases)
    (auto dest: same_trans same_dropped same_exits_ok split: if_splits)

lemma wait_fatal_outcome: "wait_turn_outcome c (wait_fatal acc m c)"
proof -
  obtain r c' where x: "exit_unlocked c = (r, c')" by (cases "exit_unlocked c")
  from exit_unlocked_dropped [OF x] exit_unlocked_ok [OF x] show ?thesis
    by (cases r) (auto simp: wait_fatal_def exec_defs x empty_response_def)
qed

lemma wait_turn_spec: "wait_turn_outcome c (wait_turn acc c)"
proof -
  obtain s c2 where rd: "try_read (mc_poll_timeout c) c = (s, c2)"
    by (cases "try_read (mc_poll_timeout c) c")
  have s2: "same_client c c2" using try_read_same [OF rd] .
  have gu: "wait_turn_outcome c (wait_fatal v m c2)" for v m
    using wait_turn_outcome_same [OF s2 wait_fatal_outcome] .
  show ?thesis
    using s2 gu by (auto simp: wait_turn_def exec_defs rd empty_response_def
        split: sum.splits prod.splits wait_result.splits)
qed

lemma wait_loop_outcome: "mi_outcome c (wait_loop t d acc c)"
proof (induction t d acc c rule: wait_loop.induct)
  case (1 t d acc c)
  show ?case
  proof (cases "now c - t < d")
    case True
    obtain r c' where turn: "wait_turn acc c = (r, c')" by (cases "wait_turn acc c")
    with wait_turn_spec have spec: "wait_turn_outcome c (r, c')" by metis
    show ?thesis
    proof (cases "\<exists>a. r = Inr (Inr a)")
      case True
      then obtain a where r: "r = Inr (Inr a)" by blast
      have "mi_outcome c' (wait_loop t d a c')" using "1.IH" [OF \<open>now c - t < d\<close>] turn r by simp
      moreover have "same_client c c'" using spec r by simp
      ultimately show ?thesis
        using \<open>now c - t < d\<close> turn r by (simp add: wait_loop.simps [of t d acc c] mi_outcome_same)
    next
      case False
      with spec \<open>now c - t < d\<close> turn show ?thesis
        by (cases r) (auto simp: wait_loop.simps [of t d acc c] split: sum.splits)
    qed
  qed (simp add: wait_loop.simps [of t d acc c] empty_response_def)
qed

section \<open>The interface of an MI operation\<close>

text \<open>
  What the session layer relies on, for each of the three operations that talk to GDB: a
  fatal response means that the controller is gone and says why; nothing else makes the
  controller go, unless its \<open>exit()\<close> raises; an operation never installs a controller; and
  without a controller it reports an error and changes nothing.
\<close>

locale mi_operation =
  fixes mi_op :: "(MiClient, MiTransportResponse) exec"
  assumes fatal_drops:
      "mi_op c = (Inr r, c') \<Longrightarrow> tr_fatal r \<Longrightarrow> mc_controller c' = None \<and> tr_error r \<noteq> None"
    and keeps_controller:
      "mi_op c = (out, c') \<Longrightarrow> exits_ok c \<Longrightarrow>
         exits_ok c' \<and> ((\<exists>x. out = Inr x \<and> tr_fatal x) \<or> mc_controller c' = mc_controller c)"
    and never_installs: "mi_op c = (out, c') \<Longrightarrow> mc_controller c' \<in> {mc_controller c, None}"
    and idle: "mc_controller c = None \<Longrightarrow>
         \<exists>r. mi_op c = (Inr r, c) \<and> \<not> tr_fatal r \<and> tr_error r \<noteq> None"
begin

lemma controller_stays:
  "mi_op c = (Inr r, c') \<Longrightarrow> exits_ok c \<Longrightarrow> \<not> tr_fatal r \<Longrightarrow> mc_controller c' = mc_controller c"
  using keeps_controller by blast

lemma controller_iff_not_fatal:
  "mi_op c = (Inr r, c') \<Longrightarrow> exits_ok c \<Longrightarrow> mc_controller c \<noteq> None \<Longrightarrow>
     mc_controller c' = None \<longleftrightarrow> tr_fatal r"
  using fatal_drops controller_stays by metis

end

lemma stdin_write_frame:
  "stdin_write l c = (r, c') \<Longrightarrow>
     mc_controller c' = mc_controller c \<and> mc_command_token c' = mc_command_token c
     \<and> exits_ok c' = exits_ok c
     \<and> (w_sent (mc_world c') = (if isl r then w_sent (mc_world c) else w_sent (mc_world c) @ [l]))"
  by (auto simp: stdin_write_def upd_world_def exits_ok_def split: prod.splits option.splits)

text \<open>A command that is really sent: the write, then either giving up or the loop.\<close>

lemma send_cases:
  assumes send: "send_command_and_wait_for_prompt cmd d c = (r, c')"
    and ctl: "mc_controller c \<noteq> None"
  obtains (loop) c2 where
      "stdin_write (show_nat (mc_command_token c) @ cmd @ [CHR 0x0A])
         (c\<lparr>mc_command_token := mc_command_token c + 1\<rparr>) = (Inr (), c2)"
      "send_loop (now c2) d (mc_command_token c) init_send_vars c2 = (r, c')"
    | (failed) e c2 where
      "stdin_write (show_nat (mc_command_token c) @ cmd @ [CHR 0x0A])
         (c\<lparr>mc_command_token := mc_command_token c + 1\<rparr>) = (Inl e, c2)"
      "r = Inl e \<and> c' = c2 \<and> \<not> is_os_error e \<or> is_os_error e \<and>
         thenE exit_unlocked (ret (empty_response\<lparr>tr_error := Some (''Failed to send command: '' @ exn_text e),
           tr_fatal := True\<rparr>)) c2 = (r, c')"
proof -
  let ?w = "stdin_write (show_nat (mc_command_token c) @ cmd @ [CHR 0x0A])
         (c\<lparr>mc_command_token := mc_command_token c + 1\<rparr>)"
  obtain w c2 where w: "?w = (w, c2)" by (cases ?w)
  show thesis
  proof (cases w)
    case (Inl e)
    with send ctl w failed show thesis
      by (auto simp: send_command_and_wait_for_prompt_def Let_def split: if_splits)
  next
    case (Inr u)
    with send ctl w loop show thesis
      by (auto simp: send_command_and_wait_for_prompt_def Let_def)
  qed
qed

lemma send_outcome:
  assumes send: "send_command_and_wait_for_prompt cmd d c = (r, c')" and ctl: "mc_controller c \<noteq> None"
  shows "(\<exists>x. r = Inr x \<and> tr_fatal x \<and> tr_error x \<noteq> None \<and> mc_controller c' = None
            \<and> (exits_ok c \<longrightarrow> exits_ok c'))
       \<or> (mc_controller c' = mc_controller c \<and> exits_ok c' = exits_ok c
            \<and> (\<forall>x. r = Inr x \<longrightarrow> \<not> tr_fatal x \<and> tr_error x = None))
       \<or> (mc_controller c' = None \<and> \<not> exits_ok c \<and> (\<exists>e. r = Inl e))"
  using send ctl
proof (cases rule: send_cases)
  case (loop c2)
  have out: "mi_outcome c2 (r, c')" using send_loop_outcome [of c2] loop(2) by metis
  have fr: "mc_controller c2 = mc_controller c" "exits_ok c2 = exits_ok c"
    using stdin_write_frame [OF loop(1)] by (simp_all add: exits_ok_def)
  show ?thesis
  proof (cases r)
    case (Inl e)
    with out fr show ?thesis by (auto simp: same_client_def exits_ok_def dropped_def)
  next
    case (Inr x)
    with out fr show ?thesis
      by (cases "tr_fatal x") (auto simp: same_client_def exits_ok_def dropped_def)
  qed
next
  case (failed e c2)
  have fr: "mc_controller c2 = mc_controller c" "exits_ok c2 = exits_ok c"
    using stdin_write_frame [OF failed(1)] by (simp_all add: exits_ok_def)
  obtain q c3 where x: "exit_unlocked c2 = (q, c3)" by (cases "exit_unlocked c2")
  show ?thesis
    using failed(2) fr exit_unlocked_dropped [OF x] exit_unlocked_ok [OF x]
    by (cases q) (auto simp: exec_defs x dropped_def)
qed

lemma send_no_controller:
  "mc_controller c = None \<Longrightarrow> send_command_and_wait_for_prompt cmd d c = (Inr no_session_response, c)"
  by (simp add: send_command_and_wait_for_prompt_def)

lemma no_session_simps [simp]:
  "tr_error no_session_response = Some ''No active GDB session''"
  "\<not> tr_fatal no_session_response" "tr_timed_out no_session_response"
  by (simp_all add: no_session_response_def empty_response_def)

lemma error_response_simps [simp]:
  "tr_error (error_response m) = Some m" "\<not> tr_fatal (error_response m)"
  "\<not> tr_timed_out (error_response m)"
  by (simp_all add: error_response_def empty_response_def)

text \<open>What sending writes: the line, or nothing and then the answer is an error.\<close>

lemma send_writes:
  assumes send: "send_command_and_wait_for_prompt cmd d c = (r, c')" and ctl: "mc_controller c \<noteq> None"
  shows "mc_command_token c' = mc_command_token c + 1
     \<and> (w_sent (mc_world c') = w_sent (mc_world c) @ [show_nat (mc_command_token c) @ cmd @ [CHR 0x0A]]
        \<or> w_sent (mc_world c') = w_sent (mc_world c) \<and> (\<forall>x. r = Inr x \<longrightarrow> tr_error x \<noteq> None))"
  using send ctl
proof (cases rule: send_cases)
  case (loop c2)
  have "mi_outcome c2 (r, c')" using send_loop_outcome [of c2] loop(2) by metis
  with stdin_write_frame [OF loop(1)] show ?thesis
    by (cases r) (auto simp: same_client_def dropped_def split: if_splits)
next
  case (failed e c2)
  obtain q c3 where x: "exit_unlocked c2 = (q, c3)" by (cases "exit_unlocked c2")
  show ?thesis
    using failed(2) stdin_write_frame [OF failed(1)] exit_unlocked_dropped [OF x]
    by (cases q) (auto simp: exec_defs x dropped_def)
qed

interpretation send_op: mi_operation "send_command_and_wait_for_prompt cmd d" for cmd d
proof
  fix c r c'
  assume op: "send_command_and_wait_for_prompt cmd d c = (Inr r, c')" and f: "tr_fatal r"
  show "mc_controller c' = None \<and> tr_error r \<noteq> None"
  proof (cases "mc_controller c = None")
    case True
    with op f show ?thesis by (simp add: send_no_controller)
  next
    case False
    with send_outcome [OF op] f show ?thesis by auto
  qed
next
  fix c r c'
  assume op: "send_command_and_wait_for_prompt cmd d c = (r, c')" and ok: "exits_ok c"
  show "exits_ok c' \<and> ((\<exists>x. r = Inr x \<and> tr_fatal x) \<or> mc_controller c' = mc_controller c)"
  proof (cases "mc_controller c = None")
    case True
    with op ok show ?thesis by (auto simp: send_no_controller)
  next
    case False
    with send_outcome [OF op] ok show ?thesis by auto
  qed
next
  fix c r c'
  assume op: "send_command_and_wait_for_prompt cmd d c = (r, c')"
  show "mc_controller c' \<in> {mc_controller c, None}"
  proof (cases "mc_controller c = None")
    case True
    with op show ?thesis by (auto simp: send_no_controller)
  next
    case False
    with send_outcome [OF op] show ?thesis by auto
  qed
qed (auto simp: send_no_controller)

lemma wait_notification_outcome:
  assumes "wait_for_stopped_notification d c = (r, c')" and "mc_controller c \<noteq> None"
  shows "mi_outcome c (r, c')"
  using assms wait_loop_outcome by (metis wait_for_stopped_notification_def)

lemma os_kill_same: "os_kill c = (r, c') \<Longrightarrow> same_client c c'"
  by (auto simp: os_kill_def upd_world_def same_client_def split: prod.splits option.splits)

lemma interrupt_outcome:
  assumes op: "mi_interrupt_and_wait_for_stop d c = (r, c')"
  shows "\<exists>x. r = Inr x \<and> (if tr_fatal x then mc_controller c' = None \<and> tr_error x \<noteq> None
              \<and> mc_controller c \<noteq> None \<and> (exits_ok c \<longrightarrow> exits_ok c')
            else same_client c c' \<or> dropped c c' \<and> \<not> exits_ok c)"
proof (cases "mc_controller c = None \<or> mc_lock_busy c")
  case True
  with op show ?thesis
    by (intro exI [of _ "projr r"]) (auto simp: mi_interrupt_and_wait_for_stop_def split: if_splits)
next
  case False
  obtain k c1 where k: "os_kill c = (k, c1)" by (cases "os_kill c")
  have s1: "same_client c c1" using os_kill_same [OF k] .
  then have ctl1: "mc_controller c1 \<noteq> None" using False by (simp add: same_client_def)
  obtain w c2 where w: "wait_for_stopped_notification d c1 = (w, c2)"
    by (cases "wait_for_stopped_notification d c1")
  have out: "mi_outcome c (w, c2)"
    using mi_outcome_same [OF s1 wait_notification_outcome [OF w ctl1]] .
  show ?thesis
  proof (cases k)
    case (Inl e)
    with op False k have "r = Inr (error_response (''Failed to interrupt: '' @ exn_text e))" "c' = c1"
      by (auto simp: mi_interrupt_and_wait_for_stop_def exec_defs)
    with s1 show ?thesis by simp
  next
    case (Inr u)
    with op False k w out show ?thesis
      by (cases w) (auto simp: mi_interrupt_and_wait_for_stop_def exec_defs dropped_def)
  qed
qed

interpretation interrupt_op: mi_operation "mi_interrupt_and_wait_for_stop d" for d
proof
  fix c r c'
  assume "mi_interrupt_and_wait_for_stop d c = (Inr r, c')" "tr_fatal r"
  then show "mc_controller c' = None \<and> tr_error r \<noteq> None" using interrupt_outcome by fastforce
next
  fix c r c'
  assume "mi_interrupt_and_wait_for_stop d c = (r, c')" "exits_ok c"
  then show "exits_ok c' \<and> ((\<exists>x. r = Inr x \<and> tr_fatal x) \<or> mc_controller c' = mc_controller c)"
    using interrupt_outcome [of d c r c'] same_exits_ok [of c c']
    by (auto simp: same_client_def split: if_splits)
next
  fix c r c'
  assume "mi_interrupt_and_wait_for_stop d c = (r, c')"
  then show "mc_controller c' \<in> {mc_controller c, None}"
    using interrupt_outcome [of d c r c'] by (auto simp: same_client_def dropped_def split: if_splits)
qed (auto simp: mi_interrupt_and_wait_for_stop_def)

lemma wait_outcome:
  assumes op: "mi_wait_for_stop d c = (r, c')"
  shows "mi_outcome c (r, c') \<and> mc_controller c \<noteq> None
         \<or> c' = c \<and> (\<exists>x. r = Inr x \<and> \<not> tr_fatal x \<and> tr_error x \<noteq> None)"
proof (cases "mc_controller c = None \<or> mc_lock_busy c")
  case True
  with op show ?thesis by (auto simp: mi_wait_for_stop_def split: if_splits)
next
  case False
  with op wait_notification_outcome [of d c r c'] show ?thesis
    by (auto simp: mi_wait_for_stop_def split: if_splits)
qed

interpretation wait_op: mi_operation "mi_wait_for_stop d" for d
proof
  fix c r c'
  assume "mi_wait_for_stop d c = (Inr r, c')" "tr_fatal r"
  then show "mc_controller c' = None \<and> tr_error r \<noteq> None"
    using wait_outcome [of d c "Inr r" c'] by (auto simp: dropped_def)
next
  fix c r c'
  assume op: "mi_wait_for_stop d c = (r, c')" and ok: "exits_ok c"
  show "exits_ok c' \<and> ((\<exists>x. r = Inr x \<and> tr_fatal x) \<or> mc_controller c' = mc_controller c)"
    using wait_outcome [OF op] ok same_exits_ok [of c c']
    by (cases r) (auto simp: same_client_def split: if_splits)
next
  fix c r c'
  assume op: "mi_wait_for_stop d c = (r, c')"
  show "mc_controller c' \<in> {mc_controller c, None}"
    using wait_outcome [OF op]
    by (cases r) (auto simp: same_client_def dropped_def split: if_splits)
qed (auto simp: mi_wait_for_stop_def)

section \<open>The records of an answer\<close>

lemma check_liveness_vars:
  assumes "check_liveness t v c = (Inr x, c')"
  shows "(\<exists>m. x = Inl (fatal_response v m)) \<or> x = Inr v
         \<or> (\<exists>e. x = Inr (v\<lparr>sv_last_alive_check := e\<rparr>))"
  using assms by (auto simp: check_liveness_def give_up_def exec_defs
      split: prod.splits sum.splits if_splits)

text \<open>
  A property of the loop's variables that taking a record and noting the time of a liveness
  check keep holds of the variables every answer is built from.
\<close>

lemma take_responses_inv:
  assumes "\<And>v r. P v \<Longrightarrow> P (take_response k v r)"
  shows "P v \<Longrightarrow> P (fst (take_responses k v rs))"
  using assms by (induction k v rs rule: take_responses.induct) auto

definition answer_of :: "(send_vars \<Rightarrow> bool) \<Rightarrow> MiTransportResponse \<Rightarrow> bool" where
  "answer_of P resp \<longleftrightarrow>
     (\<exists>v. P v \<and> ((resp = response_of v \<and> command_complete v)
                \<or> resp = (response_of v)\<lparr>tr_timed_out := True\<rparr>
                \<or> (\<exists>m. resp = fatal_response v m)))"

lemma send_turn_vars:
  assumes step: "\<And>v r. P v \<Longrightarrow> P (take_response k v r)"
    and alive: "\<And>v e. P v \<Longrightarrow> P (v\<lparr>sv_last_alive_check := e\<rparr>)"
    and v: "P v" and turn: "send_turn t k v c = (Inr x, c')"
  shows "case x of Inl resp \<Rightarrow> answer_of P resp | Inr v' \<Rightarrow> P v'"
proof -
  obtain l c1 where l: "check_liveness t v c = (Inr l, c1)"
    using turn by (auto simp: send_turn_def exec_defs split: prod.splits sum.splits)
  show ?thesis
  proof (cases l)
    case (Inl resp)
    with turn l have "x = Inl resp" by (auto simp: send_turn_def exec_defs)
    with check_liveness_vars [OF l] Inl v show ?thesis by (auto simp: answer_of_def)
  next
    case (Inr v1)
    with check_liveness_vars [OF l] alive v have v1: "P v1" by auto
    then have tk: "P v2" if "take_responses k v1 rs = (v2, q)" for rs v2 q
      using take_responses_inv [of P k v1 rs, OF step] that by simp
    from turn l Inr v1 tk show ?thesis
      by (auto simp: send_turn_def give_up_def exec_defs answer_of_def
          split: prod.splits sum.splits option.splits if_splits)
  qed
qed

lemma send_loop_vars:
  assumes step: "\<And>v r. P v \<Longrightarrow> P (take_response k v r)"
    and alive: "\<And>v e. P v \<Longrightarrow> P (v\<lparr>sv_last_alive_check := e\<rparr>)"
  shows "P v \<Longrightarrow> send_loop t d k v c = (Inr resp, c') \<Longrightarrow> answer_of P resp"
  using step alive
proof (induction t d k v c rule: send_loop.induct)
  case (1 t d k v c)
  show ?case
  proof (cases "now c - t < d")
    case True
    obtain x c1 where turn: "send_turn t k v c = (Inr x, c1)"
      using "1.prems"(2) True by (auto simp: send_loop.simps [of t d k v c] split: prod.splits sum.splits)
    have tv: "case x of Inl resp \<Rightarrow> answer_of P resp | Inr v' \<Rightarrow> P v'"
      using send_turn_vars [of P k, OF "1.prems"(3,4,1) turn] .
    show ?thesis
    proof (cases x)
      case (Inl y)
      with tv turn True "1.prems"(2) show ?thesis by (simp add: send_loop.simps [of t d k v c])
    next
      case (Inr v')
      with tv turn True "1.prems"(2) have "P v'" "send_loop t d k v' c1 = (Inr resp, c')"
        by (simp_all add: send_loop.simps [of t d k v c])
      with "1.IH" [OF True turn [symmetric] refl Inr] "1.prems"(3,4) show ?thesis by blast
    qed
  next
    case False
    with "1.prems"(1,2) show ?thesis
      by (auto simp: send_loop.simps [of t d k v c] answer_of_def)
  qed
qed

text \<open>Which records may be attributed to the command with token \<open>k\<close>.\<close>

definition belongs_to :: "nat \<Rightarrow> MiRecord \<Rightarrow> bool" where
  "belongs_to k r \<longleftrightarrow>
     dget r ''token'' = PInt (int k)
     \<or> dget r ''token'' = PNone \<and> dget r ''type'' \<noteq> PStr ''notify''
     \<or> dget r ''type'' = PStr ''notify'' \<and> dget r ''message'' = PStr ''stopped''"

definition is_result_for :: "nat \<Rightarrow> MiRecord \<Rightarrow> bool" where
  "is_result_for k r \<longleftrightarrow> dget r ''type'' = PStr ''result'' \<and> dget r ''token'' = PInt (int k)"

definition is_stop_record :: "MiRecord \<Rightarrow> bool" where
  "is_stop_record r \<longleftrightarrow> dget r ''type'' = PStr ''notify'' \<and> dget r ''message'' = PStr ''stopped''"

definition vars_ok :: "nat \<Rightarrow> send_vars \<Rightarrow> bool" where
  "vars_ok k v \<longleftrightarrow>
     (\<forall>r \<in> set (sv_command_responses v). belongs_to k r)
     \<and> (\<forall>r \<in> set (sv_async_notifications v). dget r ''token'' \<noteq> PInt (int k))
     \<and> (sv_saw_result_record v \<longleftrightarrow> (\<exists>r \<in> set (sv_command_responses v). is_result_for k r))
     \<and> (sv_saw_result_record v \<longrightarrow>
          (\<exists>r \<in> set (sv_command_responses v). is_result_for k r
             \<and> sv_result_class v = as_text (dget r ''message'')))
     \<and> (sv_saw_stop_after_running v \<longrightarrow> (\<exists>r \<in> set (sv_command_responses v). is_stop_record r))"

lemma vars_ok_init: "vars_ok k init_send_vars"
  by (simp add: vars_ok_def init_send_vars_def)

lemma vars_ok_alive: "vars_ok k v \<Longrightarrow> vars_ok k (v\<lparr>sv_last_alive_check := e\<rparr>)"
  by (simp add: vars_ok_def)

lemma take_response_alt:
  "take_response k v r =
     (if is_result_for k r then
        v\<lparr>sv_command_responses := sv_command_responses v @ [r],
          sv_result_class := as_text (dget r ''message''), sv_saw_result_record := True\<rparr>
      else if dget r ''token'' = PInt (int k) then
        v\<lparr>sv_command_responses := sv_command_responses v @ [r]\<rparr>
      else if is_stop_record r \<and> sv_saw_result_record v \<and> sv_result_class v = Some ''running'' then
        v\<lparr>sv_command_responses := sv_command_responses v @ [r], sv_saw_stop_after_running := True\<rparr>
      else if dget r ''token'' = PNone \<and> dget r ''type'' \<noteq> PStr ''notify'' then
        v\<lparr>sv_command_responses := sv_command_responses v @ [r]\<rparr>
      else v\<lparr>sv_async_notifications := sv_async_notifications v @ [r]\<rparr>)"
  unfolding take_response_def is_result_for_def is_stop_record_def Let_def
  by (simp only: conj_ac)

lemma belongs_to_intros:
  "is_result_for k r \<Longrightarrow> belongs_to k r" "dget r ''token'' = PInt (int k) \<Longrightarrow> belongs_to k r"
  "is_stop_record r \<Longrightarrow> belongs_to k r"
  "dget r ''token'' = PNone \<Longrightarrow> dget r ''type'' \<noteq> PStr ''notify'' \<Longrightarrow> belongs_to k r"
  by (simp_all add: belongs_to_def is_result_for_def is_stop_record_def)

lemma vars_ok_step: "vars_ok k v \<Longrightarrow> vars_ok k (take_response k v r)"
proof -
  assume v: "vars_ok k v"
  have not_result: "\<not> is_result_for k r" if "dget r ''token'' \<noteq> PInt (int k)"
    using that by (simp add: is_result_for_def)
  show ?thesis
    using v not_result belongs_to_intros [where k = k and r = r]
    unfolding take_response_alt by (auto simp: vars_ok_def)
qed

lemma vars_ok_complete:
  assumes "vars_ok k v" and "command_complete v"
  shows "\<exists>x \<in> set (sv_command_responses v). is_result_for k x
     \<and> (dget x ''message'' = PStr ''running'' \<longrightarrow> (\<exists>y \<in> set (sv_command_responses v). is_stop_record y))"
proof -
  from assms obtain x where x: "x \<in> set (sv_command_responses v)" "is_result_for k x"
      "sv_result_class v = as_text (dget x ''message'')"
    unfolding vars_ok_def command_complete_def by blast
  have "\<exists>y \<in> set (sv_command_responses v). is_stop_record y" if "dget x ''message'' = PStr ''running''"
  proof -
    from that x(3) have "sv_result_class v = Some ''running''" by (simp only: as_text_def pyv.case)
    with assms(2) have "sv_saw_stop_after_running v" unfolding command_complete_def by blast
    with assms(1) show ?thesis unfolding vars_ok_def by blast
  qed
  with x(1,2) show ?thesis by blast
qed

lemma vars_ok_answer:
  assumes "answer_of (vars_ok k) r"
  shows "(\<forall>x \<in> set (tr_command_responses r). belongs_to k x)
    \<and> (\<forall>x \<in> set (tr_async_notifications r). dget x ''token'' \<noteq> PInt (int k))
    \<and> (tr_error r = None \<and> \<not> tr_timed_out r \<longrightarrow>
         (\<exists>x \<in> set (tr_command_responses r). is_result_for k x
            \<and> (dget x ''message'' = PStr ''running'' \<longrightarrow>
                 (\<exists>y \<in> set (tr_command_responses r). is_stop_record y))))"
proof -
  from assms obtain v where v: "vars_ok k v"
    and r: "(r = response_of v \<and> command_complete v) \<or> r = (response_of v)\<lparr>tr_timed_out := True\<rparr>
            \<or> (\<exists>m. r = fatal_response v m)"
    unfolding answer_of_def by blast
  have rec: "tr_command_responses r = sv_command_responses v"
      "tr_async_notifications r = sv_async_notifications v"
    using r by (auto simp: fatal_response_def)
  have fin: "command_complete v" if "tr_error r = None" "\<not> tr_timed_out r"
    using r that by auto
  show ?thesis
    unfolding rec using v fin vars_ok_complete [OF v] unfolding vars_ok_def by blast
qed

section \<open>Properties\<close>





text \<open>
  No record is lost or duplicated: the records of a batch up to the first fatal one are
  distributed over the command's answer and the asynchronous notifications, as a multiset;
  without a fatal record that is the whole batch.
\<close>

theorem take_responses_conserve:
  "take_responses k v rs = (v', fatal) \<Longrightarrow>
     mset (sv_command_responses v') + mset (sv_async_notifications v')
     = mset (sv_command_responses v) + mset (sv_async_notifications v)
       + mset (takeWhile (\<lambda>r. \<not> is_fatal_record r) rs)
     \<and> fatal = List.find is_fatal_record rs"
proof (induction k v rs rule: take_responses.induct)
  case (2 k v r rs)
  have one: "mset (sv_command_responses (take_response k v r))
      + mset (sv_async_notifications (take_response k v r))
      = mset (sv_command_responses v) + mset (sv_async_notifications v) + {#r#}"
    unfolding take_response_alt by simp
  show ?case
  proof (cases "is_fatal_record r")
    case True
    with "2.prems" show ?thesis by simp
  next
    case False
    with "2.prems" "2.IH" one show ?thesis by simp
  qed
qed simp

theorem take_responses_conserve_witness:
  "mset (sv_command_responses (fst (take_responses 1 init_send_vars [[(''type'', PStr ''result'')]])))
   + mset (sv_async_notifications (fst (take_responses 1 init_send_vars [[(''type'', PStr ''result'')]])))
   = {#[(''type'', PStr ''result'')]#}"
proof -
  have "\<not> is_fatal_record [(''type'', PStr ''result'')]" by code_simp
  then show ?thesis
    using take_responses_conserve [OF surjective_pairing [of
      "take_responses 1 init_send_vars [[(''type'', PStr ''result'')]]"]]
    by (simp add: init_send_vars_def)
qed

text \<open>
  Each command that is sent takes a fresh token and writes one line, the token followed
  by the command: the token counter moves on by one even when the write fails, and nothing
  else is ever written to GDB.
\<close>

theorem send_fresh_token:
  assumes send: "send_command_and_wait_for_prompt cmd d c = (r, c')" and ctl: "mc_controller c \<noteq> None"
  shows "mc_command_token c' = mc_command_token c + 1
     \<and> (w_sent (mc_world c') = w_sent (mc_world c)
        \<or> w_sent (mc_world c') = w_sent (mc_world c) @ [show_nat (mc_command_token c) @ cmd @ [CHR 0x0A]])"
  using send_writes [OF assms] by blast

theorem send_fresh_token_witness:
  "mc_command_token (snd (send_command_and_wait_for_prompt ''-x'' 0 (sample_client []))) = 1001"
proof -
  obtain r c' where s: "send_command_and_wait_for_prompt ''-x'' 0 (sample_client []) = (r, c')"
    by (cases "send_command_and_wait_for_prompt ''-x'' 0 (sample_client [])")
  from send_fresh_token [OF s] s show ?thesis by (simp add: sample_client_def)
qed

section \<open>Time\<close>

text \<open>No read takes longer than \<open>p\<close>.\<close>

definition reads_within :: "nat \<Rightarrow> MiClient \<Rightarrow> bool" where
  "reads_within p c \<longleftrightarrow> max 1 (mc_poll_timeout c) \<le> p
     \<and> (\<forall>x \<in> set (w_reads (mc_world c)).
          case x of Records dt rs \<Rightarrow> max 1 dt \<le> p | ReadRaises dt e \<Rightarrow> max 1 dt \<le> p)"

lemma try_read_time:
  assumes "try_read (mc_poll_timeout c) c = (r, c')" and "reads_within p c"
  shows "now c' \<le> now c + p \<and> reads_within p c'"
proof (cases "w_reads (mc_world c)")
  case Nil
  with assms show ?thesis
    by (auto simp: try_read_def get_gdb_response_def upd_world_def reads_within_def)
next
  case (Cons x xs)
  with assms show ?thesis
    by (cases x) (auto simp: try_read_def get_gdb_response_def upd_world_def reads_within_def
        split: if_splits)
qed

text \<open>States with the same clock, reads to come and poll interval.\<close>

definition same_time :: "MiClient \<Rightarrow> MiClient \<Rightarrow> bool" where
  "same_time c c' \<longleftrightarrow> now c' = now c \<and> w_reads (mc_world c') = w_reads (mc_world c)
     \<and> mc_poll_timeout c' = mc_poll_timeout c"

lemma same_time_trans: "same_time a b \<Longrightarrow> same_time b c \<Longrightarrow> same_time a c"
  by (simp add: same_time_def)

lemma same_time_nowD: "same_time a b \<Longrightarrow> now b = now a"
  by (simp add: same_time_def)

lemma same_time_reads: "same_time a b \<Longrightarrow> reads_within p b = reads_within p a"
  by (simp add: same_time_def reads_within_def)

lemma process_poll_time: "process_poll c = (r, c') \<Longrightarrow> same_time c c'"
  by (auto simp: process_poll_def upd_world_def same_time_def split: prod.splits)

lemma is_alive_time: "is_alive_unlocked c = (r, c') \<Longrightarrow> same_time c c'"
  by (auto simp: is_alive_unlocked_def exec_defs split: prod.splits option.splits sum.splits
      dest: process_poll_time) (simp_all add: same_time_def)

lemma exit_code_time: "extract_exit_code c = (r, c') \<Longrightarrow> same_time c c'"
  by (auto simp: extract_exit_code_def exec_defs split: prod.splits option.splits sum.splits
      dest: process_poll_time) (simp_all add: same_time_def)

lemma exit_unlocked_time: "exit_unlocked c = (r, c') \<Longrightarrow> same_time c c'"
  by (auto simp: exit_unlocked_def controller_exit_def upd_world_def same_time_def
      split: prod.splits option.splits)

lemma give_up_time: "give_up v m c = (r, c') \<Longrightarrow> same_time c c'"
  by (auto simp: give_up_def exec_defs split: prod.splits sum.splits dest: exit_unlocked_time)

lemma check_liveness_time: "check_liveness t v c = (r, c') \<Longrightarrow> same_time c c'"
proof -
  assume l: "check_liveness t v c = (r, c')"
  obtain a c1 where a: "is_alive_unlocked c = (a, c1)" by (cases "is_alive_unlocked c")
  obtain x c2 where x: "extract_exit_code c1 = (x, c2)" by (cases "extract_exit_code c1")
  note t1 = is_alive_time [OF a] and t2 = same_time_trans [OF is_alive_time [OF a] exit_code_time [OF x]]
  have t3: "same_time c c'" if "give_up v m c2 = (r, c')" for m
    using same_time_trans [OF t2 give_up_time [OF that]] .
  have t0: "same_time c c" by (simp add: same_time_def)
  show ?thesis
    using l t0 t1 t2 t3
    by (auto simp: check_liveness_def bindE_def gets_def ret_def a x
        split: sum.splits if_splits prod.splits)
qed

lemma send_turn_time:
  assumes turn: "send_turn t k v c = (r, c')" and rw: "reads_within p c"
  shows "now c' \<le> now c + p \<and> reads_within p c'"
proof -
  obtain l c1 where l: "check_liveness t v c = (l, c1)" by (cases "check_liveness t v c")
  note st = check_liveness_time [OF l]
  obtain s c2 where rd: "try_read (mc_poll_timeout c1) c1 = (s, c2)"
    by (cases "try_read (mc_poll_timeout c1) c1")
  have rt: "now c2 \<le> now c + p" "reads_within p c2"
    using try_read_time [OF rd, of p] same_time_nowD [OF st] same_time_reads [OF st, of p] rw by auto
  have gu: "now c' \<le> now c + p \<and> reads_within p c'" if "give_up v' m c2 = (r, c')" for v' m
    using same_time_nowD [OF give_up_time [OF that]] same_time_reads [OF give_up_time [OF that]] rt
    by simp
  show ?thesis
  proof (cases "\<exists>v'. l = Inr (Inr v')")
    case True
    then obtain v' where l': "l = Inr (Inr v')" by blast
    show ?thesis
    proof (cases "c' = c2")
      case True
      with rt show ?thesis by simp
    next
      case False
      have "\<exists>v' m. give_up v' m c2 = (r, c')"
        using turn False
        by (auto simp: send_turn_def bindE_def gets_def ret_def l l' rd
            split: sum.splits prod.splits option.splits)
      with gu show ?thesis by blast
    qed
  next
    case False
    then have "c' = c1" using turn by (cases l) (auto simp: send_turn_def exec_defs l split: sum.splits)
    with same_time_nowD [OF st] same_time_reads [OF st, of p] rw show ?thesis by simp
  qed
qed

lemma send_loop_time:
  "send_loop t d k v c = (r, c') \<Longrightarrow> reads_within p c \<Longrightarrow> now c' \<le> max (now c) (t + d + p)"
proof (induction t d k v c rule: send_loop.induct)
  case (1 t d k v c)
  show ?case
  proof (cases "now c - t < d")
    case True
    obtain x c1 where turn: "send_turn t k v c = (x, c1)" by (cases "send_turn t k v c")
    have b: "now c1 \<le> now c + p" "reads_within p c1" using send_turn_time [OF turn "1.prems"(2)] by auto
    show ?thesis
    proof (cases "\<exists>v'. x = Inr (Inr v')")
      case True
      then obtain v' where x: "x = Inr (Inr v')" by blast
      have "now c' \<le> max (now c1) (t + d + p)"
        using "1.IH" [OF \<open>now c - t < d\<close> turn [symmetric] x refl] "1.prems"(1) b \<open>now c - t < d\<close> turn x
        by (simp add: send_loop.simps [of t d k v c])
      with b \<open>now c - t < d\<close> show ?thesis by linarith
    next
      case False
      with turn \<open>now c - t < d\<close> "1.prems"(1) have "c' = c1"
        by (cases x) (auto simp: send_loop.simps [of t d k v c] split: sum.splits)
      with b \<open>now c - t < d\<close> show ?thesis by (simp add: le_max_iff_disj)
    qed
  next
    case False
    with "1.prems"(1) show ?thesis by (simp add: send_loop.simps [of t d k v c])
  qed
qed



end
