(* ===== verification/Session_Runtime.thy ===== *)
theory Session_Runtime
  imports Mi_Client_Correct
begin

text \<open>
  The mutable state of one debugger session and the operations on it
  (\<open>session/runtime.py\<close>, with \<open>session/state.py\<close>, \<open>session/config.py\<close> and the limits of
  \<open>session/constants.py\<close>). The locks of the source make each operation atomic; here each is
  one function on the record.
\<close>

section \<open>State\<close>

datatype SessionState = CREATED | STARTING | READY | FAILED | STOPPED

record SessionConfig =
  cfg_program :: "string option"
  cfg_args :: "string list"
  cfg_init_commands :: "string list"
  cfg_env :: "(string \<times> string) list"
  cfg_gdb_path :: "string option"
  cfg_gdb_args :: "string list"
  cfg_working_dir :: "string option"
  cfg_core :: "string option"
  cfg_endpoint :: "string option"
  cfg_rr_replay :: "string option"

definition sample_config :: SessionConfig where
  "sample_config = \<lparr>cfg_program = Some ''/bin/true'', cfg_args = [], cfg_init_commands = [],
     cfg_env = [], cfg_gdb_path = None, cfg_gdb_args = [], cfg_working_dir = None,
     cfg_core = None, cfg_endpoint = None, cfg_rr_replay = None\<rparr>"

record InferiorRuntimeState =
  irs_execution_state :: ExecutionState
  irs_stop_reason :: "string option"
  irs_exit_code :: "int option"

definition fresh_inferior :: InferiorRuntimeState where
  "fresh_inferior =
     \<lparr>irs_execution_state = Unknown, irs_stop_reason = None, irs_exit_code = None\<rparr>"

text \<open>\<open>inferior_states\<close> is a dictionary from inferior numbers, kept in insertion order.\<close>

record SessionRuntime =
  rt_transport :: MiClient
  rt_config :: "SessionConfig option"
  rt_state :: SessionState
  rt_is_running :: bool
  rt_target_loaded :: bool
  rt_attached_pid :: "int option"
  rt_execution_state :: ExecutionState
  rt_stop_reason :: "string option"
  rt_exit_code :: "int option"
  rt_last_failure_message :: "string option"
  rt_current_thread_id :: "int option"
  rt_current_frame :: "int option"
  rt_current_inferior_id :: "int option"
  rt_inferior_count :: "int option"
  rt_inferior_states :: "(int \<times> InferiorRuntimeState) list"
  rt_follow_fork_mode :: "FollowForkMode option"
  rt_detach_on_fork :: "bool option"
  rt_disassemble_a_supported :: "bool option"
  rt_read_memory_bytes_supported :: "bool option"
  rt_artifact_root :: "string option"
  rt_last_stop_event :: "StopEvent option"
  rt_stop_history :: "StopEvent list"
  rt_stop_history_limit :: int
  rt_command_transcript :: "CommandTranscriptEntry list"
  rt_command_transcript_limit :: int

definition default_stop_history_limit :: int where
  "default_stop_history_limit = 50"

definition default_command_transcript_limit :: int where
  "default_command_transcript_limit = 200"

text \<open>A new runtime on a transport client.\<close>

definition new_runtime :: "MiClient \<Rightarrow> SessionRuntime" where
  "new_runtime transport = \<lparr>
     rt_transport = transport, rt_config = None, rt_state = CREATED, rt_is_running = False,
     rt_target_loaded = False, rt_attached_pid = None, rt_execution_state = Unknown,
     rt_stop_reason = None, rt_exit_code = None, rt_last_failure_message = None,
     rt_current_thread_id = None, rt_current_frame = None, rt_current_inferior_id = None,
     rt_inferior_count = None, rt_inferior_states = [], rt_follow_fork_mode = None,
     rt_detach_on_fork = None, rt_disassemble_a_supported = None,
     rt_read_memory_bytes_supported = None, rt_artifact_root = None,
     rt_last_stop_event = None, rt_stop_history = [],
     rt_stop_history_limit = default_stop_history_limit, rt_command_transcript = [],
     rt_command_transcript_limit = default_command_transcript_limit\<rparr>"

definition has_controller :: "SessionRuntime \<Rightarrow> bool" where
  "has_controller rt = (mc_controller (rt_transport rt) \<noteq> None)"

section \<open>Operations\<close>

definition reset_transient :: "SessionRuntime \<Rightarrow> SessionRuntime" where
  "reset_transient rt = rt\<lparr>
     rt_is_running := False, rt_target_loaded := False, rt_attached_pid := None,
     rt_execution_state := Unknown, rt_stop_reason := None, rt_exit_code := None,
     rt_current_thread_id := None, rt_current_frame := None, rt_current_inferior_id := None,
     rt_inferior_count := None, rt_inferior_states := [], rt_follow_fork_mode := None,
     rt_detach_on_fork := None, rt_disassemble_a_supported := None,
     rt_read_memory_bytes_supported := None\<rparr>"

definition begin_startup :: "SessionConfig \<Rightarrow> SessionRuntime \<Rightarrow> SessionRuntime" where
  "begin_startup config rt =
     (reset_transient (rt\<lparr>rt_config := Some config, rt_state := STARTING,
                          rt_last_failure_message := None\<rparr>))
     \<lparr>rt_last_stop_event := None, rt_stop_history := [], rt_command_transcript := []\<rparr>"

text \<open>Mirror the selected inferior into the top-level fields.\<close>

definition mirror :: "InferiorRuntimeState \<Rightarrow> SessionRuntime \<Rightarrow> SessionRuntime" where
  "mirror st rt = rt\<lparr>rt_execution_state := irs_execution_state st,
                     rt_stop_reason := irs_stop_reason st, rt_exit_code := irs_exit_code st\<rparr>"

definition synchronize_selected_state :: "SessionRuntime \<Rightarrow> SessionRuntime" where
  "synchronize_selected_state rt =
     (case rt_current_inferior_id rt of
        None \<Rightarrow> mirror fresh_inferior rt
      | Some i \<Rightarrow>
          (case map_of (rt_inferior_states rt) i of
             None \<Rightarrow> mirror fresh_inferior
               (rt\<lparr>rt_inferior_states := AList.update i fresh_inferior (rt_inferior_states rt)\<rparr>)
           | Some st \<Rightarrow> mirror st rt))"

definition mark_ready :: "SessionRuntime \<Rightarrow> SessionRuntime" where
  "mark_ready rt0 =
     (let rt = rt0\<lparr>rt_state := READY, rt_is_running := True, rt_last_failure_message := None\<rparr>;
          rt = (if rt_current_inferior_id rt = None then rt\<lparr>rt_current_inferior_id := Some 1\<rparr> else rt);
          rt = (if rt_inferior_count rt = None then rt\<lparr>rt_inferior_count := Some 1\<rparr> else rt);
          i = the (rt_current_inferior_id rt);
          rt = (if map_of (rt_inferior_states rt) i = None then
                  rt\<lparr>rt_inferior_states := AList.update i
                      \<lparr>irs_execution_state = rt_execution_state rt,
                       irs_stop_reason = rt_stop_reason rt, irs_exit_code = rt_exit_code rt\<rparr>
                      (rt_inferior_states rt)\<rparr>
                else rt);
          rt = synchronize_selected_state rt;
          rt = (if rt_follow_fork_mode rt = None then rt\<lparr>rt_follow_fork_mode := Some Parent\<rparr> else rt)
      in if rt_detach_on_fork rt = None then rt\<lparr>rt_detach_on_fork := Some True\<rparr> else rt)"

definition mark_failed :: "string \<Rightarrow> SessionRuntime \<Rightarrow> SessionRuntime" where
  "mark_failed message rt =
     reset_transient (rt\<lparr>rt_state := FAILED, rt_last_failure_message := Some message\<rparr>)"

definition mark_transport_terminated :: "string \<Rightarrow> SessionRuntime \<Rightarrow> SessionRuntime" where
  "mark_transport_terminated message rt =
     mark_failed message (rt\<lparr>rt_transport := (rt_transport rt)\<lparr>mc_controller := None\<rparr>\<rparr>)"

definition mark_stopped :: "SessionRuntime \<Rightarrow> SessionRuntime" where
  "mark_stopped rt = reset_transient (rt\<lparr>rt_state := STOPPED, rt_last_failure_message := None\<rparr>)"

definition mark_thread_selected :: "int option \<Rightarrow> SessionRuntime \<Rightarrow> SessionRuntime" where
  "mark_thread_selected thread_id rt = rt\<lparr>rt_current_thread_id := thread_id\<rparr>"

definition mark_frame_selected :: "int option \<Rightarrow> SessionRuntime \<Rightarrow> SessionRuntime" where
  "mark_frame_selected frame_number rt = rt\<lparr>rt_current_frame := frame_number\<rparr>"

definition bump_inferior_count :: "SessionRuntime \<Rightarrow> SessionRuntime" where
  "bump_inferior_count rt =
     (let n = int (length (rt_inferior_states rt)) in
      case rt_inferior_count rt of
        None \<Rightarrow> rt\<lparr>rt_inferior_count := Some n\<rparr>
      | Some k \<Rightarrow> if k < n then rt\<lparr>rt_inferior_count := Some n\<rparr> else rt)"

definition ensure_inferior :: "int \<Rightarrow> SessionRuntime \<Rightarrow> SessionRuntime" where
  "ensure_inferior inferior_id rt =
     (if inferior_id \<le> 0 then rt
      else bump_inferior_count
        (if map_of (rt_inferior_states rt) inferior_id = None
         then rt\<lparr>rt_inferior_states :=
                AList.update inferior_id fresh_inferior (rt_inferior_states rt)\<rparr>
         else rt))"

definition mark_inferior_selected :: "int option \<Rightarrow> SessionRuntime \<Rightarrow> SessionRuntime" where
  "mark_inferior_selected inferior_id rt0 =
     (let rt = rt0\<lparr>rt_current_inferior_id := inferior_id, rt_current_thread_id := None,
                   rt_current_frame := None\<rparr>;
          rt = (case inferior_id of None \<Rightarrow> rt | Some i \<Rightarrow> ensure_inferior i rt)
      in synchronize_selected_state rt)"

text \<open>The known state of each listed inferior, in the order of the list; a repeated number
  keeps one entry.\<close>

fun normalized_states ::
  "(int \<times> InferiorRuntimeState) list \<Rightarrow> int list \<Rightarrow> (int \<times> InferiorRuntimeState) list \<Rightarrow>
   (int \<times> InferiorRuntimeState) list" where
  "normalized_states known [] acc = acc"
| "normalized_states known (i # is) acc =
     normalized_states known is
       (AList.update i (case map_of known i of None \<Rightarrow> fresh_inferior | Some st \<Rightarrow> st) acc)"

definition update_inferior_inventory ::
  "int option \<Rightarrow> int \<Rightarrow> int list option \<Rightarrow> SessionRuntime \<Rightarrow> SessionRuntime" where
  "update_inferior_inventory current_inferior_id cnt inferior_ids rt0 =
     (let rt = (case inferior_ids of
                  None \<Rightarrow> rt0
                | Some ids \<Rightarrow>
                    rt0\<lparr>rt_inferior_states := normalized_states (rt_inferior_states rt0) ids []\<rparr>);
          rt = rt\<lparr>rt_current_inferior_id := current_inferior_id, rt_inferior_count := Some cnt\<rparr>;
          rt = (if rt_current_inferior_id rt = None \<and> rt_inferior_states rt \<noteq> []
                then rt\<lparr>rt_current_inferior_id := Some (min_list (map fst (rt_inferior_states rt)))\<rparr>
                else rt);
          rt = (case rt_current_inferior_id rt of None \<Rightarrow> rt | Some i \<Rightarrow> ensure_inferior i rt)
      in synchronize_selected_state rt)"

definition remove_inferior :: "int \<Rightarrow> SessionRuntime \<Rightarrow> SessionRuntime" where
  "remove_inferior inferior_id rt0 =
     (if map_of (rt_inferior_states rt0) inferior_id = None then rt0
      else
        let states = AList.delete inferior_id (rt_inferior_states rt0);
            rt = rt0\<lparr>rt_inferior_states := states, rt_inferior_count := Some (int (length states))\<rparr>;
            rt = (if rt_current_inferior_id rt = Some inferior_id then
                    rt\<lparr>rt_current_inferior_id :=
                         (if states \<noteq> [] then Some (min_list (map fst states)) else None),
                       rt_current_thread_id := None, rt_current_frame := None\<rparr>
                  else rt)
        in synchronize_selected_state rt)"

definition mark_follow_fork_mode :: "FollowForkMode option \<Rightarrow> SessionRuntime \<Rightarrow> SessionRuntime" where
  "mark_follow_fork_mode mode rt = rt\<lparr>rt_follow_fork_mode := mode\<rparr>"

definition mark_detach_on_fork :: "bool option \<Rightarrow> SessionRuntime \<Rightarrow> SessionRuntime" where
  "mark_detach_on_fork enabled rt = rt\<lparr>rt_detach_on_fork := enabled\<rparr>"

definition mark_attached :: "int \<Rightarrow> SessionRuntime \<Rightarrow> SessionRuntime" where
  "mark_attached pid rt = rt\<lparr>rt_attached_pid := Some pid\<rparr>"

definition clear_attached_pid :: "SessionRuntime \<Rightarrow> SessionRuntime" where
  "clear_attached_pid rt = rt\<lparr>rt_attached_pid := None\<rparr>"

text \<open>The inferior an update is for; an unset selection is set on the way.\<close>

definition resolve_target_inferior_id ::
  "int option \<Rightarrow> SessionRuntime \<Rightarrow> int \<times> SessionRuntime" where
  "resolve_target_inferior_id inferior_id rt =
     (case inferior_id of
        Some i \<Rightarrow>
          (i, if rt_current_inferior_id rt = None then rt\<lparr>rt_current_inferior_id := Some i\<rparr> else rt)
      | None \<Rightarrow>
          (case rt_current_inferior_id rt of
             None \<Rightarrow> (1, rt\<lparr>rt_current_inferior_id := Some 1\<rparr>)
           | Some i \<Rightarrow> (i, rt)))"

definition update_inferior_state ::
  "int option \<Rightarrow> InferiorRuntimeState \<Rightarrow> SessionRuntime \<Rightarrow> SessionRuntime" where
  "update_inferior_state inferior_id st rt0 =
     (case resolve_target_inferior_id inferior_id rt0 of
        (target, rt1) \<Rightarrow>
          (let rt = bump_inferior_count
                 (rt1\<lparr>rt_inferior_states := AList.update target st (rt_inferior_states rt1)\<rparr>)
           in if Some target = rt_current_inferior_id rt then mirror st rt else rt))"

definition mark_inferior_not_started :: "int option \<Rightarrow> SessionRuntime \<Rightarrow> SessionRuntime" where
  "mark_inferior_not_started inferior_id = update_inferior_state inferior_id
     \<lparr>irs_execution_state = NotStarted, irs_stop_reason = None, irs_exit_code = None\<rparr>"

definition mark_inferior_running :: "int option \<Rightarrow> SessionRuntime \<Rightarrow> SessionRuntime" where
  "mark_inferior_running inferior_id = update_inferior_state inferior_id
     \<lparr>irs_execution_state = Running, irs_stop_reason = None, irs_exit_code = None\<rparr>"

definition mark_inferior_paused ::
  "string option \<Rightarrow> int option \<Rightarrow> SessionRuntime \<Rightarrow> SessionRuntime" where
  "mark_inferior_paused reason inferior_id = update_inferior_state inferior_id
     \<lparr>irs_execution_state = Paused, irs_stop_reason = reason, irs_exit_code = None\<rparr>"

definition mark_inferior_exited ::
  "string option \<Rightarrow> int option \<Rightarrow> int option \<Rightarrow> SessionRuntime \<Rightarrow> SessionRuntime" where
  "mark_inferior_exited reason exit_code inferior_id = update_inferior_state inferior_id
     \<lparr>irs_execution_state = Exited, irs_stop_reason = reason, irs_exit_code = exit_code\<rparr>"

definition inferior_summary :: "SessionRuntime \<Rightarrow> int \<Rightarrow> InferiorStateRecord" where
  "inferior_summary rt i =
     (let st = the (map_of (rt_inferior_states rt) i) in
      \<lparr>isr_inferior_id = i, isr_is_current = (Some i = rt_current_inferior_id rt),
       isr_execution_state = irs_execution_state st, isr_stop_reason = irs_stop_reason st,
       isr_exit_code = irs_exit_code st\<rparr>)"

definition inferiors_state_summary :: "SessionRuntime \<Rightarrow> InferiorStateRecord list" where
  "inferiors_state_summary rt =
     map (inferior_summary rt) (sort (map fst (rt_inferior_states rt)))"

definition trim_history :: "'a list \<Rightarrow> int \<Rightarrow> 'a list" where
  "trim_history items limit =
     (if limit < 1 then []
      else let overflow = int (length items) - limit
           in if overflow > 0 then drop (nat overflow) items else items)"

definition record_stop_event :: "StopEvent \<Rightarrow> SessionRuntime \<Rightarrow> SessionRuntime" where
  "record_stop_event event rt =
     rt\<lparr>rt_last_stop_event := Some event,
        rt_stop_history := trim_history (rt_stop_history rt @ [event]) (rt_stop_history_limit rt)\<rparr>"

definition record_command_transcript ::
  "CommandTranscriptEntry \<Rightarrow> SessionRuntime \<Rightarrow> SessionRuntime" where
  "record_command_transcript entry rt =
     rt\<lparr>rt_command_transcript :=
          trim_history (rt_command_transcript rt @ [entry]) (rt_command_transcript_limit rt)\<rparr>"

definition sample_stop_event :: StopEvent where
  "sample_stop_event = \<lparr>sev_execution_state = Paused, sev_reason = Some ''breakpoint-hit'',
     sev_command = None, sev_inferior_id = Some 1, sev_thread_id = Some 1, sev_frame = None,
     sev_signal_name = None, sev_signal_meaning = None, sev_breakpoint_number = Some ''1'',
     sev_exit_code = None, sev_timestamp = None, sev_details = []\<rparr>"

section \<open>Invariants\<close>

text \<open>
  One entry per inferior, and the top-level fields show the selected inferior (or nothing
  when none is selected).
\<close>

definition mirror_ok :: "SessionRuntime \<Rightarrow> bool" where
  "mirror_ok rt \<longleftrightarrow>
     (case rt_current_inferior_id rt of
        None \<Rightarrow> rt_execution_state rt = Unknown \<and> rt_stop_reason rt = None \<and> rt_exit_code rt = None
      | Some i \<Rightarrow> map_of (rt_inferior_states rt) i =
          Some \<lparr>irs_execution_state = rt_execution_state rt, irs_stop_reason = rt_stop_reason rt,
                irs_exit_code = rt_exit_code rt\<rparr>)"

definition inferiors_ok :: "SessionRuntime \<Rightarrow> bool" where
  "inferiors_ok rt \<longleftrightarrow> distinct (map fst (rt_inferior_states rt)) \<and> mirror_ok rt"

definition lifecycle_ok :: "SessionRuntime \<Rightarrow> bool" where
  "lifecycle_ok rt \<longleftrightarrow> (rt_is_running rt \<longleftrightarrow> rt_state rt = READY)"

text \<open>Bounded histories, the latest stop event last.\<close>

definition history_ok :: "SessionRuntime \<Rightarrow> bool" where
  "history_ok rt \<longleftrightarrow>
     int (length (rt_stop_history rt)) \<le> max 0 (rt_stop_history_limit rt)
     \<and> int (length (rt_command_transcript rt)) \<le> max 0 (rt_command_transcript_limit rt)
     \<and> (rt_stop_history rt \<noteq> [] \<longrightarrow> rt_last_stop_event rt = Some (last (rt_stop_history rt)))
     \<and> (1 \<le> rt_stop_history_limit rt \<longrightarrow> rt_stop_history rt = [] \<longrightarrow> rt_last_stop_event rt = None)"

definition rt_ok :: "SessionRuntime \<Rightarrow> bool" where
  "rt_ok rt \<longleftrightarrow> inferiors_ok rt \<and> lifecycle_ok rt \<and> history_ok rt"

text \<open>The fields an operation on the inferiors may change, given by their new values.\<close>

lemma rt_ok_new: "rt_ok (new_runtime c)"
  by (simp add: rt_ok_def inferiors_ok_def mirror_ok_def lifecycle_ok_def history_ok_def
      new_runtime_def default_stop_history_limit_def default_command_transcript_limit_def)

lemmas rt_ok_defs = rt_ok_def inferiors_ok_def mirror_ok_def lifecycle_ok_def history_ok_def

lemma lifecycle_history_update [simp]:
  "lifecycle_ok (rt\<lparr>rt_inferior_states := x_rt_inferior_states\<rparr>) = lifecycle_ok rt"
  "history_ok (rt\<lparr>rt_inferior_states := x_rt_inferior_states\<rparr>) = history_ok rt"
  "lifecycle_ok (rt\<lparr>rt_current_inferior_id := x_rt_current_inferior_id\<rparr>) = lifecycle_ok rt"
  "history_ok (rt\<lparr>rt_current_inferior_id := x_rt_current_inferior_id\<rparr>) = history_ok rt"
  "lifecycle_ok (rt\<lparr>rt_inferior_count := x_rt_inferior_count\<rparr>) = lifecycle_ok rt"
  "history_ok (rt\<lparr>rt_inferior_count := x_rt_inferior_count\<rparr>) = history_ok rt"
  "lifecycle_ok (rt\<lparr>rt_current_thread_id := x_rt_current_thread_id\<rparr>) = lifecycle_ok rt"
  "history_ok (rt\<lparr>rt_current_thread_id := x_rt_current_thread_id\<rparr>) = history_ok rt"
  "lifecycle_ok (rt\<lparr>rt_current_frame := x_rt_current_frame\<rparr>) = lifecycle_ok rt"
  "history_ok (rt\<lparr>rt_current_frame := x_rt_current_frame\<rparr>) = history_ok rt"
  "lifecycle_ok (rt\<lparr>rt_attached_pid := x_rt_attached_pid\<rparr>) = lifecycle_ok rt"
  "history_ok (rt\<lparr>rt_attached_pid := x_rt_attached_pid\<rparr>) = history_ok rt"
  "lifecycle_ok (rt\<lparr>rt_target_loaded := x_rt_target_loaded\<rparr>) = lifecycle_ok rt"
  "history_ok (rt\<lparr>rt_target_loaded := x_rt_target_loaded\<rparr>) = history_ok rt"
  "lifecycle_ok (rt\<lparr>rt_follow_fork_mode := x_rt_follow_fork_mode\<rparr>) = lifecycle_ok rt"
  "history_ok (rt\<lparr>rt_follow_fork_mode := x_rt_follow_fork_mode\<rparr>) = history_ok rt"
  "lifecycle_ok (rt\<lparr>rt_detach_on_fork := x_rt_detach_on_fork\<rparr>) = lifecycle_ok rt"
  "history_ok (rt\<lparr>rt_detach_on_fork := x_rt_detach_on_fork\<rparr>) = history_ok rt"
  "lifecycle_ok (rt\<lparr>rt_transport := x_rt_transport\<rparr>) = lifecycle_ok rt"
  "history_ok (rt\<lparr>rt_transport := x_rt_transport\<rparr>) = history_ok rt"
  "lifecycle_ok (rt\<lparr>rt_execution_state := x_rt_execution_state\<rparr>) = lifecycle_ok rt"
  "history_ok (rt\<lparr>rt_execution_state := x_rt_execution_state\<rparr>) = history_ok rt"
  "lifecycle_ok (rt\<lparr>rt_stop_reason := x_rt_stop_reason\<rparr>) = lifecycle_ok rt"
  "history_ok (rt\<lparr>rt_stop_reason := x_rt_stop_reason\<rparr>) = history_ok rt"
  "lifecycle_ok (rt\<lparr>rt_exit_code := x_rt_exit_code\<rparr>) = lifecycle_ok rt"
  "history_ok (rt\<lparr>rt_exit_code := x_rt_exit_code\<rparr>) = history_ok rt"
  "lifecycle_ok (rt\<lparr>rt_disassemble_a_supported := x_rt_disassemble_a_supported\<rparr>) = lifecycle_ok rt"
  "history_ok (rt\<lparr>rt_disassemble_a_supported := x_rt_disassemble_a_supported\<rparr>) = history_ok rt"
  "lifecycle_ok (rt\<lparr>rt_read_memory_bytes_supported := x_rt_read_memory_bytes_supported\<rparr>) = lifecycle_ok rt"
  "history_ok (rt\<lparr>rt_read_memory_bytes_supported := x_rt_read_memory_bytes_supported\<rparr>) = history_ok rt"
  "lifecycle_ok (rt\<lparr>rt_last_failure_message := x_rt_last_failure_message\<rparr>) = lifecycle_ok rt"
  "history_ok (rt\<lparr>rt_last_failure_message := x_rt_last_failure_message\<rparr>) = history_ok rt"
  by (simp_all add: lifecycle_ok_def history_ok_def)

lemma inferiors_ok_update [simp]:
  "inferiors_ok (rt\<lparr>rt_current_thread_id := x_rt_current_thread_id\<rparr>) = inferiors_ok rt"
  "inferiors_ok (rt\<lparr>rt_current_frame := x_rt_current_frame\<rparr>) = inferiors_ok rt"
  "inferiors_ok (rt\<lparr>rt_attached_pid := x_rt_attached_pid\<rparr>) = inferiors_ok rt"
  "inferiors_ok (rt\<lparr>rt_target_loaded := x_rt_target_loaded\<rparr>) = inferiors_ok rt"
  "inferiors_ok (rt\<lparr>rt_follow_fork_mode := x_rt_follow_fork_mode\<rparr>) = inferiors_ok rt"
  "inferiors_ok (rt\<lparr>rt_detach_on_fork := x_rt_detach_on_fork\<rparr>) = inferiors_ok rt"
  "inferiors_ok (rt\<lparr>rt_transport := x_rt_transport\<rparr>) = inferiors_ok rt"
  "inferiors_ok (rt\<lparr>rt_inferior_count := x_rt_inferior_count\<rparr>) = inferiors_ok rt"
  "inferiors_ok (rt\<lparr>rt_disassemble_a_supported := x_rt_disassemble_a_supported\<rparr>) = inferiors_ok rt"
  "inferiors_ok (rt\<lparr>rt_read_memory_bytes_supported := x_rt_read_memory_bytes_supported\<rparr>) = inferiors_ok rt"
  "inferiors_ok (rt\<lparr>rt_state := x_rt_state\<rparr>) = inferiors_ok rt"
  "inferiors_ok (rt\<lparr>rt_is_running := x_rt_is_running\<rparr>) = inferiors_ok rt"
  "inferiors_ok (rt\<lparr>rt_last_failure_message := x_rt_last_failure_message\<rparr>) = inferiors_ok rt"
  by (simp_all add: inferiors_ok_def mirror_ok_def cong: option.case_cong)

lemma mirror_simps [simp]:
  "rt_inferior_states (mirror st rt) = rt_inferior_states rt"
  "rt_current_inferior_id (mirror st rt) = rt_current_inferior_id rt"
  "rt_inferior_count (mirror st rt) = rt_inferior_count rt"
  "rt_execution_state (mirror st rt) = irs_execution_state st"
  "rt_stop_reason (mirror st rt) = irs_stop_reason st"
  "rt_exit_code (mirror st rt) = irs_exit_code st"
  "lifecycle_ok (mirror st rt) = lifecycle_ok rt"
  "history_ok (mirror st rt) = history_ok rt"
  "rt_transport (mirror st rt) = rt_transport rt"
  "rt_state (mirror st rt) = rt_state rt"
  by (simp_all add: mirror_def lifecycle_ok_def history_ok_def)

lemma distinct_update_keys:
  "distinct (map fst d) \<Longrightarrow> distinct (map fst (AList.update k v d))"
  by (simp add: distinct_update)

lemma sync_inferiors_ok:
  assumes d: "distinct (map fst (rt_inferior_states rt))"
  shows "inferiors_ok (synchronize_selected_state rt)"
proof (cases "rt_current_inferior_id rt")
  case None
  with d show ?thesis
    by (simp add: synchronize_selected_state_def inferiors_ok_def mirror_ok_def fresh_inferior_def)
next
  case (Some i)
  show ?thesis
  proof (cases "map_of (rt_inferior_states rt) i")
    case None
    with Some d show ?thesis
      by (simp add: synchronize_selected_state_def inferiors_ok_def mirror_ok_def fresh_inferior_def
          distinct_update update_conv' del: map_of_eq_Some_iff)
  next
    case (Some st)
    with \<open>rt_current_inferior_id rt = Some i\<close> d show ?thesis
      by (cases st) (simp add: synchronize_selected_state_def inferiors_ok_def mirror_ok_def
          del: map_of_eq_Some_iff)
  qed
qed

lemma sync_frame [simp]:
  "lifecycle_ok (synchronize_selected_state rt) = lifecycle_ok rt"
  "history_ok (synchronize_selected_state rt) = history_ok rt"
  "rt_transport (synchronize_selected_state rt) = rt_transport rt"
  "rt_current_inferior_id (synchronize_selected_state rt) = rt_current_inferior_id rt"
  "rt_state (synchronize_selected_state rt) = rt_state rt"
  "rt_inferior_count (synchronize_selected_state rt) = rt_inferior_count rt"
  by (simp_all add: synchronize_selected_state_def split: option.split)

lemma bump_is_update:
  "bump_inferior_count rt = rt\<lparr>rt_inferior_count :=
     (let n = int (length (rt_inferior_states rt)) in
      case rt_inferior_count rt of None \<Rightarrow> Some n | Some k \<Rightarrow> Some (max k n))\<rparr>"
proof (cases "rt_inferior_count rt")
  case None
  then show ?thesis by (simp add: bump_inferior_count_def Let_def)
next
  case (Some k)
  have "rt\<lparr>rt_inferior_count := rt_inferior_count rt\<rparr> = rt" by simp
  with Some have "rt\<lparr>rt_inferior_count := Some k\<rparr> = rt" by simp
  with Some show ?thesis by (simp add: bump_inferior_count_def Let_def max_def)
qed

lemma bump_frame [simp]:
  "rt_inferior_states (bump_inferior_count rt) = rt_inferior_states rt"
  "rt_current_inferior_id (bump_inferior_count rt) = rt_current_inferior_id rt"
  "inferiors_ok (bump_inferior_count rt) = inferiors_ok rt"
  "lifecycle_ok (bump_inferior_count rt) = lifecycle_ok rt"
  "history_ok (bump_inferior_count rt) = history_ok rt"
  "rt_transport (bump_inferior_count rt) = rt_transport rt"
  "rt_state (bump_inferior_count rt) = rt_state rt"
  by (simp_all add: bump_is_update)

lemma ensure_frame [simp]:
  "rt_current_inferior_id (ensure_inferior i rt) = rt_current_inferior_id rt"
  "lifecycle_ok (ensure_inferior i rt) = lifecycle_ok rt"
  "history_ok (ensure_inferior i rt) = history_ok rt"
  "rt_transport (ensure_inferior i rt) = rt_transport rt"
  "rt_state (ensure_inferior i rt) = rt_state rt"
  by (simp_all add: ensure_inferior_def)

lemma rt_ok_sync:
  "lifecycle_ok rt \<Longrightarrow> history_ok rt \<Longrightarrow> distinct (map fst (rt_inferior_states rt)) \<Longrightarrow>
   rt_ok (synchronize_selected_state rt)"
  by (simp add: rt_ok_def sync_inferiors_ok)

lemma ensure_distinct:
  "distinct (map fst (rt_inferior_states rt)) \<Longrightarrow>
   distinct (map fst (rt_inferior_states (ensure_inferior i rt)))"
  by (simp add: ensure_inferior_def distinct_update)

lemma inferiors_ok_put:
  assumes "inferiors_ok rt" and "rt_current_inferior_id rt \<noteq> Some i"
  shows "inferiors_ok (rt\<lparr>rt_inferior_states := AList.update i st (rt_inferior_states rt)\<rparr>)"
  using assms by (cases "rt_current_inferior_id rt")
    (auto simp: inferiors_ok_def mirror_ok_def distinct_update update_conv' simp del: map_of_eq_Some_iff)

lemma inferiors_ok_unlisted:
  "inferiors_ok rt \<Longrightarrow> map_of (rt_inferior_states rt) i = None \<Longrightarrow> rt_current_inferior_id rt \<noteq> Some i"
  by (auto simp: inferiors_ok_def mirror_ok_def simp del: map_of_eq_Some_iff)

lemma rt_ok_ensure: "rt_ok rt \<Longrightarrow> rt_ok (ensure_inferior i rt)"
  by (simp add: rt_ok_def ensure_inferior_def inferiors_ok_put inferiors_ok_unlisted)

lemma resolve_frame:
  assumes "resolve_target_inferior_id i rt = (t, rt')"
  shows "rt_inferior_states rt' = rt_inferior_states rt" "lifecycle_ok rt' = lifecycle_ok rt"
    "history_ok rt' = history_ok rt" "rt_transport rt' = rt_transport rt" "rt_state rt' = rt_state rt"
    "rt_current_inferior_id rt' \<noteq> None"
    "rt_current_inferior_id rt \<noteq> None \<Longrightarrow> rt' = rt"
    "rt_current_inferior_id rt = None \<Longrightarrow> rt_current_inferior_id rt' = Some t"
  using assms by (auto simp: resolve_target_inferior_id_def lifecycle_ok_def history_ok_def
      split: option.splits if_splits)

lemma update_inferior_state_frame [simp]:
  "lifecycle_ok (update_inferior_state i st rt) = lifecycle_ok rt"
  "history_ok (update_inferior_state i st rt) = history_ok rt"
  "rt_transport (update_inferior_state i st rt) = rt_transport rt"
  "rt_state (update_inferior_state i st rt) = rt_state rt"
proof -
  obtain t rt1 where r: "resolve_target_inferior_id i rt = (t, rt1)"
    by (cases "resolve_target_inferior_id i rt")
  have "lifecycle_ok (rt1\<lparr>rt_inferior_states := x\<rparr>) = lifecycle_ok rt1"
    "history_ok (rt1\<lparr>rt_inferior_states := x\<rparr>) = history_ok rt1" for x
    by (simp_all add: lifecycle_ok_def history_ok_def)
  then show "lifecycle_ok (update_inferior_state i st rt) = lifecycle_ok rt"
    "history_ok (update_inferior_state i st rt) = history_ok rt"
    "rt_transport (update_inferior_state i st rt) = rt_transport rt"
    "rt_state (update_inferior_state i st rt) = rt_state rt"
    using resolve_frame [OF r] by (simp_all add: update_inferior_state_def r Let_def)
qed

lemma update_inferior_state_inferiors_ok:
  assumes ok: "inferiors_ok rt"
  shows "inferiors_ok (update_inferior_state i st rt)"
proof -
  obtain t rt1 where r: "resolve_target_inferior_id i rt = (t, rt1)"
    by (cases "resolve_target_inferior_id i rt")
  note f = resolve_frame [OF r]
  have d: "distinct (map fst (AList.update t st (rt_inferior_states rt1)))"
    using ok f(1) by (simp add: inferiors_ok_def distinct_update)
  show ?thesis
  proof (cases "Some t = rt_current_inferior_id rt1")
    case True
    with d show ?thesis
      by (auto simp: update_inferior_state_def r Let_def inferiors_ok_def mirror_ok_def update_conv'
          split: option.splits)
  next
    case False
    with f have "rt1 = rt" by metis
    with False ok show ?thesis
      by (auto simp: update_inferior_state_def r Let_def inferiors_ok_put)
  qed
qed

lemma rt_ok_update_state: "rt_ok rt \<Longrightarrow> rt_ok (update_inferior_state i st rt)"
  by (simp add: rt_ok_def update_inferior_state_inferiors_ok)

lemmas mark_inferior_defs = mark_inferior_not_started_def mark_inferior_running_def
  mark_inferior_paused_def mark_inferior_exited_def

lemma rt_ok_marks:
  assumes "rt_ok rt"
  shows "rt_ok (mark_inferior_not_started i rt)" "rt_ok (mark_inferior_running i rt)"
    "rt_ok (mark_inferior_paused reason i rt)" "rt_ok (mark_inferior_exited reason code i rt)"
  using assms by (simp_all add: mark_inferior_defs rt_ok_update_state)

lemma rt_ok_selected: "rt_ok rt \<Longrightarrow> rt_ok (mark_inferior_selected i rt)"
  unfolding mark_inferior_selected_def Let_def
  by (rule rt_ok_sync; cases i)
    (auto simp: rt_ok_def inferiors_ok_def intro!: ensure_distinct)

lemma normalized_distinct:
  "distinct (map fst acc) \<Longrightarrow> distinct (map fst (normalized_states known is acc))"
  by (induction known "is" acc rule: normalized_states.induct) (simp_all add: distinct_update)

lemma rt_ok_inventory: "rt_ok rt \<Longrightarrow> rt_ok (update_inferior_inventory cur n ids rt)"
  unfolding update_inferior_inventory_def Let_def
  by (rule rt_ok_sync; cases ids; cases cur)
    (auto simp: rt_ok_def inferiors_ok_def normalized_distinct intro!: ensure_distinct)

lemma rt_ok_remove: "rt_ok rt \<Longrightarrow> rt_ok (remove_inferior i rt)"
proof (cases "map_of (rt_inferior_states rt) i = None")
  case False
  assume "rt_ok rt"
  with False show ?thesis
    unfolding remove_inferior_def Let_def if_not_P [OF False]
    by (intro rt_ok_sync) (auto simp: rt_ok_def inferiors_ok_def distinct_delete)
qed (simp add: remove_inferior_def)

lemma rt_ok_reset:
  "history_ok rt \<Longrightarrow> rt_state rt \<noteq> READY \<Longrightarrow> rt_ok (reset_transient rt)"
  by (simp add: reset_transient_def rt_ok_defs)

lemma rt_ok_failed: "rt_ok rt \<Longrightarrow> rt_ok (mark_failed m rt)"
  unfolding mark_failed_def by (rule rt_ok_reset) (simp_all add: rt_ok_def history_ok_def)

lemma rt_ok_terminated: "rt_ok rt \<Longrightarrow> rt_ok (mark_transport_terminated m rt)"
  unfolding mark_transport_terminated_def
  by (rule rt_ok_failed) (simp add: rt_ok_def)

lemma rt_ok_stopped: "rt_ok rt \<Longrightarrow> rt_ok (mark_stopped rt)"
  unfolding mark_stopped_def by (rule rt_ok_reset) (simp_all add: rt_ok_def history_ok_def)

lemma rt_ok_begin: "rt_ok rt \<Longrightarrow> rt_ok (begin_startup cfg rt)"
  by (simp add: begin_startup_def reset_transient_def rt_ok_defs)

lemma rt_ok_ready: "rt_ok rt \<Longrightarrow> rt_ok (mark_ready rt)"
proof -
  assume ok: "rt_ok rt"
  let ?r = "rt\<lparr>rt_state := READY, rt_is_running := True, rt_last_failure_message := None\<rparr>"
  have "lifecycle_ok ?r" "history_ok ?r" "distinct (map fst (rt_inferior_states ?r))"
    using ok by (simp_all add: rt_ok_defs)
  then show ?thesis
    by (auto simp: mark_ready_def Let_def rt_ok_def intro!: sync_inferiors_ok distinct_update_keys)
qed

lemma rt_ok_fields:
  assumes "rt_ok rt"
  shows "rt_ok (mark_thread_selected t rt)" "rt_ok (mark_frame_selected f rt)"
    "rt_ok (mark_follow_fork_mode m rt)" "rt_ok (mark_detach_on_fork b rt)"
    "rt_ok (mark_attached p rt)" "rt_ok (clear_attached_pid rt)"
    "rt_ok (rt\<lparr>rt_target_loaded := l\<rparr>)" "rt_ok (rt\<lparr>rt_transport := c\<rparr>)"
    "rt_ok (rt\<lparr>rt_disassemble_a_supported := d\<rparr>)" "rt_ok (rt\<lparr>rt_read_memory_bytes_supported := d\<rparr>)"
  using assms
  by (simp_all add: rt_ok_def mark_thread_selected_def mark_frame_selected_def
      mark_follow_fork_mode_def mark_detach_on_fork_def mark_attached_def clear_attached_pid_def)

section \<open>Bounded histories\<close>

text \<open>
  The contract of a history: an entry is appended and the history is trimmed to its limit.
  Stop events and the command transcript are both such histories.
\<close>

locale bounded_history =
  fixes push :: "'e \<Rightarrow> 's \<Rightarrow> 's" and entries :: "'s \<Rightarrow> 'e list" and bound :: "'s \<Rightarrow> int"
  assumes entries_push: "entries (push e s) = trim_history (entries s @ [e]) (bound s)"
    and bound_push: "bound (push e s) = bound s"
begin

lemma push_length: "int (length (entries (push e s))) \<le> max 0 (bound s)"
  by (simp add: entries_push trim_history_def Let_def)

lemma push_last: "1 \<le> bound s \<Longrightarrow> entries (push e s) \<noteq> [] \<and> last (entries (push e s)) = e"
  by (auto simp: entries_push trim_history_def Let_def last_drop)

lemma bound_fold: "bound (fold push es s) = bound s"
  by (induction es arbitrary: s) (simp_all add: bound_push)

lemma entries_push_drop:
  "1 \<le> bound s \<Longrightarrow> entries (push e s) =
     drop (length (entries s @ [e]) - nat (bound s)) (entries s @ [e])"
  by (auto simp: entries_push trim_history_def Let_def nat_diff_distrib intro!: arg_cong2 [of _ _ _ _ drop])

lemma entries_fold:
  assumes "1 \<le> bound s" and "int (length (entries s)) \<le> bound s"
  shows "entries (fold push es s) =
     drop (length (entries s @ es) - nat (bound s)) (entries s @ es)"
  using assms
proof (induction es rule: rev_induct)
  case Nil
  then show ?case by simp
next
  case (snoc e es)
  let ?t = "fold push es s"
  have b: "bound ?t = bound s" by (rule bound_fold)
  have "entries (push e ?t) = drop (length (entries ?t @ [e]) - nat (bound s)) (entries ?t @ [e])"
    using entries_push_drop [of ?t e] snoc.prems(1) b by simp
  also have "entries ?t = drop (length (entries s @ es) - nat (bound s)) (entries s @ es)"
    using snoc by simp
  finally show ?case
    using keep_last_snoc [of "nat (bound s)" "entries s @ es" e] snoc.prems(1) by simp
qed

end

interpretation stop_log: bounded_history record_stop_event rt_stop_history rt_stop_history_limit
  by unfold_locales (simp_all add: record_stop_event_def)

interpretation transcript_log:
  bounded_history record_command_transcript rt_command_transcript rt_command_transcript_limit
  by unfold_locales (simp_all add: record_command_transcript_def)

lemma rt_ok_stop_event: "rt_ok rt \<Longrightarrow> rt_ok (record_stop_event e rt)"
  using stop_log.push_length [of e rt] stop_log.push_last [of rt e]
  by (auto simp: rt_ok_def record_stop_event_def lifecycle_ok_def history_ok_def inferiors_ok_def
      mirror_ok_def trim_history_def Let_def split: option.splits if_splits)

lemma rt_ok_transcript: "rt_ok rt \<Longrightarrow> rt_ok (record_command_transcript e rt)"
  using transcript_log.push_length [of e rt]
  by (auto simp: rt_ok_def record_command_transcript_def lifecycle_ok_def history_ok_def
      inferiors_ok_def mirror_ok_def split: option.splits)

section \<open>The runtime as a state machine\<close>

text \<open>One step is one method call on the runtime, with any arguments.\<close>

inductive runtime_step :: "SessionRuntime \<Rightarrow> SessionRuntime \<Rightarrow> bool" where
  "runtime_step rt (begin_startup cfg rt)"
| "runtime_step rt (mark_ready rt)"
| "runtime_step rt (mark_failed m rt)"
| "runtime_step rt (mark_transport_terminated m rt)"
| "runtime_step rt (mark_stopped rt)"
| "runtime_step rt (mark_thread_selected t rt)"
| "runtime_step rt (mark_frame_selected f rt)"
| "runtime_step rt (mark_inferior_selected i rt)"
| "runtime_step rt (update_inferior_inventory i n ids rt)"
| "runtime_step rt (ensure_inferior k rt)"
| "runtime_step rt (remove_inferior k rt)"
| "runtime_step rt (mark_follow_fork_mode fm rt)"
| "runtime_step rt (mark_detach_on_fork b rt)"
| "runtime_step rt (mark_attached p rt)"
| "runtime_step rt (clear_attached_pid rt)"
| "runtime_step rt (mark_inferior_not_started i rt)"
| "runtime_step rt (mark_inferior_running i rt)"
| "runtime_step rt (mark_inferior_paused reason i rt)"
| "runtime_step rt (mark_inferior_exited reason code i rt)"
| "runtime_step rt (record_stop_event ev rt)"
| "runtime_step rt (record_command_transcript entry rt)"
| "runtime_step rt (rt\<lparr>rt_target_loaded := l\<rparr>)"
| "runtime_step rt (rt\<lparr>rt_disassemble_a_supported := d\<rparr>)"
| "runtime_step rt (rt\<lparr>rt_read_memory_bytes_supported := d\<rparr>)"
| "runtime_step rt (rt\<lparr>rt_transport := c\<rparr>)"

inductive_cases runtime_stepE: "runtime_step rt rt'"

lemmas rt_ok_intros = rt_ok_begin rt_ok_ready rt_ok_failed rt_ok_terminated rt_ok_stopped
  rt_ok_selected rt_ok_inventory rt_ok_ensure rt_ok_remove rt_ok_marks rt_ok_fields
  rt_ok_stop_event rt_ok_transcript

lemma runtime_step_ok: "runtime_step rt rt' \<Longrightarrow> rt_ok rt \<Longrightarrow> rt_ok rt'"
  by (induction rule: runtime_step.induct) (auto intro: rt_ok_intros)

section \<open>Properties\<close>

text \<open>
  C10. In every state a session runtime can reach, by any sequence of calls with any
  arguments: each inferior has one entry; the top-level execution state, stop reason and
  exit code are those of the selected inferior (or unknown when none is selected); the
  session reports running exactly when its lifecycle state is READY; both histories are
  within their limits and the last stop event is the newest one recorded.
\<close>

theorem runtime_invariant:
  assumes "runtime_step\<^sup>*\<^sup>* (new_runtime c) rt"
  shows "rt_ok rt"
  using assms by (induction rule: rtranclp_induct) (auto intro: rt_ok_new runtime_step_ok)

theorem runtime_invariant_witness:
  "rt_ok (mark_inferior_paused (Some ''breakpoint-hit'') (Some 2) (mark_ready (new_runtime (sample_client []))))"
proof (rule runtime_invariant)
  let ?n = "new_runtime (sample_client [])"
  have "runtime_step ?n (mark_ready ?n)"
    "runtime_step (mark_ready ?n) (mark_inferior_paused (Some ''breakpoint-hit'') (Some 2) (mark_ready ?n))"
    by (rule runtime_step.intros)+
  then show "runtime_step\<^sup>*\<^sup>* ?n (mark_inferior_paused (Some ''breakpoint-hit'') (Some 2) (mark_ready ?n))"
    by (meson rtranclp.rtrancl_into_rtrancl rtranclp.rtrancl_refl)
qed

text \<open>
  C37. A bounded history holds exactly the newest entries: after any sequence of stop
  events on a history within its limit, it is the last \<open>limit\<close> of everything recorded, in
  order of recording; the same is true of the command transcript.
\<close>

theorem histories_keep_newest:
  assumes "1 \<le> rt_stop_history_limit rt" and "1 \<le> rt_command_transcript_limit rt"
    and "history_ok rt"
  shows "rt_stop_history (fold record_stop_event evs rt) =
       drop (length (rt_stop_history rt @ evs) - nat (rt_stop_history_limit rt)) (rt_stop_history rt @ evs)
     \<and> rt_command_transcript (fold record_command_transcript cs rt) =
       drop (length (rt_command_transcript rt @ cs) - nat (rt_command_transcript_limit rt))
         (rt_command_transcript rt @ cs)"
  using assms stop_log.entries_fold [of rt evs] transcript_log.entries_fold [of rt cs]
  by (simp add: history_ok_def)

theorem histories_keep_newest_witness:
  "length (rt_stop_history (fold record_stop_event (replicate 60 sample_stop_event)
      (new_runtime (sample_client [])))) = 50"
  using histories_keep_newest [of "new_runtime (sample_client [])" "replicate 60 sample_stop_event" "[]"]
    rt_ok_new [of "sample_client []"]
  by (simp add: rt_ok_def new_runtime_def default_stop_history_limit_def
      default_command_transcript_limit_def)

text \<open>
  A state change concerns one inferior: marking an inferior paused, running, exited or
  not started gives exactly the target the new state and leaves every other inferior's state
  alone; the target is the inferior asked for, else the selected one, else inferior 1, and
  an unset selection becomes the target while a set one stays.
\<close>

theorem update_inferior_state_target:
  "let target = (case i of Some k \<Rightarrow> k | None \<Rightarrow>
         (case rt_current_inferior_id rt of Some k \<Rightarrow> k | None \<Rightarrow> 1));
       rt' = update_inferior_state i st rt
   in map_of (rt_inferior_states rt') = (map_of (rt_inferior_states rt))(target \<mapsto> st)
      \<and> rt_current_inferior_id rt' =
          (case rt_current_inferior_id rt of None \<Rightarrow> Some target | Some k \<Rightarrow> Some k)"
  by (auto simp: update_inferior_state_def resolve_target_inferior_id_def Let_def update_conv'
      split: option.splits)

text \<open>
  Removing an inferior: its entry goes and no other entry changes, the count is the
  number of entries left, and the selection never dangles: a selection of the removed
  inferior moves to the smallest inferior left (or to none) and forgets thread and frame,
  any other selection is kept.
\<close>

theorem remove_inferior_correct:
  assumes ok: "rt_ok rt" and known: "map_of (rt_inferior_states rt) i \<noteq> None"
  shows "let rt' = remove_inferior i rt; left = AList.delete i (rt_inferior_states rt) in
     map_of (rt_inferior_states rt') = (map_of (rt_inferior_states rt))(i := None)
     \<and> rt_inferior_count rt' = Some (int (length (rt_inferior_states rt')))
     \<and> (if rt_current_inferior_id rt = Some i
        then rt_current_inferior_id rt' =
               (if left = [] then None else Some (min_list (map fst left)))
             \<and> rt_current_thread_id rt' = None \<and> rt_current_frame rt' = None
        else rt_current_inferior_id rt' = rt_current_inferior_id rt)"
proof -
  let ?left = "AList.delete i (rt_inferior_states rt)"
  define x where "x = (if rt_current_inferior_id rt = Some i
      then rt\<lparr>rt_inferior_states := ?left, rt_inferior_count := Some (int (length ?left)),
              rt_current_inferior_id := (if ?left \<noteq> [] then Some (min_list (map fst ?left)) else None),
              rt_current_thread_id := None, rt_current_frame := None\<rparr>
      else rt\<lparr>rt_inferior_states := ?left, rt_inferior_count := Some (int (length ?left))\<rparr>)"
  have r: "remove_inferior i rt = synchronize_selected_state x"
    unfolding remove_inferior_def Let_def x_def if_not_P [OF known] by simp
  have states: "rt_inferior_states x = ?left" "rt_inferior_count x = Some (int (length ?left))"
    by (simp_all add: x_def)
  have listed: "map_of ?left k \<noteq> None" if "rt_current_inferior_id x = Some k" for k
  proof (cases "rt_current_inferior_id rt = Some i")
    case True
    with that have ne: "?left \<noteq> []" "k = min_list (map fst ?left)"
      by (auto simp: x_def split: if_splits)
    then have "k \<in> set (map fst ?left)" by (simp add: min_list_Min)
    then show ?thesis by (auto simp: map_of_eq_None_iff)
  next
    case False
    with that have "rt_current_inferior_id rt = Some k" "k \<noteq> i" by (auto simp: x_def)
    with ok show ?thesis
      using inferiors_ok_unlisted [of rt k] by (auto simp: rt_ok_def delete_conv')
  qed
  have sync: "\<exists>st. synchronize_selected_state x = mirror st x"
    using listed by (auto simp: synchronize_selected_state_def states(1) split: option.splits
        simp del: map_of_eq_Some_iff)
  then obtain st where st: "remove_inferior i rt = mirror st x" using r by auto
  have frame: "rt_current_thread_id (mirror st x) = rt_current_thread_id x"
    "rt_current_frame (mirror st x) = rt_current_frame x" by (simp_all add: mirror_def)
  show ?thesis
    unfolding st Let_def using frame by (simp add: states delete_conv') (simp add: x_def)
qed

theorem remove_inferior_correct_witness:
  "rt_current_inferior_id (remove_inferior 1
      (ensure_inferior 2 (mark_ready (new_runtime (sample_client []))))) = Some 2"
proof -
  let ?rt = "ensure_inferior 2 (mark_ready (new_runtime (sample_client [])))"
  have ok: "rt_ok ?rt" by (intro rt_ok_intros rt_ok_new)
  have k: "map_of (rt_inferior_states ?rt) 1 \<noteq> None" by code_simp
  have "rt_current_inferior_id ?rt = Some 1" "AList.delete 1 (rt_inferior_states ?rt) \<noteq> []"
    "min_list (map fst (AList.delete 1 (rt_inferior_states ?rt))) = 2" by code_simp+
  with remove_inferior_correct [OF ok k] show ?thesis by (simp add: Let_def)
qed

section \<open>Inventory\<close>

lemma normalized_map_of:
  "map_of (normalized_states known is acc) =
     (\<lambda>j. if j \<in> set is
          then Some (case map_of known j of None \<Rightarrow> fresh_inferior | Some st \<Rightarrow> st)
          else map_of acc j)"
  by (induction known "is" acc rule: normalized_states.induct)
    (auto simp: fun_eq_iff update_conv' split: option.splits)

text \<open>
  Refreshing the inventory from a listing keeps what is known and drops what is gone:
  afterwards exactly the listed inferiors and the selected one have entries, a listed
  inferior keeps its known state or starts as unknown, and the selection is the one
  reported, or the smallest listed inferior when none is reported. Here the reported
  selection, if any, is a listed inferior with a positive number.
\<close>

theorem update_inferior_inventory_correct:
  assumes cur: "\<forall>k. cur = Some k \<longrightarrow> 0 < k \<and> k \<in> set ids" and ids: "\<forall>k \<in> set ids. 0 < k"
  shows "let rt' = update_inferior_inventory cur n (Some ids) rt in
     map_of (rt_inferior_states rt') =
       (\<lambda>j. if j \<in> set ids
            then Some (case map_of (rt_inferior_states rt) j of None \<Rightarrow> fresh_inferior | Some st \<Rightarrow> st)
            else None)
     \<and> rt_current_inferior_id rt' =
         (case cur of Some k \<Rightarrow> Some k
          | None \<Rightarrow> if ids = [] then None else Some (Min (set ids)))"
proof -
  let ?S = "normalized_states (rt_inferior_states rt) ids []"
  have S: "map_of ?S = (\<lambda>j. if j \<in> set ids
      then Some (case map_of (rt_inferior_states rt) j of None \<Rightarrow> fresh_inferior | Some st \<Rightarrow> st) else None)"
    by (simp add: normalized_map_of fun_eq_iff)
  have "fst ` set ?S = dom (map_of ?S)" by (simp add: dom_map_of_conv_image_fst)
  with S have keys: "fst ` set ?S = set ids" by (auto simp: dom_def split: if_splits)
  then have nil: "?S = [] \<longleftrightarrow> ids = []" by (metis image_is_empty set_empty)
  have mn: "min_list (map fst ?S) = Min (set ids)" if "ids \<noteq> []"
    using that nil keys by (simp add: min_list_Min)
  define sel where "sel = (case cur of Some k \<Rightarrow> Some k
      | None \<Rightarrow> if ids = [] then None else Some (Min (set ids)))"
  have sel: "k \<in> set ids \<and> 0 < k" if "sel = Some k" for k
    using that cur ids by (auto simp: sel_def split: option.splits if_splits)
  define x where "x = rt\<lparr>rt_inferior_states := ?S, rt_inferior_count := Some n,
      rt_current_inferior_id := sel\<rparr>"
  have swap: "y\<lparr>rt_current_inferior_id := a, rt_inferior_count := b\<rparr> =
      y\<lparr>rt_inferior_count := b, rt_current_inferior_id := a\<rparr>" for y :: SessionRuntime and a b
    by simp
  have u: "update_inferior_inventory cur n (Some ids) rt = synchronize_selected_state
      (case sel of None \<Rightarrow> x | Some k \<Rightarrow> ensure_inferior k x)"
    using nil mn by (cases cur) (auto simp: update_inferior_inventory_def Let_def sel_def x_def swap)
  have ens: "rt_inferior_states (case sel of None \<Rightarrow> x | Some k \<Rightarrow> ensure_inferior k x) = ?S"
    using sel S by (auto simp: ensure_inferior_def x_def split: option.splits)
  have cur': "rt_current_inferior_id (case sel of None \<Rightarrow> x | Some k \<Rightarrow> ensure_inferior k x) = sel"
    by (simp add: x_def split: option.splits)
  have "rt_inferior_states (synchronize_selected_state y) = ?S"
    if "rt_inferior_states y = ?S" "rt_current_inferior_id y = sel" for y
    using that sel S by (auto simp: synchronize_selected_state_def split: option.splits)
  with ens cur' show ?thesis
    unfolding u Let_def using S by (simp add: sel_def [symmetric])
qed

theorem update_inferior_inventory_correct_witness:
  "rt_current_inferior_id (update_inferior_inventory None 2 (Some [3, 2]) (new_runtime (sample_client []))) = Some 2"
  using update_inferior_inventory_correct [of None "[3, 2]" 2 "new_runtime (sample_client [])"]
  by (simp add: Let_def)

section \<open>The inferior count\<close>

text \<open>The count is at least the number of inferiors with an entry.\<close>

definition count_ok :: "SessionRuntime \<Rightarrow> bool" where
  "count_ok rt \<longleftrightarrow>
     (case rt_inferior_count rt of None \<Rightarrow> rt_inferior_states rt = []
      | Some n \<Rightarrow> int (length (rt_inferior_states rt)) \<le> n)"

lemma count_ok_bump: "count_ok (bump_inferior_count rt)"
  by (simp add: bump_is_update count_ok_def Let_def split: option.splits)

lemma count_ok_ensure: "count_ok rt \<Longrightarrow> count_ok (ensure_inferior i rt)"
  by (simp add: ensure_inferior_def count_ok_bump)

lemma count_ok_mirror [simp]: "count_ok (mirror st rt) = count_ok rt"
  by (simp add: count_ok_def cong: option.case_cong)

lemma count_ok_update_state: "count_ok (update_inferior_state i st rt)"
  by (simp add: update_inferior_state_def Let_def count_ok_bump split: prod.splits)

text \<open>
  A session that becomes ready with inferiors but no selection reports too few of
  them: when GDB has announced inferior 2 during start-up and nothing has selected an
  inferior, marking the session ready adds inferior 1 without counting it, so the session
  has two inferiors and a count of one. When an inferior is selected, or none is known, the
  count covers all of them.
\<close>

theorem mark_ready_count:
  "(let rt = mark_ready (ensure_inferior 2 (begin_startup cfg (new_runtime c))) in
      length (rt_inferior_states rt) = 2 \<and> rt_inferior_count rt = Some 1)
   \<and> (rt_ok rt0 \<and> count_ok rt0 \<and> (rt_current_inferior_id rt0 \<noteq> None \<or> rt_inferior_states rt0 = [])
        \<and> (\<forall>n. rt_inferior_count rt0 = Some n \<longrightarrow> 1 \<le> n)
      \<longrightarrow> count_ok (mark_ready rt0))"
proof (intro conjI impI)
  show "let rt = mark_ready (ensure_inferior 2 (begin_startup cfg (new_runtime c))) in
      length (rt_inferior_states rt) = 2 \<and> rt_inferior_count rt = Some 1"
    by (simp add: mark_ready_def ensure_inferior_def bump_inferior_count_def begin_startup_def
        reset_transient_def new_runtime_def synchronize_selected_state_def mirror_def Let_def)
next
  assume a: "rt_ok rt0 \<and> count_ok rt0 \<and> (rt_current_inferior_id rt0 \<noteq> None \<or> rt_inferior_states rt0 = [])
        \<and> (\<forall>n. rt_inferior_count rt0 = Some n \<longrightarrow> 1 \<le> n)"
  show "count_ok (mark_ready rt0)"
  proof (cases "rt_current_inferior_id rt0")
    case None
    with a have nil: "rt_inferior_states rt0 = []" by blast
    have "rt_inferior_states (mark_ready rt0) =
        [(1, \<lparr>irs_execution_state = rt_execution_state rt0, irs_stop_reason = rt_stop_reason rt0,
              irs_exit_code = rt_exit_code rt0\<rparr>)]"
      by (simp add: mark_ready_def synchronize_selected_state_def mirror_def Let_def None nil)
    moreover have "rt_inferior_count (mark_ready rt0) =
        Some (case rt_inferior_count rt0 of None \<Rightarrow> 1 | Some n \<Rightarrow> n)"
      by (simp add: mark_ready_def synchronize_selected_state_def mirror_def Let_def None nil
          split: option.splits)
    ultimately show ?thesis using a by (simp add: count_ok_def split: option.splits)
  next
    case (Some i)
    with a obtain st where st: "map_of (rt_inferior_states rt0) i = Some st"
      by (auto simp: rt_ok_def inferiors_ok_def mirror_ok_def simp del: map_of_eq_Some_iff)
    have states: "rt_inferior_states (mark_ready rt0) = rt_inferior_states rt0"
      by (simp add: mark_ready_def synchronize_selected_state_def mirror_def Let_def Some st)
    have cnt: "rt_inferior_count (mark_ready rt0) =
        Some (case rt_inferior_count rt0 of None \<Rightarrow> 1 | Some n \<Rightarrow> n)"
      by (simp add: mark_ready_def synchronize_selected_state_def mirror_def Let_def Some st
          split: option.splits)
    have "rt_inferior_states rt0 \<noteq> []" using st by auto
    with a show ?thesis unfolding count_ok_def states cnt by (simp split: option.splits)
  qed
qed

theorem mark_ready_count_witness:
  "count_ok (mark_ready (new_runtime (sample_client [])))"
  using mark_ready_count [of sample_config "sample_client []" "new_runtime (sample_client [])"]
    rt_ok_new [of "sample_client []"]
  by (simp add: new_runtime_def count_ok_def)

end
