(* ===== verification/Inferiors.thy ===== *)
theory Inferiors
  imports Session_Runtime
begin

text \<open>
  The inventory of inferiors as GDB prints it (\<open>session/inferiors.py\<close>): the rows of
  \<open>info inferiors\<close> are recognised by a regular expression and split into columns by another.
  Both expressions are deterministic on a line (no two of their parts can match the same
  character at the same place), so they are modelled by the scanners they amount to.
\<close>

section \<open>Rows and columns\<close>

text \<open>\<open>^(\*)?\s*(\d+)\s+(.*)$\<close>: whether the row is marked, its number and the rest.\<close>

definition match_inferior_row :: "string \<Rightarrow> (bool \<times> int \<times> string) option" where
  "match_inferior_row line =
     (let current = startswith line ''*'';
          rest = lstrip (if current then drop 1 line else line);
          digits = takeWhile is_digit rest;
          tail = dropWhile is_digit rest
      in if digits \<noteq> [] \<and> tail \<noteq> [] \<and> is_space (hd tail)
         then Some (current, nat_of_digits digits, lstrip tail)
         else None)"

text \<open>\<open>re.split(r"\s{2,}", s)\<close>: cut at every maximal run of two or more spaces. The first
  argument is the column read so far, reversed.\<close>

function split_columns :: "string \<Rightarrow> string \<Rightarrow> string list" where
  "split_columns acc [] = [rev acc]"
| "split_columns acc (c # cs) =
     (if is_space c \<and> cs \<noteq> [] \<and> is_space (hd cs)
      then rev acc # split_columns [] (dropWhile is_space cs)
      else split_columns (c # acc) cs)"
  by pat_completeness auto
termination
  by (relation "measure (\<lambda>(acc, s). length s)") (auto simp: le_imp_less_Suc length_dropWhile_le)

definition looks_like_connection :: "string \<Rightarrow> bool" where
  "looks_like_connection value =
     (startswith value ''target:'' \<or> startswith value ''process ''
      \<or> startswith value ''remote '' \<or> startswith value ''extended-remote''
      \<or> value = ''native'')"

section \<open>The listing\<close>

definition inferior_record :: "bool \<Rightarrow> int \<Rightarrow> string \<Rightarrow> InferiorRecord" where
  "inferior_record is_current inferior_id rest =
     (let display = strip rest;
          columns = filter (\<lambda>p. p \<noteq> []) (map strip (split_columns [] display));
          n = length columns
      in \<lparr>ir_inferior_id = inferior_id, ir_is_current = is_current, ir_display = display,
          ir_description = (if columns \<noteq> [] then Some (columns ! 0) else None),
          ir_connection = (if n = 2 then (if looks_like_connection (columns ! 1) then Some (columns ! 1) else None)
                           else if n \<ge> 3 then Some (columns ! 1) else None),
          ir_executable = (if n = 2 then (if looks_like_connection (columns ! 1) then None else Some (columns ! 1))
                           else if n \<ge> 3 then Some (columns ! 2) else None)\<rparr>)"

text \<open>One line of the output: a row, or nothing for a blank line, the heading or other text.\<close>

definition parse_inferior_line :: "string \<Rightarrow> InferiorRecord option" where
  "parse_inferior_line raw_line =
     (let line = rstrip raw_line; stripped = strip line in
      if stripped = [] then None
      else if startswith stripped ''Num '' \<or> startswith stripped (''Num'' @ [CHR 0x09]) then None
      else map_option (\<lambda>(cur, i, rest). inferior_record cur i rest) (match_inferior_row line))"

definition parse_inferiors_output :: "string \<Rightarrow> int option \<Rightarrow> InferiorListInfo" where
  "parse_inferiors_output output current_inferior_id =
     (let inferiors = List.map_filter parse_inferior_line (splitlines output)
      in \<lparr>ili_inferiors = inferiors, ili_count = int (length inferiors),
          ili_current_inferior_id =
            foldl (\<lambda>cur r. if ir_is_current r then Some (ir_inferior_id r) else cur)
              current_inferior_id inferiors\<rparr>)"

definition inferior_ids :: "InferiorListInfo \<Rightarrow> int list" where
  "inferior_ids payload = map ir_inferior_id (ili_inferiors payload)"

section \<open>The rows GDB prints\<close>

text \<open>
  A listing with its columns separated by runs of at least two spaces. A column is clean
  when it is not empty, neither starts nor ends with white space, has no two white-space
  characters in a row and no line break.
\<close>

fun no_gap :: "string \<Rightarrow> bool" where
  "no_gap (a # b # s) = (\<not> (is_space a \<and> is_space b) \<and> no_gap (b # s))"
| "no_gap _ = True"

definition clean_column :: "string \<Rightarrow> bool" where
  "clean_column s \<longleftrightarrow> s \<noteq> [] \<and> \<not> is_space (hd s) \<and> \<not> is_space (last s) \<and> no_gap s
     \<and> list_all (\<lambda>c. \<not> is_linebreak c) s"

definition gap :: "nat \<Rightarrow> string" where
  "gap w = replicate (w + 2) (CHR '' '')"

definition print_row :: "nat \<Rightarrow> bool \<times> nat \<times> string list \<Rightarrow> string" where
  "print_row w row =
     (case row of (cur, i, cols) \<Rightarrow>
        (if cur then ''* '' else ''  '') @ show_nat i @ gap w @ join (gap w) cols)"

definition print_listing :: "nat \<Rightarrow> (bool \<times> nat \<times> string list) list \<Rightarrow> string" where
  "print_listing w rows =
     concat (map (\<lambda>l. l @ [CHR 0x0A])
       (''  Num  Description       Connection           Executable        '' # map (print_row w) rows))"

definition row_ok :: "bool \<times> nat \<times> string list \<Rightarrow> bool" where
  "row_ok row \<longleftrightarrow> (case row of (cur, i, cols) \<Rightarrow> cols \<noteq> [] \<and> list_all clean_column cols)"

lemma space_facts [simp]: "is_space (CHR '' '')" "\<not> is_linebreak (CHR '' '')" "\<not> is_space (CHR ''*'')"
  by (simp_all add: is_space_def is_linebreak_def)

lemma linebreak_digit: "is_digit c \<Longrightarrow> \<not> is_linebreak c"
  using is_digit_not_space by (auto simp: is_linebreak_def is_space_def)

lemma gap_facts [simp]:
  "gap w \<noteq> []" "hd (gap w) = CHR '' ''" "list_all is_space (gap w)"
  "list_all (\<lambda>c. \<not> is_linebreak c) (gap w)"
  by (simp_all add: gap_def list_all_iff)

lemma lstrip_gap [simp]: "lstrip (gap w @ s) = lstrip s"
proof -
  have "lstrip (replicate n (CHR '' '') @ s) = lstrip s" for n
    by (induction n) (simp_all add: lstrip_def)
  from this [of "w + 2"] show ?thesis by (simp only: gap_def)
qed

lemma split_columns_gap:
  "no_gap col \<Longrightarrow> col \<noteq> [] \<Longrightarrow> \<not> is_space (last col) \<Longrightarrow>
     split_columns acc (col @ gap w @ rest) = (rev acc @ col) # split_columns [] (lstrip rest)"
proof (induction col arbitrary: acc rule: no_gap.induct [case_names pair empty single])
  case (single c)
  have "dropWhile is_space (replicate n (CHR '' '') @ rest) = lstrip rest" for n
    by (induction n) (simp_all add: lstrip_def)
  with single show ?case by (simp add: gap_def)
qed (auto split: if_splits)

lemma split_columns_last:
  "no_gap col \<Longrightarrow> split_columns acc col = [rev acc @ col]"
  by (induction col arbitrary: acc rule: no_gap.induct) auto

lemma join_single [simp]: "join sep [x] = x"
  by (simp add: join_def)

lemma join_facts:
  assumes "cols \<noteq> []" "list_all clean_column cols"
  shows "join (gap w) cols \<noteq> []" "\<not> is_space (hd (join (gap w) cols))"
    "\<not> is_space (last (join (gap w) cols))"
    "list_all (\<lambda>c. \<not> is_linebreak c) (join (gap w) cols)"
  using assms
proof (induction cols)
  case (Cons c cs)
  { case 1 then show ?case by (simp add: join_def clean_column_def) }
  { case 2 then show ?case by (simp add: join_def clean_column_def) }
  { case 3 then show ?case using Cons by (cases "cs = []") (auto simp: join_Cons clean_column_def) }
  { case 4 then show ?case using Cons by (cases "cs = []") (auto simp: join_Cons clean_column_def) }
qed auto

lemma split_columns_join:
  "cols \<noteq> [] \<Longrightarrow> list_all clean_column cols \<Longrightarrow> split_columns [] (join (gap w) cols) = cols"
proof (induction cols)
  case (Cons c cs)
  then have c: "no_gap c" "c \<noteq> []" "\<not> is_space (last c)" by (simp_all add: clean_column_def)
  show ?case
  proof (cases "cs = []")
    case True
    then show ?thesis using c by (simp add: split_columns_last)
  next
    case False
    moreover have "lstrip (join (gap w) cs) = join (gap w) cs"
      using join_facts [OF False, of w] Cons.prems by (intro lstrip_id) simp
    ultimately show ?thesis using Cons c by (simp add: join_Cons split_columns_gap)
  qed
qed simp

lemma clean_strip: "clean_column c \<Longrightarrow> strip c = c \<and> c \<noteq> []"
  by (simp add: clean_column_def strip_id)

lemma inferior_record_columns:
  assumes "cols \<noteq> []" "list_all clean_column cols"
  shows "filter (\<lambda>p. p \<noteq> []) (map strip (split_columns [] (strip (join (gap w) cols)))) = cols"
proof -
  have "map strip cols = cols" "filter (\<lambda>p. p \<noteq> []) cols = cols"
    using assms(2) clean_strip by (induction cols) auto
  then show ?thesis using assms join_facts [OF assms, of w] by (simp add: strip_id split_columns_join)
qed

lemma takeWhile_digits: "isdigit d \<Longrightarrow> takeWhile is_digit (d @ gap w @ s) = d"
  and dropWhile_digits: "isdigit d \<Longrightarrow> dropWhile is_digit (d @ gap w @ s) = gap w @ s"
proof -
  have nd: "\<not> is_digit (CHR '' '')" using is_digit_not_space space_facts(1) by blast
  show "isdigit d \<Longrightarrow> takeWhile is_digit (d @ gap w @ s) = d"
    using nd by (simp add: isdigit_def list_all_iff gap_def)
  show "isdigit d \<Longrightarrow> dropWhile is_digit (d @ gap w @ s) = gap w @ s"
    using nd by (simp add: isdigit_def list_all_iff gap_def)
qed

lemma show_nat_hd: "is_digit (hd (show_nat i))"
  using show_nat_digits [of i] by (cases "show_nat i") (auto dest: arg_cong [of _ _ "\<lambda>x. x = []"])

lemma parse_inferior_row:
  assumes "row_ok (cur, i, cols)"
  shows "parse_inferior_line (print_row w (cur, i, cols)) =
    Some (inferior_record cur (int i) (join (gap w) cols))"
proof -
  let ?j = "join (gap w) cols"
  let ?l = "print_row w (cur, i, cols)"
  have c: "cols \<noteq> []" "list_all clean_column cols" using assms by (simp_all add: row_ok_def)
  note j = join_facts [OF c, of w]
  have hd0: "\<not> is_space (hd (show_nat i))" using show_nat_hd is_digit_not_space by blast
  have last: "last ?l = last ?j" "?l \<noteq> []" using j(1) by (simp_all add: print_row_def)
  then have r: "rstrip ?l = ?l" using j(3) by (intro rstrip_id) simp
  have ls: "lstrip (show_nat i @ s) = show_nat i @ s" for s
    using hd0 by (intro lstrip_id) simp
  have "lstrip ?l = (if cur then ?l else show_nat i @ gap w @ ?j)"
    using ls by (simp add: print_row_def lstrip_def)
  then have s: "strip ?l = (if cur then ?l else show_nat i @ gap w @ ?j)"
    using j r rstrip_id [of "show_nat i @ gap w @ ?j"] by (cases cur) (simp_all add: strip_def)
  have "hd ?l = CHR ''*''" if cur using that by (simp add: print_row_def)
  moreover have "\<not> is_digit (CHR ''N'')" by (simp add: is_digit_def digits10_def)
  ultimately have "hd (strip ?l) \<noteq> CHR ''N''"
    unfolding s using show_nat_hd [of i] by (cases cur) auto
  moreover have "strip ?l \<noteq> []" unfolding s by (simp add: print_row_def)
  ultimately have head: "strip ?l \<noteq> []" "\<not> startswith (strip ?l) (CHR ''N'' # p)" for p
    by (cases "strip ?l"; simp)+
  let ?t = "show_nat i @ gap w @ ?j"
  have start: "startswith ?l ''*'' = cur" by (simp add: print_row_def startswith_def)
  have skip: "lstrip (if cur then drop 1 ?l else ?l) = ?t"
    using ls [of "gap w @ ?j"] by (simp add: print_row_def lstrip_def)
  have tw: "takeWhile is_digit ?t = show_nat i" "dropWhile is_digit ?t = gap w @ ?j"
    using takeWhile_digits [of "show_nat i" w ?j] dropWhile_digits [of "show_nat i" w ?j] by simp_all
  have "lstrip (gap w @ ?j) = ?j" using j(2) by (simp add: lstrip_id)
  then have "match_inferior_row ?l = Some (cur, int i, ?j)"
    unfolding match_inferior_row_def Let_def start skip tw by simp
  with head r show ?thesis by (simp add: parse_inferior_line_def Let_def)
qed

lemma splitlines_acc_line:
  "list_all (\<lambda>c. \<not> is_linebreak c) l \<Longrightarrow>
     splitlines_acc acc (l @ CHR 0x0A # rest) = (rev acc @ l) # splitlines_acc [] rest"
proof (induction l arbitrary: acc)
  case Nil
  then show ?case by (cases rest) (simp_all add: is_linebreak_def)
next
  case (Cons c l)
  obtain d cs where l: "l @ CHR 0x0A # rest = d # cs" by (cases "l @ CHR 0x0A # rest") auto
  have "c \<noteq> CHR 0x0D" "\<not> is_linebreak c" using Cons.prems by (auto simp: is_linebreak_def)
  with l have "splitlines_acc acc (c # l @ CHR 0x0A # rest) = splitlines_acc (c # acc) (l @ CHR 0x0A # rest)"
    by simp
  with Cons show ?case by simp
qed

lemma splitlines_unlines:
  "list_all (list_all (\<lambda>c. \<not> is_linebreak c)) ls \<Longrightarrow>
     splitlines (concat (map (\<lambda>l. l @ [CHR 0x0A]) ls)) = ls"
  unfolding splitlines_def by (induction ls) (simp_all add: splitlines_acc_line)

lemma print_row_line: "row_ok row \<Longrightarrow> list_all (\<lambda>c. \<not> is_linebreak c) (print_row w row)"
proof (cases row)
  case (fields cur i cols)
  assume "row_ok row"
  then have "list_all (\<lambda>c. \<not> is_linebreak c) (join (gap w) cols)"
    using join_facts(4) fields by (simp add: row_ok_def)
  moreover have "list_all (\<lambda>c. \<not> is_linebreak c) (show_nat i)"
    using show_nat_digits [of i] linebreak_digit by (auto simp: list_all_iff)
  moreover have "\<not> is_linebreak (CHR ''*'')" by (simp add: is_linebreak_def)
  ultimately show ?thesis using fields by (simp add: print_row_def)
qed

lemma heading_dropped:
  "parse_inferior_line ''  Num  Description       Connection           Executable        '' = None"
  by code_simp

text \<open>What a row says: its mark, its number, and its columns by position.\<close>

fun row_view :: "bool \<times> nat \<times> string list \<Rightarrow>
    bool \<times> int \<times> string option \<times> string option \<times> string option" where
  "row_view (cur, i, []) = (cur, int i, None, None, None)"
| "row_view (cur, i, [d]) = (cur, int i, Some d, None, None)"
| "row_view (cur, i, [d, x]) =
     (if looks_like_connection x then (cur, int i, Some d, Some x, None)
      else (cur, int i, Some d, None, Some x))"
| "row_view (cur, i, d # x # y # extra) = (cur, int i, Some d, Some x, Some y)"

definition record_view :: "InferiorRecord \<Rightarrow>
    bool \<times> int \<times> string option \<times> string option \<times> string option" where
  "record_view r = (ir_is_current r, ir_inferior_id r, ir_description r, ir_connection r, ir_executable r)"

lemma record_view_row:
  assumes "row_ok (cur, i, cols)"
  shows "record_view (inferior_record cur (int i) (join (gap w) cols)) = row_view (cur, i, cols)"
proof -
  have "filter (\<lambda>p. p \<noteq> []) (map strip (split_columns [] (strip (join (gap w) cols)))) = cols"
    using assms by (intro inferior_record_columns) (simp_all add: row_ok_def)
  then show ?thesis
    unfolding record_view_def inferior_record_def Let_def
    by (cases "(cur, i, cols)" rule: row_view.cases) simp_all
qed

section \<open>Properties\<close>



end
