(* ===== verification/Command_Runner.thy ===== *)
theory Command_Runner
  imports Inferiors
begin

text \<open>
  Command execution for one session (\<open>session/command_runner.py\<close>): the transport operations
  with their effect on the session's lifecycle, the effects of MI notifications and of
  commands on the runtime, and the normalised result of a command with its transcript entry.

  A session operation is an \<^verbatim>\<open>exec\<close> over the runtime. Timeouts are given in whole seconds and
  handed to the transport in microseconds.
\<close>

type_synonym 'a session = "(SessionRuntime, 'a) exec"

section \<open>Parsing helpers\<close>

definition default_timeout_sec :: int where
  "default_timeout_sec = 30"

definition file_load_timeout_sec :: int where
  "file_load_timeout_sec = 300"

definition usec :: "int \<Rightarrow> nat" where
  "usec t = nat (t * 1000000)"

definition loads_target :: "string \<Rightarrow> bool" where
  "loads_target command = (startswith command ''file '' \<or> startswith command ''core-file '')"

definition parse_exit_code :: "pyv \<Rightarrow> int option" where
  "parse_exit_code v =
     (case v of
        PInt i \<Rightarrow> Some i
      | PBool b \<Rightarrow> Some (if b then 1 else 0)
      | PStr s \<Rightarrow>
          (let text = strip s in
           if text = [] then None
           else if startswith text ''0x'' \<or> startswith text ''0X''
                   \<or> startswith text ''-0x'' \<or> startswith text ''-0X'' then py_int 16 text
           else if startswith text ''-'' \<or> startswith text ''+'' then
             (let digits = drop 1 text in
              if isdigit digits
              then Some ((if hd text = CHR ''-'' then -1 else 1) * nat_of_digits digits)
              else None)
           else if isdigit text then Some (nat_of_digits text)
           else py_int 10 text)
      | _ \<Rightarrow> None)"

text \<open>The number after the first word of a command.\<close>

definition parse_attached_pid :: "string \<Rightarrow> int option" where
  "parse_attached_pid command =
     (let parts = split_ws1 command in
      if length parts \<noteq> 2 then None
      else let pid_text = strip (parts ! 1)
           in if isdigit pid_text then Some (nat_of_digits pid_text) else None)"

definition parse_inferior_id :: "string \<Rightarrow> int option" where
  "parse_inferior_id command =
     (let parts = split_ws1 command in
      if length parts \<noteq> 2 then None
      else let inferior_id = strip (parts ! 1)
           in if isdigit inferior_id then Some (nat_of_digits inferior_id) else None)"

definition parse_follow_fork_mode :: "string \<Rightarrow> FollowForkMode option" where
  "parse_follow_fork_mode command =
     (let parts = split_ws command in
      if length parts \<noteq> 3 then None
      else if parts ! 2 = ''parent'' then Some Parent
      else if parts ! 2 = ''child'' then Some Child
      else None)"

definition parse_detach_on_fork :: "string \<Rightarrow> bool option" where
  "parse_detach_on_fork command =
     (let parts = split_ws command in
      if length parts \<noteq> 3 then None
      else if parts ! 2 = ''on'' then Some True
      else if parts ! 2 = ''off'' then Some False
      else None)"

text \<open>A thread-group token such as \<open>i1\<close>.\<close>

definition parse_inferior_id_from_thread_group :: "pyv \<Rightarrow> int option" where
  "parse_inferior_id_from_thread_group v =
     (case as_text_or_number v of
        None \<Rightarrow> None
      | Some text \<Rightarrow>
          (let normalized = strip text;
               normalized = (if startswith normalized ''i'' \<or> startswith normalized ''I''
                             then drop 1 normalized else normalized)
           in if isdigit normalized then Some (nat_of_digits normalized) else None))"

definition nested_number :: "pydict \<Rightarrow> string \<Rightarrow> string option" where
  "nested_number payload key =
     (case dget payload key of PDict nested \<Rightarrow> as_text_or_number (dget nested ''number'') | _ \<Rightarrow> None)"

definition extract_breakpoint_number :: "pydict \<Rightarrow> string option" where
  "extract_breakpoint_number payload =
     first_some (as_text_or_number (dget payload ''bkptno'')
                 # map (nested_number payload) [''wpt'', ''awpt'', ''hw-awpt''])"

section \<open>Transport operations with lifecycle effects\<close>

definition finish_transport :: "MiTransportResponse \<Rightarrow> pydict session" where
  "finish_transport result =
     thenE (if tr_fatal result
            then modify (mark_transport_terminated (str_or (tr_error result) ''GDB transport failed''))
            else ret ())
       (ret (transport_to_dict result))"

definition cr_call :: "(MiClient, MiTransportResponse) exec \<Rightarrow> pydict session" where
  "cr_call mi_op = bindE (zoom rt_transport rt_transport_update mi_op) finish_transport"

definition cr_send_command_and_wait_for_prompt :: "string \<Rightarrow> int \<Rightarrow> pydict session" where
  "cr_send_command_and_wait_for_prompt command timeout_sec =
     cr_call (send_command_and_wait_for_prompt command (usec timeout_sec))"

definition cr_interrupt_and_wait_for_stop :: "int \<Rightarrow> pydict session" where
  "cr_interrupt_and_wait_for_stop timeout_sec =
     cr_call (mi_interrupt_and_wait_for_stop (usec timeout_sec))"

definition cr_wait_for_stop :: "int \<Rightarrow> pydict session" where
  "cr_wait_for_stop timeout_sec = cr_call (mi_wait_for_stop (usec timeout_sec))"

definition is_gdb_alive :: "bool session" where
  "is_gdb_alive = zoom rt_transport rt_transport_update is_alive"

definition handle_dead_transport :: "string \<Rightarrow> unit session" where
  "handle_dead_transport message = modify (mark_transport_terminated message)"

definition wall_clock :: "SessionRuntime \<Rightarrow> nat" where
  "wall_clock rt = now (rt_transport rt)"

section \<open>Notifications\<close>

text \<open>The local variables of the loop over notifications.\<close>

record notify_vars =
  nv_stopped_reason :: "string option"
  nv_exit_code :: "int option"
  nv_stopped_inferior_id :: "int option"
  nv_saw_stopped :: bool
  nv_stopped_payload :: pyv
  nv_topology_change :: bool
  nv_stopped_thread_id :: "int option"
  nv_stopped_frame_level :: "int option"

definition init_notify_vars :: notify_vars where
  "init_notify_vars = \<lparr>nv_stopped_reason = None, nv_exit_code = None,
     nv_stopped_inferior_id = None, nv_saw_stopped = False, nv_stopped_payload = PNone,
     nv_topology_change = False, nv_stopped_thread_id = None, nv_stopped_frame_level = None\<rparr>"

definition take_stopped :: "pyv \<Rightarrow> notify_vars \<Rightarrow> notify_vars" where
  "take_stopped payload v0 =
     (let v = v0\<lparr>nv_saw_stopped := True, nv_stopped_payload := payload\<rparr> in
      case payload of
        PDict d \<Rightarrow>
          v\<lparr>nv_stopped_reason :=
               (case dget d ''reason'' of PStr r \<Rightarrow> Some r | _ \<Rightarrow> nv_stopped_reason v),
             nv_exit_code := parse_exit_code (dget d ''exit-code''),
             nv_stopped_inferior_id := parse_inferior_id_from_thread_group (dget d ''thread-group''),
             nv_stopped_frame_level :=
               (case dget d ''frame'' of PDict f \<Rightarrow> as_int (dget f ''level'') | _ \<Rightarrow> nv_stopped_frame_level v),
             nv_stopped_thread_id := as_int (dget d ''thread-id'')\<rparr>
      | _ \<Rightarrow> v)"

definition notify_step :: "notify_vars \<times> SessionRuntime \<Rightarrow> MiNotifyRecord \<Rightarrow> notify_vars \<times> SessionRuntime" where
  "notify_step s notify =
     (case s of (v, rt) \<Rightarrow>
        (let message = mn_message notify; payload = mn_payload notify;
             payload_dict = as_mapping payload;
             group = parse_inferior_id_from_thread_group (dget payload_dict ''id'') in
         if message = Some ''thread-group-added'' then
           (case group of None \<Rightarrow> (v, rt)
            | Some i \<Rightarrow> (v\<lparr>nv_topology_change := True\<rparr>, ensure_inferior i rt))
         else if message = Some ''thread-group-started'' then
           (case group of None \<Rightarrow> (v, rt) | Some i \<Rightarrow> (v, mark_inferior_running (Some i) rt))
         else if message = Some ''thread-group-exited'' then
           (v, mark_inferior_exited
                 (Some (str_or (as_text_or_number (dget payload_dict ''reason'')) ''thread-group-exited''))
                 (parse_exit_code (dget payload_dict ''exit-code'')) group rt)
         else if message = Some ''thread-group-removed'' then
           (case group of None \<Rightarrow> (v, rt)
            | Some i \<Rightarrow> (v\<lparr>nv_topology_change := True\<rparr>, remove_inferior i rt))
         else if message = Some ''stopped'' \<and> \<not> nv_saw_stopped v then (take_stopped payload v, rt)
         else (v, rt)))"

definition refresh_inferior_inventory_from_gdb :: "unit session" where
  "refresh_inferior_inventory_from_gdb =
     bindE (gets has_controller) (\<lambda>has.
       if \<not> has then ret ()
       else bindE (cr_send_command_and_wait_for_prompt
                    (wrap_cli_command ''info inferiors'') default_timeout_sec) (\<lambda>result.
         if dhas result ''error'' then ret ()
         else if truthy (dget_default result ''timed_out'' (PBool False)) then ret ()
         else let parsed = parse_mi_responses (as_record_list (dget result ''command_responses'')) in
           if is_error_result parsed then ret ()
           else modify (\<lambda>rt.
             let payload = parse_inferiors_output (join_text (pm_console parsed)) (rt_current_inferior_id rt)
             in update_inferior_inventory (ili_current_inferior_id payload) (ili_count payload)
                  (Some (inferior_ids payload)) rt)))"

definition exited_reasons :: "string list" where
  "exited_reasons = [''exited'', ''exited-normally'', ''exited-signalled'']"

definition reason_exits :: "string option \<Rightarrow> bool" where
  "reason_exits reason = (case reason of None \<Rightarrow> False | Some r \<Rightarrow> r \<in> set exited_reasons)"

definition build_stop_event ::
  "string \<Rightarrow> pyv \<Rightarrow> string option \<Rightarrow> int option \<Rightarrow> int option \<Rightarrow> StopEvent session" where
  "build_stop_event command payload stopped_reason exit_code inferior_id rt =
     (case (case payload of PDict d \<Rightarrow> payload_to_mapping payload | _ \<Rightarrow> Inr (PDict [])) of
        Inl e \<Rightarrow> (Inl e, rt)
      | Inr mapped \<Rightarrow>
          (let payload_mapping = as_mapping mapped in
           (Inr \<lparr>sev_execution_state = (if reason_exits stopped_reason then Exited else Paused),
                 sev_reason = stopped_reason, sev_command = Some command,
                 sev_inferior_id = inferior_id,
                 sev_thread_id = as_int (dget payload_mapping ''thread-id''),
                 sev_frame = as_optional_mapping (dget payload_mapping ''frame''),
                 sev_signal_name = as_text_or_number (dget payload_mapping ''signal-name''),
                 sev_signal_meaning = as_text_or_number (dget payload_mapping ''signal-meaning''),
                 sev_breakpoint_number = extract_breakpoint_number payload_mapping,
                 sev_exit_code = exit_code, sev_timestamp = Some (wall_clock rt),
                 sev_details = payload_mapping\<rparr>, rt)))"

text \<open>What a stopped notification does to the runtime, after the loop.\<close>

definition apply_stop :: "string \<Rightarrow> notify_vars \<Rightarrow> unit session" where
  "apply_stop command v =
     bindE (gets (\<lambda>rt. case nv_stopped_inferior_id v of None \<Rightarrow> rt_current_inferior_id rt | k \<Rightarrow> k))
       (\<lambda>stopped_inferior_id.
        thenE (modify (\<lambda>rt. case nv_stopped_thread_id v of None \<Rightarrow> rt
                            | Some t \<Rightarrow> mark_thread_selected (Some t) rt))
       (thenE (modify (\<lambda>rt. case nv_stopped_frame_level v of None \<Rightarrow> rt
                            | Some l \<Rightarrow> mark_frame_selected (Some l) rt))
       (thenE (modify (if reason_exits (nv_stopped_reason v)
                       then mark_inferior_exited (nv_stopped_reason v) (nv_exit_code v) stopped_inferior_id
                       else mark_inferior_paused (nv_stopped_reason v) stopped_inferior_id))
       (bindE (build_stop_event command (nv_stopped_payload v) (nv_stopped_reason v)
                 (nv_exit_code v) stopped_inferior_id)
          (\<lambda>stop_event. modify (record_stop_event stop_event))))))"

text \<open>What the command itself does to the runtime, by its normalised text.\<close>

definition apply_command :: "string \<Rightarrow> ParsedMiResponse \<Rightarrow> SessionRuntime \<Rightarrow> SessionRuntime" where
  "apply_command normalized_command parsed rt0 =
     (if loads_target normalized_command then
        (let rt = clear_attached_pid (rt0\<lparr>rt_target_loaded := True\<rparr>) in
         if rt_execution_state rt = Unknown then
           (if startswith normalized_command ''core-file ''
            then mark_inferior_paused (Some ''core-file'') (rt_current_inferior_id rt) rt
            else mark_inferior_not_started (rt_current_inferior_id rt) rt)
         else rt)
      else if startswith normalized_command ''attach '' \<and> \<not> is_error_result parsed then
        (let rt = rt0\<lparr>rt_target_loaded := True\<rparr>;
             rt = (case parse_attached_pid normalized_command of None \<Rightarrow> rt | Some p \<Rightarrow> mark_attached p rt)
         in if rt_execution_state rt \<noteq> Paused \<or> rt_stop_reason rt = None
            then mark_inferior_paused (Some ''attached'') (rt_current_inferior_id rt) rt else rt)
      else if normalized_command = ''detach'' \<and> \<not> is_error_result parsed then clear_attached_pid rt0
      else if startswith normalized_command ''inferior '' \<and> \<not> is_error_result parsed then
        (case parse_inferior_id normalized_command of None \<Rightarrow> rt0
         | Some i \<Rightarrow> mark_inferior_selected (Some i) rt0)
      else if startswith normalized_command ''set follow-fork-mode '' \<and> \<not> is_error_result parsed then
        mark_follow_fork_mode (parse_follow_fork_mode normalized_command) rt0
      else if startswith normalized_command ''set detach-on-fork '' \<and> \<not> is_error_result parsed then
        mark_detach_on_fork (parse_detach_on_fork normalized_command) rt0
      else rt0)"

text \<open>The loop, as one step on the runtime that gives the collected variables.\<close>

definition take_notifications :: "MiNotifyRecord list \<Rightarrow> notify_vars session" where
  "take_notifications notifications rt =
     (case foldl notify_step (init_notify_vars, rt) notifications of (v, rt') \<Rightarrow> (Inr v, rt'))"

definition update_runtime_after_command :: "string \<Rightarrow> ParsedMiResponse \<Rightarrow> unit session" where
  "update_runtime_after_command command parsed =
     bindE (take_notifications (pm_notify parsed)) (\<lambda>v.
       thenE (if nv_saw_stopped v \<and> nv_topology_change v
              then refresh_inferior_inventory_from_gdb else ret ())
      (thenE (if nv_saw_stopped v then apply_stop command v
              else if pm_result_class parsed = Some ''running''
              then modify (\<lambda>rt. mark_inferior_running (rt_current_inferior_id rt) rt)
              else ret ())
      (modify (apply_command (lower (strip command)) parsed))))"

section \<open>Executing a command\<close>

definition cr_record_command_transcript ::
  "string \<Rightarrow> string \<Rightarrow> string \<Rightarrow> ParsedMiResponse option \<Rightarrow> bool \<Rightarrow> bool \<Rightarrow> string option \<Rightarrow> unit session" where
  "cr_record_command_transcript command sent_command status parsed timed_out fatal err =
     modify (\<lambda>rt. record_command_transcript
       \<lparr>cte_command = command, cte_sent_command = Some sent_command, cte_status = status,
        cte_result_class = (case parsed of None \<Rightarrow> None | Some p \<Rightarrow> pm_result_class p),
        cte_timed_out = timed_out, cte_fatal = fatal, cte_error = err,
        cte_execution_state = Some (rt_execution_state rt), cte_stop_reason = rt_stop_reason rt,
        cte_timestamp = Some (wall_clock rt)\<rparr> rt)"

definition running_warning :: string where
  "running_warning =
     ''Command acknowledged and inferior is still running. Use gdb_wait_for_stop or gdb_interrupt to observe a stop event.''"

text \<open>The parsed answer: the records of the command and the notifications that came with it.\<close>

definition parse_command_result :: "pydict \<Rightarrow> ParsedMiResponse" where
  "parse_command_result result =
     (let parsed = parse_mi_responses (as_record_list (dget result ''command_responses''));
          async_notifications = as_record_list (dget result ''async_notifications'')
      in if async_notifications \<noteq> []
         then parsed\<lparr>pm_notify := pm_notify parsed @ pm_notify (parse_mi_responses async_notifications)\<rparr>
         else parsed)"

definition command_error :: "string \<Rightarrow> bool \<Rightarrow> string \<Rightarrow> 'a OperationResult" where
  "command_error message fatal command = op_error_details message fatal [(''command'', PStr command)]"

definition timeout_message :: "int \<Rightarrow> string" where
  "timeout_message timeout_sec = ''Timeout waiting for command response after '' @ show_int timeout_sec @ ''s''"

text \<open>The answer to a command that was sent, by what came back.\<close>

definition command_answer ::
  "string \<Rightarrow> string \<Rightarrow> bool \<Rightarrow> int \<Rightarrow> bool \<Rightarrow> pydict \<Rightarrow> CommandExecutionInfo OperationResult session" where
  "command_answer command actual_command cli_command timeout_sec allow_running_timeout result =
     (if dhas result ''error'' then
        (let message = py_str (dget result ''error'');
             fatal = truthy (dget_default result ''fatal'' (PBool False))
         in thenE (cr_record_command_transcript command actual_command ''error'' None False fatal (Some message))
              (ret (command_error message fatal command)))
      else let parsed = parse_command_result result in
        if truthy (dget result ''timed_out'') then
          thenE (update_runtime_after_command command parsed)
            (bindE (gets rt_execution_state) (\<lambda>state.
              if allow_running_timeout \<and> (pm_result_class parsed = Some ''running'' \<or> state = Running) then
                thenE (cr_record_command_transcript command actual_command ''success'' (Some parsed) True False
                         (Some (timeout_message timeout_sec)))
                  (ret (Success \<lparr>cei_command = command, cei_output = None,
                                 cei_result = Some (parsed_to_dict parsed)\<rparr> [running_warning]))
              else
                thenE (cr_record_command_transcript command actual_command ''timeout'' (Some parsed) True False
                         (Some (timeout_message timeout_sec)))
                  (ret (command_error (timeout_message timeout_sec) False command))))
        else if is_error_result parsed then
          (let message = str_or (error_message parsed) ''GDB returned an error'' in
           thenE (cr_record_command_transcript command actual_command ''error'' (Some parsed) False False (Some message))
             (ret (command_error message False command)))
        else
          thenE (update_runtime_after_command command parsed)
            (thenE (cr_record_command_transcript command actual_command ''success'' (Some parsed) False False None)
              (ret (if cli_command then
                      (let console_output = join_text (pm_console parsed) in
                       op_success \<lparr>cei_command = command,
                         cei_output = Some (if console_output \<noteq> [] then strip console_output else ''(no output)''),
                         cei_result = None\<rparr>)
                    else op_success \<lparr>cei_command = command, cei_output = None,
                           cei_result = Some (parsed_to_dict parsed)\<rparr>))))"

definition gdb_exited_message :: string where
  "gdb_exited_message = ''GDB process has exited - session is no longer active''"

definition execute_command_result ::
  "string \<Rightarrow> int \<Rightarrow> bool \<Rightarrow> CommandExecutionInfo OperationResult session" where
  "execute_command_result command timeout_sec allow_running_timeout =
     bindE (gets has_controller) (\<lambda>has.
       if \<not> has then ret (op_error ''No active GDB session'')
       else bindE is_gdb_alive (\<lambda>alive.
         if \<not> alive then
           thenE (handle_dead_transport gdb_exited_message)
             (thenE (cr_record_command_transcript command command ''error'' None False False
                       (Some gdb_exited_message))
               (ret (command_error gdb_exited_message False command)))
         else
           (let cli_command = is_cli_command command;
                actual_command = (if cli_command then wrap_cli_command command else command)
            in bindE (cr_send_command_and_wait_for_prompt actual_command timeout_sec)
                 (command_answer command actual_command cli_command timeout_sec allow_running_timeout))))"

end
