(* ===== verification/Execution.thy ===== *)
theory Execution
  imports Command_Runner
begin

text \<open>
  Execution control (\<open>session/execution.py\<close>, with \<open>session/result_utils.py\<close>): running,
  continuing, stepping, finishing, interrupting and waiting, calling functions, attaching,
  and the inferiors of a session. Every operation ends in one result, built from what the
  command runner returns and from the runtime it leaves.
\<close>

section \<open>Results of the operations\<close>

record InferiorAddInfo =
  iai_inferior_id :: int
  iai_is_current :: bool
  iai_display :: "string option"
  iai_description :: "string option"
  iai_connection :: "string option"
  iai_executable :: "string option"
  iai_current_inferior_id :: "int option"
  iai_inferior_count :: "int option"
  iai_message :: "string option"

record InferiorRemoveInfo =
  iri_inferior_id :: int
  iri_current_inferior_id :: "int option"
  iri_inferior_count :: "int option"
  iri_message :: "string option"

record FollowForkModeInfo =
  ffi_mode :: FollowForkMode
  ffi_message :: string

record DetachOnForkInfo =
  dfi_enabled :: bool
  dfi_message :: string

record WaitForStopInfo =
  wsi_message :: string
  wsi_matched :: bool
  wsi_timed_out :: bool
  wsi_source :: string
  wsi_execution_state :: "ExecutionState option"
  wsi_stop_reason :: "string option"
  wsi_reason_filter :: "string list option"
  wsi_last_stop_event :: "StopEvent option"

record FinishInfo =
  fni_message :: string
  fni_return_value :: "string option"
  fni_gdb_result_var :: "string option"
  fni_frame :: "gdb_record option"
  fni_execution_state :: "ExecutionState option"
  fni_stop_reason :: "string option"
  fni_last_stop_event :: "StopEvent option"

record MessageResult =
  msr_message :: string
  msr_result :: "pydict option"
  msr_status :: string

record FunctionCallInfo =
  fci_function_call :: string
  fci_result :: string

section \<open>Helpers\<close>

definition interrupt_response_timeout_sec :: int where
  "interrupt_response_timeout_sec = 2"

definition augment_call_error :: "string \<Rightarrow> string \<Rightarrow> string" where
  "augment_call_error message function_call =
     (if \<not> contains ''unknown return type'' (lower message) then message
      else if startswith (lstrip function_call) ''('' then message
      else message @ '' (cast the call, e.g. '' @ [CHR 0x27] @ ''call (int)'' @ function_call
             @ [CHR 0x27] @ '')'')"

definition exec_command :: "string \<Rightarrow> bool \<Rightarrow> string" where
  "exec_command base reverse = (if reverse then base @ '' --reverse'' else base)"

definition command_result_payload :: "CommandExecutionInfo \<Rightarrow> pydict" where
  "command_result_payload v = (case cei_result v of None \<Rightarrow> [] | Some d \<Rightarrow> d)"

text \<open>The MI result payload of a successful command, as a mapping.\<close>

definition result_mapping :: "CommandExecutionInfo \<Rightarrow> pydict" where
  "result_mapping v = as_mapping (extract_mi_result_payload (command_result_payload v))"

text \<open>Go on with the value of a success; return a failure as it is.\<close>

definition on_success ::
  "'a OperationResult session \<Rightarrow> ('a \<Rightarrow> 'b OperationResult session) \<Rightarrow> 'b OperationResult session" where
  "on_success m f = bindE m (\<lambda>r. case r of Success v ws \<Rightarrow> f v | Failure e \<Rightarrow> ret (Failure e))"

definition log_entry ::
  "string \<Rightarrow> string option \<Rightarrow> string \<Rightarrow> string option \<Rightarrow> bool \<Rightarrow> bool \<Rightarrow> string option \<Rightarrow> unit session" where
  "log_entry command sent_command status result_class timed_out fatal err =
     modify (\<lambda>rt. record_command_transcript
       \<lparr>cte_command = command, cte_sent_command = sent_command, cte_status = status,
        cte_result_class = result_class, cte_timed_out = timed_out, cte_fatal = fatal,
        cte_error = err, cte_execution_state = Some (rt_execution_state rt),
        cte_stop_reason = rt_stop_reason rt, cte_timestamp = Some (wall_clock rt)\<rparr> rt)"

text \<open>\<open>bool(result.get("fatal", False))\<close> and \<open>str(result["error"])\<close>.\<close>

definition result_fatal :: "pydict \<Rightarrow> bool" where
  "result_fatal result = truthy (dget_default result ''fatal'' (PBool False))"

definition result_error :: "pydict \<Rightarrow> string" where
  "result_error result = py_str (dget result ''error'')"

definition result_parsed :: "pydict \<Rightarrow> ParsedMiResponse" where
  "result_parsed result = parse_mi_responses (as_record_list (dget result ''command_responses''))"

text \<open>The guard that opens several operations: a controller, and a GDB that is alive.\<close>

definition with_live_gdb :: "'a OperationResult session \<Rightarrow> 'a OperationResult session" where
  "with_live_gdb body =
     bindE (gets has_controller) (\<lambda>has.
       if \<not> has then ret (op_error ''No active GDB session'')
       else bindE is_gdb_alive (\<lambda>alive.
         if \<not> alive then
           thenE (handle_dead_transport gdb_exited_message) (ret (op_error gdb_exited_message))
         else body))"

section \<open>Running and stepping\<close>

definition run_program ::
  "string list \<Rightarrow> int \<Rightarrow> bool \<Rightarrow> CommandExecutionInfo OperationResult session" where
  "run_program args timeout_sec wait_for_stop =
     bindE (gets has_controller) (\<lambda>has.
       if \<not> has then ret (op_error ''No active GDB session'')
       else
         (let go = execute_command_result ''-exec-run'' timeout_sec (\<not> wait_for_stop) in
          if args \<noteq> []
          then on_success (execute_command_result (build_exec_arguments_command args) timeout_sec False)
                 (\<lambda>_. go)
          else go))"

definition attach_process :: "int \<Rightarrow> int \<Rightarrow> CommandExecutionInfo OperationResult session" where
  "attach_process pid timeout_sec =
     bindE (gets has_controller) (\<lambda>has.
       if \<not> has then ret (op_error ''No active GDB session'')
       else execute_command_result (''attach '' @ show_int pid) timeout_sec False)"

definition already_running_message :: string where
  "already_running_message =
     ''Inferior is already running. Use gdb_wait_for_stop to wait for the next stop event or gdb_interrupt to force a pause.''"

definition continue_execution ::
  "bool \<Rightarrow> int \<Rightarrow> bool \<Rightarrow> CommandExecutionInfo OperationResult session" where
  "continue_execution wait_for_stop timeout_sec reverse =
     bindE (gets has_controller) (\<lambda>has.
       if \<not> has then ret (op_error ''No active GDB session'')
       else bindE (gets rt_execution_state) (\<lambda>state.
         if state = Running then ret (op_error already_running_message)
         else execute_command_result (exec_command ''-exec-continue'' reverse) timeout_sec
                (\<not> wait_for_stop)))"

definition step_line :: "bool \<Rightarrow> int \<Rightarrow> bool \<Rightarrow> CommandExecutionInfo OperationResult session" where
  "step_line wait_for_stop timeout_sec reverse =
     execute_command_result (exec_command ''-exec-step'' reverse) timeout_sec (\<not> wait_for_stop)"

definition next_line :: "bool \<Rightarrow> int \<Rightarrow> bool \<Rightarrow> CommandExecutionInfo OperationResult session" where
  "next_line wait_for_stop timeout_sec reverse =
     execute_command_result (exec_command ''-exec-next'' reverse) timeout_sec (\<not> wait_for_stop)"

definition finish_frame :: "int \<Rightarrow> bool \<Rightarrow> bool \<Rightarrow> FinishInfo OperationResult session" where
  "finish_frame timeout_sec wait_for_stop reverse =
     on_success (execute_command_result (exec_command ''-exec-finish'' reverse) timeout_sec
                   (\<not> wait_for_stop))
       (\<lambda>v. gets (\<lambda>rt.
          let raw = result_mapping v;
              payload_mapping = (case rt_last_stop_event rt of
                                   Some ev \<Rightarrow> if raw = [] then sev_details ev else raw
                                 | None \<Rightarrow> raw);
              frame = as_optional_mapping (dget payload_mapping ''frame'');
              frame = (case rt_last_stop_event rt of
                         Some ev \<Rightarrow> if frame = None then sev_frame ev else frame
                       | None \<Rightarrow> frame)
          in op_success \<lparr>fni_message = ''Frame finished'',
               fni_return_value = as_text (dget payload_mapping ''return-value''),
               fni_gdb_result_var = as_text (dget payload_mapping ''gdb-result-var''),
               fni_frame = frame, fni_execution_state = Some (rt_execution_state rt),
               fni_stop_reason = rt_stop_reason rt, fni_last_stop_event = rt_last_stop_event rt\<rparr>))"

section \<open>Waiting and interrupting\<close>

definition wait_result_message :: "bool \<Rightarrow> bool \<Rightarrow> string option \<Rightarrow> string \<Rightarrow> string" where
  "wait_result_message matched timed_out stop_reason source =
     (if timed_out then ''Timed out waiting for the inferior to stop''
      else case stop_reason of
        Some r \<Rightarrow>
          if r \<noteq> [] then
            (if matched then
               (if source = ''waited'' then ''Inferior stopped for reason '' @ r
                else ''Inferior is already stopped for reason '' @ r)
             else ''Inferior stopped for reason '' @ r @ '', but it did not match the requested filter'')
          else if matched then ''Inferior stopped''
          else ''Inferior is not running and no matching stop reason is available''
      | None \<Rightarrow>
          if matched then ''Inferior stopped''
          else ''Inferior is not running and no matching stop reason is available'')"

text \<open>\<open>not stop_reasons or runtime.stop_reason in stop_reasons\<close>.\<close>

definition reason_matches :: "string list \<Rightarrow> string option \<Rightarrow> bool" where
  "reason_matches stop_reasons reason =
     (stop_reasons = [] \<or> (case reason of None \<Rightarrow> False | Some r \<Rightarrow> r \<in> set stop_reasons))"

definition wait_info ::
  "bool \<Rightarrow> bool \<Rightarrow> string \<Rightarrow> string list \<Rightarrow> SessionRuntime \<Rightarrow> WaitForStopInfo" where
  "wait_info matched timed_out source stop_reasons rt =
     \<lparr>wsi_message = wait_result_message matched timed_out (rt_stop_reason rt) source,
      wsi_matched = matched, wsi_timed_out = timed_out, wsi_source = source,
      wsi_execution_state = Some (rt_execution_state rt), wsi_stop_reason = rt_stop_reason rt,
      wsi_reason_filter = (if stop_reasons = [] then None else Some stop_reasons),
      wsi_last_stop_event = rt_last_stop_event rt\<rparr>"

text \<open>Report a stop: log it and describe the runtime.\<close>

definition report_stop :: "string \<Rightarrow> string list \<Rightarrow> WaitForStopInfo OperationResult session" where
  "report_stop source stop_reasons =
     bindE (gets (\<lambda>rt. reason_matches stop_reasons (rt_stop_reason rt))) (\<lambda>matched.
       thenE (log_entry ''wait_for_stop'' None ''success'' None False False None)
         (gets (\<lambda>rt. op_success (wait_info matched False source stop_reasons rt))))"

definition wait_while_running :: "int \<Rightarrow> string list \<Rightarrow> WaitForStopInfo OperationResult session" where
  "wait_while_running timeout_sec stop_reasons =
     bindE (cr_wait_for_stop timeout_sec) (\<lambda>result.
       if dhas result ''error'' then
         thenE (log_entry ''wait_for_stop'' None ''error'' None False (result_fatal result)
                  (Some (result_error result)))
           (ret (op_error (result_error result)))
       else thenE (update_runtime_after_command ''wait_for_stop'' (result_parsed result))
         (if truthy (dget result ''timed_out'') then
            thenE (log_entry ''wait_for_stop'' None ''timeout'' None True False
                     (Some (''Timeout waiting for stop after '' @ show_int timeout_sec @ ''s'')))
              (gets (\<lambda>rt. op_success (wait_info False True ''waited'' stop_reasons rt)))
          else report_stop ''waited'' stop_reasons))"

definition wait_for_stop :: "int \<Rightarrow> string list \<Rightarrow> WaitForStopInfo OperationResult session" where
  "wait_for_stop timeout_sec stop_reasons =
     with_live_gdb (bindE (gets rt_execution_state) (\<lambda>state.
       if state \<noteq> Running then report_stop ''existing'' stop_reasons
       else wait_while_running timeout_sec stop_reasons))"

fun extract_stop_reason :: "MiNotifyRecord list \<Rightarrow> string option" where
  "extract_stop_reason [] = None"
| "extract_stop_reason (n # ns) =
     (if mn_message n \<noteq> Some ''stopped'' then extract_stop_reason ns
      else case mn_payload n of
             PDict d \<Rightarrow> (case dget d ''reason'' of PStr r \<Rightarrow> Some r | _ \<Rightarrow> extract_stop_reason ns)
           | _ \<Rightarrow> extract_stop_reason ns)"

definition no_stop_message :: string where
  "no_stop_message = ''Interrupt sent but no stopped notification received''"

definition interrupt_process :: "MessageResult OperationResult session" where
  "interrupt_process =
     bindE (cr_interrupt_and_wait_for_stop interrupt_response_timeout_sec) (\<lambda>result.
       if dhas result ''error'' then
         thenE (log_entry ''interrupt'' (Some ''SIGINT'') ''error'' None False (result_fatal result)
                  (Some (result_error result)))
           (ret (op_error (result_error result)))
       else
         (let parsed = result_parsed result in
          thenE (update_runtime_after_command ''interrupt'' parsed)
            (if truthy (dget result ''timed_out'') then
               thenE (modify (mark_inferior_running None))
              (thenE (log_entry ''interrupt'' (Some ''SIGINT'') ''timeout'' None True False
                        (Some no_stop_message))
                 (ret (op_success \<lparr>msr_message = no_stop_message,
                         msr_result = Some (parsed_to_dict parsed), msr_status = ''warning''\<rparr>)))
             else
               thenE (modify (mark_inferior_paused (extract_stop_reason (pm_notify parsed)) None))
              (thenE (log_entry ''interrupt'' (Some ''SIGINT'') ''success'' (pm_result_class parsed)
                        False False None)
                 (ret (op_success \<lparr>msr_message = ''Program interrupted (paused)'',
                         msr_result = Some (parsed_to_dict parsed), msr_status = ''success''\<rparr>))))))"

definition interrupt_program :: "MessageResult OperationResult session" where
  "interrupt_program =
     with_live_gdb (bindE (gets (\<lambda>rt. mc_controller (rt_transport rt))) (\<lambda>controller.
       case controller of
         None \<Rightarrow> ret (op_error ''No active GDB session'')
       | Some ctl \<Rightarrow>
           if ct_process ctl = None then ret (op_error ''No GDB process running'')
           else interrupt_process))"

section \<open>Calling functions\<close>

definition call_failure :: "string \<Rightarrow> string \<Rightarrow> 'a OperationResult" where
  "call_failure message function_call =
     op_error_details message False [(''function_call'', PStr function_call)]"

definition call_timeout_message :: "int \<Rightarrow> string" where
  "call_timeout_message timeout_sec =
     ''Timeout waiting for call to complete after '' @ show_int timeout_sec @ ''s''"

definition call_function :: "string \<Rightarrow> int \<Rightarrow> FunctionCallInfo OperationResult session" where
  "call_function function_call timeout_sec =
     with_live_gdb
       (let command = ''call '' @ function_call; mi_command = wrap_cli_command command in
        bindE (cr_send_command_and_wait_for_prompt mi_command timeout_sec) (\<lambda>result.
          if dhas result ''error'' then
            thenE (log_entry command (Some mi_command) ''error'' None False (result_fatal result)
                     (Some (result_error result)))
              (ret (call_failure (augment_call_error (result_error result) function_call) function_call))
          else if truthy (dget result ''timed_out'') then
            thenE (log_entry command (Some mi_command) ''timeout'' None True False
                     (Some (call_timeout_message timeout_sec)))
              (ret (call_failure (call_timeout_message timeout_sec) function_call))
          else
            (let parsed = result_parsed result in
             thenE (update_runtime_after_command command parsed)
               (if is_error_result parsed then
                  (let message = str_or (error_message parsed) ''GDB returned an error'' in
                   thenE (log_entry command (Some mi_command) ''error'' (pm_result_class parsed) False False
                            (Some message))
                     (ret (call_failure (augment_call_error message function_call) function_call)))
                else
                  (let console_output = join_text (pm_console parsed) in
                   thenE (log_entry command (Some mi_command) ''success'' (pm_result_class parsed) False False None)
                     (ret (op_success \<lparr>fci_function_call = function_call,
                        fci_result = (if console_output \<noteq> [] then strip console_output
                                      else ''(no return value)'')\<rparr>)))))))"

section \<open>Fork settings\<close>

definition set_follow_fork_mode :: "FollowForkMode \<Rightarrow> FollowForkModeInfo OperationResult session" where
  "set_follow_fork_mode mode =
     on_success (execute_command_result (''set follow-fork-mode '' @ fork_mode_text mode)
                   default_timeout_sec False)
       (\<lambda>_. thenE (modify (mark_follow_fork_mode (Some mode)))
          (ret (op_success \<lparr>ffi_mode = mode,
             ffi_message = ''follow-fork-mode set to '' @ fork_mode_text mode\<rparr>)))"

definition on_off :: "bool \<Rightarrow> string" where
  "on_off enabled = (if enabled then ''on'' else ''off'')"

definition set_detach_on_fork :: "bool \<Rightarrow> DetachOnForkInfo OperationResult session" where
  "set_detach_on_fork enabled =
     on_success (execute_command_result (''set detach-on-fork '' @ on_off enabled)
                   default_timeout_sec False)
       (\<lambda>_. thenE (modify (mark_detach_on_fork (Some enabled)))
          (ret (op_success \<lparr>dfi_enabled = enabled,
             dfi_message = ''detach-on-fork set to '' @ on_off enabled\<rparr>)))"

section \<open>Inferiors\<close>

definition refresh_inferior_inventory :: "InferiorListInfo OperationResult session" where
  "refresh_inferior_inventory =
     on_success (execute_command_result ''info inferiors'' default_timeout_sec False) (\<lambda>v.
       bindE (gets rt_current_inferior_id) (\<lambda>cur.
         (let payload = parse_inferiors_output (str_or (cei_output v) []) cur in
          thenE (modify (update_inferior_inventory (ili_current_inferior_id payload) (ili_count payload)
                           (Some (inferior_ids payload))))
            (ret (op_success payload)))))"

definition find_inferior_record :: "InferiorListInfo \<Rightarrow> int \<Rightarrow> InferiorRecord option" where
  "find_inferior_record payload inferior_id =
     List.find (\<lambda>r. ir_inferior_id r = inferior_id) (ili_inferiors payload)"

definition select_command :: "int \<Rightarrow> CommandExecutionInfo OperationResult session" where
  "select_command inferior_id =
     execute_command_result (''inferior '' @ show_int inferior_id) default_timeout_sec False"

definition add_result :: "int \<Rightarrow> string option \<Rightarrow> bool \<Rightarrow> InferiorListInfo \<Rightarrow> InferiorAddInfo OperationResult" where
  "add_result inferior_id executable make_current inventory =
     (let base = \<lparr>iai_inferior_id = inferior_id, iai_is_current = make_current, iai_display = None,
                  iai_description = None, iai_connection = None, iai_executable = executable,
                  iai_current_inferior_id = ili_current_inferior_id inventory,
                  iai_inferior_count = Some (ili_count inventory),
                  iai_message = Some (''Inferior '' @ show_int inferior_id @ '' added'')\<rparr>
      in case find_inferior_record inventory inferior_id of
           None \<Rightarrow> Success base
             [''Inferior '' @ show_int inferior_id
              @ '' was added, but it was missing from the refreshed inventory.'']
         | Some r \<Rightarrow> op_success (base\<lparr>iai_is_current := ir_is_current r,
             iai_display := Some (ir_display r), iai_description := ir_description r,
             iai_connection := ir_connection r, iai_executable := ir_executable r\<rparr>))"

definition no_inferior_message :: string where
  "no_inferior_message = ''GDB returned no inferior identifier for -add-inferior''"

definition add_inferior :: "string option \<Rightarrow> bool \<Rightarrow> InferiorAddInfo OperationResult session" where
  "add_inferior executable make_current =
     on_success (execute_command_result ''-add-inferior'' default_timeout_sec False) (\<lambda>added.
       case parse_inferior_id_from_thread_group (dget (result_mapping added) ''inferior'') of
         None \<Rightarrow> ret (op_error no_inferior_message)
       | Some inferior_id \<Rightarrow>
           bindE (gets rt_current_inferior_id) (\<lambda>previous_inferior_id.
           thenE (modify (ensure_inferior inferior_id))
             (let refresh = on_success refresh_inferior_inventory
                    (\<lambda>inventory. ret (add_result inferior_id executable make_current inventory));
                  select_new = (if make_current then
                      (if executable = None \<and> previous_inferior_id \<noteq> Some inferior_id
                       then on_success (select_command inferior_id) (\<lambda>_. refresh) else refresh)
                    else case previous_inferior_id of
                      None \<Rightarrow> refresh
                    | Some previous \<Rightarrow>
                        (if executable \<noteq> None \<and> previous \<noteq> inferior_id
                         then on_success (select_command previous) (\<lambda>_. refresh) else refresh))
              in case executable of
                   None \<Rightarrow> select_new
                 | Some exe \<Rightarrow>
                     on_success (select_command inferior_id) (\<lambda>_.
                       on_success (execute_command_result (''exec-file '' @ quote_mi_string exe)
                                     default_timeout_sec False) (\<lambda>_. select_new)))))"

definition exec_remove_inferior :: "int \<Rightarrow> InferiorRemoveInfo OperationResult session" where
  "exec_remove_inferior inferior_id =
     on_success (execute_command_result (''-remove-inferior i'' @ show_int inferior_id)
                   default_timeout_sec False) (\<lambda>_.
       on_success refresh_inferior_inventory (\<lambda>inventory.
         ret (op_success \<lparr>iri_inferior_id = inferior_id,
           iri_current_inferior_id = ili_current_inferior_id inventory,
           iri_inferior_count = Some (ili_count inventory),
           iri_message = Some (''Inferior '' @ show_int inferior_id @ '' removed'')\<rparr>)))"

end
