(* ===== verification/Lifecycle.thy ===== *)
theory Lifecycle
  imports Text_Match Execution
begin

text \<open>
  The life of one session (\<open>session/lifecycle.py\<close>): starting a debugger and bringing it to a
  usable state, stopping it, and reporting its status. The start-up request is given by the
  fields of a \<^verbatim>\<open>SessionConfig\<close> (\<open>session/config.py\<close>); a missing list and an empty one are
  treated alike there, as the code does.
\<close>

section \<open>Data\<close>

record SessionStartInfo =
  ssi_message :: string
  ssi_program :: "string option"
  ssi_core :: "string option"
  ssi_target_loaded :: bool
  ssi_execution_state :: ExecutionState
  ssi_stop_reason :: "string option"
  ssi_exit_code :: "int option"
  ssi_startup_output :: "string option"
  ssi_warnings :: "string list option"
  ssi_env_output :: "pyv list option"
  ssi_init_output :: "pyv list option"
  ssi_endpoint :: "string option"
  ssi_rr_replay :: "string option"

record SessionStatusSnapshot =
  sss_is_running :: bool
  sss_target_loaded :: bool
  sss_has_controller :: bool
  sss_execution_state :: ExecutionState
  sss_stop_reason :: "string option"
  sss_exit_code :: "int option"
  sss_current_inferior_id :: "int option"
  sss_inferior_count :: "int option"
  sss_inferior_states :: "InferiorStateRecord list option"
  sss_follow_fork_mode :: "FollowForkMode option"
  sss_detach_on_fork :: "bool option"

text \<open>\<open>xs or None\<close>.\<close>

definition list_or_none :: "'a list \<Rightarrow> 'a list option" where
  "list_or_none xs = (if xs = [] then None else Some xs)"

section \<open>Start-up text\<close>

definition match_auto_load_declined :: "string \<Rightarrow> (string \<times> string) option" where
  "match_auto_load_declined s =
     (case eat_nocase (''warning: File '' @ [CHR 0x22]) s of
        None \<Rightarrow> None
      | Some r \<Rightarrow>
          (let path = takeWhile (\<lambda>c. c \<noteq> CHR 0x22) r; rest = dropWhile (\<lambda>c. c \<noteq> CHR 0x22) r in
           if path = [] then None
           else map_option (\<lambda>t. (path, t))
             (eat_nocase ([CHR 0x22] @ '' auto-loading has been declined by your '' @ [CHR 0x60]
                @ ''auto-load safe-path'' @ [CHR 0x27]) rest)))"

text \<open>\<open>.+?\.\<close> takes at least one character and stops at the next full stop.\<close>

definition lazy_to_dot :: "string \<Rightarrow> (string \<times> string) option" where
  "lazy_to_dot s =
     (case s of
        [] \<Rightarrow> None
      | c # cs \<Rightarrow>
          if CHR ''.'' \<in> set cs
          then Some (c # takeWhile (\<lambda>d. d \<noteq> CHR ''.'') cs, drop 1 (dropWhile (\<lambda>d. d \<noteq> CHR ''.'') cs))
          else None)"

definition match_auto_load_missing :: "string \<Rightarrow> (string \<times> string) option" where
  "match_auto_load_missing s =
     (case eat_nocase ''missing auto-load script at offset 0 in section .debug_gdb_scripts'' s of
        None \<Rightarrow> None
      | Some r \<Rightarrow>
          if r \<noteq> [] \<and> is_space (hd r)
          then Option.bind (eat_nocase ''of file '' (lstrip r)) lazy_to_dot
          else None)"

definition declined_warning :: "string \<Rightarrow> string" where
  "declined_warning script =
     ''GDB declined to auto-load '' @ script @ '': its directory is not on auto-load safe-path. Auto-load runs while GDB loads the program, so pass the option on the GDB command line with gdb_args (for example [''
     @ [CHR 0x27] @ ''-iex'' @ [CHR 0x27] @ '', '' @ [CHR 0x27] @ ''add-auto-load-safe-path <dir>'' @ [CHR 0x27]
     @ '']); init_commands run afterwards and are too late.''"

definition missing_warning :: "string \<Rightarrow> string" where
  "missing_warning file =
     ''GDB could not find the auto-load script referenced by '' @ file @ '' (.debug_gdb_scripts), so its pretty-printers and extensions stay inactive. For a Rust binary, start the session with gdb_path=''
     @ [CHR 0x27] @ ''rust-gdb'' @ [CHR 0x27] @ '' (the rustup wrapper), which both points GDB at the script directory and trusts it; otherwise pass gdb_args=[''
     @ [CHR 0x27] @ ''--directory=<dir>'' @ [CHR 0x27] @ '', '' @ [CHR 0x27] @ ''-iex'' @ [CHR 0x27] @ '', ''
     @ [CHR 0x27] @ ''add-auto-load-safe-path <dir>'' @ [CHR 0x27] @ ''].''"

definition auto_load_warnings :: "string \<Rightarrow> string list" where
  "auto_load_warnings startup_output =
     map declined_warning (finditer match_auto_load_declined startup_output)
     @ map missing_warning (finditer match_auto_load_missing startup_output)"

definition startup_output_text :: "ParsedMiResponse \<Rightarrow> string" where
  "startup_output_text p = join_text (pm_console p) @ join_text (pm_log p) @ join_text (pm_output p)"

definition startup_text_warnings :: "string \<Rightarrow> string list" where
  "startup_text_warnings text =
     (let low = lower text in
      (if contains ''no debugging symbols found'' low
       then [''No debugging symbols found - program was not compiled with -g''] else [])
      @ (if contains ''not in executable format'' low then [''File is not an executable''] else [])
      @ (if contains ''no such file'' low then [''Program file not found''] else [])
      @ auto_load_warnings text)"

definition startup_failure_markers :: "string list" where
  "startup_failure_markers =
     [''no such file or directory'', ''not in executable format'', ''file format not recognized'',
      ''is not a core dump'', ''is not a core file'', ''no executable file now'']"

definition startup_target_loaded :: "string option \<Rightarrow> string option \<Rightarrow> string \<Rightarrow> bool" where
  "startup_target_loaded program core startup_output =
     ((str_truthy program \<or> str_truthy core)
      \<and> \<not> list_ex (\<lambda>marker. contains marker startup_output) startup_failure_markers)"

section \<open>Environment and command line\<close>

definition env_name_start :: "char \<Rightarrow> bool" where
  "env_name_start c =
     (c \<in> set ''ABCDEFGHIJKLMNOPQRSTUVWXYZabcdefghijklmnopqrstuvwxyz_'')"

definition valid_env_name :: "string \<Rightarrow> bool" where
  "valid_env_name name =
     (case name of [] \<Rightarrow> False
      | c # cs \<Rightarrow> env_name_start c \<and> list_all (\<lambda>d. env_name_start d \<or> is_digit d) cs)"

definition environment_validation_error :: "string \<Rightarrow> string \<Rightarrow> string option" where
  "environment_validation_error var_name var_value =
     (if \<not> valid_env_name var_name then
        Some (''Invalid environment variable name '' @ repr_str var_name
              @ '': names must match [A-Za-z_][A-Za-z0-9_]*'')
      else if CHR 0x0D \<in> set var_value \<or> CHR 0x0A \<in> set var_value then
        Some (''Environment variable '' @ var_name @ '' value must not contain newlines'')
      else None)"

definition build_start_command ::
  "string \<Rightarrow> string option \<Rightarrow> string list \<Rightarrow> string option \<Rightarrow> string option \<Rightarrow> string \<Rightarrow>
   string list \<Rightarrow> string list" where
  "build_start_command gdb_path program args core rr_replay rr_path gdb_args =
     (if str_truthy rr_replay then
        [rr_path, ''replay'', ''--interpreter=mi'', ''-d'', gdb_path, the rr_replay]
        @ (if gdb_args \<noteq> [] then ''--'' # gdb_args else [])
      else
        [gdb_path, ''--quiet'', ''--interpreter=mi''] @ gdb_args
        @ (if str_truthy core then
             (if str_truthy program then [''--se='' @ the program] else [])
             @ [''--core='' @ the core]
           else if str_truthy program then
             (if args \<noteq> [] then ''--args'' # the program # args else [the program])
           else []))"

section \<open>Failing cleanly\<close>

definition on_transport :: "(MiClient, 'a) exec \<Rightarrow> 'a session" where
  "on_transport m = zoom rt_transport rt_transport_update m"

text \<open>Stop a controller that is there and ignore what goes wrong.\<close>

definition quiet_exit :: "unit session" where
  "quiet_exit =
     bindE (gets has_controller) (\<lambda>has.
       if has then catchE (on_transport mi_exit) (\<lambda>_. ret ()) else ret ())"

definition cleanup_failed_start :: "string \<Rightarrow> unit session" where
  "cleanup_failed_start message = thenE quiet_exit (modify (mark_failed message))"

text \<open>A request that cannot be started: the failure to remember and the error to return.\<close>

definition start_rejection :: "(string \<Rightarrow> bool) \<Rightarrow> SessionConfig \<Rightarrow> (string \<times> string) option" where
  "start_rejection isdir cfg =
     (let rr = str_truthy (cfg_rr_replay cfg); args = (cfg_args cfg \<noteq> []);
          core = str_truthy (cfg_core cfg); endpoint = str_truthy (cfg_endpoint cfg);
          same = (\<lambda>m. Some (m, m)) in
      if rr \<and> (args \<or> core) then
        same ''An rr trace already owns the target; do not also pass args or core when replaying a recording.''
      else if rr \<and> endpoint then
        same ''An rr replay starts its own debugger; do not also pass endpoint, which expects an externally started GDB/MI stream.''
      else if endpoint \<and> (str_truthy (cfg_program cfg) \<or> args \<or> core) then
        same ''An external endpoint already owns the target; do not also pass program, args, or core when connecting.''
      else if args \<and> core then
        Some (''Cannot combine program arguments with core dump analysis in one startup request.'',
              ''Cannot combine '' @ [CHR 0x27] @ ''args'' @ [CHR 0x27] @ '' with '' @ [CHR 0x27] @ ''core''
              @ [CHR 0x27] @ ''. Use either a live program launch with args or a core-dump session.'')
      else if str_truthy (cfg_working_dir cfg) \<and> \<not> isdir (the (cfg_working_dir cfg)) then
        same (''Working directory does not exist: '' @ the (cfg_working_dir cfg))
      else None)"

definition open_transport :: "SessionConfig \<Rightarrow> string \<Rightarrow> string \<Rightarrow> unit session" where
  "open_transport cfg gdb_path rr_path =
     on_transport
       (if str_truthy (cfg_endpoint cfg)
        then bindE (spawn_controller (Connect (the (cfg_endpoint cfg)))) adopt_controller
        else mi_start (build_start_command gdb_path (cfg_program cfg) (cfg_args cfg) (cfg_core cfg)
                         (cfg_rr_replay cfg) rr_path (cfg_gdb_args cfg))
               (cfg_working_dir cfg))"

section \<open>Start-up commands\<close>

text \<open>\<open>result_to_mapping(result)\<close> of a command result.\<close>

definition result_mapping_of :: "CommandExecutionInfo OperationResult \<Rightarrow> pydict session" where
  "result_mapping_of r = (\<lambda>rt. (result_to_mapping (map_result command_info_pyv r), rt))"

text \<open>\<open>details={key: payload_to_mapping(output)}\<close>.\<close>

definition failure_with_output ::
  "string \<Rightarrow> bool \<Rightarrow> string \<Rightarrow> pyv list \<Rightarrow> OperationError session" where
  "failure_with_output message fatal key output =
     (\<lambda>rt. (case payload_to_mapping (PList output) of
              Inl e \<Rightarrow> Inl e
            | Inr v \<Rightarrow> Inr (OpError message ''error'' fatal [(key, v)]), rt))"

fun apply_environment :: "(string \<times> string) list \<Rightarrow> pyv list \<Rightarrow> (OperationError + pyv list) session" where
  "apply_environment [] env_output = ret (Inr env_output)"
| "apply_environment ((var_name, var_value) # rest) env_output =
     (case environment_validation_error var_name var_value of
        Some validation_error \<Rightarrow>
          thenE (cleanup_failed_start validation_error)
            (ret (Inl (OpError validation_error ''error'' False [])))
      | None \<Rightarrow>
          bindE (execute_command_result
                  (''set environment '' @ var_name @ '' '' @ var_value) default_timeout_sec False) (\<lambda>result.
          bindE (result_mapping_of result) (\<lambda>mapping.
            let env_output' = env_output @ [PDict mapping] in
            case result of
              Success v ws \<Rightarrow> apply_environment rest env_output'
            | Failure e \<Rightarrow>
                (let message = ''Failed to set environment variable '' @ var_name @ '': '' @ oe_message e in
                 thenE (cleanup_failed_start message)
                   (bindE (failure_with_output message (oe_fatal e) ''env_output'' env_output')
                      (\<lambda>err. ret (Inl err)))))))"

definition init_timeout :: "string \<Rightarrow> int" where
  "init_timeout cmd_lower = (if loads_target cmd_lower then file_load_timeout_sec else default_timeout_sec)"

definition sleep_usec :: "nat \<Rightarrow> unit session" where
  "sleep_usec t = on_transport (modify (upd_world (\<lambda>w. w\<lparr>w_now := w_now w + t\<rparr>)))"

definition init_failed_message :: "string \<Rightarrow> string \<Rightarrow> string" where
  "init_failed_message cmd m = ''Init command '' @ [CHR 0x27] @ cmd @ [CHR 0x27] @ '' failed: '' @ m"

text \<open>The handler of the \<open>try\<close> around one init command.\<close>

definition init_exception :: "string \<Rightarrow> pyv list \<Rightarrow> exn \<Rightarrow> (OperationError + 'a) session" where
  "init_exception cmd init_output e =
     (let message = ''Init command '' @ [CHR 0x27] @ cmd @ [CHR 0x27] @ '' raised an exception: '' @ exn_text e;
          output = init_output @ [PDict [(''status'', PStr ''error''), (''command'', PStr cmd),
                                         (''message'', PStr (exn_text e))]]
      in thenE is_gdb_alive
        (thenE (cleanup_failed_start message)
          (bindE (failure_with_output message False ''init_output'' output) (\<lambda>err. ret (Inl err)))))"

text \<open>What follows an init command once its result is in the output.\<close>

definition after_init_command ::
  "string \<Rightarrow> CommandExecutionInfo OperationResult \<Rightarrow> pyv list \<Rightarrow> (OperationError + pyv list) session" where
  "after_init_command cmd result init_output =
     thenE (if startswith (strip (lower cmd)) ''core-file '' then sleep_usec 500000 else ret ())
       (case result of
          Success v ws \<Rightarrow> ret (Inr init_output)
        | Failure e \<Rightarrow>
            thenE (if oe_fatal e \<or> contains ''GDB process'' (oe_message e) then ret True
                   else bindE is_gdb_alive (\<lambda>alive. ret (\<not> alive)))
             (thenE (cleanup_failed_start (init_failed_message cmd (oe_message e)))
               (bindE (failure_with_output (init_failed_message cmd (oe_message e)) (oe_fatal e)
                         ''init_output'' init_output)
                  (\<lambda>err. ret (Inl err)))))"

definition run_init_command ::
  "string \<Rightarrow> pyv list \<Rightarrow> (OperationError + pyv list) session" where
  "run_init_command cmd init_output =
     bindE (catchE
       (bindE (execute_command_result cmd (init_timeout (strip (lower cmd))) False) (\<lambda>result.
        bindE (result_mapping_of result) (\<lambda>mapping. ret (Inr (result, init_output @ [PDict mapping])))))
       (init_exception cmd init_output))
     (\<lambda>r. case r of
            Inl err \<Rightarrow> ret (Inl err)
          | Inr (result, output) \<Rightarrow>
              catchE (after_init_command cmd result output) (init_exception cmd output))"

fun run_init_commands :: "string list \<Rightarrow> pyv list \<Rightarrow> (OperationError + pyv list) session" where
  "run_init_commands [] init_output = ret (Inr init_output)"
| "run_init_commands (cmd # cmds) init_output =
     bindE (run_init_command cmd init_output) (\<lambda>r.
       case r of Inl err \<Rightarrow> ret (Inl err) | Inr output \<Rightarrow> run_init_commands cmds output)"

definition probe_target_loaded :: "bool OperationResult session" where
  "probe_target_loaded =
     on_success (execute_command_result ''info files'' default_timeout_sec False) (\<lambda>v.
       let output = strip (str_or (cei_output v) []) in
       ret (op_success (output \<noteq> [] \<and> output \<noteq> ''(no output)''
                        \<and> \<not> contains ''no executable file now'' (lower output))))"

section \<open>Starting\<close>

text \<open>Give the debuggee a first state when nothing has said what it is doing.\<close>

definition settle_execution_state :: "SessionConfig \<Rightarrow> SessionRuntime \<Rightarrow> SessionRuntime" where
  "settle_execution_state cfg rt =
     (if rt_execution_state rt = Unknown then
        (if str_truthy (cfg_core cfg)
            \<or> list_ex (\<lambda>c. startswith (strip (lower c)) ''core-file '') (cfg_init_commands cfg)
         then mark_inferior_paused (Some ''core-file'') None rt
         else if rt_target_loaded rt then mark_inferior_not_started None rt
         else rt)
      else rt)"

definition start_info ::
  "SessionConfig \<Rightarrow> string \<Rightarrow> string list \<Rightarrow> pyv list \<Rightarrow> pyv list \<Rightarrow> SessionRuntime \<Rightarrow> SessionStartInfo" where
  "start_info cfg text warnings env_output init_output rt =
     \<lparr>ssi_message = ''GDB session started'', ssi_program = cfg_program cfg, ssi_core = cfg_core cfg,
      ssi_target_loaded = rt_target_loaded rt, ssi_execution_state = rt_execution_state rt,
      ssi_stop_reason = rt_stop_reason rt, ssi_exit_code = rt_exit_code rt,
      ssi_startup_output = (if strip text = [] then None else Some (strip text)),
      ssi_warnings = list_or_none warnings, ssi_env_output = list_or_none env_output,
      ssi_init_output = list_or_none init_output, ssi_endpoint = cfg_endpoint cfg,
      ssi_rr_replay = cfg_rr_replay cfg\<rparr>"

definition finish_start ::
  "SessionConfig \<Rightarrow> string \<Rightarrow> string list \<Rightarrow> pyv list \<Rightarrow> pyv list \<Rightarrow> SessionStartInfo OperationResult session" where
  "finish_start cfg text warnings env_output init_output =
     bindE probe_target_loaded (\<lambda>probe.
       let warnings = (case probe of
             Failure e \<Rightarrow> warnings @ [''Could not refresh target_loaded from GDB after startup commands: '' @ oe_message e]
           | Success b ws \<Rightarrow> warnings)
       in thenE (modify (\<lambda>rt. case probe of Failure e \<Rightarrow> rt | Success b ws \<Rightarrow> rt\<lparr>rt_target_loaded := b\<rparr>))
         (thenE (modify (settle_execution_state cfg))
         (thenE (modify mark_ready)
         (gets (\<lambda>rt. op_success (start_info cfg text warnings env_output init_output rt))))))"

definition confirm_warning :: "CommandExecutionInfo OperationResult \<Rightarrow> string list" where
  "confirm_warning r =
     (case r of
        Failure e \<Rightarrow> [''Failed to disable interactive confirmations by default: '' @ oe_message e]
      | Success v ws \<Rightarrow> [])"

text \<open>After GDB has answered the first command.\<close>

definition prepare_session ::
  "SessionConfig \<Rightarrow> string list \<Rightarrow> MiRecord list \<Rightarrow> SessionStartInfo OperationResult session" where
  "prepare_session cfg startup_warnings startup_responses =
     (let text = startup_output_text (parse_mi_responses startup_responses);
          warnings = startup_warnings @ startup_text_warnings text in
      bindE (execute_command_result ''set confirm off'' default_timeout_sec False) (\<lambda>confirm_result.
      thenE (modify (\<lambda>rt. rt\<lparr>rt_target_loaded :=
               startup_target_loaded (cfg_program cfg) (cfg_core cfg) (lower text)\<rparr>))
     (bindE (apply_environment (cfg_env cfg) []) (\<lambda>env.
        case env of
          Inl err \<Rightarrow> ret (Failure err)
        | Inr env_output \<Rightarrow>
            bindE (run_init_commands (cfg_init_commands cfg) []) (\<lambda>init.
              case init of
                Inl err \<Rightarrow> ret (Failure err)
              | Inr init_output \<Rightarrow>
                  finish_start cfg text (warnings @ confirm_warning confirm_result) env_output init_output)))))"

definition abort_initialization :: "pydict \<Rightarrow> 'a OperationResult session" where
  "abort_initialization ready_check =
     (let message = ''GDB failed to initialize: ''
            @ py_str (dget_default ready_check ''error'' (PStr ''Timeout waiting for GDB to initialize''))
      in thenE (cleanup_failed_start message)
           (ret (op_error_details message (truthy (dget_default ready_check ''fatal'' (PBool False))) [])))"

definition start_body ::
  "SessionConfig \<Rightarrow> string \<Rightarrow> string \<Rightarrow> string list \<Rightarrow> SessionStartInfo OperationResult session" where
  "start_body cfg gdb_path rr_path startup_warnings =
     bindE (gets (\<lambda>rt. start_rejection (w_isdir (mc_world (rt_transport rt))) cfg)) (\<lambda>rejected.
       case rejected of
         Some (failure, message) \<Rightarrow> thenE (modify (mark_failed failure)) (ret (op_error message))
       | None \<Rightarrow>
           thenE (open_transport cfg gdb_path rr_path)
          (bindE (on_transport (read_initial_output 1000000)) (\<lambda>initial.
           bindE (cr_send_command_and_wait_for_prompt ''-gdb-version'' default_timeout_sec) (\<lambda>ready_check.
             if dhas ready_check ''error'' \<or> truthy (dget ready_check ''timed_out'')
             then abort_initialization ready_check
             else prepare_session cfg startup_warnings
                    (initial @ as_record_list (dget ready_check ''command_responses''))))))"

text \<open>The handlers of the outer \<open>try\<close>.\<close>

definition start_exception :: "exn \<Rightarrow> 'a OperationResult session" where
  "start_exception e =
     (let message = (if exn_class e = EndpointError then exn_text e
                     else ''Failed to start GDB: '' @ exn_text e)
      in thenE (cleanup_failed_start message) (ret (op_error message)))"

text \<open>\<open>os.environ.get(name, default)\<close>.\<close>

definition environ_get :: "string \<Rightarrow> string \<Rightarrow> SessionRuntime \<Rightarrow> string" where
  "environ_get name dflt rt =
     (case map_of (w_environ (mc_world (rt_transport rt))) name of None \<Rightarrow> dflt | Some v \<Rightarrow> v)"

definition start_session_op :: "SessionConfig \<Rightarrow> SessionStartInfo OperationResult session" where
  "start_session_op request =
     bindE (gets has_controller) (\<lambda>has.
       if has then ret (op_error ''Session already running. Stop it first.'')
       else bindE (gets (\<lambda>rt. case cfg_gdb_path request of Some p \<Rightarrow> p
                              | None \<Rightarrow> environ_get ''GDB_PATH'' ''gdb'' rt)) (\<lambda>gdb_path.
            bindE (gets (environ_get ''RR_PATH'' ''rr'')) (\<lambda>rr_path.
              let ignored = str_truthy (cfg_rr_replay request) \<and> str_truthy (cfg_program request);
                  startup_warnings = (if ignored
                    then [''Program '' @ [CHR 0x27] @ the (cfg_program request) @ [CHR 0x27]
                          @ '' was ignored: the rr trace already owns the target.''] else []);
                  config = request\<lparr>cfg_program := (if ignored then None else cfg_program request),
                                   cfg_gdb_path := Some gdb_path\<rparr>
              in thenE (modify (begin_startup config))
                   (catchE (start_body config gdb_path rr_path startup_warnings) start_exception))))"

section \<open>Stopping and status\<close>

definition stop_session_op :: "string OperationResult session" where
  "stop_session_op =
     bindE (gets has_controller) (\<lambda>has.
       if \<not> has then ret (op_error ''No active session'')
       else catchE
         (thenE (on_transport mi_exit)
           (thenE (modify mark_stopped) (ret (op_success ''GDB session stopped''))))
         (\<lambda>e. thenE (modify (mark_failed (''Failed to stop GDB session: '' @ exn_text e)))
               (ret (op_error (exn_text e)))))"

definition status_snapshot :: "SessionRuntime \<Rightarrow> SessionStatusSnapshot" where
  "status_snapshot rt =
     \<lparr>sss_is_running = rt_is_running rt, sss_target_loaded = rt_target_loaded rt,
      sss_has_controller = has_controller rt, sss_execution_state = rt_execution_state rt,
      sss_stop_reason = rt_stop_reason rt, sss_exit_code = rt_exit_code rt,
      sss_current_inferior_id = rt_current_inferior_id rt,
      sss_inferior_count = rt_inferior_count rt,
      sss_inferior_states = list_or_none (inferiors_state_summary rt),
      sss_follow_fork_mode = rt_follow_fork_mode rt, sss_detach_on_fork = rt_detach_on_fork rt\<rparr>"

definition get_status :: "SessionStatusSnapshot session" where
  "get_status =
     bindE (gets has_controller) (\<lambda>has.
       thenE (if has then bindE is_gdb_alive (\<lambda>alive.
                if \<not> alive then modify (mark_transport_terminated gdb_exited_message) else ret ())
              else ret ())
         (gets status_snapshot))"

end
