(* ===== verification/Breakpoints.thy ===== *)
theory Breakpoints
  imports Text_Match Execution
begin

text \<open>
  Breakpoints, watchpoints and catchpoints (\<open>session/breakpoints.py\<close>): the commands, and the
  records that confirm them. Creating a watchpoint or a catchpoint is confirmed against GDB's
  breakpoint table; a refused insertion is attributed to the breakpoints GDB names.
\<close>

section \<open>Records\<close>

record BreakpointInfo =
  bpi_breakpoint :: gdb_record

datatype WatchpointAccessType = WriteAccess | ReadAccess | AnyAccess

datatype CatchpointType =
  CatchThrow | CatchRethrow | CatchCatch | CatchExec | CatchFork | CatchVfork | CatchLoad
  | CatchUnload | CatchSignal | CatchSyscall

definition catchpoint_text :: "CatchpointType \<Rightarrow> string" where
  "catchpoint_text k =
     (case k of CatchThrow \<Rightarrow> ''throw'' | CatchRethrow \<Rightarrow> ''rethrow'' | CatchCatch \<Rightarrow> ''catch''
      | CatchExec \<Rightarrow> ''exec'' | CatchFork \<Rightarrow> ''fork'' | CatchVfork \<Rightarrow> ''vfork'' | CatchLoad \<Rightarrow> ''load''
      | CatchUnload \<Rightarrow> ''unload'' | CatchSignal \<Rightarrow> ''signal'' | CatchSyscall \<Rightarrow> ''syscall'')"

section \<open>Text\<close>

definition match_catchpoint_number :: "int matcher" where
  "match_catchpoint_number s =
     (let plain = (\<lambda>t. Option.bind (eat_nocase ''catchpoint'' t) (\<lambda>r.
            Option.bind (eat_spaces r) (\<lambda>r. map_option (apfst nat_of_digits) (match_digits r))));
          temporary = Option.bind (eat_nocase ''Temporary'' s) (\<lambda>r. Option.bind (eat_spaces r) plain)
      in if temporary \<noteq> None then temporary else plain s)"

definition match_insert_blocked :: "int matcher" where
  "match_insert_blocked s =
     Option.bind (eat_nocase ''Cannot insert breakpoint'' s) (\<lambda>r.
       Option.bind (eat_spaces r) (\<lambda>r. map_option (apfst nat_of_digits) (match_digits r)))"

definition mi_operand :: "string \<Rightarrow> string" where
  "mi_operand argument =
     (if startswith argument ''-'' then ''-- '' @ quote_mi_string argument else quote_mi_string argument)"

text \<open>The numbers in order of first mention.\<close>

definition add_number :: "int list \<Rightarrow> int \<Rightarrow> int list" where
  "add_number numbers number = (if number \<in> set numbers then numbers else numbers @ [number])"

definition blocked_breakpoint_numbers :: "string \<Rightarrow> int list" where
  "blocked_breakpoint_numbers message = foldl add_number [] (finditer match_insert_blocked message)"

definition format_breakpoint_numbers :: "int list \<Rightarrow> string" where
  "format_breakpoint_numbers numbers = join '', '' (map show_int numbers)"

definition normalize_location :: "string \<Rightarrow> string" where
  "normalize_location location =
     (let text = strip location in
      if 2 \<le> length text \<and> hd text = last text \<and> hd text \<in> {CHR 0x22, CHR 0x27}
      then strip (butlast (tl text)) else text)"

definition mentions_blocked :: "string \<Rightarrow> bool" where
  "mentions_blocked line = (search match_insert_blocked line \<noteq> None)"

text \<open>The first line with text behind the first line that reports a blocked breakpoint.\<close>

fun blocked_cause :: "string list \<Rightarrow> string option" where
  "blocked_cause [] = None"
| "blocked_cause (line # lines) =
     (if mentions_blocked line then List.find (\<lambda>following. following \<noteq> []) lines
      else blocked_cause lines)"

definition insert_blocked_reason :: "string \<Rightarrow> string" where
  "insert_blocked_reason message =
     (let lines = map strip (splitlines message) in
      case blocked_cause lines of
        Some following \<Rightarrow> following
      | None \<Rightarrow>
          (case List.find (\<lambda>line. line \<noteq> [] \<and> \<not> startswith (lower line) ''warning''
                             \<and> \<not> mentions_blocked line) lines of
             Some line \<Rightarrow> line
           | None \<Rightarrow> ''GDB could not insert the breakpoint''))"

section \<open>Breakpoint records\<close>

definition breakpoint_number_of :: "pyv \<Rightarrow> int option" where
  "breakpoint_number_of payload =
     (case dget (breakpoint_record payload) ''number'' of
        PInt n \<Rightarrow> Some n
      | PBool b \<Rightarrow> Some (if b then 1 else 0)
      | PStr s \<Rightarrow> (if isdigit s then Some (nat_of_digits s) else None)
      | _ \<Rightarrow> None)"

definition watch_number :: "pydict \<Rightarrow> string \<Rightarrow> int option" where
  "watch_number payload key =
     (case dget payload key of PDict watchpoint \<Rightarrow> breakpoint_number_of (PDict watchpoint) | _ \<Rightarrow> None)"

definition created_breakpoint_number :: "pyv \<Rightarrow> int option" where
  "created_breakpoint_number payload =
     (case breakpoint_number_of (PDict (breakpoint_record payload)) of
        Some number \<Rightarrow> Some number
      | None \<Rightarrow>
          (case payload of
             PDict d \<Rightarrow> first_some (map (watch_number d) [''wpt'', ''awpt'', ''hw-awpt'', ''hw-rwpt''])
           | _ \<Rightarrow> None))"

definition find_breakpoint_record :: "gdb_record list \<Rightarrow> int \<Rightarrow> gdb_record option" where
  "find_breakpoint_record breakpoints number =
     List.find (\<lambda>b. breakpoint_number_of (PDict b) = Some number) breakpoints"

definition at_location :: "string \<Rightarrow> gdb_record \<Rightarrow> bool" where
  "at_location wanted b =
     (case dget b ''original-location'' of PStr stored \<Rightarrow> normalize_location stored = wanted | _ \<Rightarrow> False)"

definition find_breakpoint_for_location :: "gdb_record list \<Rightarrow> string \<Rightarrow> gdb_record option" where
  "find_breakpoint_for_location breakpoints location =
     List.find (at_location (normalize_location location)) breakpoints"

section \<open>Operations\<close>

definition coded_error :: "string \<Rightarrow> string \<Rightarrow> pydict \<Rightarrow> 'a OperationResult" where
  "coded_error message code details = Failure (OpError message code False details)"

definition raw_result_error :: "string \<Rightarrow> CommandExecutionInfo \<Rightarrow> 'a OperationResult session" where
  "raw_result_error message v =
     bindE (from_sum (payload_to_mapping (command_info_pyv v))) (\<lambda>raw.
       ret (op_error_details message False [(''raw_result'', raw)]))"

definition run_default :: "string \<Rightarrow> CommandExecutionInfo OperationResult session" where
  "run_default cmd = execute_command_result cmd default_timeout_sec False"

definition list_breakpoints :: "BreakpointListInfo OperationResult session" where
  "list_breakpoints =
     on_success (run_default ''-break-list'') (\<lambda>v.
       ret (op_success (breakpoint_list_info_from_payload
              (extract_mi_result_payload (command_result_payload v)))))"

definition get_breakpoint :: "int \<Rightarrow> BreakpointInfo OperationResult session" where
  "get_breakpoint number =
     on_success list_breakpoints (\<lambda>listing. ret
       (case find_breakpoint_record (bli_breakpoints listing) number of
          None \<Rightarrow> coded_error (''Breakpoint '' @ show_int number @ '' not found'') ''not_found''
                    [(''breakpoint_number'', PInt number)]
        | Some b \<Rightarrow> op_success \<lparr>bpi_breakpoint = b\<rparr>))"

definition unconfirmed :: "int \<Rightarrow> string" where
  "unconfirmed number = ''Breakpoint '' @ show_int number @ '' could not be confirmed because ''"

definition breakpoint_info_for_number :: "int \<Rightarrow> pydict \<Rightarrow> BreakpointInfo OperationResult session" where
  "breakpoint_info_for_number number create_details =
     bindE list_breakpoints (\<lambda>listing.
       case listing of
         Failure e \<Rightarrow>
           bindE (from_sum (result_to_mapping (Failure e))) (\<lambda>refresh_error.
             ret (op_error_details (unconfirmed number @ ''gdb_list_breakpoints failed'') False
               (dset ''refresh_error'' (PDict refresh_error) create_details)))
       | Success v ws \<Rightarrow>
           (case find_breakpoint_record (bli_breakpoints v) number of
              None \<Rightarrow>
                bindE (from_sum (payload_to_mapping (PList (map PDict (bli_breakpoints v))))) (\<lambda>refreshed.
                  ret (op_error_details
                    (unconfirmed number @ ''gdb_list_breakpoints did not return breakpoint '' @ show_int number)
                    False (dset ''refreshed_breakpoints'' refreshed create_details)))
            | Some b \<Rightarrow> ret (op_success \<lparr>bpi_breakpoint = b\<rparr>)))"

text \<open>A command on one breakpoint that only reports that it was done.\<close>

definition numbered_command :: "string \<Rightarrow> int \<Rightarrow> string \<Rightarrow> string \<Rightarrow> string OperationResult session" where
  "numbered_command cmd number what happened =
     on_success (run_default (cmd @ '' '' @ show_int number)) (\<lambda>_.
       ret (op_success (what @ '' '' @ show_int number @ '' '' @ happened)))"

definition delete_watchpoint :: "int \<Rightarrow> string OperationResult session" where
  "delete_watchpoint number = numbered_command ''-break-delete'' number ''Watchpoint'' ''deleted''"

definition delete_breakpoint :: "int \<Rightarrow> string OperationResult session" where
  "delete_breakpoint number = numbered_command ''-break-delete'' number ''Breakpoint'' ''deleted''"

definition enable_breakpoint :: "int \<Rightarrow> string OperationResult session" where
  "enable_breakpoint number = numbered_command ''-break-enable'' number ''Breakpoint'' ''enabled''"

definition disable_breakpoint :: "int \<Rightarrow> string OperationResult session" where
  "disable_breakpoint number = numbered_command ''-break-disable'' number ''Breakpoint'' ''disabled''"

definition update_breakpoint :: "int \<Rightarrow> string option \<Rightarrow> bool \<Rightarrow> BreakpointInfo OperationResult session" where
  "update_breakpoint number condition clear_condition =
     (if condition \<noteq> None \<and> clear_condition then
        ret (coded_error ''condition and clear_condition are mutually exclusive'' ''unsupported_combination'' [])
      else if condition = None \<and> \<not> clear_condition then
        ret (coded_error ''At least one breakpoint change is required'' ''validation_error'' [])
      else
        on_success (run_default (''-break-condition '' @ show_int number
            @ (case condition of None \<Rightarrow> [] | Some c \<Rightarrow> '' '' @ quote_mi_string c))) (\<lambda>_.
          breakpoint_info_for_number number [(''updated_breakpoint_number'', PInt number)]))"

text \<open>Setting a breakpoint.\<close>

definition break_insert_command :: "string \<Rightarrow> string option \<Rightarrow> bool \<Rightarrow> string" where
  "break_insert_command location condition temporary =
     join '' '' ([''-break-insert'']
       @ (if temporary then [''-t''] else [])
       @ (if str_truthy condition then [''-c'', quote_mi_string (the condition)] else [])
       @ [mi_operand location])"

definition blocked_message :: "string \<Rightarrow> int list \<Rightarrow> string \<Rightarrow> string" where
  "blocked_message location blocked_numbers reason =
     ''Could not insert a breakpoint at '' @ location @ '': existing breakpoint(s) ''
     @ format_breakpoint_numbers blocked_numbers @ '' cannot be inserted ('' @ reason @ '')''"

text \<open>What the refreshed table says about a refused insertion.\<close>

definition attribute_from_records ::
  "string \<Rightarrow> OperationError \<Rightarrow> int list \<Rightarrow> gdb_record list \<Rightarrow> BreakpointInfo OperationResult session" where
  "attribute_from_records location e blocked_numbers records =
     (let reason = insert_blocked_reason (oe_message e);
          blocked_records = List.map_filter (find_breakpoint_record records) blocked_numbers;
          created = find_breakpoint_for_location records location;
          created_number = (case created of
            Some b \<Rightarrow> (if b = [] then None else breakpoint_number_of (PDict b)) | None \<Rightarrow> None)
      in
      bindE (from_sum (payload_to_mapping (PList (map PInt blocked_numbers)))) (\<lambda>numbers.
      bindE (from_sum (payload_to_mapping (PList (map PDict blocked_records)))) (\<lambda>blocked.
        let details = [(''requested_location'', PStr location), (''blocked_breakpoint_numbers'', numbers),
                       (''blocked_breakpoints'', blocked), (''raw_error'', PStr (oe_message e))] in
        case created of
          None \<Rightarrow>
            ret (coded_error (blocked_message location blocked_numbers reason
                   @ ''. Delete or fix them before retrying.'') ''breakpoint_insert_blocked'' details)
        | Some b \<Rightarrow>
            bindE (from_sum (payload_to_mapping (PDict b))) (\<lambda>created_mapping.
              case created_number of
                Some n \<Rightarrow>
                  if n \<in> set blocked_numbers then
                    ret (coded_error (''Breakpoint '' @ show_int n @ '' at '' @ location
                           @ '' cannot be inserted ('' @ reason @ '')'') ''breakpoint_insert_blocked''
                           (dset ''created_breakpoint'' created_mapping details))
                  else ret (Success \<lparr>bpi_breakpoint = b\<rparr>
                    [''Created breakpoint '' @ show_int n @ '' at '' @ location
                     @ '', but existing breakpoint(s) '' @ format_breakpoint_numbers blocked_numbers
                     @ '' cannot be inserted ('' @ reason @ ''); delete or fix them before continuing.''])
              | None \<Rightarrow>
                  ret (Success \<lparr>bpi_breakpoint = b\<rparr>
                    [''Created the requested breakpoint at '' @ location
                     @ '', but existing breakpoint(s) '' @ format_breakpoint_numbers blocked_numbers
                     @ '' cannot be inserted ('' @ reason @ ''); delete or fix them before continuing.''])))))"

definition attribute_insert_failure ::
  "string \<Rightarrow> OperationError \<Rightarrow> BreakpointInfo OperationResult session" where
  "attribute_insert_failure location e =
     (let blocked_numbers = blocked_breakpoint_numbers (oe_message e) in
      if blocked_numbers = [] then ret (Failure e)
      else bindE list_breakpoints (\<lambda>listing.
        case listing of
          Failure refresh \<Rightarrow>
            bindE (from_sum (payload_to_mapping (PList (map PInt blocked_numbers)))) (\<lambda>numbers.
            bindE (from_sum (result_to_mapping (Failure refresh))) (\<lambda>refresh_error.
              ret (coded_error (blocked_message location blocked_numbers (insert_blocked_reason (oe_message e))
                     @ ''; the breakpoint inventory could not be refreshed to confirm the result'')
                   ''breakpoint_insert_blocked''
                   [(''requested_location'', PStr location), (''blocked_breakpoint_numbers'', numbers),
                    (''raw_error'', PStr (oe_message e)), (''refresh_error'', PDict refresh_error)])))
        | Success v ws \<Rightarrow> attribute_from_records location e blocked_numbers (bli_breakpoints v)))"

definition set_breakpoint :: "string \<Rightarrow> string option \<Rightarrow> bool \<Rightarrow> BreakpointInfo OperationResult session" where
  "set_breakpoint location condition temporary =
     bindE (run_default (break_insert_command location condition temporary)) (\<lambda>result.
       case result of
         Failure e \<Rightarrow> attribute_insert_failure location e
       | Success v ws \<Rightarrow>
           (let payload = extract_mi_result_payload (command_result_payload v) in
            if payload = PNone then
              raw_result_error (''Failed to set breakpoint at '' @ location @ '': no result from GDB'') v
            else let bp = breakpoint_record payload in
              if bp = [] then
                raw_result_error (''Breakpoint set but no info returned for '' @ location) v
              else ret (op_success \<lparr>bpi_breakpoint = bp\<rparr>)))"

text \<open>Watchpoints and catchpoints.\<close>

definition watch_command :: "string \<Rightarrow> WatchpointAccessType \<Rightarrow> string" where
  "watch_command expression access =
     join '' '' ([''-break-watch'']
       @ (case access of ReadAccess \<Rightarrow> [''-r''] | AnyAccess \<Rightarrow> [''-a''] | WriteAccess \<Rightarrow> [])
       @ [mi_operand expression])"

definition set_watchpoint :: "string \<Rightarrow> WatchpointAccessType \<Rightarrow> BreakpointInfo OperationResult session" where
  "set_watchpoint expression access =
     on_success (run_default (watch_command expression access)) (\<lambda>v.
       let payload = extract_mi_result_payload (command_result_payload v) in
       case created_breakpoint_number payload of
         None \<Rightarrow> raw_result_error (''Watchpoint set for '' @ expression
                   @ '', but GDB did not report its number'') v
       | Some number \<Rightarrow>
           bindE (from_sum (payload_to_mapping payload)) (\<lambda>create_payload.
             breakpoint_info_for_number number
               [(''created_breakpoint_number'', PInt number), (''create_payload'', create_payload)]))"

definition is_catchpoint :: "gdb_record \<Rightarrow> bool" where
  "is_catchpoint b = contains ''catch'' (lower (py_str (dget_default b ''type'' (PStr []))))"

definition catchpoint_numbers :: "int set option session" where
  "catchpoint_numbers =
     bindE list_breakpoints (\<lambda>listing. ret
       (case listing of
          Failure e \<Rightarrow> None
        | Success v ws \<Rightarrow> Some (set (List.map_filter (\<lambda>b. breakpoint_number_of (PDict b))
                            (filter is_catchpoint (bli_breakpoints v))))))"

definition infer_new_catchpoint_number :: "int set option \<Rightarrow> int option session" where
  "infer_new_catchpoint_number previous =
     bindE catchpoint_numbers (\<lambda>current. ret
       (case current of
          None \<Rightarrow> None
        | Some numbers \<Rightarrow>
            (case previous of
               None \<Rightarrow> (if numbers = {} then None else Some (Max numbers))
             | Some before \<Rightarrow>
                 (let created = sorted_list_of_set (numbers - before) in
                  if created \<noteq> [] then Some (last created) else None))))"

definition catch_command :: "CatchpointType \<Rightarrow> string option \<Rightarrow> bool \<Rightarrow> string" where
  "catch_command kind argument temporary =
     (if temporary then ''tcatch'' else ''catch'') @ '' '' @ catchpoint_text kind
     @ (if str_truthy argument then '' '' @ the argument else [])"

definition set_catchpoint ::
  "CatchpointType \<Rightarrow> string option \<Rightarrow> bool \<Rightarrow> BreakpointInfo OperationResult session" where
  "set_catchpoint kind argument temporary =
     bindE catchpoint_numbers (\<lambda>previous.
     on_success (run_default (catch_command kind argument temporary)) (\<lambda>v.
       let output = str_or (cei_output v) [] in
       bindE (case search match_catchpoint_number output of
                Some n \<Rightarrow> ret (Some n) | None \<Rightarrow> infer_new_catchpoint_number previous) (\<lambda>number.
       case number of
         None \<Rightarrow> ret (op_error_details (''Catchpoint '' @ catchpoint_text kind
                   @ '' set, but GDB did not report its number'') False [(''output'', PStr output)])
       | Some n \<Rightarrow> breakpoint_info_for_number n
           [(''created_breakpoint_number'', PInt n), (''create_output'', PStr (strip output))])))"

end
