(* ===== verification/Inspection.thy ===== *)
theory Inspection
  imports Breakpoints "HOL-Library.List_Lexorder" "HOL-Library.Char_ord"
begin

text \<open>
  Inspecting the stopped program (\<open>session/inspection/base.py\<close>, \<open>threads.py\<close>, \<open>variables.py\<close>,
  \<open>memory.py\<close>, \<open>inferior_state.py\<close>): threads, frames, variables, registers, expressions, memory
  and the list of inferiors. An inspection in another thread or frame captures GDB's selection,
  moves it, looks, and restores it.
\<close>

section \<open>Records\<close>

record SelectionSnapshot =
  sel_thread_id :: "int option"
  sel_frame_number :: "int option"

record ExpressionValueInfo =
  evi_expression :: string
  evi_value :: pyv

record MemoryReadInfo =
  mri_address :: string
  mri_count :: int
  mri_offset :: int
  mri_blocks :: "gdb_record list"
  mri_block_count :: int
  mri_captured_bytes :: int

record InferiorSelectionInfo =
  isi_inferior_id :: int
  isi_is_current :: bool
  isi_display :: "string option"
  isi_description :: "string option"
  isi_connection :: "string option"
  isi_executable :: "string option"
  isi_message :: "string option"

text \<open>An inferior with what the runtime knows about it; no entry when it knows nothing.\<close>

record ListedInferior = InferiorRecord +
  lir_known :: "(ExecutionState \<times> string option \<times> int option) option"

section \<open>Selections\<close>

definition mi_payload :: "CommandExecutionInfo \<Rightarrow> pyv" where
  "mi_payload v = extract_mi_result_payload (command_result_payload v)"

definition select_thread_command :: "int \<Rightarrow> string" where
  "select_thread_command t = ''-thread-select '' @ show_int t"

definition select_frame_command :: "int \<Rightarrow> string" where
  "select_frame_command f = ''-stack-select-frame '' @ show_int f"

definition payload_frame_level :: "pyv \<Rightarrow> int option" where
  "payload_frame_level payload =
     (case payload of
        PDict d \<Rightarrow> (case dget d ''frame'' of PDict frame \<Rightarrow> as_int (dget frame ''level'') | _ \<Rightarrow> None)
      | _ \<Rightarrow> None)"

definition capture_selection :: "SelectionSnapshot OperationResult session" where
  "capture_selection =
     on_success (run_default ''-thread-info'') (\<lambda>threads.
       let current_thread = (case mi_payload threads of
             PDict d \<Rightarrow> as_int (dget d ''current-thread-id'') | _ \<Rightarrow> None) in
     on_success (run_default ''-stack-info-frame'') (\<lambda>frame.
       let current_frame = payload_frame_level (mi_payload frame) in
       thenE (modify (mark_thread_selected current_thread))
      (thenE (modify (mark_frame_selected current_frame))
        (ret (op_success \<lparr>sel_thread_id = current_thread, sel_frame_number = current_frame\<rparr>)))))"

text \<open>One step of a restoration: nothing to select, or a command and the error for its failure.\<close>

definition restore_step :: "string option \<Rightarrow> string \<Rightarrow> OperationError option session" where
  "restore_step cmd what =
     (case cmd of
        None \<Rightarrow> ret None
      | Some c \<Rightarrow>
          bindE (run_default c) (\<lambda>r. ret
            (case r of
               Failure e \<Rightarrow> Some (OpError (''Inspection completed but failed to restore the original ''
                              @ what @ '' selection: '' @ oe_message e) ''error'' False [])
             | Success v ws \<Rightarrow> None)))"

definition restore_selection :: "SelectionSnapshot \<Rightarrow> OperationError option session" where
  "restore_selection selection =
     bindE (restore_step (map_option select_thread_command (sel_thread_id selection)) ''thread'') (\<lambda>r.
       case r of Some e \<Rightarrow> ret (Some e)
       | None \<Rightarrow>
     bindE (restore_step (map_option select_frame_command (sel_frame_number selection)) ''frame'') (\<lambda>r.
       case r of Some e \<Rightarrow> ret (Some e)
       | None \<Rightarrow>
           thenE (modify (mark_thread_selected (sel_thread_id selection)))
          (thenE (modify (mark_frame_selected (sel_frame_number selection))) (ret None))))"

text \<open>Move to one thread or frame when it is not the captured one: whether the selection moved,
  and the error if it could not.\<close>

definition select_step ::
  "int option \<Rightarrow> int option \<Rightarrow> (int \<Rightarrow> string) \<Rightarrow> (bool \<times> OperationError option) session" where
  "select_step captured wanted command =
     (case wanted of
        None \<Rightarrow> ret (False, None)
      | Some k \<Rightarrow>
          if captured = Some k then ret (False, None)
          else bindE (run_default (command k)) (\<lambda>r. ret
            (case r of Failure e \<Rightarrow> (False, Some e) | Success v ws \<Rightarrow> (True, None))))"

definition select_for_inspection ::
  "SelectionSnapshot option \<Rightarrow> int option \<Rightarrow> int option \<Rightarrow> (bool \<times> OperationError option) session" where
  "select_for_inspection selection thread_id frame =
     (case selection of
        None \<Rightarrow> ret (False, None)
      | Some s \<Rightarrow>
          bindE (select_step (sel_thread_id s) thread_id select_thread_command) (\<lambda>(changed, err).
            if err \<noteq> None then ret (changed, err)
            else bindE (select_step (sel_frame_number s) frame select_frame_command) (\<lambda>(moved, err).
              ret (changed \<or> moved, err))))"

definition restore_selection_if_changed :: "SelectionSnapshot option \<Rightarrow> bool \<Rightarrow> OperationError option session" where
  "restore_selection_if_changed selection changed =
     (case selection of
        None \<Rightarrow> ret None
      | Some s \<Rightarrow> if changed then restore_selection s else ret None)"

definition selection_error_with_restore ::
  "SelectionSnapshot option \<Rightarrow> OperationError \<Rightarrow> 'a OperationResult session" where
  "selection_error_with_restore selection selection_error =
     (case selection of
        None \<Rightarrow> ret (Failure selection_error)
      | Some s \<Rightarrow>
          bindE (restore_selection s) (\<lambda>restore_error. ret
            (case restore_error of
               None \<Rightarrow> Failure selection_error
             | Some e \<Rightarrow> op_error (oe_message selection_error
                 @ ''. Also failed to restore the original thread/frame selection: '' @ oe_message e))))"

text \<open>The opening of an inspection: capture the selection if the caller named a context, then move
  to it; and its end: put the selection back if it was moved, then return the result.\<close>

definition begin_inspection ::
  "bool \<Rightarrow> int option \<Rightarrow> int option \<Rightarrow> (SelectionSnapshot option \<times> bool) OperationResult session" where
  "begin_inspection capture thread_id frame =
     on_success (if capture
                 then on_success capture_selection (\<lambda>s. ret (op_success (Some s)))
                 else ret (op_success None)) (\<lambda>selection.
     bindE (select_for_inspection selection thread_id frame) (\<lambda>(changed, selection_error).
       case selection_error of
         Some e \<Rightarrow> selection_error_with_restore selection e
       | None \<Rightarrow> ret (op_success (selection, changed))))"

definition end_inspection ::
  "SelectionSnapshot option \<Rightarrow> bool \<Rightarrow> 'a OperationResult \<Rightarrow> 'a OperationResult session" where
  "end_inspection selection changed result =
     bindE (restore_selection_if_changed selection changed) (\<lambda>restore_error. ret
       (case restore_error of Some e \<Rightarrow> Failure e | None \<Rightarrow> result))"

section \<open>Threads and frames\<close>

definition get_threads :: "ThreadListInfo OperationResult session" where
  "get_threads =
     on_success (run_default ''-thread-info'') (\<lambda>v. ret
       (if mi_payload v = PNone
        then op_error ''GDB returned incomplete data - may still be loading symbols''
        else op_success (thread_list_info_from_payload (mi_payload v))))"

definition select_thread :: "int \<Rightarrow> ThreadSelectionInfo OperationResult session" where
  "select_thread thread_id =
     on_success (run_default (select_thread_command thread_id)) (\<lambda>v.
       thenE (case mi_payload v of
                PDict d \<Rightarrow> (case dget d ''frame'' of
                    PDict frame \<Rightarrow> modify (mark_frame_selected (as_int (dget frame ''level'')))
                  | _ \<Rightarrow> ret ())
              | _ \<Rightarrow> ret ())
      (thenE (modify (mark_thread_selected (Some thread_id)))
        (ret (op_success (thread_selection_info_from_payload thread_id (mi_payload v))))))"

text \<open>The restoration inside \<open>get_backtrace\<close>: only when another thread was looked at.\<close>

definition restore_thread ::
  "SelectionSnapshot option \<Rightarrow> int option \<Rightarrow> 'a OperationResult \<Rightarrow> 'a OperationResult session" where
  "restore_thread selection thread_id result =
     end_inspection selection
       (case selection of None \<Rightarrow> False | Some s \<Rightarrow> sel_thread_id s \<noteq> thread_id) result"

definition get_backtrace :: "int option \<Rightarrow> int \<Rightarrow> BacktraceInfo OperationResult session" where
  "get_backtrace thread_id max_frames =
     on_success (if thread_id \<noteq> None
                 then on_success capture_selection (\<lambda>s. ret (op_success (Some s)))
                 else ret (op_success None)) (\<lambda>selection.
     on_success (case (thread_id, selection) of
                   (Some t, Some s) \<Rightarrow>
                     if sel_thread_id s \<noteq> thread_id
                     then on_success (run_default (select_thread_command t)) (\<lambda>_. ret (op_success ()))
                     else ret (op_success ())
                 | (Some t, None) \<Rightarrow>
                     on_success (run_default (select_thread_command t)) (\<lambda>_. ret (op_success ()))
                 | (None, _) \<Rightarrow> ret (op_success ())) (\<lambda>_.
     bindE (run_default (''-stack-list-frames 0 '' @ show_int (max_frames - 1))) (\<lambda>result.
       case result of
         Failure e \<Rightarrow> restore_thread selection thread_id (Failure e)
       | Success v ws \<Rightarrow>
           bindE (gets rt_current_thread_id) (\<lambda>current.
             restore_thread selection thread_id
               (op_success (backtrace_info_from_payload
                  (if thread_id \<noteq> None then thread_id else current) (mi_payload v)))))))"

definition get_frame_info :: "int option \<Rightarrow> int option \<Rightarrow> FrameInfo OperationResult session" where
  "get_frame_info thread_id frame =
     on_success (begin_inspection (thread_id \<noteq> None \<or> frame \<noteq> None) thread_id frame) (\<lambda>(selection, changed).
     bindE (run_default ''-stack-info-frame'') (\<lambda>result.
       case result of
         Failure e \<Rightarrow> selection_error_with_restore selection e
       | Success v ws \<Rightarrow>
           (let info = frame_info_from_payload (mi_payload v);
                level = (case fri_frame info of None \<Rightarrow> PNone | Some d \<Rightarrow> dget d ''level'')
            in thenE (modify (mark_frame_selected (as_int level)))
                 (end_inspection selection changed (op_success info)))))"

definition select_frame :: "int \<Rightarrow> FrameSelectionInfo OperationResult session" where
  "select_frame frame_number =
     on_success (run_default (select_frame_command frame_number)) (\<lambda>_.
       thenE (modify (mark_frame_selected (Some frame_number)))
      (bindE (run_default ''-stack-info-frame'') (\<lambda>r. ret
        (case r of
           Failure e \<Rightarrow> op_success \<lparr>fsi_frame_number = frame_number, fsi_frame = None,
             fsi_message = Some (''Frame '' @ show_int frame_number @ '' selected'')\<rparr>
         | Success v ws \<Rightarrow> op_success (frame_selection_info_from_payload frame_number (mi_payload v))))))"

section \<open>Variables and registers\<close>

definition get_variables :: "int option \<Rightarrow> int \<Rightarrow> VariablesInfo OperationResult session" where
  "get_variables thread_id frame =
     on_success (begin_inspection True thread_id (Some frame)) (\<lambda>(selection, changed).
     bindE (run_default ''-stack-list-variables --simple-values'') (\<lambda>result.
       end_inspection selection changed
         (case result of
            Failure e \<Rightarrow> Failure e
          | Success v ws \<Rightarrow>
              op_success (variables_info_from_payload
                (if thread_id \<noteq> None then thread_id else Option.bind selection sel_thread_id)
                frame (mi_payload v)))))"

text \<open>The list behind \<open>register-names\<close> in the answer to \<open>-data-list-register-names\<close>.\<close>

definition register_names_of :: "pyv \<Rightarrow> OperationError + pyv list" where
  "register_names_of payload =
     (case payload of
        PDict d \<Rightarrow>
          (case dget d ''register-names'' of
             PList names \<Rightarrow> Inr names
           | _ \<Rightarrow> Inl (OpError ''GDB did not return register names in the expected format'' ''error'' False []))
      | _ \<Rightarrow> Inl (OpError ''GDB returned malformed register-name payload'' ''error'' False []))"

definition on_names :: "pyv \<Rightarrow> (pyv list \<Rightarrow> 'a) \<Rightarrow> 'a OperationResult" where
  "on_names payload f = (case register_names_of payload of Inl e \<Rightarrow> Failure e | Inr names \<Rightarrow> op_success (f names))"

definition index_names :: "pyv list \<Rightarrow> (string \<times> int) list" where
  "index_names names =
     foldl (\<lambda>index (number, raw_name).
              case raw_name of
                PStr s \<Rightarrow> (if strip s = [] then index else AList.update (strip s) (int number) index)
              | _ \<Rightarrow> index)
       [] (zip [0..<length names] names)"

definition register_name_to_number_index :: "(string \<times> int) list OperationResult session" where
  "register_name_to_number_index =
     on_success (run_default ''-data-list-register-names'') (\<lambda>v. ret (on_names (mi_payload v) index_names))"

definition add_missing :: "(string \<times> int) list \<Rightarrow> int list \<times> string list \<Rightarrow> string \<Rightarrow> int list \<times> string list" where
  "add_missing index acc register_name =
     (case acc of (selected, missing) \<Rightarrow>
        (case map_of index register_name of
           None \<Rightarrow> (selected, missing @ [register_name])
         | Some number \<Rightarrow> (add_number selected number, missing)))"

definition resolve_names :: "(string \<times> int) list \<Rightarrow> int list \<Rightarrow> string list \<Rightarrow> int list option OperationResult" where
  "resolve_names index selected register_names =
     (case foldl (add_missing index) (selected, []) register_names of
        (selected, missing) \<Rightarrow>
          if missing \<noteq> [] then op_error (''Unknown register names: '' @ join '', '' (sort missing))
          else op_success (if selected = [] then None else Some selected))"

definition resolve_register_number_filters ::
  "int list \<Rightarrow> string list \<Rightarrow> int list option OperationResult session" where
  "resolve_register_number_filters register_numbers register_names =
     (let selected = foldl add_number [] register_numbers in
      if register_names \<noteq> [] then
        on_success register_name_to_number_index (\<lambda>index. ret (resolve_names index selected register_names))
      else ret (op_success (if selected = [] then None else Some selected)))"

definition name_map :: "int list \<Rightarrow> pyv list \<Rightarrow> (int \<times> string) list" where
  "name_map numbers names =
     foldl (\<lambda>m (number, raw_name). case raw_name of PStr s \<Rightarrow> AList.update number (strip s) m | _ \<Rightarrow> m)
       [] (zip numbers names)"

definition register_number :: "gdb_record \<Rightarrow> int option" where
  "register_number r = as_int (dget r ''number'')"

definition load_register_name_map :: "gdb_record list \<Rightarrow> (int \<times> string) list OperationResult session" where
  "load_register_name_map registers =
     (let numbers = List.map_filter register_number registers in
      if numbers = [] then ret (op_success [])
      else on_success (run_default (''-data-list-register-names '' @ join '' '' (map show_int numbers)))
             (\<lambda>v. ret (on_names (mi_payload v) (name_map numbers))))"

definition vector_prefixes :: "string list" where
  "vector_prefixes = [''xmm'', ''ymm'', ''zmm'', ''mm'', ''st'', ''k'', ''v'', ''q'', ''d'', ''s'']"

definition is_vector_register_name :: "string \<Rightarrow> bool" where
  "is_vector_register_name name =
     (let low = lower name in
      list_ex (\<lambda>p. startswith low p \<and> isdigit (drop (length p) low)) vector_prefixes
      \<or> low = ''st''
      \<or> (startswith low ''st('' \<and> last low = CHR '')'' \<and> isdigit (butlast (drop 3 low))))"

definition filter_vector_registers :: "(int \<times> string) list \<Rightarrow> gdb_record list \<Rightarrow> gdb_record list" where
  "filter_vector_registers names registers =
     filter (\<lambda>r. \<not> (let name = (case register_number r of
                         None \<Rightarrow> [] | Some n \<Rightarrow> (case map_of names n of None \<Rightarrow> [] | Some s \<Rightarrow> s))
                    in name \<noteq> [] \<and> is_vector_register_name name)) registers"

definition register_values_command :: "string \<Rightarrow> int list option \<Rightarrow> string" where
  "register_values_command format_token register_numbers =
     (case register_numbers of
        None \<Rightarrow> ''-data-list-register-values '' @ format_token
      | Some ns \<Rightarrow>
          if ns = [] then ''-data-list-register-values '' @ format_token
          else ''-data-list-register-values '' @ format_token @ '' '' @ join '' '' (map show_int ns))"

text \<open>\<open>xs[:n]\<close>.\<close>

definition take_py :: "int \<Rightarrow> 'a list \<Rightarrow> 'a list" where
  "take_py n xs = (if 0 \<le> n then take (nat n) xs else take (length xs - nat (- n)) xs)"

definition read_registers ::
  "int list \<Rightarrow> string list \<Rightarrow> bool \<Rightarrow> int option \<Rightarrow> bool \<Rightarrow> RegistersInfo OperationResult session" where
  "read_registers register_numbers register_names include_vector_registers max_registers hex_format =
     on_success (resolve_register_number_filters register_numbers register_names) (\<lambda>numbers.
     on_success (run_default (register_values_command (if hex_format then ''x'' else ''N'') numbers)) (\<lambda>v.
       let registers = rgi_registers (registers_info_from_payload (mi_payload v));
           cut = (\<lambda>rs. op_success \<lparr>rgi_registers = (case max_registers of None \<Rightarrow> rs | Some n \<Rightarrow> take_py n rs)\<rparr>)
       in if include_vector_registers then ret (cut registers)
          else on_success (load_register_name_map registers) (\<lambda>names.
                 ret (cut (filter_vector_registers names registers)))))"

definition get_registers ::
  "int option \<Rightarrow> int option \<Rightarrow> int list \<Rightarrow> string list \<Rightarrow> bool \<Rightarrow> int option \<Rightarrow> bool \<Rightarrow>
     RegistersInfo OperationResult session" where
  "get_registers thread_id frame register_numbers register_names include_vector_registers max_registers hex_format =
     on_success (begin_inspection (thread_id \<noteq> None \<or> frame \<noteq> None) thread_id frame) (\<lambda>(selection, changed).
     bindE (read_registers register_numbers register_names include_vector_registers max_registers hex_format)
       (end_inspection selection changed))"

section \<open>Expressions and memory\<close>

definition evaluate_expression ::
  "string \<Rightarrow> int option \<Rightarrow> int option \<Rightarrow> ExpressionValueInfo OperationResult session" where
  "evaluate_expression expression thread_id frame =
     on_success (begin_inspection (thread_id \<noteq> None \<or> frame \<noteq> None) thread_id frame) (\<lambda>(selection, changed).
     bindE (run_default (build_evaluate_expression_command expression)) (\<lambda>result.
       end_inspection selection changed
         (case result of
            Failure e \<Rightarrow> Failure e
          | Success v ws \<Rightarrow>
              op_success \<lparr>evi_expression = expression,
                evi_value = (case mi_payload v of PDict d \<Rightarrow> dget d ''value'' | _ \<Rightarrow> PNone)\<rparr>)))"

text \<open>\<open>s.zfill(n)\<close>.\<close>

definition zfill :: "nat \<Rightarrow> string \<Rightarrow> string" where
  "zfill n s =
     (let zeros = replicate (n - length s) (CHR ''0'') in
      if s \<noteq> [] \<and> hd s \<in> {CHR ''+'', CHR ''-''} then hd s # zeros @ tl s else zeros @ s)"

fun show_hex_nat :: "nat \<Rightarrow> string" where
  "show_hex_nat n = (if n < 16 then [hex_char n] else show_hex_nat (n div 16) @ [hex_char n])"

declare show_hex_nat.simps [simp del]

text \<open>\<open>hex(i)\<close>.\<close>

definition show_hex :: "int \<Rightarrow> string" where
  "show_hex i = (if i < 0 then ''-0x'' @ show_hex_nat (nat (- i)) else ''0x'' @ show_hex_nat (nat i))"

definition legacy_byte :: "string \<Rightarrow> string" where
  "legacy_byte text = (if startswith (lower text) ''0x'' then zfill 2 (drop 2 text) else text)"

text \<open>The values of one row in front of the first unreadable one, and whether there was one.\<close>

fun legacy_row :: "string list \<Rightarrow> pyv list \<Rightarrow> string list \<times> bool" where
  "legacy_row parts [] = (parts, False)"
| "legacy_row parts (value # values) =
     (case as_text value of
        None \<Rightarrow> (parts, True)
      | Some text \<Rightarrow>
          if text = ''N/A'' then (parts, True) else legacy_row (parts @ [legacy_byte text]) values)"

fun legacy_rows :: "string list \<Rightarrow> pyv list \<Rightarrow> string list" where
  "legacy_rows parts [] = parts"
| "legacy_rows parts (row # rows) =
     (case row of
        PDict d \<Rightarrow>
          (case dget d ''data'' of
             PList values \<Rightarrow>
               (case legacy_row parts values of
                  (parts, unreadable) \<Rightarrow> if unreadable then parts else legacy_rows parts rows)
           | _ \<Rightarrow> legacy_rows parts rows)
      | _ \<Rightarrow> legacy_rows parts rows)"

definition legacy_memory_contents :: "pyv \<Rightarrow> string" where
  "legacy_memory_contents payload =
     (case payload of
        PDict d \<Rightarrow> (case dget d ''memory'' of PList rows \<Rightarrow> concat (legacy_rows [] rows) | _ \<Rightarrow> [])
      | _ \<Rightarrow> [])"

definition legacy_memory_block :: "pyv \<Rightarrow> string \<Rightarrow> gdb_record" where
  "legacy_memory_block payload contents =
     (let block = [(''offset'', PStr ''0x0''), (''contents'', PStr contents)];
          start = (case payload of PDict d \<Rightarrow> as_text (dget d ''addr'') | _ \<Rightarrow> None)
      in case start of
           None \<Rightarrow> block
         | Some s \<Rightarrow>
             (let block = dset ''begin'' (PStr s) block in
              case py_int 16 s of
                None \<Rightarrow> block
              | Some i \<Rightarrow> dset ''end'' (PStr (show_hex (i + int (length contents div 2)))) block))"

definition read_memory_warnings :: "MemoryReadInfo \<Rightarrow> string list" where
  "read_memory_warnings info =
     (if mri_block_count info > 1
      then [''Discontinuous read: '' @ show_int (mri_block_count info) @ '' blocks returned''] else [])
     @ (if mri_captured_bytes info < mri_count info
        then [''Partial read: captured '' @ show_int (mri_captured_bytes info) @ '' of ''
              @ show_int (mri_count info) @ '' bytes''] else [])"

definition block_bytes :: "gdb_record \<Rightarrow> nat" where
  "block_bytes block = length (str_or (as_text (dget block ''contents'')) []) div 2"

definition read_memory_bytes :: "string \<Rightarrow> int \<Rightarrow> int \<Rightarrow> MemoryReadInfo OperationResult session" where
  "read_memory_bytes address byte_count offset =
     on_success (run_default (build_read_memory_command address byte_count offset)) (\<lambda>v.
       let blocks = memory_block_records (mi_payload v) in
       ret (op_success \<lparr>mri_address = address, mri_count = byte_count, mri_offset = offset, mri_blocks = blocks,
         mri_block_count = int (length blocks),
         mri_captured_bytes = int (sum_list (map block_bytes blocks))\<rparr>))"

definition legacy_command :: "string \<Rightarrow> int \<Rightarrow> int \<Rightarrow> string" where
  "legacy_command address byte_count offset =
     ''-data-read-memory '' @ (if offset \<noteq> 0 then ''-o '' @ show_int offset @ '' '' else [])
     @ quote_mi_string address @ '' x 1 1 '' @ show_int byte_count"

definition read_memory_legacy :: "string \<Rightarrow> int \<Rightarrow> int \<Rightarrow> MemoryReadInfo OperationResult session" where
  "read_memory_legacy address byte_count offset =
     on_success (run_default (legacy_command address byte_count offset)) (\<lambda>v.
       let contents = legacy_memory_contents (mi_payload v);
           blocks = (if contents \<noteq> [] then [legacy_memory_block (mi_payload v) contents] else []) in
       ret (op_success \<lparr>mri_address = address, mri_count = byte_count, mri_offset = offset, mri_blocks = blocks,
         mri_block_count = int (length blocks), mri_captured_bytes = int (length contents div 2)\<rparr>))"

text \<open>Whether GDB lists a feature; asked once and remembered.\<close>

definition has_feature :: "string \<Rightarrow> CommandExecutionInfo OperationResult \<Rightarrow> bool" where
  "has_feature feature r =
     (case r of
        Failure e \<Rightarrow> False
      | Success v ws \<Rightarrow>
          (case mi_payload v of
             PDict d \<Rightarrow> (case dget d ''features'' of PList fs \<Rightarrow> PStr feature \<in> set fs | _ \<Rightarrow> False)
           | _ \<Rightarrow> False))"

definition supports_read_memory_bytes :: "bool session" where
  "supports_read_memory_bytes =
     bindE (gets rt_read_memory_bytes_supported) (\<lambda>cached.
       case cached of
         Some b \<Rightarrow> ret b
       | None \<Rightarrow>
           bindE (run_default ''-list-features'') (\<lambda>r.
             let supported = has_feature ''data-read-memory-bytes'' r in
             thenE (modify (\<lambda>rt. rt\<lparr>rt_read_memory_bytes_supported := Some supported\<rparr>)) (ret supported)))"

definition read_memory :: "string \<Rightarrow> int \<Rightarrow> int \<Rightarrow> MemoryReadInfo OperationResult session" where
  "read_memory address byte_count offset =
     bindE supports_read_memory_bytes (\<lambda>supported.
     on_success (if supported then read_memory_bytes address byte_count offset
                 else read_memory_legacy address byte_count offset) (\<lambda>info.
       ret (Success info (read_memory_warnings info))))"

section \<open>Inferiors\<close>

definition listed_inferior ::
  "(ExecutionState \<times> string option \<times> int option) option \<Rightarrow> InferiorRecord \<Rightarrow> ListedInferior" where
  "listed_inferior known r =
     \<lparr>ir_inferior_id = ir_inferior_id r, ir_is_current = ir_is_current r, ir_display = ir_display r,
      ir_description = ir_description r, ir_connection = ir_connection r,
      ir_executable = ir_executable r, lir_known = known\<rparr>"

definition enrich_inferiors ::
  "InferiorStateRecord list \<Rightarrow> InferiorRecord list \<Rightarrow> ListedInferior list" where
  "enrich_inferiors states inferiors =
     (let state_by_inferior = map_of (rev (map (\<lambda>s. (isr_inferior_id s, s)) states)) in
      map (\<lambda>r. listed_inferior
             (map_option (\<lambda>s. (isr_execution_state s, isr_stop_reason s, isr_exit_code s))
               (state_by_inferior (ir_inferior_id r))) r) inferiors)"

definition list_inferiors ::
  "(ListedInferior list \<times> int \<times> int option) OperationResult session" where
  "list_inferiors =
     on_success (run_default ''info inferiors'') (\<lambda>v.
     bindE (gets rt_current_inferior_id) (\<lambda>current.
       let payload = parse_inferiors_output (str_or (cei_output v) []) current in
       thenE (modify (update_inferior_inventory (ili_current_inferior_id payload) (ili_count payload)
                (Some (inferior_ids payload))))
        (gets (\<lambda>rt. op_success (enrich_inferiors (inferiors_state_summary rt) (ili_inferiors payload),
                 ili_count payload, ili_current_inferior_id payload)))))"

definition bare_selection :: "int \<Rightarrow> InferiorSelectionInfo" where
  "bare_selection inferior_id =
     \<lparr>isi_inferior_id = inferior_id, isi_is_current = True, isi_display = None, isi_description = None,
      isi_connection = None, isi_executable = None,
      isi_message = Some (''Inferior '' @ show_int inferior_id @ '' selected'')\<rparr>"

definition inferior_selection_info :: "ListedInferior \<Rightarrow> InferiorSelectionInfo" where
  "inferior_selection_info r =
     \<lparr>isi_inferior_id = ir_inferior_id r, isi_is_current = ir_is_current r,
      isi_display = Some (ir_display r), isi_description = ir_description r,
      isi_connection = ir_connection r, isi_executable = ir_executable r,
      isi_message = Some (if ir_inferior_id r > 0
        then ''Inferior '' @ show_int (ir_inferior_id r) @ '' selected'' else ''Inferior selected'')\<rparr>"

definition select_inferior :: "int \<Rightarrow> InferiorSelectionInfo OperationResult session" where
  "select_inferior inferior_id =
     on_success (run_default (''inferior '' @ show_int inferior_id)) (\<lambda>_.
       thenE (modify (mark_inferior_selected (Some inferior_id)))
      (bindE list_inferiors (\<lambda>inventory. ret
        (case inventory of
           Failure e \<Rightarrow> Success (bare_selection inferior_id)
             [''Inferior selection succeeded, but refreshing inferior inventory failed: '' @ oe_message e]
         | Success (inferiors, _, _) ws \<Rightarrow>
             (case List.find (\<lambda>r. ir_inferior_id r = inferior_id) inferiors of
                None \<Rightarrow> Success (bare_selection inferior_id)
                  [''GDB selected inferior '' @ show_int inferior_id
                   @ '', but it was missing from the refreshed inventory.'']
              | Some r \<Rightarrow> op_success (inferior_selection_info r))))))"

end
