(* ===== verification/Code_Inspection.thy ===== *)
theory Code_Inspection
  imports Inspection
begin

text \<open>
  Code and source text (\<open>session/inspection/base.py\<close>, \<open>disassembly.py\<close>, \<open>source.py\<close>): resolving
  a location, disassembling around it and reading the source lines around it.
\<close>

section \<open>Records\<close>

record ResolvedCodeLocation =
  rcl_scope :: string
  rcl_thread_id :: "int option"
  rcl_frame :: "int option"
  rcl_function :: "string option"
  rcl_address :: "string option"
  rcl_file :: "string option"
  rcl_fullname :: "string option"
  rcl_line :: "int option"
  rcl_start_address :: "string option"
  rcl_end_address :: "string option"

definition bare_location :: "string \<Rightarrow> ResolvedCodeLocation" where
  "bare_location scope = \<lparr>rcl_scope = scope, rcl_thread_id = None, rcl_frame = None, rcl_function = None,
     rcl_address = None, rcl_file = None, rcl_fullname = None, rcl_line = None,
     rcl_start_address = None, rcl_end_address = None\<rparr>"

record DisassemblyInstructionRecord =
  dir_address :: string
  dir_instruction :: string
  dir_opcodes :: "string option"
  dir_function :: "string option"
  dir_offset :: "int option"
  dir_file :: "string option"
  dir_fullname :: "string option"
  dir_line :: "int option"
  dir_is_current :: bool

record DisassemblyInfo =
  dsi_scope :: string
  dsi_thread_id :: "int option"
  dsi_frame :: "int option"
  dsi_function :: "string option"
  dsi_file :: "string option"
  dsi_fullname :: "string option"
  dsi_line :: "int option"
  dsi_start_address :: "string option"
  dsi_end_address :: "string option"
  dsi_mixed :: bool
  dsi_instructions :: "DisassemblyInstructionRecord list"
  dsi_count :: int

record SourceLineRecord =
  slr_line_number :: int
  slr_text :: string
  slr_is_current :: bool

record ResolvedSourceWindow =
  rsw_file :: string
  rsw_fullname :: "string option"
  rsw_start_line :: int
  rsw_end_line :: int
  rsw_lines :: "SourceLineRecord list"

record SourceContextInfo =
  sci_scope :: string
  sci_thread_id :: "int option"
  sci_frame :: "int option"
  sci_function :: "string option"
  sci_address :: "string option"
  sci_file :: string
  sci_fullname :: "string option"
  sci_line :: "int option"
  sci_start_line :: int
  sci_end_line :: int
  sci_lines :: "SourceLineRecord list"
  sci_count :: int

section \<open>Text\<close>

text \<open>The matches of an expression that starts with \<open>^\<close> under \<open>re.MULTILINE\<close>: only at the start of
  a line.\<close>

function findall_lines :: "'a matcher \<Rightarrow> bool \<Rightarrow> string \<Rightarrow> 'a list" where
  "findall_lines m bol [] = []"
| "findall_lines m bol (c # cs) =
     (case (if bol then m (c # cs) else None) of
        None \<Rightarrow> findall_lines m (c = CHR 0x0A) cs
      | Some (x, rest) \<Rightarrow> x # findall_lines m False (if length rest \<le> length cs then rest else cs))"
  by pat_completeness auto
termination
  by (relation "measure (\<lambda>(m, b, s). length s)") auto

definition is_hex_digit :: "char \<Rightarrow> bool" where
  "is_hex_digit c = (c \<in> set ''0123456789abcdefABCDEF'')"

text \<open>\<open>0x[0-9a-fA-F]+\<close>.\<close>

definition match_address :: "string matcher" where
  "match_address s =
     Option.bind (eat ''0x'' s) (\<lambda>r.
       let digits = takeWhile is_hex_digit r in
       if digits = [] then None else Some (''0x'' @ digits, dropWhile is_hex_digit r))"

text \<open>\<open>(?: <[^>]+>)? and ends at (?P<end>0x...)\<close>, with the optional part first.\<close>

definition match_ends_at :: "string matcher" where
  "match_ends_at s = Option.bind (eat '' and ends at '' s) match_address"

definition match_symbol_end :: "string matcher" where
  "match_symbol_end s =
     (let with_symbol = Option.bind (eat '' <'' s) (\<lambda>r.
            let symbol = takeWhile (\<lambda>c. c \<noteq> CHR ''>'') r; rest = dropWhile (\<lambda>c. c \<noteq> CHR ''>'') r in
            if symbol = [] \<or> rest = [] then None else match_ends_at (tl rest))
      in if with_symbol \<noteq> None then with_symbol else match_ends_at s)"

text \<open>What follows the file name: the two addresses.\<close>

definition match_line_range :: "(string \<times> string) matcher" where
  "match_line_range s =
     Option.bind (eat ([CHR 0x22] @ '' starts at address '') s) (\<lambda>r.
     Option.bind (match_address r) (\<lambda>(start, r).
     Option.bind (match_symbol_end r) (\<lambda>(end_address, r). Some ((start, end_address), r))))"

text \<open>\<open>.+\<close> takes as much of the line as it can and gives characters back until the rest matches.\<close>

fun greedy_file :: "nat \<Rightarrow> string \<Rightarrow> ((string \<times> string \<times> string) \<times> string) option" where
  "greedy_file 0 s = None"
| "greedy_file (Suc n) s =
     (case match_line_range (drop (Suc n) s) of
        Some ((start, end_address), r) \<Rightarrow> Some ((take (Suc n) s, start, end_address), r)
      | None \<Rightarrow> greedy_file n s)"

definition match_info_line :: "(int \<times> string \<times> string \<times> string) matcher" where
  "match_info_line s =
     Option.bind (eat ''Line '' s) (\<lambda>r.
     Option.bind (match_digits r) (\<lambda>(digits, r).
     Option.bind (eat ('' of '' @ [CHR 0x22]) r) (\<lambda>r.
     Option.bind (greedy_file (length (takeWhile (\<lambda>c. c \<noteq> CHR 0x0A) r)) r) (\<lambda>((file, start, end_address), r).
       Some ((nat_of_digits digits, file, start, end_address), r)))))"

definition search_info_line :: "string \<Rightarrow> (int \<times> string \<times> string \<times> string) option" where
  "search_info_line s = (case findall_lines match_info_line True s of [] \<Rightarrow> None | x # _ \<Rightarrow> Some x)"

text \<open>\<open>^\s*(?:=>\s*)?(0x[0-9a-fA-F]+)\s+<\<close>.\<close>

definition match_cli_address :: "string matcher" where
  "match_cli_address s =
     (let r = lstrip s; r = (case eat ''=>'' r of Some t \<Rightarrow> lstrip t | None \<Rightarrow> r) in
      Option.bind (match_address r) (\<lambda>(address, r).
      Option.bind (eat_spaces r) (\<lambda>r.
      Option.bind (eat ''<'' r) (\<lambda>r. Some (address, r)))))"

section \<open>Resolving locations\<close>

definition current_frame_location ::
  "int option \<Rightarrow> int option \<Rightarrow> SelectionSnapshot option \<Rightarrow> ResolvedCodeLocation OperationResult session" where
  "current_frame_location thread_id frame selection =
     on_success (run_default ''-stack-info-frame'') (\<lambda>v.
       case mi_payload v of
         PDict d \<Rightarrow>
           (case dget d ''frame'' of
              PDict f \<Rightarrow>
                gets (\<lambda>rt. op_success \<lparr>rcl_scope = ''current_context'',
                  rcl_thread_id = (if thread_id \<noteq> None then thread_id
                    else case selection of Some s \<Rightarrow> sel_thread_id s | None \<Rightarrow> rt_current_thread_id rt),
                  rcl_frame = (if frame \<noteq> None then frame else as_int (dget f ''level'')),
                  rcl_function = as_text_or_number (dget f ''func''),
                  rcl_address = as_text_or_number (dget f ''addr''),
                  rcl_file = as_text_or_number (dget f ''file''),
                  rcl_fullname = as_text_or_number (dget f ''fullname''),
                  rcl_line = as_int (dget f ''line''),
                  rcl_start_address = None, rcl_end_address = None\<rparr>)
            | _ \<Rightarrow> ret (op_error ''GDB did not return frame data''))
       | _ \<Rightarrow> ret (op_error ''GDB returned malformed frame data''))"

definition resolve_info_line_location ::
  "string \<Rightarrow> string \<Rightarrow> string option \<Rightarrow> string option \<Rightarrow> ResolvedCodeLocation OperationResult session" where
  "resolve_info_line_location command scope function_name address =
     on_success (run_default command) (\<lambda>v. ret
       (case search_info_line (str_or (cei_output v) []) of
          None \<Rightarrow> op_error (''GDB did not return source information for '' @ repr_str command)
        | Some (line, file, start, end_address) \<Rightarrow>
            op_success ((bare_location scope)\<lparr>rcl_function := function_name, rcl_address := address,
              rcl_file := Some file, rcl_fullname := Some file, rcl_line := Some line,
              rcl_start_address := Some start, rcl_end_address := Some end_address\<rparr>)))"

section \<open>Disassembly\<close>

definition supports_disassemble_a :: "bool session" where
  "supports_disassemble_a =
     bindE (gets rt_disassemble_a_supported) (\<lambda>cached.
       case cached of
         Some b \<Rightarrow> ret b
       | None \<Rightarrow>
           bindE (run_default ''-list-features'') (\<lambda>r.
             let supported = has_feature ''data-disassemble-a-option'' r in
             thenE (modify (\<lambda>rt. rt\<lparr>rt_disassemble_a_supported := Some supported\<rparr>)) (ret supported)))"

definition address_value :: "string \<Rightarrow> int" where
  "address_value a = (case py_int 16 a of None \<Rightarrow> 0 | Some i \<Rightarrow> i)"

definition whole_function_address_range :: "string \<Rightarrow> (string \<times> string) OperationResult session" where
  "whole_function_address_range target =
     on_success (run_default (''disassemble '' @ target)) (\<lambda>v.
       let addresses = sort (map address_value (findall_lines match_cli_address True (str_or (cei_output v) [])))
       in ret (if addresses = []
               then coded_error (''GDB returned no disassembly for '' @ repr_str target) ''disassembly_unavailable'' []
               else op_success (show_hex (hd addresses), show_hex (last addresses + 1))))"

definition whole_function_command :: "string \<Rightarrow> string \<Rightarrow> string OperationResult session" where
  "whole_function_command target mode_token =
     bindE supports_disassemble_a (\<lambda>supported.
       if supported
       then ret (op_success (''-data-disassemble -a '' @ quote_mi_string target @ '' -- '' @ mode_token))
       else on_success (whole_function_address_range target) (\<lambda>(start, end_address).
         ret (op_success (''-data-disassemble -s '' @ start @ '' -e '' @ end_address @ '' -- '' @ mode_token))))"

text \<open>\<open>a or b\<close> on optional text and on optional numbers.\<close>

definition or_text :: "string option \<Rightarrow> string option \<Rightarrow> string option" where
  "or_text a b = (if str_truthy a then a else b)"

definition or_number :: "int option \<Rightarrow> int option \<Rightarrow> int option" where
  "or_number a b = (if a \<noteq> None \<and> a \<noteq> Some 0 then a else b)"

definition build_disassemble_command ::
  "ResolvedCodeLocation \<Rightarrow> int \<Rightarrow> bool \<Rightarrow> string OperationResult session" where
  "build_disassemble_command location instruction_count mixed =
     (let mode_token = (if mixed then ''1'' else ''0'');
          unable = ret (op_error ''Unable to build a disassembly command for the resolved selector'') in
      if rcl_scope location \<in> {''current_context'', ''file_line''} then
        (case (or_text (rcl_fullname location) (rcl_file location), rcl_line location) of
           (Some file, Some line) \<Rightarrow>
             ret (op_success (''-data-disassemble -f '' @ quote_mi_string file @ '' -l '' @ show_int line
                    @ '' -n '' @ show_int instruction_count @ '' -- '' @ mode_token))
         | _ \<Rightarrow>
             (case rcl_address location of
                Some address \<Rightarrow> whole_function_command address mode_token
              | None \<Rightarrow> ret (op_error ''Unable to resolve a current source line or address for disassembly'')))
      else if rcl_scope location = ''function'' \<and> rcl_function location \<noteq> None then
        whole_function_command (the (rcl_function location)) mode_token
      else if rcl_scope location = ''address'' \<and> rcl_address location \<noteq> None then
        whole_function_command (the (rcl_address location)) mode_token
      else if rcl_scope location = ''address_range'' then
        (case (rcl_start_address location, rcl_end_address location) of
           (Some start, Some end_address) \<Rightarrow>
             ret (op_success (''-data-disassemble -s '' @ quote_mi_string start @ '' -e ''
                    @ quote_mi_string end_address @ '' -- '' @ mode_token))
         | _ \<Rightarrow> unable)
      else unable)"

text \<open>\<open>int(s, 0)\<close>: the base is read off the prefix; a decimal number has no leading zero unless it
  is zero.\<close>

definition py_int0 :: "string \<Rightarrow> int option" where
  "py_int0 s =
     (let t = strip s;
          neg = startswith t ''-'';
          u = (if neg \<or> startswith t ''+'' then drop 1 t else t);
          digits = (\<lambda>b r. Option.bind (drop_underscores (if startswith r ''_'' then drop 1 r else r)) (read_digits b 0));
          low = lower u;
          mag = (if startswith low ''0x'' then digits 16 (drop 2 u)
                 else if startswith low ''0o'' then digits 8 (drop 2 u)
                 else if startswith low ''0b'' then digits 2 (drop 2 u)
                 else Option.bind (drop_underscores u) (\<lambda>d. Option.bind (read_digits 10 0 d) (\<lambda>n.
                        if startswith d ''0'' \<and> n \<noteq> 0 then None else Some n)))
      in map_option (\<lambda>n. if neg then - int n else int n) mag)"

definition addresses_equal :: "string \<Rightarrow> string \<Rightarrow> bool" where
  "addresses_equal left right =
     (case (py_int0 left, py_int0 right) of
        (Some a, Some b) \<Rightarrow> a = b
      | _ \<Rightarrow> left = right)"

definition normalize_disassembly_instruction ::
  "string option \<Rightarrow> string option \<Rightarrow> int option \<Rightarrow> string option \<Rightarrow> pyv \<Rightarrow>
     DisassemblyInstructionRecord option" where
  "normalize_disassembly_instruction file fullname line current_address payload =
     (case payload of
        PDict d \<Rightarrow>
          (case (as_text_or_number (dget d ''address''), as_text_or_number (dget d ''inst'')) of
             (Some address, Some instruction) \<Rightarrow>
               Some \<lparr>dir_address = address, dir_instruction = instruction,
                 dir_opcodes = as_text_or_number (dget d ''opcodes''),
                 dir_function = or_text (as_text_or_number (dget d ''func-name''))
                   (as_text_or_number (dget d ''func'')),
                 dir_offset = as_int (dget d ''offset''), dir_file = file, dir_fullname = fullname,
                 dir_line = line,
                 dir_is_current = (case current_address of None \<Rightarrow> False | Some a \<Rightarrow> addresses_equal address a)\<rparr>
           | _ \<Rightarrow> None)
      | _ \<Rightarrow> None)"

definition normalize_disassembly_entry :: "string option \<Rightarrow> pyv \<Rightarrow> DisassemblyInstructionRecord list" where
  "normalize_disassembly_entry current_address entry =
     (case entry of
        PDict d \<Rightarrow>
          (case dget d ''line_asm_insn'' of
             PList nested \<Rightarrow>
               List.map_filter (normalize_disassembly_instruction (as_text_or_number (dget d ''file''))
                 (as_text_or_number (dget d ''fullname'')) (as_int (dget d ''line'')) current_address) nested
           | _ \<Rightarrow>
               (case normalize_disassembly_instruction None None None current_address entry of
                  None \<Rightarrow> [] | Some r \<Rightarrow> [r]))
      | _ \<Rightarrow> [])"

definition normalize_disassembly_payload :: "string option \<Rightarrow> pyv \<Rightarrow> DisassemblyInstructionRecord list" where
  "normalize_disassembly_payload current_address payload =
     (case payload of
        PDict d \<Rightarrow>
          (case dget d ''asm_insns'' of
             PList entries \<Rightarrow> concat (map (normalize_disassembly_entry current_address) entries)
           | _ \<Rightarrow> [])
      | _ \<Rightarrow> [])"

definition first_of :: "('a \<Rightarrow> 'b option) \<Rightarrow> 'a list \<Rightarrow> 'b option" where
  "first_of f xs = first_some (map f xs)"

definition disassembly_info ::
  "ResolvedCodeLocation \<Rightarrow> bool \<Rightarrow> DisassemblyInstructionRecord list \<Rightarrow> DisassemblyInfo" where
  "disassembly_info location mixed instructions =
     \<lparr>dsi_scope = rcl_scope location, dsi_thread_id = rcl_thread_id location, dsi_frame = rcl_frame location,
      dsi_function = or_text (rcl_function location) (first_of dir_function instructions),
      dsi_file = or_text (rcl_file location) (first_of dir_file instructions),
      dsi_fullname = or_text (rcl_fullname location) (first_of dir_fullname instructions),
      dsi_line = or_number (rcl_line location) (first_of dir_line instructions),
      dsi_start_address = or_text (rcl_start_address location)
        (if instructions = [] then None else Some (dir_address (hd instructions))),
      dsi_end_address = or_text (rcl_end_address location)
        (if instructions = [] then None else Some (dir_address (last instructions))),
      dsi_mixed = mixed, dsi_instructions = instructions, dsi_count = int (length instructions)\<rparr>"

text \<open>A caller's selector: at most one of the ways to name a place in the code.\<close>

record code_selector =
  cs_function :: "string option"
  cs_address :: "string option"
  cs_start_address :: "string option"
  cs_end_address :: "string option"
  cs_file :: "string option"
  cs_line :: "int option"
  cs_start_line :: "int option"
  cs_end_line :: "int option"

definition no_selector :: code_selector where
  "no_selector = \<lparr>cs_function = None, cs_address = None, cs_start_address = None, cs_end_address = None,
     cs_file = None, cs_line = None, cs_start_line = None, cs_end_line = None\<rparr>"

text \<open>An error after the selection may have been moved.\<close>

definition or_restore ::
  "SelectionSnapshot option \<Rightarrow> 'a OperationResult session \<Rightarrow> ('a \<Rightarrow> 'b OperationResult session) \<Rightarrow>
     'b OperationResult session" where
  "or_restore selection m k =
     bindE m (\<lambda>r. case r of Failure e \<Rightarrow> selection_error_with_restore selection e | Success v ws \<Rightarrow> k v)"

definition disassemble_at ::
  "SelectionSnapshot option \<Rightarrow> bool \<Rightarrow> ResolvedCodeLocation \<Rightarrow> int \<Rightarrow> bool \<Rightarrow>
     DisassemblyInfo OperationResult session" where
  "disassemble_at selection changed location instruction_count mixed =
     or_restore selection (build_disassemble_command location instruction_count mixed) (\<lambda>command.
     or_restore selection (run_default command) (\<lambda>v.
       let instructions = take_py instruction_count
             (normalize_disassembly_payload (rcl_address location) (mi_payload v)) in
       end_inspection selection changed (op_success (disassembly_info location mixed instructions))))"

definition disassemble ::
  "int option \<Rightarrow> int option \<Rightarrow> code_selector \<Rightarrow> int \<Rightarrow> bool \<Rightarrow> DisassemblyInfo OperationResult session" where
  "disassemble thread_id frame sel instruction_count mixed =
     (let plain = (\<lambda>location. disassemble_at None False location instruction_count mixed) in
      if cs_function sel = None \<and> cs_address sel = None \<and> cs_start_address sel = None
         \<and> cs_end_address sel = None \<and> cs_file sel = None \<and> cs_line sel = None then
        on_success (begin_inspection (thread_id \<noteq> None \<or> frame \<noteq> None) thread_id frame) (\<lambda>(selection, changed).
        bindE (gets (\<lambda>rt. (bare_location ''current_context'')\<lparr>
            rcl_thread_id := (if thread_id \<noteq> None then thread_id
              else case selection of Some s \<Rightarrow> sel_thread_id s | None \<Rightarrow> rt_current_thread_id rt),
            rcl_frame := (if frame \<noteq> None then frame
              else case selection of Some s \<Rightarrow> sel_frame_number s | None \<Rightarrow> rt_current_frame rt),
            rcl_address := Some ''$pc''\<rparr>)) (\<lambda>location.
          disassemble_at selection changed location instruction_count mixed))
      else if cs_function sel \<noteq> None then
        plain ((bare_location ''function'')\<lparr>rcl_function := cs_function sel\<rparr>)
      else if cs_address sel \<noteq> None then
        plain ((bare_location ''address'')\<lparr>rcl_address := cs_address sel\<rparr>)
      else if cs_start_address sel \<noteq> None \<and> cs_end_address sel \<noteq> None then
        plain ((bare_location ''address_range'')\<lparr>rcl_start_address := cs_start_address sel,
                 rcl_end_address := cs_end_address sel\<rparr>)
      else if cs_file sel \<noteq> None \<and> cs_line sel \<noteq> None then
        plain ((bare_location ''file_line'')\<lparr>rcl_file := cs_file sel, rcl_fullname := cs_file sel,
                 rcl_line := cs_line sel\<rparr>)
      else ret (op_error ''Invalid disassembly selector combination''))"

section \<open>Source text\<close>

text \<open>The file system as \<open>pathlib\<close> shows it: the path text after expansion of the home directory,
  whether it exists and its content, and the resolved path.\<close>

record source_files =
  sf_expand :: "string \<Rightarrow> string"
  sf_exists :: "string \<Rightarrow> bool"
  sf_read :: "string \<Rightarrow> exn + string"
  sf_resolve :: "string \<Rightarrow> string"

text \<open>\<open>xs[i]\<close>, counted from the end for a negative index; \<open>None\<close> stands for \<open>IndexError\<close>.\<close>

definition py_nth :: "'a list \<Rightarrow> int \<Rightarrow> 'a option" where
  "py_nth xs i =
     (if 0 \<le> i \<and> i < int (length xs) then Some (xs ! nat i)
      else if i < 0 \<and> - int (length xs) \<le> i then Some (xs ! nat (int (length xs) + i))
      else None)"

definition source_line :: "string list \<Rightarrow> int option \<Rightarrow> int \<Rightarrow> SourceLineRecord option" where
  "source_line lines current n =
     map_option (\<lambda>text. \<lparr>slr_line_number = n, slr_text = text, slr_is_current = (current = Some n)\<rparr>)
       (py_nth lines (n - 1))"

definition source_window :: "string list \<Rightarrow> int option \<Rightarrow> int \<Rightarrow> int \<Rightarrow> exn + SourceLineRecord list" where
  "source_window lines current start_line end_line =
     (case those (map (source_line lines current) [start_line..end_line]) of
        None \<Rightarrow> Inl (Exn OtherError ''list index out of range'')
      | Some ls \<Rightarrow> Inr ls)"

definition read_window ::
  "source_files \<Rightarrow> ResolvedCodeLocation \<Rightarrow> string \<Rightarrow> int option \<Rightarrow> int option \<Rightarrow> int \<Rightarrow> int \<Rightarrow> string \<Rightarrow>
     ResolvedSourceWindow OperationResult session" where
  "read_window fs location file_selector requested_start requested_end context_before context_after text =
     (let lines = splitlines text;
          path = sf_expand fs file_selector;
          requested = requested_start \<noteq> None \<and> requested_end \<noteq> None;
          current = (if requested then None else rcl_line location) in
      if \<not> requested \<and> current = None
      then ret (op_error ''Resolved source location has no source line'')
      else let start_line = (if requested then the requested_start else max 1 (the current - context_before));
               end_line = (if requested then the requested_end else the current + context_after) in
        if start_line > int (length lines)
        then ret (op_error (''Source line '' @ show_int start_line @ '' is outside '' @ file_selector))
        else let end_line = min end_line (int (length lines)) in
          bindE (from_sum (source_window lines current start_line end_line)) (\<lambda>window.
            ret (op_success \<lparr>
              rsw_file = (if str_truthy (rcl_file location) then the (rcl_file location) else path),
              rsw_fullname = Some (if str_truthy (rcl_fullname location) then the (rcl_fullname location)
                                   else sf_resolve fs path),
              rsw_start_line = start_line, rsw_end_line = end_line, rsw_lines = window\<rparr>)))"

definition read_source_context ::
  "source_files \<Rightarrow> ResolvedCodeLocation \<Rightarrow> int option \<Rightarrow> int option \<Rightarrow> int \<Rightarrow> int \<Rightarrow>
     ResolvedSourceWindow OperationResult session" where
  "read_source_context fs location requested_start requested_end context_before context_after =
     (case or_text (rcl_fullname location) (rcl_file location) of
        None \<Rightarrow> ret (op_error ''Resolved source location has no file path'')
      | Some file_selector \<Rightarrow>
          if \<not> sf_exists fs (sf_expand fs file_selector)
          then ret (op_error (''Source file not found: '' @ file_selector))
          else bindE (from_sum (sf_read fs (sf_expand fs file_selector))) (\<lambda>text.
            read_window fs location file_selector requested_start requested_end context_before context_after text))"

definition source_context_at ::
  "source_files \<Rightarrow> SelectionSnapshot option \<Rightarrow> bool \<Rightarrow> ResolvedCodeLocation \<Rightarrow> code_selector \<Rightarrow> int \<Rightarrow> int \<Rightarrow>
     SourceContextInfo OperationResult session" where
  "source_context_at fs selection changed location sel context_before context_after =
     or_restore selection (read_source_context fs location (cs_start_line sel) (cs_end_line sel)
         context_before context_after) (\<lambda>w.
       end_inspection selection changed (op_success
         \<lparr>sci_scope = rcl_scope location, sci_thread_id = rcl_thread_id location,
          sci_frame = rcl_frame location, sci_function = rcl_function location,
          sci_address = rcl_address location, sci_file = rsw_file w, sci_fullname = rsw_fullname w,
          sci_line = rcl_line location, sci_start_line = rsw_start_line w,
          sci_end_line = rsw_end_line w, sci_lines = rsw_lines w, sci_count = int (length (rsw_lines w))\<rparr>))"

definition get_source_context ::
  "source_files \<Rightarrow> int option \<Rightarrow> int option \<Rightarrow> code_selector \<Rightarrow> int \<Rightarrow> int \<Rightarrow>
     SourceContextInfo OperationResult session" where
  "get_source_context fs thread_id frame sel context_before context_after =
     (let plain = (\<lambda>location. source_context_at fs None False location sel context_before context_after) in
      if cs_function sel = None \<and> cs_address sel = None \<and> cs_file sel = None \<and> cs_line sel = None
         \<and> cs_start_line sel = None \<and> cs_end_line sel = None then
        on_success (begin_inspection (thread_id \<noteq> None \<or> frame \<noteq> None) thread_id frame) (\<lambda>(selection, changed).
        or_restore selection (current_frame_location thread_id frame selection) (\<lambda>location.
          source_context_at fs selection changed location sel context_before context_after))
      else if cs_function sel \<noteq> None then
        on_success (resolve_info_line_location (''info line '' @ the (cs_function sel)) ''function''
                      (cs_function sel) None) plain
      else if cs_address sel \<noteq> None then
        on_success (resolve_info_line_location (''info line *'' @ the (cs_address sel)) ''address''
                      None (cs_address sel)) plain
      else if cs_file sel \<noteq> None \<and> cs_line sel \<noteq> None then
        plain ((bare_location ''file_line'')\<lparr>rcl_file := cs_file sel, rcl_fullname := cs_file sel,
                 rcl_line := cs_line sel\<rparr>)
      else if cs_file sel \<noteq> None \<and> cs_start_line sel \<noteq> None \<and> cs_end_line sel \<noteq> None then
        plain ((bare_location ''file_range'')\<lparr>rcl_file := cs_file sel, rcl_fullname := cs_file sel\<rparr>)
      else ret (op_error ''Invalid source context selector combination''))"

end
