(* ===== verification/Workflow.thy ===== *)
theory Workflow
  imports Lifecycle Code_Inspection
begin

text \<open>
  Batches of operations on one session (\<open>session/workflow.py\<close>), and the typed results of the
  session layer as the dataclass instances that \<open>payload_to_mapping\<close> serialises
  (\<open>domain/models.py\<close>): a dataclass is \<open>PData\<close> with its field names in declaration order, a
  \<open>TypedDict\<close> is a dictionary.
\<close>

section \<open>Results as Python values\<close>

definition opt_pyv :: "('a \<Rightarrow> pyv) \<Rightarrow> 'a option \<Rightarrow> pyv" where
  "opt_pyv f v = (case v of None \<Rightarrow> PNone | Some x \<Rightarrow> f x)"

definition exec_state_pyv :: "ExecutionState \<Rightarrow> pyv" where
  "exec_state_pyv e = PStr (exec_state_text e)"

definition timestamp_pyv :: "nat \<Rightarrow> pyv" where
  "timestamp_pyv t = PFloat (int t)"

definition stop_event_pyv :: "StopEvent \<Rightarrow> pyv" where
  "stop_event_pyv e = PData ''StopEvent''
     [(''execution_state'', exec_state_pyv (sev_execution_state e)), (''reason'', opt_str (sev_reason e)),
      (''command'', opt_str (sev_command e)), (''inferior_id'', opt_int (sev_inferior_id e)),
      (''thread_id'', opt_int (sev_thread_id e)), (''frame'', opt_pyv PDict (sev_frame e)),
      (''signal_name'', opt_str (sev_signal_name e)), (''signal_meaning'', opt_str (sev_signal_meaning e)),
      (''breakpoint_number'', opt_str (sev_breakpoint_number e)), (''exit_code'', opt_int (sev_exit_code e)),
      (''timestamp'', opt_pyv timestamp_pyv (sev_timestamp e)), (''details'', PDict (sev_details e))]"

definition transcript_entry_pyv :: "CommandTranscriptEntry \<Rightarrow> pyv" where
  "transcript_entry_pyv c = PData ''CommandTranscriptEntry''
     [(''command'', PStr (cte_command c)), (''sent_command'', opt_str (cte_sent_command c)),
      (''status'', PStr (cte_status c)), (''result_class'', opt_str (cte_result_class c)),
      (''timed_out'', PBool (cte_timed_out c)), (''fatal'', PBool (cte_fatal c)),
      (''error'', opt_str (cte_error c)), (''execution_state'', opt_pyv exec_state_pyv (cte_execution_state c)),
      (''stop_reason'', opt_str (cte_stop_reason c)), (''timestamp'', opt_pyv timestamp_pyv (cte_timestamp c))]"

definition inferior_state_pyv :: "InferiorStateRecord \<Rightarrow> pyv" where
  "inferior_state_pyv i = PDict
     [(''inferior_id'', PInt (isr_inferior_id i)), (''is_current'', PBool (isr_is_current i)),
      (''execution_state'', exec_state_pyv (isr_execution_state i)), (''stop_reason'', opt_str (isr_stop_reason i)),
      (''exit_code'', opt_int (isr_exit_code i))]"

definition status_pyv :: "SessionStatusSnapshot \<Rightarrow> pyv" where
  "status_pyv s = PData ''SessionStatusSnapshot''
     [(''is_running'', PBool (sss_is_running s)), (''target_loaded'', PBool (sss_target_loaded s)),
      (''has_controller'', PBool (sss_has_controller s)),
      (''execution_state'', exec_state_pyv (sss_execution_state s)),
      (''stop_reason'', opt_str (sss_stop_reason s)), (''exit_code'', opt_int (sss_exit_code s)),
      (''current_inferior_id'', opt_int (sss_current_inferior_id s)),
      (''inferior_count'', opt_int (sss_inferior_count s)),
      (''inferior_states'', opt_pyv (\<lambda>xs. PList (map inferior_state_pyv xs)) (sss_inferior_states s)),
      (''follow_fork_mode'', opt_pyv (\<lambda>m. PStr (fork_mode_text m)) (sss_follow_fork_mode s)),
      (''detach_on_fork'', opt_pyv PBool (sss_detach_on_fork s))]"

definition start_info_pyv :: "SessionStartInfo \<Rightarrow> pyv" where
  "start_info_pyv s = PData ''SessionStartInfo''
     [(''message'', PStr (ssi_message s)), (''program'', opt_str (ssi_program s)), (''core'', opt_str (ssi_core s)),
      (''target_loaded'', PBool (ssi_target_loaded s)),
      (''execution_state'', exec_state_pyv (ssi_execution_state s)),
      (''stop_reason'', opt_str (ssi_stop_reason s)), (''exit_code'', opt_int (ssi_exit_code s)),
      (''startup_output'', opt_str (ssi_startup_output s)),
      (''warnings'', opt_pyv (\<lambda>ws. PList (map PStr ws)) (ssi_warnings s)),
      (''env_output'', opt_pyv PList (ssi_env_output s)), (''init_output'', opt_pyv PList (ssi_init_output s)),
      (''endpoint'', opt_str (ssi_endpoint s)), (''rr_replay'', opt_str (ssi_rr_replay s))]"

definition thread_list_pyv :: "ThreadListInfo \<Rightarrow> pyv" where
  "thread_list_pyv t = PData ''ThreadListInfo''
     [(''threads'', PList (map PDict (tli_threads t))), (''current_thread_id'', opt_str (tli_current_thread_id t)),
      (''count'', PInt (tli_count t))]"

definition backtrace_pyv :: "BacktraceInfo \<Rightarrow> pyv" where
  "backtrace_pyv b = PData ''BacktraceInfo''
     [(''thread_id'', opt_int (bti_thread_id b)), (''frames'', PList (map PDict (bti_frames b))),
      (''count'', PInt (bti_count b))]"

definition frame_info_pyv :: "FrameInfo \<Rightarrow> pyv" where
  "frame_info_pyv f = PData ''FrameInfo'' [(''frame'', opt_pyv PDict (fri_frame f))]"

definition variables_pyv :: "VariablesInfo \<Rightarrow> pyv" where
  "variables_pyv v = PData ''VariablesInfo''
     [(''thread_id'', opt_int (vri_thread_id v)), (''frame'', PInt (vri_frame v)),
      (''variables'', PList (map PDict (vri_variables v)))]"

definition registers_pyv :: "RegistersInfo \<Rightarrow> pyv" where
  "registers_pyv r = PData ''RegistersInfo'' [(''registers'', PList (map PDict (rgi_registers r)))]"

definition expression_value_pyv :: "ExpressionValueInfo \<Rightarrow> pyv" where
  "expression_value_pyv e = PData ''ExpressionValueInfo''
     [(''expression'', PStr (evi_expression e)), (''value'', evi_value e)]"

definition memory_read_pyv :: "MemoryReadInfo \<Rightarrow> pyv" where
  "memory_read_pyv m = PData ''MemoryReadInfo''
     [(''address'', PStr (mri_address m)), (''count'', PInt (mri_count m)), (''offset'', PInt (mri_offset m)),
      (''blocks'', PList (map PDict (mri_blocks m))), (''block_count'', PInt (mri_block_count m)),
      (''captured_bytes'', PInt (mri_captured_bytes m))]"

section \<open>Files\<close>

text \<open>
  The file system: the directories that exist, the JSON values written so far with their paths in
  the order of the writes, and a script of the outcomes of the coming calls that create a directory
  or write a file (an exception, or \<open>None\<close> for success; a call past the end of the script succeeds).
\<close>

record disk =
  dk_dirs :: "string list"
  dk_files :: "(string \<times> pyv) list"
  dk_outcomes :: "exn option list"

text \<open>A session and the file system: the state the workflow services work on.\<close>

record capture_state =
  cs_runtime :: SessionRuntime
  cs_disk :: disk

type_synonym 'a capture = "(capture_state, 'a) exec"

definition on_runtime :: "'a session \<Rightarrow> 'a capture" where
  "on_runtime m = zoom cs_runtime cs_runtime_update m"

section \<open>Batches\<close>

text \<open>A validated step: the name of its tool, a label, and the operation bound to the session. The
  operation returns a value that is ready to be serialised.\<close>

record BatchStepTemplate =
  bst_tool :: string
  bst_execute :: "pyv OperationResult capture"
  bst_label :: "string option"

record BatchStepInvocation =
  bsi_tool :: string
  bsi_execute :: "pyv OperationResult capture"
  bsi_label :: "string option"

record BatchStepResult =
  bsr_index :: nat
  bsr_tool :: string
  bsr_status :: string
  bsr_result :: pydict
  bsr_label :: "string option"
  bsr_action :: "string option"
  bsr_code :: "string option"
  bsr_stop_event :: "StopEvent option"

record BatchExecutionInfo =
  bei_steps :: "BatchStepResult list"
  bei_count :: nat
  bei_completed_steps :: nat
  bei_error_count :: nat
  bei_stopped_early :: bool
  bei_failure_step_index :: "nat option"
  bei_final_execution_state :: ExecutionState
  bei_final_stop_reason :: "string option"
  bei_last_stop_event :: "StopEvent option"

definition step_stop_event :: "nat \<Rightarrow> SessionRuntime \<Rightarrow> StopEvent option" where
  "step_stop_event previous_stop_history_size rt =
     (if length (rt_stop_history rt) > previous_stop_history_size then Some (last (rt_stop_history rt)) else None)"

definition batch_step_result ::
  "nat \<Rightarrow> BatchStepInvocation \<Rightarrow> pyv OperationResult \<Rightarrow> pydict \<Rightarrow> StopEvent option \<Rightarrow> BatchStepResult" where
  "batch_step_result index step step_result serialized_result stop_event =
     \<lparr>bsr_index = index, bsr_tool = bsi_tool step,
      bsr_status = (case as_text (dget serialized_result ''status'') of
          Some s \<Rightarrow> s | None \<Rightarrow> if is_failure step_result then ''error'' else ''success''),
      bsr_result = serialized_result, bsr_label = bsi_label step,
      bsr_action = as_text (dget serialized_result ''action''),
      bsr_code = as_text (dget serialized_result ''code''), bsr_stop_event = stop_event\<rparr>"

definition execute_step :: "bool \<Rightarrow> nat \<Rightarrow> BatchStepInvocation \<Rightarrow> (BatchStepResult \<times> bool) capture" where
  "execute_step capture_stop_events index step =
     bindE (gets (\<lambda>s. length (rt_stop_history (cs_runtime s)))) (\<lambda>previous_stop_history_size.
     bindE (bsi_execute step) (\<lambda>step_result.
     bindE (from_sum (result_to_mapping step_result)) (\<lambda>serialized_result.
     bindE (if capture_stop_events then gets (\<lambda>s. step_stop_event previous_stop_history_size (cs_runtime s)) else ret None) (\<lambda>stop_event.
       ret (batch_step_result index step step_result serialized_result stop_event, is_failure step_result)))))"

text \<open>The loop: the results so far, and the number of errors; it returns the results, the number of
  errors and the index of the step it stopped at.\<close>

fun batch_loop ::
  "bool \<Rightarrow> bool \<Rightarrow> BatchStepInvocation list \<Rightarrow> BatchStepResult list \<Rightarrow> nat \<Rightarrow>
     (BatchStepResult list \<times> nat \<times> nat option) capture" where
  "batch_loop fail_fast capture_stop_events [] results error_count = ret (results, error_count, None)"
| "batch_loop fail_fast capture_stop_events (step # steps) results error_count =
     bindE (execute_step capture_stop_events (length results) step) (\<lambda>(result, failed).
       if failed \<and> fail_fast then ret (results @ [result], error_count + 1, Some (length results))
       else batch_loop fail_fast capture_stop_events steps (results @ [result])
              (if failed then error_count + 1 else error_count))"

definition execute_batch ::
  "BatchStepInvocation list \<Rightarrow> bool \<Rightarrow> bool \<Rightarrow> BatchExecutionInfo OperationResult capture" where
  "execute_batch steps fail_fast capture_stop_events =
     bindE (batch_loop fail_fast capture_stop_events steps [] 0) (\<lambda>(results, error_count, failure_step_index).
       gets (\<lambda>s. let rt = cs_runtime s in op_success
         \<lparr>bei_steps = results, bei_count = length steps, bei_completed_steps = length results,
          bei_error_count = error_count, bei_stopped_early = (failure_step_index \<noteq> None),
          bei_failure_step_index = failure_step_index, bei_final_execution_state = rt_execution_state rt,
          bei_final_stop_reason = rt_stop_reason rt, bei_last_stop_event = rt_last_stop_event rt\<rparr>))"

definition build_invocation :: "BatchStepTemplate \<Rightarrow> BatchStepInvocation" where
  "build_invocation step =
     \<lparr>bsi_tool = bst_tool step, bsi_execute = bst_execute step, bsi_label = bst_label step\<rparr>"

definition execute_batch_templates ::
  "BatchStepTemplate list \<Rightarrow> bool \<Rightarrow> bool \<Rightarrow> BatchExecutionInfo OperationResult capture" where
  "execute_batch_templates steps fail_fast capture_stop_events =
     execute_batch (map build_invocation steps) fail_fast capture_stop_events"

definition batch_step_pyv :: "BatchStepResult \<Rightarrow> pyv" where
  "batch_step_pyv r = PData ''BatchStepResult''
     [(''index'', PInt (int (bsr_index r))), (''tool'', PStr (bsr_tool r)), (''status'', PStr (bsr_status r)),
      (''result'', PDict (bsr_result r)), (''label'', opt_str (bsr_label r)), (''action'', opt_str (bsr_action r)),
      (''code'', opt_str (bsr_code r)), (''stop_event'', opt_pyv stop_event_pyv (bsr_stop_event r))]"

definition batch_info_pyv :: "BatchExecutionInfo \<Rightarrow> pyv" where
  "batch_info_pyv b = PData ''BatchExecutionInfo''
     [(''steps'', PList (map batch_step_pyv (bei_steps b))), (''count'', PInt (int (bei_count b))),
      (''completed_steps'', PInt (int (bei_completed_steps b))), (''error_count'', PInt (int (bei_error_count b))),
      (''stopped_early'', PBool (bei_stopped_early b)),
      (''failure_step_index'', opt_int (map_option int (bei_failure_step_index b))),
      (''final_execution_state'', exec_state_pyv (bei_final_execution_state b)),
      (''final_stop_reason'', opt_str (bei_final_stop_reason b)),
      (''last_stop_event'', opt_pyv stop_event_pyv (bei_last_stop_event b))]"

end
