(* ===== verification/Capture.thy ===== *)
theory Capture
  imports Workflow
begin

text \<open>
  Capture of a session's state into a bundle of files (\<open>session/capture.py\<close>): the request and its
  validation, the sections of a bundle in the order they are written, and the manifest.
\<close>

section \<open>Data\<close>

record MemoryCaptureRange =
  mcr_address :: string
  mcr_count :: int
  mcr_offset :: int
  mcr_name :: "string option"

record CaptureBundleRequest =
  cbr_output_dir :: "string option"
  cbr_bundle_name :: "string option"
  cbr_expressions :: "string list"
  cbr_memory_ranges :: "MemoryCaptureRange list"
  cbr_max_frames :: int
  cbr_include_threads :: bool
  cbr_include_backtraces :: bool
  cbr_include_frame :: bool
  cbr_include_variables :: bool
  cbr_include_registers :: bool
  cbr_include_transcript :: bool
  cbr_include_stop_history :: bool

record CaptureArtifactInfo =
  cai_name :: string
  cai_path :: string
  cai_status :: string
  cai_kind :: string

record CaptureBundleInfo =
  cbi_message :: string
  cbi_bundle_dir :: string
  cbi_bundle_name :: string
  cbi_manifest_path :: string
  cbi_artifacts :: "CaptureArtifactInfo list"
  cbi_artifact_count :: nat
  cbi_failed_sections :: "string list option"
  cbi_execution_state :: ExecutionState
  cbi_stop_reason :: "string option"
  cbi_last_stop_event :: "StopEvent option"

definition memory_range_pyv :: "MemoryCaptureRange \<Rightarrow> pyv" where
  "memory_range_pyv r = PData ''MemoryCaptureRange''
     [(''address'', PStr (mcr_address r)), (''count'', PInt (mcr_count r)), (''offset'', PInt (mcr_offset r)),
      (''name'', opt_str (mcr_name r))]"

definition artifact_pyv :: "CaptureArtifactInfo \<Rightarrow> pyv" where
  "artifact_pyv a = PData ''CaptureArtifactInfo''
     [(''name'', PStr (cai_name a)), (''path'', PStr (cai_path a)), (''status'', PStr (cai_status a)),
      (''kind'', PStr (cai_kind a))]"

definition bundle_info_pyv :: "CaptureBundleInfo \<Rightarrow> pyv" where
  "bundle_info_pyv b = PData ''CaptureBundleInfo''
     [(''message'', PStr (cbi_message b)), (''bundle_dir'', PStr (cbi_bundle_dir b)),
      (''bundle_name'', PStr (cbi_bundle_name b)), (''manifest_path'', PStr (cbi_manifest_path b)),
      (''artifacts'', PList (map artifact_pyv (cbi_artifacts b))),
      (''artifact_count'', PInt (int (cbi_artifact_count b))),
      (''failed_sections'', opt_pyv (\<lambda>xs. PList (map PStr xs)) (cbi_failed_sections b)),
      (''execution_state'', exec_state_pyv (cbi_execution_state b)),
      (''stop_reason'', opt_str (cbi_stop_reason b)),
      (''last_stop_event'', opt_pyv stop_event_pyv (cbi_last_stop_event b))]"

definition max_range_bytes :: int where
  "max_range_bytes = 4 * 1024"

definition max_total_bytes :: int where
  "max_total_bytes = 64 * 1024"

section \<open>Validation\<close>

text \<open>The loop over the memory ranges: the index, the bytes so far and the names seen.\<close>

fun validate_ranges :: "nat \<Rightarrow> int \<Rightarrow> string list \<Rightarrow> MemoryCaptureRange list \<Rightarrow> string option" where
  "validate_ranges index used names [] = None"
| "validate_ranges index used names (r # rs) =
     (let range = ''Memory range '' @ show_nat index;
          used' = used + mcr_count r in
      if mcr_count r < 1 then Some (range @ '' must request at least one byte'')
      else if mcr_offset r < 0 then Some (range @ '' must not use a negative offset'')
      else if mcr_count r > max_range_bytes
      then Some (range @ '' requests '' @ show_int (mcr_count r)
             @ '' bytes, which exceeds the per-range limit of '' @ show_int max_range_bytes)
      else if used' > max_total_bytes
      then Some (''Requested memory capture exceeds the total limit of '' @ show_int max_total_bytes @ '' bytes'')
      else (case mcr_name r of
          None \<Rightarrow> validate_ranges (index + 1) used' names rs
        | Some name \<Rightarrow>
            if strip name = [] then Some (range @ '' name must not be blank'')
            else if name \<in> set names then Some (''Duplicate memory range name: '' @ name)
            else validate_ranges (index + 1) used' (name # names) rs))"

definition validate_request :: "CaptureBundleRequest \<Rightarrow> string option" where
  "validate_request request = validate_ranges 0 0 [] (cbr_memory_ranges request)"

section \<open>Files\<close>

text \<open>What \<open>pathlib\<close> and \<open>tempfile\<close> contribute: \<open>Path(p).expanduser().resolve()\<close>, \<open>resolve()\<close> alone, the
  temporary directory, and the fresh directory name \<open>mkdtemp\<close> chooses in a directory.\<close>

record path_env =
  pe_expand :: "string \<Rightarrow> exn + string"
  pe_resolve :: "string \<Rightarrow> string"
  pe_tempdir :: string
  pe_fresh :: "string \<Rightarrow> string list \<Rightarrow> string"

definition disk_call :: "(disk \<Rightarrow> disk) \<Rightarrow> unit capture" where
  "disk_call f = zoom cs_disk cs_disk_update (\<lambda>d.
     case dk_outcomes d of
       [] \<Rightarrow> (Inr (), f d)
     | None # os \<Rightarrow> (Inr (), f (d\<lparr>dk_outcomes := os\<rparr>))
     | Some e # os \<Rightarrow> (Inl e, d\<lparr>dk_outcomes := os\<rparr>))"

definition make_dir :: "string \<Rightarrow> unit capture" where
  "make_dir p = disk_call (\<lambda>d. if p \<in> set (dk_dirs d) then d else d\<lparr>dk_dirs := dk_dirs d @ [p]\<rparr>)"

definition write_file :: "string \<Rightarrow> pyv \<Rightarrow> unit capture" where
  "write_file p v = disk_call (\<lambda>d. d\<lparr>dk_files := dk_files d @ [(p, v)]\<rparr>)"

text \<open>\<open>Path(a) / b\<close> and \<open>Path(a).name\<close>.\<close>

definition path_join :: "string \<Rightarrow> string \<Rightarrow> string" where
  "path_join a b = (if startswith b ''/'' then b else if a = ''/'' then a @ b else a @ ''/'' @ b)"

definition path_name :: "string \<Rightarrow> string" where
  "path_name p = rev (takeWhile (\<lambda>c. c \<noteq> CHR ''/'') (rev p))"

definition path_exists :: "string \<Rightarrow> disk \<Rightarrow> bool" where
  "path_exists p d = (p \<in> set (dk_dirs d) \<or> p \<in> fst ` set (dk_files d))"

definition base_dir :: "path_env \<Rightarrow> CaptureBundleRequest \<Rightarrow> string capture" where
  "base_dir env request =
     bindE (gets (\<lambda>s. rt_artifact_root (cs_runtime s))) (\<lambda>artifact_root.
       case (case cbr_output_dir request of Some p \<Rightarrow> Some p | None \<Rightarrow> artifact_root) of
         Some p \<Rightarrow> bindE (from_sum (pe_expand env p)) (\<lambda>b. thenE (make_dir b) (ret b))
       | None \<Rightarrow> ret (pe_resolve env (pe_tempdir env)))"

definition prepare_bundle_dir :: "path_env \<Rightarrow> CaptureBundleRequest \<Rightarrow> string capture" where
  "prepare_bundle_dir env request =
     bindE (base_dir env request) (\<lambda>base.
       case cbr_bundle_name request of
         Some name \<Rightarrow>
           bindE (gets (\<lambda>s. path_exists (path_join base name) (cs_disk s))) (\<lambda>exists.
             if exists then throw (Exn ValueError (''Capture bundle already exists: '' @ path_join base name))
             else thenE (make_dir (path_join base name)) (ret (pe_resolve env (path_join base name))))
       | None \<Rightarrow>
           bindE (gets (\<lambda>s. path_join base (''gdb-mcp-bundle-'' @ pe_fresh env base (dk_dirs (cs_disk s))))) (\<lambda>dir.
             thenE (make_dir dir) (ret (pe_resolve env dir))))"

section \<open>Artifacts\<close>

definition write_payload_artifact :: "path_env \<Rightarrow> string \<Rightarrow> string \<Rightarrow> pyv \<Rightarrow> CaptureArtifactInfo capture" where
  "write_payload_artifact env bundle_dir name payload =
     bindE (from_sum (payload_to_mapping payload)) (\<lambda>structured_payload.
       let artifact_path = path_join bundle_dir (name @ ''.json'') in
       thenE (write_file artifact_path structured_payload)
         (ret \<lparr>cai_name = name, cai_path = pe_resolve env artifact_path,
               cai_status = (case structured_payload of
                   PDict d \<Rightarrow> (case dget d ''status'' of PStr s \<Rightarrow> s | _ \<Rightarrow> ''success'')
                 | _ \<Rightarrow> ''success''),
               cai_kind = ''json''\<rparr>))"

definition write_result_artifact ::
  "path_env \<Rightarrow> string \<Rightarrow> string \<Rightarrow> pyv OperationResult \<Rightarrow> (CaptureArtifactInfo \<times> pydict) capture" where
  "write_result_artifact env bundle_dir name result =
     bindE (from_sum (result_to_mapping result)) (\<lambda>payload.
     bindE (write_payload_artifact env bundle_dir name (PDict payload)) (\<lambda>artifact.
       ret (artifact, payload)))"

text \<open>The artifacts written so far and the sections that failed.\<close>

type_synonym progress = "CaptureArtifactInfo list \<times> string list"

definition payload_section :: "path_env \<Rightarrow> string \<Rightarrow> string \<Rightarrow> pyv \<Rightarrow> progress \<Rightarrow> progress capture" where
  "payload_section env bundle_dir name payload pr =
     bindE (write_payload_artifact env bundle_dir name payload) (\<lambda>artifact.
       ret (fst pr @ [artifact], snd pr))"

text \<open>A section with a part of the runtime's state.\<close>

definition runtime_section ::
  "path_env \<Rightarrow> string \<Rightarrow> string \<Rightarrow> (SessionRuntime \<Rightarrow> pyv) \<Rightarrow> progress \<Rightarrow> progress capture" where
  "runtime_section env bundle_dir name f pr =
     bindE (gets (\<lambda>s. f (cs_runtime s))) (\<lambda>payload. payload_section env bundle_dir name payload pr)"

definition result_section ::
  "path_env \<Rightarrow> string \<Rightarrow> string \<Rightarrow> pyv OperationResult \<Rightarrow> progress \<Rightarrow> (progress \<times> pydict) capture" where
  "result_section env bundle_dir name result pr =
     bindE (write_result_artifact env bundle_dir name result) (\<lambda>(artifact, payload).
       ret ((fst pr @ [artifact], if cai_status artifact = ''error'' then snd pr @ [name] else snd pr), payload))"

text \<open>A section that is written only when it was asked for.\<close>

definition only_if :: "bool \<Rightarrow> (progress \<Rightarrow> progress capture) \<Rightarrow> progress \<Rightarrow> progress capture" where
  "only_if b m pr = (if b then m pr else ret pr)"

definition inspection_section ::
  "path_env \<Rightarrow> string \<Rightarrow> string \<Rightarrow> pyv OperationResult session \<Rightarrow> progress \<Rightarrow> progress capture" where
  "inspection_section env bundle_dir name m pr =
     bindE (on_runtime m) (\<lambda>result. bindE (result_section env bundle_dir name result pr) (\<lambda>(pr, _). ret pr))"

definition map_ok :: "('a \<Rightarrow> pyv) \<Rightarrow> 'a OperationResult session \<Rightarrow> pyv OperationResult session" where
  "map_ok f m = bindE m (\<lambda>r. ret (map_result f r))"

text \<open>One entry of a section that lists the results of several calls; \<open>extra\<close> is what is added to
  the serialised result.\<close>

definition listed_result ::
  "pyv OperationResult session \<Rightarrow> (pydict \<Rightarrow> exn + pydict) \<Rightarrow> pydict capture" where
  "listed_result m extra =
     bindE (on_runtime m) (\<lambda>result.
     bindE (from_sum (result_to_mapping result)) (\<lambda>payload. from_sum (extra payload)))"

definition is_error_payload :: "pydict \<Rightarrow> bool" where
  "is_error_payload payload = (dget payload ''status'' = PStr ''error'')"

fun listed_results ::
  "('a \<Rightarrow> pydict capture) \<Rightarrow> ('a \<Rightarrow> string) \<Rightarrow> 'a list \<Rightarrow> pyv list \<Rightarrow> string list \<Rightarrow> (pyv list \<times> string list) capture" where
  "listed_results call section_name [] payloads failed = ret (payloads, failed)"
| "listed_results call section_name (x # xs) payloads failed =
     bindE (call x) (\<lambda>payload.
       listed_results call section_name xs (payloads @ [PDict payload])
         (if is_error_payload payload then failed @ [section_name x] else failed))"

definition list_section ::
  "path_env \<Rightarrow> string \<Rightarrow> string \<Rightarrow> ('a \<Rightarrow> pydict capture) \<Rightarrow> ('a \<Rightarrow> string) \<Rightarrow> 'a list \<Rightarrow> progress \<Rightarrow>
     progress capture" where
  "list_section env bundle_dir name call section_name xs pr =
     bindE (listed_results call section_name xs [] (snd pr)) (\<lambda>(payloads, failed).
       payload_section env bundle_dir name (PList payloads) (fst pr, failed))"

section \<open>Sections\<close>

definition digit_thread_ids :: "gdb_record list \<Rightarrow> int list" where
  "digit_thread_ids threads =
     List.map_filter (\<lambda>t. case as_text (dget t ''id'') of
        Some raw_id \<Rightarrow> if isdigit raw_id then py_int 10 raw_id else None
      | None \<Rightarrow> None) threads"

definition threads_section :: "path_env \<Rightarrow> string \<Rightarrow> progress \<Rightarrow> (progress \<times> int list) capture" where
  "threads_section env bundle_dir pr =
     bindE (on_runtime get_threads) (\<lambda>threads_result.
     bindE (write_result_artifact env bundle_dir ''threads'' (map_result thread_list_pyv threads_result))
       (\<lambda>(artifact, _).
         if cai_status artifact = ''error'' then ret ((fst pr @ [artifact], snd pr @ [''threads'']), [])
         else ret ((fst pr @ [artifact], snd pr),
                   case threads_result of
                     Success v ws \<Rightarrow> digit_thread_ids (tli_threads v)
                   | Failure e \<Rightarrow> [])))"

definition no_threads_message :: string where
  "no_threads_message = ''Unable to capture thread backtraces because thread enumeration failed''"

definition backtraces_section :: "path_env \<Rightarrow> string \<Rightarrow> int \<Rightarrow> int list \<Rightarrow> progress \<Rightarrow> progress capture" where
  "backtraces_section env bundle_dir max_frames thread_ids pr =
     (if thread_ids = [] then
        bindE (from_sum (result_to_mapping (op_error no_threads_message))) (\<lambda>payload.
          payload_section env bundle_dir ''thread-backtraces'' (PList [PDict payload])
            (fst pr, snd pr @ [''thread-backtraces'']))
      else list_section env bundle_dir ''thread-backtraces''
             (\<lambda>t. listed_result (map_ok backtrace_pyv (get_backtrace (Some t) max_frames))
                    (\<lambda>payload. Inr (dset ''thread_id'' (PInt t) payload)))
             (\<lambda>t. ''thread-'' @ show_int t @ ''-backtrace'') thread_ids pr)"

definition expressions_section :: "path_env \<Rightarrow> string \<Rightarrow> int option \<Rightarrow> string list \<Rightarrow> progress \<Rightarrow> progress capture" where
  "expressions_section env bundle_dir thread_id expressions =
     list_section env bundle_dir ''expressions''
       (\<lambda>e. bindE (gets (\<lambda>s. rt_current_frame (cs_runtime s))) (\<lambda>frame.
              listed_result (map_ok expression_value_pyv (evaluate_expression e thread_id frame))
                (\<lambda>payload. Inr (dset ''expression'' (PStr e) payload))))
       (\<lambda>e. ''expression:'' @ e) expressions"

definition memory_range_section_name :: "MemoryCaptureRange \<Rightarrow> string" where
  "memory_range_section_name r =
     ''memory-range:'' @ (case mcr_name r of Some name \<Rightarrow> name | None \<Rightarrow> mcr_address r)"

definition memory_section :: "path_env \<Rightarrow> string \<Rightarrow> MemoryCaptureRange list \<Rightarrow> progress \<Rightarrow> progress capture" where
  "memory_section env bundle_dir ranges =
     list_section env bundle_dir ''memory-ranges''
       (\<lambda>r. listed_result (map_ok memory_read_pyv (read_memory (mcr_address r) (mcr_count r) (mcr_offset r)))
              (\<lambda>payload. case payload_to_mapping (memory_range_pyv r) of
                 Inl e \<Rightarrow> Inl e
               | Inr v \<Rightarrow>
                   let p = dset ''requested_range'' v payload in
                   Inr (case mcr_name r of Some name \<Rightarrow> dset ''name'' (PStr name) p | None \<Rightarrow> p)))
       memory_range_section_name ranges"

definition sorted_sections :: "string list \<Rightarrow> string list" where
  "sorted_sections failed = sort (remdups failed)"

definition manifest_payload ::
  "string \<Rightarrow> ExecutionState \<Rightarrow> string option \<Rightarrow> MemoryCaptureRange list \<Rightarrow> progress \<Rightarrow> SessionRuntime \<Rightarrow> pyv" where
  "manifest_payload bundle_dir state reason ranges pr rt = PDict
     [(''bundle_name'', PStr (path_name bundle_dir)), (''bundle_dir'', PStr bundle_dir),
      (''captured_at'', timestamp_pyv (wall_clock rt)), (''execution_state'', exec_state_pyv state),
      (''stop_reason'', opt_str reason), (''last_stop_event'', opt_pyv stop_event_pyv (rt_last_stop_event rt)),
      (''requested_memory_ranges'', PTuple (map memory_range_pyv ranges)),
      (''artifacts'', PList (map artifact_pyv (fst pr))),
      (''failed_sections'', PList (map PStr (sorted_sections (snd pr)))),
      (''session'', PDict
         [(''program'', opt_str (Option.bind (rt_config rt) cfg_program)),
          (''core'', opt_str (Option.bind (rt_config rt) cfg_core)),
          (''working_dir'', opt_str (Option.bind (rt_config rt) cfg_working_dir)),
          (''attached_pid'', opt_int (rt_attached_pid rt)), (''current_thread_id'', opt_int (rt_current_thread_id rt)),
          (''current_frame'', opt_int (rt_current_frame rt))])]"

section \<open>The bundle\<close>

text \<open>The first part of a bundle: the status, which gives the execution state and stop reason that are
  reported, the stop events and the transcript.\<close>

definition status_sections ::
  "path_env \<Rightarrow> string \<Rightarrow> CaptureBundleRequest \<Rightarrow> (progress \<times> ExecutionState \<times> string option) capture" where
  "status_sections env bundle_dir request =
     bindE (on_runtime get_status) (\<lambda>status.
     bindE (result_section env bundle_dir ''session-status'' (op_success (status_pyv status)) ([], [])) (\<lambda>(pr, payload).
     bindE (gets (\<lambda>s. (case as_execution_state (dget payload ''execution_state'') of
                         Some e \<Rightarrow> e | None \<Rightarrow> rt_execution_state (cs_runtime s),
                       case dget payload ''stop_reason'' of
                         PStr r \<Rightarrow> Some r | _ \<Rightarrow> rt_stop_reason (cs_runtime s)))) (\<lambda>(state, reason).
     bindE (runtime_section env bundle_dir ''last-stop-event'' (\<lambda>rt. opt_pyv stop_event_pyv (rt_last_stop_event rt)) pr) (\<lambda>pr.
     bindE (only_if (cbr_include_stop_history request)
              (runtime_section env bundle_dir ''stop-history'' (\<lambda>rt. PList (map stop_event_pyv (rt_stop_history rt)))) pr) (\<lambda>pr.
     bindE (only_if (cbr_include_transcript request)
              (runtime_section env bundle_dir ''command-transcript''
                 (\<lambda>rt. PList (map transcript_entry_pyv (rt_command_transcript rt)))) pr) (\<lambda>pr.
       ret (pr, state, reason)))))))"

definition thread_sections :: "path_env \<Rightarrow> string \<Rightarrow> CaptureBundleRequest \<Rightarrow> progress \<Rightarrow> progress capture" where
  "thread_sections env bundle_dir request pr =
     bindE (if cbr_include_threads request \<or> cbr_include_backtraces request
            then threads_section env bundle_dir pr else ret (pr, [])) (\<lambda>(pr, thread_ids).
       only_if (cbr_include_backtraces request)
         (backtraces_section env bundle_dir (cbr_max_frames request) thread_ids) pr)"

text \<open>The sections about the selected thread and frame. The thread is read before the frame section,
  the frame of the registers and the expressions after it.\<close>

definition context_sections :: "path_env \<Rightarrow> string \<Rightarrow> CaptureBundleRequest \<Rightarrow> progress \<Rightarrow> progress capture" where
  "context_sections env bundle_dir request pr =
     bindE (gets (\<lambda>s. (rt_current_thread_id (cs_runtime s),
                       case rt_current_frame (cs_runtime s) of None \<Rightarrow> 0 | Some f \<Rightarrow> f))) (\<lambda>(thread_id, frame).
     bindE (only_if (cbr_include_frame request)
              (inspection_section env bundle_dir ''current-frame'' (map_ok frame_info_pyv (get_frame_info None None))) pr) (\<lambda>pr.
     bindE (only_if (cbr_include_variables request)
              (inspection_section env bundle_dir ''current-variables'' (map_ok variables_pyv (get_variables thread_id frame))) pr) (\<lambda>pr.
     bindE (only_if (cbr_include_registers request)
              (inspection_section env bundle_dir ''current-registers''
                 (bindE (gets rt_current_frame) (\<lambda>f.
                    map_ok registers_pyv (get_registers thread_id f [] [] True None True)))) pr) (\<lambda>pr.
     bindE (only_if (cbr_expressions request \<noteq> [])
              (expressions_section env bundle_dir thread_id (cbr_expressions request)) pr) (\<lambda>pr.
       only_if (cbr_memory_ranges request \<noteq> [])
         (memory_section env bundle_dir (cbr_memory_ranges request)) pr)))))"

definition write_bundle :: "path_env \<Rightarrow> CaptureBundleRequest \<Rightarrow> string \<Rightarrow> CaptureBundleInfo OperationResult capture" where
  "write_bundle env request bundle_dir =
     bindE (status_sections env bundle_dir request) (\<lambda>(pr, state, reason).
     bindE (thread_sections env bundle_dir request pr) (\<lambda>pr.
     bindE (context_sections env bundle_dir request pr) (\<lambda>pr.
     bindE (gets (\<lambda>s. manifest_payload bundle_dir state reason (cbr_memory_ranges request) pr (cs_runtime s))) (\<lambda>manifest.
     bindE (write_payload_artifact env bundle_dir ''manifest'' manifest) (\<lambda>manifest_artifact.
       let artifacts = fst pr @ [manifest_artifact];
           failed = sorted_sections (snd pr) in
       gets (\<lambda>s. Success
         \<lparr>cbi_message = ''Capture bundle written'', cbi_bundle_dir = bundle_dir,
          cbi_bundle_name = path_name bundle_dir, cbi_manifest_path = cai_path manifest_artifact,
          cbi_artifacts = artifacts, cbi_artifact_count = length artifacts,
          cbi_failed_sections = list_or_none failed, cbi_execution_state = state,
          cbi_stop_reason = reason, cbi_last_stop_event = rt_last_stop_event (cs_runtime s)\<rparr>
         (map (\<lambda>section. ''Capture section failed: '' @ section) failed)))))))"

text \<open>The error of a failed preparation; an exception of another class is raised.\<close>

definition preparation_failed :: "exn \<Rightarrow> string OperationResult capture" where
  "preparation_failed e =
     (if is_os_error e then ret (op_error (''Failed to create capture bundle directory: '' @ exn_text e))
      else if exn_class e = ValueError then ret (op_error (exn_text e))
      else throw e)"

definition capture_bundle :: "path_env \<Rightarrow> CaptureBundleRequest \<Rightarrow> CaptureBundleInfo OperationResult capture" where
  "capture_bundle env request =
     (case validate_request request of
        Some message \<Rightarrow> ret (op_error message)
      | None \<Rightarrow>
          bindE (catchE (bindE (prepare_bundle_dir env request) (\<lambda>d. ret (op_success d))) preparation_failed) (\<lambda>r.
            case r of
              Failure e \<Rightarrow> ret (Failure e)
            | Success bundle_dir ws \<Rightarrow> write_bundle env request bundle_dir))"

end
