(* ===== verification/Session_Service.thy ===== *)
theory Session_Service
  imports Capture Breakpoints
begin

text \<open>
  The facade of a session (\<open>session/service.py\<close>): every operation a client can ask of a session
  that is running, and its result as the Python value that is serialised. The remaining results of
  the session layer are turned into Python values first.
\<close>

section \<open>Results as Python values\<close>

text \<open>Keys of a \<open>TypedDict\<close> that are present only with a value.\<close>

definition present :: "string \<Rightarrow> ('a \<Rightarrow> pyv) \<Rightarrow> 'a option \<Rightarrow> pydict" where
  "present key f v = (case v of None \<Rightarrow> [] | Some x \<Rightarrow> [(key, f x)])"

definition present_if :: "string \<Rightarrow> bool \<Rightarrow> pydict" where
  "present_if key b = (if b then [(key, PBool True)] else [])"

definition listed_inferior_pyv :: "ListedInferior \<Rightarrow> pyv" where
  "listed_inferior_pyv i = PDict
     ([(''inferior_id'', PInt (ir_inferior_id i)), (''is_current'', PBool (ir_is_current i)),
       (''display'', PStr (ir_display i))]
      @ present ''description'' PStr (ir_description i) @ present ''connection'' PStr (ir_connection i)
      @ present ''executable'' PStr (ir_executable i)
      @ (case lir_known i of
           None \<Rightarrow> []
         | Some (state, reason, code) \<Rightarrow>
             [(''execution_state'', exec_state_pyv state), (''stop_reason'', opt_str reason), (''exit_code'', opt_int code)]))"

definition inferior_list_pyv :: "ListedInferior list \<times> int \<times> int option \<Rightarrow> pyv" where
  "inferior_list_pyv v = (case v of (inferiors, n, current) \<Rightarrow> PData ''InferiorListInfo''
     [(''inferiors'', PList (map listed_inferior_pyv inferiors)), (''count'', PInt n),
      (''current_inferior_id'', opt_int current)])"

definition inferior_selection_pyv :: "InferiorSelectionInfo \<Rightarrow> pyv" where
  "inferior_selection_pyv i = PData ''InferiorSelectionInfo''
     [(''inferior_id'', PInt (isi_inferior_id i)), (''is_current'', PBool (isi_is_current i)),
      (''display'', opt_str (isi_display i)), (''description'', opt_str (isi_description i)),
      (''connection'', opt_str (isi_connection i)), (''executable'', opt_str (isi_executable i)),
      (''message'', opt_str (isi_message i))]"

definition inferior_add_pyv :: "InferiorAddInfo \<Rightarrow> pyv" where
  "inferior_add_pyv i = PData ''InferiorAddInfo''
     [(''inferior_id'', PInt (iai_inferior_id i)), (''is_current'', PBool (iai_is_current i)),
      (''display'', opt_str (iai_display i)), (''description'', opt_str (iai_description i)),
      (''connection'', opt_str (iai_connection i)), (''executable'', opt_str (iai_executable i)),
      (''current_inferior_id'', opt_int (iai_current_inferior_id i)),
      (''inferior_count'', opt_int (iai_inferior_count i)), (''message'', opt_str (iai_message i))]"

definition inferior_remove_pyv :: "InferiorRemoveInfo \<Rightarrow> pyv" where
  "inferior_remove_pyv i = PData ''InferiorRemoveInfo''
     [(''inferior_id'', PInt (iri_inferior_id i)), (''current_inferior_id'', opt_int (iri_current_inferior_id i)),
      (''inferior_count'', opt_int (iri_inferior_count i)), (''message'', opt_str (iri_message i))]"

definition follow_fork_pyv :: "FollowForkModeInfo \<Rightarrow> pyv" where
  "follow_fork_pyv f = PData ''FollowForkModeInfo''
     [(''mode'', PStr (fork_mode_text (ffi_mode f))), (''message'', PStr (ffi_message f))]"

definition detach_on_fork_pyv :: "DetachOnForkInfo \<Rightarrow> pyv" where
  "detach_on_fork_pyv f = PData ''DetachOnForkInfo''
     [(''enabled'', PBool (dfi_enabled f)), (''message'', PStr (dfi_message f))]"

definition wait_info_pyv :: "WaitForStopInfo \<Rightarrow> pyv" where
  "wait_info_pyv w = PData ''WaitForStopInfo''
     [(''message'', PStr (wsi_message w)), (''matched'', PBool (wsi_matched w)),
      (''timed_out'', PBool (wsi_timed_out w)), (''source'', PStr (wsi_source w)),
      (''execution_state'', opt_pyv exec_state_pyv (wsi_execution_state w)),
      (''stop_reason'', opt_str (wsi_stop_reason w)),
      (''reason_filter'', opt_pyv (\<lambda>xs. PList (map PStr xs)) (wsi_reason_filter w)),
      (''last_stop_event'', opt_pyv stop_event_pyv (wsi_last_stop_event w))]"

definition finish_info_pyv :: "FinishInfo \<Rightarrow> pyv" where
  "finish_info_pyv f = PData ''FinishInfo''
     [(''message'', PStr (fni_message f)), (''return_value'', opt_str (fni_return_value f)),
      (''gdb_result_var'', opt_str (fni_gdb_result_var f)), (''frame'', opt_pyv PDict (fni_frame f)),
      (''execution_state'', opt_pyv exec_state_pyv (fni_execution_state f)),
      (''stop_reason'', opt_str (fni_stop_reason f)),
      (''last_stop_event'', opt_pyv stop_event_pyv (fni_last_stop_event f))]"

definition message_result_pyv :: "MessageResult \<Rightarrow> pyv" where
  "message_result_pyv m = PData ''MessageResult''
     [(''message'', PStr (msr_message m)), (''result'', opt_pyv PDict (msr_result m)), (''status'', PStr (msr_status m))]"

definition function_call_pyv :: "FunctionCallInfo \<Rightarrow> pyv" where
  "function_call_pyv f = PData ''FunctionCallInfo''
     [(''function_call'', PStr (fci_function_call f)), (''result'', PStr (fci_result f))]"

definition session_message_pyv :: "string \<Rightarrow> pyv" where
  "session_message_pyv m = PData ''SessionMessage'' [(''message'', PStr m)]"

definition thread_selection_pyv :: "ThreadSelectionInfo \<Rightarrow> pyv" where
  "thread_selection_pyv t = PData ''ThreadSelectionInfo''
     [(''thread_id'', PInt (tsi_thread_id t)), (''new_thread_id'', opt_str (tsi_new_thread_id t)),
      (''frame'', opt_pyv PDict (tsi_frame t))]"

definition frame_selection_pyv :: "FrameSelectionInfo \<Rightarrow> pyv" where
  "frame_selection_pyv f = PData ''FrameSelectionInfo''
     [(''frame_number'', PInt (fsi_frame_number f)), (''frame'', opt_pyv PDict (fsi_frame f)),
      (''message'', opt_str (fsi_message f))]"

definition breakpoint_pyv :: "BreakpointInfo \<Rightarrow> pyv" where
  "breakpoint_pyv b = PData ''BreakpointInfo'' [(''breakpoint'', PDict (bpi_breakpoint b))]"

definition breakpoint_list_pyv :: "BreakpointListInfo \<Rightarrow> pyv" where
  "breakpoint_list_pyv b = PData ''BreakpointListInfo''
     [(''breakpoints'', PList (map PDict (bli_breakpoints b))), (''count'', PInt (bli_count b))]"

definition instruction_pyv :: "DisassemblyInstructionRecord \<Rightarrow> pyv" where
  "instruction_pyv i = PDict
     ([(''address'', PStr (dir_address i)), (''instruction'', PStr (dir_instruction i))]
      @ present ''function'' PStr (dir_function i) @ present ''offset'' PInt (dir_offset i)
      @ present ''opcodes'' PStr (dir_opcodes i) @ present ''file'' PStr (dir_file i)
      @ present ''fullname'' PStr (dir_fullname i) @ present ''line'' PInt (dir_line i)
      @ present_if ''is_current'' (dir_is_current i))"

definition disassembly_pyv :: "DisassemblyInfo \<Rightarrow> pyv" where
  "disassembly_pyv d = PData ''DisassemblyInfo''
     [(''scope'', PStr (dsi_scope d)), (''thread_id'', opt_int (dsi_thread_id d)), (''frame'', opt_int (dsi_frame d)),
      (''function'', opt_str (dsi_function d)), (''file'', opt_str (dsi_file d)), (''fullname'', opt_str (dsi_fullname d)),
      (''line'', opt_int (dsi_line d)), (''start_address'', opt_str (dsi_start_address d)),
      (''end_address'', opt_str (dsi_end_address d)), (''mode'', PStr (if dsi_mixed d then ''mixed'' else ''assembly'')),
      (''instructions'', PList (map instruction_pyv (dsi_instructions d))), (''count'', PInt (dsi_count d))]"

definition source_line_pyv :: "SourceLineRecord \<Rightarrow> pyv" where
  "source_line_pyv l = PDict
     ([(''line_number'', PInt (slr_line_number l)), (''text'', PStr (slr_text l))]
      @ present_if ''is_current'' (slr_is_current l))"

definition source_context_pyv :: "SourceContextInfo \<Rightarrow> pyv" where
  "source_context_pyv s = PData ''SourceContextInfo''
     [(''scope'', PStr (sci_scope s)), (''thread_id'', opt_int (sci_thread_id s)), (''frame'', opt_int (sci_frame s)),
      (''function'', opt_str (sci_function s)), (''address'', opt_str (sci_address s)), (''file'', PStr (sci_file s)),
      (''fullname'', opt_str (sci_fullname s)), (''line'', opt_int (sci_line s)), (''start_line'', PInt (sci_start_line s)),
      (''end_line'', PInt (sci_end_line s)), (''lines'', PList (map source_line_pyv (sci_lines s))),
      (''count'', PInt (sci_count s))]"

section \<open>Operations of a session\<close>

text \<open>The operations that the facade forwards to the execution service, the inspection service and the
  breakpoint service, with their arguments.\<close>

datatype execution_call =
    ExecuteCommand string int
  | Run "string list" int bool
  | AddInferior "string option" bool
  | RemoveInferior int
  | AttachProcess int int
  | SetFollowForkMode FollowForkMode
  | SetDetachOnFork bool
  | Continue bool int bool
  | WaitForStop int "string list"
  | StepLine bool int bool
  | NextLine bool int bool
  | Finish int bool bool
  | Interrupt
  | CallFunction string int

datatype inspection_call =
    GetThreads
  | ListInferiors
  | SelectInferior int
  | SelectThread int
  | GetBacktrace "int option" int
  | GetFrameInfo "int option" "int option"
  | Disassemble "int option" "int option" code_selector int bool
  | SelectFrame int
  | EvaluateExpression string "int option" "int option"
  | ReadMemory string int int
  | GetVariables "int option" int
  | GetSourceContext "int option" "int option" code_selector int int
  | GetRegisters "int option" "int option" "int list" "string list" bool "int option" bool

datatype breakpoint_call =
    SetBreakpoint string "string option" bool
  | SetWatchpoint string WatchpointAccessType
  | DeleteWatchpoint int
  | SetCatchpoint CatchpointType "string option" bool
  | ListBreakpoints
  | GetBreakpoint int
  | DeleteBreakpoint int
  | EnableBreakpoint int
  | DisableBreakpoint int
  | UpdateBreakpoint int "string option" bool

datatype service_call =
    GetStatus
  | StopSession
  | Execution execution_call
  | Inspection source_files inspection_call
  | Breakpoint breakpoint_call

primrec perform_execution :: "execution_call \<Rightarrow> pyv OperationResult session" where
  "perform_execution (ExecuteCommand command timeout_sec) =
     map_ok command_info_pyv (execute_command_result command timeout_sec False)"
| "perform_execution (Run args timeout_sec wait) = map_ok command_info_pyv (run_program args timeout_sec wait)"
| "perform_execution (AddInferior executable make_current) =
     map_ok inferior_add_pyv (add_inferior executable make_current)"
| "perform_execution (RemoveInferior i) = map_ok inferior_remove_pyv (exec_remove_inferior i)"
| "perform_execution (AttachProcess pid timeout_sec) = map_ok command_info_pyv (attach_process pid timeout_sec)"
| "perform_execution (SetFollowForkMode m) = map_ok follow_fork_pyv (set_follow_fork_mode m)"
| "perform_execution (SetDetachOnFork b) = map_ok detach_on_fork_pyv (set_detach_on_fork b)"
| "perform_execution (Continue wait timeout_sec back) =
     map_ok command_info_pyv (continue_execution wait timeout_sec back)"
| "perform_execution (WaitForStop timeout_sec reasons) = map_ok wait_info_pyv (wait_for_stop timeout_sec reasons)"
| "perform_execution (StepLine wait timeout_sec back) = map_ok command_info_pyv (step_line wait timeout_sec back)"
| "perform_execution (NextLine wait timeout_sec back) = map_ok command_info_pyv (next_line wait timeout_sec back)"
| "perform_execution (Finish timeout_sec wait back) = map_ok finish_info_pyv (finish_frame timeout_sec wait back)"
| "perform_execution Interrupt = map_ok message_result_pyv interrupt_program"
| "perform_execution (CallFunction f timeout_sec) = map_ok function_call_pyv (call_function f timeout_sec)"

primrec perform_inspection :: "source_files \<Rightarrow> inspection_call \<Rightarrow> pyv OperationResult session" where
  "perform_inspection fs GetThreads = map_ok thread_list_pyv get_threads"
| "perform_inspection fs ListInferiors = map_ok inferior_list_pyv list_inferiors"
| "perform_inspection fs (SelectInferior i) = map_ok inferior_selection_pyv (select_inferior i)"
| "perform_inspection fs (SelectThread t) = map_ok thread_selection_pyv (select_thread t)"
| "perform_inspection fs (GetBacktrace t max_frames) = map_ok backtrace_pyv (get_backtrace t max_frames)"
| "perform_inspection fs (GetFrameInfo t f) = map_ok frame_info_pyv (get_frame_info t f)"
| "perform_inspection fs (Disassemble t f sel n mixed) = map_ok disassembly_pyv (disassemble t f sel n mixed)"
| "perform_inspection fs (SelectFrame f) = map_ok frame_selection_pyv (select_frame f)"
| "perform_inspection fs (EvaluateExpression e t f) = map_ok expression_value_pyv (evaluate_expression e t f)"
| "perform_inspection fs (ReadMemory a n off) = map_ok memory_read_pyv (read_memory a n off)"
| "perform_inspection fs (GetVariables t f) = map_ok variables_pyv (get_variables t f)"
| "perform_inspection fs (GetSourceContext t f sel before after) =
     map_ok source_context_pyv (get_source_context fs t f sel before after)"
| "perform_inspection fs (GetRegisters t f numbers names vec mx hex) =
     map_ok registers_pyv (get_registers t f numbers names vec mx hex)"

primrec perform_breakpoint :: "breakpoint_call \<Rightarrow> pyv OperationResult session" where
  "perform_breakpoint (SetBreakpoint loc condition temporary) =
     map_ok breakpoint_pyv (set_breakpoint loc condition temporary)"
| "perform_breakpoint (SetWatchpoint e access) = map_ok breakpoint_pyv (set_watchpoint e access)"
| "perform_breakpoint (DeleteWatchpoint n) = map_ok session_message_pyv (delete_watchpoint n)"
| "perform_breakpoint (SetCatchpoint kind argument temporary) =
     map_ok breakpoint_pyv (set_catchpoint kind argument temporary)"
| "perform_breakpoint ListBreakpoints = map_ok breakpoint_list_pyv list_breakpoints"
| "perform_breakpoint (GetBreakpoint n) = map_ok breakpoint_pyv (get_breakpoint n)"
| "perform_breakpoint (DeleteBreakpoint n) = map_ok session_message_pyv (delete_breakpoint n)"
| "perform_breakpoint (EnableBreakpoint n) = map_ok session_message_pyv (enable_breakpoint n)"
| "perform_breakpoint (DisableBreakpoint n) = map_ok session_message_pyv (disable_breakpoint n)"
| "perform_breakpoint (UpdateBreakpoint n condition clear) =
     map_ok breakpoint_pyv (update_breakpoint n condition clear)"

primrec perform :: "service_call \<Rightarrow> pyv OperationResult session" where
  "perform GetStatus = bindE get_status (\<lambda>s. ret (op_success (status_pyv s)))"
| "perform StopSession = map_ok session_message_pyv stop_session_op"
| "perform (Execution c) = perform_execution c"
| "perform (Inspection fs c) = perform_inspection fs c"
| "perform (Breakpoint c) = perform_breakpoint c"

text \<open>A batch whose steps are operations of the session.\<close>

definition call_template :: "string \<times> string option \<times> service_call \<Rightarrow> BatchStepTemplate" where
  "call_template step = (case step of (tool, label, c) \<Rightarrow>
     \<lparr>bst_tool = tool, bst_execute = on_runtime (perform c), bst_label = label\<rparr>)"

end
