(* ===== verification/Campaign.thy ===== *)
theory Campaign
  imports Capture
begin

text \<open>
  Repeating a program in fresh sessions until a failure predicate matches
  (\<open>session/campaign.py\<close>): one iteration with its cleanup, the predicates, and the loop.
\<close>

section \<open>Data\<close>

record RunUntilFailureCriteria =
  rfc_failure_on_error :: bool
  rfc_failure_on_timeout :: bool
  rfc_stop_reasons :: "string list"
  rfc_execution_states :: "string list"
  rfc_exit_codes :: "int list"
  rfc_result_text_regex :: "string option"

text \<open>The bundle's own options are kept as one request.\<close>

record RunUntilFailureCaptureRequest =
  rfp_enabled :: bool
  rfp_bundle_name_prefix :: "string option"
  rfp_bundle :: CaptureBundleRequest

record RunUntilFailureRequest =
  rfr_program :: "string option"
  rfr_args :: "string list"
  rfr_init_commands :: "string list"
  rfr_env :: "(string \<times> string) list"
  rfr_gdb_path :: "string option"
  rfr_working_dir :: "string option"
  rfr_core :: "string option"
  rfr_setup_steps :: "BatchStepTemplate list"
  rfr_run_args :: "string list"
  rfr_run_timeout_sec :: int
  rfr_max_iterations :: nat
  rfr_failure :: RunUntilFailureCriteria
  rfr_capture :: RunUntilFailureCaptureRequest

record RunUntilFailureIterationInfo =
  rfi_iteration :: nat
  rfi_status :: string
  rfi_execution_state :: "ExecutionState option"
  rfi_stop_reason :: "string option"
  rfi_exit_code :: "int option"
  rfi_matched_failure :: bool
  rfi_trigger :: "string option"
  rfi_message :: "string option"

record MatchedFailure =
  mf_iteration :: nat
  mf_trigger :: "string option"
  mf_run_payload :: pydict
  mf_status_snapshot :: "SessionStatusSnapshot option"
  mf_capture_bundle :: "CaptureBundleInfo option"
  mf_capture_error :: "string option"

record RunUntilFailureInfo =
  rui_message :: string
  rui_matched_failure :: bool
  rui_iterations_requested :: nat
  rui_iterations_completed :: nat
  rui_failure_iteration :: "nat option"
  rui_trigger :: "string option"
  rui_execution_state :: "ExecutionState option"
  rui_stop_reason :: "string option"
  rui_exit_code :: "int option"
  rui_capture_bundle :: "CaptureBundleInfo option"
  rui_capture_error :: "string option"
  rui_last_result :: "pydict option"
  rui_iterations :: "RunUntilFailureIterationInfo list"

text \<open>What the campaign takes from outside: the file system's names, the regular expression engine
  (whether a pattern compiles, and whether it is found in the JSON text of a payload), and the
  session factory, a fresh session for each iteration.\<close>

record campaign_env =
  ce_paths :: path_env
  ce_compile :: "string \<Rightarrow> exn option"
  ce_search :: "string \<Rightarrow> pydict \<Rightarrow> bool"
  ce_factory :: "nat \<Rightarrow> SessionRuntime"

text \<open>The start of an iteration leaves the arguments it does not pass at their defaults.\<close>

definition campaign_config :: "RunUntilFailureRequest \<Rightarrow> SessionConfig" where
  "campaign_config request =
     \<lparr>cfg_program = rfr_program request, cfg_args = rfr_args request,
      cfg_init_commands = rfr_init_commands request, cfg_env = rfr_env request,
      cfg_gdb_path = rfr_gdb_path request, cfg_gdb_args = [], cfg_working_dir = rfr_working_dir request,
      cfg_core = rfr_core request, cfg_endpoint = None, cfg_rr_replay = None\<rparr>"

section \<open>Failure predicates\<close>

definition payload_message :: "pydict \<Rightarrow> string option" where
  "payload_message payload = (case dget payload ''message'' of PStr s \<Rightarrow> Some s | _ \<Rightarrow> None)"

definition matches_failure ::
  "campaign_env \<Rightarrow> RunUntilFailureCriteria \<Rightarrow> pydict \<Rightarrow> SessionStatusSnapshot \<Rightarrow> StopEvent option \<Rightarrow>
     bool \<times> string option" where
  "matches_failure env criteria payload status stop_event =
     (let message = payload_message payload;
          stop_reason = (case stop_event of Some e \<Rightarrow> sev_reason e | None \<Rightarrow> sss_stop_reason status);
          state = exec_state_text (sss_execution_state status) in
      if rfc_failure_on_timeout criteria \<and> message \<noteq> None \<and> contains ''timeout'' (lower (the message))
      then (True, Some ''timeout'')
      else if rfc_failure_on_error criteria \<and> dget payload ''status'' = PStr ''error''
      then (True, Some ''run_error'')
      else if stop_reason \<noteq> None \<and> the stop_reason \<in> set (rfc_stop_reasons criteria)
      then (True, Some (''stop_reason:'' @ the stop_reason))
      else if state \<in> set (rfc_execution_states criteria)
      then (True, Some (''execution_state:'' @ state))
      else if sss_exit_code status \<noteq> None \<and> the (sss_exit_code status) \<in> set (rfc_exit_codes criteria)
      then (True, Some (''exit_code:'' @ show_int (the (sss_exit_code status))))
      else if rfc_result_text_regex criteria \<noteq> None \<and> ce_search env (the (rfc_result_text_regex criteria)) payload
      then (True, Some ''result_text_regex'')
      else (False, None))"

text \<open>\<open>f"{prefix}-iter-{iteration:04d}"\<close>.\<close>

definition pad4 :: "nat \<Rightarrow> string" where
  "pad4 n = (let s = show_nat n in replicate (4 - length s) (CHR ''0'') @ s)"

definition bundle_name :: "string option \<Rightarrow> string option \<Rightarrow> nat \<Rightarrow> string option" where
  "bundle_name name prefix iteration =
     (case name of
        Some n \<Rightarrow> Some n
      | None \<Rightarrow> map_option (\<lambda>p. p @ ''-iter-'' @ pad4 iteration) prefix)"

section \<open>One iteration\<close>

text \<open>Cleanup of the session of an iteration; an exception of \<open>stop\<close> is swallowed.\<close>

definition cleanup_session :: "unit session" where
  "cleanup_session =
     bindE (gets has_controller) (\<lambda>has.
       if has then catchE (bindE stop_session_op (\<lambda>_. ret ())) (\<lambda>e. ret ()) else ret ())"

text \<open>\<open>try: m finally: c\<close>.\<close>

definition finallyE :: "('s, 'a) exec \<Rightarrow> ('s, unit) exec \<Rightarrow> ('s, 'a) exec" where
  "finallyE m c = (\<lambda>s. case m s of (r, s1) \<Rightarrow>
     (case c s1 of (Inl e, s2) \<Rightarrow> (Inl e, s2) | (Inr _, s2) \<Rightarrow> (r, s2)))"

text \<open>What an iteration leaves behind: its summary, the payload and status of the run if the program
  was run or failed to start, and the match.\<close>

record iteration_outcome =
  io_summary :: RunUntilFailureIterationInfo
  io_payload :: "pydict option"
  io_status :: "SessionStatusSnapshot option"
  io_matched :: "MatchedFailure option"

definition startup_failed :: "nat \<Rightarrow> OperationError \<Rightarrow> iteration_outcome capture" where
  "startup_failed iteration e =
     bindE (from_sum (result_to_mapping (Failure e))) (\<lambda>payload. ret
       \<lparr>io_summary = \<lparr>rfi_iteration = iteration, rfi_status = ''error'', rfi_execution_state = None,
          rfi_stop_reason = None, rfi_exit_code = None, rfi_matched_failure = True,
          rfi_trigger = Some ''startup_error'', rfi_message = Some (oe_message e)\<rparr>,
        io_payload = Some payload, io_status = None,
        io_matched = Some \<lparr>mf_iteration = iteration, mf_trigger = Some ''startup_error'', mf_run_payload = payload,
          mf_status_snapshot = None, mf_capture_bundle = None, mf_capture_error = None\<rparr>\<rparr>)"

definition setup_failed :: "nat \<Rightarrow> BatchExecutionInfo \<Rightarrow> string list \<Rightarrow> iteration_outcome capture" where
  "setup_failed iteration info ws =
     bindE (from_sum (result_to_mapping (Success (batch_info_pyv info) ws))) (\<lambda>payload.
     bindE (on_runtime get_status) (\<lambda>status. ret
       \<lparr>io_summary = \<lparr>rfi_iteration = iteration, rfi_status = ''error'',
          rfi_execution_state = Some (sss_execution_state status), rfi_stop_reason = sss_stop_reason status,
          rfi_exit_code = sss_exit_code status, rfi_matched_failure = True,
          rfi_trigger = Some ''setup_error'', rfi_message = Some ''One or more setup steps failed''\<rparr>,
        io_payload = None, io_status = None,
        io_matched = Some \<lparr>mf_iteration = iteration, mf_trigger = Some ''setup_error'', mf_run_payload = payload,
          mf_status_snapshot = Some status, mf_capture_bundle = None, mf_capture_error = None\<rparr>\<rparr>))"

text \<open>The bundle captured for a matching iteration: the bundle, or the message of the error.\<close>

definition capture_failure ::
  "campaign_env \<Rightarrow> RunUntilFailureCaptureRequest \<Rightarrow> nat \<Rightarrow> (CaptureBundleInfo option \<times> string option) capture" where
  "capture_failure env request iteration =
     bindE (capture_bundle (ce_paths env) ((rfp_bundle request)\<lparr>cbr_bundle_name :=
              bundle_name (cbr_bundle_name (rfp_bundle request)) (rfp_bundle_name_prefix request) iteration\<rparr>)) (\<lambda>r. ret
       (case r of Success info ws \<Rightarrow> (Some info, None) | Failure e \<Rightarrow> (None, Some (oe_message e))))"

definition status_text_of :: "pydict \<Rightarrow> string" where
  "status_text_of payload = py_str (dget_default payload ''status'' (PStr ''success''))"

definition run_and_match :: "campaign_env \<Rightarrow> RunUntilFailureRequest \<Rightarrow> nat \<Rightarrow> iteration_outcome capture" where
  "run_and_match env request iteration =
     bindE (on_runtime (run_program (rfr_run_args request) (rfr_run_timeout_sec request) True)) (\<lambda>run_result.
     bindE (from_sum (result_to_mapping (map_result command_info_pyv run_result))) (\<lambda>payload.
     bindE (on_runtime get_status) (\<lambda>status.
     bindE (gets (\<lambda>s. matches_failure env (rfr_failure request) payload status
                        (rt_last_stop_event (cs_runtime s)))) (\<lambda>(matched, trigger).
     bindE (if matched \<and> rfp_enabled (rfr_capture request)
            then capture_failure env (rfr_capture request) iteration else ret (None, None)) (\<lambda>(bundle, err). ret
       \<lparr>io_summary = \<lparr>rfi_iteration = iteration, rfi_status = status_text_of payload,
          rfi_execution_state = Some (sss_execution_state status), rfi_stop_reason = sss_stop_reason status,
          rfi_exit_code = sss_exit_code status, rfi_matched_failure = matched, rfi_trigger = trigger,
          rfi_message = payload_message payload\<rparr>,
        io_payload = Some payload, io_status = Some status,
        io_matched = (if matched then Some \<lparr>mf_iteration = iteration, mf_trigger = trigger, mf_run_payload = payload,
            mf_status_snapshot = Some status, mf_capture_bundle = bundle, mf_capture_error = err\<rparr> else None)\<rparr>)))))"

definition iteration_body :: "campaign_env \<Rightarrow> RunUntilFailureRequest \<Rightarrow> nat \<Rightarrow> iteration_outcome capture" where
  "iteration_body env request iteration =
     bindE (on_runtime (start_session_op (campaign_config request))) (\<lambda>startup_result.
       case startup_result of
         Failure e \<Rightarrow> startup_failed iteration e
       | Success info ws \<Rightarrow>
           if rfr_setup_steps request \<noteq> [] then
             bindE (execute_batch_templates (rfr_setup_steps request) True True) (\<lambda>setup_result.
               case setup_result of
                 Success binfo bws \<Rightarrow>
                   if bei_error_count binfo > 0 then setup_failed iteration binfo bws
                   else run_and_match env request iteration
               | Failure e \<Rightarrow> throw (Exn AttributeError (repr_str ''OperationError'' @ '' object has no attribute '' @ repr_str ''value'')))
           else run_and_match env request iteration)"

definition campaign_iteration :: "campaign_env \<Rightarrow> RunUntilFailureRequest \<Rightarrow> nat \<Rightarrow> iteration_outcome capture" where
  "campaign_iteration env request iteration =
     finallyE (iteration_body env request iteration) (on_runtime cleanup_session)"

section \<open>The loop\<close>

text \<open>The state of a campaign: the disk, and every session that was created, as its iteration left it.\<close>

record campaign_state =
  cg_disk :: disk
  cg_ended :: "SessionRuntime list"

definition in_fresh_session :: "SessionRuntime \<Rightarrow> 'a capture \<Rightarrow> (campaign_state, 'a) exec" where
  "in_fresh_session rt m = (\<lambda>s.
     case m \<lparr>cs_runtime = rt, cs_disk = cg_disk s\<rparr> of
       (r, cs) \<Rightarrow> (r, \<lparr>cg_disk = cs_disk cs, cg_ended = cg_ended s @ [cs_runtime cs]\<rparr>))"

text \<open>The payload and the status of the last run, and the summaries of the iterations.\<close>

record campaign_progress =
  cp_summaries :: "RunUntilFailureIterationInfo list"
  cp_last_payload :: "pydict option"
  cp_last_status :: "SessionStatusSnapshot option"

definition add_iteration :: "iteration_outcome \<Rightarrow> campaign_progress \<Rightarrow> campaign_progress" where
  "add_iteration out pr =
     \<lparr>cp_summaries = cp_summaries pr @ [io_summary out],
      cp_last_payload = (case io_payload out of Some p \<Rightarrow> Some p | None \<Rightarrow> cp_last_payload pr),
      cp_last_status = (case io_status out of Some p \<Rightarrow> Some p | None \<Rightarrow> cp_last_status pr)\<rparr>"

fun campaign_loop ::
  "campaign_env \<Rightarrow> RunUntilFailureRequest \<Rightarrow> nat list \<Rightarrow> campaign_progress \<Rightarrow>
     (campaign_state, campaign_progress \<times> MatchedFailure option) exec" where
  "campaign_loop env request [] pr = ret (pr, None)"
| "campaign_loop env request (iteration # iterations) pr =
     bindE (in_fresh_session (ce_factory env iteration) (campaign_iteration env request iteration)) (\<lambda>out.
       case io_matched out of
         Some m \<Rightarrow> ret (add_iteration out pr, Some m)
       | None \<Rightarrow> campaign_loop env request iterations (add_iteration out pr))"

definition no_match_info :: "RunUntilFailureRequest \<Rightarrow> campaign_progress \<Rightarrow> RunUntilFailureInfo" where
  "no_match_info request pr =
     \<lparr>rui_message = ''No failure matched after '' @ show_nat (rfr_max_iterations request) @ '' iteration''
        @ (if rfr_max_iterations request = 1 then [] else ''s''),
      rui_matched_failure = False, rui_iterations_requested = rfr_max_iterations request,
      rui_iterations_completed = length (cp_summaries pr), rui_failure_iteration = None, rui_trigger = None,
      rui_execution_state = map_option sss_execution_state (cp_last_status pr),
      rui_stop_reason = Option.bind (cp_last_status pr) sss_stop_reason,
      rui_exit_code = Option.bind (cp_last_status pr) sss_exit_code,
      rui_capture_bundle = None, rui_capture_error = None, rui_last_result = cp_last_payload pr,
      rui_iterations = cp_summaries pr\<rparr>"

text \<open>\<open>f"... {matched_info.trigger}"\<close> prints a missing trigger as \<open>None\<close>.\<close>

definition match_info :: "RunUntilFailureRequest \<Rightarrow> campaign_progress \<Rightarrow> MatchedFailure \<Rightarrow> RunUntilFailureInfo" where
  "match_info request pr m =
     \<lparr>rui_message = ''Failure matched on iteration '' @ show_nat (mf_iteration m) @ '': ''
        @ (case mf_trigger m of Some t \<Rightarrow> t | None \<Rightarrow> ''None''),
      rui_matched_failure = True, rui_iterations_requested = rfr_max_iterations request,
      rui_iterations_completed = length (cp_summaries pr), rui_failure_iteration = Some (mf_iteration m),
      rui_trigger = mf_trigger m,
      rui_execution_state = map_option sss_execution_state (mf_status_snapshot m),
      rui_stop_reason = Option.bind (mf_status_snapshot m) sss_stop_reason,
      rui_exit_code = Option.bind (mf_status_snapshot m) sss_exit_code,
      rui_capture_bundle = mf_capture_bundle m, rui_capture_error = mf_capture_error m,
      rui_last_result = Some (mf_run_payload m), rui_iterations = cp_summaries pr\<rparr>"

definition run_until_failure ::
  "campaign_env \<Rightarrow> RunUntilFailureRequest \<Rightarrow> (campaign_state, RunUntilFailureInfo OperationResult) exec" where
  "run_until_failure env request =
     (case Option.bind (rfc_result_text_regex (rfr_failure request)) (ce_compile env) of
        Some e \<Rightarrow> throw e
      | None \<Rightarrow>
          bindE (campaign_loop env request [1..<rfr_max_iterations request + 1]
                   \<lparr>cp_summaries = [], cp_last_payload = None, cp_last_status = None\<rparr>) (\<lambda>(pr, matched). ret
            (case matched of
               None \<Rightarrow> op_success (no_match_info request pr)
             | Some m \<Rightarrow> Success (match_info request pr m)
                 (case mf_capture_error m of None \<Rightarrow> [] | Some e \<Rightarrow> [''Capture bundle failed: '' @ e]))))"

end
