(* ===== verification/Registry.thy ===== *)
theory Registry
  imports Lifecycle
begin

text \<open>
  The registry of sessions (\<open>session/registry.py\<close>, with \<open>session/factory.py\<close>,
  \<open>session/locking.py\<close> and the constructor of \<open>session/service.py\<close>). Session objects live in a
  store and are known by a handle, so that two references to one session are the same
  handle, as \<open>current is session\<close> asks. What the code does while it holds the registry lock
  is one function here; a whole operation is their sequence, and the relation
  \<open>reg_step\<close> lets the pieces of concurrent operations interleave in any order.
\<close>

section \<open>State\<close>

record registry =
  reg_sessions :: "(int \<times> nat) list"
  reg_closing_sessions :: "int set"
  reg_next_session_id :: int
  reg_store :: "nat \<Rightarrow> SessionRuntime"
  reg_fresh :: nat

definition new_registry :: registry where
  "new_registry = \<lparr>reg_sessions = [], reg_closing_sessions = {}, reg_next_session_id = 1,
     reg_store = (\<lambda>_. new_runtime (sample_client [])), reg_fresh = 0\<rparr>"

definition initial_command_token :: nat where
  "initial_command_token = 1000"

definition poll_timeout_usec :: nat where
  "poll_timeout_usec = 100000"

text \<open>\<open>create_default_session_service\<close> in a given environment.\<close>

definition create_default_session_service :: "world \<Rightarrow> SessionRuntime" where
  "create_default_session_service w = new_runtime
     \<lparr>mc_controller = None, mc_command_token = initial_command_token,
      mc_poll_timeout = poll_timeout_usec, mc_lock_busy = False, mc_world = w\<rparr>"

record SessionSummary =
  ssm_session_id :: int
  ssm_lifecycle_state :: string
  ssm_execution_state :: ExecutionState
  ssm_target_loaded :: bool
  ssm_has_controller :: bool
  ssm_program :: "string option"
  ssm_core :: "string option"
  ssm_working_dir :: "string option"
  ssm_attached_pid :: "int option"
  ssm_current_thread_id :: "int option"
  ssm_current_frame :: "int option"
  ssm_stop_reason :: "string option"
  ssm_exit_code :: "int option"
  ssm_current_inferior_id :: "int option"
  ssm_inferior_count :: "int option"
  ssm_inferior_states :: "InferiorStateRecord list option"
  ssm_follow_fork_mode :: "FollowForkMode option"
  ssm_detach_on_fork :: "bool option"
  ssm_last_failure_message :: "string option"
  ssm_endpoint :: "string option"
  ssm_rr_replay :: "string option"

definition session_state_text :: "SessionState \<Rightarrow> string" where
  "session_state_text s =
     (case s of CREATED \<Rightarrow> ''created'' | STARTING \<Rightarrow> ''starting'' | READY \<Rightarrow> ''ready''
      | FAILED \<Rightarrow> ''failed'' | STOPPED \<Rightarrow> ''stopped'')"

section \<open>Steps under the registry lock\<close>

type_synonym 'a registry_op = "(registry, 'a) exec"

definition active_session_count :: "registry \<Rightarrow> nat" where
  "active_session_count reg = length (reg_sessions reg) + card (reg_closing_sessions reg)"

definition allocate_session_id :: "int registry_op" where
  "allocate_session_id reg =
     (Inr (reg_next_session_id reg), reg\<lparr>reg_next_session_id := reg_next_session_id reg + 1\<rparr>)"

definition publish_session :: "int \<Rightarrow> nat \<Rightarrow> registry \<Rightarrow> registry" where
  "publish_session session_id h reg =
     reg\<lparr>reg_sessions := AList.update session_id h (reg_sessions reg)\<rparr>"

definition get_session :: "int \<Rightarrow> registry \<Rightarrow> nat option" where
  "get_session session_id reg = map_of (reg_sessions reg) session_id"

definition begin_close :: "int \<Rightarrow> nat option registry_op" where
  "begin_close session_id reg =
     (case get_session session_id reg of
        None \<Rightarrow> (Inr None, reg)
      | Some h \<Rightarrow>
          (Inr (Some h), reg\<lparr>reg_closing_sessions := insert session_id (reg_closing_sessions reg)\<rparr>))"

definition abandon_close :: "int \<Rightarrow> registry \<Rightarrow> registry" where
  "abandon_close session_id reg =
     reg\<lparr>reg_closing_sessions := reg_closing_sessions reg - {session_id}\<rparr>"

definition finish_close :: "int \<Rightarrow> nat \<Rightarrow> registry \<Rightarrow> registry" where
  "finish_close session_id h reg =
     abandon_close session_id
       (if get_session session_id reg = Some h
        then reg\<lparr>reg_sessions := AList.delete session_id (reg_sessions reg)\<rparr> else reg)"

definition begin_shutdown :: "(int \<times> nat) list registry_op" where
  "begin_shutdown reg =
     (Inr (reg_sessions reg),
      reg\<lparr>reg_sessions := [], reg_closing_sessions := set (map fst (reg_sessions reg))\<rparr>)"

definition end_shutdown :: "registry \<Rightarrow> registry" where
  "end_shutdown reg = reg\<lparr>reg_closing_sessions := {}\<rparr>"

section \<open>Operations\<close>

text \<open>An operation of the session with a handle.\<close>

definition on_session :: "nat \<Rightarrow> 'a session \<Rightarrow> 'a registry_op" where
  "on_session h m reg =
     (case m (reg_store reg h) of (r, rt) \<Rightarrow> (r, reg\<lparr>reg_store := (reg_store reg)(h := rt)\<rparr>))"

definition create_session :: "world \<Rightarrow> nat registry_op" where
  "create_session w reg =
     (Inr (reg_fresh reg),
      reg\<lparr>reg_fresh := reg_fresh reg + 1,
          reg_store := (reg_store reg)(reg_fresh reg := create_default_session_service w)\<rparr>)"

definition start_session ::
  "SessionConfig \<Rightarrow> world \<Rightarrow> (int option \<times> SessionStartInfo OperationResult) registry_op" where
  "start_session request w =
     bindE allocate_session_id (\<lambda>session_id.
     bindE (create_session w) (\<lambda>session.
     bindE (on_session session (start_session_op request)) (\<lambda>result.
       if is_failure result then ret (None, result)
       else thenE (modify (publish_session session_id session)) (ret (Some session_id, result)))))"

definition unknown_session_error :: "int \<Rightarrow> registry \<Rightarrow> OperationError" where
  "unknown_session_error session_id reg =
     (let live = sort (map fst (reg_sessions reg));
          listed = (if live = [] then ''none'' else join '', '' (map show_int live))
      in OpError (''Invalid session_id: '' @ show_int session_id @ ''. Live sessions: '' @ listed
                  @ ''. Use gdb_session_start to create a new session.'')
           ''invalid_session'' False [(''live_session_ids'', PList (map PInt live))])"

definition session_closing_error :: "int \<Rightarrow> OperationError" where
  "session_closing_error session_id =
     OpError (''Session '' @ show_int session_id @ '' is closing and cannot accept new commands. Wait for gdb_session_manage(action=stop) to finish or start a new session.'')
       ''session_closing'' False []"

definition resolve_session :: "int \<Rightarrow> registry \<Rightarrow> OperationError + nat" where
  "resolve_session session_id reg =
     (if session_id \<in> reg_closing_sessions reg then Inl (session_closing_error session_id)
      else case get_session session_id reg of
             None \<Rightarrow> Inl (unknown_session_error session_id reg)
           | Some h \<Rightarrow> Inr h)"

definition summarize_session :: "int \<Rightarrow> bool \<Rightarrow> SessionSummary session" where
  "summarize_session session_id closing =
     bindE get_status (\<lambda>status. gets (\<lambda>rt.
       \<lparr>ssm_session_id = session_id,
        ssm_lifecycle_state = (if closing then ''closing'' else session_state_text (rt_state rt)),
        ssm_execution_state = sss_execution_state status,
        ssm_target_loaded = sss_target_loaded status,
        ssm_has_controller = sss_has_controller status,
        ssm_program = Option.bind (rt_config rt) cfg_program,
        ssm_core = Option.bind (rt_config rt) cfg_core,
        ssm_working_dir = Option.bind (rt_config rt) cfg_working_dir,
        ssm_attached_pid = rt_attached_pid rt, ssm_current_thread_id = rt_current_thread_id rt,
        ssm_current_frame = rt_current_frame rt, ssm_stop_reason = sss_stop_reason status,
        ssm_exit_code = sss_exit_code status, ssm_current_inferior_id = rt_current_inferior_id rt,
        ssm_inferior_count = rt_inferior_count rt,
        ssm_inferior_states = list_or_none (inferiors_state_summary rt),
        ssm_follow_fork_mode = rt_follow_fork_mode rt, ssm_detach_on_fork = rt_detach_on_fork rt,
        ssm_last_failure_message = rt_last_failure_message rt,
        ssm_endpoint = Option.bind (rt_config rt) cfg_endpoint,
        ssm_rr_replay = Option.bind (rt_config rt) cfg_rr_replay\<rparr>))"

fun summarize_all :: "int set \<Rightarrow> (int \<times> nat) list \<Rightarrow> SessionSummary list registry_op" where
  "summarize_all closing [] = ret []"
| "summarize_all closing ((session_id, h) # rest) =
     bindE (on_session h (summarize_session session_id (session_id \<in> closing))) (\<lambda>summary.
     bindE (summarize_all closing rest) (\<lambda>summaries. ret (summary # summaries)))"

definition list_sessions :: "SessionSummary list registry_op" where
  "list_sessions =
     bindE (gets reg_closing_sessions) (\<lambda>closing.
     bindE (gets (\<lambda>reg. sort_key fst (reg_sessions reg))) (summarize_all closing))"

definition inconsistent_message :: string where
  "inconsistent_message =
     ''Session state is inconsistent: session reports running without an active controller.''"

text \<open>Stopping the session of a close that has begun.\<close>

definition close_live :: "int \<Rightarrow> nat \<Rightarrow> string OperationResult registry_op" where
  "close_live session_id h =
     bindE (catchE (bindE (on_session h stop_session_op) (\<lambda>r. ret (Inr r))) (\<lambda>e. ret (Inl e))) (\<lambda>outcome.
       case outcome of
         Inl e \<Rightarrow> thenE (modify (abandon_close session_id)) (ret (op_error (exn_text e)))
       | Inr result \<Rightarrow>
           if is_failure result then thenE (modify (abandon_close session_id)) (ret result)
           else thenE (modify (finish_close session_id h)) (ret result))"

definition close_session :: "int \<Rightarrow> string OperationResult registry_op" where
  "close_session session_id =
     bindE (begin_close session_id) (\<lambda>session.
       case session of
         None \<Rightarrow> gets (\<lambda>reg. Failure (unknown_session_error session_id reg))
       | Some h \<Rightarrow>
           bindE (gets (\<lambda>reg. reg_store reg h)) (\<lambda>rt.
             if \<not> has_controller rt then
               (if rt_is_running rt
                then thenE (modify (abandon_close session_id)) (ret (op_error inconsistent_message))
                else thenE (modify (finish_close session_id h)) (ret (op_success ''Session removed'')))
             else close_live session_id h))"

text \<open>\<open>hung\<close> tells which stop workers are still busy when their time is up.\<close>

definition stop_session_for_shutdown :: "(nat \<Rightarrow> bool) \<Rightarrow> nat \<Rightarrow> string OperationResult registry_op" where
  "stop_session_for_shutdown hung h =
     bindE (gets (\<lambda>reg. reg_store reg h)) (\<lambda>rt.
       if \<not> has_controller rt then ret (op_success ''Session removed'')
       else if hung h then
         ret (op_error ''Timed out stopping a debugger session during shutdown; the GDB process may need to be killed'')
       else catchE (on_session h stop_session_op) (\<lambda>e. ret (op_error (exn_text e))))"

fun stop_all :: "(nat \<Rightarrow> bool) \<Rightarrow> (int \<times> nat) list \<Rightarrow> (int \<times> string OperationResult) list registry_op" where
  "stop_all hung [] = ret []"
| "stop_all hung ((session_id, h) # rest) =
     bindE (stop_session_for_shutdown hung h) (\<lambda>result.
     bindE (stop_all hung rest) (\<lambda>results. ret ((session_id, result) # results)))"

definition shutdown_all :: "(nat \<Rightarrow> bool) \<Rightarrow> (int \<times> string OperationResult) list registry_op" where
  "shutdown_all hung =
     bindE begin_shutdown (\<lambda>sessions.
     bindE (stop_all hung sessions) (\<lambda>results.
       thenE (modify end_shutdown) (ret results)))"

end
