(* ===== verification/Shlex.thy ===== *)
theory Shlex
  imports Exec_Monad
begin

text \<open>
  Shell-style splitting of an argument string: Python's \<open>shlex.split\<close> (POSIX rules, no comments),
  which \<open>mcp/handlers/common.py\<close> applies to run arguments, and the quoting of \<open>shlex.quote\<close>, its
  inverse.
\<close>

section \<open>Splitting\<close>

text \<open>The states of the lexer: between tokens, in a token, inside a quotation, after a backslash in a
  token, after a backslash in double quotes.\<close>

datatype shlex_state = Between | InToken | InQuote char | EscToken | EscDouble

abbreviation backslash :: char where "backslash \<equiv> CHR 0x5C"
abbreviation squote :: char where "squote \<equiv> CHR 0x27"
abbreviation dquote :: char where "dquote \<equiv> CHR 0x22"

definition shlex_space :: "char \<Rightarrow> bool" where
  "shlex_space c = (c \<in> {CHR '' '', CHR 0x09, CHR 0x0A, CHR 0x0D})"

text \<open>The lexer reads one character at a time; \<open>quoted\<close> tells whether the token had a quotation, so
  that an empty quotation is an argument. The tokens found so far are in order.\<close>

fun shlex_loop :: "shlex_state \<Rightarrow> string \<Rightarrow> bool \<Rightarrow> string list \<Rightarrow> string \<Rightarrow> exn + string list" where
  "shlex_loop Between token quoted acc [] = Inr acc"
| "shlex_loop Between token quoted acc (c # cs) =
     (if shlex_space c then shlex_loop Between token quoted acc cs
      else if c = backslash then shlex_loop EscToken [] False acc cs
      else if c = squote \<or> c = dquote then shlex_loop (InQuote c) [] False acc cs
      else shlex_loop InToken [c] False acc cs)"
| "shlex_loop InToken token quoted acc [] =
     Inr (if token \<noteq> [] \<or> quoted then acc @ [token] else acc)"
| "shlex_loop InToken token quoted acc (c # cs) =
     (if shlex_space c
      then shlex_loop Between [] False (if token \<noteq> [] \<or> quoted then acc @ [token] else acc) cs
      else if c = squote \<or> c = dquote then shlex_loop (InQuote c) token quoted acc cs
      else if c = backslash then shlex_loop EscToken token quoted acc cs
      else shlex_loop InToken (token @ [c]) quoted acc cs)"
| "shlex_loop (InQuote q) token quoted acc [] = Inl (Exn ValueError ''No closing quotation'')"
| "shlex_loop (InQuote q) token quoted acc (c # cs) =
     (if c = q then shlex_loop InToken token True acc cs
      else if c = backslash \<and> q = dquote then shlex_loop EscDouble token True acc cs
      else shlex_loop (InQuote q) (token @ [c]) True acc cs)"
| "shlex_loop EscToken token quoted acc [] = Inl (Exn ValueError ''No escaped character'')"
| "shlex_loop EscToken token quoted acc (c # cs) = shlex_loop InToken (token @ [c]) quoted acc cs"
| "shlex_loop EscDouble token quoted acc [] = Inl (Exn ValueError ''No escaped character'')"
| "shlex_loop EscDouble token quoted acc (c # cs) =
     shlex_loop (InQuote dquote)
       (token @ (if c \<noteq> backslash \<and> c \<noteq> dquote then [backslash, c] else [c])) quoted acc cs"

definition shlex_split :: "string \<Rightarrow> exn + string list" where
  "shlex_split s = shlex_loop Between [] False [] s"

section \<open>Quoting\<close>

text \<open>\<open>shlex.quote\<close>, without its shortcut for strings that need no quotes: a single-quoted string in
  which each single quote ends the quotation, is given in double quotes, and begins a new one.\<close>

fun quote_body :: "string \<Rightarrow> string" where
  "quote_body [] = []"
| "quote_body (c # cs) =
     (if c = squote then [squote, dquote, squote, dquote, squote] else [c]) @ quote_body cs"

definition shlex_quote :: "string \<Rightarrow> string" where
  "shlex_quote s = [squote] @ quote_body s @ [squote]"

definition shlex_join :: "string list \<Rightarrow> string" where
  "shlex_join args = join '' '' (map shlex_quote args)"

lemma loop_quote_body:
  "shlex_loop (InQuote squote) token quoted acc (quote_body s @ squote # rest)
   = shlex_loop InToken (token @ s) True acc rest"
  by (induction s arbitrary: token quoted) (simp_all add: shlex_space_def)

lemma loop_quote:
  "shlex_loop Between token quoted acc (shlex_quote s @ rest) = shlex_loop InToken s True acc rest"
  by (simp add: shlex_quote_def shlex_space_def loop_quote_body)

lemma loop_join:
  "shlex_loop Between token quoted acc (shlex_join args) = Inr (acc @ args)"
proof (induction args arbitrary: token quoted acc)
  case (Cons a args)
  show ?case
  proof (cases args)
    case Nil
    then show ?thesis using loop_quote [of token quoted acc a "[]"] by (simp add: shlex_join_def join_def)
  next
    case tl: (Cons b bs)
    then have "shlex_join (a # args) = shlex_quote a @ CHR '' '' # shlex_join args"
      by (simp add: shlex_join_def join_def)
    then show ?thesis using Cons.IH by (simp add: loop_quote shlex_space_def)
  qed
qed (simp add: shlex_join_def join_def)

end
