(* ===== verification/Mcp_Requests.thy ===== *)
theory Mcp_Requests
  imports Session_Service Campaign Registry Shlex
begin

text \<open>
  The request models of the server (\<open>mcp/schemas\<close>): what a handler receives once pydantic has
  validated the arguments of a tool call, and the validators that the models declare. A model is a
  record, a discriminated union a datatype whose constructors are its alternatives, and a model that
  extends another extends its record. Empty payloads and the literal discriminator fields carry no
  information and are left out; a constructor's first argument is the session id where the model has
  one.
\<close>

section \<open>Shared validators\<close>

text \<open>\<open>mcp/schemas/common.py\<close>.\<close>

definition value_error :: "string \<Rightarrow> exn + 'a" where
  "value_error message = Inl (Exn ValueError message)"

definition parse_int_text :: "string \<Rightarrow> int option" where
  "parse_int_text value =
     (let t = strip value in
      if t = [] then None
      else if hd t = CHR ''+'' \<or> hd t = CHR ''-''
      then (if isdigit (tl t) then Some (if hd t = CHR ''-'' then - nat_of_digits (tl t) else nat_of_digits (tl t)) else None)
      else if isdigit t then Some (nat_of_digits t) else None)"

definition coerce_int_like :: "pyv \<Rightarrow> string \<Rightarrow> int \<Rightarrow> bool \<Rightarrow> exn + int option" where
  "coerce_int_like v field_name minimum allow_none =
     (if v = PNone then (if allow_none then Inr None else value_error (field_name @ '' is required''))
      else let parsed = (case v of PInt i \<Rightarrow> Some i | PBool b \<Rightarrow> Some (if b then 1 else 0)
                         | PStr s \<Rightarrow> parse_int_text s | _ \<Rightarrow> None)
        in case parsed of
             None \<Rightarrow> value_error (field_name @ '' must be an integer'')
           | Some i \<Rightarrow>
               if i < minimum
               then value_error (if minimum = 1 then field_name @ '' must be > 0''
                                 else field_name @ '' must be >= '' @ show_int minimum)
               else Inr (Some i))"

definition normalize_optional_text :: "string option \<Rightarrow> string \<Rightarrow> exn + string option" where
  "normalize_optional_text v field_name =
     (case v of
        None \<Rightarrow> Inr None
      | Some s \<Rightarrow>
          (let t = strip s in
           if t = [] then value_error (field_name @ '' must be a non-empty string'') else Inr (Some t)))"

text \<open>The validators of required text fields: \<open>validate_location\<close>, \<open>validate_expression\<close>,
  \<open>validate_address\<close>, \<open>validate_function\<close>, \<open>validate_file\<close> and \<open>validate_range_address\<close>.\<close>

definition validate_required_text :: "string \<Rightarrow> string \<Rightarrow> exn + string" where
  "validate_required_text field_name v =
     (case normalize_optional_text (Some v) field_name of
        Inl e \<Rightarrow> Inl e
      | Inr None \<Rightarrow> value_error (field_name @ '' is required'')
      | Inr (Some t) \<Rightarrow> Inr t)"

section \<open>Selectors\<close>

record CaptureMemoryRangeArgs =
  cma_address :: string
  cma_count :: int
  cma_offset :: int
  cma_name :: "string option"

record ThreadFrameContextArgs =
  tfc_thread_id :: "int option"
  tfc_frame :: "int option"

section \<open>Execution control\<close>

datatype ExecutionWaitUntil = WaitAcknowledged | WaitStop

text \<open>\<open>list[str] | str\<close>.\<close>

datatype argv_input = ArgvList "string list" | ArgvText string

record ExecutionWaitPolicy =
  ewp_wait_until :: ExecutionWaitUntil
  ewp_timeout_sec :: "int option"

record ExecutionRunPayload = ExecutionWaitPolicy +
  erp_args :: "argv_input option"

record ExecutionControlPayload = ExecutionWaitPolicy +
  ecp_reverse :: bool

record ExecutionWaitForStopPayload =
  ewf_timeout_sec :: int
  ewf_stop_reasons :: "string list"

datatype ExecutionManageArgs =
    ExecutionRunAction int ExecutionRunPayload
  | ExecutionContinueAction int ExecutionControlPayload
  | ExecutionInterruptAction int
  | ExecutionStepAction int ExecutionControlPayload
  | ExecutionNextAction int ExecutionControlPayload
  | ExecutionFinishAction int ExecutionControlPayload
  | ExecutionWaitForStopAction int ExecutionWaitForStopPayload

section \<open>Inferiors\<close>

datatype InferiorQueryArgs = InferiorQueryListAction int | InferiorQueryCurrentAction int

record InferiorCreatePayload =
  icp_executable :: "string option"
  icp_make_current :: bool

definition validate_executable :: "string option \<Rightarrow> exn + string option" where
  "validate_executable v = normalize_optional_text v ''executable''"

datatype InferiorManageArgs =
    InferiorManageCreateAction int InferiorCreatePayload
  | InferiorManageRemoveAction int int
  | InferiorManageSelectAction int int
  | InferiorManageFollowForkAction int FollowForkMode
  | InferiorManageDetachOnForkAction int bool

section \<open>Threads and frames\<close>

record ContextBacktraceQueryArgs =
  cbq_thread_id :: "int option"
  cbq_max_frames :: int

record ContextFrameQueryArgs =
  cfq_thread_id :: "int option"
  cfq_frame :: "int option"

datatype ContextQueryArgs =
    ContextQueryThreadsAction int
  | ContextQueryBacktraceAction int ContextBacktraceQueryArgs
  | ContextQueryFrameAction int ContextFrameQueryArgs

datatype ContextManageArgs =
    ContextManageSelectThreadAction int int
  | ContextManageSelectFrameAction int int

section \<open>Breakpoints and locations\<close>

record BreakpointCodeCreateArgs =
  bcc_location :: string
  bcc_condition :: "string option"
  bcc_temporary :: bool

record BreakpointWatchCreateArgs =
  bwc_expression :: string
  bwc_access :: WatchpointAccessType

record BreakpointCatchCreateArgs =
  bca_event :: CatchpointType
  bca_argument :: "string option"
  bca_temporary :: bool

definition catch_argument_unsafe :: "char \<Rightarrow> bool" where
  "catch_argument_unsafe c = (c \<in> {CHR '';'', CHR 0x0D, CHR 0x0A, CHR 0x22, CHR 0x5C})"

definition validate_argument :: "string option \<Rightarrow> exn + string option" where
  "validate_argument v =
     (case normalize_optional_text v ''argument'' of
        Inl e \<Rightarrow> Inl e
      | Inr None \<Rightarrow> Inr None
      | Inr (Some t) \<Rightarrow>
          if list_ex catch_argument_unsafe t
          then value_error (''argument must not contain '' @ [CHR 0x27] @ '';'' @ [CHR 0x27]
                 @ '', quotes, backslashes, or newlines'')
          else Inr (Some t))"

datatype BreakpointCreateArgs =
    CodeCreate BreakpointCodeCreateArgs
  | WatchCreate BreakpointWatchCreateArgs
  | CatchCreate BreakpointCatchCreateArgs

record BreakpointUpdateChangesArgs =
  buc_condition :: "string option"
  buc_clear_condition :: bool

definition validate_requested_change :: "BreakpointUpdateChangesArgs \<Rightarrow> exn + BreakpointUpdateChangesArgs" where
  "validate_requested_change changes =
     (if buc_condition changes = None \<and> \<not> buc_clear_condition changes
      then value_error ''At least one breakpoint change is required''
      else if buc_condition changes \<noteq> None \<and> buc_clear_condition changes
      then value_error ''condition and clear_condition are mutually exclusive''
      else Inr changes)"

record BreakpointListQueryArgs =
  blq_kinds :: "string list"
  blq_enabled :: "bool option"

datatype number_action = ActionDelete | ActionEnable | ActionDisable

datatype BreakpointManageArgs =
    BreakpointManageCreateAction int BreakpointCreateArgs
  | BreakpointManageUpdateAction int int BreakpointUpdateChangesArgs
  | BreakpointManageNumberAction int number_action int

datatype BreakpointQueryArgs =
    BreakpointQueryListAction int BreakpointListQueryArgs
  | BreakpointQueryGetAction int int

datatype LocationSelectorArgs =
    LocationCurrentArgs
  | LocationFunctionArgs string
  | LocationAddressArgs string
  | LocationAddressRangeArgs string string
  | LocationFileLineArgs string int
  | LocationFileRangeArgs string int int

definition validate_range :: "LocationSelectorArgs \<Rightarrow> exn + LocationSelectorArgs" where
  "validate_range location =
     (case location of
        LocationFileRangeArgs file start_line end_line \<Rightarrow>
          if start_line > end_line then value_error ''start_line must be <= end_line'' else Inr location
      | _ \<Rightarrow> Inr location)"

section \<open>Inspection\<close>

record InspectEvaluateQueryArgs =
  ieq_context :: "ThreadFrameContextArgs option"
  ieq_expression :: string

record InspectVariablesQueryArgs =
  ivq_context :: "ThreadFrameContextArgs option"

record InspectRegistersQueryArgs =
  irq_context :: "ThreadFrameContextArgs option"
  irq_register_numbers :: "int list"
  irq_register_names :: "string list"
  irq_include_vector_registers :: bool
  irq_max_registers :: "int option"
  irq_hex_values :: bool

fun validate_register_numbers :: "nat \<Rightarrow> pyv list \<Rightarrow> exn + int list" where
  "validate_register_numbers index [] = Inr []"
| "validate_register_numbers index (raw_number # rest) =
     (let field_name = ''register_numbers['' @ show_nat index @ '']'' in
      case coerce_int_like raw_number field_name 0 False of
        Inl e \<Rightarrow> Inl e
      | Inr None \<Rightarrow> value_error (field_name @ '' is required'')
      | Inr (Some n) \<Rightarrow>
          (case validate_register_numbers (Suc index) rest of Inl e \<Rightarrow> Inl e | Inr ns \<Rightarrow> Inr (n # ns)))"

fun validate_register_names :: "nat \<Rightarrow> string list \<Rightarrow> exn + string list" where
  "validate_register_names index [] = Inr []"
| "validate_register_names index (name # rest) =
     (let t = strip name in
      if t = [] then value_error (''register_names['' @ show_nat index @ ''] must be a non-empty string'')
      else case validate_register_names (Suc index) rest of Inl e \<Rightarrow> Inl e | Inr ns \<Rightarrow> Inr (t # ns))"

record InspectMemoryQueryArgs =
  imq_address :: string
  imq_count :: int
  imq_offset :: int

record InspectDisassemblyQueryArgs =
  idq_context :: "ThreadFrameContextArgs option"
  idq_location :: LocationSelectorArgs
  idq_instruction_count :: int
  idq_mixed :: bool

record InspectSourceQueryArgs =
  isq_context :: "ThreadFrameContextArgs option"
  isq_location :: LocationSelectorArgs
  isq_context_before :: int
  isq_context_after :: int

datatype InspectQueryArgs =
    InspectEvaluateAction int InspectEvaluateQueryArgs
  | InspectVariablesAction int InspectVariablesQueryArgs
  | InspectRegistersAction int InspectRegistersQueryArgs
  | InspectMemoryAction int InspectMemoryQueryArgs
  | InspectDisassemblyAction int InspectDisassemblyQueryArgs
  | InspectSourceAction int InspectSourceQueryArgs

section \<open>Sessions and dedicated tools\<close>

datatype SessionQueryArgs = SessionQueryListAction | SessionQueryStatusAction int

datatype SessionManageArgs = SessionManageStopAction int

record StartSessionArgs =
  ssa_program :: "string option"
  ssa_args :: "argv_input option"
  ssa_init_commands :: "string list option"
  ssa_env :: "(string \<times> string) list option"
  ssa_gdb_path :: "string option"
  ssa_gdb_args :: "string list option"
  ssa_working_dir :: "string option"
  ssa_rr_replay :: "string option"
  ssa_core :: "string option"

definition gdb_arg_conflicting_reasons :: "(string \<times> string) list" where
  "gdb_arg_conflicting_reasons =
     [(''-i'', ''would replace the MI interpreter this server speaks''),
      (''--interpreter'', ''would replace the MI interpreter this server speaks''),
      (''--args'', ''conflicts with the '' @ repr_str ''program'' @ '' and '' @ repr_str ''args'' @ '' parameters''),
      (''-c'', ''conflicts with the '' @ repr_str ''core'' @ '' parameter''),
      (''--core'', ''conflicts with the '' @ repr_str ''core'' @ '' parameter''),
      (''-p'', ''conflicts with gdb_attach_process''),
      (''--pid'', ''conflicts with gdb_attach_process''),
      (''--attach'', ''conflicts with gdb_attach_process'')]"

definition gdb_arg_conflicting_options :: "string list" where
  "gdb_arg_conflicting_options =
     [''-i'', ''--interpreter'', ''--args'', ''-c'', ''--core'', ''-p'', ''--pid'', ''--attach'']"

definition gdb_arg_conflicting_prefixes :: "string list" where
  "gdb_arg_conflicting_prefixes = [''--interpreter='', ''--core='', ''--pid='']"

definition gdb_arg_value_options :: "string list" where
  "gdb_arg_value_options =
     [''-iex'', ''--init-eval-command'', ''-ix'', ''--init-command'', ''-ex'', ''--eval-command'',
      ''-x'', ''--command'', ''-d'', ''--directory'', ''-cd'', ''--cwd'', ''-s'', ''-symbols'',
      ''--symbols'', ''-tty'', ''--tty'']"

definition conflicting_reason :: "string \<Rightarrow> string" where
  "conflicting_reason option = (case map_of gdb_arg_conflicting_reasons option of Some r \<Rightarrow> r | None \<Rightarrow> [])"

definition gdb_arg_problem :: "nat \<Rightarrow> string \<Rightarrow> string \<Rightarrow> string option" where
  "gdb_arg_problem index previous entry =
     (let at = ''gdb_args['' @ show_nat index @ '']'' in
      if entry = [] then Some (at @ '' must not be empty'')
      else if entry \<in> set gdb_arg_conflicting_options
      then Some (at @ '' '' @ repr_str entry @ '' '' @ conflicting_reason entry)
      else if list_ex (startswith entry) gdb_arg_conflicting_prefixes
      then Some (at @ '' '' @ repr_str entry @ '' ''
             @ conflicting_reason (takeWhile (\<lambda>c. c \<noteq> CHR ''='') entry))
      else if \<not> startswith entry ''-'' \<and> previous \<notin> set gdb_arg_value_options
      then Some (at @ '' '' @ repr_str entry @ '' is a bare argument: pass it as the operand of a preceding option such as ''
             @ repr_str ''-iex'' @ '' or '' @ repr_str ''-d'' @ '', or use '' @ repr_str ''program'' @ ''/'' @ repr_str ''args'')
      else None)"

fun gdb_args_problems :: "nat \<Rightarrow> string \<Rightarrow> string list \<Rightarrow> string list" where
  "gdb_args_problems index previous [] = []"
| "gdb_args_problems index previous (raw # rest) =
     (let entry = strip raw in
      (case gdb_arg_problem index previous entry of None \<Rightarrow> [] | Some m \<Rightarrow> [m])
        @ gdb_args_problems (Suc index) entry rest)"

definition validate_gdb_args :: "string list option \<Rightarrow> exn + string list option" where
  "validate_gdb_args v =
     (case v of
        None \<Rightarrow> Inr None
      | Some xs \<Rightarrow>
          (let problems = gdb_args_problems 0 [] xs in
           if problems \<noteq> [] then value_error (join ''; '' problems) else Inr v))"

record ConnectSessionArgs =
  csa_endpoint :: string
  csa_init_commands :: "string list option"

definition validate_endpoint :: "string \<Rightarrow> exn + string" where
  "validate_endpoint v =
     (let normalized = strip v in
      if normalized = [] then value_error ''endpoint is required'' else Inr normalized)"

record ExecuteCommandArgs =
  eca_session_id :: int
  eca_command :: string
  eca_timeout_sec :: int

record AttachProcessArgs =
  apa_session_id :: int
  apa_pid :: int
  apa_timeout_sec :: int

record CallFunctionArgs =
  cfa_session_id :: int
  cfa_function_call :: string
  cfa_timeout_sec :: int

section \<open>Batches, captures and campaigns\<close>

record BatchStepArgs =
  bsa_tool :: string
  bsa_arguments :: pydict
  bsa_label :: "string option"

datatype BatchStepInput = StepObject BatchStepArgs | StepTool string

record BatchArgs =
  bta_session_id :: int
  bta_steps :: "BatchStepInput list"
  bta_fail_fast :: bool
  bta_capture_stop_events :: bool

datatype memory_range_input = RangeObject CaptureMemoryRangeArgs | RangeText string

record CaptureOptionsArgs =
  coa_output_dir :: "string option"
  coa_bundle_name :: "string option"
  coa_expressions :: "string list"
  coa_memory_ranges :: "memory_range_input list"
  coa_max_frames :: int
  coa_include_threads :: bool
  coa_include_backtraces :: bool
  coa_include_frame :: bool
  coa_include_variables :: bool
  coa_include_registers :: bool
  coa_include_transcript :: bool
  coa_include_stop_history :: bool

record CaptureBundleArgs = CaptureOptionsArgs +
  cba_session_id :: int

record RunUntilFailureFailureArgs =
  rff_failure_on_error :: bool
  rff_failure_on_timeout :: bool
  rff_stop_reasons :: "string list"
  rff_execution_states :: "string list"
  rff_exit_codes :: "int list"
  rff_result_text_regex :: "string option"

record RunUntilFailureCaptureArgs = CaptureOptionsArgs +
  rca_enabled :: bool
  rca_bundle_name_prefix :: "string option"

definition validate_bundle_naming :: "RunUntilFailureCaptureArgs \<Rightarrow> exn + RunUntilFailureCaptureArgs" where
  "validate_bundle_naming args =
     (if coa_bundle_name args \<noteq> None \<and> rca_bundle_name_prefix args \<noteq> None
      then value_error ''capture.bundle_name and capture.bundle_name_prefix are mutually exclusive''
      else Inr args)"

record RunUntilFailureArgs =
  rua_startup :: StartSessionArgs
  rua_setup_steps :: "BatchStepInput list"
  rua_run_args :: "argv_input option"
  rua_run_timeout_sec :: int
  rua_max_iterations :: nat
  rua_failure :: RunUntilFailureFailureArgs
  rua_capture :: RunUntilFailureCaptureArgs

section \<open>Validated arguments\<close>

text \<open>The arguments of a tool that performs one operation on a session, and the arguments of the
  others: a batch on a session, and the tools that are given the registry.\<close>

datatype session_tool_args =
    ExecuteCommandTool ExecuteCommandArgs
  | InferiorQueryTool InferiorQueryArgs
  | InferiorManageTool InferiorManageArgs
  | ExecutionManageTool ExecutionManageArgs
  | BreakpointQueryTool BreakpointQueryArgs
  | BreakpointManageTool BreakpointManageArgs
  | ContextQueryTool ContextQueryArgs
  | ContextManageTool ContextManageArgs
  | InspectQueryTool InspectQueryArgs
  | AttachProcessTool AttachProcessArgs
  | CaptureBundleTool CaptureBundleArgs
  | CallFunctionTool CallFunctionArgs

datatype tool_args =
    SessionTool session_tool_args
  | WorkflowBatchTool BatchArgs
  | SessionQueryTool SessionQueryArgs
  | SessionStartTool StartSessionArgs
  | SessionConnectTool ConnectSessionArgs
  | SessionManageTool SessionManageArgs
  | RunUntilFailureTool RunUntilFailureArgs

end
