(* ===== verification/Mcp_Common.thy ===== *)
theory Mcp_Common
  imports Mcp_Requests
begin

text \<open>
  What the tool handlers share (\<open>contracts.py\<close>, \<open>mcp/handlers/common.py\<close>, \<open>mcp/serializer.py\<close>): the
  names of the tools and the contract of batch steps, the envelope of an action, the annotation of
  failures, run arguments, memory ranges, and the serialisation of a result.
\<close>

section \<open>Tool names and the batch contract\<close>

definition public_tool_names :: "string list" where
  "public_tool_names =
     [''gdb_session_start'', ''gdb_session_connect'', ''gdb_session_query'', ''gdb_session_manage'',
      ''gdb_inferior_query'', ''gdb_inferior_manage'', ''gdb_execution_manage'', ''gdb_breakpoint_query'',
      ''gdb_breakpoint_manage'', ''gdb_context_query'', ''gdb_context_manage'', ''gdb_inspect_query'',
      ''gdb_workflow_batch'', ''gdb_capture_bundle'', ''gdb_run_until_failure'', ''gdb_execute_command'',
      ''gdb_attach_process'', ''gdb_call_function'']"

definition batch_step_tool_names :: "string list" where
  "batch_step_tool_names =
     [''gdb_session_query'', ''gdb_inferior_query'', ''gdb_inferior_manage'', ''gdb_execution_manage'',
      ''gdb_breakpoint_query'', ''gdb_breakpoint_manage'', ''gdb_context_query'', ''gdb_context_manage'',
      ''gdb_inspect_query'', ''gdb_capture_bundle'', ''gdb_execute_command'', ''gdb_attach_process'',
      ''gdb_call_function'']"

datatype WorkflowStepValidationIssue =
    SessionIdNotAllowed | SessionQueryListNotAllowed | SessionManageNotAllowed
  | NestedWorkflowToolNotAllowed | UnknownTool

definition validate_workflow_step_contract :: "string \<Rightarrow> pydict \<Rightarrow> WorkflowStepValidationIssue option" where
  "validate_workflow_step_contract tool_name arguments =
     (if dhas arguments ''session_id'' then Some SessionIdNotAllowed
      else if tool_name = ''gdb_session_query'' \<and> dget arguments ''action'' = PStr ''list''
      then Some SessionQueryListNotAllowed
      else if tool_name = ''gdb_session_manage'' then Some SessionManageNotAllowed
      else if tool_name \<in> {''gdb_workflow_batch'', ''gdb_run_until_failure''} then Some NestedWorkflowToolNotAllowed
      else if tool_name \<notin> set batch_step_tool_names then Some UnknownTool
      else None)"

definition workflow_step_validation_error :: "string \<Rightarrow> WorkflowStepValidationIssue \<Rightarrow> nat \<Rightarrow> OperationError" where
  "workflow_step_validation_error tool_name issue index =
     (case issue of
        SessionIdNotAllowed \<Rightarrow>
          OpError (''Batch step '' @ show_nat index @ '' ('' @ tool_name
             @ '') must not include session_id. It is inherited from gdb_workflow_batch.'')
            ''validation_error'' False []
      | SessionQueryListNotAllowed \<Rightarrow>
          OpError ''gdb_session_query(action=list) is not valid inside gdb_workflow_batch''
            ''unsupported_combination'' False []
      | SessionManageNotAllowed \<Rightarrow>
          OpError ''gdb_session_manage is not valid inside gdb_workflow_batch''
            ''unsupported_combination'' False []
      | _ \<Rightarrow> OpError (''Unsupported batch step tool: '' @ tool_name) ''unknown_tool'' False [])"

section \<open>Action envelopes\<close>

definition normalize_arguments :: "pyv \<Rightarrow> exn + pydict" where
  "normalize_arguments arguments =
     (case arguments of
        PNone \<Rightarrow> Inr []
      | PDict d \<Rightarrow> Inr d
      | _ \<Rightarrow> Inl (Exn TypeError ''Tool arguments must be a JSON object''))"

text \<open>\<open>d.setdefault(k, v)\<close>.\<close>

definition setdefault :: "string \<Rightarrow> pyv \<Rightarrow> pydict \<Rightarrow> pydict" where
  "setdefault k v d = (if dhas d k then d else dset k v d)"

definition error_details :: "OperationError \<Rightarrow> exn + pydict" where
  "error_details e =
     (case payload_to_mapping (PDict (oe_details e)) of
        Inl x \<Rightarrow> Inl x
      | Inr (PDict d) \<Rightarrow> Inr d
      | Inr _ \<Rightarrow> Inr [])"

definition wrap_action_result :: "string \<Rightarrow> pyv OperationResult \<Rightarrow> exn + pyv OperationResult" where
  "wrap_action_result action result =
     (case result of
        Failure e \<Rightarrow>
          (case error_details e of
             Inl x \<Rightarrow> Inl x
           | Inr details \<Rightarrow>
               Inr (Failure (OpError (oe_message e) (oe_code e) (oe_fatal e)
                 (setdefault ''action'' (PStr action) details))))
      | Success v warnings \<Rightarrow>
          (case payload_to_mapping v of
             Inl x \<Rightarrow> Inl x
           | Inr j \<Rightarrow> Inr (Success (PDict [(''action'', PStr action), (''result'', j)]) warnings)))"

text \<open>The action of a request, for the models that have one.\<close>

fun execution_action :: "ExecutionManageArgs \<Rightarrow> string" where
  "execution_action (ExecutionRunAction s p) = ''run''"
| "execution_action (ExecutionContinueAction s p) = ''continue''"
| "execution_action (ExecutionInterruptAction s) = ''interrupt''"
| "execution_action (ExecutionStepAction s p) = ''step''"
| "execution_action (ExecutionNextAction s p) = ''next''"
| "execution_action (ExecutionFinishAction s p) = ''finish''"
| "execution_action (ExecutionWaitForStopAction s p) = ''wait_for_stop''"

fun inferior_query_action :: "InferiorQueryArgs \<Rightarrow> string" where
  "inferior_query_action (InferiorQueryListAction s) = ''list''"
| "inferior_query_action (InferiorQueryCurrentAction s) = ''current''"

fun inferior_manage_action :: "InferiorManageArgs \<Rightarrow> string" where
  "inferior_manage_action (InferiorManageCreateAction s p) = ''create''"
| "inferior_manage_action (InferiorManageRemoveAction s i) = ''remove''"
| "inferior_manage_action (InferiorManageSelectAction s i) = ''select''"
| "inferior_manage_action (InferiorManageFollowForkAction s m) = ''set_follow_fork_mode''"
| "inferior_manage_action (InferiorManageDetachOnForkAction s b) = ''set_detach_on_fork''"

fun context_query_action :: "ContextQueryArgs \<Rightarrow> string" where
  "context_query_action (ContextQueryThreadsAction s) = ''threads''"
| "context_query_action (ContextQueryBacktraceAction s q) = ''backtrace''"
| "context_query_action (ContextQueryFrameAction s q) = ''frame''"

fun context_manage_action :: "ContextManageArgs \<Rightarrow> string" where
  "context_manage_action (ContextManageSelectThreadAction s t) = ''select_thread''"
| "context_manage_action (ContextManageSelectFrameAction s f) = ''select_frame''"

fun breakpoint_query_action :: "BreakpointQueryArgs \<Rightarrow> string" where
  "breakpoint_query_action (BreakpointQueryListAction s q) = ''list''"
| "breakpoint_query_action (BreakpointQueryGetAction s n) = ''get''"

fun number_action_text :: "number_action \<Rightarrow> string" where
  "number_action_text ActionDelete = ''delete''"
| "number_action_text ActionEnable = ''enable''"
| "number_action_text ActionDisable = ''disable''"

fun breakpoint_manage_action :: "BreakpointManageArgs \<Rightarrow> string" where
  "breakpoint_manage_action (BreakpointManageCreateAction s b) = ''create''"
| "breakpoint_manage_action (BreakpointManageUpdateAction s n c) = ''update''"
| "breakpoint_manage_action (BreakpointManageNumberAction s a n) = number_action_text a"

fun inspect_action :: "InspectQueryArgs \<Rightarrow> string" where
  "inspect_action (InspectEvaluateAction s q) = ''evaluate''"
| "inspect_action (InspectVariablesAction s q) = ''variables''"
| "inspect_action (InspectRegistersAction s q) = ''registers''"
| "inspect_action (InspectMemoryAction s q) = ''memory''"
| "inspect_action (InspectDisassemblyAction s q) = ''disassembly''"
| "inspect_action (InspectSourceAction s q) = ''source''"

fun session_query_action :: "SessionQueryArgs \<Rightarrow> string" where
  "session_query_action SessionQueryListAction = ''list''"
| "session_query_action (SessionQueryStatusAction s) = ''status''"

fun session_tool_action :: "session_tool_args \<Rightarrow> string option" where
  "session_tool_action (InferiorQueryTool q) = Some (inferior_query_action q)"
| "session_tool_action (InferiorManageTool q) = Some (inferior_manage_action q)"
| "session_tool_action (ExecutionManageTool q) = Some (execution_action q)"
| "session_tool_action (BreakpointQueryTool q) = Some (breakpoint_query_action q)"
| "session_tool_action (BreakpointManageTool q) = Some (breakpoint_manage_action q)"
| "session_tool_action (ContextQueryTool q) = Some (context_query_action q)"
| "session_tool_action (ContextManageTool q) = Some (context_manage_action q)"
| "session_tool_action (InspectQueryTool q) = Some (inspect_action q)"
| "session_tool_action (ExecuteCommandTool q) = None"
| "session_tool_action (AttachProcessTool q) = None"
| "session_tool_action (CaptureBundleTool q) = None"
| "session_tool_action (CallFunctionTool q) = None"

fun request_action :: "tool_args \<Rightarrow> string option" where
  "request_action (SessionTool a) = session_tool_action a"
| "request_action (SessionQueryTool q) = Some (session_query_action q)"
| "request_action (SessionManageTool q) = Some ''stop''"
| "request_action (WorkflowBatchTool b) = None"
| "request_action (SessionStartTool a) = None"
| "request_action (SessionConnectTool a) = None"
| "request_action (RunUntilFailureTool a) = None"

definition wrap_action_result_for :: "tool_args \<Rightarrow> pyv OperationResult \<Rightarrow> exn + pyv OperationResult" where
  "wrap_action_result_for validated_args result =
     (case request_action validated_args of
        Some action \<Rightarrow> wrap_action_result action result
      | None \<Rightarrow> Inr result)"

section \<open>Failures of a session\<close>

definition gdb_failure_codes :: "(string \<times> string) list" where
  "gdb_failure_codes =
     [(''no registers'', ''no_registers''),
      (''the program is not being run'', ''inferior_not_running''),
      (''you can'' @ [CHR 0x27] @ ''t do that without a process to debug'', ''inferior_not_running''),
      (''while the selected thread is running'', ''inferior_running''),
      (''no stack'', ''no_stack_frame''),
      (''no frame selected'', ''no_stack_frame''),
      (''cannot access memory at address'', ''memory_unavailable''),
      (''no symbol table is loaded'', ''no_symbols_loaded''),
      (''no symbol'', ''symbol_unavailable''),
      (''optimized out'', ''value_unavailable''),
      (''timeout'', ''command_timeout'')]"

definition failure_code :: "string \<Rightarrow> string option" where
  "failure_code message =
     map_option snd (List.find (\<lambda>p. contains (fst p) (lower message)) gdb_failure_codes)"

definition session_state_details :: "SessionRuntime \<Rightarrow> pydict" where
  "session_state_details rt =
     [(''execution_state'', exec_state_pyv (rt_execution_state rt))]
     @ present ''stop_reason'' PStr (rt_stop_reason rt) @ present ''exit_code'' PInt (rt_exit_code rt)"

definition annotate_session_failure ::
  "pyv OperationResult \<Rightarrow> SessionRuntime \<Rightarrow> int \<Rightarrow> exn + pyv OperationResult" where
  "annotate_session_failure result rt session_id =
     (case result of
        Success v ws \<Rightarrow> Inr result
      | Failure e \<Rightarrow>
          (case error_details e of
             Inl x \<Rightarrow> Inl x
           | Inr details \<Rightarrow>
               (let details = setdefault ''session_id'' (PInt session_id) details;
                    details = foldl (\<lambda>d p. setdefault (fst p) (snd p) d) details (session_state_details rt);
                    code = (if oe_code e = ''error'' then str_or (failure_code (oe_message e)) ''error'' else oe_code e)
                in Inr (Failure (OpError (oe_message e) code (oe_fatal e) details)))))"

section \<open>Run arguments and memory ranges\<close>

definition execution_wait_policy :: "'a ExecutionWaitPolicy_scheme \<Rightarrow> int \<times> bool" where
  "execution_wait_policy p =
     (case ewp_timeout_sec p of Some t \<Rightarrow> t | None \<Rightarrow> default_timeout_sec, ewp_wait_until p = WaitStop)"

definition normalize_run_args :: "argv_input option \<Rightarrow> OperationError + string list option" where
  "normalize_run_args args =
     (case args of
        None \<Rightarrow> Inr None
      | Some (ArgvText s) \<Rightarrow>
          (case shlex_split s of
             Inr xs \<Rightarrow> Inr (Some xs)
           | Inl e \<Rightarrow> Inl (OpError (''Invalid args string: '' @ exn_text e) ''validation_error'' False []))
      | Some (ArgvList xs) \<Rightarrow> Inr (Some xs))"

text \<open>The match of \<open>^(.+):(\d+)(?:@(\d+))?$\<close>: the address ends at the last colon, because what follows
  it can contain no other.\<close>

definition match_memory_range :: "string \<Rightarrow> (string \<times> string \<times> string option) option" where
  "match_memory_range t =
     (let r = rev t;
          tail = rev (takeWhile (\<lambda>c. c \<noteq> CHR '':'') r);
          address = rev (tl (dropWhile (\<lambda>c. c \<noteq> CHR '':'') r));
          digits = takeWhile is_digit tail;
          rest = dropWhile is_digit tail
      in if CHR '':'' \<notin> set t \<or> address = [] \<or> CHR 0x0A \<in> set address \<or> digits = [] then None
         else case rest of
           [] \<Rightarrow> Some (address, digits, None)
         | c # offset \<Rightarrow> if c = CHR ''@'' \<and> isdigit offset then Some (address, digits, Some offset) else None)"

definition parse_memory_range_shorthand :: "string \<Rightarrow> nat \<Rightarrow> OperationError + MemoryCaptureRange" where
  "parse_memory_range_shorthand v index =
     (let t = strip v; at = ''Invalid memory_ranges['' @ show_nat index @ '']'' in
      if t = [] then Inl (OpError (at @ '': empty shorthand string'') ''validation_error'' False [])
      else case match_memory_range t of
        None \<Rightarrow> Inl (OpError (at @ '' shorthand: '' @ repr_str v @ ''. Expected '' @ repr_str ''<address>:<count>''
            @ '' or '' @ repr_str ''<address>:<count>@<offset>'' @ ''.'') ''validation_error'' False [])
      | Some (raw_address, n, offset_text) \<Rightarrow>
          (let address = strip raw_address in
           if address = []
           then Inl (OpError (at @ '' shorthand: missing address expression'') ''validation_error'' False [])
           else Inr \<lparr>mcr_address = address, mcr_count = nat_of_digits n,
                 mcr_offset = (case offset_text of Some d \<Rightarrow> nat_of_digits d | None \<Rightarrow> 0), mcr_name = None\<rparr>))"

fun memory_capture_ranges :: "nat \<Rightarrow> memory_range_input list \<Rightarrow> OperationError + MemoryCaptureRange list" where
  "memory_capture_ranges index [] = Inr []"
| "memory_capture_ranges index (memory_range # rest) =
     (case (case memory_range of
              RangeText s \<Rightarrow> parse_memory_range_shorthand s index
            | RangeObject a \<Rightarrow> Inr \<lparr>mcr_address = cma_address a, mcr_count = cma_count a,
                mcr_offset = cma_offset a, mcr_name = cma_name a\<rparr>) of
        Inl e \<Rightarrow> Inl e
      | Inr parsed \<Rightarrow>
          (case memory_capture_ranges (Suc index) rest of Inl e \<Rightarrow> Inl e | Inr rs \<Rightarrow> Inr (parsed # rs)))"

section \<open>Serialisation\<close>

text \<open>The text content is the JSON text of the payload; it is represented by the value it encodes.\<close>

record CallToolResult =
  ctr_content :: pyv
  ctr_structuredContent :: pydict
  ctr_isError :: bool

definition serialize_result :: "pyv OperationResult \<Rightarrow> exn + CallToolResult" where
  "serialize_result result =
     (case result_to_mapping result of
        Inl e \<Rightarrow> Inl e
      | Inr payload \<Rightarrow>
          Inr \<lparr>ctr_content = PDict payload, ctr_structuredContent = payload, ctr_isError = is_failure result\<rparr>)"

definition serialize_exception :: "string \<Rightarrow> exn \<Rightarrow> exn + CallToolResult" where
  "serialize_exception tool_name e =
     serialize_result (Failure (OpError (exn_text e) ''internal_error'' False [(''tool'', PStr tool_name)]))"

end
