(* ===== verification/Schema_Normalizer.thy ===== *)
theory Schema_Normalizer
  imports Results
begin

text \<open>
  The published tool schemas (\<open>mcp/schema_normalizer.py\<close>): the JSON Schema that pydantic emits for
  a request model is flattened into plain nested objects. References are inlined along a stack of
  the definitions being expanded, unions are merged into one object, and what only some of the
  alternatives require or accept is written into descriptions.

  A schema is a Python value in the sense of \<open>Gdb_Prelude\<close>. The names in a \<open>required\<close> list are
  hashable (JSON Schema allows only strings there); a set of names is a list whose order is
  immaterial.
\<close>

section \<open>Equality of Python values\<close>

text \<open>\<open>x == y\<close>: numbers by value, whatever their type; dictionaries whatever their order.\<close>

fun number_of_pyv :: "pyv \<Rightarrow> int option" where
  "number_of_pyv (PBool b) = Some (if b then 1000000 else 0)"
| "number_of_pyv (PInt i) = Some (1000000 * i)"
| "number_of_pyv (PFloat i) = Some i"
| "number_of_pyv v = None"

fun py_eq :: "pyv \<Rightarrow> pyv \<Rightarrow> bool" and py_eqs :: "pyv list \<Rightarrow> pyv list \<Rightarrow> bool" where
  "py_eq (PStr s) w = (w = PStr s)"
| "py_eq PNone w = (w = PNone)"
| "py_eq (PList xs) w = (case w of PList ys \<Rightarrow> py_eqs xs ys | _ \<Rightarrow> False)"
| "py_eq (PTuple xs) w = (case w of PTuple ys \<Rightarrow> py_eqs xs ys | _ \<Rightarrow> False)"
| "py_eq (PDict d) w =
     (case w of PDict e \<Rightarrow> length d = length e
        \<and> list_all (\<lambda>p. case map_of e (fst p) of None \<Rightarrow> False | Some y \<Rightarrow> py_eq (snd p) y) d
      | _ \<Rightarrow> False)"
| "py_eq (PData c d) w = (w = PData c d)"
| "py_eq (POther t) w = (w = POther t)"
| "py_eq (PBool b) w = (number_of_pyv w = number_of_pyv (PBool b))"
| "py_eq (PInt i) w = (number_of_pyv w = number_of_pyv (PInt i))"
| "py_eq (PFloat f) w = (number_of_pyv w = number_of_pyv (PFloat f))"
| "py_eqs [] ys = (ys = [])"
| "py_eqs (x # xs) ys = (case ys of [] \<Rightarrow> False | y # ys \<Rightarrow> py_eq x y \<and> py_eqs xs ys)"

section \<open>Immutable copies\<close>

text \<open>A frozen schema: mapping proxies, tuples, and scalars.\<close>

datatype frozen = FrozenMap "(string \<times> frozen) list" | FrozenTuple "frozen list" | FrozenScalar pyv

fun freeze :: "pyv \<Rightarrow> frozen" where
  "freeze (PDict d) = FrozenMap (map (\<lambda>p. (fst p, freeze (snd p))) d)"
| "freeze (PList xs) = FrozenTuple (map freeze xs)"
| "freeze (PTuple xs) = FrozenTuple (map freeze xs)"
| "freeze v = FrozenScalar v"

fun thaw :: "frozen \<Rightarrow> pyv" where
  "thaw (FrozenMap d) = PDict (map (\<lambda>p. (fst p, thaw (snd p))) d)"
| "thaw (FrozenTuple xs) = PList (map thaw xs)"
| "thaw (FrozenScalar v) = v"

section \<open>Merging alternatives\<close>

definition without :: "string list \<Rightarrow> pydict \<Rightarrow> pydict" where
  "without ks d = filter (\<lambda>p. fst p \<notin> set ks) d"

text \<open>\<open>d.update(e)\<close>.\<close>

definition dupdate :: "pydict \<Rightarrow> pydict \<Rightarrow> pydict" where
  "dupdate d e = foldl (\<lambda>acc p. dset (fst p) (snd p) acc) d e"

definition dedupe_step :: "pyv list \<Rightarrow> pyv \<Rightarrow> pyv list" where
  "dedupe_step deduped v = (if list_ex (py_eq v) deduped then deduped else deduped @ [v])"

definition dedupe :: "pyv list \<Rightarrow> pyv list" where
  "dedupe vs = foldl dedupe_step [] vs"

definition merge_text :: "pyv \<Rightarrow> pyv \<Rightarrow> pyv" where
  "merge_text l r =
     (case r of
        PStr rt \<Rightarrow>
          if rt = [] then l
          else (case l of
                  PStr lt \<Rightarrow> if lt = [] then r else if lt = rt then l else PStr (lt @ '' | '' @ rt)
                | _ \<Rightarrow> r)
      | _ \<Rightarrow> l)"

text \<open>The first part of \<open>_merge_property_schemas\<close>: \<open>required\<close> becomes the intersection.\<close>

definition as_list :: "pyv \<Rightarrow> pyv list option" where
  "as_list v = (case v of PList xs \<Rightarrow> Some xs | _ \<Rightarrow> None)"

definition as_dict :: "pyv \<Rightarrow> pydict option" where
  "as_dict v = (case v of PDict d \<Rightarrow> Some d | _ \<Rightarrow> None)"

lemma as_dict_iff [simp]: "as_dict v = Some d \<longleftrightarrow> v = PDict d"
  by (auto simp: as_dict_def split: pyv.splits)

lemma as_list_iff [simp]: "as_list v = Some xs \<longleftrightarrow> v = PList xs"
  by (auto simp: as_list_def split: pyv.splits)

definition merge_required :: "pydict \<Rightarrow> pydict \<Rightarrow> pydict" where
  "merge_required l r =
     (case (as_list (dget l ''required''), as_list (dget r ''required'')) of
        (None, None) \<Rightarrow> l
      | (lo, ro) \<Rightarrow>
          (let left_names = (case lo of None \<Rightarrow> [] | Some xs \<Rightarrow> xs);
               right_names = (case ro of None \<Rightarrow> [] | Some xs \<Rightarrow> xs);
               common_required = filter (\<lambda>n. list_ex (py_eq n) right_names) left_names
           in if common_required \<noteq> [] then dset ''required'' (PList common_required) l
              else without [''required''] l))"

text \<open>
  The loop over the items of the right alternative, and the loop over its properties. The
  property schemas are merged by the same function.
\<close>

function (sequential) merge_property_schemas :: "pyv \<Rightarrow> pyv \<Rightarrow> pyv"
  and merge_items :: "pydict \<Rightarrow> pydict \<Rightarrow> pydict"
  and merge_item :: "pydict \<Rightarrow> string \<Rightarrow> pyv \<Rightarrow> pydict"
  and merge_properties :: "pydict \<Rightarrow> pydict \<Rightarrow> pydict" where
  "merge_property_schemas l r =
     (if py_eq l r then l
      else case l of
        PDict ld \<Rightarrow> (case r of PDict rd \<Rightarrow> PDict (merge_items (merge_required ld rd) rd) | _ \<Rightarrow> l)
      | _ \<Rightarrow> l)"
| "merge_items merged [] = merged"
| "merge_items merged ((key, v) # rest) = merge_items (merge_item merged key v) rest"
| "merge_item merged key v =
     (if key = ''required'' then merged
      else if key = ''additionalProperties''
      then (if dget merged key = PBool False \<and> v = PBool False then merged else without [key] merged)
      else if key = ''title'' \<or> key = ''description''
      then dset key (merge_text (dget merged key) v) merged
      else if \<not> dhas merged key then dset key v merged
      else if key = ''enum''
      then (case (as_list (dget merged key), as_list v) of
              (Some xs, Some ys) \<Rightarrow> dset key (PList (dedupe (xs @ ys))) merged
            | _ \<Rightarrow> merged)
      else if key = ''properties''
      then (case (as_dict (dget merged key), as_dict v) of
              (Some ps, Some rs) \<Rightarrow> dset key (PDict (merge_properties ps rs)) merged
            | _ \<Rightarrow> merged)
      else merged)"
| "merge_properties ps [] = ps"
| "merge_properties ps ((name, prop) # rest) =
     merge_properties
       (dset name (if dhas ps name then merge_property_schemas (dget ps name) prop else prop) ps) rest"
  by pat_completeness auto

termination
  by (relation "measure (\<lambda>x. case x of
        Inl (Inl (l, r)) \<Rightarrow> 2 * size r + 1
      | Inl (Inr (m, items)) \<Rightarrow> 2 * size (PDict items)
      | Inr (Inl (m, k, v)) \<Rightarrow> 2 * size v + 2
      | Inr (Inr (ps, rs)) \<Rightarrow> 2 * size (PDict rs))")
    (auto dest: sym [of "Some _"])

definition is_null_schema :: "pydict \<Rightarrow> bool" where
  "is_null_schema schema = (dget schema ''type'' = PStr ''null'')"

definition is_object_like :: "pydict \<Rightarrow> bool" where
  "is_object_like schema = (dget schema ''type'' = PStr ''object'' \<or> dhas schema ''properties'')"

text \<open>The string members of a \<open>required\<close> list.\<close>

definition text_members :: "pyv list \<Rightarrow> string list" where
  "text_members vs = concat (map (\<lambda>v. case v of PStr s \<Rightarrow> [s] | _ \<Rightarrow> []) vs)"

definition required_names :: "pydict \<Rightarrow> string list" where
  "required_names variant =
     (case dget variant ''required'' of PList xs \<Rightarrow> text_members xs | _ \<Rightarrow> [])"

definition variant_properties :: "pydict \<Rightarrow> pydict option" where
  "variant_properties variant = (case dget variant ''properties'' of PDict d \<Rightarrow> Some d | _ \<Rightarrow> None)"

text \<open>One turn of the loop over the alternatives: the order of the names required so far and the
  merged properties.\<close>

definition merge_variant :: "string list \<times> pydict \<Rightarrow> pydict \<Rightarrow> string list \<times> pydict" where
  "merge_variant acc variant =
     (case acc of (required_order, properties) \<Rightarrow>
        (foldl (\<lambda>ns n. if n \<in> set ns then ns else ns @ [n]) required_order (required_names variant),
         case variant_properties variant of
           None \<Rightarrow> properties
         | Some ps \<Rightarrow> merge_properties properties ps))"

definition merge_object_variants :: "pydict list \<Rightarrow> pydict" where
  "merge_object_variants variants =
     (case foldl merge_variant ([], []) variants of
        (required_order, properties) \<Rightarrow>
          (let merged = [(''type'', PStr ''object'')];
               merged = (if properties \<noteq> [] then dset ''properties'' (PDict properties) merged else merged);
               ordered_common =
                 filter (\<lambda>n. variants \<noteq> [] \<and> list_all (\<lambda>v. n \<in> set (required_names v)) variants)
                   required_order;
               merged = (if ordered_common \<noteq> []
                         then dset ''required'' (PList (map PStr ordered_common)) merged else merged)
           in if variants \<noteq> []
                \<and> list_all (\<lambda>v. dget v ''additionalProperties'' = PBool False) variants
              then dset ''additionalProperties'' (PBool False) merged else merged))"

section \<open>Notes in descriptions\<close>

fun required_paths :: "pydict \<Rightarrow> string \<Rightarrow> nat \<Rightarrow> string list"
  and required_paths_of :: "string list \<Rightarrow> pydict option \<Rightarrow> string \<Rightarrow> nat \<Rightarrow> string list" where
  "required_paths schema prefix depth =
     required_paths_of (required_names schema) (variant_properties schema) prefix depth"
| "required_paths_of [] properties prefix depth = []"
| "required_paths_of (name # names) properties prefix depth =
     (prefix @ name)
       # (case properties of
            None \<Rightarrow> []
          | Some ps \<Rightarrow>
              (case depth of
                 Suc (Suc d) \<Rightarrow>
                   (case dget ps name of
                      PDict nested \<Rightarrow> required_paths nested (prefix @ name @ ''.'') (Suc d)
                    | _ \<Rightarrow> [])
               | _ \<Rightarrow> []))
       @ required_paths_of names properties prefix depth"

definition discriminator_values :: "pyv \<Rightarrow> string list" where
  "discriminator_values property_schema =
     (case property_schema of
        PDict d \<Rightarrow>
          (case dget d ''enum'' of
             PList xs \<Rightarrow> text_members xs
           | _ \<Rightarrow> (case dget d ''const'' of PStr s \<Rightarrow> [s] | _ \<Rightarrow> []))
      | _ \<Rightarrow> [])"

definition quoted :: "string \<Rightarrow> string" where
  "quoted s = [CHR 0x27] @ s @ [CHR 0x27]"

definition discriminator_scope :: "string \<Rightarrow> string list \<Rightarrow> string" where
  "discriminator_scope property_name values =
     (case values of
        [a] \<Rightarrow> property_name @ ''='' @ quoted a
      | [a, b] \<Rightarrow> property_name @ ''='' @ quoted a @ '' or '' @ property_name @ ''='' @ quoted b
      | _ \<Rightarrow> property_name @ '' in ['' @ join '', '' (map quoted values) @ '']'')"

definition discriminator_property :: "pyv \<Rightarrow> string option" where
  "discriminator_property discriminator =
     (case discriminator of
        PDict d \<Rightarrow> (case dget d ''propertyName'' of PStr s \<Rightarrow> Some s | _ \<Rightarrow> None)
      | _ \<Rightarrow> None)"

definition property_of :: "pydict \<Rightarrow> string \<Rightarrow> pyv" where
  "property_of variant name =
     (case variant_properties variant of None \<Rightarrow> PNone | Some ps \<Rightarrow> dget ps name)"

definition conditional_clause :: "string \<Rightarrow> pydict list \<Rightarrow> pydict \<Rightarrow> string list" where
  "conditional_clause property_name variants variant =
     (let conditional =
            filter (\<lambda>path. \<not> list_all (\<lambda>v. path \<in> set (required_paths v [] 2)) variants)
              (required_paths variant [] 2);
          values = discriminator_values (property_of variant property_name)
      in if conditional = [] \<or> values = [] then []
         else [discriminator_scope property_name values @ '' requires '' @ join '', '' conditional])"

definition conditional_requirements_note :: "pyv \<Rightarrow> pydict list \<Rightarrow> string option" where
  "conditional_requirements_note discriminator variants =
     (case discriminator_property discriminator of
        None \<Rightarrow> None
      | Some property_name \<Rightarrow>
          (let clauses = concat (map (conditional_clause property_name variants) variants)
           in if clauses = [] then None
              else Some (''Conditional requirements: '' @ join ''; '' clauses @ ''.'')))"

definition accepted_field_names :: "pyv \<Rightarrow> string list option" where
  "accepted_field_names schema =
     (case schema of
        PDict d \<Rightarrow>
          (if dget d ''type'' \<noteq> PStr ''object'' then None
           else case dget d ''additionalProperties'' of
             PDict _ \<Rightarrow> None
           | _ \<Rightarrow> (case dget d ''properties'' of PDict ps \<Rightarrow> Some (map fst ps) | _ \<Rightarrow> Some []))
      | _ \<Rightarrow> None)"

definition join_texts :: "pyv list \<Rightarrow> pyv" where
  "join_texts texts = foldl merge_text PNone texts"

text \<open>One turn of the inner loop over the alternatives: \<open>accepted.setdefault(fields, []).extend(values)\<close>
  and the descriptions of the alternatives that accept fields.\<close>

definition accept_variant ::
  "string \<Rightarrow> string \<Rightarrow> (string list \<times> string list) list \<times> pyv list \<Rightarrow> pydict
   \<Rightarrow> (string list \<times> string list) list \<times> pyv list" where
  "accept_variant property_name name acc variant =
     (case acc of (accepted, descriptions) \<Rightarrow>
        case variant_properties variant of
          None \<Rightarrow> acc
        | Some ps \<Rightarrow>
            (case accepted_field_names (dget ps name) of
               None \<Rightarrow> acc
             | Some field_names \<Rightarrow>
                 (let values = discriminator_values (dget ps property_name);
                      old = (case map_of accepted field_names of None \<Rightarrow> [] | Some vs \<Rightarrow> vs)
                  in (AList.update field_names (old @ values) accepted,
                      case dget ps name of
                        PDict candidate \<Rightarrow>
                          if field_names \<noteq> [] then descriptions @ [dget candidate ''description''] else descriptions
                      | _ \<Rightarrow> descriptions))))"

definition accepted_clause :: "string \<Rightarrow> string list \<times> string list \<Rightarrow> string" where
  "accepted_clause property_name entry =
     discriminator_scope property_name (snd entry) @ '' accepts ''
       @ (if fst entry \<noteq> [] then join '', '' (fst entry) else ''no fields'')"

definition document_property :: "string \<Rightarrow> pydict list \<Rightarrow> string \<times> pyv \<Rightarrow> string \<times> pyv" where
  "document_property property_name variants entry =
     (case snd entry of
        PDict property_schema \<Rightarrow>
          (if fst entry = property_name then entry
           else case foldl (accept_variant property_name (fst entry)) ([], []) variants of
             (accepted, descriptions) \<Rightarrow>
               if length accepted < 2 then entry
               else (let note = ''Accepted fields depend on '' @ property_name @ '': ''
                            @ join ''; '' (map (accepted_clause property_name) accepted) @ ''.'';
                         base = join_texts descriptions
                     in (fst entry, PDict (dset ''description''
                           (PStr (if truthy base then py_str base @ '' '' @ note else note))
                           property_schema))))
      | _ \<Rightarrow> entry)"

definition document_accepted_fields :: "pydict \<Rightarrow> pydict list \<Rightarrow> pyv \<Rightarrow> pydict" where
  "document_accepted_fields merged variants discriminator =
     (case discriminator_property discriminator of
        None \<Rightarrow> merged
      | Some property_name \<Rightarrow>
          (case dget merged ''properties'' of
             PDict ps \<Rightarrow>
               dset ''properties'' (PDict (map (document_property property_name variants) ps)) merged
           | _ \<Rightarrow> merged))"

section \<open>References\<close>

text \<open>\<open>ref.rsplit("/", 1)[-1]\<close>.\<close>

definition ref_name :: "string \<Rightarrow> string" where
  "ref_name ref = rev (takeWhile (\<lambda>c. c \<noteq> CHR ''/'') (rev ref))"

fun collect_ref_names :: "pyv \<Rightarrow> string list" where
  "collect_ref_names (PDict d) =
     (case dget d ''$ref'' of PStr ref \<Rightarrow> [ref_name ref] | _ \<Rightarrow> [])
       @ concat (map (\<lambda>p. collect_ref_names (snd p)) d)"
| "collect_ref_names (PList xs) = concat (map collect_ref_names xs)"
| "collect_ref_names v = []"

section \<open>Measures\<close>

text \<open>The definitions that are not on a stack of names yet, and the sizes of parts of a node.\<close>

definition unexpanded :: "pydict \<Rightarrow> string list \<Rightarrow> nat" where
  "unexpanded defs stack = card (fst ` set defs - set stack)"

lemma size_entry: "p \<in> set d \<Longrightarrow> size (snd p) < size (PDict d)"
  by (induction d) auto

lemma size_member: "x \<in> set xs \<Longrightarrow> size x < size (PList xs)"
  by (induction xs) auto

lemma map_of_size: "map_of d k = Some v \<Longrightarrow> size v < size (PDict d)"
  using size_entry [of "(k, v)" d] by (simp add: map_of_SomeD)

lemma size_dget: "dget d k \<noteq> PNone \<Longrightarrow> size (dget d k) < size (PDict d)"
  by (auto simp: dget_def simp del: pyv.size dest: map_of_size split: option.splits)

lemma size_union: "dget_default d k (dget d k') = PList xs \<Longrightarrow> size (PList xs) < size (PDict d)"
  using size_dget [of d k'] map_of_size [of d k]
  by (auto simp: dget_default_def simp del: pyv.size split: option.splits)

lemma unexpanded_cons:
  "name \<in> fst ` set defs \<Longrightarrow> name \<notin> set stack \<Longrightarrow> unexpanded defs (name # stack) < unexpanded defs stack"
  unfolding unexpanded_def by (intro psubset_card_mono) auto

lemma unexpanded_less:
  assumes "dget defs name \<noteq> PNone" "name \<notin> set stack"
  shows "unexpanded defs (stack @ [name]) < unexpanded defs stack"
proof -
  have "name \<in> fst ` set defs" using assms(1) by (force simp: dget_def dest: map_of_SomeD split: option.splits)
  with unexpanded_cons [OF this assms(2)] show ?thesis by (simp add: unexpanded_def)
qed

text \<open>The work list of \<open>_prune_defs\<close>: \<open>pending.pop()\<close> takes the last entry.\<close>

function prune_loop :: "pydict \<Rightarrow> string list \<Rightarrow> string list \<Rightarrow> string list" where
  "prune_loop defs kept pending =
     (if pending = [] then kept
      else let name = last pending; pending = butlast pending in
        case map_of defs name of
          None \<Rightarrow> prune_loop defs kept pending
        | Some definition \<Rightarrow>
            if name \<in> set kept then prune_loop defs kept pending
            else prune_loop defs (name # kept) (pending @ collect_ref_names definition))"
  by pat_completeness auto

termination
proof (relation "measures [\<lambda>(defs, kept, pending). unexpanded defs kept, \<lambda>(defs, kept, pending). length pending]",
    goal_cases)
  case (4 defs kept pending name pending' d)
  then have "name \<in> fst ` set defs" by (force dest: map_of_SomeD)
  with 4 show ?case using unexpanded_cons [of name defs kept] by simp
qed auto

definition prune_defs :: "pydict \<Rightarrow> string list \<Rightarrow> pydict" where
  "prune_defs defs initial_refs =
     (let kept = prune_loop defs [] initial_refs in filter (\<lambda>p. fst p \<in> set kept) defs)"

section \<open>Normalisation\<close>

text \<open>The rest of \<open>_normalize_union\<close>, once the alternatives are normalised.\<close>

definition merge_variants :: "pydict list \<Rightarrow> pydict" where
  "merge_variants variants =
     (case variants of
        [v] \<Rightarrow> v
      | _ \<Rightarrow> if list_all is_object_like variants then merge_object_variants variants else hd variants)"

definition note_requirements :: "pyv \<Rightarrow> pydict list \<Rightarrow> pydict \<Rightarrow> pydict" where
  "note_requirements discriminator variants merged =
     (case conditional_requirements_note discriminator variants of
        None \<Rightarrow> merged
      | Some note \<Rightarrow>
          (let description = dget merged ''description'' in
           dset ''description''
             (PStr (if truthy description then py_str description @ '' '' @ note else note)) merged))"

definition union_wrapper :: "pydict \<Rightarrow> bool \<Rightarrow> pydict" where
  "union_wrapper node nullable =
     (let wrapper = without [''oneOf'', ''anyOf'', ''discriminator''] node in
      if nullable \<and> map_of wrapper ''default'' = Some PNone then without [''default''] wrapper else wrapper)"

definition flatten_union :: "pydict \<Rightarrow> pyv list \<Rightarrow> pydict" where
  "flatten_union node normalized_variants =
     (let dicts = concat (map (\<lambda>v. case v of PDict d \<Rightarrow> [d] | _ \<Rightarrow> []) normalized_variants);
          nullable = list_ex is_null_schema dicts;
          variants = filter (\<lambda>d. \<not> is_null_schema d) dicts;
          wrapper = union_wrapper node nullable
      in if variants = []
         then dupdate (if nullable then [(''type'', PStr ''null'')] else []) wrapper
         else let merged = dupdate (merge_variants variants) wrapper in
           if length variants > 1
           then document_accepted_fields
                  (note_requirements (dget node ''discriminator'') variants merged)
                  variants (dget node ''discriminator'')
           else merged)"

text \<open>\<open>normalized.setdefault("enum", [normalized.pop("const")])\<close>.\<close>

definition const_to_enum :: "pydict \<Rightarrow> pydict" where
  "const_to_enum d =
     (if dhas d ''const''
      then let rest = without [''const''] d in
        (if dhas rest ''enum'' then rest else dset ''enum'' (PList [dget d ''const'']) rest)
      else d)"

text \<open>
  Normalising one node. The assignments to \<open>properties\<close>, \<open>items\<close>, \<open>additionalProperties\<close>,
  \<open>contains\<close> and \<open>prefixItems\<close> each replace the value of a different key in place; they are
  written as one pass over the entries.
\<close>

function normalize_node :: "pyv \<Rightarrow> pydict \<Rightarrow> string list \<Rightarrow> pyv"
  and normalize_entry :: "string \<Rightarrow> pyv \<Rightarrow> pydict \<Rightarrow> string list \<Rightarrow> pyv"
  and resolve_ref :: "pydict \<Rightarrow> string \<Rightarrow> pydict \<Rightarrow> string list \<Rightarrow> pyv"
  and normalize_union :: "pydict \<Rightarrow> pydict \<Rightarrow> string list \<Rightarrow> pydict" where
  "normalize_node v defs stack =
     (case as_dict v of
        None \<Rightarrow> v
      | Some node \<Rightarrow>
          (case as_text (dget node ''$ref'') of
             Some ref \<Rightarrow> resolve_ref node ref defs stack
           | None \<Rightarrow>
               if dhas node ''oneOf'' \<or> dhas node ''anyOf'' then PDict (normalize_union node defs stack)
               else PDict (const_to_enum
                 (map (\<lambda>p. (fst p, normalize_entry (fst p) (snd p) defs stack))
                   (without [''discriminator''] node)))))"
| "normalize_entry key v defs stack =
     (case as_dict v of
        Some d \<Rightarrow>
          if key = ''properties'' then PDict (map (\<lambda>p. (fst p, normalize_node (snd p) defs stack)) d)
          else if key \<in> {''items'', ''additionalProperties'', ''contains''}
          then normalize_node v defs stack
          else v
      | None \<Rightarrow>
          (case as_list v of
             Some xs \<Rightarrow>
               if key = ''prefixItems'' then PList (map (\<lambda>x. normalize_node x defs stack) xs) else v
           | None \<Rightarrow> v))"
| "resolve_ref node ref defs stack =
     (let name = ref_name ref; target = dget defs name in
      if target = PNone \<or> name \<in> set stack then PDict node
      else let resolved = normalize_node target defs (stack @ [name]) in
        case as_dict resolved of
          Some d \<Rightarrow> PDict (dupdate d (without [''$ref''] node))
        | None \<Rightarrow> resolved)"
| "normalize_union node defs stack =
     (case as_list (dget_default node ''oneOf'' (dget node ''anyOf'')) of
        Some raw_variants \<Rightarrow> flatten_union node (map (\<lambda>x. normalize_node x defs stack) raw_variants)
      | None \<Rightarrow> node)"
  by pat_completeness auto

text \<open>Every reference that is followed names a definition that is not on the stack yet, so the
  definitions that may still be expanded become fewer; everything else descends into the node.\<close>

termination
proof (relation "measures [
    \<lambda>x. (case x of
        Inl (Inl (v, defs, stack)) \<Rightarrow> unexpanded defs stack
      | Inl (Inr (k, v, defs, stack)) \<Rightarrow> unexpanded defs stack
      | Inr (Inl (d, r, defs, stack)) \<Rightarrow> unexpanded defs stack
      | Inr (Inr (d, defs, stack)) \<Rightarrow> unexpanded defs stack),
    \<lambda>x. (case x of
        Inl (Inl (v, defs, stack)) \<Rightarrow> 2 * size v + 1
      | Inl (Inr (k, v, defs, stack)) \<Rightarrow> 2 * size v + 2
      | Inr (Inl (d, r, defs, stack)) \<Rightarrow> 0
      | Inr (Inr (d, defs, stack)) \<Rightarrow> 2 * size (PDict d))]", goal_cases)
qed (auto simp: unexpanded_less without_def simp del: pyv.size(18) pyv.size(16)
    dest!: size_entry size_member size_union)

section \<open>Published schemas\<close>

text \<open>The normalised root is an object unless a definition is something else; storing the remaining
  definitions in a list raises.\<close>

definition normalize_input_schema :: "pydict \<Rightarrow> exn + pyv" where
  "normalize_input_schema schema =
     (let defs = (case as_dict (dget schema ''$defs'') of Some d \<Rightarrow> d | None \<Rightarrow> []);
          normalized = normalize_node (PDict (without [''$defs''] schema)) defs [];
          pending_refs = collect_ref_names normalized
      in if pending_refs = [] then Inr normalized
         else case as_dict normalized of
           None \<Rightarrow> Inl (Exn TypeError ''list indices must be integers or slices, not str'')
         | Some d \<Rightarrow>
             (let kept_defs = prune_defs defs pending_refs in
              Inr (PDict (dset ''$defs''
                (PDict (map (\<lambda>p. (fst p, normalize_node (snd p) kept_defs [fst p])) kept_defs)) d))))"

text \<open>The schema of a model is computed once, kept frozen, and thawed for each caller;
  \<open>model_json_schema\<close> is pydantic's.\<close>

definition cached_input_schema :: "pydict \<Rightarrow> exn + frozen" where
  "cached_input_schema model_json_schema =
     (case normalize_input_schema model_json_schema of Inl e \<Rightarrow> Inl e | Inr v \<Rightarrow> Inr (freeze v))"

definition public_input_schema :: "pydict \<Rightarrow> pydict list \<Rightarrow> exn + pyv" where
  "public_input_schema model_json_schema examples =
     (case cached_input_schema model_json_schema of
        Inl e \<Rightarrow> Inl e
      | Inr f \<Rightarrow>
          Inr (case thaw f of
                 PDict schema \<Rightarrow>
                   PDict (if examples \<noteq> [] then dset ''examples'' (PList (map PDict examples)) schema else schema)
               | v \<Rightarrow> v))"

end
