(* ===== verification/Mcp_Handlers.thy ===== *)
theory Mcp_Handlers
  imports Mcp_Common Schema_Normalizer
begin

text \<open>
  The tool handlers (\<open>mcp/handlers\<close>): each turns a validated request into operations of a session or
  of the registry. A handler of a session works on the session and the file system (\<open>capture\<close>); the
  others work on the server's state, the registry and the file system.
\<close>

section \<open>Execution and inferiors\<close>

definition session_call :: "service_call \<Rightarrow> pyv OperationResult capture" where
  "session_call c = on_runtime (perform c)"

definition argv_or_empty :: "string list option \<Rightarrow> string list" where
  "argv_or_empty v = (case v of None \<Rightarrow> [] | Some xs \<Rightarrow> xs)"

fun handle_execution_manage :: "ExecutionManageArgs \<Rightarrow> pyv OperationResult capture" where
  "handle_execution_manage (ExecutionRunAction s p) =
     (case execution_wait_policy p of (timeout_sec, wait) \<Rightarrow>
        (case normalize_run_args (erp_args p) of
           Inl e \<Rightarrow> ret (Failure e)
         | Inr run_args \<Rightarrow> session_call (Execution (Run (argv_or_empty run_args) timeout_sec wait))))"
| "handle_execution_manage (ExecutionContinueAction s p) =
     (case execution_wait_policy p of (timeout_sec, wait) \<Rightarrow>
        session_call (Execution (Continue wait timeout_sec (ecp_reverse p))))"
| "handle_execution_manage (ExecutionInterruptAction s) = session_call (Execution Interrupt)"
| "handle_execution_manage (ExecutionStepAction s p) =
     (case execution_wait_policy p of (timeout_sec, wait) \<Rightarrow>
        session_call (Execution (StepLine wait timeout_sec (ecp_reverse p))))"
| "handle_execution_manage (ExecutionNextAction s p) =
     (case execution_wait_policy p of (timeout_sec, wait) \<Rightarrow>
        session_call (Execution (NextLine wait timeout_sec (ecp_reverse p))))"
| "handle_execution_manage (ExecutionFinishAction s p) =
     (case execution_wait_policy p of (timeout_sec, wait) \<Rightarrow>
        session_call (Execution (Finish timeout_sec wait (ecp_reverse p))))"
| "handle_execution_manage (ExecutionWaitForStopAction s p) =
     session_call (Execution (WaitForStop (ewf_timeout_sec p) (ewf_stop_reasons p)))"

definition current_inferior :: "ListedInferior list \<Rightarrow> int option \<Rightarrow> pyv OperationResult" where
  "current_inferior inferiors current_inferior_id =
     (case List.find (\<lambda>i. current_inferior_id = Some (ir_inferior_id i)) inferiors of
        None \<Rightarrow> Failure (OpError ''Current inferior could not be determined'' ''not_found'' False
                  [(''current_inferior_id'', opt_int current_inferior_id)])
      | Some i \<Rightarrow> op_success (PDict [(''inferior'', listed_inferior_pyv i)]))"

fun handle_inferior_query :: "source_files \<Rightarrow> InferiorQueryArgs \<Rightarrow> pyv OperationResult capture" where
  "handle_inferior_query fs (InferiorQueryListAction s) = session_call (Inspection fs ListInferiors)"
| "handle_inferior_query fs (InferiorQueryCurrentAction s) =
     bindE (on_runtime list_inferiors) (\<lambda>result. ret (case result of
         Failure e \<Rightarrow> Failure e
       | Success v ws \<Rightarrow> (case v of (inferiors, n, current) \<Rightarrow> current_inferior inferiors current)))"

fun handle_inferior_manage :: "source_files \<Rightarrow> InferiorManageArgs \<Rightarrow> pyv OperationResult capture" where
  "handle_inferior_manage fs (InferiorManageCreateAction s p) =
     session_call (Execution (AddInferior (icp_executable p) (icp_make_current p)))"
| "handle_inferior_manage fs (InferiorManageRemoveAction s i) = session_call (Execution (RemoveInferior i))"
| "handle_inferior_manage fs (InferiorManageSelectAction s i) = session_call (Inspection fs (SelectInferior i))"
| "handle_inferior_manage fs (InferiorManageFollowForkAction s m) = session_call (Execution (SetFollowForkMode m))"
| "handle_inferior_manage fs (InferiorManageDetachOnForkAction s b) = session_call (Execution (SetDetachOnFork b))"

section \<open>Inspection\<close>

fun location_selection :: "LocationSelectorArgs \<Rightarrow> code_selector" where
  "location_selection LocationCurrentArgs = no_selector"
| "location_selection (LocationFunctionArgs f) = no_selector\<lparr>cs_function := Some f\<rparr>"
| "location_selection (LocationAddressArgs a) = no_selector\<lparr>cs_address := Some a\<rparr>"
| "location_selection (LocationAddressRangeArgs a b) =
     no_selector\<lparr>cs_start_address := Some a, cs_end_address := Some b\<rparr>"
| "location_selection (LocationFileLineArgs f l) = no_selector\<lparr>cs_file := Some f, cs_line := Some l\<rparr>"
| "location_selection (LocationFileRangeArgs f a b) =
     no_selector\<lparr>cs_file := Some f, cs_start_line := Some a, cs_end_line := Some b\<rparr>"

definition context_selector :: "ThreadFrameContextArgs option \<Rightarrow> int option \<times> int option" where
  "context_selector c = (case c of None \<Rightarrow> (None, None) | Some c \<Rightarrow> (tfc_thread_id c, tfc_frame c))"

text \<open>\<open>get_source_context\<close> is not given the address range and \<open>disassemble\<close> not the line range.\<close>

fun handle_inspect_query :: "source_files \<Rightarrow> InspectQueryArgs \<Rightarrow> pyv OperationResult capture" where
  "handle_inspect_query fs (InspectEvaluateAction s q) =
     (case context_selector (ieq_context q) of (thread_id, frame) \<Rightarrow>
        session_call (Inspection fs (EvaluateExpression (ieq_expression q) thread_id frame)))"
| "handle_inspect_query fs (InspectVariablesAction s q) =
     (case context_selector (ivq_context q) of (thread_id, frame) \<Rightarrow>
        session_call (Inspection fs (GetVariables thread_id (case frame of None \<Rightarrow> 0 | Some f \<Rightarrow> f))))"
| "handle_inspect_query fs (InspectRegistersAction s q) =
     (case context_selector (irq_context q) of (thread_id, frame) \<Rightarrow>
        session_call (Inspection fs (GetRegisters thread_id frame (irq_register_numbers q) (irq_register_names q)
          (irq_include_vector_registers q) (irq_max_registers q) (irq_hex_values q))))"
| "handle_inspect_query fs (InspectMemoryAction s q) =
     session_call (Inspection fs (ReadMemory (imq_address q) (imq_count q) (imq_offset q)))"
| "handle_inspect_query fs (InspectDisassemblyAction s q) =
     (case context_selector (idq_context q) of (thread_id, frame) \<Rightarrow>
        session_call (Inspection fs (Disassemble thread_id frame
          ((location_selection (idq_location q))\<lparr>cs_start_line := None, cs_end_line := None\<rparr>)
          (idq_instruction_count q) (idq_mixed q))))"
| "handle_inspect_query fs (InspectSourceAction s q) =
     (case context_selector (isq_context q) of (thread_id, frame) \<Rightarrow>
        session_call (Inspection fs (GetSourceContext thread_id frame
          ((location_selection (isq_location q))\<lparr>cs_start_address := None, cs_end_address := None\<rparr>)
          (isq_context_before q) (isq_context_after q))))"

fun handle_context_query :: "source_files \<Rightarrow> ContextQueryArgs \<Rightarrow> pyv OperationResult capture" where
  "handle_context_query fs (ContextQueryThreadsAction s) = session_call (Inspection fs GetThreads)"
| "handle_context_query fs (ContextQueryBacktraceAction s q) =
     session_call (Inspection fs (GetBacktrace (cbq_thread_id q) (cbq_max_frames q)))"
| "handle_context_query fs (ContextQueryFrameAction s q) =
     session_call (Inspection fs (GetFrameInfo (cfq_thread_id q) (cfq_frame q)))"

fun handle_context_manage :: "source_files \<Rightarrow> ContextManageArgs \<Rightarrow> pyv OperationResult capture" where
  "handle_context_manage fs (ContextManageSelectThreadAction s t) = session_call (Inspection fs (SelectThread t))"
| "handle_context_manage fs (ContextManageSelectFrameAction s f) = session_call (Inspection fs (SelectFrame f))"

section \<open>Breakpoints\<close>

definition breakpoint_kind :: "gdb_record \<Rightarrow> string" where
  "breakpoint_kind b =
     (let breakpoint_type = lower (py_str (dget_default b ''type'' (PStr []))) in
      if contains ''watch'' breakpoint_type then ''watch''
      else if contains ''catch'' breakpoint_type then ''catch'' else ''code'')"

text \<open>\<open>value in {True, "y", "Y", "1"}\<close>; a value that cannot be hashed raises.\<close>

definition is_enabled_value :: "pyv \<Rightarrow> exn + bool" where
  "is_enabled_value v =
     (case v of
        PList xs \<Rightarrow> Inl (Exn TypeError (''unhashable type: '' @ repr_str ''list''))
      | PDict d \<Rightarrow> Inl (Exn TypeError (''unhashable type: '' @ repr_str ''dict''))
      | _ \<Rightarrow> Inr (py_eq v (PBool True) \<or> v \<in> {PStr ''y'', PStr ''Y'', PStr ''1''}))"

fun filter_breakpoints :: "string list \<Rightarrow> bool option \<Rightarrow> gdb_record list \<Rightarrow> exn + gdb_record list" where
  "filter_breakpoints kinds enabled_filter [] = Inr []"
| "filter_breakpoints kinds enabled_filter (b # rest) =
     (if kinds \<noteq> [] \<and> breakpoint_kind b \<notin> set kinds then filter_breakpoints kinds enabled_filter rest
      else case is_enabled_value (dget b ''enabled'') of
        Inl e \<Rightarrow> Inl e
      | Inr is_enabled \<Rightarrow>
          if enabled_filter \<noteq> None \<and> enabled_filter \<noteq> Some is_enabled
          then filter_breakpoints kinds enabled_filter rest
          else (case filter_breakpoints kinds enabled_filter rest of Inl e \<Rightarrow> Inl e | Inr bs \<Rightarrow> Inr (b # bs)))"

fun handle_breakpoint_query :: "BreakpointQueryArgs \<Rightarrow> pyv OperationResult capture" where
  "handle_breakpoint_query (BreakpointQueryListAction s q) =
     bindE (on_runtime list_breakpoints) (\<lambda>result. case result of
         Failure e \<Rightarrow> ret (Failure e)
       | Success v ws \<Rightarrow>
           if blq_kinds q = [] \<and> blq_enabled q = None then ret (Success (breakpoint_list_pyv v) ws)
           else bindE (from_sum (filter_breakpoints (blq_kinds q) (blq_enabled q) (bli_breakpoints v))) (\<lambda>bs.
             ret (op_success (PDict [(''breakpoints'', PList (map PDict bs)), (''count'', PInt (int (length bs)))]))))"
| "handle_breakpoint_query (BreakpointQueryGetAction s n) = session_call (Breakpoint (GetBreakpoint n))"

fun handle_breakpoint_manage :: "BreakpointManageArgs \<Rightarrow> pyv OperationResult capture" where
  "handle_breakpoint_manage (BreakpointManageCreateAction s (CodeCreate b)) =
     session_call (Breakpoint (SetBreakpoint (bcc_location b) (bcc_condition b) (bcc_temporary b)))"
| "handle_breakpoint_manage (BreakpointManageCreateAction s (WatchCreate b)) =
     session_call (Breakpoint (SetWatchpoint (bwc_expression b) (bwc_access b)))"
| "handle_breakpoint_manage (BreakpointManageCreateAction s (CatchCreate b)) =
     session_call (Breakpoint (SetCatchpoint (bca_event b) (bca_argument b) (bca_temporary b)))"
| "handle_breakpoint_manage (BreakpointManageUpdateAction s n c) =
     session_call (Breakpoint (UpdateBreakpoint n (buc_condition c) (buc_clear_condition c)))"
| "handle_breakpoint_manage (BreakpointManageNumberAction s a n) =
     session_call (Breakpoint (case a of ActionDelete \<Rightarrow> DeleteBreakpoint n
       | ActionEnable \<Rightarrow> EnableBreakpoint n | ActionDisable \<Rightarrow> DisableBreakpoint n))"

section \<open>Tools of one session\<close>

definition capture_request :: "'a CaptureOptionsArgs_scheme \<Rightarrow> MemoryCaptureRange list \<Rightarrow> CaptureBundleRequest" where
  "capture_request args memory_ranges =
     \<lparr>cbr_output_dir = coa_output_dir args, cbr_bundle_name = coa_bundle_name args,
      cbr_expressions = coa_expressions args, cbr_memory_ranges = memory_ranges,
      cbr_max_frames = coa_max_frames args, cbr_include_threads = coa_include_threads args,
      cbr_include_backtraces = coa_include_backtraces args, cbr_include_frame = coa_include_frame args,
      cbr_include_variables = coa_include_variables args, cbr_include_registers = coa_include_registers args,
      cbr_include_transcript = coa_include_transcript args,
      cbr_include_stop_history = coa_include_stop_history args\<rparr>"

definition handle_capture_bundle :: "path_env \<Rightarrow> CaptureBundleArgs \<Rightarrow> pyv OperationResult capture" where
  "handle_capture_bundle paths args =
     (case memory_capture_ranges 0 (coa_memory_ranges args) of
        Inl e \<Rightarrow> ret (Failure e)
      | Inr memory_ranges \<Rightarrow>
          bindE (capture_bundle paths (capture_request args memory_ranges)) (\<lambda>r.
            ret (map_result bundle_info_pyv r)))"

primrec session_handler :: "source_files \<Rightarrow> path_env \<Rightarrow> session_tool_args \<Rightarrow> pyv OperationResult capture" where
  "session_handler fs paths (ExecuteCommandTool a) =
     session_call (Execution (ExecuteCommand (eca_command a) (eca_timeout_sec a)))"
| "session_handler fs paths (InferiorQueryTool a) = handle_inferior_query fs a"
| "session_handler fs paths (InferiorManageTool a) = handle_inferior_manage fs a"
| "session_handler fs paths (ExecutionManageTool a) = handle_execution_manage a"
| "session_handler fs paths (BreakpointQueryTool a) = handle_breakpoint_query a"
| "session_handler fs paths (BreakpointManageTool a) = handle_breakpoint_manage a"
| "session_handler fs paths (ContextQueryTool a) = handle_context_query fs a"
| "session_handler fs paths (ContextManageTool a) = handle_context_manage fs a"
| "session_handler fs paths (InspectQueryTool a) = handle_inspect_query fs a"
| "session_handler fs paths (AttachProcessTool a) =
     session_call (Execution (AttachProcess (apa_pid a) (apa_timeout_sec a)))"
| "session_handler fs paths (CaptureBundleTool a) = handle_capture_bundle paths a"
| "session_handler fs paths (CallFunctionTool a) =
     session_call (Execution (CallFunction (cfa_function_call a) (cfa_timeout_sec a)))"

end
