(* ===== verification/Validation_Errors.thy ===== *)
theory Validation_Errors
  imports Schema_Normalizer
begin

text \<open>
  Validation failures as error envelopes (\<open>mcp/validation_errors.py\<close>). A failure is the list of
  pydantic's error entries, dictionaries with a type, a location and a context; an exception inside
  a context is represented by its text. The published schema is used to drop the tags of unions
  from a location.
\<close>

section \<open>Locations\<close>

text \<open>A tag that was dropped: the path of the union, the property of the tag, and the tag.\<close>

type_synonym location_tag = "string list \<times> string \<times> string"

definition node_properties :: "pyv \<Rightarrow> pydict option" where
  "node_properties node = Option.bind (as_dict node) variant_properties"

definition tag_property_names :: "string list" where
  "tag_property_names = [''action'', ''kind'']"

definition is_tag_of :: "pydict \<Rightarrow> string \<Rightarrow> string \<Rightarrow> bool" where
  "is_tag_of properties segment name =
     (case as_dict (dget properties name) of
        None \<Rightarrow> False
      | Some d \<Rightarrow> (case as_list (dget d ''enum'') of
           None \<Rightarrow> False
         | Some xs \<Rightarrow> PStr segment \<in> set xs))"

definition matching_tag_property :: "pyv \<Rightarrow> string \<Rightarrow> string option" where
  "matching_tag_property node segment =
     (case node_properties node of
        None \<Rightarrow> None
      | Some properties \<Rightarrow> List.find (is_tag_of properties segment) tag_property_names)"

text \<open>An index extends the last name of the path; a truth value is an integer for Python.\<close>

definition add_index :: "string \<Rightarrow> string list \<Rightarrow> string list" where
  "add_index i path = (if path = [] then [] else butlast path @ [last path @ ''['' @ i @ '']''])"

definition item_node :: "pyv \<Rightarrow> pyv" where
  "item_node node = (case as_dict node of None \<Rightarrow> PDict [] | Some d \<Rightarrow> dget_default d ''items'' (PDict []))"

fun clean_loop :: "pyv \<Rightarrow> string list \<Rightarrow> location_tag list \<Rightarrow> pyv list \<Rightarrow> string list \<times> location_tag list" where
  "clean_loop node path tags [] = (path, tags)"
| "clean_loop node path tags (PInt i # rest) = clean_loop (item_node node) (add_index (show_int i) path) tags rest"
| "clean_loop node path tags (PBool b # rest) = clean_loop (item_node node) (add_index (py_str (PBool b)) path) tags rest"
| "clean_loop node path tags (PStr segment # rest) =
     (case node_properties node of
        Some properties \<Rightarrow>
          if dhas properties segment then clean_loop (dget properties segment) (path @ [segment]) tags rest
          else (case matching_tag_property node segment of
             Some tag_property \<Rightarrow> clean_loop node path (tags @ [(path, tag_property, segment)]) rest
           | None \<Rightarrow> clean_loop (PDict []) (path @ [segment]) tags rest)
      | None \<Rightarrow> clean_loop (PDict []) (path @ [segment]) tags rest)"
| "clean_loop node path tags (v # rest) = clean_loop node path tags rest"

definition clean_location :: "pyv \<Rightarrow> pyv list \<Rightarrow> string list \<times> location_tag list" where
  "clean_location schema loc = clean_loop schema [] [] loc"

section \<open>Messages\<close>

text \<open>The deepest union whose path is a proper prefix of the path of the error.\<close>

definition better_tag :: "string list \<Rightarrow> location_tag option \<Rightarrow> location_tag \<Rightarrow> location_tag option" where
  "better_tag path best entry =
     (let parent = fst entry in
      if length parent < length path \<and> take (length parent) path = parent
         \<and> (case best of None \<Rightarrow> True | Some b \<Rightarrow> length parent > length (fst b))
      then Some entry else best)"

definition tag_suffix :: "string list \<Rightarrow> location_tag list \<Rightarrow> string" where
  "tag_suffix path tags =
     (case foldl (better_tag path) None tags of
        None \<Rightarrow> []
      | Some (parent, name, v) \<Rightarrow> '' for '' @ name @ ''='' @ v)"

definition strip_quotes :: "string \<Rightarrow> string" where
  "strip_quotes s = rev (dropWhile (\<lambda>c. c = CHR 0x27) (rev (dropWhile (\<lambda>c. c = CHR 0x27) s)))"

definition context_text :: "pydict \<Rightarrow> string \<Rightarrow> string option" where
  "context_text ctx key = map_option strip_quotes (as_text (dget ctx key))"

definition or_root :: "string \<Rightarrow> string" where
  "or_root field = (if field = [] then ''(root)'' else field)"

definition describe_tag_invalid :: "pydict \<Rightarrow> pydict \<Rightarrow> string \<Rightarrow> string \<times> string \<times> string" where
  "describe_tag_invalid error ctx field =
     (let named = str_or (context_text ctx ''discriminator'') field;
          discriminator = (if named = [] then ''value'' else named);
          expected = dget ctx ''expected_tags'' in
      case dget ctx ''tag'' of
        PStr tag \<Rightarrow>
          (discriminator, ''invalid'',
           ''Unknown '' @ discriminator @ '' '' @ repr_str tag
             @ (case expected of PStr e \<Rightarrow> if e \<noteq> [] then ''; expected one of '' @ e else [] | _ \<Rightarrow> []))
      | _ \<Rightarrow> (discriminator, ''invalid'', py_str (dget_default error ''msg'' (PStr ''Invalid value''))))"

definition describe_error :: "pydict \<Rightarrow> string list \<Rightarrow> location_tag list \<Rightarrow> string \<times> string \<times> string" where
  "describe_error error path tags =
     (let error_type = py_str (dget_default error ''type'' (PStr []));
          ctx = (case as_dict (dget error ''ctx'') of Some c \<Rightarrow> c | None \<Rightarrow> []);
          field = join ''.'' path in
      if error_type = ''missing''
      then (or_root field, ''missing'', or_root field @ '' is required'' @ tag_suffix path tags)
      else if error_type = ''extra_forbidden''
      then (or_root field, ''not_allowed'', if field \<noteq> [] then field @ '' is not allowed'' else ''Unknown field'')
      else if error_type = ''union_tag_not_found''
      then (let tag_property = context_text ctx ''discriminator'';
                target = (if field \<noteq> [] \<and> str_truthy tag_property then field @ ''.'' @ the tag_property
                          else or_root (str_or tag_property field))
            in (target, ''missing'', target @ '' is required''))
      else if error_type = ''union_tag_invalid'' then describe_tag_invalid error ctx field
      else (let msg = py_str (dget_default error ''msg'' (PStr ''Invalid value''));
                message = (if error_type = ''value_error'' \<and> dget ctx ''error'' \<noteq> PNone
                           then py_str (dget ctx ''error'') else msg)
            in (or_root field, ''invalid'', if field \<noteq> [] then field @ '': '' @ message else message)))"

section \<open>The error\<close>

text \<open>\<open>error.get("loc") or ()\<close>.\<close>

definition error_location :: "pydict \<Rightarrow> pyv list" where
  "error_location error = (case dget error ''loc'' of PTuple xs \<Rightarrow> xs | PList xs \<Rightarrow> xs | _ \<Rightarrow> [])"

definition field_error :: "pyv \<Rightarrow> pydict \<Rightarrow> string \<times> string \<times> string" where
  "field_error schema error =
     (case clean_location schema (error_location error) of (path, tags) \<Rightarrow> describe_error error path tags)"

definition error_action :: "pyv \<Rightarrow> pydict \<Rightarrow> string option" where
  "error_action schema error =
     map_option (\<lambda>t. snd (snd t))
       (List.find (\<lambda>t. fst t = []) (snd (clean_location schema (error_location error))))"

definition first_action :: "pyv \<Rightarrow> pydict list \<Rightarrow> string option" where
  "first_action schema errors =
     (case List.find (\<lambda>e. error_action schema e \<noteq> None) errors of
        None \<Rightarrow> None | Some e \<Rightarrow> error_action schema e)"

definition field_error_pyv :: "string \<times> string \<times> string \<Rightarrow> pyv" where
  "field_error_pyv e = (case e of (field, issue, message) \<Rightarrow>
     PDict [(''field'', PStr field), (''issue'', PStr issue), (''message'', PStr message)])"

definition build_validation_error :: "pydict list \<Rightarrow> string \<Rightarrow> pyv \<Rightarrow> OperationError" where
  "build_validation_error errors tool_name schema =
     (let field_errors = map (field_error schema) errors in
      OpError (join ''; '' (map (\<lambda>e. snd (snd e)) field_errors)) ''validation_error'' False
        ([(''tool'', PStr tool_name), (''field_errors'', PList (map field_error_pyv field_errors))]
         @ (case first_action schema errors of None \<Rightarrow> [] | Some a \<Rightarrow> [(''action'', PStr a)])))"

section \<open>Facts\<close>

text \<open>A location that follows the schema: names of properties, and between them tags of the union at
  that place. The specification lists the names with the tags in front of each.\<close>

fun follows :: "pyv \<Rightarrow> (string list \<times> string) list \<Rightarrow> bool" where
  "follows node [] = True"
| "follows node ((ts, name) # rest) =
     (case node_properties node of
        None \<Rightarrow> False
      | Some ps \<Rightarrow> list_all (\<lambda>t. \<not> dhas ps t \<and> matching_tag_property node t \<noteq> None) ts
          \<and> dhas ps name \<and> follows (dget ps name) rest)"

definition raw_location :: "(string list \<times> string) list \<Rightarrow> pyv list" where
  "raw_location steps = concat (map (\<lambda>s. map PStr (fst s) @ [PStr (snd s)]) steps)"

lemma clean_tags:
  assumes "node_properties node = Some ps" "list_all (\<lambda>t. \<not> dhas ps t \<and> matching_tag_property node t \<noteq> None) ts"
  shows "clean_loop node path tags (map PStr ts @ rest)
    = clean_loop node path (tags @ map (\<lambda>t. (path, the (matching_tag_property node t), t)) ts) rest"
  using assms(2) by (induction ts arbitrary: tags) (auto simp: assms(1) split: option.splits)

lemma clean_follows:
  "follows node steps \<Longrightarrow>
   fst (clean_loop node path tags (raw_location steps)) = path @ map snd steps
   \<and> map (\<lambda>t. snd (snd t)) (snd (clean_loop node path tags (raw_location steps)))
       = map (\<lambda>t. snd (snd t)) tags @ concat (map fst steps)"
proof (induction steps arbitrary: node path tags)
  case (Cons s steps)
  obtain ts name where s: "s = (ts, name)" by (cases s)
  with Cons.prems obtain ps where ps: "node_properties node = Some ps"
    "list_all (\<lambda>t. \<not> dhas ps t \<and> matching_tag_property node t \<noteq> None) ts" "dhas ps name" "follows (dget ps name) steps"
    by (auto split: option.splits)
  have raw: "raw_location (s # steps) = map PStr ts @ PStr name # raw_location steps"
    by (simp add: raw_location_def s)
  show ?case unfolding raw clean_tags [OF ps(1,2)] using Cons.IH [OF ps(4)] ps(1,3) s by (simp add: o_def)
qed (simp add: raw_location_def)

section \<open>Properties\<close>

text \<open>
  Error locations are public property paths. When a location of pydantic follows the published
  schema, property by property with tags of unions in between, the reported path is exactly the
  sequence of properties, however many tags the location has, and the tags are kept in order.
\<close>

theorem location_is_property_path:
  assumes "follows schema steps"
  shows "fst (clean_location schema (raw_location steps)) = map snd steps
    \<and> map (\<lambda>t. snd (snd t)) (snd (clean_location schema (raw_location steps))) = concat (map fst steps)"
  using clean_follows [OF assms, of "[]" "[]"] by (simp add: clean_location_def)

definition tagged_schema :: pyv where
  "tagged_schema = PDict [(''properties'', PDict
     [(''action'', PDict [(''enum'', PList [PStr ''create''])]),
      (''breakpoint'', PDict [(''properties'', PDict
         [(''kind'', PDict [(''enum'', PList [PStr ''code''])]), (''location'', PDict [])])])])]"

theorem location_is_property_path_witness:
  "raw_location [([''create''], ''breakpoint''), ([''code''], ''location'')]
     = [PStr ''create'', PStr ''breakpoint'', PStr ''code'', PStr ''location'']
   \<and> fst (clean_location tagged_schema (raw_location [([''create''], ''breakpoint''), ([''code''], ''location'')]))
     = [''breakpoint'', ''location'']"
proof -
  have "follows tagged_schema [([''create''], ''breakpoint''), ([''code''], ''location'')]" by code_simp
  from location_is_property_path [OF this] show ?thesis by (simp add: raw_location_def)
qed

end
