(* ===== verification/Mcp_Server.thy ===== *)
theory Mcp_Server
  imports Mcp_Handlers Validation_Errors
begin

text \<open>
  The server (\<open>mcp/handlers/session.py\<close>, \<open>workflow.py\<close>, \<open>registry.py\<close> and \<open>dispatch.py\<close>): the tools that
  work on the registry, batches and campaigns, and the dispatch of one tool call. The state is the
  registry and the file system.
\<close>

section \<open>State and environment\<close>

record server_state =
  sv_registry :: registry
  sv_disk :: disk

text \<open>A rejected request: pydantic's error entries and the text of the exception.\<close>

record validation_failure =
  vf_errors :: "pydict list"
  vf_text :: string

text \<open>What the server takes from outside: the source files that can be read, the environment of
  captures and campaigns, the world of each session that is created (by its handle), and pydantic: the
  validation of the arguments of a tool, and the JSON schema of its model.\<close>

record server_env =
  se_files :: source_files
  se_campaign :: campaign_env
  se_world :: "nat \<Rightarrow> world"
  se_validate :: "string \<Rightarrow> pydict \<Rightarrow> validation_failure + tool_args"
  se_schema :: "string \<Rightarrow> pydict"

type_synonym 'a server = "(server_state, 'a) exec"

definition on_registry :: "'a registry_op \<Rightarrow> 'a server" where
  "on_registry m = zoom sv_registry sv_registry_update m"

text \<open>An operation of the session with a handle that may also use the file system.\<close>

definition in_session :: "nat \<Rightarrow> 'a capture \<Rightarrow> 'a server" where
  "in_session h m s =
     (case m \<lparr>cs_runtime = reg_store (sv_registry s) h, cs_disk = sv_disk s\<rparr> of
        (r, cs) \<Rightarrow> (r, \<lparr>sv_registry = (sv_registry s)
             \<lparr>reg_store := (reg_store (sv_registry s))(h := cs_runtime cs)\<rparr>, sv_disk = cs_disk cs\<rparr>))"

section \<open>Batches\<close>

text \<open>A shorthand step is the tool's name alone.\<close>

fun batch_step_args :: "BatchStepInput \<Rightarrow> BatchStepArgs" where
  "batch_step_args (StepObject a) = a"
| "batch_step_args (StepTool tool) = \<lparr>bsa_tool = tool, bsa_arguments = [], bsa_label = None\<rparr>"

text \<open>
  The handler of a step: the step has a session and no registry. A tool whose arguments were validated
  as those of another kind of tool answers that it does not support them; the contract of the steps
  and the models leave no such step.
\<close>

fun step_handler :: "server_env \<Rightarrow> tool_args \<Rightarrow> pyv OperationResult capture" where
  "step_handler env (SessionTool a) = session_handler (se_files env) (ce_paths (se_campaign env)) a"
| "step_handler env (SessionQueryTool (SessionQueryStatusAction s)) = session_call GetStatus"
| "step_handler env (SessionQueryTool SessionQueryListAction) =
     ret (Failure (OpError ''gdb_session_query(action=list) is not valid inside a workflow batch''
       ''unsupported_combination'' False []))"
| "step_handler env a = ret (Failure (OpError ''Unsupported batch step'' ''validation_error'' False []))"

definition execute_batch_step :: "server_env \<Rightarrow> tool_args \<Rightarrow> pyv OperationResult capture" where
  "execute_batch_step env validated_args =
     bindE (step_handler env validated_args) (\<lambda>result. from_sum (wrap_action_result_for validated_args result))"

definition batch_step_template ::
  "server_env \<Rightarrow> int \<Rightarrow> nat \<Rightarrow> BatchStepArgs \<Rightarrow> OperationError + BatchStepTemplate" where
  "batch_step_template env session_id index step =
     (case validate_workflow_step_contract (bsa_tool step) (bsa_arguments step) of
        Some issue \<Rightarrow> Inl (workflow_step_validation_error (bsa_tool step) issue index)
      | None \<Rightarrow>
          if bsa_tool step \<notin> set (batch_step_tool_names @ [''gdb_workflow_batch''])
          then Inl (OpError (''Unsupported batch step tool: '' @ bsa_tool step) ''unknown_tool'' False [])
          else case se_validate env (bsa_tool step)
                      (dupdate [(''session_id'', PInt session_id)] (bsa_arguments step)) of
            Inl failure \<Rightarrow>
              Inl (OpError (''Invalid batch step '' @ show_nat index @ '' ('' @ bsa_tool step @ ''): '' @ vf_text failure)
                ''validation_error'' False [])
          | Inr validated_args \<Rightarrow>
              Inr \<lparr>bst_tool = bsa_tool step, bst_execute = execute_batch_step env validated_args,
                   bst_label = bsa_label step\<rparr>)"

fun build_batch_step_templates ::
  "server_env \<Rightarrow> int \<Rightarrow> nat \<Rightarrow> BatchStepInput list \<Rightarrow> OperationError + BatchStepTemplate list" where
  "build_batch_step_templates env session_id index [] = Inr []"
| "build_batch_step_templates env session_id index (raw_step # rest) =
     (case batch_step_template env session_id index (batch_step_args raw_step) of
        Inl e \<Rightarrow> Inl e
      | Inr t \<Rightarrow>
          (case build_batch_step_templates env session_id (Suc index) rest of
             Inl e \<Rightarrow> Inl e
           | Inr ts \<Rightarrow> Inr (t # ts)))"

definition handle_batch :: "server_env \<Rightarrow> BatchArgs \<Rightarrow> pyv OperationResult capture" where
  "handle_batch env args =
     (case build_batch_step_templates env (bta_session_id args) 0 (bta_steps args) of
        Inl e \<Rightarrow> ret (Failure e)
      | Inr step_templates \<Rightarrow>
          bindE (execute_batch_templates step_templates (bta_fail_fast args) (bta_capture_stop_events args)) (\<lambda>r.
            ret (map_result batch_info_pyv r)))"

section \<open>Sessions\<close>

definition publish_session_result ::
  "int option \<Rightarrow> SessionStartInfo OperationResult \<Rightarrow> exn + pyv OperationResult" where
  "publish_session_result session_id result =
     (case (session_id, result) of
        (Some i, Success info ws) \<Rightarrow>
          (case payload_to_mapping (start_info_pyv info) of
             Inl e \<Rightarrow> Inl e
           | Inr (PDict payload) \<Rightarrow> Inr (op_success (PDict (dset ''session_id'' (PInt i) payload)))
           | Inr v \<Rightarrow> Inr (op_error ''Internal error: session start payload must be an object''))
      | _ \<Rightarrow> Inr (map_result start_info_pyv result))"

text \<open>Starting a session in the world that belongs to its handle.\<close>

definition start_in_world ::
  "server_env \<Rightarrow> SessionConfig \<Rightarrow> (int option \<times> SessionStartInfo OperationResult) server" where
  "start_in_world env config =
     on_registry (bindE (gets reg_fresh) (\<lambda>h. start_session config (se_world env h)))"

definition start_config :: "StartSessionArgs \<Rightarrow> string list option \<Rightarrow> SessionConfig" where
  "start_config args argv =
     \<lparr>cfg_program = ssa_program args, cfg_args = argv_or_empty argv,
      cfg_init_commands = argv_or_empty (ssa_init_commands args),
      cfg_env = (case ssa_env args of None \<Rightarrow> [] | Some e \<Rightarrow> e), cfg_gdb_path = ssa_gdb_path args,
      cfg_gdb_args = argv_or_empty (ssa_gdb_args args), cfg_working_dir = ssa_working_dir args,
      cfg_core = ssa_core args, cfg_endpoint = None, cfg_rr_replay = ssa_rr_replay args\<rparr>"

definition handle_start_session :: "server_env \<Rightarrow> StartSessionArgs \<Rightarrow> pyv OperationResult server" where
  "handle_start_session env args =
     (case normalize_run_args (ssa_args args) of
        Inl e \<Rightarrow> ret (Failure e)
      | Inr argv \<Rightarrow>
          bindE (start_in_world env (start_config args argv)) (\<lambda>(session_id, result).
            from_sum (publish_session_result session_id result)))"

definition connect_config :: "ConnectSessionArgs \<Rightarrow> SessionConfig" where
  "connect_config args =
     \<lparr>cfg_program = None, cfg_args = [], cfg_init_commands = argv_or_empty (csa_init_commands args),
      cfg_env = [], cfg_gdb_path = None, cfg_gdb_args = [], cfg_working_dir = None, cfg_core = None,
      cfg_endpoint = Some (csa_endpoint args), cfg_rr_replay = None\<rparr>"

definition handle_connect_session :: "server_env \<Rightarrow> ConnectSessionArgs \<Rightarrow> pyv OperationResult server" where
  "handle_connect_session env args =
     bindE (start_in_world env (connect_config args)) (\<lambda>(session_id, result).
       from_sum (publish_session_result session_id result))"

definition summary_pyv :: "SessionSummary \<Rightarrow> pyv" where
  "summary_pyv s = PData ''SessionSummary''
     [(''session_id'', PInt (ssm_session_id s)), (''lifecycle_state'', PStr (ssm_lifecycle_state s)),
      (''execution_state'', exec_state_pyv (ssm_execution_state s)), (''target_loaded'', PBool (ssm_target_loaded s)),
      (''has_controller'', PBool (ssm_has_controller s)), (''program'', opt_str (ssm_program s)),
      (''core'', opt_str (ssm_core s)), (''working_dir'', opt_str (ssm_working_dir s)),
      (''attached_pid'', opt_int (ssm_attached_pid s)), (''current_thread_id'', opt_int (ssm_current_thread_id s)),
      (''current_frame'', opt_int (ssm_current_frame s)), (''stop_reason'', opt_str (ssm_stop_reason s)),
      (''exit_code'', opt_int (ssm_exit_code s)), (''current_inferior_id'', opt_int (ssm_current_inferior_id s)),
      (''inferior_count'', opt_int (ssm_inferior_count s)),
      (''inferior_states'', opt_pyv (\<lambda>xs. PList (map inferior_state_pyv xs)) (ssm_inferior_states s)),
      (''follow_fork_mode'', opt_pyv (\<lambda>m. PStr (fork_mode_text m)) (ssm_follow_fork_mode s)),
      (''detach_on_fork'', opt_pyv PBool (ssm_detach_on_fork s)),
      (''last_failure_message'', opt_str (ssm_last_failure_message s)), (''endpoint'', opt_str (ssm_endpoint s)),
      (''rr_replay'', opt_str (ssm_rr_replay s))]"

definition session_list_pyv :: "SessionSummary list \<Rightarrow> pyv" where
  "session_list_pyv summaries = PData ''SessionListInfo''
     [(''sessions'', PList (map summary_pyv summaries)), (''count'', PInt (int (length summaries)))]"

text \<open>A direct call has the registry and no session.\<close>

fun handle_session_query :: "SessionQueryArgs \<Rightarrow> pyv OperationResult server" where
  "handle_session_query SessionQueryListAction =
     bindE (on_registry list_sessions) (\<lambda>summaries. ret (op_success (session_list_pyv summaries)))"
| "handle_session_query (SessionQueryStatusAction session_id) =
     bindE (gets (\<lambda>s. resolve_session session_id (sv_registry s))) (\<lambda>resolved.
       case resolved of
         Inl e \<Rightarrow> ret (Failure e)
       | Inr h \<Rightarrow> in_session h (session_call GetStatus))"

fun handle_session_manage :: "SessionManageArgs \<Rightarrow> pyv OperationResult server" where
  "handle_session_manage (SessionManageStopAction session_id) =
     bindE (on_registry (close_session session_id)) (\<lambda>r. ret (map_result session_message_pyv r))"

section \<open>Campaigns\<close>

definition iteration_info_pyv :: "RunUntilFailureIterationInfo \<Rightarrow> pyv" where
  "iteration_info_pyv i = PData ''RunUntilFailureIterationInfo''
     [(''iteration'', PInt (int (rfi_iteration i))), (''status'', PStr (rfi_status i)),
      (''execution_state'', opt_pyv exec_state_pyv (rfi_execution_state i)),
      (''stop_reason'', opt_str (rfi_stop_reason i)), (''exit_code'', opt_int (rfi_exit_code i)),
      (''matched_failure'', PBool (rfi_matched_failure i)), (''trigger'', opt_str (rfi_trigger i)),
      (''message'', opt_str (rfi_message i))]"

definition campaign_info_pyv :: "RunUntilFailureInfo \<Rightarrow> pyv" where
  "campaign_info_pyv i = PData ''RunUntilFailureInfo''
     [(''message'', PStr (rui_message i)), (''matched_failure'', PBool (rui_matched_failure i)),
      (''iterations_requested'', PInt (int (rui_iterations_requested i))),
      (''iterations_completed'', PInt (int (rui_iterations_completed i))),
      (''failure_iteration'', opt_int (map_option int (rui_failure_iteration i))),
      (''trigger'', opt_str (rui_trigger i)),
      (''execution_state'', opt_pyv exec_state_pyv (rui_execution_state i)),
      (''stop_reason'', opt_str (rui_stop_reason i)), (''exit_code'', opt_int (rui_exit_code i)),
      (''capture_bundle'', opt_pyv bundle_info_pyv (rui_capture_bundle i)),
      (''capture_error'', opt_str (rui_capture_error i)), (''last_result'', opt_pyv PDict (rui_last_result i)),
      (''iterations'', PList (map iteration_info_pyv (rui_iterations i)))]"

text \<open>\<open>tuple(args or ())\<close>: the tuple of a string has one entry for each character.\<close>

definition startup_argv :: "argv_input option \<Rightarrow> string list" where
  "startup_argv args =
     (case args of None \<Rightarrow> [] | Some (ArgvList xs) \<Rightarrow> xs | Some (ArgvText s) \<Rightarrow> map (\<lambda>c. [c]) s)"

definition campaign_criteria :: "RunUntilFailureFailureArgs \<Rightarrow> RunUntilFailureCriteria" where
  "campaign_criteria f =
     \<lparr>rfc_failure_on_error = rff_failure_on_error f, rfc_failure_on_timeout = rff_failure_on_timeout f,
      rfc_stop_reasons = rff_stop_reasons f, rfc_execution_states = rff_execution_states f,
      rfc_exit_codes = rff_exit_codes f, rfc_result_text_regex = rff_result_text_regex f\<rparr>"

definition campaign_request ::
  "RunUntilFailureArgs \<Rightarrow> BatchStepTemplate list \<Rightarrow> string list option \<Rightarrow> MemoryCaptureRange list \<Rightarrow>
     RunUntilFailureRequest" where
  "campaign_request args step_templates run_args capture_memory_ranges =
     (let startup = rua_startup args in
      \<lparr>rfr_program = ssa_program startup, rfr_args = startup_argv (ssa_args startup),
       rfr_init_commands = argv_or_empty (ssa_init_commands startup),
       rfr_env = (case ssa_env startup of None \<Rightarrow> [] | Some e \<Rightarrow> e), rfr_gdb_path = ssa_gdb_path startup,
       rfr_working_dir = ssa_working_dir startup, rfr_core = ssa_core startup,
       rfr_setup_steps = step_templates, rfr_run_args = argv_or_empty run_args,
       rfr_run_timeout_sec = rua_run_timeout_sec args, rfr_max_iterations = rua_max_iterations args,
       rfr_failure = campaign_criteria (rua_failure args),
       rfr_capture = \<lparr>rfp_enabled = rca_enabled (rua_capture args),
         rfp_bundle_name_prefix = rca_bundle_name_prefix (rua_capture args),
         rfp_bundle = capture_request (rua_capture args) capture_memory_ranges\<rparr>\<rparr>)"

text \<open>The sessions of a campaign are not tracked by the registry.\<close>

definition run_campaign :: "server_env \<Rightarrow> RunUntilFailureRequest \<Rightarrow> pyv OperationResult server" where
  "run_campaign env request s =
     (case run_until_failure (se_campaign env) request \<lparr>cg_disk = sv_disk s, cg_ended = []\<rparr> of
        (r, cg) \<Rightarrow> (map_sum id (map_result campaign_info_pyv) r, s\<lparr>sv_disk := cg_disk cg\<rparr>))"

definition handle_run_until_failure :: "server_env \<Rightarrow> RunUntilFailureArgs \<Rightarrow> pyv OperationResult server" where
  "handle_run_until_failure env args =
     (case build_batch_step_templates env 1 0 (rua_setup_steps args) of
        Inl e \<Rightarrow> ret (Failure e)
      | Inr step_templates \<Rightarrow>
          (case normalize_run_args (rua_run_args args) of
             Inl e \<Rightarrow> ret (Failure e)
           | Inr run_args \<Rightarrow>
               (case memory_capture_ranges 0 (coa_memory_ranges (rua_capture args)) of
                  Inl e \<Rightarrow> ret (Failure e)
                | Inr ranges \<Rightarrow> run_campaign env (campaign_request args step_templates run_args ranges))))"

section \<open>Dispatch\<close>

fun execution_session :: "ExecutionManageArgs \<Rightarrow> int" where
  "execution_session (ExecutionRunAction s p) = s" | "execution_session (ExecutionContinueAction s p) = s"
| "execution_session (ExecutionInterruptAction s) = s" | "execution_session (ExecutionStepAction s p) = s"
| "execution_session (ExecutionNextAction s p) = s" | "execution_session (ExecutionFinishAction s p) = s"
| "execution_session (ExecutionWaitForStopAction s p) = s"

fun inspect_session :: "InspectQueryArgs \<Rightarrow> int" where
  "inspect_session (InspectEvaluateAction s q) = s" | "inspect_session (InspectVariablesAction s q) = s"
| "inspect_session (InspectRegistersAction s q) = s" | "inspect_session (InspectMemoryAction s q) = s"
| "inspect_session (InspectDisassemblyAction s q) = s" | "inspect_session (InspectSourceAction s q) = s"

text \<open>\<open>session_args.session_id\<close>.\<close>

fun tool_session :: "session_tool_args \<Rightarrow> int" where
  "tool_session (ExecuteCommandTool a) = eca_session_id a"
| "tool_session (InferiorQueryTool a) =
     (case a of InferiorQueryListAction s \<Rightarrow> s | InferiorQueryCurrentAction s \<Rightarrow> s)"
| "tool_session (InferiorManageTool a) =
     (case a of InferiorManageCreateAction s p \<Rightarrow> s | InferiorManageRemoveAction s i \<Rightarrow> s
      | InferiorManageSelectAction s i \<Rightarrow> s | InferiorManageFollowForkAction s m \<Rightarrow> s
      | InferiorManageDetachOnForkAction s b \<Rightarrow> s)"
| "tool_session (ExecutionManageTool a) = execution_session a"
| "tool_session (BreakpointQueryTool a) =
     (case a of BreakpointQueryListAction s q \<Rightarrow> s | BreakpointQueryGetAction s n \<Rightarrow> s)"
| "tool_session (BreakpointManageTool a) =
     (case a of BreakpointManageCreateAction s b \<Rightarrow> s | BreakpointManageUpdateAction s n c \<Rightarrow> s
      | BreakpointManageNumberAction s x n \<Rightarrow> s)"
| "tool_session (ContextQueryTool a) =
     (case a of ContextQueryThreadsAction s \<Rightarrow> s | ContextQueryBacktraceAction s q \<Rightarrow> s
      | ContextQueryFrameAction s q \<Rightarrow> s)"
| "tool_session (ContextManageTool a) =
     (case a of ContextManageSelectThreadAction s t \<Rightarrow> s | ContextManageSelectFrameAction s f \<Rightarrow> s)"
| "tool_session (InspectQueryTool a) = inspect_session a"
| "tool_session (AttachProcessTool a) = apa_session_id a"
| "tool_session (CaptureBundleTool a) = cba_session_id a"
| "tool_session (CallFunctionTool a) = cfa_session_id a"

text \<open>The branch of \<open>_dispatch_tool\<close> for tools of a session.\<close>

definition dispatch_session ::
  "tool_args \<Rightarrow> int \<Rightarrow> pyv OperationResult capture \<Rightarrow> pyv OperationResult server" where
  "dispatch_session validated_args session_id handler =
     bindE (gets (\<lambda>s. resolve_session session_id (sv_registry s))) (\<lambda>resolved.
       case resolved of
         Inl e \<Rightarrow> from_sum (wrap_action_result_for validated_args (Failure e))
       | Inr h \<Rightarrow>
           bindE (in_session h handler) (\<lambda>result.
           bindE (gets (\<lambda>s. reg_store (sv_registry s) h)) (\<lambda>rt.
           bindE (from_sum (annotate_session_failure result rt session_id)) (\<lambda>annotated.
             from_sum (wrap_action_result_for validated_args annotated)))))"

definition wrapped :: "tool_args \<Rightarrow> pyv OperationResult server \<Rightarrow> pyv OperationResult server" where
  "wrapped validated_args m = bindE m (\<lambda>result. from_sum (wrap_action_result_for validated_args result))"

primrec run_tool :: "server_env \<Rightarrow> tool_args \<Rightarrow> pyv OperationResult server" where
  "run_tool env (SessionTool a) =
     dispatch_session (SessionTool a) (tool_session a)
       (session_handler (se_files env) (ce_paths (se_campaign env)) a)"
| "run_tool env (WorkflowBatchTool a) =
     dispatch_session (WorkflowBatchTool a) (bta_session_id a) (handle_batch env a)"
| "run_tool env (SessionQueryTool a) = wrapped (SessionQueryTool a) (handle_session_query a)"
| "run_tool env (SessionStartTool a) = wrapped (SessionStartTool a) (handle_start_session env a)"
| "run_tool env (SessionConnectTool a) = wrapped (SessionConnectTool a) (handle_connect_session env a)"
| "run_tool env (SessionManageTool a) = wrapped (SessionManageTool a) (handle_session_manage a)"
| "run_tool env (RunUntilFailureTool a) = wrapped (RunUntilFailureTool a) (handle_run_until_failure env a)"

definition dispatch_tool ::
  "server_env \<Rightarrow> string \<Rightarrow> pydict \<Rightarrow> (validation_failure + pyv OperationResult) server" where
  "dispatch_tool env name arguments =
     (if name \<notin> set public_tool_names
      then ret (Inr (Failure (OpError (''Unknown tool: '' @ name) ''unknown_tool'' False [])))
      else case se_validate env name arguments of
        Inl failure \<Rightarrow> ret (Inl failure)
      | Inr validated_args \<Rightarrow> bindE (run_tool env validated_args) (\<lambda>result. ret (Inr result)))"

definition invalid_arguments_error :: "string \<Rightarrow> exn \<Rightarrow> OperationError" where
  "invalid_arguments_error name e =
     OpError (exn_text e) ''validation_error'' False
       [(''tool'', PStr name),
        (''field_errors'', PList [PDict [(''field'', PStr ''(arguments)''), (''issue'', PStr ''invalid''),
           (''message'', PStr (exn_text e))]])]"

definition validation_result :: "server_env \<Rightarrow> string \<Rightarrow> validation_failure \<Rightarrow> exn + CallToolResult" where
  "validation_result env name failure =
     (case public_input_schema (se_schema env name) [] of
        Inl e \<Rightarrow> Inl e
      | Inr schema \<Rightarrow> serialize_result (Failure (build_validation_error (vf_errors failure) name schema)))"

definition dispatch_tool_call :: "server_env \<Rightarrow> string \<Rightarrow> pyv \<Rightarrow> CallToolResult server" where
  "dispatch_tool_call env name arguments =
     (case normalize_arguments arguments of
        Inl e \<Rightarrow> from_sum (serialize_result (Failure (invalid_arguments_error name e)))
      | Inr normalized_args \<Rightarrow>
          bindE (catchE
            (bindE (dispatch_tool env name normalized_args) (\<lambda>r. case r of
                Inl failure \<Rightarrow> ret (Inr (Inl failure))
              | Inr result \<Rightarrow> bindE (from_sum (serialize_result result)) (\<lambda>c. ret (Inr (Inr c)))))
            (\<lambda>e. ret (Inl e))) (\<lambda>outcome.
          case outcome of
            Inl e \<Rightarrow> from_sum (serialize_exception name e)
          | Inr (Inl failure) \<Rightarrow> from_sum (validation_result env name failure)
          | Inr (Inr c) \<Rightarrow> ret c))"

end
