(* ===== verification/Command_Runner_Correct.thy ===== *)
theory Command_Runner_Correct
  imports Command_Runner
begin

text \<open>
  Properties of command execution. The runtime methods that follow what the debuggee does
  are collected in one step relation; a predicate that survives those steps and the
  transport calls survives every session operation, which the locales below prove once for
  all the invariants of the development.
\<close>

section \<open>Steps that track the debuggee\<close>

inductive tracking_step :: "SessionRuntime \<Rightarrow> SessionRuntime \<Rightarrow> bool" where
  track_thread: "tracking_step rt (mark_thread_selected t rt)"
| track_frame: "tracking_step rt (mark_frame_selected f rt)"
| track_inferior: "tracking_step rt (mark_inferior_selected i rt)"
| track_inventory: "tracking_step rt (update_inferior_inventory i n ids rt)"
| track_ensure: "tracking_step rt (ensure_inferior k rt)"
| track_remove: "tracking_step rt (remove_inferior k rt)"
| track_follow: "tracking_step rt (mark_follow_fork_mode fm rt)"
| track_detach: "tracking_step rt (mark_detach_on_fork b rt)"
| track_attached: "tracking_step rt (mark_attached p rt)"
| track_clear: "tracking_step rt (clear_attached_pid rt)"
| track_not_started: "tracking_step rt (mark_inferior_not_started i rt)"
| track_running: "tracking_step rt (mark_inferior_running i rt)"
| track_paused: "tracking_step rt (mark_inferior_paused reason i rt)"
| track_exited: "tracking_step rt (mark_inferior_exited reason code i rt)"
| track_stop: "tracking_step rt (record_stop_event ev rt)"
| track_loaded: "tracking_step rt (rt\<lparr>rt_target_loaded := l\<rparr>)"
| track_disassemble: "tracking_step rt (rt\<lparr>rt_disassemble_a_supported := d\<rparr>)"
| track_read_memory: "tracking_step rt (rt\<lparr>rt_read_memory_bytes_supported := d\<rparr>)"

inductive_cases tracking_stepE: "tracking_step rt rt'"

text \<open>What a tracking step leaves alone.\<close>

definition frame_of :: "SessionRuntime \<Rightarrow>
    MiClient \<times> SessionConfig option \<times> SessionState \<times> bool \<times> string option \<times>
    CommandTranscriptEntry list \<times> int" where
  "frame_of rt = (rt_transport rt, rt_config rt, rt_state rt, rt_is_running rt,
     rt_last_failure_message rt, rt_command_transcript rt, rt_command_transcript_limit rt)"

lemma frame_of_updates [simp]:
  "frame_of (rt\<lparr>rt_current_thread_id := a\<rparr>) = frame_of rt"
  "frame_of (rt\<lparr>rt_current_frame := b\<rparr>) = frame_of rt"
  "frame_of (rt\<lparr>rt_current_inferior_id := c\<rparr>) = frame_of rt"
  "frame_of (rt\<lparr>rt_inferior_states := d\<rparr>) = frame_of rt"
  "frame_of (rt\<lparr>rt_inferior_count := e\<rparr>) = frame_of rt"
  "frame_of (rt\<lparr>rt_follow_fork_mode := f\<rparr>) = frame_of rt"
  "frame_of (rt\<lparr>rt_detach_on_fork := g\<rparr>) = frame_of rt"
  "frame_of (rt\<lparr>rt_attached_pid := h\<rparr>) = frame_of rt"
  "frame_of (rt\<lparr>rt_target_loaded := i\<rparr>) = frame_of rt"
  "frame_of (rt\<lparr>rt_last_stop_event := j\<rparr>) = frame_of rt"
  "frame_of (rt\<lparr>rt_stop_history := k\<rparr>) = frame_of rt"
  "frame_of (rt\<lparr>rt_disassemble_a_supported := l\<rparr>) = frame_of rt"
  "frame_of (rt\<lparr>rt_read_memory_bytes_supported := m\<rparr>) = frame_of rt"
  "frame_of (mirror st rt) = frame_of rt"
  by (simp_all add: frame_of_def mirror_def)

lemma frame_of_sync [simp]: "frame_of (synchronize_selected_state rt) = frame_of rt"
  by (simp add: synchronize_selected_state_def split: option.splits)

lemma frame_of_bump [simp]: "frame_of (bump_inferior_count rt) = frame_of rt"
  by (simp add: bump_inferior_count_def Let_def split: option.splits)

lemma frame_of_ensure [simp]: "frame_of (ensure_inferior i rt) = frame_of rt"
  by (simp add: ensure_inferior_def)

lemma frame_of_resolve: "resolve_target_inferior_id i rt = (t, rt') \<Longrightarrow> frame_of rt' = frame_of rt"
  by (auto simp: resolve_target_inferior_id_def split: option.splits)

lemma frame_of_update_state [simp]: "frame_of (update_inferior_state i st rt) = frame_of rt"
  by (auto simp: update_inferior_state_def Let_def split: prod.splits dest: frame_of_resolve)

lemma tracking_frame: "tracking_step rt rt' \<Longrightarrow> frame_of rt' = frame_of rt"
  by (induction rule: tracking_step.induct)
    (simp_all add: mark_thread_selected_def mark_frame_selected_def mark_inferior_selected_def
      update_inferior_inventory_def remove_inferior_def mark_follow_fork_mode_def
      mark_detach_on_fork_def mark_attached_def clear_attached_pid_def mark_inferior_defs
      record_stop_event_def Let_def split: option.splits)

lemma tracking_rt_ok: "tracking_step rt rt' \<Longrightarrow> rt_ok rt \<Longrightarrow> rt_ok rt'"
  by (induction rule: tracking_step.induct) (auto intro: rt_ok_intros)

text \<open>Becoming ready keeps the transport.\<close>

lemma let_keeps:
  "g a = c \<Longrightarrow> (\<And>x. g x = c \<Longrightarrow> h (f x) = c) \<Longrightarrow> h (let x = a in f x) = c"
  by simp

lemma let_any: "(\<And>x. h (f x) = c) \<Longrightarrow> h (let x = a in f x) = c"
  by simp

lemma sync_transport [simp]: "rt_transport (synchronize_selected_state rt) = rt_transport rt"
  using frame_of_sync [of rt] by (simp add: frame_of_def)

lemma mark_ready_transport [simp]: "rt_transport (mark_ready rt) = rt_transport rt"
  unfolding mark_ready_def
  apply (rule let_keeps [where g = rt_transport], simp)
  apply (rule let_keeps [where g = rt_transport], simp)
  apply (rule let_keeps [where g = rt_transport], simp)
  apply (rule let_any)
  apply (rule let_keeps [where g = rt_transport], simp)
  apply (rule let_keeps [where g = rt_transport], simp)
  apply (rule let_keeps [where g = rt_transport], simp)
  apply simp
  done

section \<open>Invariants of session operations\<close>

text \<open>
  The contract between an invariant and the part of the command runner that follows an answer:
  the tracking steps keep it, and so does the one command the runner sends on its own, the
  request for the list of inferiors.
\<close>

locale tracking_invariant =
  fixes invar :: "SessionRuntime \<Rightarrow> bool"
  assumes tracking: "tracking_step rt rt' \<Longrightarrow> invar rt \<Longrightarrow> invar rt'"
    and inventory: "pres invar (cr_send_command_and_wait_for_prompt (wrap_cli_command ''info inferiors'') t)"
begin

lemma pres_track: "(\<And>rt. tracking_step rt (f rt)) \<Longrightarrow> pres invar (modify f)"
  using tracking by (blast intro: pres_modify)

lemma notify_step_inv: "invar (snd s) \<Longrightarrow> invar (snd (notify_step s n))"
  by (auto simp: notify_step_def Let_def split: prod.splits option.splits
      intro: tracking tracking_step.intros)

lemma notifications_inv: "invar (snd s) \<Longrightarrow> invar (snd (foldl notify_step s ns))"
proof (induction ns arbitrary: s)
  case (Cons n ns)
  then show ?case using notify_step_inv by simp
qed simp

lemma pres_take_notifications [pres_intros]: "pres invar (take_notifications ns)"
proof -
  have "invar (snd (take_notifications ns rt))" if "invar rt" for rt
    using notifications_inv [of "(init_notify_vars, rt)" ns] that
    by (simp add: take_notifications_def case_prod_beta)
  then show ?thesis by (simp add: pres_def)
qed

lemma pres_refresh [pres_intros]: "pres invar refresh_inferior_inventory_from_gdb"
  unfolding refresh_inferior_inventory_from_gdb_def Let_def
  by (intro pres_intros inventory pres_track tracking_step.intros)

lemma pres_build_stop_event [pres_intros]: "pres invar (build_stop_event cmd p r e i)"
  by (auto simp: pres_def build_stop_event_def Let_def split: sum.splits)

lemma apply_stop_marks:
  "invar rt \<Longrightarrow> invar (case t of None \<Rightarrow> rt | Some k \<Rightarrow> mark_thread_selected (Some k) rt)"
  "invar rt \<Longrightarrow> invar (case t of None \<Rightarrow> rt | Some k \<Rightarrow> mark_frame_selected (Some k) rt)"
  "invar rt \<Longrightarrow> invar ((if b then mark_inferior_exited r c i else mark_inferior_paused r i) rt)"
  by (auto split: option.splits intro: tracking tracking_step.intros)

lemma pres_apply_stop [pres_intros]: "pres invar (apply_stop cmd v)"
  unfolding apply_stop_def
  by (intro pres_intros pres_modify apply_stop_marks pres_track tracking_step.intros)

lemma apply_command_inv: "invar rt \<Longrightarrow> invar (apply_command cmd p rt)"
  unfolding apply_command_def Let_def
  by (auto split: option.splits intro!: tracking [OF track_paused] tracking [OF track_not_started]
      tracking [OF track_clear] tracking [OF track_loaded] tracking [OF track_attached]
      tracking [OF track_inferior] tracking [OF track_follow] tracking [OF track_detach])

lemma pres_update_runtime [pres_intros]: "pres invar (update_runtime_after_command cmd p)"
  unfolding update_runtime_after_command_def
  by (intro pres_intros pres_modify apply_command_inv pres_track tracking_step.intros) assumption+

end

text \<open>An invariant that also survives the bookkeeping of an answer survives every command whose
  sending keeps it.\<close>

locale answer_invariant = tracking_invariant +
  assumes transcript: "invar rt \<Longrightarrow> invar (record_command_transcript e rt)"
    and terminated: "invar rt \<Longrightarrow> invar (mark_transport_terminated m rt)"
    and alive [pres_intros]: "pres invar is_gdb_alive"
begin

lemma pres_transcript [pres_intros]:
  "pres invar (cr_record_command_transcript cmd sent status p to fatal err)"
  unfolding cr_record_command_transcript_def by (intro pres_modify transcript)

lemma pres_command_answer [pres_intros]:
  "pres invar (command_answer cmd actual cli t allow result)"
  unfolding command_answer_def Let_def by (intro pres_intros)

lemma pres_dead [pres_intros]: "pres invar (handle_dead_transport m)"
  unfolding handle_dead_transport_def by (intro pres_modify terminated)

lemma pres_execute_sending:
  "pres invar (cr_send_command_and_wait_for_prompt
      (if is_cli_command cmd then wrap_cli_command cmd else cmd) t) \<Longrightarrow>
   pres invar (execute_command_result cmd t allow)"
  unfolding execute_command_result_def Let_def by (intro pres_intros)

end

text \<open>Invariants that every command keeps.\<close>

locale session_invariant = tracking_invariant +
  assumes send: "pres invar (cr_send_command_and_wait_for_prompt cmd t)"

locale command_invariant = session_invariant + answer_invariant +
  assumes interrupt [pres_intros]: "pres invar (cr_interrupt_and_wait_for_stop t)"
    and wait [pres_intros]: "pres invar (cr_wait_for_stop t)"
begin

lemma pres_execute [pres_intros]: "pres invar (execute_command_result cmd t allow)"
  by (intro pres_execute_sending send)

end

section \<open>Transport calls\<close>

text \<open>
  A ready session has a controller, provided that no \<open>controller.exit()\<close> raises.
\<close>

definition live_ok :: "SessionRuntime \<Rightarrow> bool" where
  "live_ok rt \<longleftrightarrow> exits_ok (rt_transport rt) \<and> (rt_state rt = READY \<longrightarrow> has_controller rt)"

lemma terminated_simps [simp]:
  "rt_state (mark_transport_terminated m rt) = FAILED"
  "rt_transport (mark_transport_terminated m rt) = (rt_transport rt)\<lparr>mc_controller := None\<rparr>"
  "rt_last_failure_message (mark_transport_terminated m rt) = Some m"
  "rt_is_running (mark_transport_terminated m rt) = False"
  "rt_command_transcript (mark_transport_terminated m rt) = rt_command_transcript rt"
  "rt_command_transcript_limit (mark_transport_terminated m rt) = rt_command_transcript_limit rt"
  by (simp_all add: mark_transport_terminated_def mark_failed_def reset_transient_def)

lemma exits_ok_controller [simp]: "exits_ok (c\<lparr>mc_controller := k\<rparr>) = exits_ok c"
  by (simp add: exits_ok_def)

lemma live_ok_terminated: "live_ok rt \<Longrightarrow> live_ok (mark_transport_terminated m rt)"
  by (simp add: live_ok_def)

lemma pres_finish: "(\<And>rt m. invar rt \<Longrightarrow> invar (mark_transport_terminated m rt)) \<Longrightarrow> pres invar (finish_transport r)"
  unfolding finish_transport_def by (intro pres_intros pres_modify)

lemma cr_call_eq:
  "cr_call mi_op rt =
     (case mi_op (rt_transport rt) of
        (Inl e, c) \<Rightarrow> (Inl e, rt\<lparr>rt_transport := c\<rparr>)
      | (Inr r, c) \<Rightarrow> (Inr (transport_to_dict r),
          if tr_fatal r
          then mark_transport_terminated (str_or (tr_error r) ''GDB transport failed'') (rt\<lparr>rt_transport := c\<rparr>)
          else rt\<lparr>rt_transport := c\<rparr>))"
  by (auto simp: cr_call_def finish_transport_def exec_defs split: prod.splits sum.splits)

lemma rt_ok_transport_update: "rt_ok rt \<Longrightarrow> rt_ok (rt\<lparr>rt_transport := c\<rparr>)"
  by (simp add: rt_ok_def)

lemma rt_ok_call: "pres rt_ok (cr_call mi_op)"
  unfolding cr_call_def
  by (intro pres_intros pres_zoom pres_finish rt_ok_terminated rt_ok_transport_update)

lemma transcript_call:
  "pres (\<lambda>rt. rt_command_transcript rt = t \<and> rt_command_transcript_limit rt = l) (cr_call mi_op)"
  unfolding cr_call_def by (intro pres_intros pres_zoom pres_finish) simp_all

context mi_operation
begin

lemma live_ok_call: "pres live_ok (cr_call mi_op)"
  unfolding pres_def
proof (intro allI impI)
  fix rt assume ok: "live_ok rt"
  obtain out c' where op: "mi_op (rt_transport rt) = (out, c')" by (cases "mi_op (rt_transport rt)")
  have ex: "exits_ok c'" using keeps_controller [OF op] ok by (simp add: live_ok_def)
  show "live_ok (snd (cr_call mi_op rt))"
  proof (cases "\<exists>x. out = Inr x \<and> tr_fatal x")
    case True
    with ex op show ?thesis by (auto simp: cr_call_eq live_ok_def)
  next
    case False
    then have "mc_controller c' = mc_controller (rt_transport rt)"
      using keeps_controller [OF op] ok unfolding live_ok_def by blast
    with False ex op ok show ?thesis
      by (auto simp: cr_call_eq live_ok_def has_controller_def split: sum.splits)
  qed
qed

text \<open>A fatal response takes the session down: no controller, state FAILED, and the reason kept.\<close>

lemma call_fatal:
  assumes "cr_call mi_op rt = (Inr d, rt')" and "dhas d ''fatal''"
  shows "rt_state rt' = FAILED \<and> \<not> rt_is_running rt' \<and> \<not> has_controller rt' \<and> dhas d ''error''
     \<and> rt_last_failure_message rt' = Some (str_or (Some (py_str (dget d ''error''))) ''GDB transport failed'')"
proof -
  obtain out c' where op: "mi_op (rt_transport rt) = (out, c')" by (cases "mi_op (rt_transport rt)")
  with assms obtain r where r: "out = Inr r" "d = transport_to_dict r"
    by (cases out) (auto simp: cr_call_eq)
  with assms(2) have f: "tr_fatal r" by (auto simp: transport_to_dict_def split: option.splits if_splits)
  then obtain e where e: "tr_error r = Some e" using fatal_drops [of _ r] op r by blast
  have d: "dhas d ''error''" "dget d ''error'' = PStr e" using r e by (simp_all add: transport_to_dict_def)
  have "rt' = mark_transport_terminated (str_or (Some e) ''GDB transport failed'') (rt\<lparr>rt_transport := c'\<rparr>)"
    using assms(1) op r f e by (simp add: cr_call_eq)
  with d show ?thesis by (auto simp: has_controller_def str_or_def py_str_def)
qed

end

lemma alive_transport: "is_gdb_alive rt = (r, rt') \<Longrightarrow>
    (\<exists>b c. r = Inr b \<and> rt' = rt\<lparr>rt_transport := c\<rparr> \<and> same_client (rt_transport rt) c)"
  using is_alive_same by (auto simp: is_gdb_alive_def is_alive_def zoom_def split: prod.splits)

lemma live_ok_alive: "pres live_ok is_gdb_alive"
  unfolding pres_def
proof (intro allI impI)
  fix rt assume "live_ok rt"
  moreover obtain r rt' where a: "is_gdb_alive rt = (r, rt')" by (cases "is_gdb_alive rt")
  ultimately show "live_ok (snd (is_gdb_alive rt))"
    using alive_transport [OF a]
    by (auto simp: live_ok_def has_controller_def same_client_def exits_ok_def)
qed

lemma live_ok_frame: "frame_of rt' = frame_of rt \<Longrightarrow> live_ok rt \<Longrightarrow> live_ok rt'"
  by (simp add: frame_of_def live_ok_def has_controller_def)

lemma live_ok_transcript: "live_ok rt \<Longrightarrow> live_ok (record_command_transcript e rt)"
  by (simp add: live_ok_def has_controller_def record_command_transcript_def)

interpretation runtime_inv: command_invariant rt_ok
proof
  show "pres rt_ok is_gdb_alive"
    unfolding is_gdb_alive_def by (intro pres_zoom rt_ok_transport_update)
qed (auto intro: tracking_rt_ok rt_ok_transcript rt_ok_terminated rt_ok_call
    simp: cr_send_command_and_wait_for_prompt_def cr_interrupt_and_wait_for_stop_def cr_wait_for_stop_def)

lemma live_ok_send: "pres live_ok (cr_send_command_and_wait_for_prompt cmd t)"
  unfolding cr_send_command_and_wait_for_prompt_def by (rule send_op.live_ok_call)

interpretation live_inv: command_invariant live_ok
proof
  show "pres live_ok (cr_interrupt_and_wait_for_stop t)" for t
    unfolding cr_interrupt_and_wait_for_stop_def by (rule interrupt_op.live_ok_call)
  show "pres live_ok (cr_wait_for_stop t)" for t
    unfolding cr_wait_for_stop_def by (rule wait_op.live_ok_call)
qed (auto intro: tracking_frame live_ok_frame live_ok_transcript live_ok_terminated live_ok_alive live_ok_send)

interpretation transcript_inv: session_invariant
  "\<lambda>rt. rt_command_transcript rt = t \<and> rt_command_transcript_limit rt = l" for t l
proof
  show "tracking_step rt rt' \<Longrightarrow> rt_command_transcript rt = t \<and> rt_command_transcript_limit rt = l
      \<Longrightarrow> rt_command_transcript rt' = t \<and> rt_command_transcript_limit rt' = l" for rt rt'
    by (drule tracking_frame) (simp add: frame_of_def)
qed (simp_all add: cr_send_command_and_wait_for_prompt_def transcript_call)

section \<open>The transcript\<close>

text \<open>What the transcript says of a command, against the result it gave.\<close>

fun entry_for :: "string \<Rightarrow> 'a OperationResult \<Rightarrow> CommandTranscriptEntry \<Rightarrow> bool" where
  "entry_for command (Success v ws) e =
     (cte_command e = command \<and> cte_status e = ''success'' \<and> \<not> cte_fatal e)"
| "entry_for command (Failure oe) e =
     (cte_command e = command \<and> cte_status e \<in> {''error'', ''timeout''}
      \<and> cte_error e = Some (oe_message oe) \<and> cte_fatal e = oe_fatal oe
      \<and> oe_details oe = [(''command'', PStr command)])"

abbreviation transcript_is :: "CommandTranscriptEntry list \<Rightarrow> int \<Rightarrow> SessionRuntime \<Rightarrow> bool" where
  "transcript_is t l rt \<equiv> rt_command_transcript rt = t \<and> rt_command_transcript_limit rt = l"

abbreviation logged :: "CommandTranscriptEntry list \<Rightarrow> int \<Rightarrow> string \<Rightarrow> 'a OperationResult \<Rightarrow> SessionRuntime \<Rightarrow> bool" where
  "logged t l command res rt \<equiv>
     (\<exists>e. rt_command_transcript rt = trim_history (t @ [e]) l \<and> entry_for command res e)"

lemma pres_hoareD: "pres I m \<Longrightarrow> hoare I m (\<lambda>_. I) (\<lambda>_ _. True)"
  by (rule hoare_weaken [of I m "\<lambda>_. I" "\<lambda>_. I"]) (simp_all add: pres_hoare [symmetric])

lemma record_logged:
  assumes "\<And>e. cte_command e = command \<Longrightarrow> cte_status e = status \<Longrightarrow> cte_error e = err \<Longrightarrow>
      cte_fatal e = fatal \<Longrightarrow> entry_for command res e"
  shows "hoare (transcript_is t l)
    (thenE (cr_record_command_transcript command sent status p to fatal err) (ret res))
    (logged t l command) (\<lambda>_ _. True)"
  unfolding cr_record_command_transcript_def
  by (rule hoare_then [where R = "logged t l command res"];
      (rule hoare_modify | rule hoare_ret))
    (auto simp: record_command_transcript_def intro!: exI conjI assms)

lemma command_answer_logged:
  "hoare (transcript_is t l) (command_answer command actual cli timeout allow result)
     (logged t l command) (\<lambda>_ _. True)"
  unfolding command_answer_def Let_def
  by (intro hoare_if record_logged hoare_then [OF pres_hoareD [OF transcript_inv.pres_update_runtime]]
      hoare_bind [where R = "\<lambda>_. transcript_is t l"] hoare_gets)
    (simp_all add: command_error_def op_error_details_def op_success_def)

lemma execute_logged:
  assumes "execute_command_result command timeout allow rt = (Inr res, rt')" and "has_controller rt"
  shows "logged (rt_command_transcript rt) (rt_command_transcript_limit rt) command res rt'"
proof -
  let ?T = "transcript_is (rt_command_transcript rt) (rt_command_transcript_limit rt)"
  have alive: "hoare ?T is_gdb_alive (\<lambda>_. ?T) (\<lambda>_ _. True)"
    unfolding is_gdb_alive_def by (rule pres_hoareD, rule pres_zoom) simp
  have send: "hoare ?T (cr_send_command_and_wait_for_prompt c d) (\<lambda>_. ?T) (\<lambda>_ _. True)" for c d
    by (rule pres_hoareD, rule transcript_inv.send)
  have dead: "hoare ?T (handle_dead_transport m) (\<lambda>_. ?T) (\<lambda>_ _. True)" for m
    unfolding handle_dead_transport_def by (rule hoare_modify) simp
  have "hoare (\<lambda>s. ?T s \<and> has_controller s) (execute_command_result command timeout allow)
      (logged (rt_command_transcript rt) (rt_command_transcript_limit rt) command) (\<lambda>_ _. True)"
    unfolding execute_command_result_def Let_def
    apply (rule hoare_bind [where R = "\<lambda>has s. ?T s \<and> has"])
     apply (rule hoare_gets, simp)
    apply (rule hoare_if)
     apply (simp add: hoare_def)
    apply (rule hoare_weaken [where P' = ?T and E' = "\<lambda>_ _. True" and
        Q' = "logged (rt_command_transcript rt) (rt_command_transcript_limit rt) command"])
       apply (intro hoare_bind [OF alive] hoare_if hoare_then [OF dead] record_logged
        hoare_bind [OF send] command_answer_logged)
       apply (simp_all add: command_error_def op_error_details_def)
    done
  from hoare_retD [OF this _ assms(1)] assms(2) show ?thesis by simp
qed

section \<open>Fatal failures\<close>

lemma command_answer_fatal:
  assumes "command_answer command actual cli timeout allow result rt = (Inr (Failure e), rt')"
    and "oe_fatal e" and "\<And>v. dget_default result ''fatal'' v = (if dhas result ''fatal'' then PBool True else v)"
  shows "dhas result ''fatal'' \<and> dhas result ''error'' \<and> oe_message e = py_str (dget result ''error'')
     \<and> (\<exists>x. rt' = record_command_transcript x rt)"
  using assms
  by (auto simp: command_answer_def Let_def exec_defs command_error_def op_error_details_def
      op_success_def cr_record_command_transcript_def split: prod.splits sum.splits if_splits)

lemma transport_dict_fatal:
  "dget_default (transport_to_dict r) ''fatal'' v =
     (if dhas (transport_to_dict r) ''fatal'' then PBool True else v)"
  by (simp add: transport_to_dict_def split: option.splits)

lemma call_dict: "cr_call mi_op rt = (Inr d, rt') \<Longrightarrow> \<exists>r. d = transport_to_dict r"
  by (auto simp: cr_call_eq split: prod.splits sum.splits)

lemma execute_fatal:
  assumes "execute_command_result command timeout allow rt = (Inr (Failure e), rt')" and f: "oe_fatal e"
  shows "\<exists>s d rt1 x. cr_call (send_command_and_wait_for_prompt s (usec timeout)) rt1 = (Inr d, x)
     \<and> dhas d ''fatal'' \<and> oe_message e = py_str (dget d ''error'') \<and> (\<exists>y. rt' = record_command_transcript y x)"
proof -
  let ?s = "if is_cli_command command then wrap_cli_command command else command"
  obtain rt1 d x where c: "cr_send_command_and_wait_for_prompt ?s timeout rt1 = (Inr d, x)"
    and a: "command_answer command ?s (is_cli_command command) timeout allow d x = (Inr (Failure e), rt')"
  proof (cases "is_gdb_alive rt")
    fix r rt1
    assume al: "is_gdb_alive rt = (r, rt1)"
    then obtain b where b: "r = Inr b" using alive_transport by blast
    have hc: "has_controller rt"
      using assms by (auto simp: execute_command_result_def exec_defs op_error_def split: if_splits)
    have "b"
      using assms al b hc
      by (auto simp: execute_command_result_def exec_defs handle_dead_transport_def command_error_def
          op_error_details_def cr_record_command_transcript_def split: if_splits)
    with assms(1) al b hc
    have "bindE (cr_send_command_and_wait_for_prompt ?s timeout)
        (command_answer command ?s (is_cli_command command) timeout allow) rt1 = (Inr (Failure e), rt')"
      by (simp add: execute_command_result_def Let_def bindE_gets bindE_step [of is_gdb_alive])
    then show thesis by (rule bindE_InrE) (rule that)
  qed
  have "cr_call (send_command_and_wait_for_prompt ?s (usec timeout)) rt1 = (Inr d, x)"
    using c by (simp add: cr_send_command_and_wait_for_prompt_def)
  moreover from this obtain r where "d = transport_to_dict r" using call_dict by blast
  ultimately show ?thesis
    using command_answer_fatal [OF a f] transport_dict_fatal by blast
qed

section \<open>Stops\<close>

text \<open>The first stopped notification of an answer.\<close>

definition first_stop :: "MiNotifyRecord list \<Rightarrow> MiNotifyRecord option" where
  "first_stop ns = List.find (\<lambda>n. mn_message n = Some ''stopped'') ns"

text \<open>Commands whose text by itself says nothing about the state of an inferior.\<close>

definition plain_command :: "string \<Rightarrow> bool" where
  "plain_command command \<longleftrightarrow>
     (let n = lower (strip command) in
      \<not> loads_target n \<and> \<not> startswith n ''attach '' \<and> \<not> startswith n ''inferior '')"

lemma notify_step_vars:
  "fst (notify_step s n) =
     (if mn_message n = Some ''stopped'' \<and> \<not> nv_saw_stopped (fst s) then take_stopped (mn_payload n) (fst s)
      else (fst s)\<lparr>nv_topology_change := nv_topology_change (fst (notify_step s n))\<rparr>)"
  by (auto simp: notify_step_def Let_def split: prod.splits option.splits)

lemma take_stopped_topology:
  "take_stopped p (v\<lparr>nv_topology_change := b\<rparr>) = (take_stopped p v)\<lparr>nv_topology_change := b\<rparr>"
  by (simp add: take_stopped_def Let_def split: pyv.splits)

lemma take_stopped_saw [simp]: "nv_saw_stopped (take_stopped p v)"
  by (simp add: take_stopped_def Let_def split: pyv.splits)

lemma notifications_after_stop:
  "nv_saw_stopped (fst s) \<Longrightarrow> \<exists>b. fst (foldl notify_step s ns) = (fst s)\<lparr>nv_topology_change := b\<rparr>"
proof (induction ns arbitrary: s)
  case Nil
  have "fst s = (fst s)\<lparr>nv_topology_change := nv_topology_change (fst s)\<rparr>" by simp
  then show ?case by (metis foldl_Nil)
next
  case (Cons n ns)
  obtain b where b: "fst (notify_step s n) = (fst s)\<lparr>nv_topology_change := b\<rparr>"
    using notify_step_vars [of s n] Cons.prems by auto
  with Cons.prems have "nv_saw_stopped (fst (notify_step s n))" by simp
  from Cons.IH [OF this] b show ?case by auto
qed

lemma notifications_vars:
  "fst s = init_notify_vars\<lparr>nv_topology_change := b\<rparr> \<Longrightarrow>
   \<exists>b'. fst (foldl notify_step s ns) =
     (case first_stop ns of None \<Rightarrow> init_notify_vars
      | Some n \<Rightarrow> take_stopped (mn_payload n) init_notify_vars)\<lparr>nv_topology_change := b'\<rparr>"
proof (induction ns arbitrary: s b)
  case Nil
  then show ?case by (auto simp: first_stop_def)
next
  case (Cons n ns)
  have ns: "\<not> nv_saw_stopped (fst s)" using Cons.prems by (simp add: init_notify_vars_def)
  show ?case
  proof (cases "mn_message n = Some ''stopped''")
    case True
    with ns have v: "fst (notify_step s n) = (take_stopped (mn_payload n) init_notify_vars)\<lparr>nv_topology_change := b\<rparr>"
      using notify_step_vars [of s n] Cons.prems by (simp only: take_stopped_topology simp_thms if_True)
    then have "nv_saw_stopped (fst (notify_step s n))" by simp
    from notifications_after_stop [OF this, of ns] v True show ?thesis by (auto simp: first_stop_def)
  next
    case False
    then obtain b2 where "fst (notify_step s n) = init_notify_vars\<lparr>nv_topology_change := b2\<rparr>"
      using notify_step_vars [of s n] Cons.prems by auto
    from Cons.IH [OF this] False show ?thesis by (simp add: first_stop_def)
  qed
qed

lemma apply_command_plain:
  "plain_command command \<Longrightarrow>
     rt_last_stop_event (apply_command (lower (strip command)) p rt) = rt_last_stop_event rt
     \<and> rt_inferior_states (apply_command (lower (strip command)) p rt) = rt_inferior_states rt"
  by (simp add: plain_command_def Let_def apply_command_def clear_attached_pid_def
      mark_follow_fork_mode_def mark_detach_on_fork_def)

text \<open>The state a stop event gives its inferior, and the inferior it names.\<close>

definition event_state :: "StopEvent \<Rightarrow> InferiorRuntimeState" where
  "event_state ev = \<lparr>irs_execution_state = sev_execution_state ev, irs_stop_reason = sev_reason ev,
     irs_exit_code = (if sev_execution_state ev = Exited then sev_exit_code ev else None)\<rparr>"

definition event_inferior :: "StopEvent \<Rightarrow> int" where
  "event_inferior ev = (case sev_inferior_id ev of Some k \<Rightarrow> k | None \<Rightarrow> 1)"

lemma update_state_map:
  "map_of (rt_inferior_states (update_inferior_state i st rt))
     (case i of Some k \<Rightarrow> k | None \<Rightarrow> (case rt_current_inferior_id rt of Some k \<Rightarrow> k | None \<Rightarrow> 1)) = Some st"
  by (auto simp: update_inferior_state_def resolve_target_inferior_id_def Let_def update_conv'
      simp del: map_of_eq_Some_iff split: option.splits)

lemma build_stop_eventD:
  assumes "build_stop_event command p reason code i rt = (Inr ev, rt')"
  shows "rt' = rt" "sev_command ev = Some command" "sev_reason ev = reason" "sev_exit_code ev = code"
    "sev_inferior_id ev = i" "sev_execution_state ev = (if reason_exits reason then Exited else Paused)"
  using assms by (auto simp: build_stop_event_def Let_def split: sum.splits)

lemma record_stop_simps [simp]:
  "rt_last_stop_event (record_stop_event ev rt) = Some ev"
  "rt_inferior_states (record_stop_event ev rt) = rt_inferior_states rt"
  by (simp_all add: record_stop_event_def)

lemma apply_stop_effect:
  assumes "apply_stop command v rt = (Inr u, rt')"
  shows "\<exists>ev. rt_last_stop_event rt' = Some ev \<and> sev_command ev = Some command
     \<and> sev_reason ev = nv_stopped_reason v \<and> sev_exit_code ev = nv_exit_code v
     \<and> sev_execution_state ev = (if reason_exits (nv_stopped_reason v) then Exited else Paused)
     \<and> sev_inferior_id ev = (case nv_stopped_inferior_id v of None \<Rightarrow> rt_current_inferior_id rt | k \<Rightarrow> k)
     \<and> map_of (rt_inferior_states rt') (event_inferior ev) = Some (event_state ev)"
proof -
  define i where "i = (case nv_stopped_inferior_id v of None \<Rightarrow> rt_current_inferior_id rt | k \<Rightarrow> k)"
  define st where "st = \<lparr>irs_execution_state = (if reason_exits (nv_stopped_reason v) then Exited else Paused),
    irs_stop_reason = nv_stopped_reason v,
    irs_exit_code = (if reason_exits (nv_stopped_reason v) then nv_exit_code v else None)\<rparr>"
  have mk: "(if reason_exits (nv_stopped_reason v) then mark_inferior_exited (nv_stopped_reason v) (nv_exit_code v) i
      else mark_inferior_paused (nv_stopped_reason v) i) = update_inferior_state i st"
    by (simp add: st_def mark_inferior_defs)
  obtain x where x: "bindE (build_stop_event command (nv_stopped_payload v) (nv_stopped_reason v) (nv_exit_code v) i)
        (\<lambda>ev. modify (record_stop_event ev)) (update_inferior_state i st x) = (Inr u, rt')"
    and cur: "rt_current_inferior_id x = rt_current_inferior_id rt"
    using assms unfolding apply_stop_def bindE_gets thenE_modify i_def [symmetric] mk
    by (auto simp: mark_frame_selected_def mark_thread_selected_def split: option.splits)
  from x obtain ev rt2 where ev: "build_stop_event command (nv_stopped_payload v) (nv_stopped_reason v)
      (nv_exit_code v) i (update_inferior_state i st x) = (Inr ev, rt2)"
    and r: "rt' = record_stop_event ev rt2"
    by (auto simp: modify_def elim!: bindE_InrE)
  note e = build_stop_eventD [OF ev]
  have "event_inferior ev = (case i of Some k \<Rightarrow> k | None \<Rightarrow>
      (case rt_current_inferior_id x of Some k \<Rightarrow> k | None \<Rightarrow> 1))"
    using e(5) cur by (auto simp: event_inferior_def i_def split: option.splits)
  moreover have "event_state ev = st" using e by (simp add: event_state_def st_def)
  ultimately have "map_of (rt_inferior_states rt') (event_inferior ev) = Some (event_state ev)"
    using update_state_map [of i st x] e(1) r by simp
  with e r show ?thesis by (auto simp: i_def)
qed

section \<open>Properties\<close>

definition ready_sample :: "read_outcome list \<Rightarrow> SessionRuntime" where
  "ready_sample reads = mark_ready (new_runtime (sample_client reads))"

lemma ready_sample_ok: "rt_ok (ready_sample reads)" "live_ok (ready_sample reads)"
proof -
  show "rt_ok (ready_sample reads)" unfolding ready_sample_def by (intro rt_ok_intros rt_ok_new)
  show "live_ok (ready_sample reads)"
    by (simp add: ready_sample_def live_ok_def has_controller_def new_runtime_def sample_client_def
        exits_ok_def sample_world_def)
qed

text \<open>
  Executing any command, whatever the debugger answers and whether the operation
  returns or raises, keeps the session's invariants: the runtime stays well formed, and a
  session in state READY still has its controller (given that no \<open>controller.exit()\<close> raises).
\<close>

theorem execute_keeps_session:
  assumes "execute_command_result command timeout allow rt = (r, rt')"
    and "rt_ok rt" and "live_ok rt"
  shows "rt_ok rt' \<and> live_ok rt'"
  using presD [OF runtime_inv.pres_execute assms(2,1)] presD [OF live_inv.pres_execute assms(3,1)]
  by simp

theorem execute_keeps_session_witness:
  "rt_ok (snd (execute_command_result ''run'' 30 True (ready_sample [Records 5 [sample_result 1000 ''done'']])))"
  using execute_keeps_session [of "''run''" 30 True "ready_sample [Records 5 [sample_result 1000 ''done'']]"]
    ready_sample_ok by (metis prod.collapse)

text \<open>
  Every command is logged: when a command is executed on a session with a controller
  and the operation returns, exactly one entry is added at the end of the transcript (which
  is then cut to its limit). The entry names the command and agrees with the result: status
  success for a success; error or timeout, with the message and the fatal flag of the error,
  for a failure, and the failure's details name the command.
\<close>

theorem execute_logs_once:
  assumes "execute_command_result command timeout allow rt = (Inr res, rt')" and "has_controller rt"
  shows "\<exists>e. rt_command_transcript rt' =
       trim_history (rt_command_transcript rt @ [e]) (rt_command_transcript_limit rt)
     \<and> entry_for command res e"
  using execute_logged [OF assms] .

theorem execute_logs_once_witness:
  "\<exists>e. rt_command_transcript (snd (execute_command_result ''-gdb-version'' 30 False
       (ready_sample [Records 5 [sample_result 1000 ''done'']]))) = [e] \<and> cte_status e = ''success''"
proof -
  let ?rt = "ready_sample [Records 5 [sample_result 1000 ''done'']]"
  let ?x = "execute_command_result ''-gdb-version'' 30 False ?rt"
  have eval: "(case fst ?x of Inr (Success v ws) \<Rightarrow> True | _ \<Rightarrow> False)" "has_controller ?rt"
    "rt_command_transcript ?rt = []" "rt_command_transcript_limit ?rt = 200" by code_simp+
  then obtain v ws where "?x = (Inr (Success v ws), snd ?x)"
    by (cases ?x) (auto split: sum.splits OperationResult.splits)
  from execute_logs_once [OF this] eval show ?thesis by (auto simp: trim_history_def)
qed

text \<open>
  A stop is recorded as it was reported: when an answer carries a stopped notification
  and the runtime is updated from it, the session's last stop event describes the first such
  notification (its reason, its exit code, the inferior it names or else the selected one),
  the event's state is exited exactly for the exit reasons, and the inferior concerned is
  left in the state, stop reason and exit code that the event shows. This holds for every
  command whose own text does not also change an inferior (loading, attaching, selecting).
\<close>

theorem stop_recorded:
  assumes upd: "update_runtime_after_command command parsed rt = (Inr u, rt')"
    and stop: "first_stop (pm_notify parsed) = Some n" and payload: "mn_payload n = PDict d"
    and plain: "plain_command command"
  shows "\<exists>ev. rt_last_stop_event rt' = Some ev \<and> sev_command ev = Some command
     \<and> sev_reason ev = as_text (dget d ''reason'')
     \<and> sev_exit_code ev = parse_exit_code (dget d ''exit-code'')
     \<and> (sev_execution_state ev = Exited \<longleftrightarrow> reason_exits (sev_reason ev))
     \<and> (parse_inferior_id_from_thread_group (dget d ''thread-group'') \<noteq> None \<longrightarrow>
          sev_inferior_id ev = parse_inferior_id_from_thread_group (dget d ''thread-group''))
     \<and> map_of (rt_inferior_states rt') (event_inferior ev) = Some (event_state ev)"
proof -
  obtain v rt1 where v: "foldl notify_step (init_notify_vars, rt) (pm_notify parsed) = (v, rt1)" by fastforce
  obtain b where "v = (take_stopped (PDict d) init_notify_vars)\<lparr>nv_topology_change := b\<rparr>"
    using notifications_vars [of "(init_notify_vars, rt)" False "pm_notify parsed"] v stop payload
    by (auto simp: init_notify_vars_def)
  then have f: "nv_saw_stopped v" "nv_stopped_reason v = as_text (dget d ''reason'')"
    "nv_exit_code v = parse_exit_code (dget d ''exit-code'')"
    "nv_stopped_inferior_id v = parse_inferior_id_from_thread_group (dget d ''thread-group'')"
    by (simp_all add: take_stopped_def Let_def init_notify_vars_def as_text_def split: pyv.splits)
  obtain rt2 rt3 y where s: "apply_stop command v rt2 = (Inr y, rt3)"
    and r: "rt' = apply_command (lower (strip command)) parsed rt3"
    using upd f(1) v unfolding update_runtime_after_command_def
    by (auto simp: take_notifications_def modify_def elim!: bindE_InrE thenE_InrE)
  from apply_stop_effect [OF s] show ?thesis
    using apply_command_plain [OF plain] r f by (auto split: option.splits if_splits)
qed

definition sample_stop :: ParsedMiResponse where
  "sample_stop = empty_parsed\<lparr>pm_result_class := Some ''running'',
     pm_notify := [\<lparr>mn_message = Some ''stopped'', mn_payload = PDict
       [(''reason'', PStr ''exited''), (''exit-code'', PStr ''03''), (''thread-group'', PStr ''i2'')]\<rparr>]\<rparr>"

theorem stop_recorded_witness:
  "map_of (rt_inferior_states (snd (update_runtime_after_command ''continue'' sample_stop (ready_sample [])))) 2
   = Some \<lparr>irs_execution_state = Exited, irs_stop_reason = Some ''exited'', irs_exit_code = Some 3\<rparr>"
proof -
  let ?x = "update_runtime_after_command ''continue'' sample_stop (ready_sample [])"
  let ?d = "[(''reason'', PStr ''exited''), (''exit-code'', PStr ''03''), (''thread-group'', PStr ''i2'')]"
  have c: "(case fst ?x of Inr u \<Rightarrow> True | _ \<Rightarrow> False)" "plain_command ''continue''"
    "parse_inferior_id_from_thread_group (PStr ''i2'') = Some 2" "parse_exit_code (PStr ''03'') = Some 3"
    "reason_exits (Some ''exited'')" by code_simp+
  have st: "first_stop (pm_notify sample_stop) = Some \<lparr>mn_message = Some ''stopped'', mn_payload = PDict ?d\<rparr>"
    by (simp add: first_stop_def sample_stop_def)
  from c(1) have x: "?x = (Inr (), snd ?x)" by (cases ?x) (auto split: sum.splits)
  from stop_recorded [OF x st _ c(2), of ?d] c(3-5) show ?thesis
    by (auto simp: event_inferior_def event_state_def as_text_def simp del: map_of_eq_Some_iff)
qed

text \<open>
  C39. A fatal result and a failed session go together: when a command fails with the fatal
  flag, the session is in state FAILED, reports that it is not running, has no controller
  any more, and remembers the error's text as its last failure.
\<close>

theorem execute_fatal_fails_session:
  assumes "execute_command_result command timeout allow rt = (Inr (Failure e), rt')" and "oe_fatal e"
  shows "rt_state rt' = FAILED \<and> \<not> rt_is_running rt' \<and> \<not> has_controller rt'
     \<and> rt_last_failure_message rt' = Some (str_or (Some (oe_message e)) ''GDB transport failed'')"
proof -
  from execute_fatal [OF assms] obtain s d rt1 x y
    where c: "cr_call (send_command_and_wait_for_prompt s (usec timeout)) rt1 = (Inr d, x)"
      and d: "dhas d ''fatal''" "oe_message e = py_str (dget d ''error'')"
      and r: "rt' = record_command_transcript y x" by blast
  from send_op.call_fatal [OF c d(1)] d(2) show ?thesis
    by (simp add: r record_command_transcript_def has_controller_def)
qed

theorem execute_fatal_fails_session_witness:
  "rt_last_failure_message (snd (execute_command_result ''run'' 30 False
      (ready_sample [ReadRaises 5 (Exn OSError ''pipe closed'')]))) = Some ''Communication error: pipe closed''"
proof -
  let ?x = "execute_command_result ''run'' 30 False (ready_sample [ReadRaises 5 (Exn OSError ''pipe closed'')])"
  have eval: "(case fst ?x of Inr (Failure e) \<Rightarrow> oe_fatal e \<and> oe_message e = ''Communication error: pipe closed'' | _ \<Rightarrow> False)"
    by code_simp
  then obtain e where e: "?x = (Inr (Failure e), snd ?x)" "oe_fatal e" "oe_message e = ''Communication error: pipe closed''"
    by (cases ?x) (auto split: sum.splits OperationResult.splits)
  from execute_fatal_fails_session [OF e(1,2)] e(3) show ?thesis by (simp add: str_or_def)
qed

end
