(* ===== verification/Execution_Correct.thy ===== *)
theory Execution_Correct
  imports Execution Command_Runner_Correct
begin

text \<open>Properties of execution control.\<close>

section \<open>Invariants\<close>

lemma pres_case_result [pres_intros]:
  "(\<And>v ws. pres I (a v ws)) \<Longrightarrow> (\<And>e. pres I (b e)) \<Longrightarrow>
     pres I (case r of Success v ws \<Rightarrow> a v ws | Failure e \<Rightarrow> b e)"
  by (cases r) auto

lemma pres_on_success [pres_intros]:
  "pres I m \<Longrightarrow> (\<And>v. pres I (f v)) \<Longrightarrow> pres I (on_success m f)"
  unfolding on_success_def by (intro pres_intros)

context command_invariant
begin

lemma pres_log_entry [pres_intros]: "pres invar (log_entry cmd sent status c to fatal err)"
  unfolding log_entry_def by (intro pres_modify transcript)

lemma pres_with_live_gdb [pres_intros]: "pres invar m \<Longrightarrow> pres invar (with_live_gdb m)"
  unfolding with_live_gdb_def by (intro pres_intros)

lemma pres_run: "pres invar (run_program args t w)"
  unfolding run_program_def Let_def by (intro pres_intros)

lemma pres_attach: "pres invar (attach_process pid t)"
  unfolding attach_process_def by (intro pres_intros)

lemma pres_continue: "pres invar (continue_execution w t back)"
  unfolding continue_execution_def by (intro pres_intros)

lemma pres_step_next:
  "pres invar (step_line w t back)" "pres invar (next_line w t back)" "pres invar (finish_frame t w back)"
  unfolding step_line_def next_line_def finish_frame_def by (intro pres_intros)+

lemma pres_report_stop [pres_intros]: "pres invar (report_stop src rs)"
  unfolding report_stop_def by (intro pres_intros)

lemma pres_wait: "pres invar (wait_for_stop t rs)"
  unfolding wait_for_stop_def wait_while_running_def by (intro pres_intros)

lemma pres_interrupt: "pres invar interrupt_program"
  unfolding interrupt_program_def interrupt_process_def Let_def
  by (intro pres_intros pres_track tracking_step.intros)

lemma pres_call: "pres invar (call_function f t)"
  unfolding call_function_def Let_def by (intro pres_intros send)

lemma pres_fork_settings: "pres invar (set_follow_fork_mode m)" "pres invar (set_detach_on_fork b)"
  unfolding set_follow_fork_mode_def set_detach_on_fork_def
  by (intro pres_intros pres_track tracking_step.intros)+

lemma pres_refresh_inventory [pres_intros]: "pres invar refresh_inferior_inventory"
  unfolding refresh_inferior_inventory_def Let_def
  by (intro pres_intros pres_track tracking_step.intros)

lemma pres_add: "pres invar (add_inferior exe cur)"
  unfolding add_inferior_def select_command_def Let_def
  by (intro pres_intros pres_track tracking_step.intros)

lemma pres_remove: "pres invar (exec_remove_inferior i)"
  unfolding exec_remove_inferior_def by (intro pres_intros)

lemmas pres_operations = pres_execute pres_run pres_attach pres_continue pres_step_next pres_wait
  pres_interrupt pres_call pres_fork_settings pres_add pres_remove

end

definition session_ok :: "SessionRuntime \<Rightarrow> bool" where
  "session_ok rt \<longleftrightarrow> rt_ok rt \<and> live_ok rt"

lemma pres_session_ok: "pres rt_ok m \<Longrightarrow> pres live_ok m \<Longrightarrow> pres session_ok m"
  by (simp add: session_ok_def pres_def)

section \<open>Guards\<close>

lemma execute_no_controller:
  "\<not> has_controller rt \<Longrightarrow> execute_command_result c t a rt = (Inr (op_error ''No active GDB session''), rt)"
  by (simp add: execute_command_result_def exec_defs)

lemma on_success_failure: "m rt = (Inr (Failure e), rt') \<Longrightarrow> on_success m f rt = (Inr (Failure e), rt')"
  by (simp add: on_success_def exec_defs)

lemma on_success_no_controller:
  "\<not> has_controller rt \<Longrightarrow>
     on_success (execute_command_result c t a) f rt = (Inr (op_error ''No active GDB session''), rt)"
  by (simp add: on_success_failure execute_no_controller op_error_def)

lemma with_live_no_controller:
  "\<not> has_controller rt \<Longrightarrow> with_live_gdb m rt = (Inr (op_error ''No active GDB session''), rt)"
  by (simp add: with_live_gdb_def exec_defs)

lemmas no_controller = execute_no_controller on_success_no_controller with_live_no_controller

section \<open>Properties\<close>

text \<open>
  Without a controller every operation reports that there is no active session and
  changes nothing.
\<close>

theorem operations_need_controller:
  assumes "\<not> has_controller rt"
  shows "execute_command_result c t a rt = (Inr (op_error ''No active GDB session''), rt)
   \<and> run_program args t w rt = (Inr (op_error ''No active GDB session''), rt)
   \<and> attach_process pid t rt = (Inr (op_error ''No active GDB session''), rt)
   \<and> continue_execution w t back rt = (Inr (op_error ''No active GDB session''), rt)
   \<and> step_line w t back rt = (Inr (op_error ''No active GDB session''), rt)
   \<and> next_line w t back rt = (Inr (op_error ''No active GDB session''), rt)
   \<and> finish_frame t w back rt = (Inr (op_error ''No active GDB session''), rt)
   \<and> wait_for_stop t rs rt = (Inr (op_error ''No active GDB session''), rt)
   \<and> interrupt_program rt = (Inr (op_error ''No active GDB session''), rt)
   \<and> call_function f t rt = (Inr (op_error ''No active GDB session''), rt)
   \<and> set_follow_fork_mode m rt = (Inr (op_error ''No active GDB session''), rt)
   \<and> set_detach_on_fork b rt = (Inr (op_error ''No active GDB session''), rt)
   \<and> add_inferior exe cur rt = (Inr (op_error ''No active GDB session''), rt)
   \<and> exec_remove_inferior i rt = (Inr (op_error ''No active GDB session''), rt)"
  using assms
  by (simp add: no_controller run_program_def attach_process_def continue_execution_def
      step_line_def next_line_def finish_frame_def wait_for_stop_def interrupt_program_def
      call_function_def set_follow_fork_mode_def set_detach_on_fork_def add_inferior_def
      exec_remove_inferior_def bindE_gets ret_def)

theorem operations_need_controller_witness:
  "add_inferior None True (mark_transport_terminated ''gone'' (ready_sample [])) =
     (Inr (op_error ''No active GDB session''), mark_transport_terminated ''gone'' (ready_sample []))"
  using operations_need_controller [of "mark_transport_terminated ''gone'' (ready_sample [])"]
  by (simp add: has_controller_def)

section \<open>Commands and what they leave behind\<close>

text \<open>A success that is not a running time-out ends with the command's own effect and its
  transcript entry.\<close>

lemma command_answer_success:
  assumes "command_answer c actual cli t False result rt = (Inr (Success v ws), rt')"
  shows "\<exists>rt2 p y. \<not> is_error_result p \<and> rt' = record_command_transcript y (apply_command (lower (strip c)) p rt2)"
proof -
  let ?p = "parse_command_result result"
  have "\<not> dhas result ''error'' \<and> \<not> truthy (dget result ''timed_out'') \<and> \<not> is_error_result ?p"
    using assms
    by (auto simp: command_answer_def Let_def command_error_def op_error_details_def exec_defs
        split: if_splits prod.splits sum.splits)
  then have p: "\<not> dhas result ''error''" "\<not> truthy (dget result ''timed_out'')" "\<not> is_error_result ?p"
    by simp_all
  from assms obtain rt1 u y where u: "update_runtime_after_command c ?p rt = (Inr u, rt1)"
    and r: "rt' = record_command_transcript y rt1"
    unfolding command_answer_def Let_def if_not_P [OF p(1)] if_not_P [OF p(2)] if_not_P [OF p(3)]
    by (auto simp: cr_record_command_transcript_def modify_def ret_def elim!: thenE_InrE)
  from u have "\<exists>rt2. rt1 = apply_command (lower (strip c)) ?p rt2"
    unfolding update_runtime_after_command_def by (auto simp: modify_def elim!: bindE_InrE thenE_InrE)
  with r p(3) show ?thesis by blast
qed

lemma execute_success:
  assumes "execute_command_result c t False rt = (Inr (Success v ws), rt')"
  shows "\<exists>rt2 p y. \<not> is_error_result p \<and> rt' = record_command_transcript y (apply_command (lower (strip c)) p rt2)"
proof -
  obtain x s1 where "command_answer c (if is_cli_command c then wrap_cli_command c else c)
      (is_cli_command c) t False x s1 = (Inr (Success v ws), rt')"
    using assms unfolding execute_command_result_def Let_def
    by (auto simp: op_error_def command_error_def op_error_details_def ret_def
        split: if_splits elim!: bindE_InrE thenE_InrE)
  then show ?thesis by (rule command_answer_success)
qed

lemma lower_word_number:
  assumes "w \<noteq> []" "list_all (\<lambda>c. \<not> is_space c \<and> to_lower c = c) w" "isdigit d"
  shows "lower (strip (w @ '' '' @ d)) = w @ '' '' @ d" "split_ws1 (w @ '' '' @ d) = [w, d]"
proof -
  have d: "d \<noteq> []" "list_all is_digit d" "strip d = d" "lower d = d"
    using assms(3) strip_digits lower_digits by (auto simp: isdigit_def)
  have hd: "\<not> is_space (hd w)" and hd_d: "\<not> is_space (hd d)" and last: "\<not> is_space (last d)"
    using assms(1,2) d digits_not_space [OF assms(3)] by (simp_all add: list_all_iff)
  have "strip (w @ '' '' @ d) = w @ '' '' @ d"
    using assms(1) d(1) hd last by (intro strip_id) simp_all
  moreover have "lower w = w" using assms(2) by (induction w) simp_all
  moreover have "to_lower (CHR '' '') = CHR '' ''" by code_simp
  ultimately show "lower (strip (w @ '' '' @ d)) = w @ '' '' @ d" using d(4) by simp
  have "lstrip (w @ '' '' @ d) = w @ '' '' @ d" using assms(1) hd by (simp add: lstrip_id)
  moreover have "takeWhile (\<lambda>c. \<not> is_space c) (w @ '' '' @ d) = w"
    "dropWhile (\<lambda>c. \<not> is_space c) (w @ '' '' @ d) = '' '' @ d"
    using assms(2) by (simp_all add: list_all_iff)
  moreover have "lstrip ('' '' @ d) = d" using d(1) hd_d by (simp add: lstrip_def) (simp add: lstrip_id [unfolded lstrip_def])
  ultimately show "split_ws1 (w @ '' '' @ d) = [w, d]"
    using d(1) by (simp add: split_ws1_def)
qed

lemma attach_text:
  assumes "0 \<le> pid"
  shows "lower (strip (''attach '' @ show_int pid)) = ''attach '' @ show_int pid"
    and "parse_attached_pid (''attach '' @ show_int pid) = Some pid"
proof -
  have d: "isdigit (show_int pid)" using assms by (rule isdigit_show_int)
  have w: "list_all (\<lambda>c. \<not> is_space c \<and> to_lower c = c) ''attach''" by code_simp
  note f = lower_word_number [OF _ w d, simplified]
  show "lower (strip (''attach '' @ show_int pid)) = ''attach '' @ show_int pid" using f(1) by simp
  show "parse_attached_pid (''attach '' @ show_int pid) = Some pid"
    using f(2) d assms by (simp add: parse_attached_pid_def strip_digits nat_of_digits_show_int)
qed

lemma inferior_text:
  assumes "0 \<le> i"
  shows "lower (strip (''inferior '' @ show_int i)) = ''inferior '' @ show_int i"
    and "parse_inferior_id (''inferior '' @ show_int i) = Some i"
proof -
  have d: "isdigit (show_int i)" using assms by (rule isdigit_show_int)
  have w: "list_all (\<lambda>c. \<not> is_space c \<and> to_lower c = c) ''inferior''" by code_simp
  note f = lower_word_number [OF _ w d, simplified]
  show "lower (strip (''inferior '' @ show_int i)) = ''inferior '' @ show_int i" using f(1) by simp
  show "parse_inferior_id (''inferior '' @ show_int i) = Some i"
    using f(2) d assms by (simp add: parse_inferior_id_def strip_digits nat_of_digits_show_int)
qed

lemma update_state_fields [simp]:
  "rt_attached_pid (update_inferior_state i st rt) = rt_attached_pid rt"
  "rt_target_loaded (update_inferior_state i st rt) = rt_target_loaded rt"
  by (simp_all add: update_inferior_state_def resolve_target_inferior_id_def bump_inferior_count_def
      mirror_def Let_def split: option.splits)

lemma apply_attach:
  assumes "0 \<le> pid" "\<not> is_error_result p"
  shows "rt_attached_pid (apply_command (''attach '' @ show_int pid) p rt) = Some pid
     \<and> rt_target_loaded (apply_command (''attach '' @ show_int pid) p rt)"
  using assms attach_text(2) [OF assms(1)]
  by (simp add: apply_command_def loads_target_def mark_attached_def mark_inferior_paused_def Let_def)

lemma sync_selection [simp]:
  "rt_current_inferior_id (synchronize_selected_state rt) = rt_current_inferior_id rt"
  "rt_current_thread_id (synchronize_selected_state rt) = rt_current_thread_id rt"
  "rt_current_frame (synchronize_selected_state rt) = rt_current_frame rt"
  by (simp_all add: synchronize_selected_state_def mirror_def split: option.splits)

lemma ensure_selection [simp]:
  "rt_current_inferior_id (ensure_inferior i rt) = rt_current_inferior_id rt"
  "rt_current_thread_id (ensure_inferior i rt) = rt_current_thread_id rt"
  "rt_current_frame (ensure_inferior i rt) = rt_current_frame rt"
  by (simp_all add: ensure_inferior_def bump_inferior_count_def Let_def split: option.splits)

lemma apply_select:
  assumes "0 \<le> i" "\<not> is_error_result p"
  shows "apply_command (''inferior '' @ show_int i) p rt = mark_inferior_selected (Some i) rt"
  using assms inferior_text(2) [OF assms(1)] by (simp add: apply_command_def loads_target_def)

section \<open>Further properties\<close>

text \<open>
  A command that an operation prints is understood when its effect is tracked: after a
  successful attach to a process the session shows that process id and a loaded target, and
  after a successful selection of an inferior that inferior is the selected one, with no
  thread and no frame selected. Process and inferior numbers are not negative.
\<close>

theorem attach_and_select_tracked:
  assumes "0 \<le> n"
  shows "(\<forall>v ws rt'. attach_process n t rt = (Inr (Success v ws), rt') \<longrightarrow>
            rt_attached_pid rt' = Some n \<and> rt_target_loaded rt')
     \<and> (\<forall>v ws rt'. select_command n rt = (Inr (Success v ws), rt') \<longrightarrow>
            rt_current_inferior_id rt' = Some n \<and> rt_current_thread_id rt' = None
            \<and> rt_current_frame rt' = None)"
proof (intro conjI allI impI)
  fix v ws rt'
  assume "attach_process n t rt = (Inr (Success v ws), rt')"
  then have "execute_command_result (''attach '' @ show_int n) t False rt = (Inr (Success v ws), rt')"
    by (auto simp: attach_process_def bindE_gets ret_def op_error_def split: if_splits)
  from execute_success [OF this] obtain rt2 p y where
    "\<not> is_error_result p" "rt' = record_command_transcript y (apply_command (''attach '' @ show_int n) p rt2)"
    using attach_text(1) [OF assms] by auto
  then show "rt_attached_pid rt' = Some n" "rt_target_loaded rt'"
    using apply_attach [OF assms] by (simp_all add: record_command_transcript_def)
next
  fix v ws rt'
  assume "select_command n rt = (Inr (Success v ws), rt')"
  from execute_success [OF this [unfolded select_command_def]] obtain rt2 p y where
    "\<not> is_error_result p" "rt' = record_command_transcript y (apply_command (''inferior '' @ show_int n) p rt2)"
    using inferior_text(1) [OF assms] by auto
  then show "rt_current_inferior_id rt' = Some n" "rt_current_thread_id rt' = None"
    "rt_current_frame rt' = None"
    using apply_select [OF assms]
    by (simp_all add: record_command_transcript_def mark_inferior_selected_def Let_def)
qed

theorem attach_and_select_tracked_witness:
  "rt_attached_pid (snd (attach_process 4242 30 (ready_sample [Records 5 [sample_result 1000 ''done'']]))) = Some 4242"
proof -
  let ?x = "attach_process 4242 30 (ready_sample [Records 5 [sample_result 1000 ''done'']])"
  have "(case fst ?x of Inr (Success v ws) \<Rightarrow> True | _ \<Rightarrow> False)" by code_simp
  then obtain v ws where "?x = (Inr (Success v ws), snd ?x)"
    by (cases ?x) (auto split: sum.splits OperationResult.splits)
  with attach_and_select_tracked [of 4242 30 "ready_sample [Records 5 [sample_result 1000 ''done'']]"]
  show ?thesis by simp
qed

lemma with_live_success:
  assumes "with_live_gdb m rt = (Inr (Success v ws), rt')"
  shows "\<exists>c. m (rt\<lparr>rt_transport := c\<rparr>) = (Inr (Success v ws), rt')"
  using assms unfolding with_live_gdb_def bindE_gets
  by (auto simp: op_error_def ret_def split: if_splits elim!: bindE_InrE thenE_InrE dest!: alive_transport)

lemma log_entry_fields:
  assumes "log_entry c sent status k to fatal err s = (r, s')"
  shows "rt_execution_state s' = rt_execution_state s \<and> rt_stop_reason s' = rt_stop_reason s
     \<and> rt_last_stop_event s' = rt_last_stop_event s"
  using assms by (auto simp: log_entry_def modify_def record_command_transcript_def)

lemma report_stop_success:
  assumes "report_stop src reasons s = (Inr (Success info ws), s')"
  shows "info = wait_info (reason_matches reasons (rt_stop_reason s')) False src reasons s'
     \<and> rt_execution_state s' = rt_execution_state s \<and> rt_stop_reason s' = rt_stop_reason s"
  using assms unfolding report_stop_def bindE_gets
  by (auto simp: gets_def op_success_def elim!: thenE_InrE dest!: log_entry_fields)

lemma wait_while_running_success:
  assumes "wait_while_running t reasons s = (Inr (Success info ws), s')"
  shows "info = wait_info False True ''waited'' reasons s'
     \<or> info = wait_info (reason_matches reasons (rt_stop_reason s')) False ''waited'' reasons s'"
  using assms unfolding wait_while_running_def
  by (auto simp: op_error_def op_success_def ret_def gets_def split: if_splits
      elim!: bindE_InrE thenE_InrE dest!: report_stop_success)

text \<open>
  Waiting reports the state it leaves: when \<open>wait_for_stop\<close> succeeds, the execution state,
  stop reason and last stop event it reports are those of the session afterwards, and it
  reports a match exactly when it did not time out and the stop reason passes the filter. A
  session that was not running is reported as it was, without waiting.
\<close>

theorem wait_reports_session:
  assumes "wait_for_stop t reasons rt = (Inr (Success info ws), rt')"
  shows "wsi_execution_state info = Some (rt_execution_state rt') \<and> wsi_stop_reason info = rt_stop_reason rt'
     \<and> wsi_last_stop_event info = rt_last_stop_event rt'
     \<and> (wsi_matched info \<longleftrightarrow> \<not> wsi_timed_out info \<and> reason_matches reasons (rt_stop_reason rt'))
     \<and> (rt_execution_state rt \<noteq> Running \<longrightarrow>
          wsi_source info = ''existing'' \<and> \<not> wsi_timed_out info
          \<and> rt_stop_reason rt' = rt_stop_reason rt \<and> rt_execution_state rt' = rt_execution_state rt)"
proof -
  obtain c where "(if rt_execution_state rt \<noteq> Running then report_stop ''existing'' reasons
      else wait_while_running t reasons) (rt\<lparr>rt_transport := c\<rparr>) = (Inr (Success info ws), rt')"
    using with_live_success [OF assms [unfolded wait_for_stop_def]] by (auto simp: bindE_gets)
  moreover define s1 where "s1 = rt\<lparr>rt_transport := c\<rparr>"
  ultimately have body: "(if rt_execution_state rt \<noteq> Running then report_stop ''existing'' reasons
      else wait_while_running t reasons) s1 = (Inr (Success info ws), rt')"
    and s1: "rt_execution_state s1 = rt_execution_state rt" "rt_stop_reason s1 = rt_stop_reason rt"
    by simp_all
  show ?thesis
  proof (cases "rt_execution_state rt = Running")
    case False
    with body have "report_stop ''existing'' reasons s1 = (Inr (Success info ws), rt')" by simp
    from report_stop_success [OF this] False s1 show ?thesis by (simp add: wait_info_def)
  next
    case True
    with body have "wait_while_running t reasons s1 = (Inr (Success info ws), rt')" by simp
    from wait_while_running_success [OF this] True s1 show ?thesis by (auto simp: wait_info_def)
  qed
qed

theorem wait_reports_session_witness:
  "wsi_source (case fst (wait_for_stop 30 [''breakpoint-hit''] (ready_sample [])) of
      Inr (Success info ws) \<Rightarrow> info) = ''existing''"
proof -
  let ?x = "wait_for_stop 30 [''breakpoint-hit''] (ready_sample [])"
  have e: "(case fst ?x of Inr (Success v ws) \<Rightarrow> True | _ \<Rightarrow> False)"
    "rt_execution_state (ready_sample []) \<noteq> Running" by code_simp+
  from e(1) obtain v ws where "?x = (Inr (Success v ws), snd ?x)"
    by (cases ?x) (auto split: sum.splits OperationResult.splits)
  from wait_reports_session [OF this] e(2) this show ?thesis by (cases ?x) simp
qed

text \<open>
  An interrupt that is answered by the end of the program is reported as a pause: after
  every interrupt that reports success the selected inferior is shown as paused with the
  first reported stop reason and no exit code, even when that reason says that it has
  exited and the recorded stop event says so too. (The code marks the inferior paused after
  it has already applied the notification.)
\<close>

theorem interrupt_shows_paused:
  assumes "interrupt_program rt = (Inr (Success m ws), rt')" and "msr_status m = ''success''"
  shows "rt_execution_state rt' = Paused \<and> rt_exit_code rt' = None"
proof -
  have mark: "rt_execution_state (mark_inferior_paused r None s) = Paused
      \<and> rt_exit_code (mark_inferior_paused r None s) = None" for r s
    by (auto simp: mark_inferior_paused_def update_inferior_state_def resolve_target_inferior_id_def
        bump_inferior_count_def Let_def mirror_def split: option.splits)
  have log: "rt_execution_state (record_command_transcript e s) = rt_execution_state s"
    "rt_exit_code (record_command_transcript e s) = rt_exit_code s" for e s
    by (simp_all add: record_command_transcript_def)
  obtain s where "interrupt_process s = (Inr (Success m ws), rt')"
    using with_live_success [OF assms(1) [unfolded interrupt_program_def]]
    by (auto simp: bindE_gets op_error_def ret_def split: option.split_asm if_split_asm)
  then show ?thesis
    using assms(2) unfolding interrupt_process_def Let_def
    by (auto simp: op_error_def op_success_def ret_def log_entry_def modify_def log mark
        split: if_split_asm elim!: bindE_InrE thenE_InrE)
qed

definition exit_notice :: MiRecord where
  "exit_notice = [(''type'', PStr ''notify''), (''message'', PStr ''stopped''), (''token'', PNone),
     (''payload'', PDict [(''reason'', PStr ''exited''), (''exit-code'', PStr ''01'')])]"

theorem interrupt_shows_paused_witness:
  "(let rt' = snd (interrupt_program (ready_sample [Records 5 [exit_notice]])) in
    rt_execution_state rt' = Paused \<and> rt_exit_code rt' = None
    \<and> map_option sev_execution_state (rt_last_stop_event rt') = Some Exited)"
proof -
  let ?x = "interrupt_program (ready_sample [Records 5 [exit_notice]])"
  have e: "(case fst ?x of Inr (Success m ws) \<Rightarrow> msr_status m = ''success'' | _ \<Rightarrow> False)"
    "map_option sev_execution_state (rt_last_stop_event (snd ?x)) = Some Exited" by code_simp+
  from e(1) obtain m ws where "?x = (Inr (Success m ws), snd ?x)" "msr_status m = ''success''"
    by (cases ?x) (auto split: sum.splits OperationResult.splits)
  from interrupt_shows_paused [OF this] e(2) show ?thesis by (simp add: Let_def)
qed

end
