(* ===== verification/Breakpoints_Correct.thy ===== *)
theory Breakpoints_Correct
  imports Breakpoints Execution_Correct
begin

text \<open>Properties of the breakpoint operations.\<close>

section \<open>Invariants\<close>

context command_invariant
begin

lemma pres_run_default [pres_intros]: "pres invar (run_default cmd)"
  unfolding run_default_def by (intro pres_intros)

lemma pres_list_breakpoints [pres_intros]: "pres invar list_breakpoints"
  unfolding list_breakpoints_def by (intro pres_intros)

lemma pres_info_for_number [pres_intros]: "pres invar (breakpoint_info_for_number n d)"
  unfolding breakpoint_info_for_number_def by (intro pres_intros)

lemma pres_raw_result_error [pres_intros]: "pres invar (raw_result_error m v)"
  unfolding raw_result_error_def by (intro pres_intros)

lemma pres_catchpoint_numbers [pres_intros]: "pres invar catchpoint_numbers"
  unfolding catchpoint_numbers_def by (intro pres_intros)

lemma pres_get_breakpoint: "pres invar (get_breakpoint n)"
  unfolding get_breakpoint_def by (intro pres_intros)

lemma pres_numbered:
  "pres invar (delete_watchpoint n)" "pres invar (delete_breakpoint n)"
  "pres invar (enable_breakpoint n)" "pres invar (disable_breakpoint n)"
  unfolding delete_watchpoint_def delete_breakpoint_def enable_breakpoint_def
    disable_breakpoint_def numbered_command_def
  by (intro pres_intros)+

lemma pres_update_breakpoint: "pres invar (update_breakpoint n c clear)"
  unfolding update_breakpoint_def by (intro pres_intros)

lemma pres_set_breakpoint: "pres invar (set_breakpoint l c t)"
  unfolding set_breakpoint_def attribute_insert_failure_def attribute_from_records_def Let_def
  by (intro pres_intros)

lemma pres_set_watchpoint: "pres invar (set_watchpoint e a)"
  unfolding set_watchpoint_def Let_def by (intro pres_intros)

lemma pres_set_catchpoint: "pres invar (set_catchpoint k a t)"
  unfolding set_catchpoint_def infer_new_catchpoint_number_def Let_def by (intro pres_intros)

lemmas pres_breakpoints = pres_list_breakpoints pres_get_breakpoint pres_numbered
  pres_update_breakpoint pres_set_breakpoint pres_set_watchpoint pres_set_catchpoint

end

section \<open>Confirmed records\<close>

lemma on_success_SuccessE:
  assumes "on_success m f rt = (Inr (Success v ws), rt')"
  obtains u us rt1 where "m rt = (Inr (Success u us), rt1)" "f u rt1 = (Inr (Success v ws), rt')"
proof -
  obtain r rt1 where r: "m rt = (Inr r, rt1)"
    "(case r of Success v ws \<Rightarrow> f v | Failure e \<Rightarrow> ret (Failure e)) rt1 = (Inr (Success v ws), rt')"
    using assms unfolding on_success_def by (rule bindE_InrE)
  show thesis
  proof (cases r)
    case (Success u us)
    with r that show ?thesis by simp
  next
    case (Failure e)
    with r show ?thesis by (simp add: ret_def)
  qed
qed

lemma find_record_number:
  "find_breakpoint_record bs n = Some b \<Longrightarrow> breakpoint_number_of (PDict b) = Some n \<and> b \<in> set bs"
  unfolding find_breakpoint_record_def by (auto simp: find_Some_iff)

lemma info_for_number_success:
  assumes "breakpoint_info_for_number n d rt = (Inr (Success i ws), rt')"
  shows "breakpoint_number_of (PDict (bpi_breakpoint i)) = Some n"
  using assms unfolding breakpoint_info_for_number_def
  by (auto elim!: bindE_InrE simp: ret_def op_error_details_def op_success_def
      split: OperationResult.splits option.splits dest!: find_record_number)

lemma infer_new_catchpoint:
  assumes "infer_new_catchpoint_number (Some known) rt = (Inr (Some n), rt')"
  shows "n \<notin> known"
proof -
  from assms obtain numbers where n: "sorted_list_of_set (numbers - known) \<noteq> []"
    "n = last (sorted_list_of_set (numbers - known))"
    unfolding infer_new_catchpoint_number_def Let_def
    by (auto elim!: bindE_InrE simp: ret_def split: option.splits if_splits)
  then have "finite (numbers - known)" by (metis sorted_list_of_set.fold_insort_key.infinite)
  with n show ?thesis by (metis DiffD2 last_in_set set_sorted_list_of_set)
qed

section \<open>Refused insertions\<close>

lemma from_sum_InrD: "from_sum r rt = (Inr x, rt') \<Longrightarrow> r = Inr x \<and> rt' = rt"
  by (simp add: from_sum_def)

lemma payload_list_numbers [simp]: "payload_list (map PInt ns) = Inr (map PInt ns)"
  by (induction ns) simp_all

definition blames :: "string \<Rightarrow> OperationError \<Rightarrow> OperationError \<Rightarrow> bool" where
  "blames location e f \<longleftrightarrow>
     oe_code f = ''breakpoint_insert_blocked''
     \<and> dget (oe_details f) ''requested_location'' = PStr location
     \<and> dget (oe_details f) ''raw_error'' = PStr (oe_message e)
     \<and> dget (oe_details f) ''blocked_breakpoint_numbers''
         = PList (map PInt (blocked_breakpoint_numbers (oe_message e)))"

lemma attribute_from_records_outcome:
  assumes "attribute_from_records location e ns records rt = (Inr r, rt')"
    and "ns = blocked_breakpoint_numbers (oe_message e)"
  shows "case r of
      Success i ws \<Rightarrow> find_breakpoint_for_location records location = Some (bpi_breakpoint i)
        \<and> (\<forall>n. breakpoint_number_of (PDict (bpi_breakpoint i)) = Some n \<longrightarrow> n \<notin> set ns)
        \<and> length ws = 1
    | Failure f \<Rightarrow> blames location e f"
  using assms(1) unfolding attribute_from_records_def Let_def
  by (auto elim!: bindE_InrE dest!: from_sum_InrD
      simp: ret_def coded_error_def blames_def dget_dset assms(2)
        find_breakpoint_for_location_def at_location_def
      split: option.splits if_splits dest: find_Some_iff [THEN iffD1])


section \<open>GDB's report of blocked breakpoints\<close>

text \<open>A report as GDB prints it: a heading, and for every breakpoint a line with its number and a
  line with the cause.\<close>

definition print_blocked :: "nat \<times> string \<Rightarrow> string" where
  "print_blocked p = ''Cannot insert breakpoint '' @ show_nat (fst p) @ ''.'' @ [CHR 0x0A] @ snd p @ [CHR 0x0A]"

definition print_report :: "(nat \<times> string) list \<Rightarrow> string" where
  "print_report ps = ''Warning:'' @ [CHR 0x0A] @ concat (map print_blocked ps)"

definition cause_ok :: "string \<Rightarrow> bool" where
  "cause_ok why \<longleftrightarrow> list_all (\<lambda>c. \<not> is_linebreak c) why \<and> strip why \<noteq> []
     \<and> \<not> contains ''cannot insert breakpoint'' (lower why)"

lemma startswith_iff: "startswith s p \<longleftrightarrow> (\<exists>r. s = p @ r)"
  unfolding startswith_def by (metis append_eq_conv_conj)

lemma eat_nocase_line:
  assumes "eat_nocase lit (q @ CHR 0x0A # s) \<noteq> None" "CHR 0x0A \<notin> set (lower lit)"
  shows "contains (lower lit) (lower q)"
proof -
  have lf: "to_lower (CHR 0x0A) = CHR 0x0A" by (simp add: to_lower_def)
  have "startswith (lower (q @ CHR 0x0A # s)) (lower lit)"
    using assms(1) unfolding eat_nocase_def by (meson not_None_eq)
  then obtain rest where "lower q @ CHR 0x0A # lower s = lower lit @ rest"
    unfolding startswith_iff lower_append lower_Cons lf by blast
  then obtain us where "lower q = lower lit @ us \<or> lower q @ us = lower lit \<and> CHR 0x0A # lower s = us @ rest"
    unfolding append_eq_append_conv2 by blast
  then show ?thesis
  proof (elim disjE conjE)
    assume "lower q @ us = lower lit" "CHR 0x0A # lower s = us @ rest"
    moreover from this assms(2) have "us = []" by (metis append_eq_Cons_conv in_set_conv_decomp)
    ultimately show ?thesis by (metis append_Nil2 contains_startswith startswith_append)
  qed (metis contains_startswith startswith_append)
qed

abbreviation (input) blocked_text :: string where
  "blocked_text \<equiv> ''cannot insert breakpoint''"

lemma lower_blocked: "lower ''Cannot insert breakpoint'' = blocked_text"
  by code_simp

lemma blocked_hit:
  assumes "s = [] \<or> \<not> is_digit (hd s)"
  shows "match_insert_blocked (''Cannot insert breakpoint '' @ show_nat n @ s) = Some (int n, s)"
proof -
  have split: "''Cannot insert breakpoint '' @ t = ''Cannot insert breakpoint'' @ CHR '' '' # t" for t
    by simp
  have "\<not> is_space (hd (show_nat n))"
    using show_nat_hd by (metis is_digit_not_space)
  then have strip: "lstrip (show_nat n @ s) = show_nat n @ s"
    using show_nat_nonempty [of n] by (intro lstrip_id) simp
  show ?thesis
    unfolding match_insert_blocked_def split eat_nocase_append Option.bind.simps eat_spaces_blank strip
      match_digits_show_nat [OF assms]
    by simp
qed

lemma blocked_none:
  "\<not> contains blocked_text (lower q) \<Longrightarrow> match_insert_blocked q = None"
  "\<not> contains blocked_text (lower q) \<Longrightarrow> match_insert_blocked (q @ CHR 0x0A # s) = None"
proof -
  assume n: "\<not> contains blocked_text (lower q)"
  then have "eat_nocase ''Cannot insert breakpoint'' q = None"
    unfolding eat_nocase_def lower_blocked using contains_startswith by meson
  then show "match_insert_blocked q = None" by (simp only: match_insert_blocked_def Option.bind.simps)
  have "CHR 0x0A \<notin> set blocked_text" by simp
  then have "eat_nocase ''Cannot insert breakpoint'' (q @ CHR 0x0A # s) = None"
    using n eat_nocase_line [of "''Cannot insert breakpoint''" q s, unfolded lower_blocked] by blast
  then show "match_insert_blocked (q @ CHR 0x0A # s) = None"
    by (simp only: match_insert_blocked_def Option.bind.simps)
qed

lemma contains_lower_suffix: "u = p @ w \<Longrightarrow> \<not> contains t (lower u) \<Longrightarrow> \<not> contains t (lower w)"
  by (metis contains_append_left lower_append)

lemma finditer_blocked_line:
  assumes "\<not> contains blocked_text (lower u)"
  shows "finditer match_insert_blocked (u @ CHR 0x0A # s) = finditer match_insert_blocked s"
proof -
  have "match_insert_blocked (q @ s) = None" if q: "u @ [CHR 0x0A] = p @ q" "q \<noteq> []" for p q
  proof -
    obtain w where w: "q = w @ [CHR 0x0A]" using q by (metis last_appendR last_snoc append_butlast_last_id)
    then have "u = p @ w" using q by simp
    from blocked_none(2) [OF contains_lower_suffix [OF this assms]] w show ?thesis by simp
  qed
  then have "finditer match_insert_blocked ((u @ [CHR 0x0A]) @ s) = finditer match_insert_blocked s"
    by (intro finditer_skip) simp
  then show ?thesis by simp
qed

lemma no_mention: "\<not> contains blocked_text (lower u) \<Longrightarrow> \<not> mentions_blocked u"
proof -
  assume u: "\<not> contains blocked_text (lower u)"
  have "search match_insert_blocked (u @ []) = search match_insert_blocked []"
    using blocked_none(1) contains_lower_suffix u by (intro search_skip) (metis append_Nil2)
  then show ?thesis by (simp add: mentions_blocked_def match_insert_blocked_def eat_nocase_def)
qed

lemma finditer_report:
  "list_all (\<lambda>p. cause_ok (snd p)) ps \<Longrightarrow>
     finditer match_insert_blocked (concat (map print_blocked ps)) = map (int \<circ> fst) ps"
proof (induction ps)
  case (Cons p ps)
  have dot: "\<not> contains blocked_text (lower ''.'')" by code_simp
  let ?rest = "concat (map print_blocked ps)"
  have p: "print_blocked p @ ?rest = (''Cannot insert breakpoint '' @ show_nat (fst p))
      @ (''.'' @ CHR 0x0A # snd p @ CHR 0x0A # ?rest)"
    by (simp add: print_blocked_def)
  have "finditer match_insert_blocked (print_blocked p @ ?rest)
      = int (fst p) # finditer match_insert_blocked (''.'' @ CHR 0x0A # snd p @ CHR 0x0A # ?rest)"
    unfolding p by (rule finditer_hit, unfold append_assoc, rule blocked_hit) (simp_all add: is_digit_def digits10_def)
  also have "\<dots> = int (fst p) # finditer match_insert_blocked ?rest"
    using Cons.prems by (simp only: finditer_blocked_line [OF dot]) (simp add: finditer_blocked_line cause_ok_def)
  finally show ?case using Cons by simp
qed simp


lemma foldl_add_number: "distinct (acc @ xs) \<Longrightarrow> foldl add_number acc xs = acc @ xs"
  by (induction xs arbitrary: acc) (auto simp: add_number_def)

definition report_lines :: "(nat \<times> string) list \<Rightarrow> string list" where
  "report_lines ps = ''Warning:'' # concat (map (\<lambda>p.
     [''Cannot insert breakpoint '' @ show_nat (fst p) @ ''.'', snd p]) ps)"

lemma print_report_lines: "print_report ps = concat (map (\<lambda>l. l @ [CHR 0x0A]) (report_lines ps))"
proof -
  have "concat (map print_blocked ps) = concat (map (\<lambda>l. l @ [CHR 0x0A]) (concat (map (\<lambda>p.
     [''Cannot insert breakpoint '' @ show_nat (fst p) @ ''.'', snd p]) ps)))"
    by (induction ps) (simp_all add: print_blocked_def)
  then show ?thesis by (simp add: print_report_def report_lines_def)
qed

lemma report_lines_ok:
  assumes "list_all (\<lambda>p. cause_ok (snd p)) ps"
  shows "list_all (list_all (\<lambda>c. \<not> is_linebreak c)) (report_lines ps)"
proof -
  have d: "list_all (\<lambda>c. \<not> is_linebreak c) (show_nat n)" for n
    using show_nat_digits [of n] linebreak_digit by (auto simp: list_all_iff)
  have "list_all (list_all (\<lambda>c. \<not> is_linebreak c)) (concat (map (\<lambda>p.
     [''Cannot insert breakpoint '' @ show_nat (fst p) @ ''.'', snd p]) ps))"
    using assms by (induction ps) (simp_all add: d cause_ok_def, simp_all add: is_linebreak_def)
  then show ?thesis by (simp add: report_lines_def is_linebreak_def)
qed

section \<open>Properties\<close>

text \<open>
  GDB's report round trips: from the report GDB prints when breakpoints cannot be inserted
  (a heading, then for each breakpoint its number and the cause on the next line) the program
  reads back exactly the numbers, in order, and the cause of the first one. A cause is one line
  of text that does not itself announce a blocked breakpoint.
\<close>

theorem blocked_report_roundtrip:
  assumes "ps \<noteq> []" and "list_all (\<lambda>p. cause_ok (snd p)) ps" and "distinct (map fst ps)"
  shows "blocked_breakpoint_numbers (print_report ps) = map (int \<circ> fst) ps
    \<and> insert_blocked_reason (print_report ps) = strip (snd (hd ps))"
proof
  have warning: "\<not> contains blocked_text (lower ''Warning:'')" by code_simp
  have "finditer match_insert_blocked (print_report ps) = map (int \<circ> fst) ps"
    using finditer_report [OF assms(2)] finditer_blocked_line [OF warning]
    by (simp only: print_report_def append.simps)
  moreover have "distinct (map (int \<circ> fst) ps)"
    using assms(3) by (simp add: distinct_map inj_on_def)
  ultimately show "blocked_breakpoint_numbers (print_report ps) = map (int \<circ> fst) ps"
    using foldl_add_number [of "[]"] by (simp add: blocked_breakpoint_numbers_def)
  obtain n why qs where ps: "ps = (n, why) # qs" using assms(1) by (cases ps) auto
  let ?line = "''Cannot insert breakpoint '' @ show_nat n @ ''.''"
  have line: "strip ?line = ?line" by (rule strip_id) (simp_all add: is_space_def)
  have "match_insert_blocked ?line = Some (int n, ''.'')"
    by (rule blocked_hit) (simp add: is_digit_def digits10_def)
  then have "mentions_blocked ?line" using search_hit by (fastforce simp: mentions_blocked_def)
  moreover have "strip ''Warning:'' = ''Warning:''" by code_simp
  moreover obtain rest where "report_lines ps = ''Warning:'' # ?line # why # rest"
    by (simp add: report_lines_def ps)
  moreover have "strip why \<noteq> []" using assms(2) by (simp add: ps cause_ok_def)
  ultimately have "blocked_cause (map strip (report_lines ps)) = Some (strip why)"
    using no_mention [OF warning]
    by (simp only: list.map line blocked_cause.simps find.simps if_True if_False not_False_eq_True simp_thms)
  then show "insert_blocked_reason (print_report ps) = strip (snd (hd ps))"
    using splitlines_unlines [OF report_lines_ok [OF assms(2)]]
    by (simp add: insert_blocked_reason_def print_report_lines ps)
qed


theorem blocked_report_roundtrip_witness:
  "blocked_breakpoint_numbers (print_report [(3, ''Cannot access memory at address 0x1''), (12, ''no'')]) = [3, 12]
   \<and> insert_blocked_reason (print_report [(3, ''Cannot access memory at address 0x1''), (12, ''no'')])
       = ''Cannot access memory at address 0x1''"
proof -
  let ?ps = "[(3, ''Cannot access memory at address 0x1''), (12::nat, ''no'')]"
  have "list_all (\<lambda>p. cause_ok (snd p)) ?ps" by code_simp
  moreover have "strip ''Cannot access memory at address 0x1'' = ''Cannot access memory at address 0x1''"
    by code_simp
  ultimately show ?thesis using blocked_report_roundtrip [of ?ps] by simp
qed

text \<open>
  A refused insertion is attributed honestly. When \<open>-break-insert\<close> fails and GDB's message
  names no blocked breakpoint, the error is returned as it is. When it names some, the outcome is
  a success only if the refreshed table holds a breakpoint at the requested location (up to
  quotes and blanks) whose number GDB did not name, and then it carries one warning; every
  failure then has the code \<open>breakpoint_insert_blocked\<close> and names the location, the blocked
  numbers and GDB's own message.
\<close>

theorem set_breakpoint_refused:
  assumes "run_default (break_insert_command location condition temporary) rt = (Inr (Failure e), rt1)"
    and "set_breakpoint location condition temporary rt = (Inr r, rt')"
  shows "(blocked_breakpoint_numbers (oe_message e) = [] \<longrightarrow> r = Failure e \<and> rt' = rt1)
    \<and> (blocked_breakpoint_numbers (oe_message e) \<noteq> [] \<longrightarrow>
        (case r of
           Success i ws \<Rightarrow> at_location (normalize_location location) (bpi_breakpoint i)
             \<and> (\<forall>n. breakpoint_number_of (PDict (bpi_breakpoint i)) = Some n \<longrightarrow>
                    n \<notin> set (blocked_breakpoint_numbers (oe_message e)))
             \<and> length ws = 1
         | Failure f \<Rightarrow> blames location e f))"
proof -
  have r: "attribute_insert_failure location e rt1 = (Inr r, rt')"
    using assms by (simp add: set_breakpoint_def exec_defs)
  have found: "find_breakpoint_for_location bs location = Some b \<Longrightarrow> at_location (normalize_location location) b"
    for bs b by (auto simp: find_breakpoint_for_location_def find_Some_iff)
  show ?thesis
  proof (cases "blocked_breakpoint_numbers (oe_message e) = []")
    case False
    with r obtain listing rt2 where l: "list_breakpoints rt1 = (Inr listing, rt2)"
      by (auto simp: attribute_insert_failure_def Let_def elim!: bindE_InrE)
    show ?thesis
    proof (cases listing)
      case (Success v ws)
      with r l False have "attribute_from_records location e (blocked_breakpoint_numbers (oe_message e))
          (bli_breakpoints v) rt2 = (Inr r, rt')"
        by (simp add: attribute_insert_failure_def Let_def bindE_step [where m = list_breakpoints, OF l])
      from attribute_from_records_outcome [OF this refl] False found show ?thesis
        by (cases r) auto
    next
      case (Failure f)
      with r l False show ?thesis
        by (auto simp: attribute_insert_failure_def Let_def bindE_step [where m = list_breakpoints, OF l] from_sum_def ret_def
            coded_error_def blames_def dget_dset elim!: bindE_InrE)
    qed
  qed (use r in \<open>simp add: attribute_insert_failure_def ret_def\<close>)
qed


definition refused_record :: MiRecord where
  "refused_record = [(''type'', PStr ''result''), (''message'', PStr ''error''), (''token'', PInt 1000),
     (''payload'', PDict [(''msg'', PStr ''Cannot insert breakpoint 1.'')])]"

definition table_record :: "nat \<Rightarrow> (string \<times> string) list \<Rightarrow> MiRecord" where
  "table_record token bs = [(''type'', PStr ''result''), (''message'', PStr ''done''), (''token'', PInt (int token)),
     (''payload'', PDict [(''BreakpointTable'', PDict [(''body'', PList (map (\<lambda>b. PDict
        [(''number'', PStr (fst b)), (''type'', PStr ''breakpoint''), (''original-location'', PStr (snd b))]) bs))])])]"

definition refused_sample :: SessionRuntime where
  "refused_sample = ready_sample
     [Records 5 [refused_record], Records 5 [table_record 1001 [(''1'', ''*0x0''), (''2'', ''main'')]]]"

theorem set_breakpoint_refused_witness:
  "\<exists>i ws rt'. set_breakpoint ''main'' None False refused_sample = (Inr (Success i ws), rt')
     \<and> breakpoint_number_of (PDict (bpi_breakpoint i)) \<noteq> Some 1"
proof -
  let ?r = "run_default (break_insert_command ''main'' None False) refused_sample"
  let ?x = "set_breakpoint ''main'' None False refused_sample"
  have "(case fst ?r of Inr (Failure e) \<Rightarrow> blocked_breakpoint_numbers (oe_message e) = [1] | _ \<Rightarrow> False)"
    by code_simp
  then obtain e where r: "?r = (Inr (Failure e), snd ?r)" "blocked_breakpoint_numbers (oe_message e) = [1]"
    by (cases ?r) (auto split: sum.splits OperationResult.splits)
  have "(case fst ?x of Inr (Success i ws) \<Rightarrow> True | _ \<Rightarrow> False)" by code_simp
  then obtain i ws where x: "?x = (Inr (Success i ws), snd ?x)"
    by (cases ?x) (auto split: sum.splits OperationResult.splits)
  have "breakpoint_number_of (PDict (bpi_breakpoint i)) \<noteq> Some 1"
    using set_breakpoint_refused [OF r(1) x] r(2) by auto
  with x show ?thesis by blast
qed




end
