(* ===== verification/Inspection_Correct.thy ===== *)
theory Inspection_Correct
  imports Code_Inspection Breakpoints_Correct
begin

text \<open>
  Properties of inspection. What GDB has selected is followed through the lines the client writes:
  \<open>-thread-select\<close> selects a thread and its topmost frame, \<open>-stack-select-frame\<close> a frame, and no
  other command of the session layer selects anything.
\<close>

section \<open>Invariants\<close>

lemma pres_case_dict [pres_intros]:
  "(\<And>d. pres I (f d)) \<Longrightarrow> pres I g \<Longrightarrow> pres I (case v of PDict d \<Rightarrow> f d | _ \<Rightarrow> g)"
  by (cases v) simp_all

lemma pres_or_restore [pres_intros]:
  "(\<And>e. pres I (selection_error_with_restore s e :: 'b OperationResult session)) \<Longrightarrow> pres I m \<Longrightarrow>
   (\<And>v. pres I (k v)) \<Longrightarrow> pres I (or_restore s m (k :: 'a \<Rightarrow> 'b OperationResult session))"
  unfolding or_restore_def by (intro pres_intros)

context command_invariant
begin

lemma pres_capture [pres_intros]: "pres invar capture_selection"
  unfolding capture_selection_def Let_def by (intro pres_intros pres_track tracking_step.intros)

lemma pres_restore [pres_intros]: "pres invar (restore_selection s)"
  unfolding restore_selection_def restore_step_def
  by (intro pres_intros pres_track tracking_step.intros)

lemma pres_select_for_inspection [pres_intros]: "pres invar (select_for_inspection s t f)"
  unfolding select_for_inspection_def select_step_def by (intro pres_intros)

lemma pres_selection_error [pres_intros]: "pres invar (selection_error_with_restore s e)"
  unfolding selection_error_with_restore_def by (intro pres_intros)

lemma pres_begin_inspection [pres_intros]: "pres invar (begin_inspection b t f)"
  unfolding begin_inspection_def by (intro pres_intros)

lemma pres_end_inspection [pres_intros]: "pres invar (end_inspection s b r)"
  unfolding end_inspection_def restore_selection_if_changed_def by (intro pres_intros)

lemma pres_threads:
  "pres invar get_threads" "pres invar (select_thread t)" "pres invar (get_backtrace ot n)"
  "pres invar (get_frame_info ot f)" "pres invar (select_frame k)"
  unfolding get_threads_def select_thread_def get_backtrace_def restore_thread_def get_frame_info_def
    select_frame_def Let_def
  by (intro pres_intros pres_track tracking_step.intros)+

lemma pres_variables: "pres invar (get_variables t f)"
  unfolding get_variables_def by (intro pres_intros)

lemma pres_registers: "pres invar (get_registers t f ns names vec mx hex)"
  unfolding get_registers_def read_registers_def resolve_register_number_filters_def
    register_name_to_number_index_def load_register_name_map_def Let_def
  by (intro pres_intros)

lemma pres_evaluate: "pres invar (evaluate_expression e t f)"
  unfolding evaluate_expression_def by (intro pres_intros)

lemma pres_read_memory: "pres invar (read_memory a n off)"
  unfolding read_memory_def supports_read_memory_bytes_def read_memory_bytes_def
    read_memory_legacy_def Let_def
  by (intro pres_intros pres_track tracking_step.intros)

lemma pres_list_inferiors [pres_intros]: "pres invar list_inferiors"
  unfolding list_inferiors_def Let_def by (intro pres_intros pres_track tracking_step.intros)

lemma pres_select_inferior: "pres invar (select_inferior i)"
  unfolding select_inferior_def by (intro pres_intros pres_track tracking_step.intros)

lemma pres_whole_function [pres_intros]: "pres invar (whole_function_command a m)"
  unfolding whole_function_command_def supports_disassemble_a_def whole_function_address_range_def Let_def
  by (intro pres_intros pres_track tracking_step.intros)

lemma pres_build_disassemble [pres_intros]: "pres invar (build_disassemble_command l n m)"
  unfolding build_disassemble_command_def Let_def by (intro pres_intros)

lemma pres_disassemble: "pres invar (disassemble t f sel n m)"
  unfolding disassemble_def disassemble_at_def Let_def by (intro pres_intros)

lemma pres_source_at [pres_intros]: "pres invar (source_context_at fs s ch l sel b a)"
  unfolding source_context_at_def read_source_context_def read_window_def Let_def
  by (intro pres_intros)

lemma pres_source: "pres invar (get_source_context fs t f sel b a)"
  unfolding get_source_context_def current_frame_location_def resolve_info_line_location_def Let_def
  by (intro pres_intros)

lemmas pres_inspections = pres_threads pres_variables pres_registers pres_evaluate pres_read_memory
  pres_list_inferiors pres_select_inferior pres_disassemble pres_source

end

section \<open>What the lines select\<close>

abbreviation sent :: "SessionRuntime \<Rightarrow> string list" where
  "sent rt \<equiv> w_sent (mc_world (rt_transport rt))"

definition read_int :: "string \<Rightarrow> int" where
  "read_int s = (if startswith s ''-'' then - nat_of_digits (tl s) else nat_of_digits s)"

definition command_of :: "string \<Rightarrow> string" where
  "command_of line = takeWhile (\<lambda>c. c \<noteq> CHR 0x0A) (dropWhile is_digit line)"

text \<open>The thread and frame GDB has selected after one line.\<close>

definition line_effect :: "string \<Rightarrow> int \<times> int \<Rightarrow> int \<times> int" where
  "line_effect line sel =
     (let c = command_of line in
      if startswith c ''-thread-select '' then (read_int (drop 15 c), 0)
      else if startswith c ''-stack-select-frame '' then (fst sel, read_int (drop 20 c))
      else sel)"

definition replay :: "string list \<Rightarrow> int \<times> int \<Rightarrow> int \<times> int" where
  "replay lines sel = foldl (\<lambda>s line. line_effect line s) sel lines"

lemma replay_simps [simp]:
  "replay [] = id" "replay (l # ls) = replay ls \<circ> line_effect l"
  "replay (ls @ ls') = replay ls' \<circ> replay ls"
  by (simp_all add: replay_def fun_eq_iff)

text \<open>A command that selects nothing, as it is written.\<close>

definition quiet :: "string \<Rightarrow> bool" where
  "quiet cmd \<longleftrightarrow> cmd \<noteq> [] \<and> \<not> is_digit (hd cmd)
     \<and> \<not> startswith (takeWhile (\<lambda>c. c \<noteq> CHR 0x0A) cmd) ''-thread-select ''
     \<and> \<not> startswith (takeWhile (\<lambda>c. c \<noteq> CHR 0x0A) cmd) ''-stack-select-frame ''"

lemma command_of_line:
  assumes "cmd \<noteq> []" "\<not> is_digit (hd cmd)"
  shows "command_of (show_nat n @ cmd @ [CHR 0x0A]) = takeWhile (\<lambda>c. c \<noteq> CHR 0x0A) cmd"
proof -
  have d: "\<forall>c\<in>set (show_nat n). is_digit c" using show_nat_digits [of n] by (simp add: list_all_iff)
  have "dropWhile is_digit (show_nat n @ cmd @ [CHR 0x0A]) = cmd @ [CHR 0x0A]"
    using d assms by (cases cmd) (simp_all add: dropWhile_append2)
  then show ?thesis by (simp add: command_of_def takeWhile_tail)
qed

lemma quiet_effect: "quiet cmd \<Longrightarrow> line_effect (show_nat n @ cmd @ [CHR 0x0A]) = id"
  by (auto simp: fun_eq_iff quiet_def line_effect_def Let_def command_of_line)

lemma read_show_int: "read_int (show_int i) = i"
proof (cases "i < 0")
  case False
  then have "is_digit (hd (show_int i))" using show_nat_hd by (simp add: show_int_def)
  then have "hd (show_int i) \<noteq> CHR ''-''" by (auto simp: is_digit_def digits10_def)
  then have "\<not> startswith (show_int i) ''-''" by (cases "show_int i") simp_all
  with False show ?thesis by (simp add: read_int_def nat_of_digits_show_int)
qed (simp add: read_int_def show_int_def)

lemma show_int_no_break: "CHR 0x0A \<notin> set (show_int i)"
proof -
  have "\<not> is_digit (CHR 0x0A)" by (simp add: is_digit_def digits10_def)
  then have "CHR 0x0A \<notin> set (show_nat n)" for n
    using show_nat_digits [of n] unfolding list_all_iff by blast
  then show ?thesis by (simp add: show_int_def)
qed

lemma select_effects:
  "line_effect (show_nat n @ select_thread_command t @ [CHR 0x0A]) sel = (t, 0)"
  "line_effect (show_nat n @ select_frame_command f @ [CHR 0x0A]) sel = (fst sel, f)"
proof -
  have "command_of (show_nat n @ select_thread_command t @ [CHR 0x0A]) = ''-thread-select '' @ show_int t"
    unfolding select_thread_command_def by (subst command_of_line) (simp_all add: is_digit_def digits10_def, use show_int_no_break in \<open>auto\<close>)
  moreover have "command_of (show_nat n @ select_frame_command f @ [CHR 0x0A]) = ''-stack-select-frame '' @ show_int f"
    unfolding select_frame_command_def by (subst command_of_line) (simp_all add: is_digit_def digits10_def, use show_int_no_break in \<open>auto\<close>)
  ultimately show "line_effect (show_nat n @ select_thread_command t @ [CHR 0x0A]) sel = (t, 0)"
    "line_effect (show_nat n @ select_frame_command f @ [CHR 0x0A]) sel = (fst sel, f)"
    by (simp_all add: line_effect_def Let_def read_show_int)
qed


text \<open>The lines written since some moment leave the selection alone.\<close>

definition quiet_since :: "string list \<Rightarrow> SessionRuntime \<Rightarrow> bool" where
  "quiet_since base rt \<longleftrightarrow> (\<exists>ls. sent rt = base @ ls \<and> replay ls = id)"

lemma quiet_since_refl: "quiet_since (sent rt) rt"
  by (auto simp: quiet_since_def)

lemma quiet_since_more:
  "quiet_since base rt \<Longrightarrow> sent rt' = sent rt \<or> quiet cmd \<and> sent rt' = sent rt @ [show_nat n @ cmd @ [CHR 0x0A]] \<Longrightarrow>
     quiet_since base rt'"
  unfolding quiet_since_def by (elim disjE exE conjE) (auto simp: quiet_effect intro: exI [of _ "_ @ [_]"])

lemma quiet_send:
  assumes "quiet cmd"
  shows "pres (quiet_since base) (cr_send_command_and_wait_for_prompt cmd t)"
  unfolding pres_def
proof (intro allI impI)
  fix rt assume q: "quiet_since base rt"
  obtain r c where s: "send_command_and_wait_for_prompt cmd (usec t) (rt_transport rt) = (r, c)"
    by (cases "send_command_and_wait_for_prompt cmd (usec t) (rt_transport rt)")
  have "w_sent (mc_world c) = sent rt
      \<or> w_sent (mc_world c) = sent rt @ [show_nat (mc_command_token (rt_transport rt)) @ cmd @ [CHR 0x0A]]"
  proof (cases "mc_controller (rt_transport rt) = None")
    case True
    with s send_no_controller show ?thesis by simp
  qed (use send_writes [OF s] in blast)
  with assms s have "quiet_since base (rt\<lparr>rt_transport := c\<rparr>)"
    by (intro quiet_since_more [OF q]) auto
  then show "quiet_since base (snd (cr_send_command_and_wait_for_prompt cmd t rt))"
    using s by (auto simp: cr_send_command_and_wait_for_prompt_def cr_call_eq quiet_since_def split: sum.splits)
qed

lemma quiet_wrap: "quiet (wrap_cli_command c)"
  by (simp add: quiet_def wrap_cli_command_def is_digit_def digits10_def)

interpretation quiet_inv: answer_invariant "quiet_since base" for base
proof
  show "tracking_step rt rt' \<Longrightarrow> quiet_since base rt \<Longrightarrow> quiet_since base rt'" for rt rt'
    by (drule tracking_frame) (simp add: frame_of_def quiet_since_def)
  have "quiet_since base (snd (is_gdb_alive rt))" if "quiet_since base rt" for rt
    using that alive_transport [of rt] by (cases "is_gdb_alive rt") (auto simp: quiet_since_def same_client_def)
  then show "pres (quiet_since base) is_gdb_alive" by (simp add: pres_def)
qed (simp_all add: quiet_send quiet_wrap quiet_since_def record_command_transcript_def)


definition moved :: "(int \<times> int \<Rightarrow> int \<times> int) \<Rightarrow> SessionRuntime \<Rightarrow> SessionRuntime \<Rightarrow> bool" where
  "moved E rt rt' \<longleftrightarrow> (\<exists>ls. sent rt' = sent rt @ ls \<and> replay ls = E)"

lemma moved_quiet: "pres (quiet_since (sent rt)) m \<Longrightarrow> m rt = (r, rt') \<Longrightarrow> moved id rt rt'"
  using presD [of "quiet_since (sent rt)" m rt] quiet_since_refl by (auto simp: quiet_since_def moved_def)

lemma moved_trans: "moved E a b \<Longrightarrow> moved F b c \<Longrightarrow> moved (F \<circ> E) a c"
  unfolding moved_def by auto

lemma moved_replay: "moved E rt rt' \<Longrightarrow> replay (drop (length (sent rt)) (sent rt')) sel = E sel"
  by (auto simp: moved_def)

lemma quiet_default: "quiet cmd \<or> is_cli_command cmd \<Longrightarrow> pres (quiet_since base) (run_default cmd)"
  unfolding run_default_def
  by (intro quiet_inv.pres_execute_sending) (auto intro: quiet_send simp: quiet_wrap)

text \<open>The commands of the inspections.\<close>

lemma quiet_letter [simp]: "c \<notin> set [CHR ''t'', CHR ''s'', CHR 0x0A] \<Longrightarrow> quiet (CHR ''-'' # c # s)"
  by (simp add: quiet_def is_digit_def digits10_def)

lemma quiet_commands [simp]:
  "quiet ''-thread-info''" "quiet ''-stack-info-frame''" "quiet ''-stack-list-variables --simple-values''"
  by (simp_all add: quiet_def is_digit_def digits10_def)

lemma quiet_list_frames: "quiet (''-stack-list-frames 0 '' @ s)"
  by (simp add: quiet_def is_digit_def digits10_def)

lemma execute_moves:
  assumes ex: "run_default cmd rt = (Inr (Success v ws), rt')" and mi: "\<not> is_cli_command cmd"
  shows "\<exists>n. moved (line_effect (show_nat n @ cmd @ [CHR 0x0A])) rt rt'"
proof -
  obtain c d rt2 where a: "same_client (rt_transport rt) c"
    "cr_send_command_and_wait_for_prompt cmd default_timeout_sec (rt\<lparr>rt_transport := c\<rparr>) = (Inr d, rt2)"
    "command_answer cmd cmd False default_timeout_sec False d rt2 = (Inr (Success v ws), rt')"
    and ctl: "mc_controller (rt_transport rt) \<noteq> None"
    using ex mi unfolding run_default_def execute_command_result_def bindE_gets Let_def
    by (auto simp: has_controller_def ret_def op_error_def command_error_def op_error_details_def
        elim!: bindE_InrE thenE_InrE split: if_splits dest!: alive_transport)
  have err: "\<not> dhas d ''error''"
    using a(3) by (auto simp: command_answer_def Let_def ret_def command_error_def op_error_details_def
        elim!: thenE_InrE)
  from a(2) obtain r c2 where s: "send_command_and_wait_for_prompt cmd (usec default_timeout_sec) c = (Inr r, c2)"
    "d = transport_to_dict r"
    by (auto simp: cr_send_command_and_wait_for_prompt_def cr_call_eq split: prod.splits sum.splits)
  with err have "tr_error r = None" by (auto simp: transport_to_dict_def split: option.splits)
  with s send_op.fatal_drops have "\<not> tr_fatal r" "tr_error r = None" by fastforce+
  with s a(1,2) ctl send_writes [OF s(1)] have line: "sent rt2 = sent rt @ [show_nat (mc_command_token c) @ cmd @ [CHR 0x0A]]"
    by (auto simp: cr_send_command_and_wait_for_prompt_def cr_call_eq same_client_def)
  moreover have "moved id rt2 rt'"
    by (rule moved_quiet [OF quiet_inv.pres_command_answer a(3)])
  ultimately have "moved (line_effect (show_nat (mc_command_token c) @ cmd @ [CHR 0x0A])) rt rt'"
    by (auto simp: moved_def)
  then show ?thesis by blast
qed


section \<open>Moving and restoring the selection\<close>

lemma strip_nonspace: "\<not> is_space c \<Longrightarrow> strip (c # s) = c # rstrip s"
  by (simp add: strip_def lstrip_def rstrip_def dropWhile_append3)

lemma dash_mi: "\<not> is_cli_command (CHR ''-'' # s)"
  by (simp add: is_cli_command_def strip_nonspace is_space_def)

lemma select_commands_mi [simp]:
  "\<not> is_cli_command (select_thread_command t)" "\<not> is_cli_command (select_frame_command f)"
  by (simp_all add: dash_mi select_thread_command_def select_frame_command_def)

lemma select_thread_moves:
  "run_default (select_thread_command t) rt = (Inr (Success v ws), rt') \<Longrightarrow> moved (\<lambda>_. (t, 0)) rt rt'"
  using execute_moves [of "select_thread_command t"] select_effects(1) by (fastforce simp: moved_def fun_eq_iff)

lemma select_frame_moves:
  "run_default (select_frame_command f) rt = (Inr (Success v ws), rt') \<Longrightarrow> moved (\<lambda>sel. (fst sel, f)) rt rt'"
  using execute_moves [of "select_frame_command f"] select_effects(2) by (fastforce simp: moved_def fun_eq_iff)

lemma moved_sent: "sent rt' = sent rt \<Longrightarrow> moved id rt rt'"
  by (auto simp: moved_def)

lemma mark_selected_simps [simp]:
  "sent (mark_thread_selected t rt) = sent rt" "sent (mark_frame_selected f rt) = sent rt"
  "rt_current_thread_id (mark_frame_selected f (mark_thread_selected t rt)) = t"
  "rt_current_frame (mark_frame_selected f rt) = f"
  by (simp_all add: mark_thread_selected_def mark_frame_selected_def)

lemma capture_quiet: "pres (quiet_since base) capture_selection"
  unfolding capture_selection_def Let_def
  by (intro pres_intros quiet_default quiet_inv.pres_track tracking_step.intros) simp_all

lemma restore_step_success:
  assumes "restore_step (Some c) what rt = (Inr None, rt')"
  shows "\<exists>v ws. run_default c rt = (Inr (Success v ws), rt')"
  using assms by (auto simp: restore_step_def ret_def elim!: bindE_InrE split: OperationResult.splits)

lemma restore_selection_success:
  assumes "restore_selection \<lparr>sel_thread_id = Some t, sel_frame_number = Some f\<rparr> rt = (Inr None, rt')"
  shows "moved (\<lambda>_. (t, f)) rt rt' \<and> rt_current_thread_id rt' = Some t \<and> rt_current_frame rt' = Some f"
proof -
  obtain rt1 rt2 where r: "restore_step (Some (select_thread_command t)) ''thread'' rt = (Inr None, rt1)"
    "restore_step (Some (select_frame_command f)) ''frame'' rt1 = (Inr None, rt2)"
    "rt' = mark_frame_selected (Some f) (mark_thread_selected (Some t) rt2)"
    using assms unfolding restore_selection_def
    by (auto simp: ret_def modify_def elim!: bindE_InrE thenE_InrE split: option.splits)
  have "moved (\<lambda>_. (t, 0)) rt rt1" using restore_step_success [OF r(1)] select_thread_moves by blast
  moreover have "moved (\<lambda>sel. (fst sel, f)) rt1 rt2" using restore_step_success [OF r(2)] select_frame_moves by blast
  ultimately have "moved (\<lambda>_. (t, f)) rt rt2" using moved_trans by (fastforce simp: comp_def)
  moreover have "moved id rt2 rt'" using r(3) by (intro moved_sent) simp
  ultimately have "moved (id \<circ> (\<lambda>_. (t, f))) rt rt'" by (rule moved_trans)
  with r(3) show ?thesis by simp
qed


lemma select_step_moves:
  assumes "select_step captured wanted cmd rt = (Inr (m, None), rt')" and "\<And>k. \<not> is_cli_command (cmd k)"
  shows "(\<exists>E. moved E rt rt') \<and> (\<not> m \<longrightarrow> rt' = rt)"
proof (cases wanted)
  case (Some k)
  with assms(1) show ?thesis
    using execute_moves [OF _ assms(2)] moved_sent [of rt rt]
    by (auto simp: select_step_def ret_def elim!: bindE_InrE split: OperationResult.splits if_splits) blast+
qed (use assms(1) moved_sent [of rt rt] in \<open>auto simp: select_step_def ret_def\<close>)

lemma select_for_moves:
  assumes "select_for_inspection selection t f rt = (Inr (changed, None), rt')"
  shows "(\<exists>E. moved E rt rt') \<and> (\<not> changed \<longrightarrow> rt' = rt) \<and> (selection = None \<longrightarrow> \<not> changed)"
proof (cases selection)
  case (Some s)
  with assms obtain m1 e1 rt1 where m: "select_step (sel_thread_id s) t select_thread_command rt = (Inr (m1, e1), rt1)"
    and rest: "(if e1 \<noteq> None then ret (m1, e1)
       else bindE (select_step (sel_frame_number s) f select_frame_command) (\<lambda>(moved, err). ret (m1 \<or> moved, err))) rt1
       = (Inr (changed, None), rt')"
    by (auto simp: select_for_inspection_def elim!: bindE_InrE)
  from rest have e1: "e1 = None" by (cases e1) (simp_all add: ret_def)
  with rest obtain m2 where m2: "select_step (sel_frame_number s) f select_frame_command rt1 = (Inr (m2, None), rt')"
    "changed \<longleftrightarrow> m1 \<or> m2"
    by (auto simp: ret_def elim!: bindE_InrE)
  from select_step_moves [OF m [unfolded e1]] select_step_moves [OF m2(1)] m2(2) Some show ?thesis
    by (auto intro: moved_trans)
qed (use assms moved_sent [of rt rt] in \<open>auto simp: select_for_inspection_def ret_def\<close>)

text \<open>GDB reports a thread and a frame as selected.\<close>

definition captured :: "SessionRuntime \<Rightarrow> int \<times> int \<Rightarrow> bool" where
  "captured rt sel \<longleftrightarrow> (\<exists>ws rt0. capture_selection rt =
     (Inr (Success \<lparr>sel_thread_id = Some (fst sel), sel_frame_number = Some (snd sel)\<rparr> ws), rt0))"

lemma begin_inspection_moves:
  assumes "begin_inspection b t f rt = (Inr (Success (selection, changed) ws), rt1)" and "captured rt sel"
  shows "(\<exists>E. moved E rt rt1) \<and> (\<not> changed \<longrightarrow> moved id rt rt1) \<and> (selection = None \<longrightarrow> \<not> changed)
    \<and> (\<forall>s. selection = Some s \<longrightarrow> s = \<lparr>sel_thread_id = Some (fst sel), sel_frame_number = Some (snd sel)\<rparr>)"
proof -
  from assms(1) obtain us rt0 where m:
    "(if b then on_success capture_selection (\<lambda>s. ret (op_success (Some s))) else ret (op_success None)) rt
       = (Inr (Success selection us), rt0)"
    "select_for_inspection selection t f rt0 = (Inr (changed, None), rt1)"
    unfolding begin_inspection_def
    by (auto simp: ret_def op_success_def selection_error_with_restore_def op_error_def
        elim!: on_success_SuccessE bindE_InrE split: option.splits)
  have "pres (quiet_since (sent rt))
      (if b then on_success capture_selection (\<lambda>s. ret (op_success (Some s))) else ret (op_success None))"
    by (intro pres_intros capture_quiet)
  from moved_quiet [OF this m(1)] have "moved id rt rt0" .
  moreover from m(1) assms(2) have
    "\<forall>s. selection = Some s \<longrightarrow> s = \<lparr>sel_thread_id = Some (fst sel), sel_frame_number = Some (snd sel)\<rparr>"
    by (auto simp: captured_def ret_def op_success_def elim!: on_success_SuccessE split: if_splits)
  ultimately show ?thesis using select_for_moves [OF m(2)] moved_trans by (metis comp_id)
qed

lemma end_inspection_moves:
  assumes "end_inspection selection changed r rt = (Inr (Success v us), rt')"
    and "\<forall>s. selection = Some s \<longrightarrow> s = \<lparr>sel_thread_id = Some (fst sel), sel_frame_number = Some (snd sel)\<rparr>"
    and "selection = None \<longrightarrow> \<not> changed"
  shows "(changed \<longrightarrow> moved (\<lambda>_. sel) rt rt') \<and> (\<not> changed \<longrightarrow> rt' = rt) \<and> r = Success v us"
  using assms restore_selection_success [of "fst sel" "snd sel"]
  unfolding end_inspection_def restore_selection_if_changed_def
  by (cases selection) (auto simp: ret_def elim!: bindE_InrE split: option.splits if_splits)

text \<open>An inspection between its two ends leads back to the selection it found.\<close>

lemma inspection_returns:
  assumes "captured rt sel"
    and "begin_inspection b t f rt = (Inr (Success (selection, changed) ws), rt1)"
    and "moved id rt1 rt2"
    and "end_inspection selection changed r rt2 = (Inr (Success v us), rt')"
  shows "\<exists>E. moved E rt rt' \<and> E sel = sel"
proof -
  note b = begin_inspection_moves [OF assms(2,1)]
  then have e: "(changed \<longrightarrow> moved (\<lambda>_. sel) rt2 rt') \<and> (\<not> changed \<longrightarrow> rt' = rt2)"
    using end_inspection_moves [OF assms(4)] by blast
  obtain E where E: "moved E rt rt1" "\<not> changed \<longrightarrow> E = id" using b by blast
  from moved_trans [OF E(1) assms(3)] have "moved E rt rt2" by simp
  with e E show ?thesis
  proof (cases changed)
    case True
    with e \<open>moved E rt rt2\<close> have "moved ((\<lambda>_. sel) \<circ> E) rt rt'" by (blast intro: moved_trans)
    then show ?thesis by fastforce
  qed auto
qed


text \<open>The work between the two ends selects nothing.\<close>

lemma quiet_read_registers: "pres (quiet_since base) (read_registers ns names vec mx hex)"
  unfolding read_registers_def resolve_register_number_filters_def register_name_to_number_index_def
    load_register_name_map_def register_values_command_def Let_def
  by (intro pres_intros quiet_default) (simp_all split: option.split)

lemma cli_letter: "c \<in> set ''abcdefghijklmnopqrstuvwxyz'' \<Longrightarrow> is_cli_command (c # s)"
  by (auto simp: is_cli_command_def strip_nonspace is_space_def)

lemma quiet_whole_function: "pres (quiet_since base) (whole_function_command a m)"
  unfolding whole_function_command_def supports_disassemble_a_def whole_function_address_range_def Let_def
  by (intro pres_intros quiet_default quiet_inv.pres_track tracking_step.intros) (simp_all add: cli_letter)

lemma quiet_build: "pres (quiet_since base) (build_disassemble_command l n m)"
  unfolding build_disassemble_command_def Let_def by (intro pres_intros quiet_whole_function)

lemma whole_function_form:
  "whole_function_command a m rt = (Inr (Success c ws), rt') \<Longrightarrow> \<exists>s. c = ''-data-disassemble '' @ s"
  unfolding whole_function_command_def
  by (auto simp: ret_def op_success_def elim!: bindE_InrE on_success_SuccessE split: if_splits)

lemma build_form:
  assumes "build_disassemble_command l n m rt = (Inr (Success c ws), rt')"
  shows "quiet c"
proof -
  have "\<exists>s. c = ''-data-disassemble '' @ s"
    using assms whole_function_form unfolding build_disassemble_command_def Let_def
    by (auto simp: ret_def op_success_def op_error_def split: if_splits option.splits prod.splits)
  then show ?thesis by auto
qed

lemma or_restore_success:
  assumes "or_restore selection m k rt = (Inr (Success v ws), rt')"
  obtains u us rt1 where "m rt = (Inr (Success u us), rt1)" "k u rt1 = (Inr (Success v ws), rt')"
  using assms unfolding or_restore_def selection_error_with_restore_def
  by (auto simp: ret_def op_error_def elim!: bindE_InrE split: OperationResult.splits option.splits)

lemma disassemble_at_ends:
  assumes "disassemble_at selection changed l n m rt1 = (Inr (Success v ws), rt')"
  shows "\<exists>rt2 r. moved id rt1 rt2 \<and> end_inspection selection changed r rt2 = (Inr (Success v ws), rt')"
proof -
  obtain c us rt2 w vs rt3 r where d: "build_disassemble_command l n m rt1 = (Inr (Success c us), rt2)"
    "run_default c rt2 = (Inr (Success w vs), rt3)"
    "end_inspection selection changed r rt3 = (Inr (Success v ws), rt')"
    using assms unfolding disassemble_at_def Let_def by (auto elim!: or_restore_success)
  from moved_trans [OF moved_quiet [OF quiet_build d(1)] moved_quiet [OF quiet_default d(2)]] build_form [OF d(1)]
  have "moved id rt1 rt3" by simp
  with d(3) show ?thesis by blast
qed

lemma quiet_read_source: "pres (quiet_since base) (read_source_context fs l b e cb ca)"
  unfolding read_source_context_def read_window_def Let_def by (intro pres_intros)

lemma source_at_ends:
  assumes "source_context_at fs selection changed l sel cb ca rt1 = (Inr (Success v ws), rt')"
  shows "\<exists>rt2 r. moved id rt1 rt2 \<and> end_inspection selection changed r rt2 = (Inr (Success v ws), rt')"
  using assms moved_quiet [OF quiet_read_source] unfolding source_context_at_def
  by (blast elim!: or_restore_success)

lemma quiet_resolve:
  "pres (quiet_since base) (current_frame_location t f s)"
  "pres (quiet_since base) (resolve_info_line_location (''info line '' @ c) scope fn a)"
  unfolding current_frame_location_def resolve_info_line_location_def
  by (intro pres_intros quiet_default; simp add: cli_letter)+

lemma end_without_selection:
  "end_inspection None False r rt = (Inr (Success v ws), rt') \<Longrightarrow> rt' = rt"
  by (simp add: end_inspection_def restore_selection_if_changed_def exec_defs)


lemma ends_quietly:
  "\<exists>rt2 r. moved id rt1 rt2 \<and> end_inspection None False r rt2 = (Inr (Success v ws), rt') \<Longrightarrow> moved id rt1 rt'"
  by (auto dest: end_without_selection)

definition returns_to :: "int \<times> int \<Rightarrow> SessionRuntime \<Rightarrow> SessionRuntime \<Rightarrow> bool" where
  "returns_to sel rt rt' \<longleftrightarrow> (\<exists>lines. sent rt' = sent rt @ lines \<and> replay lines sel = sel)"

lemma returns_toI: "\<exists>E. moved E rt rt' \<and> E sel = sel \<Longrightarrow> returns_to sel rt rt'"
  by (auto simp: returns_to_def moved_def)

lemma returns_between:
  assumes "captured rt sel" and "begin_inspection b t f rt = (Inr (Success (selection, changed) ws), rt1)"
    and "\<exists>rt2 r. moved id rt1 rt2 \<and> end_inspection selection changed r rt2 = (Inr (Success v us), rt')"
  shows "returns_to sel rt rt'"
proof -
  obtain rt2 r where "moved id rt1 rt2" "end_inspection selection changed r rt2 = (Inr (Success v us), rt')"
    using assms(3) by blast
  from inspection_returns [OF assms(1,2) this] show ?thesis by (rule returns_toI)
qed

lemma returns_quiet: "moved id rt rt' \<Longrightarrow> returns_to sel rt rt'"
  by (rule returns_toI) (auto intro: exI [of _ id])

lemma backtrace_returns:
  assumes "captured rt sel" and "get_backtrace thread_id n rt = (Inr (Success v ws), rt')"
  shows "returns_to sel rt rt'"
proof (cases thread_id)
  case None
  with assms(2) obtain r rt2 x where m: "run_default (''-stack-list-frames 0 '' @ show_int (n - 1)) rt = (Inr r, rt2)"
    "end_inspection None False x rt2 = (Inr (Success v ws), rt')"
    unfolding get_backtrace_def restore_thread_def bindE_gets
    by (auto simp: ret_def op_success_def elim!: on_success_SuccessE bindE_InrE
        split: OperationResult.splits if_splits)
  from moved_quiet [OF quiet_default m(1)] quiet_list_frames have "moved id rt rt2" by blast
  with end_without_selection [OF m(2)] show ?thesis by (simp add: returns_quiet)
next
  case (Some t)
  let ?s = "\<lparr>sel_thread_id = Some (fst sel), sel_frame_number = Some (snd sel)\<rparr>"
  from assms Some obtain us0 rt0 rt1 r rt2 x where m: "capture_selection rt = (Inr (Success ?s us0), rt0)"
    "if Some (fst sel) = thread_id then rt1 = rt0
     else \<exists>u us. run_default (select_thread_command t) rt0 = (Inr (Success u us), rt1)"
    "run_default (''-stack-list-frames 0 '' @ show_int (n - 1)) rt1 = (Inr r, rt2)"
    "end_inspection (Some ?s) (Some (fst sel) \<noteq> thread_id) x rt2 = (Inr (Success v ws), rt')"
    unfolding get_backtrace_def restore_thread_def captured_def bindE_gets
    by (auto simp: ret_def op_success_def elim!: on_success_SuccessE bindE_InrE
        split: OperationResult.splits if_splits)
  have q: "moved id rt rt0" "moved id rt1 rt2"
    using moved_quiet [OF capture_quiet m(1)] moved_quiet [OF quiet_default m(3)] quiet_list_frames by auto
  have go: "\<exists>E. moved E rt0 rt1 \<and> (Some (fst sel) = thread_id \<longrightarrow> E = id)"
    using m(2) select_thread_moves [of t rt0] moved_sent [of rt0 rt0] by (auto split: if_splits)
  then obtain E where E: "moved E rt rt2" "Some (fst sel) = thread_id \<longrightarrow> E = id"
    using moved_trans [OF q(1)] moved_trans [OF _ q(2)] by (metis comp_id id_comp)
  have e: "(Some (fst sel) \<noteq> thread_id \<longrightarrow> moved (\<lambda>_. sel) rt2 rt') \<and> (Some (fst sel) = thread_id \<longrightarrow> rt' = rt2)"
    using end_inspection_moves [OF m(4)] by auto
  show ?thesis
  proof (cases "Some (fst sel) = thread_id")
    case False
    with e E(1) have "moved ((\<lambda>_. sel) \<circ> E) rt rt'" by (blast intro: moved_trans)
    then show ?thesis by (intro returns_toI) fastforce
  qed (use e E in \<open>auto intro!: returns_toI\<close>)
qed


lemma context_returns:
  assumes "captured rt sel"
    and "on_success (begin_inspection b t f) k rt = (Inr (Success v ws), rt')"
    and "\<And>selection changed rt1. k (selection, changed) rt1 = (Inr (Success v ws), rt') \<Longrightarrow>
       \<exists>rt2 r. moved id rt1 rt2 \<and> end_inspection selection changed r rt2 = (Inr (Success v ws), rt')"
  shows "returns_to sel rt rt'"
proof -
  obtain p us rt1 where p: "begin_inspection b t f rt = (Inr (Success p us), rt1)"
    "k p rt1 = (Inr (Success v ws), rt')"
    using assms(2) by (rule on_success_SuccessE)
  obtain selection changed where "p = (selection, changed)" by (cases p)
  with p show ?thesis by (auto intro: returns_between [OF assms(1)] assms(3))
qed

lemma run_then_end:
  assumes "bindE (run_default cmd) (\<lambda>r. end_inspection selection changed (g r)) rt1 = (Inr (Success v ws), rt')"
    and "quiet cmd \<or> is_cli_command cmd"
  shows "\<exists>rt2 x. moved id rt1 rt2 \<and> end_inspection selection changed x rt2 = (Inr (Success v ws), rt')"
  using assms(1) moved_quiet [OF quiet_default [OF assms(2)]] by (auto elim!: bindE_InrE)

lemma disassemble_returns:
  assumes "captured rt sel" and "disassemble t f place n m rt = (Inr (Success v ws), rt')"
  shows "returns_to sel rt rt'"
proof -
  have plain: "returns_to sel rt rt'" if "disassemble_at None False l n m rt = (Inr (Success v ws), rt')" for l
    by (rule returns_quiet [OF ends_quietly [OF disassemble_at_ends [OF that]]])
  show ?thesis
  proof (cases "cs_function place = None \<and> cs_address place = None \<and> cs_start_address place = None
      \<and> cs_end_address place = None \<and> cs_file place = None \<and> cs_line place = None")
    case True
    note op = assms(2) [unfolded disassemble_def Let_def if_P [OF True]]
    show ?thesis by (rule context_returns [OF assms(1) op], unfold prod.case bindE_gets) (rule disassemble_at_ends)
  next
    case False
    with assms(2) [unfolded disassemble_def Let_def if_not_P [OF False]] plain show ?thesis
      by (simp only: split: if_split_asm) (simp_all add: ret_def op_error_def)
  qed
qed

lemma source_returns:
  assumes "captured rt sel" and "get_source_context fs t f place cb ca rt = (Inr (Success v ws), rt')"
  shows "returns_to sel rt rt'"
proof -
  have plain: "moved id rt1 rt'" if "source_context_at fs None False l place cb ca rt1 = (Inr (Success v ws), rt')" for l rt1
    by (rule ends_quietly [OF source_at_ends [OF that]])
  have resolved: "returns_to sel rt rt'"
    if op: "on_success (resolve_info_line_location (''info line '' @ c) scope fn a)
          (\<lambda>l. source_context_at fs None False l place cb ca) rt = (Inr (Success v ws), rt')" for c scope fn a
  proof -
    obtain l us rt1 where l: "resolve_info_line_location (''info line '' @ c) scope fn a rt = (Inr (Success l us), rt1)"
      "source_context_at fs None False l place cb ca rt1 = (Inr (Success v ws), rt')"
      using op by (rule on_success_SuccessE)
    from moved_trans [OF moved_quiet [OF quiet_resolve(2) l(1)] plain [OF l(2)]] show ?thesis
      by (simp add: returns_quiet)
  qed
  have framed: "\<exists>rt2 r. moved id rt1 rt2 \<and> end_inspection selection changed r rt2 = (Inr (Success v ws), rt')"
    if op: "or_restore selection (current_frame_location t f selection)
          (\<lambda>l. source_context_at fs selection changed l place cb ca) rt1 = (Inr (Success v ws), rt')"
    for selection changed rt1
  proof -
    obtain l us rt2 where l: "current_frame_location t f selection rt1 = (Inr (Success l us), rt2)"
      "source_context_at fs selection changed l place cb ca rt2 = (Inr (Success v ws), rt')"
      using op by (rule or_restore_success)
    obtain rt3 r where e: "moved id rt2 rt3" "end_inspection selection changed r rt3 = (Inr (Success v ws), rt')"
      using source_at_ends [OF l(2)] by (elim exE conjE)
    from moved_trans [OF moved_quiet [OF quiet_resolve(1) l(1)] e(1)] e(2) show ?thesis by auto
  qed
  have star: "''info line *'' @ c = ''info line '' @ (''*'' @ c)" for c by simp
  show ?thesis
  proof (cases "cs_function place = None \<and> cs_address place = None \<and> cs_file place = None
      \<and> cs_line place = None \<and> cs_start_line place = None \<and> cs_end_line place = None")
    case True
    note op = assms(2) [unfolded get_source_context_def Let_def if_P [OF True]]
    show ?thesis by (rule context_returns [OF assms(1) op], unfold prod.case) (rule framed)
  next
    case False
    with assms(2) [unfolded get_source_context_def Let_def if_not_P [OF False] star] returns_quiet [OF plain] resolved
    show ?thesis by (simp only: split: if_split_asm) (simp_all add: ret_def op_error_def)
  qed
qed


section \<open>Properties\<close>

text \<open>
  C30. Inspecting another thread or frame leaves GDB where it was. When GDB reports a thread and a
  frame as selected and an inspection (variables, registers, an expression, a frame, a backtrace,
  a disassembly or source lines, in any thread and frame) succeeds, then the lines written for it,
  replayed on that selection, lead back to it.
\<close>

theorem inspection_restores_selection:
  assumes "captured rt sel"
  shows "(get_variables t k rt = (Inr (Success v1 ws), rt') \<longrightarrow> returns_to sel rt rt')
    \<and> (get_registers t f ns names vec mx hex rt = (Inr (Success v2 ws), rt') \<longrightarrow> returns_to sel rt rt')
    \<and> (evaluate_expression e t f rt = (Inr (Success v3 ws), rt') \<longrightarrow> returns_to sel rt rt')
    \<and> (get_frame_info t f rt = (Inr (Success v4 ws), rt') \<longrightarrow> returns_to sel rt rt')
    \<and> (get_backtrace t n rt = (Inr (Success v5 ws), rt') \<longrightarrow> returns_to sel rt rt')
    \<and> (disassemble t f place n mixed rt = (Inr (Success v6 ws), rt') \<longrightarrow> returns_to sel rt rt')
    \<and> (get_source_context fs t f place cb ca rt = (Inr (Success v7 ws), rt') \<longrightarrow> returns_to sel rt rt')"
proof (intro conjI impI)
  assume "get_variables t k rt = (Inr (Success v1 ws), rt')"
  then show "returns_to sel rt rt'" unfolding get_variables_def
    by (rule context_returns [OF assms], unfold prod.case) (erule run_then_end, simp)
next
  assume "get_registers t f ns names vec mx hex rt = (Inr (Success v2 ws), rt')"
  then show "returns_to sel rt rt'" unfolding get_registers_def
    by (rule context_returns [OF assms], unfold prod.case)
      (erule bindE_InrE, intro exI conjI moved_quiet [OF quiet_read_registers])
next
  assume "evaluate_expression e t f rt = (Inr (Success v3 ws), rt')"
  then show "returns_to sel rt rt'" unfolding evaluate_expression_def
    by (rule context_returns [OF assms], unfold prod.case)
      (erule run_then_end, simp add: build_evaluate_expression_command_def)
next
  assume "get_frame_info t f rt = (Inr (Success v4 ws), rt')"
  then show "returns_to sel rt rt'" unfolding get_frame_info_def
  proof (rule context_returns [OF assms], unfold prod.case)
    fix selection changed rt1
    assume "bindE (run_default ''-stack-info-frame'') (\<lambda>result. case result of
         Failure e \<Rightarrow> selection_error_with_restore selection e
       | Success v ws \<Rightarrow>
           (let info = frame_info_from_payload (mi_payload v);
                level = (case fri_frame info of None \<Rightarrow> PNone | Some d \<Rightarrow> dget d ''level'')
            in thenE (modify (mark_frame_selected (as_int level)))
                 (end_inspection selection changed (op_success info)))) rt1 = (Inr (Success v4 ws), rt')"
    then obtain v us rt2 l where r: "run_default ''-stack-info-frame'' rt1 = (Inr (Success v us), rt2)"
      "end_inspection selection changed (op_success (frame_info_from_payload (mi_payload v)))
         (mark_frame_selected l rt2) = (Inr (Success v4 ws), rt')"
      by (auto simp: Let_def modify_def selection_error_with_restore_def ret_def op_error_def
          elim!: bindE_InrE thenE_InrE split: OperationResult.splits option.splits)
    have "moved id rt1 (mark_frame_selected l rt2)"
      using moved_quiet [OF quiet_default r(1)] by (simp add: moved_def)
    with r(2) show "\<exists>rt2 r. moved id rt1 rt2 \<and> end_inspection selection changed r rt2 = (Inr (Success v4 ws), rt')"
      by blast
  qed
qed (blast intro: backtrace_returns [OF assms] disassemble_returns [OF assms] source_returns [OF assms])+


text \<open>A debugger in frame 2 of thread 1 that answers six commands.\<close>

definition answer_record :: "nat \<Rightarrow> (string \<times> pyv) list \<Rightarrow> read_outcome" where
  "answer_record token payload = Records 5 [[(''type'', PStr ''result''), (''message'', PStr ''done''),
     (''token'', PInt (int token)), (''payload'', PDict payload)]]"

definition two_threads :: SessionRuntime where
  "two_threads = ready_sample
     [answer_record 1000 [(''current-thread-id'', PStr ''1'')],
      answer_record 1001 [(''frame'', PDict [(''level'', PStr ''2'')])],
      answer_record 1002 [], answer_record 1003 [(''variables'', PList [])],
      answer_record 1004 [], answer_record 1005 []]"

lemma two_threads_captured: "captured two_threads (1, 2)"
proof -
  have "(case fst (capture_selection two_threads) of
      Inr (Success s ws) \<Rightarrow> s = \<lparr>sel_thread_id = Some 1, sel_frame_number = Some 2\<rparr> | _ \<Rightarrow> False)"
    by code_simp
  then show ?thesis
    by (cases "capture_selection two_threads") (auto simp: captured_def split: sum.splits OperationResult.splits)
qed

lemma two_threads_variables:
  obtains info ws rt' where "get_variables (Some 7) 2 two_threads = (Inr (Success info ws), rt')"
proof -
  have "(case fst (get_variables (Some 7) 2 two_threads) of Inr (Success i ws) \<Rightarrow> True | _ \<Rightarrow> False)"
    by code_simp
  then show thesis
    using that by (cases "get_variables (Some 7) 2 two_threads") (auto split: sum.splits OperationResult.splits)
qed

theorem inspection_restores_selection_witness:
  "\<exists>info ws rt'. get_variables (Some 7) 2 two_threads = (Inr (Success info ws), rt')
     \<and> returns_to (1, 2) two_threads rt'"
proof -
  obtain info ws rt' where g: "get_variables (Some 7) 2 two_threads = (Inr (Success info ws), rt')"
    by (rule two_threads_variables)
  from inspection_restores_selection [OF two_threads_captured, THEN conjunct1, THEN mp, OF g] g
  show ?thesis by blast
qed


text \<open>
  A frame number is compared with the frame selected in the old thread. When GDB is in frame
  \<open>k\<close> of some thread and the variables of frame \<open>k\<close> of another thread are asked for, no frame is
  selected after the thread: the variables that are returned as those of frame \<open>k\<close> were listed
  with the topmost frame of that thread selected.
\<close>

theorem variables_of_topmost_frame:
  assumes "captured rt (old, k)" and "old \<noteq> t"
    and "get_variables (Some t) k rt = (Inr (Success info ws), rt')"
  shows "vri_frame info = k \<and> vri_thread_id info = Some t
    \<and> (\<exists>rt1 lines v us rt2. sent rt1 = sent rt @ lines \<and> replay lines (old, k) = (t, 0)
         \<and> run_default ''-stack-list-variables --simple-values'' rt1 = (Inr (Success v us), rt2)
         \<and> vri_variables info = variable_records (mi_payload v))"
proof -
  let ?s = "\<lparr>sel_thread_id = Some old, sel_frame_number = Some k\<rparr>"
  obtain p us0 rt1 where b: "begin_inspection True (Some t) (Some k) rt = (Inr (Success p us0), rt1)"
    "(case p of (selection, changed) \<Rightarrow>
       bindE (run_default ''-stack-list-variables --simple-values'') (\<lambda>result.
         end_inspection selection changed (case result of Failure e \<Rightarrow> Failure e
           | Success v ws \<Rightarrow> op_success (variables_info_from_payload
               (if Some t \<noteq> None then Some t else Option.bind selection sel_thread_id) k (mi_payload v))))) rt1
       = (Inr (Success info ws), rt')"
    using assms(3) unfolding get_variables_def by (rule on_success_SuccessE)
  from b(1) assms(1) obtain us1 rt0 where c: "capture_selection rt = (Inr (Success ?s us1), rt0)"
    "select_for_inspection (Some ?s) (Some t) (Some k) rt0 = (Inr (snd p, None), rt1)" "fst p = Some ?s"
    unfolding begin_inspection_def captured_def
    by (auto simp: ret_def op_success_def op_error_def selection_error_with_restore_def
        elim!: on_success_SuccessE bindE_InrE split: option.splits)
  then obtain v0 us2 where "run_default (select_thread_command t) rt0 = (Inr (Success v0 us2), rt1)"
    using assms(2) by (auto simp: select_for_inspection_def select_step_def ret_def bindE_ret_left
        elim!: bindE_InrE split: OperationResult.splits if_splits)
  from moved_trans [OF moved_quiet [OF capture_quiet c(1)] select_thread_moves [OF this]]
  have "moved (\<lambda>_. (t, 0)) rt rt1" by (simp add: comp_def)
  moreover from b(2) c(3) obtain v us rt2 where "run_default ''-stack-list-variables --simple-values'' rt1 = (Inr (Success v us), rt2)"
    "info = variables_info_from_payload (Some t) k (mi_payload v)"
    by (cases p) (auto simp: end_inspection_def restore_selection_if_changed_def ret_def op_success_def
        elim!: bindE_InrE split: option.splits OperationResult.splits)
  moreover from calculation(1) obtain lines where "sent rt1 = sent rt @ lines" "replay lines (old, k) = (t, 0)"
    by (auto simp: moved_def)
  moreover from calculation(3) have "vri_frame info = k" "vri_thread_id info = Some t"
    "vri_variables info = variable_records (mi_payload v)"
    by (simp_all add: variables_info_from_payload_def)
  ultimately show ?thesis by blast
qed

theorem variables_of_topmost_frame_witness:
  "\<exists>info ws rt'. get_variables (Some 7) 2 two_threads = (Inr (Success info ws), rt') \<and> vri_frame info = 2"
proof -
  obtain info ws rt' where g: "get_variables (Some 7) 2 two_threads = (Inr (Success info ws), rt')"
    by (rule two_threads_variables)
  from variables_of_topmost_frame [OF two_threads_captured _ g] g show ?thesis by auto
qed


end
