(* ===== verification/Workflow_Correct.thy ===== *)
theory Workflow_Correct
  imports Workflow Inspection_Correct
begin

text \<open>
  Correctness of batches: a batch is the sequence of its steps up to the first failure, and what it
  reports of each step is what the step returned.
\<close>

section \<open>The sequence of steps\<close>

text \<open>The specification: the operations one after the other, with all their results.\<close>

fun run_all :: "pyv OperationResult capture list \<Rightarrow> pyv OperationResult list capture" where
  "run_all [] = ret []"
| "run_all (m # ms) = bindE m (\<lambda>r. bindE (run_all ms) (\<lambda>rs. ret (r # rs)))"

definition errors :: "'a OperationResult list \<Rightarrow> nat" where
  "errors rs = length (filter is_failure rs)"

lemma errors_simps [simp]: "errors [] = 0" "errors (r # rs) = (if is_failure r then Suc (errors rs) else errors rs)"
  by (simp_all add: errors_def)

text \<open>The report of a step is made from the step and its result.\<close>

definition reports :: "BatchStepInvocation \<Rightarrow> pyv OperationResult \<Rightarrow> BatchStepResult \<Rightarrow> bool" where
  "reports step r b \<longleftrightarrow> bsr_tool b = bsi_tool step \<and> bsr_label b = bsi_label step
     \<and> result_to_mapping r = Inr (bsr_result b) \<and> (is_failure r \<longrightarrow> bsr_status b = ''error'')"

lemma split_details_keeps:
  "key \<in> set reserved_error_keys \<Longrightarrow> dget (fst (split_error_details etop nested ds)) key = dget etop key"
proof (induction ds arbitrary: etop nested)
  case (Cons d ds)
  have "''action'' \<notin> set reserved_error_keys" "''tool'' \<notin> set reserved_error_keys"
    by (simp_all add: reserved_error_keys_def)
  with Cons show ?case
    by (cases d) (auto simp: error_top_level_detail_keys_def simp del: dget_dset simp: dget_dset)
qed simp

lemma failure_status:
  assumes "result_to_mapping (Failure e) = Inr d"
  shows "dget d ''status'' = PStr ''error''"
proof -
  have r: "''status'' \<in> set reserved_error_keys" by (simp add: reserved_error_keys_def)
  show ?thesis using assms
    by (auto simp: result_to_mapping_def Let_def case_prod_beta split_details_keeps [OF r]
        split: sum.splits pyv.splits if_splits)
qed

lemma execute_step_reports:
  assumes "execute_step capture index step rt = (Inr (b, failed), rt')"
  obtains r where "bsi_execute step rt = (Inr r, rt')" "failed = is_failure r" "reports step r b"
    "bsr_index b = index"
    "bsr_stop_event b = (if capture then step_stop_event (length (rt_stop_history (cs_runtime rt))) (cs_runtime rt') else None)"
proof -
  from assms obtain r d where r: "bsi_execute step rt = (Inr r, rt')" "result_to_mapping r = Inr d"
    "b = batch_step_result index step r d
       (if capture then step_stop_event (length (rt_stop_history (cs_runtime rt))) (cs_runtime rt') else None)" "failed = is_failure r"
    unfolding execute_step_def
    by (auto simp: gets_def ret_def from_sum_def bindE_def split: prod.splits sum.splits if_splits)
  moreover have "reports step r b"
    unfolding reports_def r(3) batch_step_result_def using r(2) failure_status
    by (cases r) (simp_all add: as_text_def)
  ultimately show thesis using that by (simp add: batch_step_result_def)
qed

text \<open>The reports of a run of steps, numbered from an index.\<close>

definition all_reported ::
  "nat \<Rightarrow> BatchStepInvocation list \<Rightarrow> pyv OperationResult list \<Rightarrow> BatchStepResult list \<Rightarrow> bool" where
  "all_reported start steps rs bs \<longleftrightarrow> length rs = length bs \<and> length bs \<le> length steps
     \<and> (\<forall>i < length bs. reports (steps ! i) (rs ! i) (bs ! i) \<and> bsr_index (bs ! i) = start + i)"

lemma all_reported_Nil: "all_reported start steps [] []"
  by (simp add: all_reported_def)

lemma all_reported_Cons:
  assumes "reports step r b" "bsr_index b = start" "all_reported (Suc start) steps rs bs"
  shows "all_reported start (step # steps) (r # rs) (b # bs)"
  using assms by (auto simp: all_reported_def nth_Cons split: nat.splits)

lemma batch_loop_correct:
  assumes "batch_loop fail_fast capture steps results n rt = (Inr (out, n', stop), rt')"
  shows "\<exists>rs bs. out = results @ bs \<and> all_reported (length results) steps rs bs
    \<and> run_all (map bsi_execute (take (length bs) steps)) rt = (Inr rs, rt')
    \<and> n' = n + errors rs
    \<and> (case stop of
         None \<Rightarrow> length bs = length steps \<and> (fail_fast \<longrightarrow> errors rs = 0)
       | Some j \<Rightarrow> fail_fast \<and> bs \<noteq> [] \<and> Suc j = length results + length bs
           \<and> is_failure (last rs) \<and> errors (butlast rs) = 0)"
  using assms
proof (induction steps arbitrary: results n rt)
  case Nil
  then show ?case by (auto simp: ret_def all_reported_Nil)
next
  case (Cons step steps)
  from Cons.prems obtain b failed rt1 where
    step: "execute_step capture (length results) step rt = (Inr (b, failed), rt1)"
    and rest: "(if failed \<and> fail_fast then ret (results @ [b], n + 1, Some (length results))
       else batch_loop fail_fast capture steps (results @ [b]) (if failed then n + 1 else n)) rt1
         = (Inr (out, n', stop), rt')"
    by (auto elim!: bindE_InrE)
  from execute_step_reports [OF step] obtain r where r: "bsi_execute step rt = (Inr r, rt1)"
    "failed = is_failure r" "reports step r b" "bsr_index b = length results" by blast
  show ?case
  proof (cases "failed \<and> fail_fast")
    case True
    with rest r have "out = results @ [b] \<and> all_reported (length results) (step # steps) [r] [b]
      \<and> run_all (map bsi_execute (take (length [b]) (step # steps))) rt = (Inr [r], rt')
      \<and> n' = n + errors [r] \<and> stop = Some (length results)"
      using all_reported_Cons [OF r(3,4) all_reported_Nil] by (auto simp: ret_def bindE_def)
    with True r(2) show ?thesis by (intro exI [of _ "[r]"] exI [of _ "[b]"]) simp
  next
    case False
    with rest have "batch_loop fail_fast capture steps (results @ [b]) (if failed then n + 1 else n) rt1
      = (Inr (out, n', stop), rt')" by simp
    from Cons.IH [OF this] obtain rs bs where ih: "out = (results @ [b]) @ bs"
      "all_reported (Suc (length results)) steps rs bs"
      "run_all (map bsi_execute (take (length bs) steps)) rt1 = (Inr rs, rt')"
      "n' = (if failed then n + 1 else n) + errors rs"
      "case stop of
         None \<Rightarrow> length bs = length steps \<and> (fail_fast \<longrightarrow> errors rs = 0)
       | Some j \<Rightarrow> fail_fast \<and> bs \<noteq> [] \<and> Suc j = length (results @ [b]) + length bs
           \<and> is_failure (last rs) \<and> errors (butlast rs) = 0"
      by auto
    have len: "rs = [] \<longleftrightarrow> bs = []" using ih(2) by (auto simp: all_reported_def)
    have "run_all (map bsi_execute (take (length (b # bs)) (step # steps))) rt = (Inr (r # rs), rt')"
      using r(1) ih(3) by (simp add: bindE_def ret_def)
    with all_reported_Cons [OF r(3,4) ih(2)] ih False r(2) len show ?thesis
      by (intro exI [of _ "r # rs"] exI [of _ "b # bs"]) (auto split: option.splits)
  qed
qed

section \<open>Properties\<close>

text \<open>
  C7. A batch is the sequence of its steps. When a batch returns, it has executed a prefix of its
  steps in order, each exactly once and with no other effect: the session is as the sequence leaves
  it. Every executed step is reported in its place, with its own tool, label, index and serialised
  result. The number of errors is the number of steps that failed. With \<open>fail_fast\<close> the batch ends at
  the first failing step and names its index, and it runs to the end when no step fails; without it
  every step is executed.
\<close>

theorem batch_is_sequence:
  assumes "execute_batch steps fail_fast capture rt = (Inr res, rt')"
  shows "\<exists>info rs. res = Success info [] \<and> bei_count info = length steps
    \<and> bei_completed_steps info = length (bei_steps info)
    \<and> all_reported 0 steps rs (bei_steps info)
    \<and> run_all (map bsi_execute (take (bei_completed_steps info) steps)) rt = (Inr rs, rt')
    \<and> bei_error_count info = errors rs
    \<and> bei_stopped_early info = (fail_fast \<and> 0 < errors rs)
    \<and> (if fail_fast \<and> 0 < errors rs
       then is_failure (last rs) \<and> errors (butlast rs) = 0
         \<and> bei_failure_step_index info = Some (bei_completed_steps info - 1)
       else bei_completed_steps info = length steps \<and> bei_failure_step_index info = None)"
proof -
  from assms obtain out n stop info where loop: "batch_loop fail_fast capture steps [] 0 rt = (Inr (out, n, stop), rt')"
    and info: "res = Success info []" "bei_steps info = out" "bei_count info = length steps"
      "bei_completed_steps info = length out" "bei_error_count info = n"
      "bei_stopped_early info = (stop \<noteq> None)" "bei_failure_step_index info = stop"
    unfolding execute_batch_def by (auto simp: gets_def op_success_def Let_def elim!: bindE_InrE)
  from batch_loop_correct [OF loop, unfolded list.size(3) add_0_left append_Nil] obtain rs where rs: "all_reported 0 steps rs out"
    "run_all (map bsi_execute (take (length out) steps)) rt = (Inr rs, rt')" "n = errors rs"
    "case stop of
         None \<Rightarrow> length out = length steps \<and> (fail_fast \<longrightarrow> errors rs = 0)
       | Some j \<Rightarrow> fail_fast \<and> out \<noteq> [] \<and> Suc j = length out \<and> is_failure (last rs) \<and> errors (butlast rs) = 0"
    by blast
  have pos: "0 < errors rs" if "stop = Some j" for j
    using rs(1,4) that by (cases rs rule: rev_cases) (auto simp: all_reported_def errors_def)
  show ?thesis
    using info rs pos by (intro exI [of _ info] exI [of _ rs]) (auto split: option.splits)
qed


text \<open>Three steps on a fresh session: the second fails, the third is not executed.\<close>

definition sample_step :: "string \<Rightarrow> pyv OperationResult \<Rightarrow> BatchStepInvocation" where
  "sample_step tool r = \<lparr>bsi_tool = tool,
     bsi_execute = thenE (on_runtime (modify (record_stop_event sample_stop_event))) (ret r), bsi_label = None\<rparr>"

definition sample_batch :: "BatchStepInvocation list" where
  "sample_batch = [sample_step ''a'' (op_success PNone), sample_step ''b'' (op_error ''no''), sample_step ''c'' (op_success PNone)]"

definition without_files :: "SessionRuntime \<Rightarrow> capture_state" where
  "without_files rt = \<lparr>cs_runtime = rt, cs_disk = \<lparr>dk_dirs = [], dk_files = [], dk_outcomes = []\<rparr>\<rparr>"

definition batch_summary :: "exn + BatchExecutionInfo OperationResult \<Rightarrow> (nat \<times> nat \<times> nat option) option" where
  "batch_summary r = (case r of Inr (Success i ws) \<Rightarrow>
     Some (bei_completed_steps i, bei_error_count i, bei_failure_step_index i) | _ \<Rightarrow> None)"

theorem batch_is_sequence_witness:
  "\<exists>info rt'. execute_batch sample_batch True True (without_files (ready_sample [])) = (Inr (Success info []), rt')
     \<and> bei_completed_steps info = 2 \<and> bei_error_count info = 1 \<and> bei_failure_step_index info = Some 1"
proof -
  have run: "batch_summary (fst (execute_batch sample_batch True True (without_files (ready_sample [])))) = Some (2, 1, Some 1)"
    by code_simp
  obtain r rt' where eq: "execute_batch sample_batch True True (without_files (ready_sample [])) = (r, rt')"
    by (cases "execute_batch sample_batch True True (without_files (ready_sample []))")
  with run obtain res where res: "r = Inr res" by (auto simp: batch_summary_def split: sum.splits)
  from batch_is_sequence [OF eq [unfolded res]] obtain info where info: "res = Success info []"
    by blast
  with run eq res show ?thesis by (auto simp: batch_summary_def)
qed

text \<open>
  The stop event of a step is lost once the history is full. A step that records a stop is
  reported with that stop event as long as the bounded history has room; when the history holds as
  many events as it may, recording drops the oldest one, the length does not grow, and the step is
  reported without a stop event.
\<close>

theorem batch_stop_event_when_full:
  assumes "execute_step True index step rt = (Inr (b, failed), rt')"
    and "rt_stop_history (cs_runtime rt') = rt_stop_history (record_stop_event e (cs_runtime rt))"
    and "history_ok (cs_runtime rt)" and "1 \<le> rt_stop_history_limit (cs_runtime rt)"
  shows "bsr_stop_event b =
    (if int (length (rt_stop_history (cs_runtime rt))) < rt_stop_history_limit (cs_runtime rt) then Some e else None)"
proof -
  from execute_step_reports [OF assms(1)]
  have b: "bsr_stop_event b = step_stop_event (length (rt_stop_history (cs_runtime rt))) (cs_runtime rt')" by auto
  have "int (length (rt_stop_history (cs_runtime rt))) \<le> rt_stop_history_limit (cs_runtime rt)"
    using assms(3,4) by (simp add: history_ok_def)
  then show ?thesis unfolding b using assms(2,4)
    by (auto simp: step_stop_event_def record_stop_event_def trim_history_def Let_def)
qed

definition full_history :: SessionRuntime where
  "full_history = (record_stop_event sample_stop_event (ready_sample []))\<lparr>rt_stop_history_limit := 1\<rparr>"

theorem batch_stop_event_when_full_witness:
  "\<exists>b failed rt'. execute_step True 0 (sample_step ''a'' (op_success PNone)) (without_files full_history) = (Inr (b, failed), rt')
     \<and> rt_last_stop_event (cs_runtime rt') = Some sample_stop_event \<and> bsr_stop_event b = None"
proof -
  let ?x = "execute_step True 0 (sample_step ''a'' (op_success PNone)) (without_files full_history)"
  have run: "(case fst ?x of Inr p \<Rightarrow> True | _ \<Rightarrow> False)" by code_simp
  have len: "length (rt_stop_history full_history) = 1" "rt_stop_history_limit full_history = 1"
    "history_ok full_history" by code_simp+
  obtain b failed rt' where x: "?x = (Inr (b, failed), rt')"
    using run by (cases ?x) (auto split: sum.splits)
  have rt': "cs_runtime rt' = record_stop_event sample_stop_event full_history"
    using x unfolding execute_step_def sample_step_def
    by (auto simp: gets_def ret_def from_sum_def bindE_def thenE_def modify_def on_runtime_def zoom_def
        without_files_def split: sum.splits)
  have "bsr_stop_event b = None"
    using batch_stop_event_when_full [OF x, of sample_stop_event] rt' len
    by (simp add: without_files_def)
  moreover have "rt_last_stop_event (cs_runtime rt') = Some sample_stop_event" unfolding rt' by (simp add: record_stop_event_def)
  ultimately show ?thesis using x by blast
qed

section \<open>Invariants\<close>

lemma pres_batch_loop:
  "(\<And>step. step \<in> set steps \<Longrightarrow> pres I (bsi_execute step)) \<Longrightarrow> pres I (batch_loop ff cap steps results n)"
proof (induction steps arbitrary: results n)
  case (Cons step steps)
  show ?case unfolding batch_loop.simps execute_step_def by (intro pres_intros Cons) simp_all
qed (simp add: pres_intros)

lemma pres_execute_batch:
  "(\<And>step. step \<in> set steps \<Longrightarrow> pres I (bsi_execute step)) \<Longrightarrow> pres I (execute_batch steps ff cap)"
  unfolding execute_batch_def by (intro pres_intros pres_batch_loop)

lemma pres_batch_templates:
  "(\<And>step. step \<in> set steps \<Longrightarrow> pres I (bst_execute step)) \<Longrightarrow> pres I (execute_batch_templates steps ff cap)"
  unfolding execute_batch_templates_def by (rule pres_execute_batch) (auto simp: build_invocation_def)

end
