(* ===== verification/Capture_Correct.thy ===== *)
theory Capture_Correct
  imports Capture Workflow_Correct
begin

text \<open>
  Correctness of capture bundles: which requests are accepted, what a bundle holds, and that
  capturing keeps the session.
\<close>

section \<open>Requests\<close>

text \<open>The specification of the limits on memory ranges.\<close>

definition range_ok :: "MemoryCaptureRange \<Rightarrow> bool" where
  "range_ok r \<longleftrightarrow> 1 \<le> mcr_count r \<and> mcr_count r \<le> 4096 \<and> 0 \<le> mcr_offset r
     \<and> (\<forall>name. mcr_name r = Some name \<longrightarrow> strip name \<noteq> [])"

definition range_names :: "MemoryCaptureRange list \<Rightarrow> string list" where
  "range_names rs = List.map_filter mcr_name rs"

lemma range_names_simps [simp]:
  "range_names [] = []"
  "range_names (r # rs) = (case mcr_name r of None \<Rightarrow> range_names rs | Some n \<Rightarrow> n # range_names rs)"
  by (simp_all add: range_names_def List.map_filter_simps split: option.splits)

lemma counts_positive: "\<forall>r \<in> set rs. range_ok r \<Longrightarrow> 0 \<le> (\<Sum>r\<leftarrow>rs. mcr_count r)"
  by (induction rs) (auto simp: range_ok_def)

lemma validate_ranges_iff:
  "used \<le> 65536 \<Longrightarrow> validate_ranges index used names rs = None \<longleftrightarrow>
     (\<forall>r \<in> set rs. range_ok r) \<and> used + (\<Sum>r\<leftarrow>rs. mcr_count r) \<le> 65536
     \<and> distinct (range_names rs) \<and> set names \<inter> set (range_names rs) = {}"
proof (induction rs arbitrary: index used names)
  case (Cons r rs)
  show ?case
  proof (cases "range_ok r \<and> used + mcr_count r \<le> 65536")
    case False
    then have "validate_ranges index used names (r # rs) \<noteq> None"
      by (auto simp: range_ok_def max_range_bytes_def max_total_bytes_def Let_def split: option.splits)
    moreover have "\<not> ((\<forall>r \<in> set (r # rs). range_ok r) \<and> used + (\<Sum>r\<leftarrow>r # rs. mcr_count r) \<le> 65536)"
      using False counts_positive [of rs] by auto
    ultimately show ?thesis by blast
  next
    case True
    then have c: "\<not> mcr_count r < 1" "\<not> mcr_offset r < 0" "\<not> mcr_count r > max_range_bytes"
      "\<not> used + mcr_count r > max_total_bytes"
      by (auto simp: range_ok_def max_range_bytes_def max_total_bytes_def)
    show ?thesis
    proof (cases "mcr_name r")
      case None
      with True c show ?thesis using Cons.IH [of "used + mcr_count r"] by (simp add: add.assoc)
    next
      case (Some name)
      with True have "strip name \<noteq> []" by (auto simp: range_ok_def)
      with True c Some show ?thesis using Cons.IH [of "used + mcr_count r" "index + 1" "name # names"]
        by (auto simp: add.assoc)
    qed
  qed
qed simp

section \<open>Files of a bundle\<close>

definition payload_status :: "pyv \<Rightarrow> string" where
  "payload_status v = (case v of
       PDict d \<Rightarrow> (case dget d ''status'' of PStr s \<Rightarrow> s | _ \<Rightarrow> ''success'')
     | _ \<Rightarrow> ''success'')"

text \<open>An artifact is a file that was written: a JSON value with the status that is reported.\<close>

definition recorded :: "path_env \<Rightarrow> string \<Rightarrow> CaptureArtifactInfo \<Rightarrow> string \<times> pyv \<Rightarrow> bool" where
  "recorded env dir a f \<longleftrightarrow> fst f = path_join dir (cai_name a @ ''.json'') \<and> cai_path a = pe_resolve env (fst f)
     \<and> is_json (snd f) \<and> cai_status a = payload_status (snd f)"

definition bundle_inv ::
  "path_env \<Rightarrow> string \<Rightarrow> (string \<times> pyv) list \<Rightarrow> progress \<Rightarrow> capture_state \<Rightarrow> bool" where
  "bundle_inv env dir base pr s \<longleftrightarrow>
     (\<exists>fs. dk_files (cs_disk s) = base @ fs \<and> list_all2 (recorded env dir) (fst pr) fs)
     \<and> (\<forall>a \<in> set (fst pr). cai_status a = ''error'' \<longrightarrow> cai_name a \<in> set (snd pr))"

lemma bundle_inv_more: "bundle_inv env dir base (arts, failed) s \<Longrightarrow> set failed \<subseteq> set failed' \<Longrightarrow>
    bundle_inv env dir base (arts, failed') s"
  by (auto simp: bundle_inv_def)

abbreviation yields :: "(capture_state \<Rightarrow> bool) \<Rightarrow> 'a capture \<Rightarrow> ('a \<Rightarrow> capture_state \<Rightarrow> bool) \<Rightarrow> bool" where
  "yields P m Q \<equiv> hoare P m Q (\<lambda>_ _. True)"

lemma bundle_inv_runtime: "yields (bundle_inv env dir base pr) (on_runtime m) (\<lambda>_. bundle_inv env dir base pr)"
  by (auto simp: hoare_def on_runtime_def zoom_def bundle_inv_def split: prod.splits sum.splits)

lemma yields_from_sum: "yields P (from_sum r) (\<lambda>x s. r = Inr x \<and> P s)"
  by (auto simp: hoare_def from_sum_def split: sum.splits)

text \<open>An artifact can be added with any list of failed sections that has the old ones, and this one
  if it failed.\<close>

definition addable ::
  "path_env \<Rightarrow> string \<Rightarrow> (string \<times> pyv) list \<Rightarrow> progress \<Rightarrow> string \<Rightarrow> CaptureArtifactInfo \<Rightarrow> capture_state \<Rightarrow> bool" where
  "addable env dir base pr name a s \<longleftrightarrow> cai_name a = name
     \<and> (\<forall>failed. set (snd pr) \<subseteq> set failed \<longrightarrow> (cai_status a = ''error'' \<longrightarrow> name \<in> set failed) \<longrightarrow>
          bundle_inv env dir base (fst pr @ [a], failed) s)"

lemma addableD:
  "addable env dir base pr name a s \<Longrightarrow> set (snd pr) \<subseteq> set failed \<Longrightarrow>
     (cai_status a = ''error'' \<Longrightarrow> name \<in> set failed) \<Longrightarrow> bundle_inv env dir base (fst pr @ [a], failed) s"
  by (simp add: addable_def)

lemma write_payload_records:
  "yields (bundle_inv env dir base pr) (write_payload_artifact env dir name v)
     (\<lambda>a s. (\<exists>j. payload_to_mapping v = Inr j \<and> cai_status a = payload_status j) \<and> addable env dir base pr name a s)"
proof (rule hoareI)
  fix s a s'
  assume inv: "bundle_inv env dir base pr s" and w: "write_payload_artifact env dir name v s = (Inr a, s')"
  from w obtain j where j: "payload_to_mapping v = Inr j"
    "dk_files (cs_disk s') = dk_files (cs_disk s) @ [(path_join dir (name @ ''.json''), j)]"
    "cai_name a = name" "cai_path a = pe_resolve env (path_join dir (name @ ''.json''))"
    "cai_status a = payload_status j"
    unfolding write_payload_artifact_def Let_def
    by (auto simp: from_sum_def write_file_def disk_call_def zoom_def ret_def payload_status_def
        elim!: bindE_InrE thenE_InrE split: list.splits option.splits)
  have "is_json j" using payload_json_aux(1) j(1) by blast
  then have rec: "recorded env dir a (path_join dir (name @ ''.json''), j)"
    using j by (simp add: recorded_def)
  from inv obtain fs where fs: "dk_files (cs_disk s) = base @ fs" "list_all2 (recorded env dir) (fst pr) fs"
    "\<forall>a \<in> set (fst pr). cai_status a = ''error'' \<longrightarrow> cai_name a \<in> set (snd pr)"
    by (auto simp: bundle_inv_def)
  have "list_all2 (recorded env dir) (fst pr @ [a]) (fs @ [(path_join dir (name @ ''.json''), j)])"
    using fs(2) rec by (intro list_all2_appendI) simp_all
  with fs j(2) have "bundle_inv env dir base (fst pr @ [a], failed) s'"
    if "set (snd pr) \<subseteq> set failed" "cai_status a = ''error'' \<longrightarrow> name \<in> set failed" for failed
    using that j(3) unfolding bundle_inv_def by auto
  with j show "(\<exists>j. payload_to_mapping v = Inr j \<and> cai_status a = payload_status j) \<and> addable env dir base pr name a s'"
    unfolding addable_def by blast
qed simp

text \<open>A section takes a bundle in progress to a bundle in progress.\<close>

definition section_ok :: "path_env \<Rightarrow> string \<Rightarrow> (progress \<Rightarrow> progress capture) \<Rightarrow> bool" where
  "section_ok env dir sec \<longleftrightarrow>
     (\<forall>base pr. yields (bundle_inv env dir base pr) (sec pr) (\<lambda>pr'. bundle_inv env dir base pr'))"

lemma section_okI:
  "(\<And>base pr. yields (bundle_inv env dir base pr) (sec pr) (\<lambda>pr'. bundle_inv env dir base pr')) \<Longrightarrow> section_ok env dir sec"
  by (simp add: section_ok_def)

lemma section_okD:
  "section_ok env dir sec \<Longrightarrow> yields (bundle_inv env dir base pr) (sec pr) (\<lambda>pr'. bundle_inv env dir base pr')"
  unfolding section_ok_def by blast

text \<open>A payload whose JSON form cannot say that it is an error.\<close>

definition plain_payload :: "pyv \<Rightarrow> bool" where
  "plain_payload v \<longleftrightarrow> (\<forall>j. payload_to_mapping v = Inr j \<longrightarrow> payload_status j \<noteq> ''error'')"

lemma dset_keys: "fst ` set (dset k v d) = insert k (fst ` set d)"
  by (induction d) auto

lemma payload_items_keys: "payload_items acc fs = Inr d \<Longrightarrow> fst ` set d = fst ` set acc \<union> fst ` set fs"
proof (induction fs arbitrary: acc)
  case (Cons f fs)
  then obtain j where "payload_items (dset (fst f) j acc) fs = Inr d" by (cases f) (auto split: sum.splits)
  from Cons.IH [OF this] show ?case by (simp add: dset_keys)
qed simp

lemma no_status: "''status'' \<notin> fst ` set d \<Longrightarrow> payload_status (PDict d) \<noteq> ''error''"
proof -
  assume "''status'' \<notin> fst ` set d"
  then have "dget d ''status'' = PNone" by (simp add: dget_def map_of_eq_None_iff [THEN iffD2])
  then show ?thesis by (simp add: payload_status_def)
qed

lemma plain_PData: "''status'' \<notin> fst ` set fs \<Longrightarrow> plain_payload (PData c fs)"
  unfolding plain_payload_def using no_status payload_items_keys [of "[]" fs]
  by (auto split: sum.splits)

lemma plain_PDict: "''status'' \<notin> fst ` set fs \<Longrightarrow> plain_payload (PDict fs)"
  unfolding plain_payload_def using no_status payload_items_keys [of "[]" fs]
  by (auto split: sum.splits)

lemma plain_PList: "plain_payload (PList xs)"
  by (auto simp: plain_payload_def payload_status_def split: sum.splits)

lemma plain_stop_event: "plain_payload (opt_pyv stop_event_pyv e)"
  by (cases e) (auto simp: opt_pyv_def stop_event_pyv_def plain_payload_def [of PNone] payload_status_def
      intro!: plain_PData)

lemma hoare_pure: "(p \<Longrightarrow> hoare P m Q E) \<Longrightarrow> hoare (\<lambda>s. p \<and> P s) m Q E"
  by (auto simp: hoare_def)

lemma write_plain_records:
  "plain_payload v \<Longrightarrow> yields (bundle_inv env dir base pr) (write_payload_artifact env dir name v)
     (\<lambda>a s. cai_name a = name \<and> bundle_inv env dir base (fst pr @ [a], snd pr) s)"
  by (rule hoare_weaken [OF write_payload_records]) (auto simp: plain_payload_def addable_def)

lemma payload_section_ok:
  assumes "plain_payload v"
  shows "section_ok env dir (payload_section env dir name v)"
  unfolding payload_section_def
  by (intro section_okI hoare_bind [OF write_plain_records [OF assms]] hoare_ret) simp

lemma write_result_records:
  "yields (bundle_inv env dir base pr) (write_result_artifact env dir name r)
     (\<lambda>x. addable env dir base pr name (fst x))"
proof -
  have w: "yields (\<lambda>s. r' = Inr p \<and> bundle_inv env dir base pr s) (write_payload_artifact env dir name v)
      (addable env dir base pr name)" for r' p v
    by (rule hoare_weaken [OF write_payload_records]) auto
  show ?thesis unfolding write_result_artifact_def
    by (rule hoare_bind [OF yields_from_sum], rule hoare_bind [OF w]) (simp add: hoare_def ret_def)
qed

lemma result_section_records:
  "yields (bundle_inv env dir base pr) (result_section env dir name r pr) (\<lambda>x. bundle_inv env dir base (fst x))"
  unfolding result_section_def
  by (rule hoare_bind [OF write_result_records]) (auto simp: hoare_def ret_def intro!: addableD)

lemma inspection_section_ok: "section_ok env dir (inspection_section env dir name m)"
  unfolding inspection_section_def
  by (intro section_okI hoare_bind [OF bundle_inv_runtime] hoare_bind [OF result_section_records])
    (auto simp: hoare_def ret_def)

lemma listed_result_keeps: "yields (bundle_inv env dir base pr) (listed_result m extra) (\<lambda>_. bundle_inv env dir base pr)"
  unfolding listed_result_def
  by (rule hoare_bind [OF bundle_inv_runtime], rule hoare_bind [OF yields_from_sum],
      rule hoare_weaken [OF yields_from_sum [of "bundle_inv env dir base pr"]]) auto

lemma listed_results_keep:
  assumes "\<And>x pr. yields (bundle_inv env dir base pr) (call x) (\<lambda>_. bundle_inv env dir base pr)"
  shows "yields (bundle_inv env dir base (arts, failed)) (listed_results call nm xs payloads failed)
           (\<lambda>x. bundle_inv env dir base (arts, snd x))"
proof (induction xs arbitrary: payloads failed)
  case (Cons x xs)
  show ?case unfolding listed_results.simps
    by (rule hoare_bind [OF assms [of "(arts, failed)" x]], rule hoare_weaken [OF Cons.IH])
      (auto intro: bundle_inv_more)
qed (simp add: hoare_def ret_def)

lemma list_section_ok:
  assumes "\<And>base x pr. yields (bundle_inv env dir base pr) (call x) (\<lambda>_. bundle_inv env dir base pr)"
  shows "section_ok env dir (list_section env dir name call nm xs)"
proof (rule section_okI)
  fix base pr
  show "yields (bundle_inv env dir base pr) (list_section env dir name call nm xs pr) (\<lambda>pr'. bundle_inv env dir base pr')"
    unfolding list_section_def
  proof (rule hoare_bind)
    show "yields (bundle_inv env dir base pr) (listed_results call nm xs [] (snd pr))
        (\<lambda>x. bundle_inv env dir base (fst pr, snd x))"
      using listed_results_keep [where call = call, OF assms, where arts = "fst pr" and failed = "snd pr"] by simp
  qed (simp add: case_prod_beta section_okD [OF payload_section_ok [OF plain_PList]])
qed

lemma only_if_ok: "section_ok env dir sec \<Longrightarrow> section_ok env dir (only_if b sec)"
  by (simp add: section_ok_def only_if_def hoare_ret)

lemma hoare_pre_more: "hoare P m Q E \<Longrightarrow> (\<And>s. P' s \<Longrightarrow> P s) \<Longrightarrow> hoare P' m Q E"
  by (rule hoare_weaken)

lemma threads_section_records:
  "yields (bundle_inv env dir base pr) (threads_section env dir pr) (\<lambda>x. bundle_inv env dir base (fst x))"
  unfolding threads_section_def
proof (rule hoare_bind [OF bundle_inv_runtime], rule hoare_bind [OF write_result_records])
  fix t x
  show "yields (addable env dir base pr ''threads'' (fst x)) (case x of (artifact, _) \<Rightarrow>
         if cai_status artifact = ''error'' then ret ((fst pr @ [artifact], snd pr @ [''threads'']), [])
         else ret ((fst pr @ [artifact], snd pr),
                   case t of Success v ws \<Rightarrow> digit_thread_ids (tli_threads v) | Failure e \<Rightarrow> []))
     (\<lambda>x. bundle_inv env dir base (fst x))"
    by (cases x) (auto intro!: hoare_ret addableD)
qed

lemma backtraces_section_ok: "section_ok env dir (backtraces_section env dir n ts)"
proof (cases "ts = []")
  case True
  show ?thesis unfolding backtraces_section_def if_P [OF True]
  proof (rule section_okI, rule hoare_bind [OF yields_from_sum])
    fix base pr payload
    show "yields (\<lambda>s. result_to_mapping (op_error no_threads_message) = Inr payload \<and> bundle_inv env dir base pr s)
        (payload_section env dir ''thread-backtraces'' (PList [PDict payload]) (fst pr, snd pr @ [''thread-backtraces'']))
        (\<lambda>pr'. bundle_inv env dir base pr')"
      by (rule hoare_pre_more [OF section_okD [OF payload_section_ok [OF plain_PList]]])
        (rule bundle_inv_more [where failed = "snd pr"], auto)
  qed
next
  case False
  then show ?thesis unfolding backtraces_section_def if_not_P [OF False]
    by (intro list_section_ok listed_result_keeps)
qed

lemma expressions_section_ok: "section_ok env dir (expressions_section env dir t es)"
  unfolding expressions_section_def
  by (rule list_section_ok, rule hoare_bind [OF hoare_gets], assumption, rule listed_result_keeps)

lemma memory_section_ok: "section_ok env dir (memory_section env dir rs)"
  unfolding memory_section_def by (rule list_section_ok, rule listed_result_keeps)


lemma yields_gets: "yields P (gets f) (\<lambda>_. P)"
  by (simp add: hoare_gets)

lemma runtime_section_ok:
  assumes "\<And>rt. plain_payload (f rt)"
  shows "section_ok env dir (runtime_section env dir name f)"
proof (rule section_okI)
  fix base pr
  have g: "yields (bundle_inv env dir base pr) (gets (\<lambda>s. f (cs_runtime s)))
      (\<lambda>v s. plain_payload v \<and> bundle_inv env dir base pr s)"
    using assms by (simp add: hoare_gets)
  have "yields (\<lambda>s. plain_payload v \<and> bundle_inv env dir base pr s) (payload_section env dir name v pr)
      (\<lambda>pr'. bundle_inv env dir base pr')" for v
    by (intro hoare_pure section_okD [OF payload_section_ok])
  then show "yields (bundle_inv env dir base pr) (runtime_section env dir name f pr) (\<lambda>pr'. bundle_inv env dir base pr')"
    unfolding runtime_section_def by (rule hoare_bind [OF g])
qed

lemma status_sections_record:
  "yields (bundle_inv env dir base ([], [])) (status_sections env dir request) (\<lambda>x. bundle_inv env dir base (fst x))"
  unfolding status_sections_def case_prod_beta
  by (rule hoare_bind [OF bundle_inv_runtime], rule hoare_bind [OF result_section_records],
      rule hoare_bind [OF yields_gets], rule hoare_bind [OF section_okD [OF runtime_section_ok [OF plain_stop_event]]],
      (rule hoare_bind [OF section_okD [OF only_if_ok [OF runtime_section_ok [OF plain_PList]]]])+, rule hoare_ret) simp

lemma thread_sections_ok: "section_ok env dir (thread_sections env dir request)"
proof (rule section_okI)
  fix base pr
  have t: "yields (bundle_inv env dir base pr) (if b then threads_section env dir pr else ret (pr, []))
      (\<lambda>x. bundle_inv env dir base (fst x))" for b
    by (auto intro: threads_section_records hoare_ret)
  show "yields (bundle_inv env dir base pr) (thread_sections env dir request pr) (\<lambda>pr'. bundle_inv env dir base pr')"
    unfolding thread_sections_def
    by (rule hoare_bind [OF t]) (simp add: case_prod_beta section_okD [OF only_if_ok [OF backtraces_section_ok]])
qed

lemma context_sections_ok: "section_ok env dir (context_sections env dir request)"
  unfolding context_sections_def case_prod_beta
  by (intro section_okI hoare_bind [OF yields_gets]
      hoare_bind [OF section_okD [OF only_if_ok [OF inspection_section_ok]]]
      hoare_bind [OF section_okD [OF only_if_ok [OF expressions_section_ok]]]
      section_okD [OF only_if_ok [OF memory_section_ok]])

lemma plain_manifest: "plain_payload (manifest_payload dir st reason ranges pr rt)"
  unfolding manifest_payload_def by (rule plain_PDict) simp

text \<open>What a finished bundle reports.\<close>

definition bundle_reported ::
  "path_env \<Rightarrow> (string \<times> pyv) list \<Rightarrow> CaptureBundleInfo OperationResult \<Rightarrow> capture_state \<Rightarrow> bool" where
  "bundle_reported env base r s \<longleftrightarrow>
     (\<exists>info arts m failed. r = Success info (map (\<lambda>x. ''Capture section failed: '' @ x) (sorted_sections failed))
        \<and> cbi_artifacts info = arts @ [m] \<and> cai_name m = ''manifest'' \<and> cbi_manifest_path info = cai_path m
        \<and> cbi_artifact_count info = Suc (length arts)
        \<and> cbi_failed_sections info = list_or_none (sorted_sections failed)
        \<and> bundle_inv env (cbi_bundle_dir info) base (arts @ [m], failed) s)"

lemma write_bundle_reports:
  "yields (bundle_inv env dir base ([], [])) (write_bundle env request dir) (bundle_reported env base)"
  unfolding write_bundle_def case_prod_beta Let_def
proof (rule hoare_bind [OF status_sections_record], rule hoare_bind [OF section_okD [OF thread_sections_ok]],
    rule hoare_bind [OF section_okD [OF context_sections_ok]])
  fix x pr1 pr
  have g: "yields (bundle_inv env dir base pr)
      (gets (\<lambda>s. manifest_payload dir (fst (snd x)) (snd (snd x)) (cbr_memory_ranges request) pr (cs_runtime s)))
      (\<lambda>v s. plain_payload v \<and> bundle_inv env dir base pr s)"
    by (simp add: hoare_gets plain_manifest)
  have w: "yields (\<lambda>s. plain_payload v \<and> bundle_inv env dir base pr s) (write_payload_artifact env dir ''manifest'' v)
      (\<lambda>m s. cai_name m = ''manifest'' \<and> bundle_inv env dir base (fst pr @ [m], snd pr) s)" for v
    by (intro hoare_pure write_plain_records)
  show "yields (bundle_inv env dir base pr)
     (bindE (gets (\<lambda>s. manifest_payload dir (fst (snd x)) (snd (snd x)) (cbr_memory_ranges request) pr (cs_runtime s)))
       (\<lambda>manifest. bindE (write_payload_artifact env dir ''manifest'' manifest) (\<lambda>manifest_artifact.
         gets (\<lambda>s. Success
         \<lparr>cbi_message = ''Capture bundle written'', cbi_bundle_dir = dir,
          cbi_bundle_name = path_name dir, cbi_manifest_path = cai_path manifest_artifact,
          cbi_artifacts = fst pr @ [manifest_artifact], cbi_artifact_count = length (fst pr @ [manifest_artifact]),
          cbi_failed_sections = list_or_none (sorted_sections (snd pr)), cbi_execution_state = fst (snd x),
          cbi_stop_reason = snd (snd x), cbi_last_stop_event = rt_last_stop_event (cs_runtime s)\<rparr>
         (map (\<lambda>section. ''Capture section failed: '' @ section) (sorted_sections (snd pr)))))))
     (bundle_reported env base)"
    by (rule hoare_bind [OF g], rule hoare_bind [OF w], rule hoare_gets)
      (auto simp: bundle_reported_def intro!: exI [of _ "fst pr"] exI [of _ "snd pr"])
qed

lemma prepare_keeps_files: "pres (\<lambda>s. dk_files (cs_disk s) = base) (prepare_bundle_dir env request)"
proof -
  have "pres (\<lambda>s. dk_files (cs_disk s) = base) (make_dir p)" for p
    by (auto simp: pres_def make_dir_def disk_call_def zoom_def split: list.splits option.splits)
  then show ?thesis unfolding prepare_bundle_dir_def base_dir_def by (intro pres_intros)
qed

section \<open>Properties\<close>

text \<open>
  Memory capture is bounded. A request is accepted exactly when every memory range asks for
  between 1 and 4096 bytes at an offset that is not negative, all ranges together ask for at most
  65536 bytes, and the names given to ranges are not blank and pairwise different.
\<close>

theorem capture_request_bounds:
  "validate_request request = None \<longleftrightarrow>
     (let rs = cbr_memory_ranges request in
      (\<forall>r \<in> set rs. range_ok r) \<and> (\<Sum>r\<leftarrow>rs. mcr_count r) \<le> 65536 \<and> distinct (range_names rs))"
  unfolding validate_request_def Let_def by (subst validate_ranges_iff) auto

theorem capture_request_bounds_witness:
  "validate_request \<lparr>cbr_output_dir = None, cbr_bundle_name = None, cbr_expressions = [],
     cbr_memory_ranges = [\<lparr>mcr_address = ''$sp'', mcr_count = 4096, mcr_offset = 0, mcr_name = Some ''stack''\<rparr>],
     cbr_max_frames = 5, cbr_include_threads = False, cbr_include_backtraces = False, cbr_include_frame = False,
     cbr_include_variables = False, cbr_include_registers = False, cbr_include_transcript = False,
     cbr_include_stop_history = False\<rparr> = None"
proof -
  have "strip ''stack'' \<noteq> []" by code_simp
  then show ?thesis by (subst capture_request_bounds) (simp add: range_ok_def Let_def)
qed


text \<open>A session whose debugger is gone: the status is captured, the frame is not.\<close>

definition sample_paths :: path_env where
  "sample_paths = \<lparr>pe_expand = Inr, pe_resolve = id, pe_tempdir = ''/tmp'', pe_fresh = (\<lambda>_ _. ''x'')\<rparr>"

definition sample_request :: CaptureBundleRequest where
  "sample_request = \<lparr>cbr_output_dir = None, cbr_bundle_name = Some ''b'', cbr_expressions = [],
     cbr_memory_ranges = [], cbr_max_frames = 5, cbr_include_threads = False, cbr_include_backtraces = False,
     cbr_include_frame = True, cbr_include_variables = False, cbr_include_registers = False,
     cbr_include_transcript = False, cbr_include_stop_history = False\<rparr>"

definition gone_session :: capture_state where
  "gone_session = \<lparr>cs_runtime = mark_transport_terminated ''gone'' (ready_sample []),
     cs_disk = \<lparr>dk_dirs = [''/tmp''], dk_files = [], dk_outcomes = []\<rparr>\<rparr>"

definition bundle_summary :: "exn + CaptureBundleInfo OperationResult \<Rightarrow> (string list \<times> string list) option" where
  "bundle_summary r = (case r of Inr (Success i ws) \<Rightarrow> Some (map cai_path (cbi_artifacts i), ws) | _ \<Rightarrow> None)"


section \<open>The session under capture\<close>

lemma pres_on_runtime: "pres I m \<Longrightarrow> pres (\<lambda>s. I (cs_runtime s)) (on_runtime m)"
  by (auto simp: pres_def on_runtime_def zoom_def split: prod.splits)

lemma pres_disk_call [pres_intros]: "pres (\<lambda>s. I (cs_runtime s)) (disk_call f)"
  by (auto simp: pres_def disk_call_def zoom_def split: list.splits option.splits)

lemma pres_map_ok: "pres I m \<Longrightarrow> pres I (map_ok f m)"
  unfolding map_ok_def by (intro pres_intros)

lemma pres_write_payload [pres_intros]: "pres (\<lambda>s. I (cs_runtime s)) (write_payload_artifact env dir name v)"
  unfolding write_payload_artifact_def write_file_def by (intro pres_intros)

lemma pres_payload_section [pres_intros]: "pres (\<lambda>s. I (cs_runtime s)) (payload_section env dir name v pr)"
  unfolding payload_section_def by (intro pres_intros)

lemma pres_result_section [pres_intros]: "pres (\<lambda>s. I (cs_runtime s)) (result_section env dir name r pr)"
  unfolding result_section_def write_result_artifact_def by (intro pres_intros)

lemma pres_inspection_section:
  "pres I m \<Longrightarrow> pres (\<lambda>s. I (cs_runtime s)) (inspection_section env dir name m pr)"
  unfolding inspection_section_def by (intro pres_intros pres_on_runtime)

lemma pres_listed_results:
  "(\<And>x. pres J (call x)) \<Longrightarrow> pres J (listed_results call nm xs ps failed)"
  by (induction xs arbitrary: ps failed) (auto intro!: pres_intros)

lemma pres_list_section:
  "(\<And>x. pres (\<lambda>s. I (cs_runtime s)) (call x)) \<Longrightarrow> pres (\<lambda>s. I (cs_runtime s)) (list_section env dir name call nm xs pr)"
  unfolding list_section_def by (intro pres_intros pres_listed_results)

lemma pres_listed_result: "pres I m \<Longrightarrow> pres (\<lambda>s. I (cs_runtime s)) (listed_result m extra)"
  unfolding listed_result_def by (intro pres_intros pres_on_runtime)

lemma pres_only_if: "(\<And>pr. pres J (sec pr)) \<Longrightarrow> pres J (only_if b sec pr)"
  by (simp add: only_if_def pres_intros)

lemmas pres_capturing = pres_intros pres_on_runtime pres_map_ok pres_inspection_section pres_list_section
  pres_listed_result pres_only_if

context command_invariant
begin

lemma pres_capture_bundle:
  assumes "pres invar get_status"
  shows "pres (\<lambda>s. invar (cs_runtime s)) (capture_bundle env request)"
  unfolding capture_bundle_def preparation_failed_def prepare_bundle_dir_def base_dir_def make_dir_def
    write_bundle_def status_sections_def runtime_section_def thread_sections_def context_sections_def
    threads_section_def backtraces_section_def expressions_section_def memory_section_def
    write_result_artifact_def Let_def
  by (intro pres_capturing pres_inspections assms)

end

end
