(* ===== verification/Lifecycle_Correct.thy ===== *)
theory Lifecycle_Correct
  imports Lifecycle Execution_Correct
begin

text \<open>Properties of the session life cycle.\<close>

section \<open>Invariants\<close>

lemma pres_on_transport: "pres rt_ok (on_transport m)"
  unfolding on_transport_def by (intro pres_zoom rt_ok_transport_update)

lemma pres_cleanup: "pres rt_ok (cleanup_failed_start m)"
  unfolding cleanup_failed_start_def quiet_exit_def
  by (intro pres_intros pres_on_transport pres_modify rt_ok_failed)

lemma pres_constant: "(\<And>s. snd (m s) = s) \<Longrightarrow> pres I m"
  by (simp add: pres_def)

lemma pres_result_mapping [pres_intros]: "pres I (result_mapping_of r)"
  by (rule pres_constant) (simp add: result_mapping_of_def)

lemma pres_failure_output [pres_intros]: "pres I (failure_with_output m f k out)"
  by (rule pres_constant) (simp add: failure_with_output_def)

lemmas start_pres = pres_intros pres_on_transport pres_cleanup runtime_inv.pres_execute
  runtime_inv.alive

lemma pres_environment: "pres rt_ok (apply_environment vars out)"
proof (induction vars arbitrary: out)
  case Nil
  then show ?case by (auto intro: pres_intros)
next
  case (Cons p vars)
  show ?case unfolding apply_environment.simps surj_pair [of p] Let_def
    by (cases p) (auto simp: Let_def intro!: start_pres Cons.IH)
qed

lemma pres_init_command: "pres rt_ok (run_init_command cmd out)"
  unfolding run_init_command_def after_init_command_def init_exception_def sleep_usec_def Let_def
  by (intro start_pres)

lemma pres_init_commands: "pres rt_ok (run_init_commands cmds out)"
  by (induction cmds out rule: run_init_commands.induct) (auto intro!: pres_intros pres_init_command)

lemma settle_ok: "rt_ok rt \<Longrightarrow> rt_ok (settle_execution_state cfg rt)"
  by (simp add: settle_execution_state_def rt_ok_marks)

lemma rt_ok_loaded: "rt_ok rt \<Longrightarrow> rt_ok (rt\<lparr>rt_target_loaded := b\<rparr>)"
  by (simp add: rt_ok_def)

lemma pres_finish_start: "pres rt_ok (finish_start cfg tx ws env init)"
  unfolding finish_start_def probe_target_loaded_def Let_def
  by (intro start_pres pres_modify settle_ok rt_ok_ready)
    (simp_all add: rt_ok_def split: OperationResult.splits)

lemma pres_start: "pres rt_ok (start_session_op req)"
  unfolding start_session_op_def start_body_def start_exception_def open_transport_def
    prepare_session_def abort_initialization_def Let_def
  by (intro start_pres pres_modify rt_ok_begin rt_ok_failed pres_environment pres_init_commands
      pres_finish_start runtime_inv.send rt_ok_loaded)

lemma pres_stop: "pres rt_ok stop_session_op"
  unfolding stop_session_op_def by (intro start_pres pres_modify rt_ok_stopped rt_ok_failed)

lemma pres_status: "pres rt_ok get_status"
  unfolding get_status_def by (intro start_pres pres_modify rt_ok_terminated)

section \<open>Failed starts\<close>

definition start_failed :: "SessionRuntime \<Rightarrow> bool" where
  "start_failed rt \<longleftrightarrow> rt_state rt = FAILED \<and> \<not> rt_is_running rt \<and> \<not> has_controller rt
     \<and> rt_last_failure_message rt \<noteq> None"

lemma mark_failed_simps [simp]:
  "rt_state (mark_failed m rt) = FAILED" "\<not> rt_is_running (mark_failed m rt)"
  "rt_transport (mark_failed m rt) = rt_transport rt"
  "rt_last_failure_message (mark_failed m rt) = Some m"
  by (simp_all add: mark_failed_def reset_transient_def)

lemma exit_drops: "mi_exit c = (r, c') \<Longrightarrow> mc_controller c' = None"
  by (auto simp: mi_exit_def exit_unlocked_def split: option.splits prod.splits)

lemma quiet_exit_hoare: "hoare (\<lambda>_. True) quiet_exit (\<lambda>_ rt. \<not> has_controller rt) (\<lambda>_ _. False)"
proof (rule hoareI)
  fix s x s' assume "quiet_exit s = (Inr x, s')"
  then show "\<not> has_controller s'"
    by (auto simp: quiet_exit_def on_transport_def exec_defs has_controller_def
        split: if_split_asm prod.split_asm sum.split_asm dest: exit_drops)
next
  fix s e s' assume "quiet_exit s = (Inl e, s')"
  then show False
    by (auto simp: quiet_exit_def on_transport_def exec_defs split: if_split_asm prod.split_asm sum.split_asm)
qed

lemma cleanup_hoare: "hoare (\<lambda>_. True) (cleanup_failed_start m) (\<lambda>_. start_failed) (\<lambda>_ _. False)"
  unfolding cleanup_failed_start_def
  by (rule hoare_then [OF quiet_exit_hoare], rule hoare_modify)
    (simp add: start_failed_def has_controller_def)

text \<open>What an outcome of a start-up stage says about the session.\<close>

fun stage_ok :: "OperationError + 'a \<Rightarrow> SessionRuntime \<Rightarrow> bool" where
  "stage_ok (Inl err) rt = start_failed rt"
| "stage_ok (Inr x) rt = True"

lemma stage_ok_Inr [simp]: "stage_ok (Inr x) = (\<lambda>_. True)"
  by (simp add: fun_eq_iff)

fun start_ok :: "'a OperationResult \<Rightarrow> SessionRuntime \<Rightarrow> bool" where
  "start_ok (Failure err) rt = start_failed rt"
| "start_ok (Success v ws) rt = (rt_state rt = READY \<and> rt_is_running rt)"

abbreviation staged :: "(OperationError + 'a) session \<Rightarrow> bool" where
  "staged m \<equiv> hoare (\<lambda>_. True) m stage_ok (\<lambda>_ _. True)"

lemma hoare_any: "hoare (\<lambda>_. True) m (\<lambda>_ _. True) (\<lambda>_ _. True)"
  by (simp add: hoare_def split: prod.splits sum.splits)

lemma hoare_cleanup_then:
  assumes "hoare start_failed k Q E"
  shows "hoare (\<lambda>_. True) (thenE (cleanup_failed_start m) k) Q E"
proof (rule hoare_then [OF _ assms])
  show "hoare (\<lambda>_. True) (cleanup_failed_start m) (\<lambda>_. start_failed) E"
    by (rule hoare_weaken [OF cleanup_hoare]) simp_all
qed

lemma hoare_failure_output:
  "hoare start_failed (bindE (failure_with_output m f k out) (\<lambda>err. ret (Inl err))) stage_ok (\<lambda>_ _. True)"
  by (auto simp: hoare_def failure_with_output_def exec_defs split: sum.splits)

lemma staged_env: "staged (apply_environment vars out)"
proof (induction vars arbitrary: out)
  case Nil
  then show ?case by (auto intro: hoare_ret)
next
  case (Cons p vars)
  obtain n v where p: "p = (n, v)" by fastforce
  have run: "staged (case result of Success v ws \<Rightarrow> apply_environment vars o'
      | Failure e \<Rightarrow> thenE (cleanup_failed_start (msg e))
          (bindE (failure_with_output (msg e) (oe_fatal e) ''env_output'' o') (\<lambda>err. ret (Inl err))))"
    for result :: "CommandExecutionInfo OperationResult" and msg o'
    by (cases result) (auto intro!: Cons.IH hoare_cleanup_then hoare_failure_output)
  show ?case
  proof (cases "environment_validation_error n v")
    case None
    show ?thesis
      unfolding p apply_environment.simps None option.case Let_def
      by (intro hoare_bind [OF hoare_any] run)
  next
    case (Some m)
    then show ?thesis by (simp add: p) (intro hoare_cleanup_then hoare_ret; simp)
  qed
qed

lemma staged_exception: "staged (init_exception cmd out e)"
  unfolding init_exception_def Let_def
  by (rule hoare_then [OF hoare_any], intro hoare_cleanup_then hoare_failure_output)

lemma staged_after: "staged (after_init_command cmd result out)"
  unfolding after_init_command_def
  by (rule hoare_then [OF hoare_any], cases result)
    (auto intro!: hoare_ret hoare_then [OF hoare_any] hoare_cleanup_then hoare_failure_output)

lemma staged_init_command: "staged (run_init_command cmd out)"
proof -
  have "hoare (\<lambda>_. True) (catchE
       (bindE (execute_command_result cmd (init_timeout (strip (lower cmd))) False) (\<lambda>result.
        bindE (result_mapping_of result) (\<lambda>mapping. ret (Inr (result, out @ [PDict mapping])))))
       (init_exception cmd out)) stage_ok (\<lambda>_ _. True)"
    by (rule hoare_catch [where R = "\<lambda>_ _. True"])
      (auto intro!: hoare_bind [OF hoare_any] hoare_ret staged_exception)
  moreover have "hoare (stage_ok r) (case r of Inl err \<Rightarrow> ret (Inl err)
      | Inr (result, output) \<Rightarrow> catchE (after_init_command cmd result output) (init_exception cmd output))
      stage_ok (\<lambda>_ _. True)" for r
    by (cases r)
      (auto intro!: hoare_ret hoare_catch [where R = "\<lambda>_ _. True"] staged_after staged_exception
        split: prod.splits)
  ultimately show ?thesis unfolding run_init_command_def by (rule hoare_bind)
qed

lemma staged_init: "staged (run_init_commands cmds out)"
proof (induction cmds arbitrary: out)
  case Nil
  then show ?case by (auto intro: hoare_ret)
next
  case (Cons cmd cmds)
  have "hoare (stage_ok r) (case r of Inl err \<Rightarrow> ret (Inl err) | Inr output \<Rightarrow> run_init_commands cmds output)
      stage_ok (\<lambda>_ _. True)" for r
    by (cases r) (auto intro: hoare_ret Cons.IH)
  with staged_init_command show ?case unfolding run_init_commands.simps by (rule hoare_bind)
qed

lemma mark_ready_state: "rt_state (mark_ready rt) = READY \<and> rt_is_running (mark_ready rt)"
proof -
  let ?r = "rt\<lparr>rt_state := READY, rt_is_running := True, rt_last_failure_message := None\<rparr>"
  define g where "g x = (rt_state x, rt_is_running x)" for x :: SessionRuntime
  have upd: "g (x\<lparr>rt_current_inferior_id := a\<rparr>) = g x" "g (x\<lparr>rt_inferior_count := b\<rparr>) = g x"
    "g (x\<lparr>rt_inferior_states := c\<rparr>) = g x" "g (x\<lparr>rt_follow_fork_mode := d\<rparr>) = g x"
    "g (x\<lparr>rt_detach_on_fork := e\<rparr>) = g x" "g (synchronize_selected_state x) = g x"
    "g ?r = (READY, True)" for x a b c d e
    using frame_of_sync [of x] by (simp_all add: g_def frame_of_def)
  have "g (mark_ready rt) = (READY, True)"
    unfolding mark_ready_def
    apply (rule let_keeps [where g = g], simp add: upd)
    apply (rule let_keeps [where g = g], simp add: upd)
    apply (rule let_keeps [where g = g], simp add: upd)
    apply (rule let_any)
    apply (rule let_keeps [where g = g], simp add: upd)
    apply (rule let_keeps [where g = g], simp add: upd)
    apply (rule let_keeps [where g = g], simp add: upd)
    apply (simp add: upd)
    done
  then show ?thesis by (simp add: g_def)
qed

abbreviation started :: "(SessionRuntime \<Rightarrow> bool) \<Rightarrow> 'a OperationResult session \<Rightarrow> bool" where
  "started P m \<equiv> hoare P m start_ok (\<lambda>_ _. True)"

lemma started_finish: "started (\<lambda>_. True) (finish_start cfg tx ws env init)"
  unfolding finish_start_def Let_def
  by (intro hoare_bind [OF hoare_any] hoare_then [OF hoare_any]
      hoare_then [where R = "\<lambda>rt. rt_state rt = READY \<and> rt_is_running rt"] hoare_modify hoare_gets)
    (simp_all add: mark_ready_state op_success_def)

lemma started_prepare: "started (\<lambda>_. True) (prepare_session cfg ws rs)"
proof -
  have init: "hoare (stage_ok r) (case r of Inl err \<Rightarrow> ret (Failure err)
      | Inr out \<Rightarrow> finish_start cfg tx w env out) start_ok (\<lambda>_ _. True)" for r tx w env
    by (cases r) (auto intro: hoare_ret started_finish)
  have env: "hoare (stage_ok r) (case r of Inl err \<Rightarrow> ret (Failure err)
      | Inr env_out \<Rightarrow> bindE (run_init_commands cmds []) (\<lambda>i. case i of Inl err \<Rightarrow> ret (Failure err)
          | Inr out \<Rightarrow> finish_start cfg tx w env_out out)) start_ok (\<lambda>_ _. True)" for r tx w cmds
    by (cases r) (auto intro: hoare_ret intro!: hoare_bind [OF staged_init] init)
  show ?thesis
    unfolding prepare_session_def Let_def
    by (intro hoare_bind [OF hoare_any] hoare_then [OF hoare_any] hoare_bind [OF staged_env] env)
qed

lemma started_body: "started (\<lambda>rt. \<not> has_controller rt) (start_body cfg g r ws)"
proof -
  have abort: "started (\<lambda>_. True) (abort_initialization d :: SessionStartInfo OperationResult session)" for d
    unfolding abort_initialization_def Let_def
    by (intro hoare_cleanup_then hoare_ret) (simp add: op_error_details_def)
  have connect: "started (\<lambda>_. True) (thenE (open_transport cfg g r)
      (bindE (on_transport (read_initial_output 1000000)) (\<lambda>initial.
       bindE (cr_send_command_and_wait_for_prompt ''-gdb-version'' default_timeout_sec) (\<lambda>d.
         if dhas d ''error'' \<or> truthy (dget d ''timed_out'') then abort_initialization d
         else prepare_session cfg ws (initial @ as_record_list (dget d ''command_responses''))))))"
    by (intro hoare_then [OF hoare_any] hoare_bind [OF hoare_any] hoare_if abort started_prepare)
  have reject: "started (\<lambda>rt. \<not> has_controller rt) (thenE (modify (mark_failed f)) (ret (op_error m)))" for f m
    by (rule hoare_then [where R = start_failed], rule hoare_modify)
      (auto simp: start_failed_def has_controller_def op_error_def intro: hoare_ret)
  show ?thesis
    unfolding start_body_def
    by (rule hoare_bind [where R = "\<lambda>_ rt. \<not> has_controller rt"], rule hoare_gets, assumption)
      (auto split: option.splits intro: reject hoare_weaken [OF connect])
qed

lemma started_exception: "hoare (\<lambda>_. True) (start_exception e) start_ok (\<lambda>_ _. False)"
  unfolding start_exception_def Let_def
  by (intro hoare_cleanup_then hoare_ret) (simp add: op_error_def)

lemma start_hoare:
  "hoare (\<lambda>rt. \<not> has_controller rt) (start_session_op req) start_ok (\<lambda>_ _. False)"
  unfolding start_session_op_def Let_def
  apply (rule hoare_bind [where R = "\<lambda>has rt. \<not> has \<and> \<not> has_controller rt"], rule hoare_gets, simp)
  apply (rule hoare_if, simp add: hoare_def)
  apply (rule hoare_bind [where R = "\<lambda>_ rt. \<not> has_controller rt"], rule hoare_gets, simp)
  apply (rule hoare_bind [where R = "\<lambda>_ rt. \<not> has_controller rt"], rule hoare_gets, simp)
  apply (rule hoare_then [where R = "\<lambda>rt. \<not> has_controller rt"], rule hoare_modify)
   apply (simp add: has_controller_def begin_startup_def reset_transient_def)
  apply (rule hoare_catch [OF started_body started_exception])
  done

section \<open>Properties\<close>

definition idle_runtime :: "read_outcome list \<Rightarrow> SessionRuntime" where
  "idle_runtime reads = new_runtime ((sample_client reads)\<lparr>mc_controller := None\<rparr>)"

text \<open>Once the debugger is lost while confirmations are switched off, a request without
  environment and init commands runs on to the end.\<close>

lemma finish_without_controller:
  assumes "\<not> has_controller rt"
  shows "\<exists>info rt'. finish_start cfg tx ws env init rt = (Inr (Success info []), rt')
     \<and> rt_state rt' = READY \<and> rt_is_running rt' \<and> \<not> has_controller rt'
     \<and> (\<exists>ws'. info = start_info cfg tx ws' env init rt')"
proof -
  let ?rt' = "mark_ready (settle_execution_state cfg rt)"
  have p: "probe_target_loaded rt = (Inr (op_error ''No active GDB session''), rt)"
    unfolding probe_target_loaded_def by (rule on_success_no_controller [OF assms])
  have "rt_transport (settle_execution_state cfg rt) = rt_transport rt"
    using tracking_frame [OF track_paused] tracking_frame [OF track_not_started]
    by (simp add: settle_execution_state_def frame_of_def)
  with assms have "\<not> has_controller ?rt'" by (simp add: has_controller_def)
  moreover have "\<exists>ws'. finish_start cfg tx ws env init rt = (Inr (Success (start_info cfg tx ws' env init ?rt') []), ?rt')"
    unfolding finish_start_def Let_def bindE_step [where m = probe_target_loaded, OF p]
    by (simp add: thenE_modify gets_def op_error_def op_success_def) (rule exI, rule refl)
  ultimately show ?thesis using mark_ready_state by blast
qed

lemma prepare_without_controller:
  assumes "execute_command_result ''set confirm off'' default_timeout_sec False rt = (Inr r, rt1)"
    and "\<not> has_controller rt1" and "cfg_env cfg = []" and "cfg_init_commands cfg = []"
  shows "\<exists>info rt'. prepare_session cfg ws rs rt = (Inr (Success info []), rt')
     \<and> rt_state rt' = READY \<and> rt_is_running rt' \<and> \<not> has_controller rt'
     \<and> (\<exists>tx ws'. info = start_info cfg tx ws' [] [] rt')"
proof -
  let ?b = "startup_target_loaded (cfg_program cfg) (cfg_core cfg) (lower (startup_output_text (parse_mi_responses rs)))"
  have "\<not> has_controller (rt1\<lparr>rt_target_loaded := ?b\<rparr>)" using assms(2) by (simp add: has_controller_def)
  from finish_without_controller [OF this, of cfg "startup_output_text (parse_mi_responses rs)"] show ?thesis
    unfolding prepare_session_def Let_def thenE_modify assms(3,4)
      bindE_step [where m = "execute_command_result ''set confirm off'' default_timeout_sec False", OF assms(1)]
    by (simp add: bindE_ret_left) fast
qed

text \<open>A debugger that answers its first command and is gone at the second.\<close>

definition lost_start :: SessionRuntime where
  "lost_start = idle_runtime [Records 5 [], Records 5 [sample_result 1000 ''done''],
     ReadRaises 5 (Exn OSError ''pipe closed'')]"

definition lost_config :: SessionConfig where
  "lost_config = sample_config\<lparr>cfg_gdb_path := Some ''gdb''\<rparr>"

definition lost_stage1 :: SessionRuntime where
  "lost_stage1 = snd (open_transport lost_config ''gdb'' ''rr'' (begin_startup lost_config lost_start))"

definition lost_stage2 :: SessionRuntime where
  "lost_stage2 = snd (on_transport (read_initial_output 1000000) lost_stage1)"

definition lost_ready :: "(exn + pydict) \<times> SessionRuntime" where
  "lost_ready = cr_send_command_and_wait_for_prompt ''-gdb-version'' default_timeout_sec lost_stage2"

definition lost_confirm :: "(exn + CommandExecutionInfo OperationResult) \<times> SessionRuntime" where
  "lost_confirm = execute_command_result ''set confirm off'' default_timeout_sec False (snd lost_ready)"

fun returns :: "(exn + 'a) \<times> 'b \<Rightarrow> bool" where
  "returns (Inl e, s) = False"
| "returns (Inr x, s) = True"

lemma returnsE: "returns p \<Longrightarrow> \<exists>x. p = (Inr x, snd p)"
  by (cases p rule: returns.cases) auto

lemma lost_evaluation:
  "returns (open_transport lost_config ''gdb'' ''rr'' (begin_startup lost_config lost_start))"
  "returns (on_transport (read_initial_output 1000000) lost_stage1)"
  "(case fst lost_ready of Inl e \<Rightarrow> False
    | Inr d \<Rightarrow> \<not> (dhas d ''error'' \<or> truthy (dget d ''timed_out'')))"
  "returns lost_confirm" "\<not> has_controller (snd lost_confirm)"
  by code_simp+

lemma lost_start_run:
  "\<exists>info ws rt'. start_session_op sample_config lost_start = (Inr (Success info ws), rt')
     \<and> rt_state rt' = READY \<and> rt_is_running rt' \<and> \<not> has_controller rt'
     \<and> (\<exists>tx ws'. info = start_info lost_config tx ws' [] [] rt')"
proof -
  let ?s0 = "begin_startup lost_config lost_start"
  have closed: "\<not> has_controller lost_start" "environ_get ''GDB_PATH'' ''gdb'' lost_start = ''gdb''"
    "environ_get ''RR_PATH'' ''rr'' lost_start = ''rr''" "cfg_gdb_path sample_config = None"
    "start_rejection (w_isdir (mc_world (rt_transport ?s0))) lost_config = None"
    "\<not> str_truthy (cfg_rr_replay sample_config)" "cfg_env lost_config = []" "cfg_init_commands lost_config = []"
    by code_simp+
  obtain u where o: "open_transport lost_config ''gdb'' ''rr'' ?s0 = (Inr u, lost_stage1)"
    using returnsE [OF lost_evaluation(1)] by (auto simp: lost_stage1_def)
  obtain rs where i: "on_transport (read_initial_output 1000000) lost_stage1 = (Inr rs, lost_stage2)"
    using returnsE [OF lost_evaluation(2)] by (auto simp: lost_stage2_def)
  obtain d where r: "lost_ready = (Inr d, snd lost_ready)"
    and d: "\<not> (dhas d ''error'' \<or> truthy (dget d ''timed_out''))"
    using lost_evaluation(3) by (metis (no_types, lifting) prod.collapse sum.case_eq_if sum.collapse(2))
  obtain c where c: "execute_command_result ''set confirm off'' default_timeout_sec False (snd lost_ready)
      = (Inr c, snd lost_confirm)"
    using returnsE [OF lost_evaluation(4)] by (auto simp: lost_confirm_def)
  obtain info rt' where p: "prepare_session lost_config [] (rs @ as_record_list (dget d ''command_responses''))
      (snd lost_ready) = (Inr (Success info []), rt')" "rt_state rt' = READY" "rt_is_running rt'"
      "\<not> has_controller rt'" "\<exists>tx ws'. info = start_info lost_config tx ws' [] [] rt'"
    using prepare_without_controller [OF c lost_evaluation(5) closed(7,8)] by blast
  have "start_body lost_config ''gdb'' ''rr'' [] ?s0 = (Inr (Success info []), rt')"
    unfolding start_body_def bindE_gets closed(5) option.case
      thenE_step [where m = "open_transport lost_config ''gdb'' ''rr''", OF o]
      bindE_step [where m = "on_transport (read_initial_output 1000000)", OF i]
      bindE_step [where m = "cr_send_command_and_wait_for_prompt ''-gdb-version'' default_timeout_sec",
        OF r [unfolded lost_ready_def]] if_not_P [OF d]
    using p(1) by (simp add: lost_ready_def)
  then have "start_session_op sample_config lost_start = (Inr (Success info []), rt')"
    by (simp add: start_session_op_def bindE_gets thenE_modify closed Let_def catchE_def
        lost_config_def [symmetric])
  with p show ?thesis by blast
qed

text \<open>
  C12. Starting a session always comes to a result: whatever the request and whatever the
  debugger does, the operation on a session without a controller returns and never raises.
  A reported success means that the session is READY and running; a reported failure means
  that it is FAILED, not running, has a failure message and that no controller is left
  behind, so a failed start leaks no debugger.
\<close>

theorem start_outcome:
  assumes "\<not> has_controller rt"
  shows "\<exists>res rt'. start_session_op req rt = (Inr res, rt') \<and> start_ok res rt'"
proof (cases "start_session_op req rt")
  case (Pair r rt')
  with start_hoare [of req] assms show ?thesis by (cases r) (auto simp: hoare_def)
qed

theorem start_outcome_witness:
  "start_failed (snd (start_session_op sample_config (idle_runtime [ReadRaises 5 (Exn OSError ''gone'')])))"
proof -
  let ?rt = "idle_runtime [ReadRaises 5 (Exn OSError ''gone'')]"
  have "\<not> has_controller ?rt" by code_simp
  from start_outcome [OF this, of sample_config]
  obtain res rt' where r: "start_session_op sample_config ?rt = (Inr res, rt')" "start_ok res rt'" by blast
  moreover have "(case fst (start_session_op sample_config ?rt) of Inr (Failure e) \<Rightarrow> True | _ \<Rightarrow> False)"
    by code_simp
  ultimately show ?thesis by (cases res) simp_all
qed

text \<open>
  The life-cycle operations keep the runtime well formed, whatever the debugger does.
\<close>

theorem lifecycle_keeps_runtime:
  "pres rt_ok (start_session_op req) \<and> pres rt_ok stop_session_op \<and> pres rt_ok get_status"
  by (intro conjI pres_start pres_stop pres_status)

text \<open>
  A start can report success on a debugger that is gone: when GDB answers its first
  command and then fails during \<open>set confirm off\<close>, the start still succeeds and the session
  ends up READY and running with no controller, although every \<open>controller.exit()\<close> worked.
  (The failure of that command is only turned into a warning, and nothing looks at the
  controller before the session is marked ready.)
\<close>

theorem start_ready_without_gdb:
  "\<exists>rt. \<not> has_controller rt \<and> rt_ok rt \<and> exits_ok (rt_transport rt) \<and>
     (\<exists>info ws rt'. start_session_op sample_config rt = (Inr (Success info ws), rt')
        \<and> rt_state rt' = READY \<and> rt_is_running rt' \<and> \<not> has_controller rt')"
proof -
  have "rt_ok lost_start" unfolding lost_start_def idle_runtime_def by (rule rt_ok_new)
  moreover have "\<not> has_controller lost_start" "exits_ok (rt_transport lost_start)" by code_simp+
  ultimately show ?thesis using lost_start_run by blast
qed

text \<open>
  Stopping a session with a controller always returns and always lets the controller
  go: the session is STOPPED after a success and FAILED with a message after an error, and
  in both cases it no longer runs and has no controller.
\<close>

theorem stop_outcome:
  assumes "has_controller rt"
  shows "\<exists>res rt'. stop_session_op rt = (Inr res, rt') \<and> \<not> has_controller rt' \<and> \<not> rt_is_running rt'
     \<and> rt_state rt' = (if is_failure res then FAILED else STOPPED)"
proof -
  obtain r c' where e: "mi_exit (rt_transport rt) = (r, c')" by (cases "mi_exit (rt_transport rt)")
  have c: "mc_controller c' = None" using exit_drops [OF e] .
  show ?thesis
  proof (cases r)
    case (Inl x)
    with assms e c show ?thesis
      by (auto simp: stop_session_op_def on_transport_def exec_defs has_controller_def op_error_def)
  next
    case (Inr u)
    with assms e c show ?thesis
      by (auto simp: stop_session_op_def on_transport_def exec_defs has_controller_def op_success_def
          mark_stopped_def reset_transient_def)
  qed
qed

theorem stop_outcome_witness: "\<not> rt_is_running (snd (stop_session_op (ready_sample [])))"
proof -
  have "has_controller (ready_sample [])" by code_simp
  from stop_outcome [OF this] show ?thesis by auto
qed

text \<open>
  A status report is current: it always returns, it describes the session as the
  report leaves it, and when the debugger process has exited the session is first taken down,
  so the report says that it does not run and has no controller.
\<close>

theorem status_current:
  "\<exists>rt'. get_status rt = (Inr (status_snapshot rt'), rt')
     \<and> (\<forall>rt1. has_controller rt \<and> is_gdb_alive rt = (Inr False, rt1) \<longrightarrow>
          \<not> sss_is_running (status_snapshot rt') \<and> \<not> sss_has_controller (status_snapshot rt')
          \<and> rt_state rt' = FAILED \<and> rt_last_failure_message rt' = Some gdb_exited_message)"
proof (cases "has_controller rt")
  case False
  then have "get_status rt = (Inr (status_snapshot rt), rt)"
    by (simp add: get_status_def exec_defs)
  with False show ?thesis by blast
next
  case True
  obtain b rt1 where a: "is_gdb_alive rt = (Inr b, rt1)"
    using alive_transport [of rt] by (cases "is_gdb_alive rt") blast
  let ?rt' = "if b then rt1 else mark_transport_terminated gdb_exited_message rt1"
  have "get_status rt = (Inr (status_snapshot ?rt'), ?rt')"
    using True a by (simp add: get_status_def exec_defs)
  moreover have "\<not> b \<Longrightarrow> \<not> sss_is_running (status_snapshot ?rt') \<and> \<not> sss_has_controller (status_snapshot ?rt')
      \<and> rt_state ?rt' = FAILED \<and> rt_last_failure_message ?rt' = Some gdb_exited_message"
    by (simp add: status_snapshot_def has_controller_def)
  ultimately show ?thesis using a by auto
qed

definition dead_sample :: SessionRuntime where
  "dead_sample = (ready_sample [])\<lparr>rt_transport := upd_world (\<lambda>w. w\<lparr>w_polls := [PollExited 1]\<rparr>) (sample_client [])\<rparr>"

theorem status_current_witness: "rt_state (snd (get_status dead_sample)) = FAILED"
proof -
  have h: "has_controller dead_sample" by code_simp
  have al: "(case fst (is_gdb_alive dead_sample) of Inr b \<Rightarrow> \<not> b | _ \<Rightarrow> False)" by code_simp
  then have "is_gdb_alive dead_sample = (Inr False, snd (is_gdb_alive dead_sample))"
    by (cases "is_gdb_alive dead_sample") (auto split: sum.splits)
  with h status_current [of dead_sample] show ?thesis by auto
qed

section \<open>Environment and start-up text\<close>

lemma env_name_char: "env_name_start c \<or> is_digit c \<Longrightarrow> \<not> is_space c"
proof (erule disjE)
  have a: "list_all (\<lambda>c. \<not> is_space c) ''ABCDEFGHIJKLMNOPQRSTUVWXYZabcdefghijklmnopqrstuvwxyz_''" by code_simp
  assume "env_name_start c"
  then have "c \<in> set ''ABCDEFGHIJKLMNOPQRSTUVWXYZabcdefghijklmnopqrstuvwxyz_''" by (simp only: env_name_start_def)
  from bspec [OF a [unfolded list_all_iff] this] show "\<not> is_space c" .
qed (rule is_digit_not_space)

lemma valid_env_name_chars: "valid_env_name n \<Longrightarrow> c \<in> set n \<Longrightarrow> \<not> is_space c"
  using env_name_char unfolding valid_env_name_def list_all_iff by (auto split: list.splits)

lemma breaks_are_space: "is_space (CHR 0x0A)" "is_space (CHR 0x0D)"
  by (simp_all add: is_space_def)

text \<open>
  Environment variables cannot smuggle commands: a name and value that pass the check
  give a command without line breaks, in which the word after \<open>set environment\<close> is exactly
  the name and the text after the separating space is exactly the value; and the check
  rejects exactly the names that are not identifiers and the values with a line break.
\<close>

theorem environment_command_safe:
  "(environment_validation_error n v = None \<longleftrightarrow>
      valid_env_name n \<and> CHR 0x0A \<notin> set v \<and> CHR 0x0D \<notin> set v)
   \<and> (environment_validation_error n v = None \<longrightarrow>
      (let line = ''set environment '' @ n @ '' '' @ v; rest = drop (length ''set environment '') line in
       CHR 0x0A \<notin> set line \<and> CHR 0x0D \<notin> set line
       \<and> takeWhile (\<lambda>c. \<not> is_space c) rest = n
       \<and> drop 1 (dropWhile (\<lambda>c. \<not> is_space c) rest) = v))"
proof -
  have iff: "environment_validation_error n v = None \<longleftrightarrow>
      valid_env_name n \<and> CHR 0x0A \<notin> set v \<and> CHR 0x0D \<notin> set v"
    by (auto simp: environment_validation_error_def)
  moreover have "CHR 0x0A \<notin> set n \<and> CHR 0x0D \<notin> set n
      \<and> takeWhile (\<lambda>c. \<not> is_space c) (n @ '' '' @ v) = n
      \<and> drop 1 (dropWhile (\<lambda>c. \<not> is_space c) (n @ '' '' @ v)) = v"
    if "valid_env_name n"
  proof -
    have sp: "\<forall>c \<in> set n. \<not> is_space c" using valid_env_name_chars [OF that] by blast
    moreover from sp have "CHR 0x0A \<notin> set n" "CHR 0x0D \<notin> set n" using breaks_are_space by blast+
    ultimately show ?thesis by simp
  qed
  ultimately show ?thesis by (simp add: Let_def)
qed

theorem environment_command_safe_witness:
  "takeWhile (\<lambda>c. \<not> is_space c) (drop (length ''set environment '') (''set environment '' @ ''LANG'' @ '' '' @ ''en US''))
     = ''LANG''"
proof -
  have "environment_validation_error ''LANG'' ''en US'' = None" by code_simp
  with environment_command_safe [of "''LANG''" "''en US''"] show ?thesis unfolding Let_def by blast
qed

lemma takeWhile_to_dot: "takeWhile (\<lambda>c. c \<noteq> CHR ''.'') (s @ CHR ''.'' # t) = takeWhile (\<lambda>c. c \<noteq> CHR ''.'') s"
  by (induction s) simp_all

lemma lazy_to_dot_append:
  assumes "f \<noteq> []"
  shows "\<exists>rest'. lazy_to_dot (f @ ''.'' @ rest) = Some (hd f # takeWhile (\<lambda>c. c \<noteq> CHR ''.'') (tl f), rest')"
  using assms by (cases f) (simp_all add: lazy_to_dot_def takeWhile_to_dot)

text \<open>
  The warning about a missing auto-load script names the file only up to its first
  full stop: from GDB's message about a file \<open>f\<close> the code reads the first character of \<open>f\<close>
  and what follows it up to a full stop. It is the whole name exactly when the rest of the
  name has no full stop, so \<open>/opt/app-1.2\<close> is reported as \<open>/opt/app-1\<close>.
\<close>

theorem missing_script_file:
  assumes "f \<noteq> []" and "\<not> is_space (hd f)"
  shows "\<exists>name rest'.
     match_auto_load_missing
       (''Missing auto-load script at offset 0 in section .debug_gdb_scripts'' @ [CHR 0x0A]
        @ ''of file '' @ f @ ''.'' @ rest) = Some (name, rest')
     \<and> name = hd f # takeWhile (\<lambda>c. c \<noteq> CHR ''.'') (tl f)
     \<and> (name = f \<longleftrightarrow> CHR ''.'' \<notin> set (tl f))"
proof -
  let ?p = "''Missing auto-load script at offset 0 in section .debug_gdb_scripts''"
  let ?t = "''of file '' @ f @ ''.'' @ rest"
  have l1: "lower ?p = lower ''missing auto-load script at offset 0 in section .debug_gdb_scripts''"
    "length ?p = length ''missing auto-load script at offset 0 in section .debug_gdb_scripts''" by code_simp+
  have e1: "eat_nocase ''missing auto-load script at offset 0 in section .debug_gdb_scripts'' (?p @ s) = Some s" for s
    unfolding eat_nocase_def lower_append l1(1) l1(2) [symmetric] by simp
  have e2: "eat_nocase ''of file '' (''of file '' @ s) = Some s" for s
    unfolding eat_nocase_def lower_append by simp
  have ls: "lstrip ([CHR 0x0A] @ ?t) = ?t" by (simp add: lstrip_def is_space_def)
  obtain rest' where "lazy_to_dot (f @ ''.'' @ rest) = Some (hd f # takeWhile (\<lambda>c. c \<noteq> CHR ''.'') (tl f), rest')"
    using lazy_to_dot_append [OF assms(1)] by blast
  then have "match_auto_load_missing (?p @ [CHR 0x0A] @ ?t) =
      Some (hd f # takeWhile (\<lambda>c. c \<noteq> CHR ''.'') (tl f), rest')"
    unfolding match_auto_load_missing_def e1 option.case ls e2 using breaks_are_space(1) by simp
  moreover have "hd f # takeWhile (\<lambda>c. c \<noteq> CHR ''.'') (tl f) = f \<longleftrightarrow> CHR ''.'' \<notin> set (tl f)"
    using assms(1) by (cases f) (auto simp: takeWhile_eq_all_conv)
  ultimately show ?thesis by simp
qed

theorem missing_script_file_witness:
  "\<exists>rest'. match_auto_load_missing
       (''Missing auto-load script at offset 0 in section .debug_gdb_scripts'' @ [CHR 0x0A]
        @ ''of file '' @ ''/opt/app-1.2'' @ ''.'' @ [CHR 0x0A]) = Some (''/opt/app-1'', rest')"
proof -
  have "''/opt/app-1.2'' \<noteq> ([] :: string)" "\<not> is_space (hd ''/opt/app-1.2'')" by (simp_all add: is_space_def)
  from missing_script_file [OF this, of "[CHR 0x0A]"]
  obtain name rest' where m: "match_auto_load_missing
       (''Missing auto-load script at offset 0 in section .debug_gdb_scripts'' @ [CHR 0x0A]
        @ ''of file '' @ ''/opt/app-1.2'' @ ''.'' @ [CHR 0x0A]) = Some (name, rest')"
    and n: "name = hd ''/opt/app-1.2'' # takeWhile (\<lambda>c. c \<noteq> CHR ''.'') (tl ''/opt/app-1.2'')" by blast
  have "name = ''/opt/app-1''" unfolding n by code_simp
  with m show ?thesis by blast
qed

end
