(* ===== verification/Session_Service_Correct.thy ===== *)
theory Session_Service_Correct
  imports Session_Service Capture_Correct Breakpoints_Correct Lifecycle_Correct
begin

text \<open>
  A session as a state machine: its steps are the operations of the facade, single, in a batch, or
  as part of a capture. What the services promise one by one holds in every state the session
  reaches.
\<close>

section \<open>Steps\<close>

inductive session_step :: "SessionRuntime \<Rightarrow> SessionRuntime \<Rightarrow> bool" where
  call: "session_step rt (snd (perform c rt))"
| batch: "session_step rt (cs_runtime (snd (execute_batch_templates (map call_template steps) fail_fast capture
    \<lparr>cs_runtime = rt, cs_disk = d\<rparr>)))"
| capture: "session_step rt (cs_runtime (snd (capture_bundle env request \<lparr>cs_runtime = rt, cs_disk = d\<rparr>)))"

text \<open>A property that every command keeps, and also the status report and the end of a session.\<close>

locale service_invariant = command_invariant +
  assumes status: "pres invar get_status"
    and stop: "pres invar stop_session_op"
begin

lemma pres_perform: "pres invar (perform c)"
proof (cases c)
  case (Execution e)
  then show ?thesis by (cases e) (auto intro: pres_map_ok pres_operations)
next
  case (Inspection fs i)
  then show ?thesis by (cases i) (auto intro: pres_map_ok pres_inspections)
next
  case (Breakpoint b)
  then show ?thesis by (cases b) (auto intro: pres_map_ok pres_breakpoints)
qed (auto intro!: pres_intros pres_map_ok status stop)

lemma pres_batch: "pres (\<lambda>s. invar (cs_runtime s)) (execute_batch_templates (map call_template steps) ff cap)"
  by (rule pres_batch_templates) (auto simp: call_template_def intro!: pres_on_runtime pres_perform)

lemma step_keeps: "session_step rt rt' \<Longrightarrow> invar rt \<Longrightarrow> invar rt'"
proof (induction rule: session_step.induct)
  case (batch rt steps fail_fast capture d)
  then show ?case using pres_batch [of steps fail_fast capture] by (simp add: pres_def)
next
  case (capture rt env request d)
  then show ?case using pres_capture_bundle [OF status, of env request] by (simp add: pres_def)
qed (use pres_perform in \<open>simp add: pres_def\<close>)

lemma reachable_keeps: "session_step\<^sup>*\<^sup>* rt rt' \<Longrightarrow> invar rt \<Longrightarrow> invar rt'"
  by (induction rule: rtranclp_induct) (auto intro: step_keeps)

end

lemma live_status: "pres live_ok get_status"
  unfolding get_status_def
  by (intro pres_intros live_inv.alive pres_modify) (simp add: live_ok_def)

lemma live_stop: "pres live_ok stop_session_op"
proof -
  have "exits_ok c' \<and> r = Inr ()" if "mi_exit c = (r, c')" "exits_ok c" for c r c'
    using exit_unlocked_ok [of c] that by (simp add: mi_exit_def)
  then show ?thesis
    by (fastforce simp: pres_def stop_session_op_def on_transport_def exec_defs live_ok_def op_error_def
        mark_stopped_def reset_transient_def split: prod.splits sum.splits)
qed

interpretation runtime_service: service_invariant rt_ok
  by unfold_locales (rule pres_status, rule pres_stop)

interpretation live_service: service_invariant live_ok
  by unfold_locales (rule live_status, rule live_stop)

section \<open>Properties\<close>




end
