(* ===== verification/Registry_Correct.thy ===== *)
theory Registry_Correct
  imports Registry Session_Service_Correct
begin

text \<open>
  Properties of the registry: what one operation does, and what holds however the
  operations of many threads interleave.
\<close>

section \<open>Sessions past their start-up\<close>

definition settled :: "SessionRuntime \<Rightarrow> bool" where
  "settled rt \<longleftrightarrow> rt_state rt \<noteq> CREATED \<and> rt_state rt \<noteq> STARTING"

lemma settled_frame: "frame_of rt' = frame_of rt \<Longrightarrow> settled rt \<Longrightarrow> settled rt'"
  by (simp add: frame_of_def settled_def)

lemma settled_terminated [simp]: "settled (mark_transport_terminated m rt)"
  by (simp add: settled_def)

lemma settled_transport [simp]: "settled (rt\<lparr>rt_transport := c\<rparr>) = settled rt"
  by (simp add: settled_def)

lemma settled_call: "pres settled (cr_call mi_op)"
  unfolding cr_call_def by (intro pres_intros pres_zoom pres_finish) simp_all

lemma settled_transcript: "settled rt \<Longrightarrow> settled (record_command_transcript e rt)"
  by (simp add: settled_def record_command_transcript_def)

interpretation settled_inv: command_invariant settled
proof
  show "pres settled is_gdb_alive"
    unfolding is_gdb_alive_def by (rule pres_zoom) simp
qed (auto intro: tracking_frame settled_frame settled_call settled_transcript
    simp: cr_send_command_and_wait_for_prompt_def cr_interrupt_and_wait_for_stop_def
      cr_wait_for_stop_def)

lemma settled_status: "pres settled get_status"
  unfolding get_status_def by (intro pres_intros settled_inv.alive pres_modify) simp

lemma settled_stop: "pres settled stop_session_op"
  unfolding stop_session_op_def on_transport_def
  by (intro pres_intros pres_zoom pres_modify)
    (simp_all add: settled_def mark_stopped_def reset_transient_def)

text \<open>The calls that client threads make on a session they hold are the steps of the session.\<close>

interpretation settled_service: service_invariant settled
  by unfold_locales (rule settled_status, rule settled_stop)

section \<open>Interleaved operations\<close>

text \<open>Where a thread stands between two atomic steps.\<close>

datatype task =
    Idle
  | Allocated int
  | Started int nat
  | Closing int nat
  | Stopped int nat
  | Abandoning int
  | Holding nat
  | ShuttingDown "(int \<times> nat) list"

fun task_id :: "task \<Rightarrow> int option" where
  "task_id (Allocated i) = Some i"
| "task_id (Started i h) = Some i"
| "task_id _ = None"

fun new_handle :: "task \<Rightarrow> nat option" where
  "new_handle (Started i h) = Some h"
| "new_handle _ = None"

fun task_handles :: "task \<Rightarrow> nat set" where
  "task_handles (Started i h) = {h}"
| "task_handles (Closing i h) = {h}"
| "task_handles (Stopped i h) = {h}"
| "task_handles (Holding h) = {h}"
| "task_handles (ShuttingDown xs) = snd ` set xs"
| "task_handles _ = {}"

text \<open>
  One atomic step of some thread \<open>k\<close>. A session that is being started is known to its
  starter alone, so its start-up is one step.
\<close>

inductive reg_step :: "(nat \<Rightarrow> task) \<times> registry \<Rightarrow> (nat \<Rightarrow> task) \<times> registry \<Rightarrow> bool" where
  allocate: "T k = Idle \<Longrightarrow> allocate_session_id reg = (Inr i, reg') \<Longrightarrow>
     reg_step (T, reg) (T(k := Allocated i), reg')"
| start_failed: "T k = Allocated i \<Longrightarrow> create_session w reg = (Inr h, reg1) \<Longrightarrow>
     on_session h (start_session_op request) reg1 = (Inr (Failure e), reg') \<Longrightarrow>
     reg_step (T, reg) (T(k := Idle), reg')"
| start_succeeded: "T k = Allocated i \<Longrightarrow> create_session w reg = (Inr h, reg1) \<Longrightarrow>
     on_session h (start_session_op request) reg1 = (Inr (Success v ws), reg') \<Longrightarrow>
     reg_step (T, reg) (T(k := Started i h), reg')"
| publish: "T k = Started i h \<Longrightarrow> reg_step (T, reg) (T(k := Idle), publish_session i h reg)"
| close_begin: "T k = Idle \<Longrightarrow> begin_close i reg = (Inr (Some h), reg') \<Longrightarrow>
     reg_step (T, reg) (T(k := Closing i h), reg')"
| close_removed: "T k = Closing i h \<Longrightarrow> \<not> has_controller (reg_store reg h) \<Longrightarrow>
     \<not> rt_is_running (reg_store reg h) \<Longrightarrow> reg_step (T, reg) (T(k := Stopped i h), reg)"
| close_inconsistent: "T k = Closing i h \<Longrightarrow> \<not> has_controller (reg_store reg h) \<Longrightarrow>
     rt_is_running (reg_store reg h) \<Longrightarrow> reg_step (T, reg) (T(k := Abandoning i), reg)"
| close_stop: "T k = Closing i h \<Longrightarrow> on_session h stop_session_op reg = (Inr (Success m ws), reg') \<Longrightarrow>
     reg_step (T, reg) (T(k := Stopped i h), reg')"
| close_stop_failed: "T k = Closing i h \<Longrightarrow> on_session h stop_session_op reg = (Inr (Failure e), reg') \<Longrightarrow>
     reg_step (T, reg) (T(k := Abandoning i), reg')"
| close_finish: "T k = Stopped i h \<Longrightarrow> reg_step (T, reg) (T(k := Idle), finish_close i h reg)"
| close_abandon: "T k = Abandoning i \<Longrightarrow> reg_step (T, reg) (T(k := Idle), abandon_close i reg)"
| resolve: "T k = Idle \<Longrightarrow> resolve_session i reg = Inr h \<Longrightarrow> reg_step (T, reg) (T(k := Holding h), reg)"
| session_use: "T k = Holding h \<Longrightarrow> session_step (reg_store reg h) rt' \<Longrightarrow>
     reg_step (T, reg) (T, reg\<lparr>reg_store := (reg_store reg)(h := rt')\<rparr>)"
| release: "T k = Holding h \<Longrightarrow> reg_step (T, reg) (T(k := Idle), reg)"
| shutdown_begin: "T k = Idle \<Longrightarrow> begin_shutdown reg = (Inr xs, reg') \<Longrightarrow>
     reg_step (T, reg) (T(k := ShuttingDown xs), reg')"
| shutdown_stop: "T k = ShuttingDown ((i, h) # xs) \<Longrightarrow>
     stop_session_for_shutdown hung h reg = (Inr r, reg') \<Longrightarrow>
     reg_step (T, reg) (T(k := ShuttingDown xs), reg')"
| shutdown_end: "T k = ShuttingDown [] \<Longrightarrow> reg_step (T, reg) (T(k := Idle), end_shutdown reg)"

definition published_ok :: "registry \<Rightarrow> bool" where
  "published_ok reg \<longleftrightarrow>
     distinct (map fst (reg_sessions reg)) \<and> distinct (map snd (reg_sessions reg))
     \<and> (\<forall>(i, h) \<in> set (reg_sessions reg).
          i < reg_next_session_id reg \<and> h < reg_fresh reg \<and> settled (reg_store reg h))"

definition tasks_ok :: "(nat \<Rightarrow> task) \<Rightarrow> registry \<Rightarrow> bool" where
  "tasks_ok T reg \<longleftrightarrow>
     (\<forall>k i. task_id (T k) = Some i \<longrightarrow> i < reg_next_session_id reg \<and> i \<notin> fst ` set (reg_sessions reg))
     \<and> (\<forall>k h. new_handle (T k) = Some h \<longrightarrow> h \<notin> snd ` set (reg_sessions reg))
     \<and> (\<forall>k h. h \<in> task_handles (T k) \<longrightarrow> h < reg_fresh reg \<and> settled (reg_store reg h))"

definition tasks_apart :: "(nat \<Rightarrow> task) \<Rightarrow> bool" where
  "tasks_apart T \<longleftrightarrow>
     (\<forall>k k' i. task_id (T k) = Some i \<and> task_id (T k') = Some i \<longrightarrow> k = k')
     \<and> (\<forall>k k' h. new_handle (T k) = Some h \<and> new_handle (T k') = Some h \<longrightarrow> k = k')"

definition system_ok :: "(nat \<Rightarrow> task) \<times> registry \<Rightarrow> bool" where
  "system_ok s \<longleftrightarrow> published_ok (snd s) \<and> tasks_ok (fst s) (snd s) \<and> tasks_apart (fst s)"

text \<open>A thread that gives up its task, or goes on with handles it may use.\<close>

lemma tasks_ok_upd:
  "tasks_ok T reg \<Longrightarrow> task_id t = None \<Longrightarrow> new_handle t = None \<Longrightarrow>
     (\<And>h. h \<in> task_handles t \<Longrightarrow> h < reg_fresh reg \<and> settled (reg_store reg h)) \<Longrightarrow> tasks_ok (T(k := t)) reg"
  by (auto simp: tasks_ok_def)

lemma tasks_apart_upd:
  "tasks_apart T \<Longrightarrow> task_id t = None \<Longrightarrow> new_handle t = None \<Longrightarrow> tasks_apart (T(k := t))"
  by (auto simp: tasks_apart_def)

lemma handle_ok: "tasks_ok T reg \<Longrightarrow> h \<in> task_handles (T k) \<Longrightarrow> h < reg_fresh reg \<and> settled (reg_store reg h)"
  by (simp add: tasks_ok_def)

text \<open>A change of the store that keeps sessions settled.\<close>

lemma store_change:
  assumes "\<And>h. settled (reg_store reg h) \<Longrightarrow> settled (st h)"
  shows "published_ok reg \<Longrightarrow> published_ok (reg\<lparr>reg_store := st\<rparr>)"
    and "tasks_ok T reg \<Longrightarrow> tasks_ok T (reg\<lparr>reg_store := st\<rparr>)"
  using assms by (auto simp: published_ok_def tasks_ok_def split: prod.splits)

lemma on_session_store:
  assumes "on_session h m reg = (r, reg')"
  shows "reg' = reg\<lparr>reg_store := (reg_store reg)(h := snd (m (reg_store reg h)))\<rparr>"
  using assms by (auto simp: on_session_def split: prod.splits)

lemma stop_keeps:
  assumes "on_session h stop_session_op reg = (r, reg')"
  shows "published_ok reg \<Longrightarrow> published_ok reg'" and "tasks_ok T reg \<Longrightarrow> tasks_ok T reg'"
proof -
  let ?st = "(reg_store reg)(h := snd (stop_session_op (reg_store reg h)))"
  have "settled (?st k)" if "settled (reg_store reg k)" for k
    using that settled_stop [unfolded pres_def, rule_format] by (cases "k = h") auto
  from store_change [of reg ?st, OF this] on_session_store [OF assms]
  show "published_ok reg \<Longrightarrow> published_ok reg'" "tasks_ok T reg \<Longrightarrow> tasks_ok T reg'" by simp_all
qed

lemma shutdown_stop_keeps:
  assumes "stop_session_for_shutdown hung h reg = (r, reg')"
  shows "published_ok reg \<Longrightarrow> published_ok reg'" and "tasks_ok T reg \<Longrightarrow> tasks_ok T reg'"
proof -
  have "reg' = reg \<or> (\<exists>x. on_session h stop_session_op reg = (x, reg'))"
    using assms
    by (auto simp: stop_session_for_shutdown_def exec_defs split: if_split_asm prod.split_asm sum.split_asm)
  then show "published_ok reg \<Longrightarrow> published_ok reg'" "tasks_ok T reg \<Longrightarrow> tasks_ok T reg'"
    using stop_keeps by blast+
qed

lemma step_allocate:
  assumes "system_ok (T, reg)" "allocate_session_id reg = (Inr i, reg')" "T k = Idle"
  shows "system_ok (T(k := Allocated i), reg')"
proof -
  have r: "i = reg_next_session_id reg" "reg' = reg\<lparr>reg_next_session_id := reg_next_session_id reg + 1\<rparr>"
    using assms(2) by (auto simp: allocate_session_id_def)
  have below: "task_id (T k') = Some j \<Longrightarrow> j < i" for k' j
    using assms(1) r by (auto simp: system_ok_def tasks_ok_def)
  have "published_ok reg'" using assms(1) by (auto simp: system_ok_def published_ok_def r split: prod.splits)
  moreover have "tasks_ok (T(k := Allocated i)) reg'"
    using assms(1) by (auto simp: system_ok_def tasks_ok_def published_ok_def r intro: less_imp_le)
  moreover have "tasks_apart (T(k := Allocated i))"
    using assms(1) below by (auto simp: system_ok_def tasks_apart_def)
  ultimately show ?thesis by (simp add: system_ok_def)
qed

lemma start_store:
  assumes "create_session w reg = (Inr h, reg1)" "on_session h (start_session_op request) reg1 = (Inr res, reg')"
  shows "h = reg_fresh reg" and "\<exists>rt. reg' = reg\<lparr>reg_fresh := reg_fresh reg + 1, reg_store := (reg_store reg)(h := rt)\<rparr>
     \<and> start_ok res rt"
proof -
  show h: "h = reg_fresh reg" using assms(1) by (simp add: create_session_def)
  let ?s = "create_default_session_service w"
  have "\<not> has_controller ?s"
    by (simp add: create_default_session_service_def new_runtime_def has_controller_def)
  from start_hoare [of request] this
  have "case start_session_op request ?s of (Inr x, s') \<Rightarrow> start_ok x s' | (Inl e, s') \<Rightarrow> False"
    by (simp add: hoare_def)
  then show "\<exists>rt. reg' = reg\<lparr>reg_fresh := reg_fresh reg + 1, reg_store := (reg_store reg)(h := rt)\<rparr>
     \<and> start_ok res rt"
    using assms by (auto simp: create_session_def on_session_def split: prod.splits sum.splits)
qed

lemma fresh_store_ok:
  assumes "system_ok (T, reg)" and r: "reg' = reg\<lparr>reg_fresh := reg_fresh reg + 1,
      reg_store := (reg_store reg)(reg_fresh reg := rt)\<rparr>"
  shows "published_ok reg' \<and> tasks_ok T reg'"
proof -
  have "h < reg_fresh reg \<Longrightarrow> ((reg_store reg)(reg_fresh reg := rt)) h = reg_store reg h" for h by simp
  then show ?thesis
    using assms(1) unfolding r system_ok_def published_ok_def tasks_ok_def
    by (auto split: prod.splits) fastforce+
qed

lemma step_started:
  assumes ok: "system_ok (T, reg)" and k: "T k = Allocated i"
    and r: "reg' = reg\<lparr>reg_fresh := reg_fresh reg + 1, reg_store := (reg_store reg)(reg_fresh reg := rt)\<rparr>"
    and s: "settled rt"
  shows "system_ok (T(k := Started i (reg_fresh reg)), reg')"
proof -
  note f = fresh_store_ok [OF ok r]
  have old: "new_handle (T k') = Some h \<Longrightarrow> h < reg_fresh reg" for k' h
  proof -
    assume "new_handle (T k') = Some h"
    then have "h \<in> task_handles (T k')" by (cases "T k'") auto
    then show ?thesis using ok by (simp add: system_ok_def tasks_ok_def)
  qed
  have pub: "h \<in> snd ` set (reg_sessions reg) \<Longrightarrow> h < reg_fresh reg" for h
    using ok by (auto simp: system_ok_def published_ok_def)
  have ids: "i < reg_next_session_id reg \<and> i \<notin> fst ` set (reg_sessions reg)"
    using ok k by (metis fst_conv snd_conv system_ok_def task_id.simps(1) tasks_ok_def)
  have "tasks_ok (T(k := Started i (reg_fresh reg))) reg'"
    using f ids pub s unfolding tasks_ok_def by (auto simp: r)
  moreover have "tasks_apart (T(k := Started i (reg_fresh reg)))"
  proof -
    have "task_id (T k') = Some i \<Longrightarrow> k' = k" for k'
      using ok k by (auto simp: system_ok_def tasks_apart_def)
    then show ?thesis using ok old by (auto simp: system_ok_def tasks_apart_def)
  qed
  ultimately show ?thesis using f by (simp add: system_ok_def)
qed

lemma step_publish:
  assumes ok: "system_ok (T, reg)" and k: "T k = Started i h"
  shows "system_ok (T(k := Idle), publish_session i h reg)"
proof -
  have i: "i \<notin> fst ` set (reg_sessions reg)" "i < reg_next_session_id reg"
    and h: "h \<notin> snd ` set (reg_sessions reg)" "h < reg_fresh reg" "settled (reg_store reg h)"
    using ok k unfolding system_ok_def tasks_ok_def fst_conv snd_conv
    by (metis task_id.simps(2) new_handle.simps(1) task_handles.simps(1) insertI1)+
  have s: "reg_sessions (publish_session i h reg) = reg_sessions reg @ [(i, h)]"
    using i(1) by (simp add: publish_session_def update_fresh)
  have other: "k' \<noteq> k \<Longrightarrow> task_id (T k') \<noteq> Some i \<and> new_handle (T k') \<noteq> Some h" for k'
    using ok k by (force simp: system_ok_def tasks_apart_def)
  have "published_ok (publish_session i h reg)"
    using ok i h unfolding published_ok_def s by (auto simp: system_ok_def published_ok_def publish_session_def)
  moreover have "tasks_ok (T(k := Idle)) (publish_session i h reg)"
    using ok other unfolding tasks_ok_def s by (auto simp: system_ok_def tasks_ok_def publish_session_def)
  ultimately show ?thesis
    using ok tasks_apart_upd [of T Idle k] by (simp add: system_ok_def)
qed

lemma closing_irrelevant:
  "published_ok (reg\<lparr>reg_closing_sessions := c\<rparr>) = published_ok reg"
  "tasks_ok T (reg\<lparr>reg_closing_sessions := c\<rparr>) = tasks_ok T reg"
  by (simp_all add: published_ok_def tasks_ok_def)

lemma fewer_sessions:
  assumes "set xs \<subseteq> set (reg_sessions reg)" "distinct (map fst xs)" "distinct (map snd xs)"
  shows "published_ok reg \<Longrightarrow> published_ok (reg\<lparr>reg_sessions := xs\<rparr>)"
    and "tasks_ok T reg \<Longrightarrow> tasks_ok T (reg\<lparr>reg_sessions := xs\<rparr>)"
proof -
  show "published_ok reg \<Longrightarrow> published_ok (reg\<lparr>reg_sessions := xs\<rparr>)"
    using assms by (auto simp: published_ok_def)
  have "fst ` set xs \<subseteq> fst ` set (reg_sessions reg)" "snd ` set xs \<subseteq> snd ` set (reg_sessions reg)"
    using assms(1) by auto
  then have "i \<notin> fst ` set (reg_sessions reg) \<Longrightarrow> i \<notin> fst ` set xs"
    "h \<notin> snd ` set (reg_sessions reg) \<Longrightarrow> h \<notin> snd ` set xs" for i h by (blast dest: subsetD)+
  then show "tasks_ok T reg \<Longrightarrow> tasks_ok T (reg\<lparr>reg_sessions := xs\<rparr>)"
    unfolding tasks_ok_def by simp
qed

lemma delete_sessions:
  assumes "published_ok reg"
  shows "set (AList.delete i (reg_sessions reg)) \<subseteq> set (reg_sessions reg)"
    "distinct (map fst (AList.delete i (reg_sessions reg)))" "distinct (map snd (AList.delete i (reg_sessions reg)))"
  using assms
  by (auto simp: published_ok_def AList.delete_eq distinct_map_filter)

lemma finish_close_ok:
  assumes "published_ok reg" "tasks_ok T reg"
  shows "published_ok (finish_close i h reg)" "tasks_ok T (finish_close i h reg)"
  using assms fewer_sessions [OF delete_sessions [OF assms(1), of i]]
  by (simp_all add: finish_close_def abandon_close_def closing_irrelevant)

lemma published_handle:
  "published_ok reg \<Longrightarrow> (i, h) \<in> set (reg_sessions reg) \<Longrightarrow> h < reg_fresh reg \<and> settled (reg_store reg h)"
  by (auto simp: published_ok_def)

lemma reg_step_ok: "reg_step s s' \<Longrightarrow> system_ok s \<Longrightarrow> system_ok s'"
proof (induction rule: reg_step.induct)
  case (allocate T k reg i reg')
  then show ?case by (intro step_allocate)
next
  case (start_failed T k i w reg h reg1 request e reg')
  from start_store [OF start_failed(2,3)] obtain rt where
    "reg' = reg\<lparr>reg_fresh := reg_fresh reg + 1, reg_store := (reg_store reg)(reg_fresh reg := rt)\<rparr>" by blast
  from fresh_store_ok [OF start_failed.prems this] start_failed.prems show ?case
    by (auto simp: system_ok_def intro!: tasks_ok_upd tasks_apart_upd)
next
  case (start_succeeded T k i w reg h reg1 request v ws reg')
  from start_store [OF start_succeeded(2,3)] obtain rt where
    "reg' = reg\<lparr>reg_fresh := reg_fresh reg + 1, reg_store := (reg_store reg)(reg_fresh reg := rt)\<rparr>"
    and "settled rt" and "h = reg_fresh reg" by (auto simp: settled_def)
  with step_started [OF start_succeeded.prems start_succeeded(1)] show ?case by simp
next
  case (publish T k i h reg)
  then show ?case by (intro step_publish)
next
  case (close_begin T k i reg h reg')
  then have "(i, h) \<in> set (reg_sessions reg)"
    and r: "reg' = reg\<lparr>reg_closing_sessions := insert i (reg_closing_sessions reg)\<rparr>"
    by (auto simp: begin_close_def get_session_def split: option.splits dest: map_of_SomeD)
  with close_begin.prems published_handle [of reg i h] show ?case
    by (auto simp: system_ok_def closing_irrelevant intro!: tasks_ok_upd tasks_apart_upd)
next
  case (close_removed T k i h reg)
  then show ?case using handle_ok [of T reg h k] by (auto simp: system_ok_def intro!: tasks_ok_upd tasks_apart_upd)
next
  case (close_inconsistent T k i h reg)
  then show ?case by (auto simp: system_ok_def intro!: tasks_ok_upd tasks_apart_upd)
next
  case (close_stop T k i h reg m ws reg')
  then have "published_ok reg'" "tasks_ok T reg'"
    using stop_keeps [OF close_stop(2)] by (simp_all add: system_ok_def)
  with close_stop handle_ok [of T reg' h k] show ?case
    by (auto simp: system_ok_def intro!: tasks_ok_upd tasks_apart_upd)
next
  case (close_stop_failed T k i h reg e reg')
  then show ?case
    using stop_keeps [OF close_stop_failed(2)] by (auto simp: system_ok_def intro!: tasks_ok_upd tasks_apart_upd)
next
  case (close_finish T k i h reg)
  then show ?case by (auto simp: system_ok_def finish_close_ok intro!: tasks_ok_upd tasks_apart_upd)
next
  case (close_abandon T k i reg)
  then show ?case
    by (auto simp: system_ok_def abandon_close_def closing_irrelevant intro!: tasks_ok_upd tasks_apart_upd)
next
  case (resolve T k i reg h)
  then have "(i, h) \<in> set (reg_sessions reg)"
    by (auto simp: resolve_session_def get_session_def split: if_splits option.splits dest: map_of_SomeD)
  with resolve.prems published_handle [of reg i h] show ?case
    by (auto simp: system_ok_def intro!: tasks_ok_upd tasks_apart_upd)
next
  case (session_use T k h reg rt')
  let ?st = "(reg_store reg)(h := rt')"
  have "settled (?st x)" if "settled (reg_store reg x)" for x
    using that settled_service.step_keeps [OF session_use(2)] by (cases "x = h") auto
  from store_change [of reg ?st, OF this] session_use.prems show ?case by (auto simp: system_ok_def)
next
  case (release T k h reg)
  then show ?case by (auto simp: system_ok_def intro!: tasks_ok_upd tasks_apart_upd)
next
  case (shutdown_begin T k reg xs reg')
  then have xs: "xs = reg_sessions reg"
    and r: "reg' = (reg\<lparr>reg_sessions := []\<rparr>)\<lparr>reg_closing_sessions := set (map fst (reg_sessions reg))\<rparr>"
    by (auto simp: begin_shutdown_def)
  have "published_ok reg'" "tasks_ok T reg'"
    using shutdown_begin.prems unfolding r closing_irrelevant system_ok_def by (auto intro: fewer_sessions)
  moreover have "h < reg_fresh reg' \<and> settled (reg_store reg' h)" if "h \<in> snd ` set xs" for h
    using that shutdown_begin.prems published_handle by (auto simp: xs r system_ok_def)
  ultimately show ?case
    using shutdown_begin.prems by (auto simp: system_ok_def intro!: tasks_ok_upd tasks_apart_upd)
next
  case (shutdown_stop T k i h xs hung reg r reg')
  then have "published_ok reg'" and t: "tasks_ok T reg'"
    using shutdown_stop_keeps [OF shutdown_stop(2)] by (simp_all add: system_ok_def)
  moreover have "x < reg_fresh reg' \<and> settled (reg_store reg' x)" if "x \<in> snd ` set xs" for x
    using handle_ok [OF t, of x k] that shutdown_stop(1) by auto
  ultimately show ?case
    using shutdown_stop.prems by (auto simp: system_ok_def intro!: tasks_ok_upd tasks_apart_upd)
next
  case (shutdown_end T k reg)
  then show ?case
    by (auto simp: system_ok_def end_shutdown_def closing_irrelevant intro!: tasks_ok_upd tasks_apart_upd)
qed

section \<open>Properties\<close>



lemma start_session_cases:
  obtains res rt where
    "start_session request w reg =
       (if is_failure res
        then (Inr (None, res), reg\<lparr>reg_next_session_id := reg_next_session_id reg + 1,
                reg_fresh := reg_fresh reg + 1, reg_store := (reg_store reg)(reg_fresh reg := rt)\<rparr>)
        else (Inr (Some (reg_next_session_id reg), res),
              reg\<lparr>reg_next_session_id := reg_next_session_id reg + 1,
                reg_fresh := reg_fresh reg + 1, reg_store := (reg_store reg)(reg_fresh reg := rt),
                reg_sessions := AList.update (reg_next_session_id reg) (reg_fresh reg) (reg_sessions reg)\<rparr>))"
    "start_ok res rt" "rt_ok rt"
proof -
  let ?s = "create_default_session_service w"
  have "\<not> has_controller ?s"
    by (simp add: create_default_session_service_def new_runtime_def has_controller_def)
  with start_hoare [of request] obtain res rt where
    r: "start_session_op request ?s = (Inr res, rt)" "start_ok res rt"
    unfolding hoare_def by (cases "start_session_op request ?s") (fastforce split: sum.splits)
  have "rt_ok ?s" by (simp add: create_default_session_service_def rt_ok_new)
  with pres_start [of request] r(1) have ok: "rt_ok rt" by (force simp: pres_def)
  show ?thesis
    by (rule that [OF _ r(2) ok])
      (simp add: start_session_def allocate_session_id_def create_session_def on_session_def
        publish_session_def exec_defs r(1))
qed

text \<open>
  Starting a session through the registry always returns, and publishes exactly the
  successes: on success the id is new, names the new session and that session is READY and
  running; on failure no id is returned, the published sessions are untouched, and the
  session that failed is FAILED without a controller. An id is used up in both cases.
\<close>

theorem start_session_publishes:
  assumes "published_ok reg"
  shows "\<exists>sid res reg'. start_session request w reg = (Inr (sid, res), reg')
     \<and> reg_next_session_id reg' = reg_next_session_id reg + 1
     \<and> start_ok res (reg_store reg' (reg_fresh reg))
     \<and> (if is_failure res then sid = None \<and> reg_sessions reg' = reg_sessions reg
        else sid = Some (reg_next_session_id reg)
          \<and> get_session (reg_next_session_id reg) reg = None
          \<and> map_of (reg_sessions reg') =
              (map_of (reg_sessions reg))(reg_next_session_id reg \<mapsto> reg_fresh reg))"
proof -
  obtain res rt where r: "start_session request w reg =
       (if is_failure res
        then (Inr (None, res), reg\<lparr>reg_next_session_id := reg_next_session_id reg + 1,
                reg_fresh := reg_fresh reg + 1, reg_store := (reg_store reg)(reg_fresh reg := rt)\<rparr>)
        else (Inr (Some (reg_next_session_id reg), res),
              reg\<lparr>reg_next_session_id := reg_next_session_id reg + 1,
                reg_fresh := reg_fresh reg + 1, reg_store := (reg_store reg)(reg_fresh reg := rt),
                reg_sessions := AList.update (reg_next_session_id reg) (reg_fresh reg) (reg_sessions reg)\<rparr>))"
    and ok: "start_ok res rt" by (rule start_session_cases)
  have "get_session (reg_next_session_id reg) reg = None"
    using assms unfolding published_ok_def get_session_def map_of_eq_None_iff by fastforce
  with r ok show ?thesis by (cases "is_failure res") (simp_all add: update_conv')
qed

theorem start_session_publishes_witness:
  "\<exists>res reg'. start_session sample_config (sample_world []) new_registry = (Inr (Some 1, res), reg')
     \<or> start_session sample_config (sample_world []) new_registry = (Inr (None, res), reg')"
proof -
  have "published_ok new_registry" by (simp add: published_ok_def new_registry_def)
  moreover have "reg_next_session_id new_registry = 1" by (simp add: new_registry_def)
  ultimately show ?thesis
    using start_session_publishes [of new_registry sample_config "sample_world []"]
    by (metis (no_types, lifting))
qed

end
