(* ===== verification/Campaign_Correct.thy ===== *)
theory Campaign_Correct
  imports Campaign Capture_Correct Lifecycle_Correct
begin

text \<open>
  Correctness of campaigns: no debugger outlives its iteration, and a campaign ends at the first
  iteration that matches.
\<close>

section \<open>Cleanup\<close>

lemma cleanup_drops: "\<exists>rt'. cleanup_session rt = (Inr (), rt') \<and> \<not> has_controller rt'"
proof (cases "has_controller rt")
  case True
  from stop_outcome [OF this] obtain res rt' where "stop_session_op rt = (Inr res, rt')" "\<not> has_controller rt'"
    by blast
  with True show ?thesis by (simp add: cleanup_session_def exec_defs)
qed (simp add: cleanup_session_def exec_defs)

lemma iteration_drops:
  assumes "campaign_iteration env request i s = (r, s')"
  shows "\<not> has_controller (cs_runtime s')"
proof -
  obtain r1 s1 where b: "iteration_body env request i s = (r1, s1)" by (cases "iteration_body env request i s")
  from cleanup_drops obtain rt' where c: "cleanup_session (cs_runtime s1) = (Inr (), rt')" "\<not> has_controller rt'"
    by blast
  then show ?thesis
    using assms b by (auto simp: campaign_iteration_def finallyE_def on_runtime_def zoom_def)
qed

lemma loop_drops:
  assumes "campaign_loop env request its pr s = (r, s')"
  shows "\<exists>new. cg_ended s' = cg_ended s @ new \<and> length new \<le> length its \<and> (\<forall>rt \<in> set new. \<not> has_controller rt)"
  using assms
proof (induction its arbitrary: pr s)
  case Nil
  then show ?case by (simp add: ret_def)
next
  case (Cons i its)
  obtain ro cs where it: "campaign_iteration env request i \<lparr>cs_runtime = ce_factory env i, cs_disk = cg_disk s\<rparr> = (ro, cs)"
    by (cases "campaign_iteration env request i \<lparr>cs_runtime = ce_factory env i, cs_disk = cg_disk s\<rparr>")
  let ?s1 = "\<lparr>cg_disk = cs_disk cs, cg_ended = cg_ended s @ [cs_runtime cs]\<rparr>"
  have dropped: "\<not> has_controller (cs_runtime cs)" by (rule iteration_drops [OF it])
  show ?case
  proof (cases "\<exists>out. ro = Inr out \<and> io_matched out = None")
    case True
    then obtain out where "ro = Inr out" "io_matched out = None" by blast
    with Cons.prems it have "campaign_loop env request its (add_iteration out pr) ?s1 = (r, s')"
      by (simp add: in_fresh_session_def bindE_def)
    from Cons.IH [OF this] dropped show ?thesis by auto
  next
    case False
    with Cons.prems it have "s' = ?s1"
      by (auto simp: in_fresh_session_def bindE_def ret_def split: sum.splits option.splits)
    with dropped show ?thesis by simp
  qed
qed

section \<open>Iterations\<close>

text \<open>An iteration's summary and its match agree.\<close>

definition outcome_ok :: "nat \<Rightarrow> iteration_outcome \<Rightarrow> bool" where
  "outcome_ok i out \<longleftrightarrow> rfi_iteration (io_summary out) = i
     \<and> rfi_matched_failure (io_summary out) = (io_matched out \<noteq> None)
     \<and> (\<forall>m. io_matched out = Some m \<longrightarrow> mf_iteration m = i \<and> mf_trigger m = rfi_trigger (io_summary out))"

lemma run_and_match_ok: "run_and_match env request i s = (Inr out, s') \<Longrightarrow> outcome_ok i out"
  unfolding run_and_match_def by (auto simp: ret_def outcome_ok_def elim!: bindE_InrE split: prod.splits if_split_asm)

lemma iteration_body_ok:
  assumes "iteration_body env request i s = (Inr out, s')"
  shows "outcome_ok i out"
proof -
  have "startup_failed i e s1 = (Inr out, s') \<Longrightarrow> outcome_ok i out" for e s1
    unfolding startup_failed_def by (auto simp: ret_def outcome_ok_def elim!: bindE_InrE)
  moreover have "setup_failed i info ws s1 = (Inr out, s') \<Longrightarrow> outcome_ok i out" for info ws s1
    unfolding setup_failed_def by (auto simp: ret_def outcome_ok_def elim!: bindE_InrE)
  ultimately show ?thesis
    using assms run_and_match_ok unfolding iteration_body_def
    by (auto simp: throw_def elim!: bindE_InrE split: OperationResult.splits if_splits)
qed

lemma iteration_ok: "campaign_iteration env request i s = (Inr out, s') \<Longrightarrow> outcome_ok i out"
  unfolding campaign_iteration_def finallyE_def
  by (auto split: prod.splits sum.splits intro: iteration_body_ok)

lemma loop_outcomes:
  assumes "campaign_loop env request its pr s = (Inr (pr', m), s')"
  shows "\<exists>outs. cp_summaries pr' = cp_summaries pr @ map io_summary outs
    \<and> length (cg_ended s') = length (cg_ended s) + length outs
    \<and> list_all2 outcome_ok (take (length outs) its) outs
    \<and> (case m of
         None \<Rightarrow> length outs = length its \<and> (\<forall>out \<in> set outs. io_matched out = None)
       | Some mf \<Rightarrow> outs \<noteq> [] \<and> io_matched (last outs) = Some mf \<and> (\<forall>out \<in> set (butlast outs). io_matched out = None))"
  using assms
proof (induction its arbitrary: pr s)
  case Nil
  then show ?case by (auto simp: ret_def)
next
  case (Cons i its)
  from Cons.prems obtain out s1 where
    it: "in_fresh_session (ce_factory env i) (campaign_iteration env request i) s = (Inr out, s1)"
    and rest: "(case io_matched out of Some m \<Rightarrow> ret (add_iteration out pr, Some m)
        | None \<Rightarrow> campaign_loop env request its (add_iteration out pr)) s1 = (Inr (pr', m), s')"
    by (auto elim!: bindE_InrE)
  from it have ok: "outcome_ok i out" and len: "length (cg_ended s1) = Suc (length (cg_ended s))"
    by (auto simp: in_fresh_session_def dest: iteration_ok split: prod.splits)
  show ?case
  proof (cases "io_matched out")
    case (Some mf)
    with rest have "pr' = add_iteration out pr" "m = Some mf" "s' = s1" by (auto simp: ret_def)
    with Some ok len show ?thesis by (intro exI [of _ "[out]"]) (simp add: add_iteration_def)
  next
    case None
    with rest have "campaign_loop env request its (add_iteration out pr) s1 = (Inr (pr', m), s')" by simp
    from Cons.IH [OF this] obtain outs where outs: "cp_summaries pr' = cp_summaries (add_iteration out pr) @ map io_summary outs"
      "length (cg_ended s') = length (cg_ended s1) + length outs" "list_all2 outcome_ok (take (length outs) its) outs"
      "case m of
         None \<Rightarrow> length outs = length its \<and> (\<forall>out \<in> set outs. io_matched out = None)
       | Some mf \<Rightarrow> outs \<noteq> [] \<and> io_matched (last outs) = Some mf \<and> (\<forall>out \<in> set (butlast outs). io_matched out = None)"
      by blast
    with None ok len show ?thesis
      by (intro exI [of _ "out # outs"]) (auto simp: add_iteration_def split: option.splits)
  qed
qed

section \<open>Properties\<close>

text \<open>
  C8. A campaign leaves no debugger behind. Whatever happens in it, also when it ends with an
  exception, a campaign creates at most as many sessions as it has iterations, and every session it
  created has let its controller go.
\<close>

theorem campaign_leaves_no_gdb:
  assumes "run_until_failure env request s = (r, s')"
  shows "\<exists>new. cg_ended s' = cg_ended s @ new \<and> length new \<le> rfr_max_iterations request
    \<and> (\<forall>rt \<in> set new. \<not> has_controller rt)"
proof -
  let ?pr = "\<lparr>cp_summaries = [], cp_last_payload = None, cp_last_status = None\<rparr>"
  let ?loop = "campaign_loop env request [1..<rfr_max_iterations request + 1] ?pr s"
  have "s' = s \<or> s' = snd ?loop"
    using assms unfolding run_until_failure_def
    by (auto simp: throw_def ret_def bindE_def split: option.splits prod.splits sum.splits)
  moreover have "\<exists>new. cg_ended (snd ?loop) = cg_ended s @ new \<and> length new \<le> rfr_max_iterations request
    \<and> (\<forall>rt \<in> set new. \<not> has_controller rt)"
    using loop_drops [of env request "[1..<rfr_max_iterations request + 1]" ?pr s "fst ?loop" "snd ?loop"]
    by (simp del: upt_Suc)
  ultimately show ?thesis by auto
qed

text \<open>
  C21. A campaign ends at the first match. A campaign that returns has run the iterations 1, 2 and so
  on, one summary and one session each, at most as many as were requested. No iteration before the
  last one matched. It reports a match exactly when the last iteration matched, with that iteration's
  number and trigger; when it reports none, every requested iteration was run and none matched.
\<close>

theorem campaign_stops_at_match:
  assumes "run_until_failure env request s = (Inr (Success info ws), s')"
  shows "map rfi_iteration (rui_iterations info) = [1..<length (rui_iterations info) + 1]
    \<and> rui_iterations_completed info = length (rui_iterations info)
    \<and> length (rui_iterations info) \<le> rfr_max_iterations request
    \<and> length (cg_ended s') = length (cg_ended s) + length (rui_iterations info)
    \<and> (\<forall>x \<in> set (butlast (rui_iterations info)). \<not> rfi_matched_failure x)
    \<and> (if rui_matched_failure info
       then rui_iterations info \<noteq> [] \<and> rfi_matched_failure (last (rui_iterations info))
         \<and> rui_failure_iteration info = Some (length (rui_iterations info))
         \<and> rui_trigger info = rfi_trigger (last (rui_iterations info))
       else length (rui_iterations info) = rfr_max_iterations request
         \<and> (\<forall>x \<in> set (rui_iterations info). \<not> rfi_matched_failure x))"
proof -
  let ?its = "[1..<rfr_max_iterations request + 1]"
  from assms obtain pr m where loop: "campaign_loop env request ?its
      \<lparr>cp_summaries = [], cp_last_payload = None, cp_last_status = None\<rparr> s = (Inr (pr, m), s')"
    and info: "info = (case m of None \<Rightarrow> no_match_info request pr | Some mf \<Rightarrow> match_info request pr mf)"
    unfolding run_until_failure_def
    by (auto simp: throw_def ret_def op_success_def elim!: bindE_InrE split: option.splits)
  from loop_outcomes [OF loop] obtain outs where outs: "cp_summaries pr = map io_summary outs"
    "length (cg_ended s') = length (cg_ended s) + length outs" "list_all2 outcome_ok (take (length outs) ?its) outs"
    "case m of
         None \<Rightarrow> length outs = length ?its \<and> (\<forall>out \<in> set outs. io_matched out = None)
       | Some mf \<Rightarrow> outs \<noteq> [] \<and> io_matched (last outs) = Some mf \<and> (\<forall>out \<in> set (butlast outs). io_matched out = None)"
    by (auto simp del: length_upt upt_Suc)
  have its: "rui_iterations info = map io_summary outs" "rui_iterations_completed info = length outs"
    using info outs(1) by (auto simp: no_match_info_def match_info_def split: option.splits)
  have le: "length outs \<le> rfr_max_iterations request" using list_all2_lengthD [OF outs(3)] by (simp del: upt_Suc)
  have nth: "outcome_ok (Suc i) (outs ! i)" if "i < length outs" for i
    using list_all2_nthD2 [OF outs(3) that] that le by (simp add: nth_upt del: upt_Suc)
  have nums: "map rfi_iteration (map io_summary outs) = [1..<length outs + 1]"
    using nth by (intro nth_equalityI) (auto simp: outcome_ok_def nth_upt simp del: upt_Suc)
  have agree: "rfi_matched_failure (io_summary out) = (io_matched out \<noteq> None)" if "out \<in> set outs" for out
    using that nth by (auto simp: in_set_conv_nth outcome_ok_def)
  have early: "\<forall>x \<in> set (butlast (map io_summary outs)). \<not> rfi_matched_failure x"
  proof -
    have "\<not> rfi_matched_failure (io_summary out)" if "out \<in> set (butlast outs)" for out
      using outs(4) that agree [OF in_set_butlastD [OF that]] by (cases m) (auto dest: in_set_butlastD)
    then show ?thesis by (auto simp: map_butlast [symmetric])
  qed
  show ?thesis
  proof (cases m)
    case None
    with info outs(2,4) its nums le early agree show ?thesis by (simp add: no_match_info_def del: upt_Suc)
  next
    case (Some mf)
    with outs(4) have ne: "outs \<noteq> []" and mf: "io_matched (last outs) = Some mf" by auto
    then have "outcome_ok (length outs) (last outs)"
      using nth [of "length outs - 1"] by (simp add: last_conv_nth)
    with mf have "mf_iteration mf = length outs" "mf_trigger mf = rfi_trigger (io_summary (last outs))"
      "rfi_matched_failure (io_summary (last outs))" by (auto simp: outcome_ok_def)
    with Some info outs(2) its nums le early ne show ?thesis by (simp add: match_info_def last_map del: upt_Suc)
  qed
qed

text \<open>A campaign of two iterations in which GDB cannot be started.\<close>

definition sample_campaign :: RunUntilFailureRequest where
  "sample_campaign = \<lparr>rfr_program = None, rfr_args = [], rfr_init_commands = [], rfr_env = [], rfr_gdb_path = None,
     rfr_working_dir = None, rfr_core = None, rfr_setup_steps = [], rfr_run_args = [], rfr_run_timeout_sec = 1,
     rfr_max_iterations = 2, rfr_failure = \<lparr>rfc_failure_on_error = True, rfc_failure_on_timeout = True,
       rfc_stop_reasons = [], rfc_execution_states = [], rfc_exit_codes = [], rfc_result_text_regex = None\<rparr>,
     rfr_capture = \<lparr>rfp_enabled = False, rfp_bundle_name_prefix = None, rfp_bundle = sample_request\<rparr>\<rparr>"

definition sample_campaign_env :: campaign_env where
  "sample_campaign_env = \<lparr>ce_paths = sample_paths, ce_compile = (\<lambda>_. None), ce_search = (\<lambda>_ _. False),
     ce_factory = (\<lambda>_. idle_runtime [ReadRaises 5 (Exn OSError ''gone'')])\<rparr>"

definition campaign_start :: campaign_state where
  "campaign_start = \<lparr>cg_disk = \<lparr>dk_dirs = [], dk_files = [], dk_outcomes = []\<rparr>, cg_ended = []\<rparr>"

definition campaign_summary ::
  "exn + RunUntilFailureInfo OperationResult \<Rightarrow> (nat option \<times> string option) option" where
  "campaign_summary r = (case r of Inr (Success i ws) \<Rightarrow> Some (rui_failure_iteration i, rui_trigger i) | _ \<Rightarrow> None)"

lemma sample_campaign_run:
  "campaign_summary (fst (run_until_failure sample_campaign_env sample_campaign campaign_start))
     = Some (Some 1, Some ''startup_error'')"
  by code_simp

theorem campaign_leaves_no_gdb_witness:
  "\<exists>new. cg_ended (snd (run_until_failure sample_campaign_env sample_campaign campaign_start)) = new
     \<and> length new \<le> 2 \<and> (\<forall>rt \<in> set new. \<not> has_controller rt)"
proof -
  obtain r s' where x: "run_until_failure sample_campaign_env sample_campaign campaign_start = (r, s')"
    by (cases "run_until_failure sample_campaign_env sample_campaign campaign_start")
  have "cg_ended campaign_start = []" "rfr_max_iterations sample_campaign = 2"
    by (simp_all add: campaign_start_def sample_campaign_def)
  with campaign_leaves_no_gdb [OF x] x show ?thesis by auto
qed

theorem campaign_stops_at_match_witness:
  "\<exists>info ws s'. run_until_failure sample_campaign_env sample_campaign campaign_start = (Inr (Success info ws), s')
     \<and> rui_iterations_completed info = length (cg_ended s') \<and> rui_failure_iteration info = Some 1"
proof -
  obtain r s' where x: "run_until_failure sample_campaign_env sample_campaign campaign_start = (r, s')"
    by (cases "run_until_failure sample_campaign_env sample_campaign campaign_start")
  with sample_campaign_run obtain info ws where info: "r = Inr (Success info ws)" "rui_failure_iteration info = Some 1"
    by (auto simp: campaign_summary_def split: sum.splits OperationResult.splits)
  have "cg_ended campaign_start = []" by (simp add: campaign_start_def)
  with campaign_stops_at_match [OF x [unfolded info(1)]] x info show ?thesis by auto
qed

end
