(* ===== verification/Schema_Normalizer_Correct.thy ===== *)
theory Schema_Normalizer_Correct
  imports Schema_Normalizer
begin

text \<open>
  Correctness of the schema normaliser: the flattened schema has no combinators left, the merged
  object admits what the alternatives admit, pruning keeps the definitions that can be reached, and
  a frozen schema thaws to itself.
\<close>

declare normalize_node.simps [simp del] normalize_entry.simps [simp del] resolve_ref.simps [simp del]
  normalize_union.simps [simp del] prune_loop.simps [simp del] merge_property_schemas.simps [simp del]

named_theorems flat_intros \<open>operations on dictionaries that keep a schema flat\<close>

section \<open>Flat schemas\<close>

text \<open>The keywords that a flat schema does not have.\<close>

definition combinators :: "string list" where
  "combinators = [''oneOf'', ''anyOf'', ''discriminator'', ''const'', ''$ref'']"

text \<open>The keywords whose values hold schemas.\<close>

definition schema_keys :: "string list" where
  "schema_keys = [''properties'', ''items'', ''additionalProperties'', ''contains'', ''prefixItems'']"

fun flat :: "pyv \<Rightarrow> bool" and flat_entry :: "string \<Rightarrow> pyv \<Rightarrow> bool" where
  "flat (PDict d) = list_all (\<lambda>p. fst p \<notin> set combinators \<and> flat_entry (fst p) (snd p)) d"
| "flat (PList xs) = True" | "flat (PTuple xs) = True" | "flat (PStr s) = True" | "flat PNone = True"
| "flat (PInt i) = True" | "flat (PFloat f) = True" | "flat (PBool b) = True"
| "flat (PData c d) = True" | "flat (POther t) = True"
| "flat_entry key (PDict d) =
     (if key = ''properties'' then list_all (\<lambda>p. flat (snd p)) d
      else key \<in> {''items'', ''additionalProperties'', ''contains''} \<longrightarrow>
        list_all (\<lambda>p. fst p \<notin> set combinators \<and> flat_entry (fst p) (snd p)) d)"
| "flat_entry key (PList xs) = (key = ''prefixItems'' \<longrightarrow> list_all flat xs)"
| "flat_entry key (PTuple xs) = True" | "flat_entry key (PStr s) = True" | "flat_entry key PNone = True"
| "flat_entry key (PInt i) = True" | "flat_entry key (PFloat f) = True" | "flat_entry key (PBool b) = True"
| "flat_entry key (PData c d) = True" | "flat_entry key (POther t) = True"

abbreviation flat_dict :: "pydict \<Rightarrow> bool" where
  "flat_dict d \<equiv> list_all (\<lambda>p. fst p \<notin> set combinators \<and> flat_entry (fst p) (snd p)) d"

lemma flat_dset [flat_intros]:
  "flat_dict d \<Longrightarrow> k \<notin> set combinators \<Longrightarrow> flat_entry k v \<Longrightarrow> flat_dict (dset k v d)"
  by (induction d) auto

lemma flat_without [flat_intros]: "flat_dict d \<Longrightarrow> flat_dict (without ks d)"
  by (auto simp: without_def list_all_iff)

lemma flat_dupdate [flat_intros]: "flat_dict e \<Longrightarrow> flat_dict d \<Longrightarrow> flat_dict (dupdate d e)"
  unfolding dupdate_def by (induction e arbitrary: d) (auto intro: flat_dset)

lemma flat_get: "flat_dict d \<Longrightarrow> dget d k \<noteq> PNone \<Longrightarrow> flat_entry k (dget d k)"
  by (induction d) auto

lemma flat_other: "key \<notin> set schema_keys \<Longrightarrow> flat_entry key v"
  by (cases v) (auto simp: schema_keys_def)

section \<open>Merging keeps schemas flat\<close>

abbreviation flat_props :: "pydict \<Rightarrow> bool" where
  "flat_props d \<equiv> list_all (\<lambda>p. flat (snd p)) d"

lemma flat_properties [simp]: "flat_entry ''properties'' (PDict ps) = flat_props ps"
  by simp

lemma annotation_keys:
  "list_all (\<lambda>k. k \<notin> set combinators \<and> k \<notin> set schema_keys)
     [''type'', ''required'', ''title'', ''description'', ''enum'', ''default'', ''$defs'']"
  by code_simp

lemma flat_annotation:
  "flat_dict d \<Longrightarrow> k \<in> set [''type'', ''required'', ''title'', ''description'', ''enum''] \<Longrightarrow> flat_dict (dset k v d)"
  using annotation_keys by (intro flat_dset flat_other) (auto simp: list_all_iff)

lemma flat_required: "flat_dict l \<Longrightarrow> flat_dict (merge_required l r)"
  unfolding merge_required_def
  by (auto simp: Let_def intro: flat_annotation flat_without split: option.splits)

lemma flat_props_dset: "flat_props ps \<Longrightarrow> flat v \<Longrightarrow> flat_props (dset k v ps)"
  by (induction ps) auto

lemma flat_props_get: "flat_props ps \<Longrightarrow> flat (dget ps k)"
  by (induction ps) auto

lemma flat_dict_props: "flat_dict d \<Longrightarrow> dget d ''properties'' = PDict ps \<Longrightarrow> flat_props ps"
  using flat_get [of d "''properties''"] by simp

lemma flat_if: "(c \<Longrightarrow> flat_dict a) \<Longrightarrow> (\<not> c \<Longrightarrow> flat_dict b) \<Longrightarrow> flat_dict (if c then a else b)"
  by simp

lemma flat_merge_item:
  assumes "flat_dict merged" "key \<notin> set combinators" "flat_entry key v"
    and props: "\<And>ps rs. dget merged ''properties'' = PDict ps \<Longrightarrow> v = PDict rs \<Longrightarrow> key = ''properties'' \<Longrightarrow>
      flat_props (merge_properties ps rs)"
  shows "flat_dict (merge_item merged key v)"
proof -
  have keep: "flat_dict (dset key w merged)" if "flat_entry key w" for w
    using assms(1,2) that by (rule flat_dset)
  have words: "flat_dict (dset key w merged)" if "key \<in> {''title'', ''description'', ''enum''}" for w
    by (rule flat_annotation [OF assms(1)]) (use that in auto)
  have merged: "flat_dict (dset key (PDict (merge_properties ps rs)) merged)"
    if "dget merged ''properties'' = PDict ps" "v = PDict rs" "key = ''properties''" for ps rs
    using props [OF that] by (intro keep) (simp add: that)
  have enum: "flat_dict (case (as_list (dget merged key), as_list v) of
      (Some xs, Some ys) \<Rightarrow> dset key (PList (dedupe (xs @ ys))) merged | _ \<Rightarrow> merged)" if "key = ''enum''"
    using words assms(1) that by (simp split: option.splits)
  have ps: "flat_dict (case (as_dict (dget merged key), as_dict v) of
      (Some ps, Some rs) \<Rightarrow> dset key (PDict (merge_properties ps rs)) merged | _ \<Rightarrow> merged)" if "key = ''properties''"
    using merged assms(1) that by (simp split: option.splits)
  show ?thesis unfolding merge_item.simps [of merged key v]
    by (intro flat_if assms(1) keep [OF assms(3)] flat_without words enum ps) auto
qed

lemma merge_cases:
  "merge_property_schemas l r = l \<or> (\<exists>ld rd. \<not> py_eq l r \<and> l = PDict ld \<and> r = PDict rd
     \<and> merge_property_schemas l r = PDict (merge_items (merge_required ld rd) rd))"
  by (simp add: merge_property_schemas.simps [of l r] split: pyv.splits)

lemma flat_merge:
  "flat l \<Longrightarrow> flat r \<Longrightarrow> flat (merge_property_schemas l r)"
  "flat_dict merged \<Longrightarrow> flat_dict items \<Longrightarrow> flat_dict (merge_items merged items)"
  "flat_dict merged \<Longrightarrow> key \<notin> set combinators \<Longrightarrow> flat_entry key v \<Longrightarrow> flat_dict (merge_item merged key v)"
  "flat_props ps \<Longrightarrow> flat_props rs \<Longrightarrow> flat_props (merge_properties ps rs)"
proof (induction l r and merged items and merged key v and ps rs
    rule: merge_property_schemas_merge_items_merge_item_merge_properties.induct)
  case (1 l r)
  from merge_cases [of l r] show ?case
  proof
    assume "\<exists>ld rd. \<not> py_eq l r \<and> l = PDict ld \<and> r = PDict rd
      \<and> merge_property_schemas l r = PDict (merge_items (merge_required ld rd) rd)"
    then obtain ld rd where d: "\<not> py_eq l r" "l = PDict ld" "r = PDict rd"
      "merge_property_schemas l r = PDict (merge_items (merge_required ld rd) rd)" by blast
    show ?thesis unfolding d(4) flat.simps
      using "1.prems" d(2,3) by (intro "1.IH" [OF d(1-3)] flat_required) simp_all
  qed (use "1.prems" in simp)
next
  case (4 merged key v)
  show ?case
  proof (rule flat_merge_item)
    fix ps rs assume p: "dget merged ''properties'' = PDict ps" "v = PDict rs" "key = ''properties''"
    then have "dhas merged key" by (auto simp: dhas_def dget_def split: option.splits)
    then show "flat_props (merge_properties ps rs)"
      using "4.prems" p flat_dict_props [OF "4.prems"(1) p(1)] by (intro "4.IH") (simp_all add: as_dict_def)
  qed (use "4.prems" in simp_all)
next
  case (6 ps name p rest)
  then show ?case by (simp add: flat_props_dset flat_props_get)
qed simp_all

lemma flat_fold_variants:
  "list_all flat_dict variants \<Longrightarrow> flat_props (snd acc) \<Longrightarrow> flat_props (snd (foldl merge_variant acc variants))"
proof (induction variants arbitrary: acc)
  case (Cons v vs)
  have "flat_props (snd (merge_variant acc v))"
    using Cons.prems flat_dict_props [of v]
    by (auto simp: merge_variant_def variant_properties_def intro: flat_merge(4) split: prod.splits pyv.splits)
  with Cons show ?case by simp
qed simp

lemma flat_merge_object: "list_all flat_dict variants \<Longrightarrow> flat_dict (merge_object_variants variants)"
proof -
  assume "list_all flat_dict variants"
  from flat_fold_variants [OF this, of "([], [])"] obtain ro ps where
    f: "foldl merge_variant ([], []) variants = (ro, ps)" "flat_props ps"
    by (cases "foldl merge_variant ([], []) variants") auto
  have keys: "''properties'' \<notin> set combinators" "''additionalProperties'' \<notin> set combinators"
    "''type'' \<notin> set combinators" by code_simp+
  have t: "flat_dict [(''type'', PStr ''object'')]" by (simp add: keys)
  show ?thesis unfolding merge_object_variants_def f(1) Let_def prod.case
    using f(2) keys by (intro flat_if flat_annotation flat_dset t) simp_all
qed

lemma flat_variants:
  "list_all flat_dict variants \<Longrightarrow> variants \<noteq> [] \<Longrightarrow> flat_dict (merge_variants variants)"
  by (auto simp: merge_variants_def flat_merge_object split: list.splits)

lemma flat_document:
  assumes "flat_dict merged"
  shows "flat_dict (document_accepted_fields merged variants discriminator)"
proof -
  have one: "flat (snd (document_property pn variants e))" if "flat (snd e)" for pn e
    using that flat_annotation [where k = "''description''"]
    by (auto simp: document_property_def Let_def split: pyv.splits prod.splits)
  have "flat_dict (dset ''properties'' (PDict (map (document_property pn variants) ps)) merged)"
    if "flat_props ps" for pn ps
    using that assms one by (intro flat_dset) (auto simp: combinators_def list_all_iff)
  then show ?thesis using flat_dict_props [OF assms] assms
    by (auto simp: document_accepted_fields_def split: option.splits pyv.splits)
qed

lemma flat_note: "flat_dict merged \<Longrightarrow> flat_dict (note_requirements discriminator variants merged)"
  by (auto simp: note_requirements_def Let_def intro: flat_annotation split: option.splits)

lemma flat_union:
  assumes "list_all flat vs" "flat_dict (without [''oneOf'', ''anyOf'', ''discriminator''] node)"
  shows "flat_dict (flatten_union node vs)"
proof -
  define dicts where "dicts = concat (map (\<lambda>v. case v of PDict d \<Rightarrow> [d] | _ \<Rightarrow> []) vs)"
  have "list_all flat_dict dicts" using assms(1) unfolding dicts_def
    by (induction vs) (auto split: pyv.splits)
  then have variants: "list_all flat_dict (filter (\<lambda>d. \<not> is_null_schema d) dicts)"
    by (auto simp: list_all_iff)
  have wrapper: "flat_dict (union_wrapper node b)" for b
    using assms(2) flat_without [OF assms(2)] by (simp add: union_wrapper_def Let_def)
  have null: "flat_dict (if b then [(''type'', PStr ''null'')] else [])" for b by (simp add: combinators_def)
  show ?thesis unfolding flatten_union_def Let_def dicts_def [symmetric]
    by (intro flat_if flat_document flat_note flat_dupdate wrapper null flat_variants variants)
qed

lemma flat_const:
  assumes "list_all (\<lambda>p. (fst p \<in> set combinators \<longrightarrow> fst p = ''const'') \<and> flat_entry (fst p) (snd p)) d"
  shows "flat_dict (const_to_enum d)"
proof -
  have "flat_dict (without [''const''] d)" using assms by (auto simp: without_def list_all_iff)
  moreover have "flat_dict d" if "\<not> dhas d ''const''"
    using assms that by (auto simp: dhas_keys list_all_iff image_iff)
  ultimately show ?thesis by (auto simp: const_to_enum_def Let_def intro: flat_annotation)
qed

section \<open>Schemas as pydantic emits them\<close>

text \<open>
  What is assumed of the input: a reference is a string with nothing but annotations beside it, the
  alternatives of a union are a list with nothing but annotations and the discriminator beside it,
  and the same holds for every schema inside.
\<close>

definition annotations_only :: "pydict \<Rightarrow> bool" where
  "annotations_only d = list_all (\<lambda>p. fst p \<notin> set combinators \<and> fst p \<notin> set schema_keys) d"

function (sequential) shaped :: "pyv \<Rightarrow> bool" and shaped_entry :: "string \<Rightarrow> pyv \<Rightarrow> bool" where
  "shaped (PDict d) \<longleftrightarrow>
     list_all (\<lambda>p. shaped_entry (fst p) (snd p)) d
     \<and> (dhas d ''$ref'' \<longrightarrow> as_text (dget d ''$ref'') \<noteq> None \<and> annotations_only (without [''$ref''] d))
     \<and> (dhas d ''oneOf'' \<or> dhas d ''anyOf'' \<longrightarrow>
          annotations_only (without [''oneOf'', ''anyOf'', ''discriminator''] d))"
| "shaped v = True"
| "shaped_entry key (PDict d) \<longleftrightarrow> key \<notin> {''oneOf'', ''anyOf''} \<and>
     (if key = ''properties'' then list_all (\<lambda>p. shaped (snd p)) d
      else key \<in> {''items'', ''additionalProperties'', ''contains''} \<longrightarrow> shaped (PDict d))"
| "shaped_entry key (PList xs) \<longleftrightarrow> (key \<in> {''prefixItems'', ''oneOf'', ''anyOf''} \<longrightarrow> list_all shaped xs)"
| "shaped_entry key v \<longleftrightarrow> key \<notin> {''oneOf'', ''anyOf''}"
  by pat_completeness auto
termination
  by (relation "measure (\<lambda>x. case x of Inl v \<Rightarrow> 2 * size v | Inr (k, v) \<Rightarrow> 2 * size v + 1)")
    (auto dest!: size_entry size_member simp del: pyv.size(18) pyv.size(16))

text \<open>Every reference in a node names a definition that ranks below everything on the stack.\<close>

definition resolvable :: "(string \<Rightarrow> nat) \<Rightarrow> pydict \<Rightarrow> string list \<Rightarrow> pyv \<Rightarrow> bool" where
  "resolvable rank defs stack v =
     list_all (\<lambda>r. dget defs r \<noteq> PNone \<and> list_all (\<lambda>s. rank r < rank s) stack) (collect_ref_names v)"

text \<open>The definitions are objects of the expected shape and refer only to definitions of lower rank.\<close>

definition ranked :: "(string \<Rightarrow> nat) \<Rightarrow> pydict \<Rightarrow> bool" where
  "ranked rank defs = list_all (\<lambda>p. as_dict (snd p) \<noteq> None \<and> shaped (snd p) \<and> resolvable rank defs [fst p] (snd p)) defs"

lemma resolvable_entry: "p \<in> set d \<Longrightarrow> resolvable rank defs stack (PDict d) \<Longrightarrow> resolvable rank defs stack (snd p)"
  by (auto simp: resolvable_def list_all_iff)

lemma resolvable_member: "x \<in> set xs \<Longrightarrow> resolvable rank defs stack (PList xs) \<Longrightarrow> resolvable rank defs stack x"
  by (auto simp: resolvable_def list_all_iff)

lemma resolvable_ref:
  assumes "dget d ''$ref'' = PStr ref" "resolvable rank defs stack (PDict d)"
  shows "dget defs (ref_name ref) \<noteq> PNone" "list_all (\<lambda>s. rank (ref_name ref) < rank s) stack"
  using assms by (simp_all add: resolvable_def)

lemma dget_entry: "dget d k = v \<Longrightarrow> v \<noteq> PNone \<Longrightarrow> (k, v) \<in> set d"
  by (auto simp: dget_def dest: map_of_SomeD split: option.splits)

lemma flat_annotations: "annotations_only d \<Longrightarrow> flat_dict d"
  by (auto simp: annotations_only_def list_all_iff flat_other)

lemma union_members:
  assumes "shaped (PDict d)" "dget_default d ''oneOf'' (dget d ''anyOf'') = v" "dhas d ''oneOf'' \<or> dhas d ''anyOf''"
  obtains xs where "v = PList xs" "list_all shaped xs" "\<exists>k. (k, PList xs) \<in> set d"
proof -
  from assms(2,3) obtain k where k: "(k, v) \<in> set d" "k = ''oneOf'' \<or> k = ''anyOf''"
    by (auto simp: dget_default_def dget_def dhas_def dest!: map_of_SomeD split: option.splits)
  with assms(1) have "shaped_entry k v" by (fastforce simp: list_all_iff)
  with k that show thesis by (cases v) auto
qed

section \<open>The normalised schema is flat\<close>

lemma flat_plain_node:
  assumes "\<not> dhas node ''$ref''" "\<not> (dhas node ''oneOf'' \<or> dhas node ''anyOf'')"
    and "\<And>p. p \<in> set (without [''discriminator''] node) \<Longrightarrow>
      flat_entry (fst p) (normalize_entry (fst p) (snd p) defs stack)"
  shows "flat_dict (const_to_enum (map (\<lambda>p. (fst p, normalize_entry (fst p) (snd p) defs stack))
    (without [''discriminator''] node)))"
proof -
  have "fst p = ''const''" if "p \<in> set (without [''discriminator''] node)" "fst p \<in> set combinators" for p
    using that assms(1,2) by (force simp: without_def combinators_def dhas_keys image_iff)
  with assms(3) show ?thesis by (intro flat_const) (auto simp: list_all_iff)
qed

lemma flat_node_step:
  assumes "shaped v"
    and "\<And>node ref. v = PDict node \<Longrightarrow> as_text (dget node ''$ref'') = Some ref \<Longrightarrow>
      flat (resolve_ref node ref defs stack)"
    and "\<And>node. v = PDict node \<Longrightarrow> as_text (dget node ''$ref'') = None \<Longrightarrow>
      dhas node ''oneOf'' \<or> dhas node ''anyOf'' \<Longrightarrow> flat_dict (normalize_union node defs stack)"
    and "\<And>node p. v = PDict node \<Longrightarrow> as_text (dget node ''$ref'') = None \<Longrightarrow>
      \<not> (dhas node ''oneOf'' \<or> dhas node ''anyOf'') \<Longrightarrow> p \<in> set (without [''discriminator''] node) \<Longrightarrow>
      flat_entry (fst p) (normalize_entry (fst p) (snd p) defs stack)"
  shows "flat (normalize_node v defs stack)"
proof (cases "\<exists>node. v = PDict node")
  case False
  then have "as_dict v = None" by (cases v) (simp_all add: as_dict_def)
  then have "normalize_node v defs stack = v" by (simp add: normalize_node.simps)
  with False show ?thesis by (cases v) simp_all
next
  case True
  then obtain node where v: "v = PDict node" by blast
  have no_ref: "\<not> dhas node ''$ref''" if "as_text (dget node ''$ref'') = None"
    using assms(1) that v by auto
  show ?thesis
    using assms(2) [OF v] assms(3) [OF v] flat_plain_node [OF no_ref _ assms(4) [OF v]]
    by (auto simp: v normalize_node.simps as_dict_def split: option.splits)
qed

lemma flat_entry_step:
  assumes "\<And>d p. v = PDict d \<Longrightarrow> key = ''properties'' \<Longrightarrow> p \<in> set d \<Longrightarrow> flat (normalize_node (snd p) defs stack)"
    and "\<And>d. v = PDict d \<Longrightarrow> key \<noteq> ''properties'' \<Longrightarrow> key \<in> {''items'', ''additionalProperties'', ''contains''} \<Longrightarrow>
      flat (normalize_node v defs stack)"
    and "\<And>xs x. v = PList xs \<Longrightarrow> key = ''prefixItems'' \<Longrightarrow> x \<in> set xs \<Longrightarrow> flat (normalize_node x defs stack)"
  shows "flat_entry key (normalize_entry key v defs stack)"
proof -
  have flat: "flat_entry key w" if "flat w" "key \<notin> {''properties'', ''prefixItems''}" for w
    using that by (cases w) auto
  show ?thesis
  proof (cases v)
    case (PDict d)
    show ?thesis
    proof (cases "key \<in> {''items'', ''additionalProperties'', ''contains''}")
      case True
      then have k: "key \<noteq> ''properties''" "key \<notin> {''properties'', ''prefixItems''}" by auto
      show ?thesis using flat [OF assms(2) [OF PDict k(1) True] k(2)] True k PDict
        by (simp add: normalize_entry.simps as_dict_def)
    next
      case False
      then show ?thesis using assms(1) [OF PDict] PDict
        by (auto simp: normalize_entry.simps as_dict_def list_all_iff)
    qed
  next
    case (PList xs)
    then show ?thesis using assms(3) [OF PList]
      by (auto simp: normalize_entry.simps as_dict_def as_list_def list_all_iff)
  qed (simp_all add: normalize_entry.simps as_dict_def as_list_def)
qed

lemma flat_ref_step:
  assumes "shaped (PDict node)" "dget node ''$ref'' = PStr ref" "dget defs (ref_name ref) \<noteq> PNone"
    "ref_name ref \<notin> set stack" "flat (normalize_node (dget defs (ref_name ref)) defs (stack @ [ref_name ref]))"
  shows "flat (resolve_ref node ref defs stack)"
proof -
  have "flat_dict (without [''$ref''] node)"
    using assms(1,2) by (intro flat_annotations) (auto simp: dhas_def dget_def split: option.splits)
  with assms(3-5) show ?thesis
    by (auto simp: resolve_ref.simps Let_def intro: flat_dupdate split: option.splits)
qed

lemma resolvable_target:
  assumes "ranked rank defs" "dget defs name \<noteq> PNone" "list_all (\<lambda>s. rank name < rank s) stack"
  shows "shaped (dget defs name)" "resolvable rank defs (stack @ [name]) (dget defs name)"
proof -
  from dget_entry [OF refl assms(2)] assms(1) have t: "shaped (dget defs name)"
    "resolvable rank defs [name] (dget defs name)" by (auto simp: ranked_def list_all_iff)
  then show "shaped (dget defs name)" by simp
  from t(2) assms(3) show "resolvable rank defs (stack @ [name]) (dget defs name)"
    by (auto simp: resolvable_def list_all_iff intro: less_trans)
qed

lemma normalize_flat:
  assumes "ranked rank defs"
  shows "shaped v \<Longrightarrow> resolvable rank defs stack v \<Longrightarrow> flat (normalize_node v defs stack)"
    "shaped_entry key v \<Longrightarrow> resolvable rank defs stack v \<Longrightarrow> flat_entry key (normalize_entry key v defs stack)"
    "shaped (PDict node) \<Longrightarrow> dget node ''$ref'' = PStr ref \<Longrightarrow> resolvable rank defs stack (PDict node) \<Longrightarrow>
      flat (resolve_ref node ref defs stack)"
    "shaped (PDict node) \<Longrightarrow> dhas node ''oneOf'' \<or> dhas node ''anyOf'' \<Longrightarrow>
      resolvable rank defs stack (PDict node) \<Longrightarrow> flat_dict (normalize_union node defs stack)"
  using assms
proof (induction v defs stack and key v defs stack and node ref defs stack and node defs stack
    rule: normalize_node_normalize_entry_resolve_ref_normalize_union.induct)
  case (1 v defs stack)
  note IH = "1.IH" and pr = "1.prems"
  have ref: "dget node ''$ref'' = PStr ref" if "as_text (dget node ''$ref'') = Some ref" for node ref
    using that by (auto simp: as_text_def split: pyv.splits)
  show ?case
  proof (rule flat_node_step [OF pr(1)], goal_cases)
    case (1 node ref)
    then have d: "as_dict v = Some node" by simp
    show ?case by (rule IH(3) [OF d 1(2) pr(1) [unfolded 1(1)] ref [OF 1(2)] pr(2) [unfolded 1(1)] pr(3)])
  next
    case (2 node)
    then have d: "as_dict v = Some node" by simp
    show ?case by (rule IH(1) [OF d 2(2,3) pr(1) [unfolded 2(1)] 2(3) pr(2) [unfolded 2(1)] pr(3)])
  next
    case (3 node p)
    then have d: "as_dict v = Some node" and p: "p \<in> set node" by (simp_all add: without_def)
    have "shaped_entry (fst p) (snd p)" using pr(1) p unfolding 3(1) shaped.simps list_all_iff by blast
    from IH(2) [OF d 3(2-4) this resolvable_entry [OF p pr(2) [unfolded 3(1)]] pr(3)] show ?case .
  qed
next
  case (2 key v defs stack)
  note IH = "2.IH" and pr = "2.prems"
  show ?case
  proof (rule flat_entry_step, goal_cases)
    case (1 d p)
    then have d: "as_dict v = Some d" and "shaped (snd p)" using pr(1) by (auto simp: list_all_iff)
    then show ?case using IH(2) [OF d 1(2,3)] resolvable_entry [OF 1(3) pr(2) [unfolded 1(1)]] pr(3) by blast
  next
    case (2 d)
    then have d: "as_dict v = Some d" and "shaped v" using pr(1) by auto
    then show ?case using IH(3) [OF d 2(2,3)] pr(2,3) by blast
  next
    case (3 xs x)
    then have d: "as_dict v = None" "as_list v = Some xs" and "shaped x"
      using pr(1) by (auto simp: list_all_iff as_dict_def)
    then show ?case using IH(1) [OF d 3(2,3)] resolvable_member [OF 3(3) pr(2) [unfolded 3(1)]] pr(3) by blast
  qed
next
  case (3 node ref defs stack)
  note r = resolvable_ref [OF "3.prems"(2,3)]
  have not_on: "ref_name ref \<notin> set stack" using r(2) by (auto simp: list_all_iff)
  then have go: "\<not> (dget defs (ref_name ref) = PNone \<or> ref_name ref \<in> set stack)" using r(1) by simp
  show ?case
    by (rule flat_ref_step [OF "3.prems"(1,2) r(1) not_on],
        rule "3.IH" [OF refl refl go resolvable_target [OF "3.prems"(4) r] "3.prems"(4)])
next
  case (4 node defs stack)
  from union_members [OF "4.prems"(1) refl "4.prems"(2)] obtain xs k where
    xs: "dget_default node ''oneOf'' (dget node ''anyOf'') = PList xs" "list_all shaped xs" "(k, PList xs) \<in> set node"
    by blast
  have "resolvable rank defs stack (PList xs)" using resolvable_entry [OF xs(3) "4.prems"(3)] by simp
  then have each: "flat (normalize_node x defs stack)" if "x \<in> set xs" for x
    using "4.IH" [of xs x] xs that "4.prems"(4) resolvable_member [OF that] by (auto simp: list_all_iff)
  have "flat_dict (without [''oneOf'', ''anyOf'', ''discriminator''] node)"
    using "4.prems"(1,2) by (intro flat_annotations) simp
  then have "flat_dict (flatten_union node (map (\<lambda>x. normalize_node x defs stack) xs))"
    using each by (intro flat_union) (simp_all add: list_all_iff)
  with xs(1) show ?case by (simp add: normalize_union.simps as_list_def)
qed

section \<open>Reachable definitions\<close>

text \<open>The specification of pruning: the definitions reached from some names.\<close>

inductive reached :: "pydict \<Rightarrow> string set \<Rightarrow> string \<Rightarrow> bool" for defs names where
  start: "r \<in> names \<Longrightarrow> dhas defs r \<Longrightarrow> reached defs names r"
| follow: "reached defs names n \<Longrightarrow> map_of defs n = Some d \<Longrightarrow> r \<in> set (collect_ref_names d) \<Longrightarrow>
    dhas defs r \<Longrightarrow> reached defs names r"

lemma prune_loop_kept: "set kept \<subseteq> set (prune_loop defs kept pending)"
proof (induction defs kept pending rule: prune_loop.induct)
  case (1 defs kept pending)
  then show ?case by (subst prune_loop.simps) (auto simp: Let_def split: option.splits)
qed

text \<open>What is kept was kept before or is reached from what was pending.\<close>

lemma prune_loop_sound:
  "n \<in> set (prune_loop defs kept pending) \<Longrightarrow> n \<in> set kept \<or> reached defs (set pending) n"
proof (induction defs kept pending rule: prune_loop.induct)
  case (1 defs kept pending)
  have more: "reached defs A m \<Longrightarrow> (\<And>r. r \<in> A \<Longrightarrow> dhas defs r \<Longrightarrow> reached defs B r) \<Longrightarrow> reached defs B m" for A B m
    by (induction rule: reached.induct) (auto intro: reached.follow)
  let ?l = "last pending" and ?b = "butlast pending"
  show ?case
  proof (cases "pending = []")
    case True
    with 1 show ?thesis by (simp add: prune_loop.simps)
  next
    case False
    have sub: "set ?b \<subseteq> set pending" "?l \<in> set pending" using False by (auto dest: in_set_butlastD)
    show ?thesis
    proof (cases "map_of defs ?l")
      case None
      with 1 False show ?thesis using more [of "set ?b" n "set pending"] sub
        by (subst (asm) prune_loop.simps) (auto simp: Let_def intro: reached.start)
    next
      case (Some d)
      have l: "reached defs (set pending) ?l" using Some sub by (auto intro: reached.start simp: dhas_def)
      have step: "reached defs (set pending) r" if "r \<in> set ?b \<union> set (collect_ref_names d)" "dhas defs r" for r
        using that sub l Some by (auto intro: reached.start reached.follow)
      show ?thesis
      proof (cases "?l \<in> set kept")
        case True
        with 1 False Some show ?thesis using more [of "set ?b" n "set pending"] step
          by (subst (asm) (2) prune_loop.simps) (auto simp: Let_def)
      next
        case out: False
        from "1.prems" have "n \<in> set (prune_loop defs (?l # kept) (?b @ collect_ref_names d))"
          using False Some out by (subst (asm) prune_loop.simps) (simp add: Let_def)
        from "1.IH"(3) [OF False refl refl Some out this] show ?thesis
          using l more [of "set (?b @ collect_ref_names d)" n "set pending"] step by auto
      qed
    qed
  qed
qed

text \<open>The references of what is kept are kept or still pending.\<close>

definition covers :: "pydict \<Rightarrow> string set \<Rightarrow> string set \<Rightarrow> bool" where
  "covers defs kept pending \<longleftrightarrow> (\<forall>n d r. n \<in> kept \<longrightarrow> map_of defs n = Some d \<longrightarrow> r \<in> set (collect_ref_names d) \<longrightarrow>
     dhas defs r \<longrightarrow> r \<in> kept \<union> pending)"

lemma covers_drop: "covers defs kept pending \<Longrightarrow> \<not> dhas defs l \<or> l \<in> kept \<Longrightarrow> covers defs kept (pending - {l})"
  by (auto simp: covers_def)

lemma covers_keep:
  assumes "covers defs kept pending" "map_of defs l = Some d"
  shows "covers defs (insert l kept) (pending - {l} \<union> set (collect_ref_names d))"
  unfolding covers_def
proof (intro allI impI)
  fix n e r assume n: "n \<in> insert l kept" "map_of defs n = Some e" "r \<in> set (collect_ref_names e)" "dhas defs r"
  show "r \<in> insert l kept \<union> (pending - {l} \<union> set (collect_ref_names d))"
  proof (cases "n = l")
    case True
    with n assms(2) show ?thesis by simp
  next
    case False
    with n assms(1) have "r \<in> kept \<union> pending" unfolding covers_def by blast
    then show ?thesis by blast
  qed
qed

lemma covers_mono: "covers defs kept pending \<Longrightarrow> pending \<subseteq> pending' \<Longrightarrow> covers defs kept pending'"
  by (auto simp: covers_def)

lemma prune_loop_complete:
  "covers defs (set kept) (set pending) \<Longrightarrow>
   covers defs (set (prune_loop defs kept pending)) {}
   \<and> (\<forall>r \<in> set pending. dhas defs r \<longrightarrow> r \<in> set (prune_loop defs kept pending))"
proof (induction defs kept pending rule: prune_loop.induct)
  case (1 defs kept pending)
  let ?l = "last pending" and ?b = "butlast pending"
  show ?case
  proof (cases "pending = []")
    case True
    with 1 show ?thesis by (simp add: prune_loop.simps)
  next
    case False
    have split: "set pending = insert ?l (set ?b)" using False by (metis append_butlast_last_id list.set(2)
          set_append Un_commute Un_insert_left list.set(1) sup_bot_left)
    have drop: "set pending - {?l} \<subseteq> set ?b" using split by blast
    show ?thesis
    proof (cases "map_of defs ?l")
      case None
      then have "\<not> dhas defs ?l" by (simp add: dhas_def)
      then have "covers defs (set kept) (set ?b)"
        using covers_drop [OF "1.prems"] covers_mono [OF _ drop] by blast
      from "1.IH"(1) [OF False refl refl None this] None \<open>\<not> dhas defs ?l\<close> False show ?thesis
        unfolding split by (subst (1 2) prune_loop.simps) (simp add: Let_def)
    next
      case (Some d)
      show ?thesis
      proof (cases "?l \<in> set kept")
        case True
        then have "covers defs (set kept) (set ?b)"
          using covers_drop [OF "1.prems"] covers_mono [OF _ drop] by blast
        from "1.IH"(2) [OF False refl refl Some True this] Some True False prune_loop_kept [of kept defs ?b]
        show ?thesis unfolding split by (subst (1 2) prune_loop.simps) (auto simp: Let_def)
      next
        case out: False
        have "covers defs (set (?l # kept)) (set (?b @ collect_ref_names d))"
          by (rule covers_mono [OF covers_keep [OF "1.prems" Some, folded list.set(2)]]) (use drop in auto)
        from "1.IH"(3) [OF False refl refl Some out this] Some out False
          prune_loop_kept [of "?l # kept" defs "?b @ collect_ref_names d"]
        show ?thesis unfolding split by (subst (1 2) prune_loop.simps) (auto simp: Let_def)
      qed
    qed
  qed
qed

lemma prune_loop_exact: "set (prune_loop defs [] refs) = {n. reached defs (set refs) n}"
proof -
  have closed: "covers defs (set (prune_loop defs [] refs)) {}"
    "\<forall>r \<in> set refs. dhas defs r \<longrightarrow> r \<in> set (prune_loop defs [] refs)"
    using prune_loop_complete [of defs "[]" refs] by (simp_all add: covers_def)
  have "n \<in> set (prune_loop defs [] refs)" if "reached defs (set refs) n" for n
    using that by induction (use closed in \<open>auto simp: covers_def\<close>)
  then show ?thesis using prune_loop_sound [of _ defs "[]" refs] by auto
qed

section \<open>What the merged object admits\<close>

text \<open>The field names a request may carry for an object schema: all that are required, and only
  declared ones when other fields are forbidden.\<close>

definition declared :: "pydict \<Rightarrow> string list" where
  "declared schema = (case variant_properties schema of None \<Rightarrow> [] | Some ps \<Rightarrow> map fst ps)"

definition admits :: "pydict \<Rightarrow> string set \<Rightarrow> bool" where
  "admits schema names \<longleftrightarrow> set (required_names schema) \<subseteq> names
     \<and> (dget schema ''additionalProperties'' = PBool False \<longrightarrow> names \<subseteq> set (declared schema))"

lemma update_keys: "fst ` set (AList.update k v d) = insert k (fst ` set d)"
  by (induction d) auto

lemma merge_properties_keys: "fst ` set (merge_properties ps rs) = fst ` set ps \<union> fst ` set rs"
proof (induction rs arbitrary: ps)
  case (Cons p rs)
  then show ?case by (cases p) (simp add: update_keys)
qed simp

lemma merged_declared:
  "foldl merge_variant acc variants = (ro, ps) \<Longrightarrow>
   fst ` set ps = fst ` set (snd acc) \<union> (\<Union>v \<in> set variants. set (declared v))"
proof (induction variants arbitrary: acc)
  case (Cons v vs)
  have "fst ` set (snd (merge_variant acc v)) = fst ` set (snd acc) \<union> set (declared v)"
    by (auto simp: merge_variant_def declared_def merge_properties_keys split: prod.splits option.splits)
  with Cons show ?case by auto
qed simp

lemma merged_order:
  "foldl merge_variant acc variants = (ro, ps) \<Longrightarrow>
   set ro = set (fst acc) \<union> (\<Union>v \<in> set variants. set (required_names v))"
proof (induction variants arbitrary: acc)
  case (Cons v vs)
  have fold: "set (foldl (\<lambda>ns n. if n \<in> set ns then ns else ns @ [n]) ns0 ns) = set ns0 \<union> set ns"
    for ns0 ns :: "string list" by (induction ns arbitrary: ns0) auto
  have "set (fst (merge_variant acc v)) = set (fst acc) \<union> set (required_names v)"
    by (simp add: merge_variant_def fold split: prod.splits)
  with Cons show ?case by auto
qed simp

lemma text_members_PStr [simp]: "text_members (map PStr ns) = ns"
  by (induction ns) (simp_all add: text_members_def)

lemma merged_fields:
  assumes "variants \<noteq> []"
  shows "set (required_names (merge_object_variants variants)) = (\<Inter>v \<in> set variants. set (required_names v))"
    and "set (declared (merge_object_variants variants)) = (\<Union>v \<in> set variants. set (declared v))"
    and "dget (merge_object_variants variants) ''additionalProperties'' = PBool False
      \<longleftrightarrow> (\<forall>v \<in> set variants. dget v ''additionalProperties'' = PBool False)"
proof -
  obtain ro ps where f: "foldl merge_variant ([], []) variants = (ro, ps)"
    by (cases "foldl merge_variant ([], []) variants")
  define common where "common = filter (\<lambda>n. list_all (\<lambda>v. n \<in> set (required_names v)) variants) ro"
  have common: "set common = (\<Inter>v \<in> set variants. set (required_names v))"
    using merged_order [OF f] assms by (auto simp: common_def list_all_iff)
  have m: "dget (merge_object_variants variants) ''required'' = (if common = [] then PNone else PList (map PStr common))"
    "dget (merge_object_variants variants) ''properties'' = (if ps = [] then PNone else PDict ps)"
    "dget (merge_object_variants variants) ''additionalProperties'' =
      (if \<forall>v \<in> set variants. dget v ''additionalProperties'' = PBool False then PBool False else PNone)"
    using assms by (simp_all add: merge_object_variants_def f Let_def list_all_iff common_def)
  show "set (required_names (merge_object_variants variants)) = (\<Inter>v \<in> set variants. set (required_names v))"
    unfolding common [symmetric] by (simp add: required_names_def m)
  show "set (declared (merge_object_variants variants)) = (\<Union>v \<in> set variants. set (declared v))"
  proof -
    have "declared (merge_object_variants variants) = map fst ps"
      by (simp add: declared_def variant_properties_def m)
    then show ?thesis using merged_declared [OF f] by simp
  qed
  show "dget (merge_object_variants variants) ''additionalProperties'' = PBool False
      \<longleftrightarrow> (\<forall>v \<in> set variants. dget v ''additionalProperties'' = PBool False)" by (simp add: m)
qed

section \<open>Properties\<close>

lemma normalize_dict:
  assumes "ranked rank defs"
  shows "as_dict v \<noteq> None \<Longrightarrow> as_dict (normalize_node v defs stack) \<noteq> None"
    "(key :: string) = key" "as_dict (resolve_ref node ref defs stack) \<noteq> None" "(node :: pydict) = node"
  using assms
proof (induction v defs stack and key v defs stack and node ref defs stack and node defs stack
    rule: normalize_node_normalize_entry_resolve_ref_normalize_union.induct)
  case (1 v defs stack)
  then show ?case by (auto simp: normalize_node.simps [of v] as_dict_def split: option.splits)
next
  case (3 node ref defs stack)
  show ?case
  proof (cases "dget defs (ref_name ref) = PNone \<or> ref_name ref \<in> set stack")
    case False
    then have "as_dict (dget defs (ref_name ref)) \<noteq> None"
      using "3.prems" dget_entry [OF refl, of defs "ref_name ref"] by (fastforce simp: ranked_def list_all_iff)
    with "3.IH" [OF refl refl False] "3.prems" False show ?thesis
      by (auto simp: resolve_ref.simps Let_def as_dict_def split: option.splits)
  qed (simp add: resolve_ref.simps Let_def as_dict_def)
qed simp_all


text \<open>A union of two requests, one of which is given by reference and has a constant.\<close>

definition sample_schema :: pydict where
  "sample_schema =
     [(''oneOf'', PList [PDict [(''$ref'', PStr ''#/$defs/Stop'')],
        PDict [(''type'', PStr ''object''), (''properties'', PDict [(''action'', PDict [(''const'', PStr ''list'')])])]]),
      (''discriminator'', PDict [(''propertyName'', PStr ''action'')]),
      (''$defs'', PDict [(''Stop'', PDict [(''type'', PStr ''object''),
         (''properties'', PDict [(''action'', PDict [(''const'', PStr ''stop'')]), (''id'', PDict [(''type'', PStr ''integer'')])]),
         (''required'', PList [PStr ''action'', PStr ''id'']), (''additionalProperties'', PBool False)])])]"

definition sample_flat :: pyv where
  "sample_flat = PDict [(''type'', PStr ''object''),
     (''properties'', PDict [(''action'', PDict [(''enum'', PList [PStr ''stop'', PStr ''list''])]),
        (''id'', PDict [(''type'', PStr ''integer'')])]),
     (''description'', PStr (''Conditional requirements: action=''
        @ quoted ''stop'' @ '' requires action, id.''))]"


text \<open>
  C26. Merging alternatives loses no request. When a set of field names satisfies what one alternative
  requires and forbids, it satisfies what the merged object requires and forbids; the merged object
  requires exactly the fields that every alternative requires, declares exactly the fields that some
  alternative declares, and forbids other fields exactly when every alternative does.
\<close>

theorem merged_object_admits:
  assumes "variant \<in> set variants"
  shows "(admits variant names \<longrightarrow> admits (merge_object_variants variants) names)
    \<and> set (required_names (merge_object_variants variants)) = (\<Inter>v \<in> set variants. set (required_names v))
    \<and> set (declared (merge_object_variants variants)) = (\<Union>v \<in> set variants. set (declared v))
    \<and> (dget (merge_object_variants variants) ''additionalProperties'' = PBool False
         \<longleftrightarrow> (\<forall>v \<in> set variants. dget v ''additionalProperties'' = PBool False))"
proof -
  have "variants \<noteq> []" using assms by auto
  note m = merged_fields [OF this]
  have "admits (merge_object_variants variants) names" if "admits variant names"
    using that assms m unfolding admits_def by blast
  with m show ?thesis by simp
qed

definition sample_variants :: "pydict list" where
  "sample_variants =
     [[(''properties'', PDict [(''a'', PNone), (''b'', PNone)]), (''required'', PList [PStr ''a'', PStr ''b'']),
       (''additionalProperties'', PBool False)],
      [(''properties'', PDict [(''a'', PNone), (''c'', PNone)]), (''required'', PList [PStr ''a'']),
       (''additionalProperties'', PBool False)]]"

theorem merged_object_admits_witness:
  "admits (merge_object_variants sample_variants) {''a'', ''c''}
   \<and> \<not> admits (sample_variants ! 0) {''a'', ''c''}"
proof -
  have "admits (sample_variants ! 1) {''a'', ''c''}" "sample_variants ! 1 \<in> set sample_variants"
    "\<not> admits (sample_variants ! 0) {''a'', ''c''}" by code_simp+
  with merged_object_admits show ?thesis by blast
qed

text \<open>
  C29. Pruning keeps exactly the definitions that are needed. The work list ends for any definitions,
  cyclic or not, and what it keeps are the definitions reached from the given names by following
  references, in the order they were declared, whatever the order of the names.
\<close>

theorem prune_defs_exact:
  "prune_defs defs refs = filter (\<lambda>p. reached defs (set refs) (fst p)) defs"
  by (simp add: prune_defs_def Let_def prune_loop_exact)

lemma thaw_freeze: "is_json v \<Longrightarrow> thaw (freeze v) = v"
  by (induction v rule: freeze.induct) (auto simp: list_all_iff intro: map_idI)

text \<open>
  The cached schema cannot be changed through what callers get. The published copy is the
  normalised schema, with the examples in place when there are some: thawing what was frozen gives
  the value back, for every value built of objects, lists and scalars.
\<close>

theorem published_schema_faithful:
  assumes "normalize_input_schema schema = Inr (PDict d)" "is_json (PDict d)"
  shows "public_input_schema schema examples =
    Inr (PDict (if examples = [] then d else dset ''examples'' (PList (map PDict examples)) d))"
  using thaw_freeze [OF assms(2)] assms(1)
  by (simp add: public_input_schema_def cached_input_schema_def del: freeze.simps thaw.simps)

theorem published_schema_faithful_witness:
  "\<exists>d. public_input_schema sample_schema [] = Inr (PDict d) \<and> dget d ''type'' = PStr ''object''"
proof -
  have flat: "normalize_input_schema sample_schema = Inr sample_flat" "is_json sample_flat" by code_simp+
  from published_schema_faithful [OF flat [unfolded sample_flat_def], of "[]"] show ?thesis by simp
qed

lemma merge_items_additional:
  "dget (merge_items merged items) ''additionalProperties'' = PBool False \<longleftrightarrow>
     dget merged ''additionalProperties'' = PBool False
     \<and> (\<forall>p \<in> set items. fst p = ''additionalProperties'' \<longrightarrow> snd p = PBool False)"
proof (induction items arbitrary: merged)
  case (Cons p items)
  obtain key v where p: "p = (key, v)" by (cases p)
  have drop: "dget (without [''additionalProperties''] d) ''additionalProperties'' = PNone" for d :: pydict
    by (induction d) (auto simp: without_def)
  have "dget (merge_item merged key v) ''additionalProperties'' = PBool False \<longleftrightarrow>
    dget merged ''additionalProperties'' = PBool False \<and> (key = ''additionalProperties'' \<longrightarrow> v = PBool False)"
    by (cases "key = ''additionalProperties''") (simp_all add: drop split: option.splits)
  with Cons p show ?case by simp
qed simp

text \<open>
  Merging two schemas of one property keeps the first one's prohibition of other fields when the
  second says nothing about them, although an instance of the second may then have other fields; only
  an explicit permission in the second lifts it.
\<close>

theorem merge_keeps_prohibition:
  assumes "\<not> py_eq (PDict l) (PDict r)"
  shows "\<exists>m. merge_property_schemas (PDict l) (PDict r) = PDict m
    \<and> (dget m ''additionalProperties'' = PBool False \<longleftrightarrow>
         dget l ''additionalProperties'' = PBool False
         \<and> (\<forall>p \<in> set r. fst p = ''additionalProperties'' \<longrightarrow> snd p = PBool False))"
proof -
  have "dget (merge_required l r) ''additionalProperties'' = dget l ''additionalProperties''"
  proof -
    have "dget (without [''required''] d) ''additionalProperties'' = dget d ''additionalProperties''" for d :: pydict
      by (induction d) (auto simp: without_def)
    then show ?thesis by (auto simp: merge_required_def Let_def split: option.splits)
  qed
  with assms show ?thesis by (simp add: merge_property_schemas.simps merge_items_additional del: py_eq.simps)
qed

theorem merge_keeps_prohibition_witness:
  "\<exists>m. merge_property_schemas (PDict [(''properties'', PDict [(''a'', PNone)]), (''additionalProperties'', PBool False)])
          (PDict [(''properties'', PDict [(''b'', PNone)])]) = PDict m
     \<and> dget m ''additionalProperties'' = PBool False"
proof -
  let ?l = "[(''properties'', PDict [(''a'', PNone)]), (''additionalProperties'', PBool False)]"
  let ?r = "[(''properties'', PDict [(''b'', PNone)])]"
  have "\<not> py_eq (PDict ?l) (PDict ?r)" by simp
  from merge_keeps_prohibition [OF this] show ?thesis by auto
qed

end
