(* ===== verification/Mcp_Server_Correct.thy ===== *)
theory Mcp_Server_Correct
  imports Mcp_Server Registry_Correct Campaign_Correct Schema_Normalizer_Correct
begin

text \<open>
  Correctness of the server: every call is answered, calls on one session do not touch the others,
  and no sequence of calls breaks the registry or a session.
\<close>

section \<open>Handlers keep the invariants of a session\<close>

context service_invariant
begin

abbreviation kept :: "capture_state \<Rightarrow> bool" where
  "kept s \<equiv> invar (cs_runtime s)"

lemma pres_session_call: "pres kept (session_call c)"
  unfolding session_call_def by (rule pres_on_runtime [OF pres_perform])

lemma pres_capture_handler: "pres kept (handle_capture_bundle paths a)"
  unfolding handle_capture_bundle_def
  by (intro pres_intros pres_capture_bundle status)

lemma pres_session_handler: "pres kept (session_handler fs paths a)"
proof (cases a)
  case (InferiorQueryTool q)
  then show ?thesis
    by (cases q) (auto intro!: pres_intros pres_session_call pres_on_runtime)
next
  case (InferiorManageTool q)
  then show ?thesis by (cases q) (auto intro: pres_session_call)
next
  case (ExecutionManageTool q)
  then show ?thesis
    by (cases q) (auto intro!: pres_intros pres_session_call split: prod.splits sum.splits)
next
  case (BreakpointQueryTool q)
  then show ?thesis
    by (cases q) (auto intro!: pres_intros pres_session_call pres_on_runtime pres_case_result)
next
  case (BreakpointManageTool q)
  then show ?thesis by (cases a rule: session_tool_args.exhaust; cases q rule: handle_breakpoint_manage.cases)
      (auto intro: pres_session_call)
next
  case (ContextQueryTool q)
  then show ?thesis by (cases q) (auto intro: pres_session_call)
next
  case (ContextManageTool q)
  then show ?thesis by (cases q) (auto intro: pres_session_call)
next
  case (InspectQueryTool q)
  then show ?thesis by (cases q) (auto intro: pres_session_call split: prod.splits)
qed (auto intro: pres_session_call pres_capture_handler)

lemma pres_step_handler: "pres kept (step_handler env a)"
  by (cases "(env, a)" rule: step_handler.cases)
    (auto intro: pres_session_handler pres_session_call pres_intros)

lemma pres_templates:
  "build_batch_step_templates env i n steps = Inr ts \<Longrightarrow> t \<in> set ts \<Longrightarrow> pres kept (bst_execute t)"
proof (induction steps arbitrary: n ts)
  case (Cons raw steps)
  from Cons.prems(1) obtain u us where u: "batch_step_template env i n (batch_step_args raw) = Inr u"
    "build_batch_step_templates env i (Suc n) steps = Inr us" "ts = u # us" by (auto split: sum.splits)
  from u(1) obtain a where "bst_execute u = execute_batch_step env a"
    by (auto simp: batch_step_template_def split: option.splits if_splits sum.splits)
  then have "pres kept (bst_execute u)"
    by (simp add: execute_batch_step_def) (intro pres_intros pres_step_handler)
  with Cons.IH [OF u(2)] Cons.prems(2) u(3) show ?case by auto
qed simp

lemma pres_handle_batch: "pres kept (handle_batch env a)"
  unfolding handle_batch_def
  by (cases "build_batch_step_templates env (bta_session_id a) 0 (bta_steps a)")
    (auto intro!: pres_intros pres_batch_templates dest: pres_templates)

end

section \<open>The registry under tool calls\<close>

text \<open>A sound server: the published ids and sessions are as the registry promises, and every
  published session's runtime is well formed.\<close>

definition reg_ok :: "registry \<Rightarrow> bool" where
  "reg_ok reg \<longleftrightarrow> published_ok reg \<and> (\<forall>h \<in> snd ` set (reg_sessions reg). rt_ok (reg_store reg h))"

definition server_ok :: "server_state \<Rightarrow> bool" where
  "server_ok s \<longleftrightarrow> reg_ok (sv_registry s)"

lemma reg_ok_store:
  assumes "reg_ok reg" "\<And>h. settled (reg_store reg h) \<Longrightarrow> settled (st h)" "\<And>h. rt_ok (reg_store reg h) \<Longrightarrow> rt_ok (st h)"
  shows "reg_ok (reg\<lparr>reg_store := st\<rparr>)"
  using assms store_change(1) [of reg st] by (auto simp: reg_ok_def)

lemma reg_ok_one:
  assumes "reg_ok reg" "settled (reg_store reg h) \<longrightarrow> settled rt" "rt_ok (reg_store reg h) \<longrightarrow> rt_ok rt"
  shows "reg_ok (reg\<lparr>reg_store := (reg_store reg)(h := rt)\<rparr>)"
  using assms by (intro reg_ok_store) auto

lemma pres_on_session:
  assumes "pres settled m" "pres rt_ok m"
  shows "pres reg_ok (on_session h m)"
  unfolding pres_def
proof (intro allI impI)
  fix reg assume "reg_ok reg"
  then show "reg_ok (snd (on_session h m reg))"
    using reg_ok_one [of reg h "snd (m (reg_store reg h))"] assms
    by (simp add: on_session_def pres_def split: prod.splits) (metis snd_conv)
qed

lemma pres_in_session:
  assumes "pres (\<lambda>s. settled (cs_runtime s)) m" "pres (\<lambda>s. rt_ok (cs_runtime s)) m"
  shows "pres server_ok (in_session h m)"
  unfolding pres_def
proof (intro allI impI)
  fix s assume s: "server_ok s"
  let ?c = "\<lparr>cs_runtime = reg_store (sv_registry s) h, cs_disk = sv_disk s\<rparr>"
  have "settled (reg_store (sv_registry s) h) \<longrightarrow> settled (cs_runtime (snd (m ?c)))"
    "rt_ok (reg_store (sv_registry s) h) \<longrightarrow> rt_ok (cs_runtime (snd (m ?c)))"
    using assms by (simp_all add: pres_def)
  from reg_ok_one [OF s [unfolded server_ok_def] this] show "server_ok (snd (in_session h m s))"
    by (simp add: in_session_def server_ok_def split: prod.splits) (metis snd_conv)
qed

lemma pres_on_registry: "pres reg_ok m \<Longrightarrow> pres server_ok (on_registry m)"
  by (auto simp: pres_def on_registry_def zoom_def server_ok_def split: prod.splits)

lemma reg_ok_closing: "reg_ok (reg\<lparr>reg_closing_sessions := c\<rparr>) = reg_ok reg"
  by (simp add: reg_ok_def closing_irrelevant)

lemma reg_ok_abandon: "reg_ok reg \<Longrightarrow> reg_ok (abandon_close i reg)"
  by (simp add: abandon_close_def reg_ok_closing)

lemma reg_ok_finish: "reg_ok reg \<Longrightarrow> reg_ok (finish_close i h reg)"
proof -
  assume ok: "reg_ok reg"
  then have p: "published_ok reg" by (simp add: reg_ok_def)
  have "snd ` set (AList.delete i (reg_sessions reg)) \<subseteq> snd ` set (reg_sessions reg)"
    using delete_sessions(1) [OF p, of i] by blast
  with ok have "\<forall>h \<in> snd ` set (AList.delete i (reg_sessions reg)). rt_ok (reg_store reg h)"
    unfolding reg_ok_def by blast
  with fewer_sessions(1) [OF delete_sessions [OF p, of i] p]
  have "reg_ok (reg\<lparr>reg_sessions := AList.delete i (reg_sessions reg)\<rparr>)" by (simp add: reg_ok_def)
  with ok show ?thesis by (simp add: finish_close_def reg_ok_abandon)
qed

lemma pres_begin_close: "pres reg_ok (begin_close i)"
  by (auto simp: pres_def begin_close_def reg_ok_closing split: option.splits)

lemma pres_close: "pres reg_ok (close_session i)"
  unfolding close_session_def close_live_def
  by (intro pres_intros pres_begin_close pres_modify reg_ok_abandon reg_ok_finish pres_on_session
      settled_stop pres_stop) auto

lemma pres_summaries: "pres reg_ok (summarize_all closing xs)"
proof (induction closing xs rule: summarize_all.induct)
  case (2 closing i h rest)
  have "pres settled (summarize_session i b)" "pres rt_ok (summarize_session i b)" for b
    unfolding summarize_session_def by (intro pres_intros settled_status, intro pres_intros pres_status)
  with 2 show ?case by (auto intro!: pres_intros pres_on_session)
qed (simp add: pres_intros)

lemma pres_list_sessions: "pres reg_ok list_sessions"
  unfolding list_sessions_def by (intro pres_intros pres_summaries)

lemma reg_ok_started:
  assumes "reg_ok reg" "start_session request w reg = (r, reg')"
  shows "reg_ok reg'"
proof -
  obtain res rt where r: "start_session request w reg =
       (if is_failure res
        then (Inr (None, res), reg\<lparr>reg_next_session_id := reg_next_session_id reg + 1,
                reg_fresh := reg_fresh reg + 1, reg_store := (reg_store reg)(reg_fresh reg := rt)\<rparr>)
        else (Inr (Some (reg_next_session_id reg), res),
              reg\<lparr>reg_next_session_id := reg_next_session_id reg + 1,
                reg_fresh := reg_fresh reg + 1, reg_store := (reg_store reg)(reg_fresh reg := rt),
                reg_sessions := AList.update (reg_next_session_id reg) (reg_fresh reg) (reg_sessions reg)\<rparr>))"
    and ok: "start_ok res rt" "rt_ok rt" by (rule start_session_cases)
  have old: "h < reg_fresh reg" "i < reg_next_session_id reg" if "(i, h) \<in> set (reg_sessions reg)" for i h
    using that assms(1) by (auto simp: reg_ok_def published_ok_def)
  then have new: "reg_next_session_id reg \<notin> fst ` set (reg_sessions reg)"
    "reg_fresh reg \<notin> snd ` set (reg_sessions reg)" by fastforce+
  have settled: "settled rt" if "\<not> is_failure res" using ok(1) that by (cases res) (auto simp: settled_def)
  have keep: "((reg_store reg)(reg_fresh reg := rt)) h = reg_store reg h" if "(i, h) \<in> set (reg_sessions reg)" for i h
    using old(1) [OF that] by simp
  show ?thesis
  proof (cases "is_failure res")
    case True
    with assms r have "reg' = reg\<lparr>reg_next_session_id := reg_next_session_id reg + 1,
        reg_fresh := reg_fresh reg + 1, reg_store := (reg_store reg)(reg_fresh reg := rt)\<rparr>" by simp
    then show ?thesis using assms(1) keep old
      by (fastforce simp: reg_ok_def published_ok_def)
  next
    case False
    with assms r have "reg' = reg\<lparr>reg_next_session_id := reg_next_session_id reg + 1,
        reg_fresh := reg_fresh reg + 1, reg_store := (reg_store reg)(reg_fresh reg := rt),
        reg_sessions := reg_sessions reg @ [(reg_next_session_id reg, reg_fresh reg)]\<rparr>"
      using update_fresh [OF new(1)] by simp
    then show ?thesis using assms(1) keep old new settled [OF False] ok(2)
      by (fastforce simp: reg_ok_def published_ok_def)
  qed
qed

lemma pres_start_in_world: "pres server_ok (start_in_world env config)"
proof -
  have "pres reg_ok (start_session config w)" for w
    unfolding pres_def using reg_ok_started by (metis prod.collapse)
  then show ?thesis unfolding start_in_world_def by (intro pres_on_registry pres_intros)
qed

lemma pres_disk: "(\<And>s. sv_registry (snd (m s)) = sv_registry s) \<Longrightarrow> pres server_ok m"
  by (simp add: pres_def server_ok_def)

lemma pres_session_tool: "pres server_ok (in_session h (session_handler fs paths a))"
  by (intro pres_in_session settled_service.pres_session_handler runtime_service.pres_session_handler)

lemma pres_batch_tool: "pres server_ok (in_session h (handle_batch env a))"
  by (intro pres_in_session settled_service.pres_handle_batch runtime_service.pres_handle_batch)

lemma pres_status_tool: "pres server_ok (in_session h (session_call GetStatus))"
  by (intro pres_in_session settled_service.pres_session_call runtime_service.pres_session_call)

lemma pres_dispatch_session:
  assumes "\<And>h. pres server_ok (in_session h m)"
  shows "pres server_ok (dispatch_session a i m)"
  unfolding dispatch_session_def by (intro pres_intros assms)

lemma pres_campaign: "pres server_ok (handle_run_until_failure env a)"
  unfolding handle_run_until_failure_def
  by (intro pres_intros pres_disk) (simp_all add: run_campaign_def split: prod.splits)

lemma pres_run_tool: "pres server_ok (run_tool env a)"
proof (cases a)
  case (SessionTool x)
  then show ?thesis by (simp add: pres_dispatch_session pres_session_tool)
next
  case (WorkflowBatchTool x)
  then show ?thesis by (simp add: pres_dispatch_session pres_batch_tool)
next
  case (SessionQueryTool q)
  have "pres server_ok (handle_session_query q)"
    by (cases q) (auto intro!: pres_intros pres_on_registry pres_list_sessions pres_status_tool)
  then show ?thesis unfolding SessionQueryTool by (simp add: wrapped_def) (intro pres_intros)
next
  case (SessionStartTool x)
  have "pres server_ok (handle_start_session env x)"
    unfolding handle_start_session_def by (intro pres_intros pres_start_in_world)
  then show ?thesis unfolding SessionStartTool by (simp add: wrapped_def) (intro pres_intros)
next
  case (SessionConnectTool x)
  have "pres server_ok (handle_connect_session env x)"
    unfolding handle_connect_session_def by (intro pres_intros pres_start_in_world)
  then show ?thesis unfolding SessionConnectTool by (simp add: wrapped_def) (intro pres_intros)
next
  case (SessionManageTool q)
  have "pres server_ok (handle_session_manage q)"
    by (cases q) (auto intro!: pres_intros pres_on_registry pres_close)
  then show ?thesis unfolding SessionManageTool by (simp add: wrapped_def) (intro pres_intros)
next
  case (RunUntilFailureTool x)
  then show ?thesis by (simp add: wrapped_def) (intro pres_intros pres_campaign)
qed

lemma pres_dispatch: "pres server_ok (dispatch_tool_call env name arguments)"
  unfolding dispatch_tool_call_def dispatch_tool_def
  by (intro pres_intros pres_run_tool)

text \<open>The calls a server handles, one after the other, each in an environment of its own.\<close>

inductive server_step :: "server_state \<Rightarrow> server_state \<Rightarrow> bool" where
  call: "server_step s (snd (dispatch_tool_call env name arguments s))"

definition new_server :: "disk \<Rightarrow> server_state" where
  "new_server d = \<lparr>sv_registry = new_registry, sv_disk = d\<rparr>"

lemma new_server_ok: "server_ok (new_server d)"
  by (simp add: server_ok_def reg_ok_def published_ok_def new_server_def new_registry_def)

section \<open>Properties\<close>

text \<open>
  C4. No sequence of tool calls breaks the server. Whatever tools are called with whatever arguments,
  valid or not, and whatever GDB, the file system and the validation answer, in every state the
  server reaches the session ids are distinct and name different sessions, every session that can be
  named has been started, and its runtime is well formed.
\<close>

theorem server_reachable_ok:
  assumes "server_step\<^sup>*\<^sup>* (new_server d) s"
  shows "server_ok s"
  using assms
proof (induction rule: rtranclp_induct)
  case base
  show ?case by (rule new_server_ok)
next
  case (step s s')
  then show ?case using pres_dispatch by (auto simp: pres_def elim!: server_step.cases)
qed

text \<open>A toy environment: pydantic accepts a command on a session and the list of sessions.\<close>

definition missing_command :: validation_failure where
  "missing_command = \<lparr>vf_errors = [[(''type'', PStr ''missing''), (''loc'', PTuple [PStr ''command'']),
       (''msg'', PStr ''Field required'')]], vf_text = ''1 validation error''\<rparr>"

definition sample_validate :: "string \<Rightarrow> pydict \<Rightarrow> validation_failure + tool_args" where
  "sample_validate name arguments =
     (if name = ''gdb_session_query'' then Inr (SessionQueryTool SessionQueryListAction)
      else case dget arguments ''command'' of
        PStr c \<Rightarrow> Inr (SessionTool (ExecuteCommandTool \<lparr>eca_session_id = 7, eca_command = c, eca_timeout_sec = 30\<rparr>))
      | _ \<Rightarrow> Inl missing_command)"

definition sample_server_env :: server_env where
  "sample_server_env =
     \<lparr>se_files = \<lparr>sf_expand = id, sf_exists = (\<lambda>_. False), sf_read = (\<lambda>_. Inr []), sf_resolve = id\<rparr>,
      se_campaign = sample_campaign_env, se_world = (\<lambda>_. sample_world []),
      se_validate = sample_validate, se_schema = (\<lambda>_. sample_schema)\<rparr>"

definition empty_disk :: disk where
  "empty_disk = \<lparr>dk_dirs = [], dk_files = [], dk_outcomes = []\<rparr>"

theorem server_reachable_ok_witness:
  "server_ok (snd (dispatch_tool_call sample_server_env ''gdb_session_query'' PNone (new_server empty_disk)))"
proof -
  have "server_step (new_server empty_disk)
    (snd (dispatch_tool_call sample_server_env ''gdb_session_query'' PNone (new_server empty_disk)))"
    by (rule server_step.call)
  then show ?thesis by (intro server_reachable_ok [of empty_disk] r_into_rtranclp)
qed

text \<open>Envelopes are JSON objects, and the envelope of a failure says so.\<close>

lemma json_dset: "is_json (PDict d) \<Longrightarrow> is_json v \<Longrightarrow> is_json (PDict (dset k v d))"
  by (simp add: update_snd_all distinct_update)

lemma split_details_json:
  "split_error_details etop nested d = (etop', nested') \<Longrightarrow> is_json (PDict etop) \<Longrightarrow> is_json (PDict nested) \<Longrightarrow>
   list_all (\<lambda>p. is_json (snd p)) d \<Longrightarrow> is_json (PDict etop') \<and> is_json (PDict nested')"
proof (induction etop nested d rule: split_error_details.induct)
  case (2 etop nested key v rest)
  have v: "is_json v" and rest: "list_all (\<lambda>p. is_json (snd p)) rest" using "2.prems"(4) by simp_all
  show ?case
  proof (cases "key \<in> set error_top_level_detail_keys")
    case True
    with "2.prems"(1) show ?thesis
      by (intro "2.IH"(1) [OF True _ json_dset [OF "2.prems"(2) v] "2.prems"(3) rest]) simp
  next
    case False
    show ?thesis
    proof (cases "key \<notin> set reserved_error_keys")
      case True
      with False "2.prems"(1) show ?thesis
        by (intro "2.IH"(2) [OF False True _ "2.prems"(2) json_dset [OF "2.prems"(3) v] rest]) simp
    next
      case in_reserved: False
      with False "2.prems"(1) show ?thesis
        by (intro "2.IH"(3) [OF False in_reserved _ "2.prems"(2,3) rest]) simp
    qed
  qed
qed simp

lemma failure_envelope:
  assumes "payload_to_mapping (PDict (oe_details e)) = Inr j"
  obtains d where "result_to_mapping (Failure e) = Inr d" "is_json (PDict d)"
proof -
  from assms obtain ds where ds: "j = PDict ds" by (auto split: sum.splits)
  have json: "is_json (PDict ds)" using payload_json_aux(1) [OF assms] by (simp add: ds)
  let ?e0 = "[(''status'', PStr ''error''), (''code'', PStr (oe_code e)), (''message'', PStr (oe_message e))]"
  let ?e = "if oe_fatal e then dset ''fatal'' (PBool True) ?e0 else ?e0"
  obtain etop nested where sp: "split_error_details ?e [] ds = (etop, nested)" by (metis surj_pair)
  have "is_json (PDict ?e)" by simp
  from split_details_json [OF sp this] json have js: "is_json (PDict etop)" "is_json (PDict nested)" by simp_all
  have "result_to_mapping (Failure e) = Inr (if nested \<noteq> [] then dset ''details'' (PDict nested) etop else etop)"
    using assms sp by (simp add: result_to_mapping_def Let_def ds del: payload_to_mapping.simps split: if_splits)
  with that js json_dset show thesis by presburger
qed

lemma success_envelope:
  assumes "payload_to_mapping v = Inr j"
  obtains d where "result_to_mapping (Success v ws) = Inr d" "is_json (PDict d)"
proof -
  have json: "is_json j" by (rule payload_json_aux(1) [OF assms])
  define p0 where "p0 = (case j of PDict d \<Rightarrow> d | x \<Rightarrow> [(''value'', x)])"
  define p1 where "p1 = (if dhas p0 ''status'' then p0 else dset ''status'' (PStr ''success'') p0)"
  have "is_json (PDict p0)" using json by (cases j) (simp_all add: p0_def)
  then have p1: "is_json (PDict p1)" by (simp add: p1_def json_dset del: is_json.simps(2))
  have ws: "is_json (PList (map PStr ws))" by (simp add: list_all_iff)
  have "result_to_mapping (Success v ws)
    = Inr (if ws \<noteq> [] \<and> \<not> dhas p1 ''warnings'' then dset ''warnings'' (PList (map PStr ws)) p1 else p1)"
    using assms by (simp add: result_to_mapping_def Let_def p0_def p1_def del: payload_to_mapping.simps)
  with that p1 json_dset [OF p1 ws] show thesis by presburger
qed

lemma serialize_shape:
  assumes "serialize_result r = Inr c"
  shows "is_json (PDict (ctr_structuredContent c)) \<and> ctr_content c = PDict (ctr_structuredContent c)
    \<and> ctr_isError c = is_failure r \<and> (is_failure r \<longrightarrow> dget (ctr_structuredContent c) ''status'' = PStr ''error'')"
proof -
  from assms obtain d where d: "result_to_mapping r = Inr d"
    "c = \<lparr>ctr_content = PDict d, ctr_structuredContent = d, ctr_isError = is_failure r\<rparr>"
    by (auto simp: serialize_result_def split: sum.splits)
  have "is_json (PDict d)"
  proof (cases r)
    case (Success v ws)
    with d(1) obtain j where "payload_to_mapping v = Inr j" by (auto simp: result_to_mapping_def split: sum.splits)
    from success_envelope [OF this] d(1) Success show ?thesis by (metis sum.inject(2))
  next
    case (Failure e)
    with d(1) obtain j where "payload_to_mapping (PDict (oe_details e)) = Inr j"
      by (cases "payload_to_mapping (PDict (oe_details e))")
        (simp_all add: result_to_mapping_def Let_def del: payload_to_mapping.simps)
    from failure_envelope [OF this] d(1) Failure show ?thesis by (metis sum.inject(2))
  qed
  with d show ?thesis using failure_status by (cases r) simp_all
qed

lemma serialize_text_failure:
  assumes "list_all (\<lambda>p. \<not> has_opaque (snd p)) (oe_details e)"
  shows "\<exists>c. serialize_result (Failure e) = Inr c"
proof -
  have "\<not> has_opaque (PDict (oe_details e))" using assms by (auto simp: list_ex_iff list_all_iff)
  then obtain j where "payload_to_mapping (PDict (oe_details e)) = Inr j"
    using payload_opaque_aux(1) [of "PDict (oe_details e)"]
    by (cases "payload_to_mapping (PDict (oe_details e))") auto
  from failure_envelope [OF this] obtain d where "result_to_mapping (Failure e) = Inr d" by blast
  then show ?thesis by (simp add: serialize_result_def)
qed

lemma serialize_exception_total: "\<exists>c. serialize_exception name e = Inr c"
  unfolding serialize_exception_def by (rule serialize_text_failure) simp

lemma validation_result_total:
  assumes "normalize_input_schema (se_schema env name) = Inr v"
  shows "\<exists>c. validation_result env name f = Inr c"
proof -
  from assms obtain schema where s: "public_input_schema (se_schema env name) [] = Inr schema"
    by (simp add: public_input_schema_def cached_input_schema_def)
  have "\<exists>c. serialize_result (Failure (build_validation_error (vf_errors f) name schema)) = Inr c"
    by (rule serialize_text_failure)
      (auto simp: build_validation_error_def Let_def list_all_iff list_ex_iff field_error_pyv_def
        split: option.splits prod.splits)
  with s show ?thesis by (simp add: validation_result_def)
qed



section \<open>Calls on one session\<close>

text \<open>Everything but one session and the file system is as before.\<close>

definition only_session :: "nat option \<Rightarrow> server_state \<Rightarrow> server_state \<Rightarrow> bool" where
  "only_session h s s' \<longleftrightarrow>
     reg_sessions (sv_registry s') = reg_sessions (sv_registry s)
     \<and> reg_closing_sessions (sv_registry s') = reg_closing_sessions (sv_registry s)
     \<and> reg_next_session_id (sv_registry s') = reg_next_session_id (sv_registry s)
     \<and> reg_fresh (sv_registry s') = reg_fresh (sv_registry s)
     \<and> (\<forall>k. h \<noteq> Some k \<longrightarrow> reg_store (sv_registry s') k = reg_store (sv_registry s) k)
     \<and> (h = None \<longrightarrow> sv_disk s' = sv_disk s)"

lemma only_in_session: "in_session h m s = (r, s') \<Longrightarrow> only_session (Some h) s s'"
  by (auto simp: in_session_def only_session_def split: prod.splits)

definition resolved :: "int \<Rightarrow> server_state \<Rightarrow> nat option" where
  "resolved i s = (case resolve_session i (sv_registry s) of Inl e \<Rightarrow> None | Inr h \<Rightarrow> Some h)"

lemma dispatch_session_only:
  assumes "dispatch_session a i m s = (r, s')"
  shows "only_session (resolved i s) s s'"
proof (cases "resolve_session i (sv_registry s)")
  case (Inl e)
  with assms have "s' = s" by (auto simp: dispatch_session_def exec_defs from_sum_def)
  with Inl show ?thesis by (simp add: resolved_def only_session_def)
next
  case (Inr h)
  obtain r1 s1 where m: "in_session h m s = (r1, s1)" by (metis surj_pair)
  with assms Inr have "s' = s1" by (auto simp: dispatch_session_def exec_defs from_sum_def split: sum.splits)
  with only_in_session [OF m] Inr show ?thesis by (simp add: resolved_def)
qed

text \<open>
  C6. Sessions are isolated. A call of any tool that works on one session, batches included, changes
  no other session: the table of sessions, the closing sessions and the next id are as before, every
  session but the one its id names is as before, and when the id names none, nothing changes at all.
\<close>

theorem session_calls_isolated:
  assumes "run_tool env a s = (r, s')"
    and "a = SessionTool x \<and> i = tool_session x \<or> a = WorkflowBatchTool b \<and> i = bta_session_id b"
  shows "only_session (resolved i s) s s'"
  using assms by (auto intro: dispatch_session_only)

definition sample_call :: tool_args where
  "sample_call = SessionTool (ExecuteCommandTool \<lparr>eca_session_id = 7, eca_command = ''info threads'', eca_timeout_sec = 30\<rparr>)"

theorem session_calls_isolated_witness:
  "only_session None (new_server empty_disk) (snd (run_tool sample_server_env sample_call (new_server empty_disk)))"
proof -
  have none: "resolved 7 (new_server empty_disk) = None"
    by (simp add: resolved_def resolve_session_def get_session_def new_server_def new_registry_def)
  obtain r s' where run: "run_tool sample_server_env sample_call (new_server empty_disk) = (r, s')" by (metis surj_pair)
  from session_calls_isolated [OF this, of _ 7] none run show ?thesis by (simp add: sample_call_def)
qed

lemma setdefault_simps:
  "dhas (setdefault k v d) k' \<longleftrightarrow> k = k' \<or> dhas d k'"
  "dget (setdefault k v d) k' = (if k = k' \<and> \<not> dhas d k then v else dget d k')"
  by (auto simp: setdefault_def)

lemma foldl_setdefault_get:
  "dget (foldl (\<lambda>d p. setdefault (fst p) (snd p) d) d ps) k = (if dhas d k then dget d k else dget ps k)"
proof (induction ps arbitrary: d)
  case (Cons p ps)
  then show ?case by (cases p) (auto simp: setdefault_def dhas_def dget_def update_conv' split: option.splits)
qed (simp add: dhas_def dget_def)

definition annotated :: "(string \<times> pyv) list \<Rightarrow> SessionRuntime \<Rightarrow> int \<Rightarrow> (string \<times> pyv) list" where
  "annotated d rt i =
     foldl (\<lambda>d p. setdefault (fst p) (snd p) d) (setdefault ''session_id'' (PInt i) d) (session_state_details rt)"

lemma annotated_get:
  "dhas d k \<Longrightarrow> dget (annotated d rt i) k = dget d k"
  "\<not> dhas d ''session_id'' \<Longrightarrow> dget (annotated d rt i) ''session_id'' = PInt i"
  "\<not> dhas d ''execution_state'' \<Longrightarrow> dget (annotated d rt i) ''execution_state'' = exec_state_pyv (rt_execution_state rt)"
proof -
  have "dget (session_state_details rt) ''execution_state'' = exec_state_pyv (rt_execution_state rt)"
    by (simp add: session_state_details_def)
  then show
    "dhas d k \<Longrightarrow> dget (annotated d rt i) k = dget d k"
    "\<not> dhas d ''session_id'' \<Longrightarrow> dget (annotated d rt i) ''session_id'' = PInt i"
    "\<not> dhas d ''execution_state'' \<Longrightarrow> dget (annotated d rt i) ''execution_state'' = exec_state_pyv (rt_execution_state rt)"
    unfolding annotated_def foldl_setdefault_get setdefault_simps by (cases "k = ''session_id''"; simp)+
qed

text \<open>
  C28. What a client learns of a failure. A failed call of a session tool keeps its message, whether it
  ended the session, and every detail the operation gave; it gains the id of the session and its
  execution state where the operation had not set them; and its code changes only when the operation
  left the generic code, to the one that the message stands for.
\<close>

theorem session_failure_annotated:
  assumes "error_details e = Inr d"
  shows "\<exists>ds. annotate_session_failure (Failure e) rt i = Inr (Failure (OpError (oe_message e)
        (if oe_code e = ''error'' then str_or (failure_code (oe_message e)) ''error'' else oe_code e) (oe_fatal e) ds))
    \<and> (\<forall>k. dhas d k \<longrightarrow> dget ds k = dget d k)
    \<and> (\<not> dhas d ''session_id'' \<longrightarrow> dget ds ''session_id'' = PInt i)
    \<and> (\<not> dhas d ''execution_state'' \<longrightarrow> dget ds ''execution_state'' = exec_state_pyv (rt_execution_state rt))"
proof (intro exI conjI allI impI)
  show "annotate_session_failure (Failure e) rt i = Inr (Failure (OpError (oe_message e)
      (if oe_code e = ''error'' then str_or (failure_code (oe_message e)) ''error'' else oe_code e) (oe_fatal e)
      (annotated d rt i)))"
    using assms by (simp add: annotate_session_failure_def annotated_def Let_def)
qed (rule annotated_get; assumption)+

theorem session_failure_annotated_witness:
  "\<exists>ds. annotate_session_failure (Failure (OpError ''gone'' ''error'' True [(''command'', PStr ''run'')])) (idle_runtime []) 3
      = Inr (Failure (OpError ''gone'' (str_or (failure_code ''gone'') ''error'') True ds))
    \<and> dget ds ''command'' = PStr ''run'' \<and> dget ds ''session_id'' = PInt 3"
proof -
  let ?e = "OpError ''gone'' ''error'' True [(''command'', PStr ''run'')]"
  have d: "error_details ?e = Inr [(''command'', PStr ''run'')]" by code_simp
  have k: "dhas [(''command'', PStr ''run'')] ''command''" "\<not> dhas [(''command'', PStr ''run'')] ''session_id''"
    "dget [(''command'', PStr ''run'')] ''command'' = PStr ''run''" by code_simp+
  from session_failure_annotated [OF d, of "idle_runtime []" 3] k show ?thesis by auto
qed

section \<open>Requests\<close>

text \<open>
  Arguments given as one shell-style string: quoting each argument the way \<open>shlex.quote\<close> does and
  joining them with spaces is undone exactly, for every list of arguments, whatever characters they
  have; so an argument never splits, joins another or gets lost on its way to the program.
\<close>

theorem run_args_roundtrip:
  "normalize_run_args (Some (ArgvText (shlex_join args))) = Inr (Some args)"
  by (simp add: normalize_run_args_def shlex_split_def loop_join)

lemma hd_strip: "strip s \<noteq> [] \<Longrightarrow> \<not> is_space (hd (strip s))"
  using hd_rstrip [of "lstrip s"] lstrip_hd [of s] by (fastforce simp: strip_def rstrip_def)

lemma colon_tail:
  assumes "CHR '':'' \<notin> set t"
  shows "takeWhile (\<lambda>c. c \<noteq> CHR '':'') (rev (a @ CHR '':'' # t)) = rev t"
    "dropWhile (\<lambda>c. c \<noteq> CHR '':'') (rev (a @ CHR '':'' # t)) = CHR '':'' # rev a"
proof -
  have *: "\<And>x. x \<in> set (rev t) \<Longrightarrow> x \<noteq> CHR '':''" using assms by auto
  show "takeWhile (\<lambda>c. c \<noteq> CHR '':'') (rev (a @ CHR '':'' # t)) = rev t"
    "dropWhile (\<lambda>c. c \<noteq> CHR '':'') (rev (a @ CHR '':'' # t)) = CHR '':'' # rev a"
    using takeWhile_append2 [of "rev t" "\<lambda>c. c \<noteq> CHR '':''"] dropWhile_append2 [of "rev t" "\<lambda>c. c \<noteq> CHR '':''"] *
    by simp_all
qed

lemma match_memory_range_text:
  assumes "a \<noteq> []" "CHR 0x0A \<notin> set a"
  shows "match_memory_range (a @ CHR '':'' # show_nat n @ CHR ''@'' # show_nat m) = Some (a, show_nat n, Some (show_nat m))"
    "match_memory_range (a @ CHR '':'' # show_nat n) = Some (a, show_nat n, None)"
proof -
  have d: "list_all is_digit (show_nat k)" "show_nat k \<noteq> []" for k
    using isdigit_show_nat [of k] by (simp_all add: isdigit_def)
  have c: "CHR '':'' \<notin> set (show_nat k)" for k
  proof
    assume "CHR '':'' \<in> set (show_nat k)"
    with d(1) [of k] have "is_digit (CHR '':'')" by (simp add: list_all_iff)
    moreover have "\<not> is_digit (CHR '':'')" by code_simp
    ultimately show False by simp
  qed
  have at: "\<not> is_digit (CHR ''@'')" by code_simp
  have tw: "takeWhile is_digit (show_nat n @ CHR ''@'' # show_nat m) = show_nat n"
    "dropWhile is_digit (show_nat n @ CHR ''@'' # show_nat m) = CHR ''@'' # show_nat m"
    using d(1) [of n] at by (simp_all add: list_all_iff takeWhile_append2 dropWhile_append2)
  have tw': "takeWhile is_digit (show_nat n) = show_nat n" "dropWhile is_digit (show_nat n) = []"
    using d(1) [of n] by (simp_all add: list_all_iff)
  have c': "CHR '':'' \<notin> set (show_nat n @ CHR ''@'' # show_nat m)" using c by simp
  show "match_memory_range (a @ CHR '':'' # show_nat n @ CHR ''@'' # show_nat m) = Some (a, show_nat n, Some (show_nat m))"
    unfolding match_memory_range_def Let_def colon_tail [OF c'] using tw d assms by (simp add: isdigit_def)
  show "match_memory_range (a @ CHR '':'' # show_nat n) = Some (a, show_nat n, None)"
    unfolding match_memory_range_def Let_def colon_tail [OF c] rev_rev_ident tw' using d(2) assms by simp
qed

text \<open>
  The shorthand for memory ranges. The text \<open>address:count@offset\<close>, and \<open>address:count\<close> for offset
  0, is read back as the range it stands for, for every address expression that is not empty, has no
  line break and does not begin or end with white space, colons inside it (as in \<open>ns::var\<close>) included.
\<close>

theorem memory_shorthand_roundtrip:
  assumes "address \<noteq> []" "strip address = address" "CHR 0x0A \<notin> set address"
  shows "parse_memory_range_shorthand (address @ CHR '':'' # show_nat n @ CHR ''@'' # show_nat m) index
      = Inr \<lparr>mcr_address = address, mcr_count = int n, mcr_offset = int m, mcr_name = None\<rparr>
    \<and> parse_memory_range_shorthand (address @ CHR '':'' # show_nat n) index
      = Inr \<lparr>mcr_address = address, mcr_count = int n, mcr_offset = 0, mcr_name = None\<rparr>"
proof -
  have l: "\<not> is_space (last (show_nat k))" "show_nat k \<noteq> []" for k
    using isdigit_show_nat [of k] is_digit_not_space by (auto simp: isdigit_def list_all_iff)
  have h: "\<not> is_space (hd address)"
    using assms(1,2) hd_strip [of address] by simp
  have s: "strip (address @ CHR '':'' # show_nat n @ CHR ''@'' # show_nat m) = address @ CHR '':'' # show_nat n @ CHR ''@'' # show_nat m"
    "strip (address @ CHR '':'' # show_nat n) = address @ CHR '':'' # show_nat n"
    using h l assms(1) by (auto intro!: strip_id)
  note match_memory_range_text [OF assms(1,3)]
  with s assms(1,2) show ?thesis unfolding parse_memory_range_shorthand_def Let_def by simp
qed

theorem memory_shorthand_roundtrip_witness:
  "parse_memory_range_shorthand (''ns::var'' @ CHR '':'' # show_nat 16 @ CHR ''@'' # show_nat 4) 0
     = Inr \<lparr>mcr_address = ''ns::var'', mcr_count = 16, mcr_offset = 4, mcr_name = None\<rparr>"
proof -
  have "''ns::var'' \<noteq> []" "strip ''ns::var'' = ''ns::var''" "CHR 0x0A \<notin> set ''ns::var''" by code_simp+
  from memory_shorthand_roundtrip [OF this, of 16 4 0] show ?thesis by simp
qed

text \<open>What a step of a batch must be, and what it becomes: its tool works on a single session, it
  names no session and does not list sessions, and its arguments, with the session's id added, are
  those of the tool.\<close>

definition step_accepted :: "server_env \<Rightarrow> int \<Rightarrow> BatchStepInput \<Rightarrow> BatchStepTemplate \<Rightarrow> bool" where
  "step_accepted env i raw t \<longleftrightarrow>
     (let st = batch_step_args raw in
      bsa_tool st \<in> set batch_step_tool_names \<and> \<not> dhas (bsa_arguments st) ''session_id''
      \<and> \<not> (bsa_tool st = ''gdb_session_query'' \<and> dget (bsa_arguments st) ''action'' = PStr ''list'')
      \<and> (\<exists>a. se_validate env (bsa_tool st) (dupdate [(''session_id'', PInt i)] (bsa_arguments st)) = Inr a
           \<and> t = \<lparr>bst_tool = bsa_tool st, bst_execute = execute_batch_step env a, bst_label = bsa_label st\<rparr>))"

lemma step_names_exclude:
  "set batch_step_tool_names \<inter> {''gdb_session_start'', ''gdb_session_connect'', ''gdb_session_manage'',
     ''gdb_workflow_batch'', ''gdb_run_until_failure''} = {}"
  by code_simp

lemma contract_iff:
  "validate_workflow_step_contract tool args = None \<longleftrightarrow>
     tool \<in> set batch_step_tool_names \<and> \<not> dhas args ''session_id''
     \<and> \<not> (tool = ''gdb_session_query'' \<and> dget args ''action'' = PStr ''list'')"
  using step_names_exclude unfolding validate_workflow_step_contract_def by (auto split: if_splits)

lemma batch_step_template_iff:
  "batch_step_template env i n (batch_step_args raw) = Inr t \<longleftrightarrow> step_accepted env i raw t"
proof -
  obtain tool args label where st: "batch_step_args raw = \<lparr>bsa_tool = tool, bsa_arguments = args, bsa_label = label\<rparr>"
    by (cases "batch_step_args raw") auto
  show ?thesis
  proof (cases "validate_workflow_step_contract tool args")
    case None
    moreover from None contract_iff have "tool \<in> set batch_step_tool_names" by blast
    ultimately show ?thesis using contract_iff [of tool args]
      by (cases "se_validate env tool (dupdate [(''session_id'', PInt i)] args)")
        (auto simp: st batch_step_template_def step_accepted_def Let_def)
  next
    case (Some issue)
    with contract_iff [of tool args] show ?thesis
      by (auto simp: st batch_step_template_def step_accepted_def Let_def)
  qed
qed

lemma build_batch_iff:
  "build_batch_step_templates env i n steps = Inr ts \<longleftrightarrow> list_all2 (step_accepted env i) steps ts"
proof (induction steps arbitrary: n ts)
  case (Cons raw steps)
  note step = batch_step_template_iff [symmetric, of env i raw _ n] and rest = Cons.IH [where n = "Suc n", symmetric]
  show ?case unfolding list_all2_Cons1 step rest by (auto split: sum.splits)
qed auto

text \<open>
  C27. The contract of batches. A list of steps becomes a batch exactly when every step is acceptable,
  and then the batch has one step for each, in order, with its tool, its label and the handler of its
  validated arguments on the batch's own session. No tool that starts, connects, stops or lists
  sessions, and no other batch or campaign, is a step.
\<close>

theorem batch_contract_exact:
  "(build_batch_step_templates env i n steps = Inr ts \<longleftrightarrow> list_all2 (step_accepted env i) steps ts)
   \<and> set batch_step_tool_names \<inter> {''gdb_session_start'', ''gdb_session_connect'', ''gdb_session_manage'',
        ''gdb_workflow_batch'', ''gdb_run_until_failure''} = {}"
  using build_batch_iff step_names_exclude by blast

text \<open>Arguments of a campaign's sessions that are given as one string are not split like those of a
  session that is started directly: each character becomes an argument.\<close>

theorem campaign_splits_characters:
  "rfr_args (campaign_request (args\<lparr>rua_startup := (rua_startup args)\<lparr>ssa_args := Some (ArgvText s)\<rparr>\<rparr>) steps run ranges)
     = map (\<lambda>c. [c]) s"
  by (simp add: campaign_request_def startup_argv_def Let_def)

text \<open>Nor do the options for GDB and the trace directory of the sessions reach the campaign.\<close>

theorem campaign_ignores_gdb_args:
  "campaign_request (args\<lparr>rua_startup := (rua_startup args)\<lparr>ssa_gdb_args := o1, ssa_rr_replay := o2\<rparr>\<rparr>) steps run ranges
     = campaign_request args steps run ranges"
  by (simp add: campaign_request_def Let_def campaign_criteria_def)

end
