(* ===== verification/Code_Inspection_Correct.thy ===== *)
theory Code_Inspection_Correct
  imports Inspection_Correct
begin

text \<open>Properties of source windows, disassembly, registers and memory.\<close>

section \<open>Source windows\<close>

lemma source_line_inside:
  "1 \<le> n \<Longrightarrow> n \<le> int (length lines) \<Longrightarrow>
     source_line lines current n = Some \<lparr>slr_line_number = n, slr_text = lines ! nat (n - 1),
       slr_is_current = (current = Some n)\<rparr>"
  by (simp add: source_line_def py_nth_def)

lemma those_map_Some: "(\<And>x. x \<in> set xs \<Longrightarrow> f x = Some (g x)) \<Longrightarrow> those (map f xs) = Some (map g xs)"
  by (induction xs) simp_all

lemma source_window_inside:
  assumes "1 \<le> a" "b \<le> int (length lines)"
  shows "source_window lines current a b = Inr (map (\<lambda>n. \<lparr>slr_line_number = n,
      slr_text = lines ! nat (n - 1), slr_is_current = (current = Some n)\<rparr>) [a..b])"
  unfolding source_window_def using assms by (subst those_map_Some [OF source_line_inside]) simp_all

section \<open>Memory tables\<close>

text \<open>A byte as GDB prints it, and its two digits.\<close>

definition hex2 :: "nat \<Rightarrow> string" where
  "hex2 b = [hex_char (b div 16), hex_char b]"

definition print_cell :: "nat option \<Rightarrow> pyv" where
  "print_cell c = PStr (case c of None \<Rightarrow> ''N/A'' | Some b \<Rightarrow> ''0x'' @ hex2 b)"

definition print_table :: "nat option list list \<Rightarrow> pyv" where
  "print_table rows = PDict [(''memory'', PList (map (\<lambda>row. PDict [(''data'', PList (map print_cell row))]) rows))]"

fun unhex :: "string \<Rightarrow> nat list" where
  "unhex (a # b # s) =
     (case (digit_val a, digit_val b) of (Some x, Some y) \<Rightarrow> (16 * x + y) # unhex s | _ \<Rightarrow> [])"
| "unhex s = []"

definition readable_prefix :: "nat option list list \<Rightarrow> nat list" where
  "readable_prefix rows = map the (takeWhile (\<lambda>c. c \<noteq> None) (concat rows))"

lemma digit_val_hex_char: "digit_val (hex_char d) = Some (d mod 16)"
proof -
  have "\<forall>x < 16. digit_val (''0123456789abcdef'' ! x) = Some x" by code_simp
  then show ?thesis by (simp add: hex_char_def)
qed

lemma legacy_byte_hex: "legacy_byte (''0x'' @ hex2 b) = hex2 b"
proof -
  have low: "lower (''0x'' @ t) = ''0x'' @ lower t" for t by (simp add: to_lower_def)
  have "hex_char d \<notin> {CHR ''+'', CHR ''-''}" for d
  proof -
    have "\<forall>x < 16. ''0123456789abcdef'' ! x \<notin> {CHR ''+'', CHR ''-''}" by code_simp
    then show ?thesis by (simp add: hex_char_def)
  qed
  then show ?thesis unfolding legacy_byte_def low by (simp add: zfill_def hex2_def)
qed

lemma hex_not_na: "''0x'' @ s \<noteq> ''N/A''"
  by simp

lemma legacy_row_cells:
  "legacy_row parts (map print_cell row) =
     (parts @ map (hex2 \<circ> the) (takeWhile (\<lambda>c. c \<noteq> None) row), \<not> list_all (\<lambda>c. c \<noteq> None) row)"
proof (induction row arbitrary: parts)
  case (Cons c row)
  show ?case
  proof (cases c)
    case (Some b)
    have "legacy_row parts (map print_cell (c # row)) = legacy_row (parts @ [hex2 b]) (map print_cell row)"
      using legacy_byte_hex hex_not_na by (simp add: Some print_cell_def as_text_def del: append.simps)
    with Cons Some show ?thesis by simp
  qed (simp add: print_cell_def as_text_def)
qed simp

lemma takeWhile_concat_stop:
  "\<not> list_all P xs \<Longrightarrow> takeWhile P (xs @ ys) = takeWhile P xs"
  "list_all P xs \<Longrightarrow> takeWhile P (xs @ ys) = xs @ takeWhile P ys"
  by (induction xs) auto

lemma takeWhile_all: "list_all P xs \<Longrightarrow> takeWhile P xs = xs"
  by (simp add: list_all_iff takeWhile_eq_all_conv)

lemma legacy_rows_table:
  "legacy_rows parts (map (\<lambda>row. PDict [(''data'', PList (map print_cell row))]) rows)
     = parts @ map hex2 (readable_prefix rows)"
proof (induction rows arbitrary: parts)
  case (Cons row rows)
  let ?P = "\<lambda>c. c \<noteq> (None :: nat option)"
  have step: "legacy_rows parts (map (\<lambda>row. PDict [(''data'', PList (map print_cell row))]) (row # rows)) =
      (if list_all ?P row
       then parts @ map (hex2 \<circ> the) (takeWhile ?P row) @ map hex2 (readable_prefix rows)
       else parts @ map (hex2 \<circ> the) (takeWhile ?P row))"
    by (simp add: legacy_row_cells Cons del: not_None_eq)
  show ?case
  proof (cases "list_all ?P row")
    case True
    then show ?thesis unfolding step readable_prefix_def
      by (simp add: takeWhile_concat_stop(2) [OF True] takeWhile_all [OF True] del: not_None_eq takeWhile_eq_all_conv)
  next
    case False
    then show ?thesis unfolding step readable_prefix_def
      using takeWhile_concat_stop(1) [OF False] by (simp del: not_None_eq)
  qed
qed (simp add: readable_prefix_def)

lemma legacy_contents_table:
  "legacy_memory_contents (print_table rows) = concat (map hex2 (readable_prefix rows))"
  using legacy_rows_table [of "[]" rows] by (simp add: legacy_memory_contents_def print_table_def)

lemma length_hex2s: "length (concat (map hex2 bs)) = 2 * length bs"
  by (induction bs) (simp_all add: hex2_def)

lemma unhex_bytes: "list_all (\<lambda>b. b < 256) bs \<Longrightarrow> unhex (concat (map hex2 bs)) = bs"
proof (induction bs)
  case (Cons b bs)
  then have "b div 16 < 16" by (simp add: div_less_iff_less_mult)
  then have "b div 16 mod 16 = b div 16" by (rule mod_less)
  with Cons show ?case by (simp add: hex2_def digit_val_hex_char)
qed simp

section \<open>Registers\<close>

lemma foldl_add_number_set: "set (foldl add_number acc xs) = set acc \<union> set xs
    \<and> (distinct acc \<longrightarrow> distinct (foldl add_number acc xs))"
  by (induction xs arbitrary: acc) (auto simp: add_number_def)

lemma foldl_add_missing:
  "foldl (add_missing index) (sel, miss) names =
     (foldl add_number sel (List.map_filter (map_of index) names),
      miss @ filter (\<lambda>n. map_of index n = None) names)"
  by (induction names arbitrary: sel miss)
    (auto simp: add_missing_def List.map_filter_simps split: option.splits)

definition index_ok :: "pyv list \<Rightarrow> (string \<times> int) list \<Rightarrow> bool" where
  "index_ok names index \<longleftrightarrow> (\<forall>n k. map_of index n = Some k \<longrightarrow>
     0 \<le> k \<and> k < int (length names) \<and> (\<exists>s. names ! nat k = PStr s \<and> strip s = n))"

lemma index_names_ok: "index_ok names (index_names names)"
proof -
  have "index_ok names (foldl (\<lambda>index (number, raw_name). case raw_name of
            PStr s \<Rightarrow> (if strip s = [] then index else AList.update (strip s) (int number) index)
          | _ \<Rightarrow> index) index ps)"
    if "index_ok names index" "\<forall>(i, x) \<in> set ps. i < length names \<and> x = names ! i" for ps index
    using that
  proof (induction ps arbitrary: index)
    case (Cons p ps)
    show ?case using Cons.prems
      by (simp, intro Cons.IH) (auto simp: index_ok_def update_conv' split: pyv.splits prod.splits if_splits)
  qed simp
  moreover have "index_ok names []" by (simp add: index_ok_def)
  moreover have "\<forall>(i, x) \<in> set (zip [0..<length names] names). i < length names \<and> x = names ! i"
    by (auto simp: set_zip)
  ultimately show ?thesis unfolding index_names_def by blast
qed

section \<open>Properties\<close>

text \<open>
  C32. A source window shows the file. Reading the lines around a location never fails on an index,
  and when it succeeds the window lies inside the file and holds, for every line number from its
  first to its last, exactly that line of the file; the line of the location is marked when the
  window was not given by explicit line numbers. A requested first line is at least 1, as the
  request schema demands.
\<close>

theorem source_window_exact:
  assumes "read_window fs location file requested_start requested_end before after content rt = (r, rt')"
    and "\<forall>a. requested_start = Some a \<longrightarrow> 1 \<le> a"
  shows "\<exists>res. r = Inr res \<and> rt' = rt \<and> (\<forall>w ws. res = Success w ws \<longrightarrow>
    1 \<le> rsw_start_line w \<and> rsw_end_line w \<le> int (length (splitlines content))
    \<and> rsw_lines w = map (\<lambda>n. \<lparr>slr_line_number = n, slr_text = splitlines content ! nat (n - 1),
        slr_is_current = ((requested_start = None \<or> requested_end = None) \<and> rcl_line location = Some n)\<rparr>)
        [rsw_start_line w..rsw_end_line w])"
proof -
  let ?lines = "splitlines content"
  have window: "source_window ?lines c a (min b (int (length ?lines))) = Inr (map (\<lambda>n. \<lparr>slr_line_number = n,
      slr_text = ?lines ! nat (n - 1), slr_is_current = (c = Some n)\<rparr>) [a..min b (int (length ?lines))])"
    if "1 \<le> a" for a b c
    using that by (intro source_window_inside) simp_all
  show ?thesis
  proof (cases "requested_start \<noteq> None \<and> requested_end \<noteq> None")
    case True
    then obtain a b where ab: "requested_start = Some a" "requested_end = Some b" by blast
    with assms window [of a] show ?thesis
      by (auto simp: read_window_def Let_def ret_def op_error_def op_success_def from_sum_def exec_defs split: if_splits)
  next
    case False
    then have n: "(requested_start \<noteq> None \<and> requested_end \<noteq> None) = False" by simp
    show ?thesis
    proof (cases "rcl_line location")
      case None
      with assms(1) False show ?thesis
        by (auto simp: read_window_def Let_def n ret_def op_error_def)
    next
      case (Some l)
      have le: "1 \<le> max 1 (l - before)" by simp
      from False have q: "requested_start = None \<or> requested_end = None" by blast
      show ?thesis
        using assms(1) unfolding read_window_def Let_def n Some
        by (auto simp: window [OF le] q ret_def op_error_def op_success_def from_sum_def exec_defs
            simp del: not_None_eq split: if_splits)
    qed
  qed
qed

definition sample_files :: source_files where
  "sample_files = \<lparr>sf_expand = id, sf_exists = (\<lambda>_. True), sf_read = (\<lambda>_. Inr ''a''), sf_resolve = id\<rparr>"

definition sample_location :: ResolvedCodeLocation where
  "sample_location = (bare_location ''file_line'')\<lparr>rcl_file := Some ''m.c'', rcl_line := Some 2\<rparr>"

theorem source_window_exact_witness:
  "\<exists>w ws. read_window sample_files sample_location ''m.c'' None None 5 5 ''x
y
z'' two_threads = (Inr (Success w ws), two_threads) \<and> rsw_start_line w = 1 \<and> rsw_end_line w = 3
     \<and> map slr_text (rsw_lines w) = [''x'', ''y'', ''z''] \<and> map slr_is_current (rsw_lines w) = [False, True, False]"
proof -
  let ?r = "read_window sample_files sample_location ''m.c'' None None 5 5 ''x
y
z'' two_threads"
  have lines: "splitlines ''x
y
z'' = [''x'', ''y'', ''z'']" by code_simp
  obtain r rt' where eq: "?r = (r, rt')" by (cases ?r)
  from source_window_exact [OF eq] obtain res where res: "r = Inr res" "rt' = two_threads"
    "\<forall>w ws. res = Success w ws \<longrightarrow> 1 \<le> rsw_start_line w \<and> rsw_end_line w \<le> 3
      \<and> rsw_lines w = map (\<lambda>n. \<lparr>slr_line_number = n, slr_text = [''x'', ''y'', ''z''] ! nat (n - 1),
          slr_is_current = (Some 2 = Some n)\<rparr>) [rsw_start_line w..rsw_end_line w]"
    unfolding lines by (auto simp: sample_location_def)
  from eq res(1,2) obtain w ws where w: "res = Success w ws" "rsw_start_line w = 1" "rsw_end_line w = 3"
    unfolding read_window_def lines Let_def
    by (cases res) (auto simp: sample_location_def ret_def op_success_def from_sum_def exec_defs
        source_window_def op_error_def bare_location_def split: if_splits option.splits)
  have "[1..3] = [1, 2, 3 :: int]" by (simp add: upto.simps)
  with w res(3) have "map slr_text (rsw_lines w) = [''x'', ''y'', ''z'']"
    "map slr_is_current (rsw_lines w) = [False, True, False]" by simp_all
  moreover have "?r = (Inr (Success w ws), two_threads)" using eq res(1,2) w(1) by simp
  ultimately show ?thesis using w(2,3) by (intro exI conjI)
qed

text \<open>
  Memory read through the old memory command is what GDB printed. For a table of memory rows
  in which each cell is a byte in hexadecimal or the mark of an unreadable one, the contents the
  code assembles are the two hexadecimal digits of every byte before the first unreadable cell, in
  order and in nothing else: decoding them gives those bytes back, and the number of captured
  bytes the code derives from their length is the number of those bytes.
\<close>

theorem legacy_memory_roundtrip:
  assumes "list_all (list_all (\<lambda>c. case c of None \<Rightarrow> True | Some b \<Rightarrow> b < 256)) rows"
  shows "unhex (legacy_memory_contents (print_table rows)) = readable_prefix rows
    \<and> length (legacy_memory_contents (print_table rows)) div 2 = length (readable_prefix rows)"
proof -
  have "list_all (\<lambda>b. b < 256) (readable_prefix rows)"
    using assms unfolding readable_prefix_def
    by (auto simp: list_all_iff dest!: set_takeWhileD) fastforce
  then show ?thesis by (simp add: legacy_contents_table unhex_bytes length_hex2s)
qed

theorem legacy_memory_roundtrip_witness:
  "unhex (legacy_memory_contents (print_table [[Some 127, Some 0], [Some 10, None, Some 1], [Some 2]]))
     = [127, 0, 10]"
  using legacy_memory_roundtrip [of "[[Some 127, Some 0], [Some 10, None, Some 1], [Some 2]]"]
  by (simp add: readable_prefix_def)

text \<open>
  Register filters select exactly the named registers. With an index built from the register
  names GDB lists, resolving a filter fails exactly when some name is not a register; otherwise the
  numbers are without repetition, contain every number the caller gave and one number for every
  name, nothing else, and the number of a name is the position GDB lists it at.
\<close>

theorem register_filter_exact:
  assumes "index = index_names names" and "distinct chosen"
  shows "case resolve_names index chosen wanted of
      Failure e \<Rightarrow> (\<exists>n \<in> set wanted. map_of index n = None)
    | Success r ws \<Rightarrow>
        (\<forall>n \<in> set wanted. \<exists>k. map_of index n = Some k \<and> 0 \<le> k \<and> k < int (length names)
           \<and> (\<exists>s. names ! nat k = PStr s \<and> strip s = n))
        \<and> (let numbers = (case r of None \<Rightarrow> [] | Some ks \<Rightarrow> ks) in
             distinct numbers \<and> set numbers = set chosen \<union> {k. \<exists>n \<in> set wanted. map_of index n = Some k})"
proof -
  have img: "set (List.map_filter (map_of index) wanted) = {k. \<exists>n \<in> set wanted. map_of index n = Some k}"
    by (auto simp: List.map_filter_def image_iff) (metis option.sel)
  have known: "(filter (\<lambda>n. map_of index n = None) wanted \<noteq> []) = (\<exists>n \<in> set wanted. map_of index n = None)"
    by (auto simp: filter_empty_conv)
  show ?thesis
  proof (cases "\<exists>n \<in> set wanted. map_of index n = None")
    case True
    then show ?thesis by (simp add: resolve_names_def foldl_add_missing known op_error_def)
  next
    case False
    then have all: "\<forall>n \<in> set wanted. \<exists>k. map_of index n = Some k" by auto
    have ok: "index_ok names index" unfolding assms(1) by (rule index_names_ok)
    show ?thesis
      using False all ok foldl_add_number_set [of chosen "List.map_filter (map_of index) wanted"] assms(2)
      by (auto simp: resolve_names_def foldl_add_missing known op_success_def img index_ok_def Let_def)
  qed
qed


theorem register_filter_exact_witness:
  "\<exists>ws. resolve_names (index_names [PStr ''rax'', PStr '''', PStr ''rip'']) [0] [''rip'', ''rax''] = Success (Some [0, 2]) ws
     \<and> set [0, 2] = set [0] \<union> {k. \<exists>n \<in> {''rip'', ''rax''}. map_of (index_names [PStr ''rax'', PStr '''', PStr ''rip'']) n = Some k}"
proof -
  let ?names = "[PStr ''rax'', PStr '''', PStr ''rip'']"
  have "resolve_names (index_names ?names) [0] [''rip'', ''rax''] = Success (Some [0, 2]) []" by code_simp
  with register_filter_exact [where names = ?names and chosen = "[0]" and wanted = "[''rip'', ''rax'']", OF refl]
  show ?thesis by simp
qed

lemma instruction_current:
  "normalize_disassembly_instruction file fullname line (Some a) payload = Some i \<Longrightarrow>
     dir_is_current i = addresses_equal (dir_address i) a"
  by (auto simp: normalize_disassembly_instruction_def split: pyv.splits option.splits)

lemma map_filter_mem: "y \<in> set (List.map_filter f xs) \<longleftrightarrow> (\<exists>x \<in> set xs. f x = Some y)"
  by (force simp: List.map_filter_def image_iff)

lemma entry_current:
  assumes "i \<in> set (normalize_disassembly_entry (Some a) entry)"
  shows "dir_is_current i = addresses_equal (dir_address i) a"
proof (cases entry)
  case (PDict d)
  let ?one = "normalize_disassembly_instruction None None None (Some a) entry"
  show ?thesis
  proof (cases "\<exists>nested. dget d ''line_asm_insn'' = PList nested")
    case True
    with assms PDict show ?thesis
      by (auto simp: normalize_disassembly_entry_def map_filter_mem dest!: instruction_current)
  next
    case False
    with assms PDict have "i \<in> set (case ?one of None \<Rightarrow> [] | Some r \<Rightarrow> [r])"
      by (cases "dget d ''line_asm_insn''") (simp_all add: normalize_disassembly_entry_def)
    then show ?thesis by (cases ?one) (auto dest!: instruction_current)
  qed
qed (use assms in \<open>simp_all add: normalize_disassembly_entry_def\<close>)

lemma payload_current:
  assumes "i \<in> set (normalize_disassembly_payload (Some a) payload)"
  shows "dir_is_current i = addresses_equal (dir_address i) a"
proof -
  have "\<exists>entry. i \<in> set (normalize_disassembly_entry (Some a) entry)"
    using assms unfolding normalize_disassembly_payload_def by (auto split: pyv.splits)
  then show ?thesis using entry_current by blast
qed

lemma or_restore_SuccessE:
  assumes "or_restore selection m k rt = (Inr (Success v ws), rt')"
  obtains x us rt1 where "m rt = (Inr (Success x us), rt1)" "k x rt1 = (Inr (Success v ws), rt')"
  using assms
  by (auto simp: or_restore_def selection_error_with_restore_def ret_def op_error_def
      elim!: bindE_InrE split: OperationResult.splits option.splits)

lemma end_inspection_SuccessE:
  "end_inspection selection changed (op_success x) rt = (Inr (Success v ws), rt') \<Longrightarrow> v = x"
  by (auto simp: end_inspection_def ret_def op_success_def elim!: bindE_InrE split: option.splits)

lemma disassemble_at_info:
  assumes "disassemble_at selection changed location n mixed rt = (Inr (Success info ws), rt')"
  shows "dsi_count info = int (length (dsi_instructions info)) \<and> (0 \<le> n \<longrightarrow> dsi_count info \<le> n)
    \<and> (\<forall>a. rcl_address location = Some a \<longrightarrow>
         (\<forall>i \<in> set (dsi_instructions info). dir_is_current i = addresses_equal (dir_address i) a))"
proof -
  from assms obtain v where "info = disassembly_info location mixed
      (take_py n (normalize_disassembly_payload (rcl_address location) (mi_payload v)))"
    unfolding disassemble_at_def Let_def
    by (elim or_restore_SuccessE) (drule end_inspection_SuccessE, blast)
  then show ?thesis
    using payload_current [OF in_set_takeD] by (auto simp: disassembly_info_def take_py_def)
qed

text \<open>
  Disassembly is bounded and marks what it was asked for. A successful disassembly of an address
  returns at most the requested number of instructions, and marks as current exactly the ones whose
  address is equal, as a number, to the address that was asked for.
\<close>

theorem disassembly_marks_address:
  assumes "disassemble thread_id frame (no_selector\<lparr>cs_address := Some a\<rparr>) n mixed rt = (Inr (Success info ws), rt')"
    and "0 \<le> n"
  shows "dsi_count info = int (length (dsi_instructions info)) \<and> dsi_count info \<le> n
    \<and> (\<forall>i \<in> set (dsi_instructions info). dir_is_current i = addresses_equal (dir_address i) a)"
proof -
  from assms(1) have "disassemble_at None False ((bare_location ''address'')\<lparr>rcl_address := Some a\<rparr>) n mixed rt
      = (Inr (Success info ws), rt')"
    by (simp add: disassemble_def no_selector_def)
  from disassemble_at_info [OF this] assms(2) show ?thesis by simp
qed

lemma dollar_pc_not_number: "py_int0 ''$pc'' = None"
  by code_simp

text \<open>
  Disassembly of the current context marks no instruction. Without a selector the code asks
  for the address \<open>$pc\<close>, and compares that text with the addresses GDB returns: whatever the program
  counter is, no instruction with a real address is marked as current.
\<close>

theorem current_context_unmarked:
  assumes "disassemble thread_id frame no_selector n mixed rt = (Inr (Success info ws), rt')"
    and "i \<in> set (dsi_instructions info)" and "py_int0 (dir_address i) = Some pc"
  shows "\<not> dir_is_current i"
proof -
  from assms(1) obtain selection changed location rt1 where at: "rcl_address location = Some ''$pc''"
    "disassemble_at selection changed location n mixed rt1 = (Inr (Success info ws), rt')"
    unfolding disassemble_def Let_def
    by (force simp: no_selector_def gets_def bindE_def elim!: on_success_SuccessE split: prod.splits)
  from disassemble_at_info [OF at(2)] at(1) assms(2)
  have "dir_is_current i = addresses_equal (dir_address i) ''$pc''" by blast
  with assms(3) show ?thesis by (auto simp: addresses_equal_def dollar_pc_not_number)
qed

text \<open>A debugger that lists the option for whole functions and disassembles two instructions.\<close>

definition at_main :: SessionRuntime where
  "at_main = ready_sample
     [answer_record 1000 [(''features'', PList [PStr ''data-disassemble-a-option''])],
      answer_record 1001 [(''asm_insns'', PList [
        PDict [(''address'', PStr ''0x10''), (''inst'', PStr ''push %rbp'')],
        PDict [(''address'', PStr ''0x11''), (''inst'', PStr ''ret'')]])]]"

definition marks :: "(exn + DisassemblyInfo OperationResult) \<Rightarrow> (string \<times> bool) list option" where
  "marks r = (case r of Inr (Success i ws) \<Rightarrow> Some (map (\<lambda>d. (dir_address d, dir_is_current d)) (dsi_instructions i)) | _ \<Rightarrow> None)"

lemma marks_SomeE:
  assumes "marks (fst (m rt)) = Some ms"
  obtains info ws rt' where "m rt = (Inr (Success info ws), rt')"
    "map (\<lambda>d. (dir_address d, dir_is_current d)) (dsi_instructions info) = ms"
  using assms by (cases "m rt") (auto simp: marks_def split: sum.splits OperationResult.splits)

theorem disassembly_marks_address_witness:
  "\<exists>info ws rt'. disassemble None None (no_selector\<lparr>cs_address := Some ''0x11''\<rparr>) 8 False at_main
      = (Inr (Success info ws), rt') \<and> dsi_count info \<le> 8 \<and> dsi_count info = 2"
proof -
  have "marks (fst (disassemble None None (no_selector\<lparr>cs_address := Some ''0x11''\<rparr>) 8 False at_main))
      = Some [(''0x10'', False), (''0x11'', True)]" by code_simp
  then obtain info ws rt' where d: "disassemble None None (no_selector\<lparr>cs_address := Some ''0x11''\<rparr>) 8 False at_main
      = (Inr (Success info ws), rt')"
      "map (\<lambda>d. (dir_address d, dir_is_current d)) (dsi_instructions info) = [(''0x10'', False), (''0x11'', True)]"
    by (rule marks_SomeE)
  have "length (dsi_instructions info) = 2" using arg_cong [OF d(2), of length] by simp
  with disassembly_marks_address [OF d(1)] d(1) show ?thesis by simp
qed

theorem current_context_unmarked_witness:
  "\<exists>info ws rt' i. disassemble None None no_selector 8 False at_main = (Inr (Success info ws), rt')
      \<and> i \<in> set (dsi_instructions info) \<and> dir_address i = ''0x10'' \<and> \<not> dir_is_current i"
proof -
  have "marks (fst (disassemble None None no_selector 8 False at_main)) = Some [(''0x10'', False), (''0x11'', False)]"
    by code_simp
  then obtain info ws rt' where d: "disassemble None None no_selector 8 False at_main = (Inr (Success info ws), rt')"
    "map (\<lambda>d. (dir_address d, dir_is_current d)) (dsi_instructions info) = [(''0x10'', False), (''0x11'', False)]"
    by (rule marks_SomeE)
  then obtain i where i: "i \<in> set (dsi_instructions info)" "dir_address i = ''0x10''"
    by (cases "dsi_instructions info") auto
  have "py_int0 ''0x10'' = Some 16" by code_simp
  with current_context_unmarked [OF d(1) i(1)] i d(1) show ?thesis by metis
qed

end
