(* ===== verification/Client_Parsers.thy ===== *)
theory Client_Parsers
  imports Mcp_Common Validation_Errors
begin

text \<open>
  The command line client, part one: the helpers that turn flags into payloads
  (\<open>client/parsers.py\<close>) and the steps of batches and campaigns (\<open>client/input_parsers.py\<close>). Validation
  of a payload against the model of its tool is pydantic's: a parameter that gives the normalised
  payload or the list of error entries.
\<close>

section \<open>Errors and assignments\<close>

text \<open>\<open>CliUsageError\<close>, argparse's \<open>ArgumentTypeError\<close>, and pydantic's \<open>ValidationError\<close> with its entries.\<close>

datatype client_error =
    CliUsageError string
  | ArgumentTypeError string
  | ValidationError "pydict list"

type_synonym validator = "pydict \<Rightarrow> pydict list + pydict"

text \<open>\<open>text.split("=", 1)\<close> of a text with an equals sign.\<close>

definition split_assignment :: "string \<Rightarrow> string \<times> string" where
  "split_assignment t = (takeWhile (\<lambda>c. c \<noteq> CHR ''='') t, tl (dropWhile (\<lambda>c. c \<noteq> CHR ''='') t))"

definition key_value_entry :: "string \<Rightarrow> client_error + string \<times> string" where
  "key_value_entry t =
     (if CHR ''='' \<notin> set t then Inl (ArgumentTypeError ''Expected KEY=VALUE'')
      else if fst (split_assignment t) = []
      then Inl (ArgumentTypeError ''Expected non-empty KEY in KEY=VALUE'')
      else Inr (split_assignment t))"

definition collapse_key_value_entries :: "(string \<times> string) list \<Rightarrow> (string \<times> string) list option" where
  "collapse_key_value_entries entries =
     (if entries = [] then None
      else Some (foldl (\<lambda>d p. AList.update (fst p) (snd p) d) [] entries))"

text \<open>\<open>text.split(c)\<close>: one more part than there are separators.\<close>

fun split_char :: "char \<Rightarrow> string \<Rightarrow> string list" where
  "split_char c [] = [[]]"
| "split_char c (x # xs) =
     (if x = c then [] # split_char c xs
      else case split_char c xs of p # ps \<Rightarrow> (x # p) # ps | [] \<Rightarrow> [[x]])"

definition dotted_assignment :: "string \<Rightarrow> client_error + string \<times> string" where
  "dotted_assignment t =
     (if CHR ''='' \<notin> set t then Inl (ArgumentTypeError ''Expected PATH=VALUE'')
      else let (path, raw_value) = split_assignment t in
        if path = [] then Inl (ArgumentTypeError ''Expected non-empty PATH in PATH=VALUE'')
        else if [] \<in> set (split_char (CHR ''.'') path)
        then Inl (ArgumentTypeError ''Expected PATH with non-empty dotted segments in PATH=VALUE'')
        else Inr (path, raw_value))"

text \<open>The assignment at the last part of a path, and the walk to it.\<close>

definition assign_leaf :: "string \<Rightarrow> pydict \<Rightarrow> string \<Rightarrow> pyv \<Rightarrow> client_error + pydict" where
  "assign_leaf path current leaf_key v =
     (case dget current leaf_key of
        PNone \<Rightarrow> Inr (dset leaf_key v current)
      | PDict d \<Rightarrow> Inl (CliUsageError
          (''Conflicting dotted assignment for '' @ path @ '': path already set to a mapping''))
      | PList xs \<Rightarrow> Inr (dset leaf_key (PList (xs @ [v])) current)
      | existing \<Rightarrow> Inr (dset leaf_key (PList [existing, v]) current))"

fun assign_parts :: "string \<Rightarrow> pydict \<Rightarrow> string list \<Rightarrow> pyv \<Rightarrow> client_error + pydict" where
  "assign_parts path current [] v = Inr current"
| "assign_parts path current [leaf_key] v = assign_leaf path current leaf_key v"
| "assign_parts path current (part # parts) v =
     (case dget current part of
        PNone \<Rightarrow>
          (case assign_parts path [] parts v of
             Inl e \<Rightarrow> Inl e
           | Inr child \<Rightarrow> Inr (dset part (PDict child) current))
      | PDict c \<Rightarrow>
          (case assign_parts path c parts v of
             Inl e \<Rightarrow> Inl e
           | Inr child \<Rightarrow> Inr (dset part (PDict child) current))
      | _ \<Rightarrow> Inl (CliUsageError (''Conflicting dotted assignment for '' @ path @ '': segment ''
                @ repr_str part @ '' already set'')))"

definition assign_dotted_value :: "pydict \<Rightarrow> string \<Rightarrow> pyv \<Rightarrow> client_error + pydict" where
  "assign_dotted_value target path v = assign_parts path target (split_char (CHR ''.'') path) v"

section \<open>Validation\<close>

text \<open>The path of an error inside the payload: names only, without the action that leads it.\<close>

definition payload_path :: "pyv list \<Rightarrow> string option \<Rightarrow> string list option" where
  "payload_path path action =
     (if list_all (\<lambda>p. as_text p \<noteq> None) path
      then Some (let names = map (\<lambda>p. the (as_text p)) path in
                 if names \<noteq> [] \<and> action = Some (hd names) then tl names else names)
      else None)"

text \<open>Put the scalar at a path into a list of its own; nothing when there is none.\<close>

fun widen_at :: "pydict \<Rightarrow> string list \<Rightarrow> pydict option" where
  "widen_at current [] = None"
| "widen_at current [leaf] =
     (case dget current leaf of
        PNone \<Rightarrow> None
      | PList xs \<Rightarrow> None
      | existing \<Rightarrow> Some (dset leaf (PList [existing]) current))"
| "widen_at current (segment # rest) =
     (case dget current segment of
        PDict c \<Rightarrow> map_option (\<lambda>c'. dset segment (PDict c') current) (widen_at c rest)
      | _ \<Rightarrow> None)"

definition coerce_single_item_list_path :: "pydict \<Rightarrow> pyv list \<Rightarrow> string option \<Rightarrow> pydict \<times> bool" where
  "coerce_single_item_list_path payload path action =
     (case Option.bind (payload_path path action) (widen_at payload) of
        None \<Rightarrow> (payload, False)
      | Some payload' \<Rightarrow> (payload', True))"

definition coerce_errors :: "string option \<Rightarrow> pydict list \<Rightarrow> pydict \<Rightarrow> pydict \<times> bool" where
  "coerce_errors action errors candidate =
     foldl (\<lambda>(payload, changed) error.
         case coerce_single_item_list_path payload (error_location error) action of
           (payload', widened) \<Rightarrow> (payload', widened \<or> changed))
       (candidate, False) errors"

definition wants_lists :: "pydict list \<Rightarrow> bool" where
  "wants_lists errors = (errors \<noteq> [] \<and> list_all (\<lambda>e. dget e ''type'' = PStr ''list_type'') errors)"

text \<open>What can still be put into a list: the entries that are neither lists nor null, inside
  dictionaries only. Every retry uses one up, so the retries end whatever the validator answers.\<close>

fun slots :: "pyv \<Rightarrow> nat" where
  "slots (PDict d) = Suc (sum_list (map (\<lambda>p. slots (snd p)) d))"
| "slots (PList xs) = 0"
| "slots PNone = 0"
| "slots v = 1"

lemma sum_slots_update:
  "map_of d k = Some v \<Longrightarrow>
   sum_list (map (\<lambda>p. slots (snd p)) (AList.update k w d)) + slots v = sum_list (map (\<lambda>p. slots (snd p)) d) + slots w"
  by (induction d) (auto split: if_splits)

lemma slots_dset:
  "dget d k \<noteq> PNone \<Longrightarrow> slots w < slots (dget d k) \<Longrightarrow> slots (PDict (dset k w d)) < slots (PDict d)"
  using sum_slots_update [of d k _ w] by (fastforce simp: dget_def split: option.splits)

lemma widen_at_slots: "widen_at d path = Some d' \<Longrightarrow> slots (PDict d') < slots (PDict d)"
proof (induction d path arbitrary: d' rule: widen_at.induct)
  case (2 d leaf)
  then have "dget d leaf \<noteq> PNone" "d' = dset leaf (PList [dget d leaf]) d" "0 < slots (dget d leaf)"
    by (auto split: pyv.splits)
  then show ?case using slots_dset [of d leaf "PList [dget d leaf]"] by (simp del: slots.simps(1))
next
  case (3 d s n rest)
  then obtain c c' where c: "dget d s = PDict c" "widen_at c (n # rest) = Some c'" "d' = dset s (PDict c') d"
    by (auto split: pyv.splits)
  with 3 have "slots (PDict c') < slots (dget d s)" by (simp del: slots.simps(1))
  then show ?case using slots_dset [of d s "PDict c'"] c by (simp del: slots.simps(1))
qed simp

lemma coerce_path_slots:
  "coerce_single_item_list_path d path a = (d', ch) \<Longrightarrow>
   slots (PDict d') + (if ch then 1 else 0) \<le> slots (PDict d)"
  using widen_at_slots
  by (fastforce simp: coerce_single_item_list_path_def bind_eq_Some_conv simp del: slots.simps(1) split: option.splits)

lemma coerce_fold_slots:
  "foldl (\<lambda>(payload, changed) error.
         case coerce_single_item_list_path payload (error_location error) action of
           (payload', widened) \<Rightarrow> (payload', widened \<or> changed)) (d, ch) errors = (d', ch') \<Longrightarrow>
   slots (PDict d') + (if ch' \<and> \<not> ch then 1 else 0) \<le> slots (PDict d)"
proof (induction errors arbitrary: d ch)
  case (Cons e errors)
  obtain d1 w where s: "coerce_single_item_list_path d (error_location e) action = (d1, w)"
    by (metis surj_pair)
  with Cons.prems have "slots (PDict d') + (if ch' \<and> \<not> (w \<or> ch) then 1 else 0) \<le> slots (PDict d1)"
    using Cons.IH [of d1 "w \<or> ch"] by (simp del: slots.simps(1))
  then show ?case using coerce_path_slots [OF s] by (auto simp del: slots.simps(1) split: if_splits)
qed simp

lemma coerce_errors_slots:
  "coerce_errors a errors d = (d', True) \<Longrightarrow> slots (PDict d') < slots (PDict d)"
  unfolding coerce_errors_def by (drule coerce_fold_slots) (simp del: slots.simps(1))

function validate_model_payload_with_list_coercion :: "validator \<Rightarrow> pydict \<Rightarrow> pydict list + pydict" where
  "validate_model_payload_with_list_coercion validate_model_payload candidate =
     (case validate_model_payload candidate of
        Inr dumped \<Rightarrow> Inr dumped
      | Inl errors \<Rightarrow>
          if \<not> wants_lists errors then Inl errors
          else (case coerce_errors (as_text (dget candidate ''action'')) errors candidate of
              (candidate', changed) \<Rightarrow>
                if changed then validate_model_payload_with_list_coercion validate_model_payload candidate'
                else Inl errors))"
  by pat_completeness auto

termination
  by (relation "measure (\<lambda>(v, d). slots (PDict d))")
    (auto simp del: slots.simps(1) dest!: sym [of "(_, _)"] coerce_errors_slots)

declare validate_model_payload_with_list_coercion.simps [simp del]

definition format_validation_error :: "pydict list \<Rightarrow> string" where
  "format_validation_error errors =
     join ''; '' (map (\<lambda>e.
       let location = join ''.'' (map py_str (error_location e)); msg = py_str (dget e ''msg'') in
       if location \<noteq> [] then location @ '': '' @ msg else msg) errors)"

definition format_cli_flag :: "string \<Rightarrow> string" where
  "format_cli_flag name = ''--'' @ map (\<lambda>c. if c = CHR ''_'' then CHR ''-'' else c) name"

text \<open>The set of provided fields is a list without repetitions, in any order.\<close>

definition ensure_action_fields :: "string list \<Rightarrow> string \<Rightarrow> string list \<Rightarrow> client_error + unit" where
  "ensure_action_fields provided_fields action allowed_fields =
     (let unexpected = map format_cli_flag (filter (\<lambda>f. f \<notin> set allowed_fields) (sort provided_fields)) in
      if unexpected \<noteq> []
      then Inl (CliUsageError (join '', '' (sort unexpected) @ '' not valid with --action '' @ action))
      else Inr ())"

end
