(* ===== verification/Client_Inputs.thy ===== *)
theory Client_Inputs
  imports Client_Parsers
begin

text \<open>
  The command line client, part two: the typed inputs of the tools (\<open>client/inputs.py\<close>), the steps of
  batches and campaigns and the inputs that are more than a copy of the parsed flags
  (\<open>client/input_parsers.py\<close>), the checks of flags against actions (\<open>client/specs\<close>) and the payloads
  that are sent (\<open>client/builders\<close>). Values that argparse restricts to a list of choices are texts. A breakpoint
  number, a frame and a process can also come from the shorthands of the short commands, which leave
  them as text for the validator, so these three are values.
\<close>

section \<open>Steps\<close>

record SessionStepInput =
  sst_tool :: string
  sst_label :: "string option"
  sst_arguments :: pydict

text \<open>An event is the option it came from, its text (the tool, the label or the path) and, for an
  assignment, the value.\<close>

type_synonym step_event = "string \<times> string \<times> pyv"

definition workflow_step_option_map :: "(string \<times> string) list" where
  "workflow_step_option_map =
     [(''--setup-step'', ''--step''), (''--setup-step-label'', ''--step-label''),
      (''--setup-step-arg'', ''--step-arg'')]"

definition normalize_step_events :: "step_event list \<Rightarrow> step_event list" where
  "normalize_step_events events =
     map (\<lambda>(option, rest). (case map_of workflow_step_option_map option of None \<Rightarrow> option | Some o' \<Rightarrow> o', rest)) events"

definition normalize_step_tool_name :: "string \<Rightarrow> string" where
  "normalize_step_tool_name tool_name =
     (if startswith tool_name ''gdb_'' then tool_name
      else if ''gdb_'' @ tool_name \<in> set public_tool_names then ''gdb_'' @ tool_name else tool_name)"

definition step_contract_message :: "nat \<Rightarrow> string \<Rightarrow> WorkflowStepValidationIssue \<Rightarrow> string" where
  "step_contract_message index tool_name issue =
     (case issue of
        SessionIdNotAllowed \<Rightarrow> ''Workflow step '' @ show_nat index @ '' ('' @ tool_name
          @ '') must not include session_id; it is inherited from the enclosing command''
      | SessionQueryListNotAllowed \<Rightarrow> ''gdb_session_query(action=list) is not valid inside workflow steps''
      | SessionManageNotAllowed \<Rightarrow> ''gdb_session_manage is not valid inside workflow steps''
      | NestedWorkflowToolNotAllowed \<Rightarrow> tool_name @ '' is not valid inside workflow steps''
      | UnknownTool \<Rightarrow> ''Unsupported workflow step tool: '' @ tool_name)"

text \<open>The models of the step tools are the validators of the names in \<open>BATCH_STEP_TOOL_NAMES\<close>.\<close>

definition validate_workflow_step ::
  "(string \<Rightarrow> validator) \<Rightarrow> string \<Rightarrow> pydict \<Rightarrow> nat \<Rightarrow> client_error + pydict" where
  "validate_workflow_step models tool_name arguments index =
     (case validate_workflow_step_contract tool_name arguments of
        Some issue \<Rightarrow> Inl (CliUsageError (step_contract_message index tool_name issue))
      | None \<Rightarrow>
          if tool_name \<notin> set batch_step_tool_names
          then Inl (CliUsageError (''Unsupported workflow step tool: '' @ tool_name))
          else case validate_model_payload_with_list_coercion (models tool_name)
                      (dupdate [(''session_id'', PInt 1)] arguments) of
            Inl errors \<Rightarrow> Inl (CliUsageError (''Invalid workflow step '' @ show_nat index @ '' ('' @ tool_name @ ''): ''
              @ format_validation_error errors))
          | Inr validated \<Rightarrow> Inr (without [''session_id''] validated))"

text \<open>The loop over the events; the current step is the last one, whose arguments are assigned in
  place.\<close>

fun collect_steps :: "string \<Rightarrow> step_event list \<Rightarrow> SessionStepInput list \<Rightarrow> client_error + SessionStepInput list" where
  "collect_steps step_flag [] steps = Inr steps"
| "collect_steps step_flag ((option, t, v) # events) steps =
     (if option = ''--step''
      then collect_steps step_flag events
             (steps @ [\<lparr>sst_tool = normalize_step_tool_name t, sst_label = None, sst_arguments = []\<rparr>])
      else if steps = [] then Inl (CliUsageError (option @ '' requires a preceding '' @ step_flag))
      else if option = ''--step-label''
      then collect_steps step_flag events (butlast steps @ [(last steps)\<lparr>sst_label := Some t\<rparr>])
      else if option = ''--step-arg''
      then (case assign_dotted_value (sst_arguments (last steps)) t v of
              Inl e \<Rightarrow> Inl e
            | Inr args \<Rightarrow> collect_steps step_flag events (butlast steps @ [(last steps)\<lparr>sst_arguments := args\<rparr>]))
      else collect_steps step_flag events steps)"

fun validate_steps ::
  "(string \<Rightarrow> validator) \<Rightarrow> nat \<Rightarrow> SessionStepInput list \<Rightarrow> client_error + SessionStepInput list" where
  "validate_steps models index [] = Inr []"
| "validate_steps models index (step # steps) =
     (case validate_workflow_step models (sst_tool step) (sst_arguments step) index of
        Inl e \<Rightarrow> Inl e
      | Inr args \<Rightarrow>
          (case validate_steps models (Suc index) steps of
             Inl e \<Rightarrow> Inl e
           | Inr rest \<Rightarrow> Inr (step\<lparr>sst_arguments := args\<rparr> # rest)))"

definition parse_step_inputs ::
  "(string \<Rightarrow> validator) \<Rightarrow> step_event list option \<Rightarrow> bool \<Rightarrow> string \<Rightarrow>
     client_error + SessionStepInput list option" where
  "parse_step_inputs models step_events required step_flag =
     (let events = (case step_events of None \<Rightarrow> [] | Some es \<Rightarrow> normalize_step_events es) in
      if events = []
      then (if required then Inl (CliUsageError (''At least one '' @ step_flag @ '' is required'')) else Inr None)
      else case collect_steps step_flag events [] of
        Inl e \<Rightarrow> Inl e
      | Inr steps \<Rightarrow>
          (case validate_steps models 0 steps of Inl e \<Rightarrow> Inl e | Inr ss \<Rightarrow> Inr (Some ss)))"

definition build_step_payload :: "SessionStepInput \<Rightarrow> pyv" where
  "build_step_payload step =
     PDict ([(''tool'', PStr (sst_tool step)), (''arguments'', PDict (sst_arguments step))]
       @ present ''label'' PStr (sst_label step))"

section \<open>Flags\<close>

text \<open>The flags whose condition holds, and the error for flags that do not fit the action.\<close>

definition flags :: "(bool \<times> string) list \<Rightarrow> string list" where
  "flags fs = map snd (filter fst fs)"

definition raise_invalid_flags :: "string \<Rightarrow> string list \<Rightarrow> client_error + unit" where
  "raise_invalid_flags context invalid_flags =
     (if invalid_flags \<noteq> []
      then Inl (CliUsageError (join '', '' (sort invalid_flags) @ '' not valid with '' @ context)) else Inr ())"

definition raise_invalid_action_flags :: "string \<Rightarrow> string list \<Rightarrow> client_error + unit" where
  "raise_invalid_action_flags action invalid_flags =
     raise_invalid_flags (''--action '' @ action) invalid_flags"

definition usage_error :: "string \<Rightarrow> client_error + 'a" where
  "usage_error m = Inl (CliUsageError m)"

text \<open>The items of a list that is sent only when it is not empty.\<close>

definition present_list :: "string \<Rightarrow> ('a \<Rightarrow> pyv) \<Rightarrow> 'a list \<Rightarrow> pydict" where
  "present_list k f xs = (if xs = [] then [] else [(k, PList (map f xs))])"

definition present_dict :: "string \<Rightarrow> pydict \<Rightarrow> pydict" where
  "present_dict k d = (if d = [] then [] else [(k, PDict d)])"

section \<open>Execution\<close>

record ExecutionManageInput =
  emi_action :: string
  emi_session_id :: "int option"
  emi_args :: "string list"
  emi_wait_until :: "string option"
  emi_timeout_sec :: "int option"
  emi_stop_reasons :: "string list"
  emi_reverse :: bool

definition execution_invalid_flags :: "ExecutionManageInput \<Rightarrow> string list" where
  "execution_invalid_flags i =
     (let args = (emi_args i \<noteq> [], ''--arg''); wait = (emi_wait_until i \<noteq> None, ''--wait-until'');
          timeout = (emi_timeout_sec i \<noteq> None, ''--timeout-sec'');
          reasons = (emi_stop_reasons i \<noteq> [], ''--stop-reason''); rev = (emi_reverse i, ''--reverse'') in
      if emi_action i = ''interrupt'' then flags [args, wait, timeout, reasons, rev]
      else if emi_action i \<in> {''continue'', ''step'', ''next'', ''finish''} then flags [args, reasons]
      else if emi_action i = ''run'' then flags [rev, reasons]
      else if emi_action i = ''wait_for_stop'' then flags [args, wait, rev]
      else [])"

definition validate_execution_manage_input :: "ExecutionManageInput \<Rightarrow> client_error + unit" where
  "validate_execution_manage_input i = raise_invalid_action_flags (emi_action i) (execution_invalid_flags i)"

definition session_and_action :: "int option \<Rightarrow> string \<Rightarrow> pydict" where
  "session_and_action session_id action =
     [(''session_id'', opt_int session_id), (''action'', PStr action)]"

definition build_execution_manage_payload :: "ExecutionManageInput \<Rightarrow> pydict" where
  "build_execution_manage_payload i =
     session_and_action (emi_session_id i) (emi_action i)
     @ [(''execution'', PDict
          (if emi_action i = ''interrupt'' then []
           else if emi_action i = ''wait_for_stop''
           then [(''timeout_sec'', PInt (case emi_timeout_sec i of None \<Rightarrow> 30 | Some t \<Rightarrow> t))]
                  @ present_list ''stop_reasons'' PStr (emi_stop_reasons i)
           else (if emi_action i = ''run'' then present_list ''args'' PStr (emi_args i) else [])
                  @ present ''wait_until'' PStr (emi_wait_until i) @ present ''timeout_sec'' PInt (emi_timeout_sec i)
                  @ present_if ''reverse'' (emi_reverse i)))]"

text \<open>What \<open>_build_*\<close> does for every tool: check the flags, build the payload, validate it.\<close>

definition checked :: "client_error + unit \<Rightarrow> validator \<Rightarrow> pydict \<Rightarrow> client_error + pydict" where
  "checked flags_ok validate_model_payload payload =
     (case flags_ok of
        Inl e \<Rightarrow> Inl e
      | Inr u \<Rightarrow>
          (case validate_model_payload payload of Inl errors \<Rightarrow> Inl (ValidationError errors) | Inr d \<Rightarrow> Inr d))"

definition build_execution_manage :: "validator \<Rightarrow> ExecutionManageInput \<Rightarrow> client_error + pydict" where
  "build_execution_manage model i =
     checked (validate_execution_manage_input i) model (build_execution_manage_payload i)"

section \<open>Inferiors and contexts\<close>

record InferiorManageInput =
  imi_action :: string
  imi_session_id :: "int option"
  imi_executable :: "string option"
  imi_make_current :: "bool option"
  imi_inferior_id :: "int option"
  imi_mode :: "string option"
  imi_enabled :: "bool option"

definition inferior_invalid_flags :: "InferiorManageInput \<Rightarrow> string list" where
  "inferior_invalid_flags i =
     (let inferior = (imi_inferior_id i \<noteq> None, ''--inferior-id''); mode = (imi_mode i \<noteq> None, ''--mode'');
          enabled = (imi_enabled i \<noteq> None, ''--enabled''); executable = (imi_executable i \<noteq> None, ''--executable'');
          make = (imi_make_current i \<noteq> None, ''--make-current'') in
      if imi_action i = ''create'' then flags [inferior, mode, enabled]
      else if imi_action i \<in> {''remove'', ''select''} then flags [executable, make, mode, enabled]
      else if imi_action i = ''set_follow_fork_mode'' then flags [inferior, executable, make, enabled]
      else if imi_action i = ''set_detach_on_fork'' then flags [inferior, executable, make, mode]
      else [])"

definition validate_inferior_manage_input :: "InferiorManageInput \<Rightarrow> client_error + unit" where
  "validate_inferior_manage_input i =
     (if imi_action i \<in> {''remove'', ''select''} \<and> imi_inferior_id i = None
      then usage_error (''--inferior-id required with --action '' @ imi_action i)
      else if imi_action i = ''set_follow_fork_mode'' \<and> imi_mode i = None
      then usage_error ''--mode required with --action set_follow_fork_mode''
      else raise_invalid_action_flags (imi_action i) (inferior_invalid_flags i))"

definition build_inferior_query_payload :: "int option \<Rightarrow> string \<Rightarrow> pydict" where
  "build_inferior_query_payload session_id action = session_and_action session_id action"

definition build_inferior_manage_payload :: "InferiorManageInput \<Rightarrow> pydict" where
  "build_inferior_manage_payload i =
     session_and_action (imi_session_id i) (imi_action i)
     @ [(''inferior'', PDict
          (if imi_action i = ''create''
           then present ''executable'' PStr (imi_executable i) @ present ''make_current'' PBool (imi_make_current i)
           else if imi_action i \<in> {''remove'', ''select''} then present ''inferior_id'' PInt (imi_inferior_id i)
           else if imi_action i = ''set_follow_fork_mode'' then present ''mode'' PStr (imi_mode i)
           else if imi_action i = ''set_detach_on_fork''
           then [(''enabled'', PBool (case imi_enabled i of None \<Rightarrow> True | Some b \<Rightarrow> b))]
           else []))]"

definition build_inferior_manage :: "validator \<Rightarrow> InferiorManageInput \<Rightarrow> client_error + pydict" where
  "build_inferior_manage model i = checked (validate_inferior_manage_input i) model (build_inferior_manage_payload i)"

record ContextQueryInput =
  cqi_action :: string
  cqi_session_id :: "int option"
  cqi_thread_id :: "int option"
  cqi_frame :: "pyv option"
  cqi_max_frames :: "int option"

definition validate_context_query_input :: "ContextQueryInput \<Rightarrow> client_error + unit" where
  "validate_context_query_input i =
     (let thread = (cqi_thread_id i \<noteq> None, ''--thread-id''); frame = (cqi_frame i \<noteq> None, ''--frame'');
          frames = (cqi_max_frames i \<noteq> None, ''--max-frames'') in
      raise_invalid_action_flags (cqi_action i)
        (if cqi_action i = ''threads'' then flags [thread, frame, frames]
         else if cqi_action i = ''backtrace'' then flags [frame]
         else if cqi_action i = ''frame'' then flags [frames]
         else []))"

definition build_context_query_payload :: "ContextQueryInput \<Rightarrow> pydict" where
  "build_context_query_payload i =
     session_and_action (cqi_session_id i) (cqi_action i)
     @ present_dict ''query''
         (if cqi_action i = ''backtrace''
          then present ''thread_id'' PInt (cqi_thread_id i) @ present ''max_frames'' PInt (cqi_max_frames i)
          else if cqi_action i = ''frame''
          then present ''thread_id'' PInt (cqi_thread_id i) @ present ''frame'' id (cqi_frame i)
          else [])"

definition build_context_query :: "validator \<Rightarrow> ContextQueryInput \<Rightarrow> client_error + pydict" where
  "build_context_query model i = checked (validate_context_query_input i) model (build_context_query_payload i)"

record ContextManageInput =
  cmi_action :: string
  cmi_session_id :: "int option"
  cmi_thread_id :: "int option"
  cmi_frame :: "int option"

definition validate_context_manage_input :: "ContextManageInput \<Rightarrow> client_error + unit" where
  "validate_context_manage_input i =
     (if cmi_action i = ''select_thread'' \<and> cmi_thread_id i = None
      then usage_error ''--thread-id required with --action select_thread''
      else if cmi_action i = ''select_frame'' \<and> cmi_frame i = None
      then usage_error ''--frame required with --action select_frame''
      else raise_invalid_action_flags (cmi_action i)
        (if cmi_action i = ''select_thread'' then flags [(cmi_frame i \<noteq> None, ''--frame'')]
         else if cmi_action i = ''select_frame'' then flags [(cmi_thread_id i \<noteq> None, ''--thread-id'')]
         else []))"

definition build_context_manage_payload :: "ContextManageInput \<Rightarrow> pydict" where
  "build_context_manage_payload i =
     session_and_action (cmi_session_id i) (cmi_action i)
     @ (if cmi_action i = ''select_thread'' then [(''context'', PDict (present ''thread_id'' PInt (cmi_thread_id i)))]
        else if cmi_action i = ''select_frame'' then [(''context'', PDict (present ''frame'' PInt (cmi_frame i)))]
        else [])"

definition build_context_manage :: "validator \<Rightarrow> ContextManageInput \<Rightarrow> client_error + pydict" where
  "build_context_manage model i = checked (validate_context_manage_input i) model (build_context_manage_payload i)"

section \<open>Breakpoints\<close>

record BreakpointQueryInput =
  bqi_action :: string
  bqi_session_id :: "int option"
  bqi_number :: "int option"
  bqi_kinds :: "string list"
  bqi_enabled :: "bool option"

record BreakpointCreateInput =
  bci_kind :: string
  bci_location :: "string option"
  bci_expression :: "string option"
  bci_access :: "string option"
  bci_event :: "string option"
  bci_argument :: "string option"
  bci_condition :: "string option"
  bci_temporary :: bool
  bci_kind_explicit :: bool
  bci_temporary_explicit :: bool

record BreakpointManageInput =
  bmi_action :: string
  bmi_session_id :: "int option"
  bmi_breakpoint :: "BreakpointCreateInput option"
  bmi_number :: "pyv option"
  bmi_condition :: "string option"
  bmi_clear_condition :: "bool option"

text \<open>The flags of the breakpoint tool as they were parsed.\<close>

record breakpoint_namespace =
  bns_action :: string
  bns_session_id :: "int option"
  bns_breakpoint_kind :: "string option"
  bns_location :: "string option"
  bns_expression :: "string option"
  bns_access :: "string option"
  bns_event :: "string option"
  bns_argument :: "string option"
  bns_temporary :: "bool option"
  bns_number :: "pyv option"
  bns_condition :: "string option"
  bns_clear_condition :: "bool option"

definition parse_breakpoint_manage_input :: "breakpoint_namespace \<Rightarrow> BreakpointManageInput" where
  "parse_breakpoint_manage_input ns =
     (let temporary_explicit = (bns_temporary ns \<noteq> None);
          has_breakpoint_fields = (bns_breakpoint_kind ns \<noteq> None \<or> bns_location ns \<noteq> None
            \<or> bns_expression ns \<noteq> None \<or> bns_access ns \<noteq> None \<or> bns_event ns \<noteq> None
            \<or> bns_argument ns \<noteq> None \<or> temporary_explicit)
      in \<lparr>bmi_action = bns_action ns, bmi_session_id = bns_session_id ns,
          bmi_breakpoint =
            (if bns_action ns = ''create'' \<or> has_breakpoint_fields
             then Some \<lparr>bci_kind = str_or (bns_breakpoint_kind ns) ''code'', bci_location = bns_location ns,
               bci_expression = bns_expression ns, bci_access = bns_access ns, bci_event = bns_event ns,
               bci_argument = bns_argument ns, bci_condition = bns_condition ns,
               bci_temporary = (bns_temporary ns = Some True),
               bci_kind_explicit = (bns_breakpoint_kind ns \<noteq> None), bci_temporary_explicit = temporary_explicit\<rparr>
             else None),
          bmi_number = bns_number ns, bmi_condition = bns_condition ns,
          bmi_clear_condition = bns_clear_condition ns\<rparr>)"

definition validate_breakpoint_query_input :: "BreakpointQueryInput \<Rightarrow> client_error + unit" where
  "validate_breakpoint_query_input i =
     (if bqi_action i = ''get'' \<and> bqi_number i = None then usage_error ''--number required with --action get''
      else raise_invalid_action_flags (bqi_action i)
        (if bqi_action i = ''list'' then flags [(bqi_number i \<noteq> None, ''--number'')]
         else if bqi_action i = ''get''
         then flags [(bqi_kinds i \<noteq> [], ''--kind''), (bqi_enabled i \<noteq> None, ''--enabled'')]
         else []))"

definition validate_breakpoint_create_input :: "BreakpointCreateInput \<Rightarrow> client_error + unit" where
  "validate_breakpoint_create_input b =
     (let location = (bci_location b \<noteq> None, ''--location''); expression = (bci_expression b \<noteq> None, ''--expression'');
          access = (bci_access b \<noteq> None, ''--access''); event = (bci_event b \<noteq> None, ''--event'');
          argument = (bci_argument b \<noteq> None, ''--argument''); condition = (bci_condition b \<noteq> None, ''--condition'');
          temporary = (bci_temporary_explicit b, ''--temporary'') in
      if bci_kind b = ''code'' then
        (if bci_location b = None then usage_error ''--location required with --breakpoint-kind code''
         else raise_invalid_flags ''--breakpoint-kind code'' (flags [expression, access, event, argument]))
      else if bci_kind b = ''watch'' then
        (if bci_expression b = None then usage_error ''--expression required with --breakpoint-kind watch''
         else raise_invalid_flags ''--breakpoint-kind watch''
                (flags [location, condition, temporary, event, argument]))
      else if bci_event b = None then usage_error ''--event required with --breakpoint-kind catch''
      else raise_invalid_flags ''--breakpoint-kind catch'' (flags [location, condition, expression, access]))"

definition breakpoint_fields_flags :: "BreakpointCreateInput option \<Rightarrow> string list" where
  "breakpoint_fields_flags breakpoint =
     (case breakpoint of
        None \<Rightarrow> []
      | Some b \<Rightarrow> flags [(bci_kind_explicit b, ''--breakpoint-kind''), (bci_location b \<noteq> None, ''--location''),
          (bci_expression b \<noteq> None, ''--expression''), (bci_access b \<noteq> None, ''--access''),
          (bci_event b \<noteq> None, ''--event''), (bci_argument b \<noteq> None, ''--argument''),
          (bci_temporary_explicit b, ''--temporary'')])"

definition validate_breakpoint_manage_input :: "BreakpointManageInput \<Rightarrow> client_error + unit" where
  "validate_breakpoint_manage_input i =
     (if bmi_action i = ''create'' then
        (case raise_invalid_action_flags (bmi_action i)
                (flags [(bmi_number i \<noteq> None, ''--number''), (bmi_clear_condition i \<noteq> None, ''--clear-condition'')]) of
           Inl e \<Rightarrow> Inl e
         | Inr u \<Rightarrow>
             (case bmi_breakpoint i of
                None \<Rightarrow> usage_error ''--breakpoint-kind required with --action create''
              | Some b \<Rightarrow>
                  if \<not> bci_kind_explicit b then usage_error ''--breakpoint-kind required with --action create''
                  else validate_breakpoint_create_input b))
      else
        (case raise_invalid_action_flags (bmi_action i)
                (breakpoint_fields_flags (bmi_breakpoint i)
                 @ (if bmi_action i \<in> {''delete'', ''enable'', ''disable''}
                    then flags [(bmi_condition i \<noteq> None, ''--condition''),
                           (bmi_clear_condition i \<noteq> None, ''--clear-condition'')]
                    else [])) of
           Inl e \<Rightarrow> Inl e
         | Inr u \<Rightarrow>
             if bmi_action i = ''update'' \<and> bmi_number i = None
             then usage_error ''--number required with --action update''
             else if bmi_action i = ''update'' \<and> bmi_condition i = None \<and> bmi_clear_condition i \<noteq> Some True
             then usage_error ''--condition or --clear-condition required with --action update''
             else if bmi_action i \<in> {''delete'', ''enable'', ''disable''} \<and> bmi_number i = None
             then usage_error (''--number required with --action '' @ bmi_action i)
             else Inr ()))"

definition build_breakpoint_create_payload :: "BreakpointCreateInput \<Rightarrow> pydict" where
  "build_breakpoint_create_payload b =
     (''kind'', PStr (bci_kind b))
     # (if bci_kind b = ''code''
        then present ''location'' PStr (bci_location b) @ present ''condition'' PStr (bci_condition b)
               @ present_if ''temporary'' (bci_temporary b)
        else if bci_kind b = ''watch''
        then present ''expression'' PStr (bci_expression b) @ present ''access'' PStr (bci_access b)
        else present ''event'' PStr (bci_event b) @ present ''argument'' PStr (bci_argument b)
               @ present_if ''temporary'' (bci_temporary b))"

definition build_breakpoint_query_payload :: "BreakpointQueryInput \<Rightarrow> pydict" where
  "build_breakpoint_query_payload i =
     session_and_action (bqi_session_id i) (bqi_action i)
     @ present_dict ''query''
         (if bqi_action i = ''list''
          then present_list ''kinds'' PStr (bqi_kinds i) @ present ''enabled'' PBool (bqi_enabled i)
          else present ''number'' PInt (bqi_number i))"

definition build_breakpoint_manage_payload :: "BreakpointManageInput \<Rightarrow> pydict" where
  "build_breakpoint_manage_payload i =
     session_and_action (bmi_session_id i) (bmi_action i)
     @ (if bmi_action i = ''create''
        then present ''breakpoint'' (\<lambda>b. PDict (build_breakpoint_create_payload b)) (bmi_breakpoint i)
        else present ''breakpoint'' (\<lambda>n. PDict [(''number'', n)]) (bmi_number i)
          @ (if bmi_action i = ''update''
             then [(''changes'', PDict (present ''condition'' PStr (bmi_condition i)
                     @ present ''clear_condition'' PBool (bmi_clear_condition i)))]
             else []))"

text \<open>The validated query loses an empty list of kinds.\<close>

definition build_breakpoint_query :: "validator \<Rightarrow> BreakpointQueryInput \<Rightarrow> client_error + pydict" where
  "build_breakpoint_query model i =
     (case checked (validate_breakpoint_query_input i) model (build_breakpoint_query_payload i) of
        Inl e \<Rightarrow> Inl e
      | Inr validated \<Rightarrow>
          Inr (case dget validated ''query'' of
                 PDict query \<Rightarrow>
                   if dget query ''kinds'' = PList [] then dset ''query'' (PDict (without [''kinds''] query)) validated
                   else validated
               | _ \<Rightarrow> validated))"

definition build_breakpoint_manage :: "validator \<Rightarrow> BreakpointManageInput \<Rightarrow> client_error + pydict" where
  "build_breakpoint_manage model i =
     checked (validate_breakpoint_manage_input i) model (build_breakpoint_manage_payload i)"

section \<open>Inspection\<close>

record LocationInput =
  lin_kind :: string
  lin_function :: "string option"
  lin_address :: "string option"
  lin_start_address :: "string option"
  lin_end_address :: "string option"
  lin_file :: "string option"
  lin_line :: "int option"
  lin_start_line :: "int option"
  lin_end_line :: "int option"

record InspectQueryInput =
  iqi_action :: string
  iqi_session_id :: "int option"
  iqi_thread_id :: "int option"
  iqi_frame :: "int option"
  iqi_expression :: "string option"
  iqi_register_numbers :: "int list"
  iqi_register_names :: "string list"
  iqi_include_vector_registers :: "bool option"
  iqi_max_registers :: "int option"
  iqi_value_format :: "string option"
  iqi_memory_address :: "string option"
  iqi_count :: "int option"
  iqi_offset :: "int option"
  iqi_location :: "LocationInput option"
  iqi_instruction_count :: "int option"
  iqi_mode :: "string option"
  iqi_context_before :: "int option"
  iqi_context_after :: "int option"
  iqi_location_fields :: "string list"

text \<open>The flags of the inspection tool as they were parsed.\<close>

record inspect_namespace =
  ins_action :: string
  ins_session_id :: "int option"
  ins_thread_id :: "int option"
  ins_frame :: "int option"
  ins_expression :: "string option"
  ins_register_numbers :: "int list option"
  ins_register_names :: "string list option"
  ins_include_vector_registers :: "bool option"
  ins_max_registers :: "int option"
  ins_value_format :: "string option"
  ins_count :: "int option"
  ins_offset :: "int option"
  ins_location_kind :: "string option"
  ins_function :: "string option"
  ins_address :: "string option"
  ins_start_address :: "string option"
  ins_end_address :: "string option"
  ins_file :: "string option"
  ins_line :: "int option"
  ins_start_line :: "int option"
  ins_end_line :: "int option"
  ins_instruction_count :: "int option"
  ins_mode :: "string option"
  ins_context_before :: "int option"
  ins_context_after :: "int option"

definition parse_location_input :: "inspect_namespace \<Rightarrow> LocationInput option" where
  "parse_location_input ns =
     (case ins_location_kind ns of
        None \<Rightarrow> None
      | Some kind \<Rightarrow> Some
          \<lparr>lin_kind = map (\<lambda>c. if c = CHR ''-'' then CHR ''_'' else c) kind, lin_function = ins_function ns,
           lin_address = ins_address ns, lin_start_address = ins_start_address ns,
           lin_end_address = ins_end_address ns, lin_file = ins_file ns, lin_line = ins_line ns,
           lin_start_line = ins_start_line ns, lin_end_line = ins_end_line ns\<rparr>)"

definition current_location :: LocationInput where
  "current_location =
     \<lparr>lin_kind = ''current'', lin_function = None, lin_address = None, lin_start_address = None,
      lin_end_address = None, lin_file = None, lin_line = None, lin_start_line = None, lin_end_line = None\<rparr>"

definition location_fields :: "inspect_namespace \<Rightarrow> string list" where
  "location_fields ns =
     flags [(ins_location_kind ns \<noteq> None, ''location_kind''), (ins_function ns \<noteq> None, ''function''),
       (ins_address ns \<noteq> None \<and> ins_action ns \<noteq> ''memory'', ''address''),
       (ins_start_address ns \<noteq> None, ''start_address''), (ins_end_address ns \<noteq> None, ''end_address''),
       (ins_file ns \<noteq> None, ''file''), (ins_line ns \<noteq> None, ''line''),
       (ins_start_line ns \<noteq> None, ''start_line''), (ins_end_line ns \<noteq> None, ''end_line'')]"

definition opt_list :: "'a list option \<Rightarrow> 'a list" where
  "opt_list v = (case v of None \<Rightarrow> [] | Some xs \<Rightarrow> xs)"

definition parse_inspect_query_input :: "inspect_namespace \<Rightarrow> InspectQueryInput" where
  "parse_inspect_query_input ns =
     (let fs = location_fields ns; location = parse_location_input ns in
      \<lparr>iqi_action = ins_action ns, iqi_session_id = ins_session_id ns, iqi_thread_id = ins_thread_id ns,
       iqi_frame = ins_frame ns, iqi_expression = ins_expression ns,
       iqi_register_numbers = opt_list (ins_register_numbers ns),
       iqi_register_names = opt_list (ins_register_names ns),
       iqi_include_vector_registers = ins_include_vector_registers ns,
       iqi_max_registers = ins_max_registers ns, iqi_value_format = ins_value_format ns,
       iqi_memory_address = (if ins_action ns = ''memory'' then ins_address ns else None),
       iqi_count = ins_count ns, iqi_offset = ins_offset ns,
       iqi_location = (if location = None \<and> ins_action ns \<in> {''source'', ''disassembly''} \<and> fs = []
                       then Some current_location else location),
       iqi_instruction_count = ins_instruction_count ns, iqi_mode = ins_mode ns,
       iqi_context_before = ins_context_before ns, iqi_context_after = ins_context_after ns,
       iqi_location_fields = fs\<rparr>)"

text \<open>The flags a kind of location needs, with whether they were given; the others are invalid with it.
  The flag of the last kind is \<open>file-range\<close>.\<close>

definition location_flags :: "LocationInput \<Rightarrow> (string \<times> bool) list" where
  "location_flags l =
     [(''--function'', lin_function l \<noteq> None), (''--address'', lin_address l \<noteq> None),
      (''--start-address'', lin_start_address l \<noteq> None), (''--end-address'', lin_end_address l \<noteq> None),
      (''--file'', lin_file l \<noteq> None), (''--line'', lin_line l \<noteq> None),
      (''--start-line'', lin_start_line l \<noteq> None), (''--end-line'', lin_end_line l \<noteq> None)]"

definition location_needs :: "string \<Rightarrow> string \<times> string list" where
  "location_needs kind =
     (if kind = ''current'' then (''current'', [])
      else if kind = ''function'' then (''function'', [''--function''])
      else if kind = ''address'' then (''address'', [''--address''])
      else if kind = ''address_range'' then (''address-range'', [''--start-address'', ''--end-address''])
      else if kind = ''file_line'' then (''file-line'', [''--file'', ''--line''])
      else (''file-range'', [''--file'', ''--start-line'', ''--end-line'']))"

definition validate_location_input :: "LocationInput option \<Rightarrow> string \<Rightarrow> client_error + unit" where
  "validate_location_input location ctx =
     (case location of
        None \<Rightarrow> usage_error (''--location-kind required with '' @ ctx)
      | Some l \<Rightarrow>
          (case location_needs (lin_kind l) of (kind, needed) \<Rightarrow>
             (case List.find (\<lambda>f. map_of (location_flags l) f = Some False) needed of
                Some f \<Rightarrow> usage_error (f @ '' required with --location-kind '' @ kind)
              | None \<Rightarrow> raise_invalid_flags (''--location-kind '' @ kind)
                  (map fst (filter (\<lambda>p. snd p \<and> fst p \<notin> set needed) (location_flags l))))))"

definition expression_flags :: "InspectQueryInput \<Rightarrow> (bool \<times> string) list" where
  "expression_flags i = [(iqi_expression i \<noteq> None, ''--expression'')]"

definition register_flags :: "InspectQueryInput \<Rightarrow> (bool \<times> string) list" where
  "register_flags i =
     [(iqi_register_numbers i \<noteq> [], ''--register-number''), (iqi_register_names i \<noteq> [], ''--register-name''),
      (iqi_include_vector_registers i \<noteq> None, ''--include-vector-registers''),
      (iqi_max_registers i \<noteq> None, ''--max-registers''), (iqi_value_format i \<noteq> None, ''--value-format'')]"

definition memory_flags :: "InspectQueryInput \<Rightarrow> (bool \<times> string) list" where
  "memory_flags i =
     [(iqi_memory_address i \<noteq> None, ''--address''), (iqi_count i \<noteq> None, ''--count''),
      (iqi_offset i \<noteq> None, ''--offset'')]"

definition disassembly_flags :: "InspectQueryInput \<Rightarrow> (bool \<times> string) list" where
  "disassembly_flags i =
     [(iqi_instruction_count i \<noteq> None, ''--instruction-count''), (iqi_mode i \<noteq> None, ''--mode'')]"

definition source_flags :: "InspectQueryInput \<Rightarrow> (bool \<times> string) list" where
  "source_flags i =
     [(iqi_context_before i \<noteq> None, ''--context-before''), (iqi_context_after i \<noteq> None, ''--context-after'')]"

definition inspect_invalid_flags :: "InspectQueryInput \<Rightarrow> string list" where
  "inspect_invalid_flags i =
     (let locations = map format_cli_flag (iqi_location_fields i);
          code = disassembly_flags i @ source_flags i in
      if iqi_action i = ''evaluate''
      then flags (register_flags i @ memory_flags i) @ locations @ flags code
      else if iqi_action i = ''variables''
      then flags (expression_flags i @ register_flags i @ memory_flags i) @ locations @ flags code
      else if iqi_action i = ''registers''
      then flags (expression_flags i @ memory_flags i) @ locations @ flags code
      else if iqi_action i = ''memory''
      then flags ((iqi_thread_id i \<noteq> None, ''--thread-id'') # (iqi_frame i \<noteq> None, ''--frame'')
             # expression_flags i @ register_flags i) @ locations @ flags code
      else if iqi_action i = ''disassembly''
      then flags (expression_flags i @ register_flags i @ memory_flags i @ source_flags i)
      else if iqi_action i = ''source''
      then flags (expression_flags i @ register_flags i @ memory_flags i @ disassembly_flags i)
      else [])"

definition validate_inspect_query_input :: "InspectQueryInput \<Rightarrow> client_error + unit" where
  "validate_inspect_query_input i =
     (if iqi_action i = ''evaluate'' \<and> iqi_expression i = None
      then usage_error ''--expression required with --action evaluate''
      else if iqi_action i = ''memory'' \<and> iqi_memory_address i = None
      then usage_error ''--address required with --action memory''
      else if iqi_action i = ''memory'' \<and> iqi_count i = None
      then usage_error ''--count required with --action memory''
      else case raise_invalid_action_flags (iqi_action i) (inspect_invalid_flags i) of
        Inl e \<Rightarrow> Inl e
      | Inr u \<Rightarrow>
          if iqi_action i \<in> {''disassembly'', ''source''}
          then validate_location_input (iqi_location i) (''--action '' @ iqi_action i)
          else Inr ())"

definition build_location_payload :: "LocationInput \<Rightarrow> pydict" where
  "build_location_payload l =
     (if lin_kind l = ''current'' then [(''kind'', PStr ''current'')]
      else if lin_kind l = ''function''
      then [(''kind'', PStr ''function''), (''function'', opt_str (lin_function l))]
      else if lin_kind l = ''address'' then [(''kind'', PStr ''address''), (''address'', opt_str (lin_address l))]
      else if lin_kind l = ''address_range''
      then [(''kind'', PStr ''address_range''), (''start_address'', opt_str (lin_start_address l)),
            (''end_address'', opt_str (lin_end_address l))]
      else if lin_kind l = ''file_line''
      then [(''kind'', PStr ''file_line''), (''file'', opt_str (lin_file l)), (''line'', opt_int (lin_line l))]
      else [(''kind'', PStr ''file_range''), (''file'', opt_str (lin_file l)),
            (''start_line'', opt_int (lin_start_line l)), (''end_line'', opt_int (lin_end_line l))])"

definition build_context_payload :: "InspectQueryInput \<Rightarrow> pydict" where
  "build_context_payload i =
     present_dict ''context'' (present ''thread_id'' PInt (iqi_thread_id i) @ present ''frame'' PInt (iqi_frame i))"

definition location_entry :: "InspectQueryInput \<Rightarrow> pydict" where
  "location_entry i = present ''location'' (\<lambda>l. PDict (build_location_payload l)) (iqi_location i)"

definition build_inspect_query_payload :: "InspectQueryInput \<Rightarrow> pydict" where
  "build_inspect_query_payload i =
     session_and_action (iqi_session_id i) (iqi_action i)
     @ present_dict ''query''
         (if iqi_action i = ''evaluate''
          then build_context_payload i @ present ''expression'' PStr (iqi_expression i)
          else if iqi_action i = ''variables'' then build_context_payload i
          else if iqi_action i = ''registers''
          then build_context_payload i @ present_list ''register_numbers'' PInt (iqi_register_numbers i)
                 @ present_list ''register_names'' PStr (iqi_register_names i)
                 @ present ''include_vector_registers'' PBool (iqi_include_vector_registers i)
                 @ present ''max_registers'' PInt (iqi_max_registers i)
                 @ present ''value_format'' PStr (iqi_value_format i)
          else if iqi_action i = ''memory''
          then present ''address'' PStr (iqi_memory_address i) @ present ''count'' PInt (iqi_count i)
                 @ present ''offset'' PInt (iqi_offset i)
          else if iqi_action i = ''disassembly''
          then build_context_payload i @ location_entry i
                 @ present ''instruction_count'' PInt (iqi_instruction_count i) @ present ''mode'' PStr (iqi_mode i)
          else if iqi_action i = ''source''
          then build_context_payload i @ location_entry i
                 @ present ''context_before'' PInt (iqi_context_before i)
                 @ present ''context_after'' PInt (iqi_context_after i)
          else [])"

definition build_inspect_query :: "validator \<Rightarrow> InspectQueryInput \<Rightarrow> client_error + pydict" where
  "build_inspect_query model i = checked (validate_inspect_query_input i) model (build_inspect_query_payload i)"

section \<open>Sessions and workflows\<close>

record SessionStartInput =
  ssi_program :: "string option"
  ssi_args :: "string list"
  ssi_init_commands :: "string list"
  ssi_env :: "(string \<times> string) list option"
  ssi_core :: "string option"
  ssi_gdb_path :: "string option"
  ssi_gdb_args :: "string list"
  ssi_working_dir :: "string option"
  ssi_rr_replay :: "string option"

definition text_dict :: "(string \<times> string) list \<Rightarrow> pyv" where
  "text_dict d = PDict (map (\<lambda>p. (fst p, PStr (snd p))) d)"

definition build_session_start_payload :: "SessionStartInput \<Rightarrow> pydict" where
  "build_session_start_payload i =
     present ''program'' PStr (ssi_program i) @ present_list ''args'' PStr (ssi_args i)
     @ present_list ''init_commands'' PStr (ssi_init_commands i)
     @ (case ssi_env i of Some (p # d) \<Rightarrow> [(''env'', text_dict (p # d))] | _ \<Rightarrow> [])
     @ present ''core'' PStr (ssi_core i) @ present ''gdb_path'' PStr (ssi_gdb_path i)
     @ present_list ''gdb_args'' PStr (ssi_gdb_args i) @ present ''working_dir'' PStr (ssi_working_dir i)
     @ present ''rr_replay'' PStr (ssi_rr_replay i)"

definition build_session_start :: "validator \<Rightarrow> SessionStartInput \<Rightarrow> client_error + pydict" where
  "build_session_start model i = checked (Inr ()) model (build_session_start_payload i)"

definition build_session_query_payload :: "string \<Rightarrow> int option \<Rightarrow> pydict" where
  "build_session_query_payload action session_id =
     (''action'', PStr action) # present ''session_id'' PInt session_id"

definition build_session_query :: "validator \<Rightarrow> string \<Rightarrow> int option \<Rightarrow> client_error + pydict" where
  "build_session_query model action session_id =
     checked (if action = ''list'' \<and> session_id \<noteq> None
              then usage_error ''--session-id not valid with --action list'' else Inr ())
       model (build_session_query_payload action session_id)"

definition build_session_manage :: "validator \<Rightarrow> int option \<Rightarrow> string \<Rightarrow> client_error + pydict" where
  "build_session_manage model session_id action =
     checked (Inr ()) model
       [(''session_id'', opt_int session_id), (''action'', PStr action), (''session'', PDict [])]"

definition build_session_connect :: "validator \<Rightarrow> string option \<Rightarrow> string list \<Rightarrow> client_error + pydict" where
  "build_session_connect model endpoint init_commands =
     checked (Inr ()) model
       [(''endpoint'', opt_str endpoint),
        (''init_commands'', if init_commands = [] then PNone else PList (map PStr init_commands))]"

text \<open>Running a command, attaching and calling a function differ in one field.\<close>

definition build_timed_tool ::
  "validator \<Rightarrow> int option \<Rightarrow> string \<Rightarrow> pyv \<Rightarrow> int \<Rightarrow> client_error + pydict" where
  "build_timed_tool model session_id field v timeout_sec =
     checked (Inr ()) model
       [(''session_id'', opt_int session_id), (field, v), (''timeout_sec'', PInt timeout_sec)]"

definition build_execute_command :: "validator \<Rightarrow> int option \<Rightarrow> string option \<Rightarrow> int \<Rightarrow> client_error + pydict" where
  "build_execute_command model session_id command timeout_sec =
     build_timed_tool model session_id ''command'' (opt_str command) timeout_sec"

definition build_attach_process :: "validator \<Rightarrow> int option \<Rightarrow> pyv \<Rightarrow> int \<Rightarrow> client_error + pydict" where
  "build_attach_process model session_id pid timeout_sec =
     build_timed_tool model session_id ''pid'' pid timeout_sec"

definition build_call_function :: "validator \<Rightarrow> int option \<Rightarrow> string option \<Rightarrow> int \<Rightarrow> client_error + pydict" where
  "build_call_function model session_id function_call timeout_sec =
     build_timed_tool model session_id ''function_call'' (opt_str function_call) timeout_sec"

record WorkflowBatchInput =
  wbi_session_id :: "int option"
  wbi_steps :: "SessionStepInput list"
  wbi_fail_fast :: "bool option"
  wbi_capture_stop_events :: "bool option"

definition parse_workflow_batch_input ::
  "(string \<Rightarrow> validator) \<Rightarrow> int option \<Rightarrow> step_event list \<Rightarrow> bool option \<Rightarrow> bool option \<Rightarrow>
     client_error + WorkflowBatchInput" where
  "parse_workflow_batch_input models session_id step_events fail_fast capture_stop_events =
     (case parse_step_inputs models (Some step_events) True ''--step'' of
        Inl e \<Rightarrow> Inl e
      | Inr None \<Rightarrow> usage_error ''At least one --step is required''
      | Inr (Some steps) \<Rightarrow> Inr \<lparr>wbi_session_id = session_id, wbi_steps = steps, wbi_fail_fast = fail_fast,
          wbi_capture_stop_events = capture_stop_events\<rparr>)"

definition build_workflow_batch_payload :: "WorkflowBatchInput \<Rightarrow> pydict" where
  "build_workflow_batch_payload i =
     [(''session_id'', opt_int (wbi_session_id i)), (''steps'', PList (map build_step_payload (wbi_steps i)))]
     @ present ''fail_fast'' PBool (wbi_fail_fast i)
     @ present ''capture_stop_events'' PBool (wbi_capture_stop_events i)"

definition build_workflow_batch :: "validator \<Rightarrow> WorkflowBatchInput \<Rightarrow> client_error + pydict" where
  "build_workflow_batch model i = checked (Inr ()) model (build_workflow_batch_payload i)"

record capture_flags =
  cpf_enabled :: "bool option"
  cpf_output_dir :: "string option"
  cpf_bundle_name_prefix :: "string option"
  cpf_bundle_name :: "string option"
  cpf_expressions :: "string list"
  cpf_memory_ranges :: "string list"
  cpf_max_frames :: "int option"
  cpf_include_threads :: "bool option"
  cpf_include_backtraces :: "bool option"
  cpf_include_frame :: "bool option"
  cpf_include_variables :: "bool option"
  cpf_include_registers :: "bool option"
  cpf_include_transcript :: "bool option"
  cpf_include_stop_history :: "bool option"

record failure_flags =
  flf_on_error :: "bool option"
  flf_on_timeout :: "bool option"
  flf_stop_reasons :: "string list option"
  flf_execution_states :: "string list option"
  flf_exit_codes :: "int list option"
  flf_result_text_regex :: "string option"

record RunUntilFailureInput =
  rufi_startup_program :: "string option"
  rufi_startup_args :: "string list"
  rufi_startup_init_commands :: "string list"
  rufi_startup_env :: "(string \<times> string) list option"
  rufi_startup_gdb_path :: "string option"
  rufi_startup_working_dir :: "string option"
  rufi_startup_core :: "string option"
  rufi_setup_steps :: "SessionStepInput list option"
  rufi_run_args :: "string list"
  rufi_run_timeout_sec :: "int option"
  rufi_max_iterations :: "int option"
  rufi_failure :: failure_flags
  rufi_capture :: capture_flags

definition startup_payload :: "RunUntilFailureInput \<Rightarrow> pydict" where
  "startup_payload i =
     present ''program'' PStr (rufi_startup_program i) @ present_list ''args'' PStr (rufi_startup_args i)
     @ present_list ''init_commands'' PStr (rufi_startup_init_commands i)
     @ present ''env'' text_dict (rufi_startup_env i) @ present ''gdb_path'' PStr (rufi_startup_gdb_path i)
     @ present ''working_dir'' PStr (rufi_startup_working_dir i) @ present ''core'' PStr (rufi_startup_core i)"

definition texts :: "string list \<Rightarrow> pyv" where
  "texts xs = PList (map PStr xs)"

definition failure_payload :: "failure_flags \<Rightarrow> pydict" where
  "failure_payload f =
     present ''failure_on_error'' PBool (flf_on_error f) @ present ''failure_on_timeout'' PBool (flf_on_timeout f)
     @ present ''stop_reasons'' texts (flf_stop_reasons f)
     @ present ''execution_states'' texts (flf_execution_states f)
     @ present ''exit_codes'' (\<lambda>xs. PList (map PInt xs)) (flf_exit_codes f)
     @ present ''result_text_regex'' PStr (flf_result_text_regex f)"

definition capture_payload :: "capture_flags \<Rightarrow> pydict" where
  "capture_payload c =
     present ''enabled'' PBool (cpf_enabled c) @ present ''output_dir'' PStr (cpf_output_dir c)
     @ present ''bundle_name_prefix'' PStr (cpf_bundle_name_prefix c)
     @ present ''bundle_name'' PStr (cpf_bundle_name c)
     @ present_list ''expressions'' PStr (cpf_expressions c)
     @ present_list ''memory_ranges'' PStr (cpf_memory_ranges c)
     @ present ''max_frames'' PInt (cpf_max_frames c)
     @ present ''include_threads'' PBool (cpf_include_threads c)
     @ present ''include_backtraces'' PBool (cpf_include_backtraces c)
     @ present ''include_frame'' PBool (cpf_include_frame c)
     @ present ''include_variables'' PBool (cpf_include_variables c)
     @ present ''include_registers'' PBool (cpf_include_registers c)
     @ present ''include_transcript'' PBool (cpf_include_transcript c)
     @ present ''include_stop_history'' PBool (cpf_include_stop_history c)"

definition build_run_until_failure_payload :: "RunUntilFailureInput \<Rightarrow> pydict" where
  "build_run_until_failure_payload i =
     present_dict ''startup'' (startup_payload i)
     @ present ''setup_steps'' (\<lambda>ss. PList (map build_step_payload ss)) (rufi_setup_steps i)
     @ present_list ''run_args'' PStr (rufi_run_args i) @ present ''run_timeout_sec'' PInt (rufi_run_timeout_sec i)
     @ present ''max_iterations'' PInt (rufi_max_iterations i)
     @ present_dict ''failure'' (failure_payload (rufi_failure i))
     @ present_dict ''capture'' (capture_payload (rufi_capture i))"

definition build_run_until_failure :: "validator \<Rightarrow> RunUntilFailureInput \<Rightarrow> client_error + pydict" where
  "build_run_until_failure model i = checked (Inr ()) model (build_run_until_failure_payload i)"

text \<open>The capture tool sends every flag, its defaults included.\<close>

definition build_capture_bundle :: "validator \<Rightarrow> int option \<Rightarrow> capture_flags \<Rightarrow> client_error + pydict" where
  "build_capture_bundle model session_id c =
     checked (Inr ()) model
       [(''session_id'', opt_int session_id), (''output_dir'', opt_str (cpf_output_dir c)),
        (''bundle_name'', opt_str (cpf_bundle_name c)), (''expressions'', texts (cpf_expressions c)),
        (''memory_ranges'', texts (cpf_memory_ranges c)), (''max_frames'', opt_int (cpf_max_frames c)),
        (''include_threads'', opt_pyv PBool (cpf_include_threads c)),
        (''include_backtraces'', opt_pyv PBool (cpf_include_backtraces c)),
        (''include_frame'', opt_pyv PBool (cpf_include_frame c)),
        (''include_variables'', opt_pyv PBool (cpf_include_variables c)),
        (''include_registers'', opt_pyv PBool (cpf_include_registers c)),
        (''include_transcript'', opt_pyv PBool (cpf_include_transcript c)),
        (''include_stop_history'', opt_pyv PBool (cpf_include_stop_history c))]"

text \<open>The rest of the campaign's input is copied from the flags.\<close>

definition parse_run_until_failure_input ::
  "(string \<Rightarrow> validator) \<Rightarrow> RunUntilFailureInput \<Rightarrow> (string \<times> string) list \<Rightarrow> step_event list \<Rightarrow>
     client_error + RunUntilFailureInput" where
  "parse_run_until_failure_input models copied startup_env setup_step_events =
     (case parse_step_inputs models (Some setup_step_events) False ''--setup-step'' of
        Inl e \<Rightarrow> Inl e
      | Inr steps \<Rightarrow> Inr (copied\<lparr>rufi_startup_env := collapse_key_value_entries startup_env,
          rufi_setup_steps := steps\<rparr>))"

end
