(* ===== verification/Client_Correct.thy ===== *)
theory Client_Correct
  imports Client_Inputs "HOL-Library.Sublist"
begin

text \<open>
  Properties of the client's flags and payloads: retries of the validation end, assignments and steps
  come out as they were given, and no accepted flag is lost on its way into a payload.
\<close>

section \<open>Validation with list coercion\<close>

text \<open>A payload in which some scalars were put into lists of their own.\<close>

inductive widened :: "pydict \<Rightarrow> pydict \<Rightarrow> bool" for d where
  refl [intro]: "widened d d"
| step [intro]: "widened d d' \<Longrightarrow> widen_at d' path = Some d'' \<Longrightarrow> widened d d''"

lemma widened_trans: "widened d' d'' \<Longrightarrow> widened d d' \<Longrightarrow> widened d d''"
  by (induction rule: widened.induct) auto

lemma coerce_path_widened:
  "coerce_single_item_list_path d path a = (d', ch) \<Longrightarrow> widened d d'"
  by (auto simp: coerce_single_item_list_path_def bind_eq_Some_conv split: option.splits)

lemma coerce_fold_widened:
  "foldl (\<lambda>(payload, changed) error.
         case coerce_single_item_list_path payload (error_location error) action of
           (payload', w) \<Rightarrow> (payload', w \<or> changed)) (d, ch) errors = (d', ch') \<Longrightarrow> widened d d'"
proof (induction errors arbitrary: d ch)
  case (Cons e errors)
  obtain d1 w where s: "coerce_single_item_list_path d (error_location e) action = (d1, w)" by (metis surj_pair)
  with Cons.prems have "widened d1 d'" using Cons.IH [of d1 "w \<or> ch"] by simp
  then show ?case using coerce_path_widened [OF s] by (rule widened_trans)
qed auto

lemma coercion_answer:
  "\<exists>c. widened d c \<and> validate_model_payload_with_list_coercion validate d = validate c"
proof (induction validate d rule: validate_model_payload_with_list_coercion.induct)
  case (1 validate d)
  show ?case
  proof (cases "validate d")
    case (Inl errors)
    obtain d' ch where s: "coerce_errors (as_text (dget d ''action'')) errors d = (d', ch)" by (metis surj_pair)
    then have w: "widened d d'" unfolding coerce_errors_def by (rule coerce_fold_widened)
    show ?thesis
    proof (cases "wants_lists errors \<and> ch")
      case True
      with 1 Inl s obtain c where "widened d' c"
        "validate_model_payload_with_list_coercion validate d' = validate c" by metis
      moreover have "validate_model_payload_with_list_coercion validate d
          = validate_model_payload_with_list_coercion validate d'"
        using True Inl s by (subst validate_model_payload_with_list_coercion.simps) simp
      ultimately show ?thesis using widened_trans [OF _ w] by metis
    next
      case False
      then show ?thesis using Inl s
        by (subst validate_model_payload_with_list_coercion.simps) auto
    qed
  qed (subst validate_model_payload_with_list_coercion.simps, auto)
qed

text \<open>
  Validation of a step's payload comes back, whatever the validator answers: its retries are a
  total function, because every retry puts a scalar into a list and there are only so many. What
  comes back is the validator's own answer for a payload that differs from the given one only by
  scalars that were put into lists of their own, and for the given payload itself when the validator
  accepts it or complains of anything but missing lists.
\<close>

theorem list_coercion_answers:
  "\<exists>c. widened d c \<and> validate_model_payload_with_list_coercion validate d = validate c
     \<and> ((\<exists>errors. validate d = Inl errors \<and> wants_lists errors) \<or> c = d)"
proof (cases "\<exists>errors. validate d = Inl errors \<and> wants_lists errors")
  case True
  then show ?thesis using coercion_answer [of d validate] by blast
next
  case False
  then have "validate_model_payload_with_list_coercion validate d = validate d"
    by (subst validate_model_payload_with_list_coercion.simps) (auto split: sum.splits)
  then show ?thesis by blast
qed

section \<open>Assignments and steps\<close>

text \<open>The value at a path of names.\<close>

fun lookup_path :: "pydict \<Rightarrow> string list \<Rightarrow> pyv" where
  "lookup_path d [] = PDict d"
| "lookup_path d [k] = dget d k"
| "lookup_path d (k # ks) = (case dget d k of PDict c \<Rightarrow> lookup_path c ks | _ \<Rightarrow> PNone)"

text \<open>What a path holds after one more assignment.\<close>

definition accumulated :: "pyv \<Rightarrow> pyv \<Rightarrow> pyv" where
  "accumulated old v = (case old of PNone \<Rightarrow> v | PList xs \<Rightarrow> PList (xs @ [v]) | e \<Rightarrow> PList [e, v])"

lemma lookup_empty: "ks \<noteq> [] \<Longrightarrow> lookup_path [] ks = PNone"
  by (cases ks; cases "tl ks") auto

lemma assign_lookup:
  "assign_parts path d ks v = Inr d' \<Longrightarrow> ks \<noteq> [] \<Longrightarrow> lookup_path d' ks = accumulated (lookup_path d ks) v"
proof (induction path d ks v arbitrary: d' rule: assign_parts.induct)
  case (2 path d k v)
  then show ?case by (auto simp: assign_leaf_def accumulated_def split: pyv.splits)
next
  case (3 path d k k2 ks v)
  then show ?case
    by (cases "dget d k") (auto simp: accumulated_def lookup_empty split: sum.splits)
qed simp

lemma assign_elsewhere:
  "assign_parts path d ks v = Inr d' \<Longrightarrow> ks \<noteq> [] \<Longrightarrow> \<not> prefix js ks \<Longrightarrow> \<not> prefix ks js \<Longrightarrow>
   lookup_path d' js = lookup_path d js"
proof (induction path d ks v arbitrary: d' js rule: assign_parts.induct)
  case (2 path d k v)
  then obtain j js' where js: "js = j # js'" "j \<noteq> k" by (cases js) auto
  with 2 have "dget d' j = dget d j" by (auto simp: assign_leaf_def split: pyv.splits)
  with js show ?case by (cases js') auto
next
  case (3 path d k k2 ks v)
  then obtain j js' where js: "js = j # js'" by (cases js) auto
  obtain child where child: "d' = dset k (PDict child) d"
    and rec: "dget d k = PNone \<and> assign_parts path [] (k2 # ks) v = Inr child
       \<or> (\<exists>c. dget d k = PDict c \<and> assign_parts path c (k2 # ks) v = Inr child)"
    using 3 by (auto split: pyv.splits sum.splits)
  show ?case
  proof (cases "j = k")
    case False
    then have "dget d' j = dget d j" using child by simp
    with js show ?thesis by (cases js') auto
  next
    case True
    then obtain j2 js2 where js2: "js' = j2 # js2" using js "3.prems" by (cases js') auto
    have np: "\<not> prefix js' (k2 # ks)" "\<not> prefix (k2 # ks) js'" using True js "3.prems" by auto
    from rec show ?thesis
    proof (elim disjE conjE exE)
      assume "dget d k = PNone" "assign_parts path [] (k2 # ks) v = Inr child"
      with "3.IH"(1) [of child js'] np show ?thesis
        using child js js2 True by (simp add: lookup_empty)
    next
      fix c
      assume "dget d k = PDict c" "assign_parts path c (k2 # ks) v = Inr child"
      with "3.IH"(2) [of c child js'] np show ?thesis
        using child js js2 True by simp
    qed
  qed
qed simp

text \<open>
  An assignment of the form \<open>a.b.c=value\<close> that is accepted is what its path holds afterwards;
  repeating a path collects the values in a list, in the order they were given; and what any other
  path holds, one that does not lead through the assigned one or to it, is as before.
\<close>

theorem dotted_assignment_exact:
  assumes "assign_dotted_value target path v = Inr target'" "ks = split_char (CHR ''.'') path"
  shows "lookup_path target' ks = accumulated (lookup_path target ks) v
    \<and> (\<forall>js. \<not> prefix js ks \<and> \<not> prefix ks js \<longrightarrow> lookup_path target' js = lookup_path target js)"
proof -
  have ne: "split_char c s \<noteq> []" for c s by (cases s) (auto split: list.splits)
  show ?thesis
    using assign_lookup assign_elsewhere assms ne unfolding assign_dotted_value_def by blast
qed

theorem dotted_assignment_exact_witness:
  "\<exists>d. assign_dotted_value [(''a'', PDict [(''b'', PStr ''x'')]), (''c'', PInt 1)] ''a.b'' (PStr ''y'') = Inr d
     \<and> lookup_path d [''a'', ''b''] = PList [PStr ''x'', PStr ''y''] \<and> lookup_path d [''c''] = PInt 1"
proof -
  let ?t = "[(''a'', PDict [(''b'', PStr ''x'')]), (''c'', PInt 1)]"
  let ?d = "[(''a'', PDict [(''b'', PList [PStr ''x'', PStr ''y''])]), (''c'', PInt 1)]"
  have a: "assign_dotted_value ?t ''a.b'' (PStr ''y'') = Inr ?d" by code_simp
  have k: "[''a'', ''b''] = split_char (CHR ''.'') ''a.b''" by code_simp
  have e: "accumulated (lookup_path ?t [''a'', ''b'']) (PStr ''y'') = PList [PStr ''x'', PStr ''y'']"
    "lookup_path ?t [''c''] = PInt 1" "\<not> prefix [''c''] [''a'', ''b'']" "\<not> prefix [''a'', ''b''] [''c'']"
    by code_simp+
  from dotted_assignment_exact [OF a k] a e show ?thesis by metis
qed

text \<open>A step as it is asked for: its tool, its label if it has one, and its assignments; and the events
  of the command line for it.\<close>

type_synonym asked_step = "string \<times> string option \<times> (string \<times> pyv) list"

definition step_events :: "asked_step \<Rightarrow> step_event list" where
  "step_events s = (case s of (tool, label, args) \<Rightarrow>
     (''--step'', tool, PNone) # (case label of None \<Rightarrow> [] | Some l \<Rightarrow> [(''--step-label'', l, PNone)])
       @ map (Pair ''--step-arg'') args)"

fun assign_all :: "pydict \<Rightarrow> (string \<times> pyv) list \<Rightarrow> client_error + pydict" where
  "assign_all d [] = Inr d"
| "assign_all d ((path, v) # rest) =
     (case assign_dotted_value d path v of Inl e \<Rightarrow> Inl e | Inr d' \<Rightarrow> assign_all d' rest)"

fun asked_steps :: "asked_step list \<Rightarrow> client_error + SessionStepInput list" where
  "asked_steps [] = Inr []"
| "asked_steps ((tool, label, args) # rest) =
     (case assign_all [] args of
        Inl e \<Rightarrow> Inl e
      | Inr d \<Rightarrow> (case asked_steps rest of
           Inl e \<Rightarrow> Inl e
         | Inr ss \<Rightarrow> Inr (\<lparr>sst_tool = normalize_step_tool_name tool, sst_label = label, sst_arguments = d\<rparr> # ss)))"

lemma option_names:
  "''--step-arg'' \<noteq> ''--step''" "''--step-label'' \<noteq> ''--step''" "''--step-arg'' \<noteq> ''--step-label''"
  by code_simp+

lemma collect_args:
  "collect_steps flag (map (Pair ''--step-arg'') args @ events) (acc @ [st])
   = (case assign_all (sst_arguments st) args of
        Inl e \<Rightarrow> Inl e | Inr d \<Rightarrow> collect_steps flag events (acc @ [st\<lparr>sst_arguments := d\<rparr>]))"
proof (induction args arbitrary: st)
  case (Cons a args)
  then show ?case by (cases a) (simp add: option_names split: sum.splits)
qed simp

lemma collect_label:
  "collect_steps flag ((case label of None \<Rightarrow> [] | Some l \<Rightarrow> [(''--step-label'', l, PNone)]) @ events)
     (acc @ [\<lparr>sst_tool = t, sst_label = None, sst_arguments = []\<rparr>])
   = collect_steps flag events (acc @ [\<lparr>sst_tool = t, sst_label = label, sst_arguments = []\<rparr>])"
  by (cases label) (simp_all add: option_names)

lemma collect_one:
  "collect_steps flag (step_events (tool, label, args) @ events) acc
   = (case assign_all [] args of
        Inl e \<Rightarrow> Inl e
      | Inr d \<Rightarrow> collect_steps flag events
          (acc @ [\<lparr>sst_tool = normalize_step_tool_name tool, sst_label = label, sst_arguments = d\<rparr>]))"
  by (simp add: step_events_def collect_label collect_args split: sum.splits)

lemma collect_steps_acc:
  "collect_steps flag (concat (map step_events ss)) acc
   = (case asked_steps ss of Inl e \<Rightarrow> Inl e | Inr rs \<Rightarrow> Inr (acc @ rs))"
proof (induction ss arbitrary: acc)
  case (Cons s ss)
  obtain tool label args where s: "s = (tool, label, args)" by (cases s)
  show ?case by (simp add: s collect_one Cons.IH split: sum.splits)
qed simp

text \<open>
  Steps on the command line. The events of a list of steps, each with its label and its
  assignments behind it, are collected into exactly these steps, in order: an assignment or label
  never reaches another step than the one it follows, and the first assignment that conflicts is the
  error.
\<close>

theorem collected_steps_exact:
  "collect_steps step_flag (concat (map step_events ss)) [] = asked_steps ss"
  by (simp add: collect_steps_acc split: sum.splits)

lemma validated_step:
  assumes "validate_workflow_step models tool args index = Inr d"
  shows "validate_workflow_step_contract tool args = None \<and> \<not> dhas d ''session_id''
    \<and> (\<exists>c e. widened (dupdate [(''session_id'', PInt 1)] args) c \<and> models tool c = Inr e
         \<and> d = without [''session_id''] e)"
proof -
  have none: "validate_workflow_step_contract tool args = None"
    using assms unfolding validate_workflow_step_def by (auto split: option.splits)
  with assms obtain e where e: "validate_model_payload_with_list_coercion (models tool)
      (dupdate [(''session_id'', PInt 1)] args) = Inr e" "d = without [''session_id''] e"
    unfolding validate_workflow_step_def by (auto split: if_splits sum.splits)
  obtain c where c: "widened (dupdate [(''session_id'', PInt 1)] args) c" "models tool c = Inr e"
    using coercion_answer [of "dupdate [(''session_id'', PInt 1)] args" "models tool"] e by auto
  have "\<not> dhas d ''session_id''" using e(2) by (auto simp: dhas_def without_def map_of_eq_None_iff)
  with none c e(2) show ?thesis by blast
qed

text \<open>
  What the client sends as a step passes the contract of the server: the step is checked against
  the same rules, its arguments are those the tool's model gave back for a session id that is taken
  out again, and so they name no session. Every step of an accepted command line is of this kind.
\<close>

theorem accepted_steps_checked:
  assumes "validate_steps models index steps = Inr steps'"
  shows "list_all2 (\<lambda>s s'. sst_tool s' = sst_tool s \<and> sst_label s' = sst_label s
      \<and> sst_tool s \<in> set batch_step_tool_names \<and> \<not> dhas (sst_arguments s') ''session_id''
      \<and> validate_workflow_step_contract (sst_tool s) (sst_arguments s) = None
      \<and> (\<exists>c e. widened (dupdate [(''session_id'', PInt 1)] (sst_arguments s)) c
           \<and> models (sst_tool s) c = Inr e \<and> sst_arguments s' = without [''session_id''] e)) steps steps'"
  using assms
proof (induction steps arbitrary: index steps')
  case (Cons s steps)
  then obtain d rest where d: "validate_workflow_step models (sst_tool s) (sst_arguments s) index = Inr d"
    and rest: "validate_steps models (Suc index) steps = Inr rest" "steps' = s\<lparr>sst_arguments := d\<rparr> # rest"
    by (auto split: sum.splits)
  moreover have "sst_tool s \<in> set batch_step_tool_names"
    using d unfolding validate_workflow_step_def by (auto split: option.splits if_splits)
  ultimately show ?case using validated_step [OF d] Cons.IH [OF rest(1)] by simp
qed simp

theorem accepted_steps_checked_witness:
  "\<exists>s'. validate_steps (\<lambda>tool. Inr) 0
      [\<lparr>sst_tool = ''gdb_execute_command'', sst_label = None, sst_arguments = [(''command'', PStr ''bt'')]\<rparr>] = Inr [s']
    \<and> \<not> dhas (sst_arguments s') ''session_id''"
proof -
  let ?s = "\<lparr>sst_tool = ''gdb_execute_command'', sst_label = None, sst_arguments = [(''command'', PStr ''bt'')]\<rparr>"
  have "validate_steps (\<lambda>tool. Inr) 0 [?s] = Inr [?s]" by code_simp
  from accepted_steps_checked [OF this] this show ?thesis by auto
qed

section \<open>Flags and payloads\<close>

text \<open>A flag that was given is what an entry of the payload holds.\<close>

definition sent :: "pydict \<Rightarrow> string \<Rightarrow> ('a \<Rightarrow> pyv) \<Rightarrow> 'a option \<Rightarrow> bool" where
  "sent d k f v \<longleftrightarrow> (case v of None \<Rightarrow> True | Some x \<Rightarrow> dget d k = f x)"

lemma sent_simps [simp]: "sent d k f None" "sent d k f (Some x) \<longleftrightarrow> dget d k = f x"
  by (simp_all add: sent_def)

definition sub_dict :: "pydict \<Rightarrow> string \<Rightarrow> pydict" where
  "sub_dict d k = (case dget d k of PDict c \<Rightarrow> c | _ \<Rightarrow> [])"

lemma flags_empty: "flags fs = [] \<longleftrightarrow> list_all (\<lambda>f. \<not> fst f) fs"
  by (auto simp: flags_def list_all_iff filter_empty_conv)

lemma invalid_flags_ok: "raise_invalid_flags ctx fs = Inr u \<longleftrightarrow> fs = []"
  by (simp add: raise_invalid_flags_def)

definition location_kinds :: "string list" where
  "location_kinds = [''current'', ''function'', ''address'', ''address_range'', ''file_line'', ''file_range'']"

text \<open>Every flag of a location is in its payload, and no entry of the payload is missing.\<close>

definition location_sent :: "LocationInput \<Rightarrow> bool" where
  "location_sent l \<longleftrightarrow>
     (let p = build_location_payload l in
      dget p ''kind'' = PStr (lin_kind l) \<and> sent p ''function'' PStr (lin_function l)
      \<and> sent p ''address'' PStr (lin_address l) \<and> sent p ''start_address'' PStr (lin_start_address l)
      \<and> sent p ''end_address'' PStr (lin_end_address l) \<and> sent p ''file'' PStr (lin_file l)
      \<and> sent p ''line'' PInt (lin_line l) \<and> sent p ''start_line'' PInt (lin_start_line l)
      \<and> sent p ''end_line'' PInt (lin_end_line l) \<and> list_all (\<lambda>e. snd e \<noteq> PNone) p)"

lemma location_flag_names:
  "distinct [''--function'', ''--address'', ''--start-address'', ''--end-address'', ''--file'', ''--line'',
     ''--start-line'', ''--end-line'']"
  by code_simp

lemma find_missing:
  "List.find (\<lambda>f. map_of (location_flags l) f = Some False) needed = None \<longleftrightarrow>
     list_all (\<lambda>f. map_of (location_flags l) f \<noteq> Some False) needed"
  by (simp add: find_None_iff list_all_iff Ball_def)

text \<open>What the check of a location guarantees, kind by kind.\<close>

lemma location_conditions:
  assumes "validate_location_input (Some l) ctx = Inr u" "location_needs (lin_kind l) = (kind, needed)"
  shows "list_all (\<lambda>p. snd p \<longleftrightarrow> fst p \<in> set needed) (location_flags l)"
proof -
  have d: "distinct (map fst (location_flags l))"
    using location_flag_names by (simp only: location_flags_def list.map fst_conv)
  have "list_all (\<lambda>f. map_of (location_flags l) f \<noteq> Some False) needed"
    and "filter (\<lambda>p. snd p \<and> fst p \<notin> set needed) (location_flags l) = []"
    using assms unfolding validate_location_input_def
    by (simp_all add: usage_error_def find_missing [symmetric] invalid_flags_ok split: option.splits)
  moreover have "map_of (location_flags l) (fst p) = Some (snd p)" if "p \<in> set (location_flags l)" for p
    using that d by (simp add: map_of_is_SomeI)
  ultimately show ?thesis by (fastforce simp: list_all_iff filter_empty_conv)
qed

lemma validated_location:
  assumes ok: "validate_location_input (Some l) ctx = Inr u" and kind: "lin_kind l \<in> set location_kinds"
  shows "location_sent l"
proof -
  consider "lin_kind l = ''current''" | "lin_kind l = ''function''" | "lin_kind l = ''address''"
    | "lin_kind l = ''address_range''" | "lin_kind l = ''file_line''" | "lin_kind l = ''file_range''"
    using kind by (auto simp only: location_kinds_def list.set insert_iff empty_iff)
  then show ?thesis
  proof cases
    case 1
    then have "location_needs (lin_kind l) = (''current'', [])" by (simp add: location_needs_def)
    from location_conditions [OF ok this] 1 show ?thesis
      by (simp add: location_flags_def location_sent_def build_location_payload_def)
  next
    case 2
    then have "location_needs (lin_kind l) = (''function'', [''--function''])" by (simp add: location_needs_def)
    from location_conditions [OF ok this] 2 show ?thesis
      by (auto simp add: location_flags_def location_sent_def build_location_payload_def opt_str_def)
  next
    case 3
    then have "location_needs (lin_kind l) = (''address'', [''--address''])" by (simp add: location_needs_def)
    from location_conditions [OF ok this] 3 show ?thesis
      by (auto simp add: location_flags_def location_sent_def build_location_payload_def opt_str_def)
  next
    case 4
    then have "location_needs (lin_kind l) = (''address-range'', [''--start-address'', ''--end-address''])"
      by (simp add: location_needs_def)
    from location_conditions [OF ok this] 4 show ?thesis
      by (auto simp add: location_flags_def location_sent_def build_location_payload_def opt_str_def)
  next
    case 5
    then have "location_needs (lin_kind l) = (''file-line'', [''--file'', ''--line''])"
      by (simp add: location_needs_def)
    from location_conditions [OF ok this] 5 show ?thesis
      by (auto simp add: location_flags_def location_sent_def build_location_payload_def opt_str_def opt_int_def)
  next
    case 6
    then have "location_needs (lin_kind l) = (''file-range'', [''--file'', ''--start-line'', ''--end-line''])"
      by (simp add: location_needs_def)
    from location_conditions [OF ok this] 6 show ?thesis
      by (auto simp add: location_flags_def location_sent_def build_location_payload_def opt_str_def opt_int_def)
  qed
qed

text \<open>What the pieces of a payload hold.\<close>

lemma dget_append: "dget (d @ e) k = (if dhas d k then dget d k else dget e k)"
  by (auto simp: dget_def dhas_def map_add_def split: option.splits)

lemma present_get:
  "dhas (present k f v) k' \<longleftrightarrow> k = k' \<and> v \<noteq> None" "dget (present k f v) k' = (if k = k' then case v of None \<Rightarrow> PNone | Some x \<Rightarrow> f x else PNone)"
  "dhas (present_list k f xs) k' \<longleftrightarrow> k = k' \<and> xs \<noteq> []" "dget (present_list k f xs) k' = (if k = k' \<and> xs \<noteq> [] then PList (map f xs) else PNone)"
  "dhas (present_dict k d) k' \<longleftrightarrow> k = k' \<and> d \<noteq> []" "dget (present_dict k d) k' = (if k = k' \<and> d \<noteq> [] then PDict d else PNone)"
  by (auto simp: present_def present_list_def present_dict_def split: option.splits)

lemma sent_present:
  "sent (present k f v @ r) k f v" "sent (present k f v) k f v"
  "k' \<noteq> k \<Longrightarrow> sent (present k' g w @ r) k f v = sent r k f v"
  "k' \<noteq> k \<Longrightarrow> sent (present_list k' h xs @ r) k f v = sent r k f v"
  "k' \<noteq> k \<Longrightarrow> sent (present_dict k' d @ r) k f v = sent r k f v"
  by (auto simp: sent_def dget_append present_get split: option.splits)

lemma sub_dict_present:
  "sub_dict (present_dict k d @ r) k = (if d = [] then sub_dict r k else d)"
  "sub_dict (present k (\<lambda>l. PDict (h l)) v @ r) k = (case v of None \<Rightarrow> sub_dict r k | Some l \<Rightarrow> h l)"
  "k' \<noteq> k \<Longrightarrow> sub_dict (present_dict k' d @ r) k = sub_dict r k"
  "k' \<noteq> k \<Longrightarrow> sub_dict (present k' g w @ r) k = sub_dict r k"
  "k' \<noteq> k \<Longrightarrow> sub_dict (present_list k' p xs @ r) k = sub_dict r k"
  "sub_dict [] k = []"
  by (auto simp: sub_dict_def dget_append present_get split: option.splits)

lemma query_of_payload:
  "sub_dict (session_and_action s a @ present_dict ''query'' q) ''query'' = q"
  by (simp add: sub_dict_def session_and_action_def dget_append present_get)

text \<open>The flags of an inspection and where their values end up: the context and the location are
  dictionaries inside the query, and the address is the location's except when memory is read.\<close>

definition inspect_flags_in :: "inspect_namespace \<Rightarrow> pydict \<Rightarrow> bool" where
  "inspect_flags_in ns q \<longleftrightarrow>
     (let c = sub_dict q ''context''; l = sub_dict q ''location'' in
      sent c ''thread_id'' PInt (ins_thread_id ns) \<and> sent c ''frame'' PInt (ins_frame ns)
      \<and> sent q ''expression'' PStr (ins_expression ns)
      \<and> (opt_list (ins_register_numbers ns) \<noteq> [] \<longrightarrow>
           dget q ''register_numbers'' = PList (map PInt (opt_list (ins_register_numbers ns))))
      \<and> (opt_list (ins_register_names ns) \<noteq> [] \<longrightarrow>
           dget q ''register_names'' = PList (map PStr (opt_list (ins_register_names ns))))
      \<and> sent q ''include_vector_registers'' PBool (ins_include_vector_registers ns)
      \<and> sent q ''max_registers'' PInt (ins_max_registers ns)
      \<and> sent q ''value_format'' PStr (ins_value_format ns)
      \<and> sent q ''count'' PInt (ins_count ns) \<and> sent q ''offset'' PInt (ins_offset ns)
      \<and> sent (if ins_action ns = ''memory'' then q else l) ''address'' PStr (ins_address ns)
      \<and> sent l ''kind'' (\<lambda>k. PStr (map (\<lambda>c. if c = CHR ''-'' then CHR ''_'' else c) k)) (ins_location_kind ns)
      \<and> sent l ''function'' PStr (ins_function ns) \<and> sent l ''start_address'' PStr (ins_start_address ns)
      \<and> sent l ''end_address'' PStr (ins_end_address ns) \<and> sent l ''file'' PStr (ins_file ns)
      \<and> sent l ''line'' PInt (ins_line ns) \<and> sent l ''start_line'' PInt (ins_start_line ns)
      \<and> sent l ''end_line'' PInt (ins_end_line ns)
      \<and> sent q ''instruction_count'' PInt (ins_instruction_count ns) \<and> sent q ''mode'' PStr (ins_mode ns)
      \<and> sent q ''context_before'' PInt (ins_context_before ns)
      \<and> sent q ''context_after'' PInt (ins_context_after ns))"

lemma no_location_fields:
  "location_fields ns = [] \<longleftrightarrow> ins_location_kind ns = None \<and> ins_function ns = None
     \<and> (ins_address ns = None \<or> ins_action ns = ''memory'') \<and> ins_start_address ns = None
     \<and> ins_end_address ns = None \<and> ins_file ns = None \<and> ins_line ns = None \<and> ins_start_line ns = None
     \<and> ins_end_line ns = None"
  by (simp add: location_fields_def flags_empty)

lemma flags_append: "flags (fs @ gs) = flags fs @ flags gs"
  by (simp add: flags_def)

lemma cli_kinds:
  "k \<in> {''current'', ''function'', ''address'', ''address-range'', ''file-line'', ''file-range''} \<Longrightarrow>
   map (\<lambda>c. if c = CHR ''-'' then CHR ''_'' else c) k \<in> set location_kinds"
  by (elim insertE emptyE; hypsubst; code_simp)

lemma validated_inspect:
  assumes "validate_inspect_query_input i = Inr u"
  shows "inspect_invalid_flags i = []"
    and "iqi_action i \<in> {''disassembly'', ''source''} \<Longrightarrow>
      validate_location_input (iqi_location i) (''--action '' @ iqi_action i) = Inr ()"
  using assms unfolding validate_inspect_query_input_def usage_error_def raise_invalid_action_flags_def
  by (auto simp: invalid_flags_ok split: if_splits sum.splits)

lemmas inspect_parts = inspect_invalid_flags_def expression_flags_def register_flags_def memory_flags_def
  disassembly_flags_def source_flags_def flags_append flags_empty no_location_fields

lemmas inspect_query_parts = build_inspect_query_payload_def query_of_payload build_context_payload_def
  location_entry_def inspect_flags_in_def sent_present sub_dict_present

definition query_of :: "inspect_namespace \<Rightarrow> pydict" where
  "query_of ns = sub_dict (build_inspect_query_payload (parse_inspect_query_input ns)) ''query''"

lemma sent_context:
  "sent (sub_dict (build_context_payload i @ r) ''context'') ''thread_id'' PInt (iqi_thread_id i)"
  "sent (sub_dict (build_context_payload i @ r) ''context'') ''frame'' PInt (iqi_frame i)"
  by (auto simp: build_context_payload_def sent_def sub_dict_def dget_append present_get split: option.splits)
   (auto simp: present_def)

lemma flags_of_data_query:
  assumes "validate_inspect_query_input (parse_inspect_query_input ns) = Inr u"
    and "ins_action ns \<in> {''evaluate'', ''variables'', ''registers'', ''memory''}"
  shows "inspect_flags_in ns (query_of ns)"
proof -
  let ?i = "parse_inspect_query_input ns"
  note ok = validated_inspect(1) [OF assms(1)]
  from assms(2) show ?thesis
  proof (elim insertE emptyE)
    assume a: "ins_action ns = ''evaluate''"
    then have q: "query_of ns = build_context_payload ?i @ present ''expression'' PStr (ins_expression ns)"
      by (simp add: query_of_def build_inspect_query_payload_def query_of_payload parse_inspect_query_input_def Let_def)
    from ok a show ?thesis
      using sent_context [of ?i "present ''expression'' PStr (ins_expression ns)"]
      by (simp add: q inspect_parts inspect_flags_in_def parse_inspect_query_input_def Let_def)
        (simp add: build_context_payload_def sent_present)
  next
    assume a: "ins_action ns = ''variables''"
    then have q: "query_of ns = build_context_payload ?i"
      by (simp add: query_of_def build_inspect_query_payload_def query_of_payload parse_inspect_query_input_def Let_def)
    from ok a show ?thesis
      using sent_context [of ?i "[]"]
      by (simp add: q inspect_parts inspect_flags_in_def parse_inspect_query_input_def Let_def)
  next
    assume a: "ins_action ns = ''registers''"
    let ?r = "present_list ''register_numbers'' PInt (opt_list (ins_register_numbers ns))
                 @ present_list ''register_names'' PStr (opt_list (ins_register_names ns))
                 @ present ''include_vector_registers'' PBool (ins_include_vector_registers ns)
                 @ present ''max_registers'' PInt (ins_max_registers ns)
                 @ present ''value_format'' PStr (ins_value_format ns)"
    from a have q: "query_of ns = build_context_payload ?i @ ?r"
      by (simp add: query_of_def build_inspect_query_payload_def query_of_payload parse_inspect_query_input_def Let_def)
    from ok a show ?thesis
      using sent_context [of ?i ?r]
      by (simp add: q inspect_parts inspect_flags_in_def parse_inspect_query_input_def Let_def)
        (simp add: build_context_payload_def sent_present dget_append present_get)
  next
    assume a: "ins_action ns = ''memory''"
    then have q: "query_of ns = present ''address'' PStr (ins_address ns) @ present ''count'' PInt (ins_count ns)
                 @ present ''offset'' PInt (ins_offset ns)"
      by (simp add: query_of_def build_inspect_query_payload_def query_of_payload parse_inspect_query_input_def Let_def)
    from ok a show ?thesis
      by (simp add: q inspect_parts inspect_flags_in_def parse_inspect_query_input_def Let_def sent_present)
  qed
qed

lemma location_of_code_query:
  assumes "validate_location_input (iqi_location (parse_inspect_query_input ns)) ctx = Inr u"
    and "\<forall>k. ins_location_kind ns = Some k \<longrightarrow>
      k \<in> {''current'', ''function'', ''address'', ''address-range'', ''file-line'', ''file-range''}"
    and "ins_action ns \<in> {''source'', ''disassembly''}"
  obtains l where "iqi_location (parse_inspect_query_input ns) = Some l" "location_sent l"
    "parse_location_input ns = Some l \<or> l = current_location \<and> location_fields ns = []"
proof (cases "parse_location_input ns")
  case None
  with assms(1,3) have "location_fields ns = []" "iqi_location (parse_inspect_query_input ns) = Some current_location"
    by (auto simp: parse_inspect_query_input_def Let_def validate_location_input_def usage_error_def split: if_splits)
  moreover have "location_sent current_location"
    by (simp add: location_sent_def current_location_def build_location_payload_def)
  ultimately show ?thesis using that by blast
next
  case (Some l)
  then have l: "iqi_location (parse_inspect_query_input ns) = Some l"
    by (simp add: parse_inspect_query_input_def Let_def)
  from Some obtain k where k: "ins_location_kind ns = Some k"
    "lin_kind l = map (\<lambda>c. if c = CHR ''-'' then CHR ''_'' else c) k"
    by (auto simp: parse_location_input_def split: option.splits)
  have "lin_kind l \<in> set location_kinds" unfolding k(2)
    by (rule cli_kinds [OF assms(2) [rule_format, OF k(1)]])
  then have "location_sent l" using assms(1) unfolding l by (intro validated_location)
  with l Some that show ?thesis by blast
qed

lemma location_flags_sent:
  assumes "location_sent l" "parse_location_input ns = Some l \<or> l = current_location \<and> location_fields ns = []"
    and "ins_action ns \<noteq> ''memory''"
  shows "let p = build_location_payload l in
      sent p ''address'' PStr (ins_address ns)
      \<and> sent p ''kind'' (\<lambda>k. PStr (map (\<lambda>c. if c = CHR ''-'' then CHR ''_'' else c) k)) (ins_location_kind ns)
      \<and> sent p ''function'' PStr (ins_function ns) \<and> sent p ''start_address'' PStr (ins_start_address ns)
      \<and> sent p ''end_address'' PStr (ins_end_address ns) \<and> sent p ''file'' PStr (ins_file ns)
      \<and> sent p ''line'' PInt (ins_line ns) \<and> sent p ''start_line'' PInt (ins_start_line ns)
      \<and> sent p ''end_line'' PInt (ins_end_line ns)"
  using assms(2)
proof
  assume "parse_location_input ns = Some l"
  then obtain k where "ins_location_kind ns = Some k" "l = \<lparr>lin_kind = map (\<lambda>c. if c = CHR ''-'' then CHR ''_'' else c) k,
      lin_function = ins_function ns, lin_address = ins_address ns, lin_start_address = ins_start_address ns,
      lin_end_address = ins_end_address ns, lin_file = ins_file ns, lin_line = ins_line ns,
      lin_start_line = ins_start_line ns, lin_end_line = ins_end_line ns\<rparr>"
    by (auto simp: parse_location_input_def split: option.splits)
  with assms(1) show ?thesis by (simp add: location_sent_def Let_def)
next
  assume "l = current_location \<and> location_fields ns = []"
  with assms(3) show ?thesis by (simp add: no_location_fields)
qed

lemma flags_of_code_query:
  assumes "validate_inspect_query_input (parse_inspect_query_input ns) = Inr u"
    and "\<forall>k. ins_location_kind ns = Some k \<longrightarrow>
      k \<in> {''current'', ''function'', ''address'', ''address-range'', ''file-line'', ''file-range''}"
    and act: "ins_action ns \<in> {''source'', ''disassembly''}"
  shows "inspect_flags_in ns (query_of ns)"
proof -
  let ?i = "parse_inspect_query_input ns"
  have ai: "iqi_action ?i = ins_action ns" by (simp add: parse_inspect_query_input_def Let_def)
  note ok = validated_inspect(1) [OF assms(1)]
  have "validate_location_input (iqi_location ?i) (''--action '' @ ins_action ns) = Inr ()"
    using validated_inspect(2) [OF assms(1)] act unfolding ai by (simp add: insert_commute)
  then obtain l where l: "iqi_location ?i = Some l" "location_sent l"
    "parse_location_input ns = Some l \<or> l = current_location \<and> location_fields ns = []"
    by (rule location_of_code_query [OF _ assms(2) act])
  have m: "ins_action ns \<noteq> ''memory''" using act by auto
  note sent_l = location_flags_sent [OF l(2,3) m]
  define r where "r = (if ins_action ns = ''disassembly''
    then present ''instruction_count'' PInt (ins_instruction_count ns) @ present ''mode'' PStr (ins_mode ns)
    else present ''context_before'' PInt (ins_context_before ns) @ present ''context_after'' PInt (ins_context_after ns))"
  have q: "query_of ns = build_context_payload ?i @ (location_entry ?i @ r)"
  proof -
    consider "ins_action ns = ''disassembly''" | "ins_action ns = ''source''" using act by blast
    then show ?thesis
    proof cases
      case 1
      then show ?thesis
        by (simp add: r_def query_of_def build_inspect_query_payload_def query_of_payload parse_inspect_query_input_def Let_def)
    next
      case 2
      then show ?thesis
        by (simp add: r_def query_of_def build_inspect_query_payload_def query_of_payload parse_inspect_query_input_def Let_def)
    qed
  qed
  have loc: "sub_dict (query_of ns) ''location'' = build_location_payload l"
    by (simp add: q build_context_payload_def location_entry_def sub_dict_present l(1))
  have sub: "sent (query_of ns) k f v = sent r k f v" if "k \<noteq> ''context''" "k \<noteq> ''location''" for k f and v :: "'c option"
    using that by (simp add: q build_context_payload_def location_entry_def sent_present)
  note c = sent_context [of ?i "location_entry ?i @ r", folded q]
  consider "ins_action ns = ''disassembly''" | "ins_action ns = ''source''" using act by blast
  then show ?thesis
  proof cases
    case 1
    with ok sent_l c show ?thesis
      by (simp add: inspect_flags_in_def inspect_parts loc sub Let_def r_def sent_present parse_inspect_query_input_def)
  next
    case 2
    with ok sent_l c show ?thesis
      by (simp add: inspect_flags_in_def inspect_parts loc sub Let_def r_def sent_present parse_inspect_query_input_def)
  qed
qed

text \<open>
  C24. No flag of an inspection gets lost. When the client accepts the flags of an inspection command,
  every flag that was given is an entry of the payload it sends, with its value: a flag that the
  action or the kind of location has no use for is refused, not dropped. The actions and the kinds
  of locations are the choices that the command line offers.
\<close>

theorem inspect_flags_sent:
  assumes "validate_inspect_query_input (parse_inspect_query_input ns) = Inr ()"
    and "ins_action ns \<in> {''evaluate'', ''variables'', ''registers'', ''memory'', ''disassembly'', ''source''}"
    and "\<forall>k. ins_location_kind ns = Some k \<longrightarrow>
      k \<in> {''current'', ''function'', ''address'', ''address-range'', ''file-line'', ''file-range''}"
  shows "inspect_flags_in ns (sub_dict (build_inspect_query_payload (parse_inspect_query_input ns)) ''query'')"
  using flags_of_data_query [OF assms(1)] flags_of_code_query [OF assms(1,3)] assms(2)
  unfolding query_of_def by blast

definition sample_flags :: inspect_namespace where
  "sample_flags =
     \<lparr>ins_action = ''disassembly'', ins_session_id = Some 1, ins_thread_id = Some 2, ins_frame = None,
      ins_expression = None, ins_register_numbers = None, ins_register_names = None,
      ins_include_vector_registers = None, ins_max_registers = None, ins_value_format = None, ins_count = None,
      ins_offset = None, ins_location_kind = Some ''address-range'', ins_function = None, ins_address = None,
      ins_start_address = Some ''0x10'', ins_end_address = Some ''0x20'', ins_file = None, ins_line = None,
      ins_start_line = None, ins_end_line = None, ins_instruction_count = None, ins_mode = Some ''mixed'',
      ins_context_before = None, ins_context_after = None\<rparr>"

theorem inspect_flags_sent_witness:
  "inspect_flags_in sample_flags
     (sub_dict (build_inspect_query_payload (parse_inspect_query_input sample_flags)) ''query'')"
proof (rule inspect_flags_sent)
  show "validate_inspect_query_input (parse_inspect_query_input sample_flags) = Inr ()" by code_simp
qed (simp_all add: sample_flags_def)

end
