(* ===== verification/Server_Process.thy ===== *)
theory Server_Process
  imports Registry
begin

text \<open>
  The server process: its command line (\<open>server.py\<close>), the HTTP front with its token, shutdown request
  and idle watchdog (\<open>mcp/app.py\<close>), and the reader of standard input (\<open>mcp/stdio_input.py\<close>). Times are
  milliseconds. A byte is a character; decoding bytes is a parameter.
\<close>

section \<open>Command line\<close>

record ServerCliConfig =
  scc_transport :: string
  scc_host :: string
  scc_port :: int
  scc_path :: string
  scc_auth_token :: "string option"
  scc_ready_file :: "string option"
  scc_idle_timeout :: int

definition default_config :: "string \<Rightarrow> ServerCliConfig" where
  "default_config transport = \<lparr>scc_transport = transport, scc_host = ''127.0.0.1'', scc_port = 8000, scc_path = ''/mcp'',
     scc_auth_token = None, scc_ready_file = None, scc_idle_timeout = 0\<rparr>"

definition parse_http_path :: "string \<Rightarrow> string + string" where
  "parse_http_path value =
     (if \<not> startswith value ''/'' \<or> CHR ''?'' \<in> set value \<or> CHR ''#'' \<in> set value
      then Inl (''--path must start with '' @ [CHR 0x27, CHR ''/'', CHR 0x27]
             @ '' and cannot contain query strings or fragments'')
      else Inr value)"

definition parse_http_port :: "string \<Rightarrow> string + int" where
  "parse_http_port value =
     (case py_int 10 value of
        None \<Rightarrow> Inl ''--port must be an integer''
      | Some port \<Rightarrow> if 0 \<le> port \<and> port \<le> 65535 then Inr port else Inl ''--port must be between 0 and 65535'')"

text \<open>The parsed flags.\<close>

record server_flags =
  svf_transport :: string
  svf_host :: "string option"
  svf_port :: "int option"
  svf_path :: "string option"
  svf_auth_token :: "string option"
  svf_ready_file :: "string option"
  svf_idle_timeout :: "int option"

definition http_flags :: "server_flags \<Rightarrow> string list" where
  "http_flags f = map snd (filter fst
     [(svf_host f \<noteq> None, ''--host''), (svf_port f \<noteq> None, ''--port''), (svf_path f \<noteq> None, ''--path''),
      (svf_auth_token f \<noteq> None, ''--auth-token''), (svf_ready_file f \<noteq> None, ''--ready-file''),
      (svf_idle_timeout f \<noteq> None, ''--idle-timeout-sec'')])"

definition or_default :: "'a option \<Rightarrow> 'a \<Rightarrow> 'a" where
  "or_default v d = (case v of None \<Rightarrow> d | Some x \<Rightarrow> x)"

definition parse_server_config :: "string option \<Rightarrow> server_flags \<Rightarrow> string + ServerCliConfig" where
  "parse_server_config env_token f =
     (if (case svf_idle_timeout f of None \<Rightarrow> False | Some t \<Rightarrow> t < 0) then Inl ''--idle-timeout-sec must be >= 0''
      else if svf_transport f = ''stdio''
      then (if http_flags f \<noteq> []
            then Inl (join '', '' (http_flags f) @ '' require --transport streamable-http'')
            else Inr (default_config ''stdio''))
      else Inr \<lparr>scc_transport = ''streamable-http'', scc_host = or_default (svf_host f) ''127.0.0.1'',
             scc_port = or_default (svf_port f) 8000, scc_path = or_default (svf_path f) ''/mcp'',
             scc_auth_token = (if svf_auth_token f \<noteq> None then svf_auth_token f else env_token),
             scc_ready_file = svf_ready_file f, scc_idle_timeout = or_default (svf_idle_timeout f) 0\<rparr>)"

section \<open>HTTP\<close>

text \<open>When the last request came, whether a shutdown was requested, and how many requests reached MCP.\<close>

record http_server =
  hs_last_request :: nat
  hs_stopping :: bool
  hs_forwarded :: nat

text \<open>\<open>dict(headers)\<close>: of a repeated name the last value counts.\<close>

definition authorized :: "(string \<times> string) list \<Rightarrow> string option \<Rightarrow> bool" where
  "authorized headers token =
     (if \<not> str_truthy token then True
      else map_of (rev headers) ''authorization'' = Some (''Bearer '' @ the token))"

definition touch :: "nat \<Rightarrow> http_server \<Rightarrow> http_server" where
  "touch tm s = s\<lparr>hs_last_request := tm\<rparr>"

definition idle_for :: "nat \<Rightarrow> http_server \<Rightarrow> nat" where
  "idle_for tm s = tm - hs_last_request s"

text \<open>A reply is a status and a body; \<open>None\<close> stands for the reply of the MCP library.\<close>

type_synonym http_reply = "(nat \<times> pyv) option"

definition unauthorized_reply :: http_reply where
  "unauthorized_reply = Some (401, PStr ''Unauthorized'')"

definition transport_call ::
  "string option \<Rightarrow> nat \<Rightarrow> string \<Rightarrow> (string \<times> string) list \<Rightarrow> http_server \<Rightarrow> http_reply \<times> http_server" where
  "transport_call token tm scope_type headers s =
     (let s1 = (if scope_type = ''http'' then touch tm s else s) in
      if \<not> authorized headers token then (unauthorized_reply, s1)
      else (None, s1\<lparr>hs_forwarded := hs_forwarded s1 + 1\<rparr>))"

definition has_active_sessions :: "registry \<Rightarrow> bool" where
  "has_active_sessions reg = (active_session_count reg > 0)"

definition shutdown_endpoint ::
  "string option \<Rightarrow> bool \<Rightarrow> (string \<times> string) list \<Rightarrow> string option \<Rightarrow> http_server \<Rightarrow> http_reply \<times> http_server" where
  "shutdown_endpoint token active headers force_param s =
     (if \<not> authorized headers token then (unauthorized_reply, s)
      else let force = (force_param = Some ''1'' \<or> force_param = Some ''true'') in
        if \<not> force \<and> active
        then (Some (409, PDict [(''status'', PStr ''error''),
                (''message'', PStr ''active debug sessions; pass force=1 to stop anyway'')]), s)
        else (Some (200, PDict [(''status'', PStr ''success'')]), s\<lparr>hs_stopping := True\<rparr>))"

text \<open>The payload of the ready file.\<close>

definition ready_payload :: "string \<Rightarrow> nat \<Rightarrow> string \<Rightarrow> pydict" where
  "ready_payload host port path = [(''host'', PStr host), (''port'', PInt (int port)), (''path'', PStr path)]"

section \<open>Idle watchdog\<close>

definition watchdog_period :: "nat \<Rightarrow> nat" where
  "watchdog_period idle_timeout = max 1000 (min (idle_timeout div 4) 30000)"

text \<open>
  \<open>_idle_watchdog\<close> from one time on, for a history of the last request and of the presence of sessions; the
  result is the time of the shutdown request, unless the fuel ends first.
\<close>

fun idle_watchdog :: "nat \<Rightarrow> nat \<Rightarrow> (nat \<Rightarrow> nat) \<Rightarrow> (nat \<Rightarrow> bool) \<Rightarrow> nat \<Rightarrow> nat option" where
  "idle_watchdog 0 idle_timeout last_request active tm = None"
| "idle_watchdog (Suc n) idle_timeout last_request active tm =
     (let t = tm + watchdog_period idle_timeout in
      if t - last_request t < idle_timeout then idle_watchdog n idle_timeout last_request active t
      else if active t then idle_watchdog n idle_timeout last_request active t
      else Some t)"

section \<open>Standard input\<close>

text \<open>\<open>*lines, buffer = buffer.split(b"\n")\<close>.\<close>

fun cut_lines :: "string \<Rightarrow> string list \<times> string" where
  "cut_lines [] = ([], [])"
| "cut_lines (c # cs) =
     (case cut_lines cs of
        (ls, r) \<Rightarrow>
          if c = CHR 0x0A then ([] # ls, r)
          else (case ls of [] \<Rightarrow> ([], c # r) | l # ls' \<Rightarrow> ((c # l) # ls', r)))"

text \<open>\<open>_emit\<close> for a sequence: the event loop accepts a number of items before it closes; the second result
  is the number left, if every item was accepted.\<close>

fun emit_all :: "nat \<Rightarrow> 'a list \<Rightarrow> 'a list \<times> nat option" where
  "emit_all n [] = ([], Some n)"
| "emit_all 0 (x # xs) = ([], None)"
| "emit_all (Suc n) (x # xs) = apfst (Cons x) (emit_all n xs)"

text \<open>The end of the input: what is left in the buffer, and the end mark.\<close>

definition pump_end :: "(string \<Rightarrow> string) \<Rightarrow> nat \<Rightarrow> string \<Rightarrow> string option list" where
  "pump_end decode n buffer =
     fst (emit_all n ((if buffer \<noteq> [] then [Some (decode buffer)] else []) @ [None]))"

text \<open>\<open>_pump\<close> for the results of the reads; an empty one is the end of the input or a failed read.\<close>

fun pump :: "(string \<Rightarrow> string) \<Rightarrow> nat \<Rightarrow> string \<Rightarrow> string list \<Rightarrow> string option list" where
  "pump decode n buffer [] = pump_end decode n buffer"
| "pump decode n buffer (chunk # chunks) =
     (if chunk = [] then pump_end decode n buffer
      else case cut_lines (buffer @ chunk) of
        (ls, rest) \<Rightarrow>
          (case emit_all n (map (\<lambda>l. Some (decode l @ [CHR 0x0A])) ls) of
             (out, None) \<Rightarrow> out
           | (out, Some m) \<Rightarrow> out @ pump decode m rest chunks))"

section \<open>Facts about the process\<close>

text \<open>A configuration that is accepted is one the server can run: the standard input transport takes no HTTP
  flag, and for HTTP a port that passed its check is a valid port, a path that passed its check is a plain
  absolute path, and the idle limit is not negative; an explicit token wins over the environment.\<close>

theorem server_config_sound:
  assumes "parse_server_config env_token f = Inr c"
    and "\<And>p. svf_port f = Some p \<Longrightarrow> \<exists>s. parse_http_port s = Inr p"
    and "\<And>p. svf_path f = Some p \<Longrightarrow> \<exists>s. parse_http_path s = Inr p"
  shows "0 \<le> scc_port c \<and> scc_port c \<le> 65535 \<and> 0 \<le> scc_idle_timeout c
    \<and> hd (scc_path c) = CHR ''/'' \<and> CHR ''?'' \<notin> set (scc_path c) \<and> CHR ''#'' \<notin> set (scc_path c)
    \<and> (svf_transport f = ''stdio'' \<longrightarrow> c = default_config ''stdio'' \<and> http_flags f = [])
    \<and> (svf_transport f \<noteq> ''stdio'' \<longrightarrow>
        scc_auth_token c = (if svf_auth_token f = None then env_token else svf_auth_token f))"
proof -
  have idle: "svf_idle_timeout f = Some t \<Longrightarrow> 0 \<le> t" for t
    using assms(1) by (auto simp: parse_server_config_def split: if_splits)
  have port: "svf_port f = Some p \<Longrightarrow> 0 \<le> p \<and> p \<le> 65535" for p
    using assms(2) by (fastforce simp: parse_http_port_def split: option.splits if_splits)
  have path: "svf_path f = Some p \<Longrightarrow> hd p = CHR ''/'' \<and> CHR ''?'' \<notin> set p \<and> CHR ''#'' \<notin> set p" for p
    using assms(3) by (cases p) (fastforce simp: parse_http_path_def startswith_def split: if_splits)+
  have default: "hd ''/mcp'' = CHR ''/'' \<and> CHR ''?'' \<notin> set ''/mcp'' \<and> CHR ''#'' \<notin> set ''/mcp''" by simp
  show ?thesis
  proof (cases "svf_transport f = ''stdio''")
    case True
    then have "c = default_config ''stdio''" "http_flags f = []"
      using assms(1) by (auto simp: parse_server_config_def split: if_splits)
    with True default show ?thesis by (simp add: default_config_def)
  next
    case False
    then have c: "c = \<lparr>scc_transport = ''streamable-http'', scc_host = or_default (svf_host f) ''127.0.0.1'',
             scc_port = or_default (svf_port f) 8000, scc_path = or_default (svf_path f) ''/mcp'',
             scc_auth_token = (if svf_auth_token f \<noteq> None then svf_auth_token f else env_token),
             scc_ready_file = svf_ready_file f, scc_idle_timeout = or_default (svf_idle_timeout f) 0\<rparr>"
      using assms(1) by (auto simp: parse_server_config_def split: if_splits)
    have "0 \<le> scc_port c \<and> scc_port c \<le> 65535" using port by (simp add: c or_default_def split: option.split)
    moreover have "0 \<le> scc_idle_timeout c" using idle by (simp add: c or_default_def split: option.split)
    moreover have "hd (scc_path c) = CHR ''/'' \<and> CHR ''?'' \<notin> set (scc_path c) \<and> CHR ''#'' \<notin> set (scc_path c)"
      using path default by (cases "svf_path f") (simp_all add: c or_default_def)
    ultimately show ?thesis using False by (simp add: c)
  qed
qed

text \<open>Without the token nothing happens: the request is answered with 401, does not reach MCP and does not
  stop the server.\<close>

theorem token_protects:
  assumes "str_truthy token" and "map_of (rev headers) ''authorization'' \<noteq> Some (''Bearer '' @ the token)"
  shows "fst (transport_call token tm ty headers s) = unauthorized_reply
    \<and> hs_forwarded (snd (transport_call token tm ty headers s)) = hs_forwarded s
    \<and> shutdown_endpoint token active headers force s = (unauthorized_reply, s)"
  using assms by (simp add: transport_call_def shutdown_endpoint_def authorized_def touch_def Let_def)

lemma token_protects_witness:
  "shutdown_endpoint (Some ''t'') False [(''authorization'', ''Bearer x'')] (Some ''1'') \<lparr>hs_last_request = 0, hs_stopping = False, hs_forwarded = 0\<rparr> =
     (unauthorized_reply, \<lparr>hs_last_request = 0, hs_stopping = False, hs_forwarded = 0\<rparr>)"
  using token_protects [of "Some ''t''" "[(''authorization'', ''Bearer x'')]"] by (simp add: str_truthy_def)

text \<open>The watchdog asks for a shutdown only when no request came for the whole limit and no session is open.\<close>

lemma watchdog_safe:
  "idle_watchdog n idle last_request active tm = Some t \<Longrightarrow>
     idle \<le> t - last_request t \<and> \<not> active t \<and> tm < t"
proof (induction n arbitrary: tm)
  case (Suc n)
  have "0 < watchdog_period idle" by (simp add: watchdog_period_def)
  with Suc show ?case by (auto simp: Let_def not_less split: if_splits dest!: Suc.IH)
qed simp

text \<open>C34. The watchdog ends an idle server: when the last request came at some time and from then on no session is
  open, it asks for a shutdown no later than one period after the limit has passed, and it never asks
  while a session is open or a request came within the limit.\<close>

theorem watchdog_exact:
  assumes quiet: "\<And>t. T \<le> t \<Longrightarrow> last_request t \<le> T \<and> \<not> active t"
    and fuel: "T + idle \<le> tm + n * watchdog_period idle"
  shows "\<exists>t. idle_watchdog (Suc n) idle last_request active tm = Some t
    \<and> t \<le> max tm (T + idle) + watchdog_period idle
    \<and> idle \<le> t - last_request t \<and> \<not> active t"
proof -
  let ?p = "watchdog_period idle"
  have late: "\<not> t - last_request t < idle \<and> \<not> active t" if "T + idle \<le> t" for t
    using quiet [of t] that by auto
  have "\<exists>t. idle_watchdog (Suc n) idle last_request active tm = Some t \<and> t \<le> max tm (T + idle) + ?p"
    using fuel
  proof (induction n arbitrary: tm)
    case 0
    then show ?case using late [of "tm + ?p"] by (simp add: Let_def)
  next
    case (Suc n)
    show ?case
    proof (cases "T + idle \<le> tm + ?p")
      case True
      then show ?thesis using late by (simp add: Let_def)
    next
      case False
      have "T + idle \<le> (tm + ?p) + n * ?p" using Suc.prems by simp
      from Suc.IH [OF this] obtain t where t: "idle_watchdog (Suc n) idle last_request active (tm + ?p) = Some t"
        "t \<le> max (tm + ?p) (T + idle) + ?p" by blast
      have "max (tm + ?p) (T + idle) = max tm (T + idle)" using False by simp
      with t have bound: "t \<le> max tm (T + idle) + ?p" by simp
      show ?thesis
      proof (cases "idle_watchdog (Suc (Suc n)) idle last_request active tm = Some (tm + ?p)")
        case True
        with False show ?thesis by simp
      next
        case no: False
        have "idle_watchdog (Suc (Suc n)) idle last_request active tm =
            (let t = tm + ?p in
             if t - last_request t < idle then idle_watchdog (Suc n) idle last_request active t
             else if active t then idle_watchdog (Suc n) idle last_request active t
             else Some t)"
          by (rule idle_watchdog.simps)
        with no have "idle_watchdog (Suc (Suc n)) idle last_request active tm =
            idle_watchdog (Suc n) idle last_request active (tm + ?p)"
          by (simp only: Let_def) (auto split: if_splits)
        with t(1) bound show ?thesis by simp
      qed
    qed
  qed
  then show ?thesis using watchdog_safe by blast
qed

lemma watchdog_exact_witness:
  "\<exists>t. idle_watchdog (Suc 4) 4000 (\<lambda>t. min t 100) (\<lambda>t. t < 50) 100 = Some t \<and> t \<le> 5100"
  using watchdog_exact [of 100 "\<lambda>t. min t 100" "\<lambda>t. t < 50" 4000 100 4] by (auto simp: watchdog_period_def)

section \<open>Facts about standard input\<close>

text \<open>The items of a whole input: every line with its end, what follows the last one, and the end mark.\<close>

definition input_items :: "(string \<Rightarrow> string) \<Rightarrow> string \<Rightarrow> string option list" where
  "input_items decode s =
     (case cut_lines s of
        (ls, r) \<Rightarrow> map (\<lambda>l. Some (decode l @ [CHR 0x0A])) ls @ (if r \<noteq> [] then [Some (decode r)] else []) @ [None])"

lemma cut_lines_append:
  "cut_lines (s @ t) =
     (case cut_lines s of (ls, r) \<Rightarrow> case cut_lines (r @ t) of (ls', r') \<Rightarrow> (ls @ ls', r'))"
proof (induction s)
  case (Cons c s)
  then show ?case
    by (auto split: prod.splits list.splits)
qed (simp split: prod.splits)

lemma cut_lines_rest: "cut_lines s = (ls, r) \<Longrightarrow> cut_lines r = ([], r)"
  by (induction s arbitrary: ls r) (auto split: prod.splits if_splits list.splits)

lemma emit_all_take: "fst (emit_all n xs) = take n xs"
  by (induction n xs rule: emit_all.induct) auto

lemma emit_all_left: "snd (emit_all n xs) = (if length xs \<le> n then Some (n - length xs) else None)"
  by (induction n xs rule: emit_all.induct) auto

lemma pump_items:
  "pump decode n buffer chunks =
     take n (case cut_lines buffer of (ls, r) \<Rightarrow> input_items decode (buffer @ concat (takeWhile (\<lambda>c. c \<noteq> []) chunks)))"
  if "cut_lines buffer = ([], buffer)"
  using that
proof (induction decode n buffer chunks rule: pump.induct)
  case (1 decode n buffer)
  then show ?case by (simp add: pump_end_def emit_all_take input_items_def)
next
  case (2 decode n buffer chunk chunks)
  show ?case
  proof (cases "chunk = []")
    case True
    with 2 show ?thesis by (simp add: pump_end_def emit_all_take input_items_def)
  next
    case False
    obtain ls rest where cut: "cut_lines (buffer @ chunk) = (ls, rest)" by (metis surj_pair)
    let ?xs = "map (\<lambda>l. Some (decode l @ [CHR 0x0A])) ls" and ?more = "concat (takeWhile (\<lambda>c. c \<noteq> []) chunks)"
    have items: "input_items decode (buffer @ chunk @ ?more) = ?xs @ input_items decode (rest @ ?more)"
      using cut_lines_append [of "buffer @ chunk" ?more] cut by (auto simp: input_items_def split: prod.splits)
    have rest: "cut_lines rest = ([], rest)" using cut_lines_rest [OF cut] .
    show ?thesis
    proof (cases "length ?xs \<le> n")
      case True
      obtain out where e: "emit_all n ?xs = (out, Some (n - length ls))" "out = take n ?xs"
        using emit_all_take [of n ?xs] emit_all_left [of n ?xs] True by (cases "emit_all n ?xs") simp
      have "pump decode (n - length ls) rest chunks = take (n - length ls) (input_items decode (rest @ ?more))"
        using "2.IH" [OF False cut [symmetric] e(1) [symmetric] refl rest] rest by simp
      with e cut True False "2.prems" show ?thesis by (simp add: items)
    next
      case no: False
      obtain out where e: "emit_all n ?xs = (out, None)" "out = take n ?xs"
        using emit_all_take [of n ?xs] emit_all_left [of n ?xs] no by (cases "emit_all n ?xs") simp
      with cut no False "2.prems" show ?thesis by (simp add: items)
    qed
  qed
qed

text \<open>C25. Reading standard input delivers exactly the lines of the input, whatever the sizes of the reads: each
  line with its end, an unfinished last line, and the end mark, up to the point where the event loop
  closes.\<close>

theorem pump_exact:
  "pump decode n [] chunks = take n (input_items decode (concat (takeWhile (\<lambda>c. c \<noteq> []) chunks)))"
  using pump_items [of "[]" decode n chunks] by simp

text \<open>No byte is lost or invented.\<close>

lemma cut_lines_concat: "cut_lines s = (ls, r) \<Longrightarrow> concat (map (\<lambda>l. l @ [CHR 0x0A]) ls) @ r = s"
  by (induction s arbitrary: ls r) (auto split: prod.splits if_splits list.splits)

lemma input_items_concat: "concat (map (\<lambda>i. case i of None \<Rightarrow> [] | Some l \<Rightarrow> l) (input_items (\<lambda>s. s) s)) = s"
  using cut_lines_concat [of s] by (cases "cut_lines s") (auto simp: input_items_def comp_def)

end
