(* ===== verification/Client_Output.thy ===== *)
theory Client_Output
  imports Mcp_Common
begin

text \<open>
  What the command line client makes of an answer: the payload of a tool result (\<open>client/runtime.py\<close>), the
  typed view of it (\<open>client/results.py\<close>) and its rendering as text (\<open>client/renderers.py\<close>). A decoded JSON
  text is the value it encodes.
\<close>

section \<open>Payloads\<close>

datatype content_item = TextItem "pyv option" | OtherItem

record received_result =
  rcv_structured :: pyv
  rcv_content :: "content_item list"
  rcv_is_error :: bool

record ClientToolResponse =
  ctp_payload :: pydict
  ctp_is_error :: bool

definition value_error :: "string \<Rightarrow> exn + 'a" where
  "value_error m = Inl (Exn ValueError m)"

definition parse_tool_payload :: "received_result \<Rightarrow> exn + pydict" where
  "parse_tool_payload result =
     (case rcv_structured result of
        PDict d \<Rightarrow> Inr d
      | _ \<Rightarrow>
          (case rcv_content result of
             [TextItem None] \<Rightarrow> value_error ''Expected valid JSON tool payload''
           | [TextItem (Some (PDict d))] \<Rightarrow> Inr d
           | [TextItem (Some v)] \<Rightarrow> value_error ''Expected tool payload JSON object''
           | _ \<Rightarrow> value_error ''Expected exactly one text content item from MCP tool result''))"

definition client_response :: "received_result \<Rightarrow> exn + ClientToolResponse" where
  "client_response result =
     map_sum id (\<lambda>p. \<lparr>ctp_payload = p, ctp_is_error = rcv_is_error result\<rparr>) (parse_tool_payload result)"

section \<open>Envelopes\<close>

record ToolEnvelope =
  tev_status :: "string option"
  tev_action :: "string option"
  tev_code :: "string option"
  tev_message :: "string option"
  tev_fatal :: "bool option"
  tev_session_id :: "int option"
  tev_target_loaded :: "bool option"
  tev_execution_state :: "string option"
  tev_error_count :: "int option"
  tev_result :: "pydict option"

definition as_bool :: "pyv \<Rightarrow> bool option" where
  "as_bool v = (case v of PBool b \<Rightarrow> Some b | _ \<Rightarrow> None)"

definition envelope_from_payload :: "pydict \<Rightarrow> ToolEnvelope" where
  "envelope_from_payload payload =
     \<lparr>tev_status = as_text (dget payload ''status''), tev_action = as_text (dget payload ''action''),
      tev_code = as_text (dget payload ''code''), tev_message = as_text (dget payload ''message''),
      tev_fatal = as_bool (dget payload ''fatal''), tev_session_id = as_int (dget payload ''session_id''),
      tev_target_loaded = as_bool (dget payload ''target_loaded''),
      tev_execution_state = as_text (dget payload ''execution_state''),
      tev_error_count = as_int (dget payload ''error_count''),
      tev_result = as_optional_mapping (dget payload ''result'')\<rparr>"

definition is_list_action :: "ToolEnvelope \<Rightarrow> bool" where
  "is_list_action e = (tev_action e = Some ''list'')"

section \<open>Text\<close>

definition indent_text :: "nat \<Rightarrow> string" where
  "indent_text n = concat (replicate n ''  '')"

text \<open>The lines of one value under a label: \<open>-\<close> for the items of a list, the key and a colon for the entries of
  a dictionary.\<close>

fun render_value :: "nat \<Rightarrow> string \<Rightarrow> pyv \<Rightarrow> string list" where
  "render_value n label (PDict d) =
     (if d = [] then [indent_text n @ label @ '' {}'']
      else (indent_text n @ label) # concat (map (\<lambda>p. render_value (Suc n) (fst p @ '':'') (snd p)) d))"
| "render_value n label (PList xs) =
     (if xs = [] then [indent_text n @ label @ '' []'']
      else (indent_text n @ label) # concat (map (\<lambda>v. render_value (Suc n) ''-'' v) xs))"
| "render_value n label v = [indent_text n @ label @ '' '' @ py_str v]"

definition render_sequence_lines :: "nat \<Rightarrow> pyv list \<Rightarrow> string list" where
  "render_sequence_lines n xs = concat (map (render_value n ''-'') xs)"

definition render_mapping_lines :: "nat \<Rightarrow> pydict \<Rightarrow> string list" where
  "render_mapping_lines n d = concat (map (\<lambda>p. render_value n (fst p @ '':'') (snd p)) d)"

definition render_mapping :: "pydict \<Rightarrow> string" where
  "render_mapping payload = join [CHR 0x0A] (render_mapping_lines 0 payload)"

text \<open>A dictionary in the envelope opens its block even when it is empty, and a result that is no dictionary is
  printed as Python prints it.\<close>

definition action_entry :: "string \<times> pyv \<Rightarrow> string list" where
  "action_entry p =
     (case p of (key, v) \<Rightarrow>
        if key = ''result'' then []
        else case v of
          PDict d \<Rightarrow> (key @ '':'') # render_mapping_lines 1 d
        | PList xs \<Rightarrow> (if xs = [] then [key @ '': []''] else (key @ '':'') # render_sequence_lines 1 xs)
        | _ \<Rightarrow> [key @ '': '' @ py_str v])"

definition action_lines :: "pydict \<Rightarrow> string list" where
  "action_lines payload =
     concat (map action_entry payload)
     @ (if dhas payload ''result''
        then (case dget payload ''result'' of
                PDict d \<Rightarrow> ''result:'' # render_mapping_lines 1 d
              | v \<Rightarrow> [''result: '' @ py_str v])
        else [])"

definition render_action_payload :: "pydict \<Rightarrow> string" where
  "render_action_payload payload = join [CHR 0x0A] (action_lines payload)"

definition render_session_start :: "pydict \<Rightarrow> string" where
  "render_session_start payload =
     (let e = envelope_from_payload payload in
      render_mapping
        [(''status'', opt_str (tev_status e)), (''session_id'', opt_int (tev_session_id e)),
         (''target_loaded'', opt_pyv PBool (tev_target_loaded e)),
         (''execution_state'', opt_str (tev_execution_state e)), (''message'', opt_str (tev_message e))])"

section \<open>Facts\<close>

text \<open>The value at a path of keys.\<close>

fun value_at :: "pydict \<Rightarrow> string list \<Rightarrow> pyv option" where
  "value_at d [] = None"
| "value_at d [k] = map_of d k"
| "value_at d (k # ks) = (case map_of d k of Some (PDict d') \<Rightarrow> value_at d' ks | _ \<Rightarrow> None)"

definition is_scalar :: "pyv \<Rightarrow> bool" where
  "is_scalar v = (case v of PDict d \<Rightarrow> False | PList xs \<Rightarrow> False | _ \<Rightarrow> True)"

lemma render_scalar: "is_scalar v \<Longrightarrow> render_value n label v = [indent_text n @ label @ '' '' @ py_str v]"
  by (cases v) (simp_all add: is_scalar_def)

lemma render_mapping_entry: "map_of d k = Some v \<Longrightarrow> set (render_value n (k @ '':'') v) \<subseteq> set (render_mapping_lines n d)"
  by (induction d) (auto simp: render_mapping_lines_def split: if_splits)

lemma render_value_dict:
  "d \<noteq> [] \<Longrightarrow> render_value n label (PDict d) = (indent_text n @ label) # render_mapping_lines (Suc n) d"
  by (simp add: render_mapping_lines_def)

text \<open>Rendering hides nothing: every text, number or truth value in nested dictionaries of an answer is on a
  line of its own, under its key and indented by its depth.\<close>

theorem render_complete:
  assumes "value_at d ks = Some v" and "is_scalar v"
  shows "indent_text (n + length ks - 1) @ last ks @ '': '' @ py_str v \<in> set (render_mapping_lines n d)"
  using assms(1)
proof (induction d ks arbitrary: n rule: value_at.induct)
  case (2 d k)
  then show ?case using render_mapping_entry [of d k v n] render_scalar [OF assms(2), of n "k @ '':''"] by simp
next
  case (3 d k k' ks)
  then obtain d' where d': "map_of d k = Some (PDict d')" "value_at d' (k' # ks) = Some v"
    by (auto split: option.splits pyv.splits)
  have "d' \<noteq> []" using d'(2) by (cases ks) (auto split: option.splits)
  then have "set (render_mapping_lines (Suc n) d') \<subseteq> set (render_mapping_lines n d)"
    using render_mapping_entry [OF d'(1), of n] by (simp add: render_mapping_lines_def)
  moreover have "indent_text (Suc n + length (k' # ks) - 1) @ last (k' # ks) @ '': '' @ py_str v
      \<in> set (render_mapping_lines (Suc n) d')"
    by (rule "3.IH") (use d' in simp_all)
  ultimately show ?case by auto
qed simp

lemma render_complete_witness:
  "''  id: 3'' \<in> set (render_mapping_lines 0 [(''ok'', PBool True), (''thread'', PDict [(''id'', PInt 3)])])"
  using render_complete [of "[(''ok'', PBool True), (''thread'', PDict [(''id'', PInt 3)])]" "[''thread'', ''id'']"
      "PInt 3" 0]
  by (simp add: is_scalar_def indent_text_def py_str_def show_int_def show_nat.simps digit_char_def digits10_def)

text \<open>What the transport delivers of a tool result.\<close>

definition on_the_wire :: "CallToolResult \<Rightarrow> received_result" where
  "on_the_wire r = \<lparr>rcv_structured = PDict (ctr_structuredContent r), rcv_content = [TextItem (Some (ctr_content r))],
     rcv_is_error = ctr_isError r\<rparr>"

text \<open>The same for a client that only has the text content.\<close>

definition text_only :: "received_result \<Rightarrow> received_result" where
  "text_only r = r\<lparr>rcv_structured := PNone\<rparr>"

text \<open>The client reads from the wire exactly what the server serialised, from the structured content as from
  the text content, and the error flag is the kind of the result.\<close>

theorem wire_roundtrip:
  assumes "serialize_result r = Inr w"
  shows "\<exists>payload. result_to_mapping r = Inr payload
    \<and> client_response (on_the_wire w) = Inr \<lparr>ctp_payload = payload, ctp_is_error = is_failure r\<rparr>
    \<and> client_response (text_only (on_the_wire w)) = Inr \<lparr>ctp_payload = payload, ctp_is_error = is_failure r\<rparr>"
  using assms
  by (auto simp: serialize_result_def client_response_def parse_tool_payload_def on_the_wire_def text_only_def
      split: sum.splits)

lemma wire_roundtrip_witness:
  "\<exists>payload. client_response (on_the_wire \<lparr>ctr_content = PDict [(''n'', PInt 1), (''status'', PStr ''success'')],
       ctr_structuredContent = [(''n'', PInt 1), (''status'', PStr ''success'')], ctr_isError = False\<rparr>) =
     Inr \<lparr>ctp_payload = payload, ctp_is_error = False\<rparr>"
proof -
  have "serialize_result (op_success (PDict [(''n'', PInt 1)])) =
     Inr \<lparr>ctr_content = PDict [(''n'', PInt 1), (''status'', PStr ''success'')],
       ctr_structuredContent = [(''n'', PInt 1), (''status'', PStr ''success'')], ctr_isError = False\<rparr>"
    by code_simp
  moreover have "\<not> is_failure (op_success (PDict [(''n'', PInt 1)]))" by (simp add: op_success_def)
  ultimately show ?thesis using wire_roundtrip [of "op_success (PDict [(''n'', PInt 1)])"] by fastforce
qed

end
