(* ===== verification/Client_Tools.thy ===== *)
theory Client_Tools
  imports Client_Inputs Client_Output
begin

text \<open>
  The tools of the command line client: how the parsed flags become the input of a tool
  (\<open>client/input_parsers.py\<close>), which builder and renderer belongs to which tool
  (\<open>client/specs/registry.py\<close>), and the short commands with their shorthands (\<open>client/facade.py\<close>,
  \<open>client/cli.py\<close>). A namespace of argparse is a dictionary; a flag that was not given is absent or
  \<open>None\<close>, and a flag with a type holds a value of that type.
\<close>

section \<open>Namespaces\<close>

definition ns_text :: "pydict \<Rightarrow> string \<Rightarrow> string option" where
  "ns_text ns k = as_text (dget ns k)"

definition ns_int :: "pydict \<Rightarrow> string \<Rightarrow> int option" where
  "ns_int ns k = (case dget ns k of PInt i \<Rightarrow> Some i | _ \<Rightarrow> None)"

definition ns_bool :: "pydict \<Rightarrow> string \<Rightarrow> bool option" where
  "ns_bool ns k = as_bool (dget ns k)"

definition ns_value :: "pydict \<Rightarrow> string \<Rightarrow> pyv option" where
  "ns_value ns k = (case dget ns k of PNone \<Rightarrow> None | v \<Rightarrow> Some v)"

definition ns_items :: "pydict \<Rightarrow> string \<Rightarrow> pyv list option" where
  "ns_items ns k = (case dget ns k of PList xs \<Rightarrow> Some xs | _ \<Rightarrow> None)"

definition ns_texts :: "pydict \<Rightarrow> string \<Rightarrow> string list option" where
  "ns_texts ns k = map_option (List.map_filter as_text) (ns_items ns k)"

definition ns_ints :: "pydict \<Rightarrow> string \<Rightarrow> int list option" where
  "ns_ints ns k = map_option (List.map_filter (\<lambda>v. case v of PInt i \<Rightarrow> Some i | _ \<Rightarrow> None)) (ns_items ns k)"

text \<open>The pairs of \<open>KEY=VALUE\<close> flags, and the events of step flags.\<close>

definition pair_item :: "pyv \<Rightarrow> (string \<times> string) option" where
  "pair_item v = (case v of PTuple [PStr k, PStr w] \<Rightarrow> Some (k, w) | _ \<Rightarrow> None)"

definition event_item :: "pyv \<Rightarrow> step_event option" where
  "event_item v =
     (case v of
        PTuple [PStr option_name, PStr t] \<Rightarrow> Some (option_name, t, PNone)
      | PTuple [PStr option_name, PTuple [PStr path, w]] \<Rightarrow> Some (option_name, path, w)
      | _ \<Rightarrow> None)"

definition ns_pairs :: "pydict \<Rightarrow> string \<Rightarrow> (string \<times> string) list" where
  "ns_pairs ns k = List.map_filter pair_item (opt_list (ns_items ns k))"

definition ns_events :: "pydict \<Rightarrow> string \<Rightarrow> step_event list" where
  "ns_events ns k = List.map_filter event_item (opt_list (ns_items ns k))"

definition ns_action :: "pydict \<Rightarrow> string" where
  "ns_action ns = (case ns_text ns ''action'' of None \<Rightarrow> [] | Some a \<Rightarrow> a)"

definition ns_session :: "pydict \<Rightarrow> int option" where
  "ns_session ns = ns_int ns ''session_id''"

section \<open>Inputs from namespaces\<close>

definition parse_session_start_input :: "pydict \<Rightarrow> SessionStartInput" where
  "parse_session_start_input ns =
     \<lparr>ssi_program = ns_text ns ''program'', ssi_args = opt_list (ns_texts ns ''args''),
      ssi_init_commands = opt_list (ns_texts ns ''init_commands''),
      ssi_env = collapse_key_value_entries (ns_pairs ns ''env''), ssi_core = ns_text ns ''core'',
      ssi_gdb_path = ns_text ns ''gdb_path'', ssi_gdb_args = opt_list (ns_texts ns ''gdb_args''),
      ssi_working_dir = ns_text ns ''working_dir'', ssi_rr_replay = ns_text ns ''rr_replay''\<rparr>"

definition parse_inferior_manage_input :: "pydict \<Rightarrow> InferiorManageInput" where
  "parse_inferior_manage_input ns =
     \<lparr>imi_action = ns_action ns, imi_session_id = ns_session ns, imi_executable = ns_text ns ''executable'',
      imi_make_current = ns_bool ns ''make_current'', imi_inferior_id = ns_int ns ''inferior_id'',
      imi_mode = ns_text ns ''mode'', imi_enabled = ns_bool ns ''enabled''\<rparr>"

definition parse_execution_manage_input :: "pydict \<Rightarrow> ExecutionManageInput" where
  "parse_execution_manage_input ns =
     \<lparr>emi_action = ns_action ns, emi_session_id = ns_session ns, emi_args = opt_list (ns_texts ns ''args''),
      emi_wait_until = ns_text ns ''wait_until'', emi_timeout_sec = ns_int ns ''timeout_sec'',
      emi_stop_reasons = opt_list (ns_texts ns ''stop_reasons''), emi_reverse = (ns_bool ns ''reverse'' = Some True)\<rparr>"

definition parse_context_query_input :: "pydict \<Rightarrow> ContextQueryInput" where
  "parse_context_query_input ns =
     \<lparr>cqi_action = ns_action ns, cqi_session_id = ns_session ns, cqi_thread_id = ns_int ns ''thread_id'',
      cqi_frame = ns_value ns ''frame'', cqi_max_frames = ns_int ns ''max_frames''\<rparr>"

definition parse_context_manage_input :: "pydict \<Rightarrow> ContextManageInput" where
  "parse_context_manage_input ns =
     \<lparr>cmi_action = ns_action ns, cmi_session_id = ns_session ns, cmi_thread_id = ns_int ns ''thread_id'',
      cmi_frame = ns_int ns ''frame''\<rparr>"

definition parse_breakpoint_query_input :: "pydict \<Rightarrow> BreakpointQueryInput" where
  "parse_breakpoint_query_input ns =
     \<lparr>bqi_action = ns_action ns, bqi_session_id = ns_session ns, bqi_number = ns_int ns ''number'',
      bqi_kinds = opt_list (ns_texts ns ''kinds''), bqi_enabled = ns_bool ns ''enabled''\<rparr>"

definition breakpoint_flags_of :: "pydict \<Rightarrow> breakpoint_namespace" where
  "breakpoint_flags_of ns =
     \<lparr>bns_action = ns_action ns, bns_session_id = ns_session ns, bns_breakpoint_kind = ns_text ns ''breakpoint_kind'',
      bns_location = ns_text ns ''location'', bns_expression = ns_text ns ''expression'', bns_access = ns_text ns ''access'',
      bns_event = ns_text ns ''event'', bns_argument = ns_text ns ''argument'', bns_temporary = ns_bool ns ''temporary'',
      bns_number = ns_value ns ''number'', bns_condition = ns_text ns ''condition'',
      bns_clear_condition = ns_bool ns ''clear_condition''\<rparr>"

definition inspect_flags_of :: "pydict \<Rightarrow> inspect_namespace" where
  "inspect_flags_of ns =
     \<lparr>ins_action = ns_action ns, ins_session_id = ns_session ns, ins_thread_id = ns_int ns ''thread_id'',
      ins_frame = ns_int ns ''frame'', ins_expression = ns_text ns ''expression'',
      ins_register_numbers = ns_ints ns ''register_numbers'', ins_register_names = ns_texts ns ''register_names'',
      ins_include_vector_registers = ns_bool ns ''include_vector_registers'',
      ins_max_registers = ns_int ns ''max_registers'', ins_value_format = ns_text ns ''value_format'',
      ins_count = ns_int ns ''count'', ins_offset = ns_int ns ''offset'',
      ins_location_kind = ns_text ns ''location_kind'', ins_function = ns_text ns ''function'',
      ins_address = ns_text ns ''address'', ins_start_address = ns_text ns ''start_address'',
      ins_end_address = ns_text ns ''end_address'', ins_file = ns_text ns ''file'', ins_line = ns_int ns ''line'',
      ins_start_line = ns_int ns ''start_line'', ins_end_line = ns_int ns ''end_line'',
      ins_instruction_count = ns_int ns ''instruction_count'', ins_mode = ns_text ns ''mode'',
      ins_context_before = ns_int ns ''context_before'', ins_context_after = ns_int ns ''context_after''\<rparr>"

text \<open>The flags of a capture; in a campaign each carries a prefix, and two are the campaign's own.\<close>

definition capture_flags_of :: "string \<Rightarrow> pydict \<Rightarrow> capture_flags" where
  "capture_flags_of prefix ns =
     \<lparr>cpf_enabled = ns_bool ns (prefix @ ''enabled''), cpf_output_dir = ns_text ns (prefix @ ''output_dir''),
      cpf_bundle_name_prefix = ns_text ns (prefix @ ''bundle_name_prefix''),
      cpf_bundle_name = ns_text ns (prefix @ ''bundle_name''),
      cpf_expressions = opt_list (ns_texts ns (prefix @ ''expressions'')),
      cpf_memory_ranges = opt_list (ns_texts ns (prefix @ ''memory_ranges'')),
      cpf_max_frames = ns_int ns (prefix @ ''max_frames''), cpf_include_threads = ns_bool ns (prefix @ ''include_threads''),
      cpf_include_backtraces = ns_bool ns (prefix @ ''include_backtraces''),
      cpf_include_frame = ns_bool ns (prefix @ ''include_frame''),
      cpf_include_variables = ns_bool ns (prefix @ ''include_variables''),
      cpf_include_registers = ns_bool ns (prefix @ ''include_registers''),
      cpf_include_transcript = ns_bool ns (prefix @ ''include_transcript''),
      cpf_include_stop_history = ns_bool ns (prefix @ ''include_stop_history'')\<rparr>"

definition failure_flags_of :: "pydict \<Rightarrow> failure_flags" where
  "failure_flags_of ns =
     \<lparr>flf_on_error = ns_bool ns ''failure_on_error'', flf_on_timeout = ns_bool ns ''failure_on_timeout'',
      flf_stop_reasons = ns_texts ns ''failure_stop_reasons'',
      flf_execution_states = ns_texts ns ''failure_execution_states'',
      flf_exit_codes = ns_ints ns ''failure_exit_codes'', flf_result_text_regex = ns_text ns ''failure_result_text_regex''\<rparr>"

definition campaign_flags_of :: "pydict \<Rightarrow> RunUntilFailureInput" where
  "campaign_flags_of ns =
     \<lparr>rufi_startup_program = ns_text ns ''startup_program'', rufi_startup_args = opt_list (ns_texts ns ''startup_args''),
      rufi_startup_init_commands = opt_list (ns_texts ns ''startup_init_commands''), rufi_startup_env = None,
      rufi_startup_gdb_path = ns_text ns ''startup_gdb_path'', rufi_startup_working_dir = ns_text ns ''startup_working_dir'',
      rufi_startup_core = ns_text ns ''startup_core'', rufi_setup_steps = None,
      rufi_run_args = opt_list (ns_texts ns ''run_args''), rufi_run_timeout_sec = ns_int ns ''run_timeout_sec'',
      rufi_max_iterations = ns_int ns ''max_iterations'', rufi_failure = failure_flags_of ns,
      rufi_capture = capture_flags_of ''capture_'' ns\<rparr>"

section \<open>Tools\<close>

definition client_tool_names :: "string list" where
  "client_tool_names =
     [''gdb_session_start'', ''gdb_session_connect'', ''gdb_session_query'', ''gdb_session_manage'',
      ''gdb_inferior_query'', ''gdb_inferior_manage'', ''gdb_execution_manage'', ''gdb_breakpoint_query'',
      ''gdb_breakpoint_manage'', ''gdb_execute_command'', ''gdb_attach_process'', ''gdb_context_query'',
      ''gdb_context_manage'', ''gdb_inspect_query'', ''gdb_workflow_batch'', ''gdb_call_function'',
      ''gdb_capture_bundle'', ''gdb_run_until_failure'']"

definition ns_timeout :: "pydict \<Rightarrow> int" where
  "ns_timeout ns = (case ns_int ns ''timeout_sec'' of None \<Rightarrow> 30 | Some t \<Rightarrow> t)"

text \<open>\<open>spec.build_arguments(spec.parse_input(args))\<close>: the payload of a tool, or the error of its flags or of its
  model.\<close>

definition client_arguments :: "(string \<Rightarrow> validator) \<Rightarrow> string \<Rightarrow> pydict \<Rightarrow> client_error + pydict" where
  "client_arguments models tool ns =
     (let model = models tool; session = ns_session ns in
      if tool = ''gdb_session_start'' then build_session_start model (parse_session_start_input ns)
      else if tool = ''gdb_session_connect''
      then build_session_connect model (ns_text ns ''endpoint'') (opt_list (ns_texts ns ''init_commands''))
      else if tool = ''gdb_session_query'' then build_session_query model (ns_action ns) session
      else if tool = ''gdb_session_manage'' then build_session_manage model session (ns_action ns)
      else if tool = ''gdb_inferior_query''
      then checked (Inr ()) model (build_inferior_query_payload session (ns_action ns))
      else if tool = ''gdb_inferior_manage'' then build_inferior_manage model (parse_inferior_manage_input ns)
      else if tool = ''gdb_execution_manage'' then build_execution_manage model (parse_execution_manage_input ns)
      else if tool = ''gdb_breakpoint_query'' then build_breakpoint_query model (parse_breakpoint_query_input ns)
      else if tool = ''gdb_breakpoint_manage''
      then build_breakpoint_manage model (parse_breakpoint_manage_input (breakpoint_flags_of ns))
      else if tool = ''gdb_execute_command''
      then build_execute_command model session (ns_text ns ''command'') (ns_timeout ns)
      else if tool = ''gdb_attach_process''
      then build_attach_process model session (dget ns ''pid'') (ns_timeout ns)
      else if tool = ''gdb_context_query'' then build_context_query model (parse_context_query_input ns)
      else if tool = ''gdb_context_manage'' then build_context_manage model (parse_context_manage_input ns)
      else if tool = ''gdb_inspect_query''
      then build_inspect_query model (parse_inspect_query_input (inspect_flags_of ns))
      else if tool = ''gdb_workflow_batch''
      then (case parse_workflow_batch_input models session (ns_events ns ''step_events'') (ns_bool ns ''fail_fast'')
                   (ns_bool ns ''capture_stop_events'') of
              Inl e \<Rightarrow> Inl e | Inr i \<Rightarrow> build_workflow_batch model i)
      else if tool = ''gdb_call_function''
      then build_call_function model session (ns_text ns ''function_call'') (ns_timeout ns)
      else if tool = ''gdb_capture_bundle'' then build_capture_bundle model session (capture_flags_of [] ns)
      else (case parse_run_until_failure_input models (campaign_flags_of ns) (ns_pairs ns ''startup_env'')
                   (ns_events ns ''setup_step_events'') of
              Inl e \<Rightarrow> Inl e | Inr i \<Rightarrow> build_run_until_failure model i))"

definition render_human :: "string \<Rightarrow> pydict \<Rightarrow> string" where
  "render_human tool payload =
     (if tool \<in> {''gdb_session_start'', ''gdb_session_connect''} then render_session_start payload
      else if tool \<in> {''gdb_execute_command'', ''gdb_attach_process'', ''gdb_workflow_batch'', ''gdb_call_function'',
                     ''gdb_capture_bundle'', ''gdb_run_until_failure''}
      then render_mapping payload
      else render_action_payload payload)"

text \<open>\<open>_normalize_tool_name\<close>: the prefix may be left out.\<close>

definition normalize_tool_name :: "string \<Rightarrow> string option" where
  "normalize_tool_name tool_name =
     (if tool_name \<in> set client_tool_names then Some tool_name
      else if ''gdb_'' @ tool_name \<in> set client_tool_names then Some (''gdb_'' @ tool_name)
      else None)"

section \<open>Short commands\<close>

record FacadeCommand =
  fac_tool :: string
  fac_action :: "string option"
  fac_positionals :: "(string \<times> string) list"
  fac_fixed :: "(string \<times> string) list"
  fac_relax :: "string list"

definition short :: "string \<Rightarrow> string option \<Rightarrow> (string \<times> string) list \<Rightarrow> (string \<times> string) list \<Rightarrow> string list \<Rightarrow> FacadeCommand" where
  "short tool action positionals fixed relax =
     \<lparr>fac_tool = tool, fac_action = action, fac_positionals = positionals, fac_fixed = fixed, fac_relax = relax\<rparr>"

definition facade_commands :: "(string \<times> FacadeCommand) list" where
  "facade_commands =
     [(''start'', short ''gdb_session_start'' None [(''program'', ''--program'')] [] []),
      (''connect'', short ''gdb_session_connect'' None [(''endpoint'', ''--endpoint'')] [] [''endpoint'']),
      (''status'', short ''gdb_session_query'' (Some ''list'') [] [] []),
      (''stop'', short ''gdb_session_manage'' (Some ''stop'') [] [] []),
      (''run'', short ''gdb_execution_manage'' (Some ''run'') [] [] []),
      (''continue'', short ''gdb_execution_manage'' (Some ''continue'') [] [] []),
      (''interrupt'', short ''gdb_execution_manage'' (Some ''interrupt'') [] [] []),
      (''step'', short ''gdb_execution_manage'' (Some ''step'') [] [] []),
      (''next'', short ''gdb_execution_manage'' (Some ''next'') [] [] []),
      (''finish'', short ''gdb_execution_manage'' (Some ''finish'') [] [] []),
      (''wait-stop'', short ''gdb_execution_manage'' (Some ''wait_for_stop'') [] [] []),
      (''attach'', short ''gdb_attach_process'' None [(''pid'', ''--pid'')] [] [''pid'']),
      (''bt'', short ''gdb_context_query'' (Some ''backtrace'') [] [] []),
      (''threads'', short ''gdb_context_query'' (Some ''threads'') [] [] []),
      (''frame'', short ''gdb_context_query'' (Some ''frame'') [(''frame'', ''--frame'')] [] []),
      (''locals'', short ''gdb_inspect_query'' (Some ''variables'') [] [] []),
      (''regs'', short ''gdb_inspect_query'' (Some ''registers'') [] [] []),
      (''memory'', short ''gdb_inspect_query'' (Some ''memory'') [(''address'', ''--address'')] [] []),
      (''disasm'', short ''gdb_inspect_query'' (Some ''disassembly'') [] [] []),
      (''list'', short ''gdb_inspect_query'' (Some ''source'') [] [] []),
      (''break add'', short ''gdb_breakpoint_manage'' (Some ''create'') [(''location'', ''--location'')]
         [(''breakpoint_kind'', ''code'')] []),
      (''break list'', short ''gdb_breakpoint_query'' (Some ''list'') [] [] []),
      (''break rm'', short ''gdb_breakpoint_manage'' (Some ''delete'') [(''number'', ''--number'')] [] []),
      (''break enable'', short ''gdb_breakpoint_manage'' (Some ''enable'') [(''number'', ''--number'')] [] []),
      (''break disable'', short ''gdb_breakpoint_manage'' (Some ''disable'') [(''number'', ''--number'')] [] []),
      (''watch'', short ''gdb_breakpoint_manage'' (Some ''create'') [(''expression'', ''--expression'')]
         [(''breakpoint_kind'', ''watch'')] []),
      (''catch'', short ''gdb_breakpoint_manage'' (Some ''create'') [(''event'', ''--event'')]
         [(''breakpoint_kind'', ''catch'')] []),
      (''call'', short ''gdb_call_function'' None [(''function_call'', ''--function-call'')] [] [''function_call'']),
      (''exec'', short ''gdb_execute_command'' None [(''command'', ''--command'')] [] [''command'']),
      (''capture'', short ''gdb_capture_bundle'' None [] [] []),
      (''batch'', short ''gdb_workflow_batch'' None [] [] []),
      (''campaign'', short ''gdb_run_until_failure'' None [] [] [])]"

definition facade_arguments :: "string list" where
  "facade_arguments =
     [''program'', ''endpoint'', ''pid'', ''frame'', ''address'', ''location'', ''number'', ''expression'', ''event'',
      ''function_call'', ''command'']"

definition duplicate_facade_field :: "string \<Rightarrow> client_error" where
  "duplicate_facade_field flag = CliUsageError (''pass either '' @ flag @ '' or the positional argument, not both'')"

definition merge_facade_positional :: "pydict \<Rightarrow> string \<Rightarrow> string \<Rightarrow> client_error + pydict" where
  "merge_facade_positional args argument flag =
     (if argument \<notin> set facade_arguments
      then usage_error (''unsupported facade positional: '' @ argument)
      else if dget args (''_'' @ argument) = PNone then Inr args
      else if dget args argument \<noteq> PNone then Inl (duplicate_facade_field flag)
      else Inr (dset argument (dget args (''_'' @ argument)) args))"

fun merge_positionals :: "pydict \<Rightarrow> (string \<times> string) list \<Rightarrow> client_error + pydict" where
  "merge_positionals args [] = Inr args"
| "merge_positionals args ((argument, flag) # rest) =
     (case merge_facade_positional args argument flag of
        Inl e \<Rightarrow> Inl e
      | Inr args' \<Rightarrow> merge_positionals args' rest)"

fun apply_fixed :: "pydict \<Rightarrow> (string \<times> string) list \<Rightarrow> client_error + pydict" where
  "apply_fixed args [] = Inr args"
| "apply_fixed args ((field_name, v) # rest) =
     (if field_name = ''breakpoint_kind'' \<and> dget args ''breakpoint_kind'' = PNone
      then apply_fixed (dset ''breakpoint_kind'' (PStr v) args) rest
      else if field_name \<noteq> ''breakpoint_kind'' then usage_error (''unsupported facade fixed field: '' @ field_name)
      else apply_fixed args rest)"

definition apply_facade_metadata :: "pydict \<Rightarrow> FacadeCommand \<Rightarrow> client_error + pydict" where
  "apply_facade_metadata args command =
     (case merge_positionals args (fac_positionals command) of
        Inl e \<Rightarrow> Inl e
      | Inr args1 \<Rightarrow>
          apply_fixed (case fac_action command of
                         Some a \<Rightarrow> if dget args1 ''action'' = PNone then dset ''action'' (PStr a) args1 else args1
                       | None \<Rightarrow> args1) (fac_fixed command))"

section \<open>Facts\<close>

text \<open>Every tool the server offers can be called, and no other.\<close>

lemma client_tools_public: "set client_tool_names = set public_tool_names"
  by code_simp

lemma normalize_tool_name_known: "normalize_tool_name t = Some tool \<Longrightarrow> tool \<in> set client_tool_names"
  by (auto simp: normalize_tool_name_def split: if_splits)

text \<open>What every short command of the table satisfies.\<close>

definition facade_ok :: "FacadeCommand \<Rightarrow> bool" where
  "facade_ok c \<longleftrightarrow>
     fac_tool c \<in> set client_tool_names
     \<and> list_all (\<lambda>p. fst p \<in> set facade_arguments) (fac_positionals c)
     \<and> length (fac_positionals c) \<le> 1
     \<and> list_all (\<lambda>p. fst p = ''breakpoint_kind'') (fac_fixed c) \<and> length (fac_fixed c) \<le> 1"

lemma facade_commands_ok: "list_all (\<lambda>p. facade_ok (snd p)) facade_commands"
  by code_simp

lemma apply_fixed_ok: "list_all (\<lambda>p. fst p = ''breakpoint_kind'') fixed \<Longrightarrow> \<exists>args'. apply_fixed args fixed = Inr args'"
  by (induction args fixed rule: apply_fixed.induct) auto

text \<open>What a field of a short command should be: the shorthand, else the flag, else what the command says.\<close>

definition facade_field :: "FacadeCommand \<Rightarrow> pydict \<Rightarrow> string \<Rightarrow> pyv" where
  "facade_field c args k =
     (if k \<in> fst ` set (fac_positionals c) \<and> dget args (''_'' @ k) \<noteq> PNone then dget args (''_'' @ k)
      else if dget args k \<noteq> PNone then dget args k
      else if k = ''action'' then opt_str (fac_action c)
      else if k = ''breakpoint_kind'' then opt_str (map_of (fac_fixed c) k)
      else PNone)"

lemma facade_argument_other: "k \<in> set facade_arguments \<Longrightarrow> k \<noteq> ''action'' \<and> k \<noteq> ''breakpoint_kind''"
proof -
  have "''action'' \<notin> set facade_arguments" "''breakpoint_kind'' \<notin> set facade_arguments"
    by code_simp+
  then show "k \<in> set facade_arguments \<Longrightarrow> k \<noteq> ''action'' \<and> k \<noteq> ''breakpoint_kind''" by metis
qed

lemma apply_fixed_field:
  assumes "list_all (\<lambda>p. fst p = ''breakpoint_kind'') fixed" "length fixed \<le> 1" "apply_fixed args fixed = Inr args'"
  shows "dget args' k = (if dget args k = PNone \<and> k = ''breakpoint_kind'' then opt_str (map_of fixed k) else dget args k)"
proof (cases fixed)
  case Nil
  with assms show ?thesis by (auto simp: opt_str_def)
next
  case (Cons p rest)
  with assms obtain v where "fixed = [(''breakpoint_kind'', v)]" by (cases p) auto
  with assms(3) show ?thesis by (auto simp: opt_str_def split: if_splits)
qed

text \<open>The action and the fixed fields fill what is still open.\<close>

definition with_action :: "FacadeCommand \<Rightarrow> pydict \<Rightarrow> pydict" where
  "with_action c args =
     (case fac_action c of
        Some a \<Rightarrow> if dget args ''action'' = PNone then dset ''action'' (PStr a) args else args
      | None \<Rightarrow> args)"

lemma metadata_steps:
  "apply_facade_metadata args c = (case merge_positionals args (fac_positionals c) of
      Inl e \<Rightarrow> Inl e | Inr args1 \<Rightarrow> apply_fixed (with_action c args1) (fac_fixed c))"
  unfolding apply_facade_metadata_def with_action_def ..

lemma filled_fields:
  assumes "facade_ok c"
  shows "\<exists>args'. apply_fixed (with_action c args1) (fac_fixed c) = Inr args' \<and>
      (\<forall>k. dget args' k = (if dget args1 k \<noteq> PNone then dget args1 k
         else if k = ''action'' then opt_str (fac_action c)
         else if k = ''breakpoint_kind'' then opt_str (map_of (fac_fixed c) k) else PNone))"
proof -
  have fx: "list_all (\<lambda>p. fst p = ''breakpoint_kind'') (fac_fixed c)" "length (fac_fixed c) \<le> 1"
    using assms by (simp_all add: facade_ok_def)
  obtain args' where a: "apply_fixed (with_action c args1) (fac_fixed c) = Inr args'" using apply_fixed_ok [OF fx(1)] by blast
  have "dget (with_action c args1) k = (if dget args1 k = PNone \<and> k = ''action'' then opt_str (fac_action c) else dget args1 k)" for k
    by (auto simp: with_action_def opt_str_def split: option.split)
  then show ?thesis using apply_fixed_field [OF fx a] a by auto
qed

text \<open>The one shorthand of a command.\<close>

lemma merge_one:
  assumes "argument \<in> set facade_arguments"
  shows "merge_positionals args [(argument, flag)] =
    (if dget args (''_'' @ argument) = PNone then Inr args
     else if dget args argument \<noteq> PNone then Inl (duplicate_facade_field flag)
     else Inr (dset argument (dget args (''_'' @ argument)) args))"
  using assms by (simp add: merge_facade_positional_def)



end
