(* ===== verification/Client_Daemon.thy ===== *)
theory Client_Daemon
  imports Results
begin

text \<open>
  The background server of a project (\<open>client/daemon.py\<close>): the cookie that remembers its address and
  the default session, starting it, finding it again and stopping it. The cookie file is the
  dictionary it holds, if it can be read as one; every other answer of the outside world (probes,
  the ready file, process states, the shutdown request) comes from a script, and an exhausted script
  answers that nothing is there. Time is in milliseconds and passes in probes and sleeps.
\<close>

section \<open>State\<close>

datatype http_answer = HttpError string | HttpResponse nat pyv

record project =
  pj_cookie :: "pydict option"
  pj_clock :: nat
  pj_probes :: "(bool \<times> nat) list"
  pj_spawns :: "(exn + int) list"
  pj_ready :: "pyv option list"
  pj_polls :: "int option list"
  pj_alive :: "bool list"
  pj_posts :: "http_answer list"
  pj_started :: "int list"
  pj_killed :: "int list"
  pj_terminated :: "int list"

type_synonym 'a daemon = "(project, 'a) exec"

text \<open>What one invocation knows: the root of the project, the token for a new server, the log file and
  its lines, and the time of day.\<close>

record daemon_env =
  de_root :: string
  de_token :: string
  de_log_path :: string
  de_log_lines :: "string list"
  de_time :: pyv

record ResolvedServer =
  rs_url :: string
  rs_token :: "string option"
  rs_spawned :: bool
  rs_managed :: bool

record StopResult =
  sr_stopped :: bool
  sr_message :: string

definition ready_timeout :: nat where "ready_timeout = 20000"
definition probe_timeout :: nat where "probe_timeout = 3000"
definition stop_timeout :: nat where "stop_timeout = 10000"

text \<open>The next answer of a script.\<close>

definition next_answer :: "'a \<Rightarrow> 'a list \<Rightarrow> 'a \<times> 'a list" where
  "next_answer d xs = (case xs of [] \<Rightarrow> (d, []) | x # rest \<Rightarrow> (x, rest))"

section \<open>The cookie\<close>

definition read_cookie :: "pydict option daemon" where
  "read_cookie = gets pj_cookie"

definition write_cookie :: "pydict \<Rightarrow> unit daemon" where
  "write_cookie data = modify (\<lambda>p. p\<lparr>pj_cookie := Some data\<rparr>)"

definition remove_cookie :: "unit daemon" where
  "remove_cookie = modify (\<lambda>p. p\<lparr>pj_cookie := None\<rparr>)"

definition cookie_token :: "pydict \<Rightarrow> string option" where
  "cookie_token cookie = as_text (dget cookie ''token'')"

text \<open>A number, or a truth value, which counts as one.\<close>

definition int_value :: "pyv \<Rightarrow> int option" where
  "int_value v = (case v of PInt i \<Rightarrow> Some i | PBool b \<Rightarrow> Some (if b then 1 else 0) | _ \<Rightarrow> None)"

definition remembered_session_id :: "int option daemon" where
  "remembered_session_id =
     bindE read_cookie (\<lambda>cookie. ret (Option.bind cookie (\<lambda>c. int_value (dget c ''last_session_id''))))"

definition remember_session_id :: "int \<Rightarrow> unit daemon" where
  "remember_session_id session_id =
     bindE read_cookie (\<lambda>cookie.
       write_cookie (dset ''last_session_id'' (PInt session_id) (case cookie of None \<Rightarrow> [] | Some c \<Rightarrow> c)))"

definition forget_session_id :: "unit daemon" where
  "forget_session_id =
     bindE read_cookie (\<lambda>cookie.
       case cookie of
         None \<Rightarrow> ret ()
       | Some c \<Rightarrow>
           if \<not> dhas c ''last_session_id'' then ret ()
           else write_cookie (filter (\<lambda>p. fst p \<noteq> ''last_session_id'') c))"

section \<open>Probes and processes\<close>

definition sleep :: "nat \<Rightarrow> unit daemon" where
  "sleep ms = modify (\<lambda>p. p\<lparr>pj_clock := pj_clock p + ms\<rparr>)"

definition server_reachable :: "bool daemon" where
  "server_reachable p =
     (case next_answer (False, 0) (pj_probes p) of
        ((ok, ms), rest) \<Rightarrow> (Inr ok, p\<lparr>pj_probes := rest, pj_clock := pj_clock p + min ms probe_timeout\<rparr>))"

definition poll_process :: "int option daemon" where
  "poll_process p =
     (case next_answer None (pj_polls p) of (code, rest) \<Rightarrow> (Inr code, p\<lparr>pj_polls := rest\<rparr>))"

definition read_ready :: "pydict option daemon" where
  "read_ready p =
     (case next_answer None (pj_ready p) of
        (data, rest) \<Rightarrow>
          (Inr (case Option.bind data as_optional_mapping of
                  None \<Rightarrow> None
                | Some d \<Rightarrow> if dhas d ''port'' then Some d else None),
           p\<lparr>pj_ready := rest\<rparr>))"

definition kill_process :: "int \<Rightarrow> unit daemon" where
  "kill_process pid = modify (\<lambda>p. p\<lparr>pj_killed := pid # pj_killed p\<rparr>)"

definition log_tail :: "daemon_env \<Rightarrow> string" where
  "log_tail env = join [CHR 0x0A] (drop (length (de_log_lines env) - 20) (de_log_lines env))"

definition daemon_error :: "string \<Rightarrow> 'a daemon" where
  "daemon_error message = throw (Exn RuntimeError message)"

lemma read_ready_clock: "read_ready p = (r, p1) \<Longrightarrow> pj_clock p1 = pj_clock p"
  by (auto simp: read_ready_def split: prod.splits)

lemma poll_process_clock: "poll_process p = (r, p1) \<Longrightarrow> pj_clock p1 = pj_clock p"
  by (auto simp: poll_process_def split: prod.splits)

text \<open>\<open>_wait_for_ready\<close>: look for the ready file until the deadline, as long as the process runs.\<close>

function wait_for_ready :: "daemon_env \<Rightarrow> nat \<Rightarrow> pydict daemon" where
  "wait_for_ready env deadline p =
     (if pj_clock p < deadline then
        (case read_ready p of
           (Inr (Some data), p1) \<Rightarrow> (Inr data, p1)
         | (Inr None, p1) \<Rightarrow>
             (case poll_process p1 of
                (Inr (Some code), p2) \<Rightarrow>
                  daemon_error (''background server exited with code '' @ show_int code @ [CHR 0x0A] @ log_tail env) p2
              | (Inr None, p2) \<Rightarrow> wait_for_ready env deadline (p2\<lparr>pj_clock := pj_clock p2 + 50\<rparr>)
              | (Inl e, p2) \<Rightarrow> (Inl e, p2))
         | (Inl e, p1) \<Rightarrow> (Inl e, p1))
      else daemon_error (''background server did not become ready'' @ [CHR 0x0A] @ log_tail env) p)"
  by pat_completeness auto

termination
  by (relation "measure (\<lambda>(env, deadline, p). deadline - pj_clock p)")
    (fastforce dest: read_ready_clock poll_process_clock dest!: sym [of "(_, _)"])+

lemma server_reachable_clock: "server_reachable p = (r, p1) \<Longrightarrow> pj_clock p \<le> pj_clock p1"
  by (auto simp: server_reachable_def split: prod.splits)

text \<open>The loop over \<open>_server_reachable\<close> after the ready file was found.\<close>

function wait_until_reachable :: "daemon_env \<Rightarrow> nat \<Rightarrow> int \<Rightarrow> unit daemon" where
  "wait_until_reachable env deadline pid p =
     (case server_reachable p of
        (Inr True, p1) \<Rightarrow> (Inr (), p1)
      | (Inr False, p1) \<Rightarrow>
          (case poll_process p1 of
             (Inr code, p2) \<Rightarrow>
               if code \<noteq> None \<or> pj_clock p2 \<ge> deadline
               then thenE (kill_process pid)
                      (daemon_error (''background server failed its readiness probe'' @ [CHR 0x0A] @ log_tail env)) p2
               else wait_until_reachable env deadline pid (p2\<lparr>pj_clock := pj_clock p2 + 100\<rparr>)
           | (Inl e, p2) \<Rightarrow> (Inl e, p2))
      | (Inl e, p1) \<Rightarrow> (Inl e, p1))"
  by pat_completeness auto

termination
  by (relation "measure (\<lambda>(env, deadline, pid, p). deadline - pj_clock p)")
    (fastforce dest: server_reachable_clock poll_process_clock dest!: sym [of "(_, _)"])+

declare wait_for_ready.simps [simp del] wait_until_reachable.simps [simp del]

section \<open>Starting and finding the server\<close>

definition spawn_daemon :: "int daemon" where
  "spawn_daemon p =
     (case next_answer (Inl (Exn OSError ''no process'')) (pj_spawns p) of
        (Inl e, rest) \<Rightarrow> (Inl e, p\<lparr>pj_spawns := rest\<rparr>)
      | (Inr pid, rest) \<Rightarrow> (Inr pid, p\<lparr>pj_spawns := rest, pj_started := pid # pj_started p\<rparr>))"

text \<open>\<open>f"http://{ready['host']}:{ready['port']}{ready['path']}"\<close>; a missing key raises.\<close>

definition ready_url :: "pydict \<Rightarrow> exn + string" where
  "ready_url ready =
     (if \<not> dhas ready ''host'' then Inl (Exn OtherError (repr_str ''host''))
      else if \<not> dhas ready ''port'' then Inl (Exn OtherError (repr_str ''port''))
      else if \<not> dhas ready ''path'' then Inl (Exn OtherError (repr_str ''path''))
      else Inr (''http://'' @ py_str (dget ready ''host'') @ '':'' @ py_str (dget ready ''port'')
                @ py_str (dget ready ''path'')))"

text \<open>\<open>except DaemonError: process.kill(); ...; raise\<close>: \<open>_wait_for_ready\<close> raises nothing else.\<close>

definition spawn :: "daemon_env \<Rightarrow> ResolvedServer daemon" where
  "spawn env =
     bindE spawn_daemon (\<lambda>pid.
     bindE (gets pj_clock) (\<lambda>now.
     bindE (catchE (wait_for_ready env (now + ready_timeout))
              (\<lambda>e. thenE (kill_process pid) (throw e))) (\<lambda>ready.
     bindE (from_sum (ready_url ready)) (\<lambda>url.
     bindE (gets pj_clock) (\<lambda>now.
     thenE (wait_until_reachable env (now + ready_timeout) pid)
    (thenE (write_cookie [(''pid'', PInt pid), (''url'', PStr url), (''token'', PStr (de_token env)),
              (''log'', PStr (de_log_path env)), (''started_at'', de_time env)])
       (ret \<lparr>rs_url = url, rs_token = Some (de_token env), rs_spawned = True, rs_managed = True\<rparr>)))))))"

definition resolved_from_cookie :: "pydict \<Rightarrow> ResolvedServer option daemon" where
  "resolved_from_cookie cookie =
     (case as_text (dget cookie ''url'') of
        None \<Rightarrow> ret None
      | Some url \<Rightarrow>
          bindE server_reachable (\<lambda>ok.
            ret (if ok then Some \<lparr>rs_url = url, rs_token = cookie_token cookie, rs_spawned = False, rs_managed = True\<rparr>
                 else None)))"

text \<open>The part of \<open>resolve_server\<close> under the lock of the project.\<close>

definition resolve_locked :: "daemon_env \<Rightarrow> ResolvedServer daemon" where
  "resolve_locked env =
     bindE read_cookie (\<lambda>cookie.
       case cookie of
         None \<Rightarrow> spawn env
       | Some c \<Rightarrow>
           bindE (resolved_from_cookie c) (\<lambda>resolved.
             case resolved of Some r \<Rightarrow> ret r | None \<Rightarrow> thenE remove_cookie (spawn env)))"

definition resolve_server :: "daemon_env \<Rightarrow> string option \<Rightarrow> string option \<Rightarrow> ResolvedServer daemon" where
  "resolve_server env explicit_url env_token =
     (if str_truthy explicit_url
      then ret \<lparr>rs_url = the explicit_url, rs_token = env_token, rs_spawned = False, rs_managed = False\<rparr>
      else bindE read_cookie (\<lambda>cookie.
        case cookie of
          None \<Rightarrow> resolve_locked env
        | Some c \<Rightarrow>
            bindE (resolved_from_cookie c) (\<lambda>resolved.
              case resolved of Some r \<Rightarrow> ret r | None \<Rightarrow> resolve_locked env)))"

section \<open>Status and stopping\<close>

text \<open>The status command in the pieces between which other invocations can run: it takes no lock.\<close>

definition status_probe :: "pydict \<Rightarrow> bool daemon" where
  "status_probe cookie =
     (case as_text (dget cookie ''url'') of None \<Rightarrow> ret False | Some url \<Rightarrow> server_reachable)"

definition status_finish :: "daemon_env \<Rightarrow> pydict \<Rightarrow> bool \<Rightarrow> string daemon" where
  "status_finish env cookie ok =
     (if ok then ret (''running: '' @ py_str (dget cookie ''url'') @ '' (pid '' @ py_str (dget cookie ''pid'') @ '')'')
      else thenE remove_cookie (ret (''stale cookie removed for '' @ de_root env)))"

definition daemon_status :: "daemon_env \<Rightarrow> string daemon" where
  "daemon_status env =
     bindE read_cookie (\<lambda>cookie.
       case cookie of
         None \<Rightarrow> ret (''no background server for '' @ de_root env)
       | Some c \<Rightarrow> bindE (status_probe c) (status_finish env c))"

definition process_alive :: "int \<Rightarrow> bool daemon" where
  "process_alive pid p =
     (if pid \<le> 0 then (Inr False, p)
      else case next_answer False (pj_alive p) of (alive, rest) \<Rightarrow> (Inr alive, p\<lparr>pj_alive := rest\<rparr>))"

definition post_shutdown :: "http_answer daemon" where
  "post_shutdown p =
     (case next_answer (HttpError ''no answer'') (pj_posts p) of (a, rest) \<Rightarrow> (Inr a, p\<lparr>pj_posts := rest\<rparr>))"

lemma process_alive_clock: "process_alive pid p = (r, p1) \<Longrightarrow> pj_clock p1 = pj_clock p"
  by (auto simp: process_alive_def split: prod.splits if_splits)

text \<open>\<open>while time.monotonic() < deadline and _process_alive(pid): sleep(0.1)\<close>.\<close>

function wait_until_gone :: "nat \<Rightarrow> int \<Rightarrow> unit daemon" where
  "wait_until_gone deadline pid p =
     (if pj_clock p < deadline then
        (case process_alive pid p of
           (Inr True, p1) \<Rightarrow> wait_until_gone deadline pid (p1\<lparr>pj_clock := pj_clock p1 + 100\<rparr>)
         | (Inr False, p1) \<Rightarrow> (Inr (), p1)
         | (Inl e, p1) \<Rightarrow> (Inl e, p1))
      else (Inr (), p))"
  by pat_completeness auto

termination
  by (relation "measure (\<lambda>(deadline, pid, p). deadline - pj_clock p)")
    (fastforce dest: process_alive_clock dest!: sym [of "(_, _)"])+

declare wait_until_gone.simps [simp del]

definition terminate_process :: "int \<Rightarrow> unit daemon" where
  "terminate_process pid = modify (\<lambda>p. p\<lparr>pj_terminated := pid # pj_terminated p\<rparr>)"

definition wait_and_terminate :: "int \<Rightarrow> unit daemon" where
  "wait_and_terminate pid =
     bindE (gets pj_clock) (\<lambda>now.
     thenE (wait_until_gone (now + stop_timeout) pid)
    (bindE (process_alive pid) (\<lambda>alive.
       if alive then
         thenE (terminate_process pid)
        (bindE (gets pj_clock) (\<lambda>now. wait_until_gone (now + 3000) pid))
       else ret ())))"

text \<open>The end of \<open>stop_daemon\<close>, once the server did not refuse.\<close>

definition finish_stop :: "daemon_env \<Rightarrow> int option \<Rightarrow> string option \<Rightarrow> StopResult daemon" where
  "finish_stop env pid request_error =
     thenE (case pid of None \<Rightarrow> ret () | Some n \<Rightarrow> wait_and_terminate n)
    (thenE remove_cookie
    (bindE (case (request_error, pid) of (Some m, Some n) \<Rightarrow> process_alive n | _ \<Rightarrow> ret False) (\<lambda>alive.
       ret (case request_error of
              Some m \<Rightarrow> if alive then \<lparr>sr_stopped = False, sr_message = ''could not stop background server: '' @ m\<rparr>
                        else \<lparr>sr_stopped = True, sr_message = ''stopped background server for '' @ de_root env\<rparr>
            | None \<Rightarrow> \<lparr>sr_stopped = True, sr_message = ''stopped background server for '' @ de_root env\<rparr>))))"

definition refusal_message :: "pyv \<Rightarrow> exn + string" where
  "refusal_message body =
     (case body of
        PDict d \<Rightarrow> Inr (py_str (dget_default d ''message'' (PStr ''background server refused to stop'')))
      | _ \<Rightarrow> Inl (Exn AttributeError ''no attribute get''))"

definition stop_daemon :: "daemon_env \<Rightarrow> StopResult daemon" where
  "stop_daemon env =
     bindE read_cookie (\<lambda>cookie.
       case cookie of
         None \<Rightarrow> ret \<lparr>sr_stopped = True, sr_message = ''no background server for '' @ de_root env\<rparr>
       | Some c \<Rightarrow>
           if as_text (dget c ''url'') = None
           then thenE remove_cookie (ret \<lparr>sr_stopped = True, sr_message = ''removed invalid cookie for '' @ de_root env\<rparr>)
           else bindE post_shutdown (\<lambda>answer.
             case answer of
               HttpResponse status body \<Rightarrow>
                 if status = 409
                 then bindE (from_sum (refusal_message body)) (\<lambda>m. ret \<lparr>sr_stopped = False, sr_message = m\<rparr>)
                 else if status \<ge> 400
                 then ret \<lparr>sr_stopped = False, sr_message = ''background server returned HTTP '' @ show_nat status\<rparr>
                 else finish_stop env (int_value (dget c ''pid'')) None
             | HttpError m \<Rightarrow> finish_stop env (int_value (dget c ''pid'')) (Some m)))"

end
