(* ===== verification/Client_Cli.thy ===== *)
theory Client_Cli
  imports Client_Tools Client_Daemon
begin

text \<open>
  One invocation of the command line client (\<open>client/cli.py\<close>), from the parsed command line to its exit
  code: the meta commands, finding the server, the payload with the default session, the call, what is
  remembered and what is printed. The answers of the server come from a script; every call is recorded
  with its answer, the newest first. The parsing itself is argparse's.
\<close>

section \<open>Tokens\<close>

text \<open>\<open>token.split("=", 1)[0]\<close>.\<close>

definition flag_name :: "string \<Rightarrow> string" where
  "flag_name token = takeWhile (\<lambda>c. c \<noteq> CHR ''='') token"

definition global_flags :: "string list" where
  "global_flags = [''--server-url'', ''--json'', ''--payload-json'']"

definition field_flags_requested :: "string list \<Rightarrow> string list" where
  "field_flags_requested tokens =
     filter (\<lambda>name. startswith name ''--'' \<and> name \<notin> set global_flags) (map flag_name tokens)"

definition strip_tool_prefix :: "string list \<Rightarrow> string list" where
  "strip_tool_prefix tokens = (case tokens of t # rest \<Rightarrow> (if t = ''tool'' then rest else tokens) | [] \<Rightarrow> [])"

definition payload_mode :: "string list \<Rightarrow> bool" where
  "payload_mode tokens = list_ex (\<lambda>t. flag_name t = ''--payload-json'') tokens"

section \<open>State\<close>

text \<open>An exception of a call: its type and text; a group also carries the exceptions it groups.\<close>

datatype client_exn = Leaf string string | Group string string "client_exn list"

fun format_runtime_error :: "client_exn \<Rightarrow> string" where
  "format_runtime_error (Leaf ty m) = (if strip m \<noteq> [] then strip m else ty)"
| "format_runtime_error (Group ty m []) = (if m \<noteq> [] then m else ty)"
| "format_runtime_error (Group ty m (e # es)) = format_runtime_error e"

datatype printed = TextOut string | JsonOut pydict

record tool_call =
  tcl_url :: string
  tcl_token :: "string option"
  tcl_tool :: string
  tcl_arguments :: pydict
  tcl_answer :: "client_exn + ClientToolResponse"

record cli =
  cl_project :: project
  cl_answers :: "(client_exn + received_result) list"
  cl_calls :: "tool_call list"
  cl_out :: "printed list"
  cl_err :: "string list"

text \<open>A command either goes on with a value or ends with an exit code.\<close>

type_synonym 'a command = "cli \<Rightarrow> (nat + 'a) \<times> cli"

definition yields :: "'a \<Rightarrow> 'a command" where
  "yields x s = (Inr x, s)"

definition exits :: "nat \<Rightarrow> 'a command" where
  "exits code s = (Inl code, s)"

definition followed :: "'a command \<Rightarrow> ('a \<Rightarrow> 'b command) \<Rightarrow> 'b command" where
  "followed m f s = (case m s of (Inl code, s1) \<Rightarrow> (Inl code, s1) | (Inr x, s1) \<Rightarrow> f x s1)"

definition print_out :: "printed \<Rightarrow> unit command" where
  "print_out p s = (Inr (), s\<lparr>cl_out := p # cl_out s\<rparr>)"

definition error_line :: "string \<Rightarrow> string" where
  "error_line m = ''gdb-mcp-client: error: '' @ m"

definition report :: "string \<Rightarrow> nat \<Rightarrow> 'a command" where
  "report line code s = (Inl code, s\<lparr>cl_err := line # cl_err s\<rparr>)"

text \<open>\<open>parser.error\<close> ends the process with code 2.\<close>

definition parser_error :: "string \<Rightarrow> 'a command" where
  "parser_error m = report (error_line m) 2"

text \<open>An operation on the project; an exception nobody catches ends the process with code 1.\<close>

definition in_project :: "'a daemon \<Rightarrow> 'a command" where
  "in_project m s =
     (case m (cl_project s) of
        (Inr x, p) \<Rightarrow> (Inr x, s\<lparr>cl_project := p\<rparr>)
      | (Inl e, p) \<Rightarrow> (Inl 1, s\<lparr>cl_project := p\<rparr>))"

definition resolve_command :: "daemon_env \<Rightarrow> string option \<Rightarrow> string option \<Rightarrow> ResolvedServer command" where
  "resolve_command env url env_token s =
     (case resolve_server env url env_token (cl_project s) of
        (Inr r, p) \<Rightarrow> (Inr r, s\<lparr>cl_project := p\<rparr>)
      | (Inl e, p) \<Rightarrow>
          if exn_class e = RuntimeError then report (error_line (exn_text e)) 1 (s\<lparr>cl_project := p\<rparr>)
          else (Inl 1, s\<lparr>cl_project := p\<rparr>))"

definition invoke_tool ::
  "string \<Rightarrow> string option \<Rightarrow> string \<Rightarrow> pydict \<Rightarrow> (client_exn + ClientToolResponse) command" where
  "invoke_tool url token tool arguments s =
     (case next_answer (Inl (Leaf ''ConnectError'' ''no answer'')) (cl_answers s) of
        (a, rest) \<Rightarrow>
          let answer = (case a of
                 Inl e \<Rightarrow> Inl e
               | Inr r \<Rightarrow> (case client_response r of Inl e \<Rightarrow> Inl (Leaf ''ValueError'' (exn_text e)) | Inr resp \<Rightarrow> Inr resp)) in
          (Inr answer, s\<lparr>cl_answers := rest,
             cl_calls := \<lparr>tcl_url = url, tcl_token = token, tcl_tool = tool, tcl_arguments = arguments, tcl_answer = answer\<rparr>
               # cl_calls s\<rparr>))"

text \<open>A call whose exceptions are reported.\<close>

definition call_tool :: "ResolvedServer \<Rightarrow> string \<Rightarrow> pydict \<Rightarrow> ClientToolResponse command" where
  "call_tool res tool arguments =
     followed (invoke_tool (rs_url res) (rs_token res) tool arguments) (\<lambda>answer.
       case answer of
         Inl e \<Rightarrow> report (error_line (format_runtime_error e)) 1
       | Inr resp \<Rightarrow> yields resp)"

section \<open>Meta commands\<close>

definition answer_message :: "ClientToolResponse \<Rightarrow> string \<Rightarrow> string" where
  "answer_message resp d = str_or (tev_message (envelope_from_payload (ctp_payload resp))) d"

definition session_current :: "unit command" where
  "session_current =
     followed (in_project remembered_session_id) (\<lambda>remembered.
       case remembered of
         None \<Rightarrow> report ''gdb-mcp-client: no default session for this project'' 1
       | Some i \<Rightarrow> followed (print_out (TextOut (show_int i))) (\<lambda>_. exits 0))"

definition session_use :: "daemon_env \<Rightarrow> string option \<Rightarrow> string option \<Rightarrow> int \<Rightarrow> unit command" where
  "session_use env url env_token session_id =
     followed (resolve_command env url env_token) (\<lambda>res.
       if \<not> rs_managed res
       then report (error_line (''default sessions need the project background server; ''
              @ ''pass --session-id when using --server-url'')) 1
       else followed (call_tool res ''gdb_session_query''
                       [(''action'', PStr ''status''), (''session_id'', PInt session_id)]) (\<lambda>resp.
         if ctp_is_error resp then report (error_line (answer_message resp ''request failed'')) 1
         else followed (in_project (remember_session_id session_id)) (\<lambda>_.
           followed (print_out (TextOut (''default session: '' @ show_int session_id))) (\<lambda>_. exits 0))))"

definition daemon_status_command :: "daemon_env \<Rightarrow> unit command" where
  "daemon_status_command env =
     followed (in_project (daemon_status env)) (\<lambda>line. followed (print_out (TextOut line)) (\<lambda>_. exits 0))"

definition daemon_stop_command :: "daemon_env \<Rightarrow> unit command" where
  "daemon_stop_command env =
     followed (in_project (stop_daemon env)) (\<lambda>result.
       followed (print_out (TextOut (sr_message result))) (\<lambda>_. exits (if sr_stopped result then 0 else 1)))"

section \<open>Tool calls\<close>

text \<open>A missing session id among the errors of a model.\<close>

definition session_id_error :: "pydict list \<Rightarrow> bool" where
  "session_id_error errors =
     list_ex (\<lambda>e. PStr ''session_id'' \<in> set (error_location e)
       \<and> (dget e ''type'' = PStr ''missing'' \<or> dget e ''type'' = PStr ''int_type'')) errors"

definition client_error_exit :: "client_error \<Rightarrow> 'a command" where
  "client_error_exit e =
     (case e of
        CliUsageError m \<Rightarrow> parser_error m
      | ArgumentTypeError m \<Rightarrow> parser_error m
      | ValidationError errors \<Rightarrow> parser_error (format_validation_error errors))"

text \<open>The payload and the namespace, into which the default session may have been put.\<close>

definition build_payload ::
  "(string \<Rightarrow> validator) \<Rightarrow> string \<Rightarrow> pydict \<Rightarrow> ResolvedServer \<Rightarrow> (pydict \<times> pydict) command" where
  "build_payload models tool args res =
     (case client_arguments models tool args of
        Inr payload \<Rightarrow> yields (payload, args)
      | Inl (ValidationError errors) \<Rightarrow>
          if \<not> rs_managed res \<or> \<not> session_id_error errors then client_error_exit (ValidationError errors)
          else followed (in_project remembered_session_id) (\<lambda>remembered.
            case remembered of
              None \<Rightarrow> parser_error ''--session-id required: no debug session is recorded for this project yet''
            | Some i \<Rightarrow>
                let args1 = dset ''session_id'' (PInt i) args in
                (case client_arguments models tool args1 of
                   Inr payload \<Rightarrow> yields (payload, args1)
                 | Inl e \<Rightarrow> client_error_exit e))
      | Inl e \<Rightarrow> client_error_exit e)"

definition session_id_from_payload :: "pydict \<Rightarrow> int option" where
  "session_id_from_payload payload =
     (let e = envelope_from_payload payload in
      case tev_session_id e of
        Some i \<Rightarrow> Some i
      | None \<Rightarrow> (case tev_result e of Some r \<Rightarrow> as_int (dget r ''session_id'') | None \<Rightarrow> None))"

definition remember_if_managed :: "ResolvedServer \<Rightarrow> int \<Rightarrow> unit command" where
  "remember_if_managed res i = (if rs_managed res then in_project (remember_session_id i) else yields ())"

definition start_for_attach :: "pydict \<Rightarrow> ResolvedServer \<Rightarrow> pydict command" where
  "start_for_attach args res =
     followed (call_tool res ''gdb_session_start'' []) (\<lambda>resp.
       if ctp_is_error resp then parser_error (answer_message resp ''could not start a session to attach to'')
       else case session_id_from_payload (ctp_payload resp) of
         None \<Rightarrow> parser_error ''could not start a session to attach to''
       | Some i \<Rightarrow> followed (remember_if_managed res i) (\<lambda>_. yields (dset ''session_id'' (PInt i) args)))"

definition ensure_attach_session :: "pydict \<Rightarrow> ResolvedServer \<Rightarrow> pydict command" where
  "ensure_attach_session args res =
     (if dget args ''session_id'' \<noteq> PNone then yields args
      else followed (if rs_managed res then in_project remembered_session_id else yields None) (\<lambda>remembered.
        case remembered of
          Some i \<Rightarrow> yields (dset ''session_id'' (PInt i) args)
        | None \<Rightarrow> start_for_attach args res))"

definition payload_reports_step_failures :: "pydict \<Rightarrow> bool" where
  "payload_reports_step_failures payload =
     (case tev_error_count (envelope_from_payload payload) of None \<Rightarrow> False | Some n \<Rightarrow> n > 0)"

text \<open>After the call: a new session becomes the default, and the default session is forgotten when it was
  stopped.\<close>

definition remember_new_session :: "string \<Rightarrow> ResolvedServer \<Rightarrow> ClientToolResponse \<Rightarrow> unit command" where
  "remember_new_session tool res resp =
     (if rs_managed res \<and> \<not> ctp_is_error resp \<and> (tool = ''gdb_session_start'' \<or> tool = ''gdb_session_connect'')
      then (case session_id_from_payload (ctp_payload resp) of
              None \<Rightarrow> yields () | Some i \<Rightarrow> in_project (remember_session_id i))
      else yields ())"

definition forget_stopped_session ::
  "string \<Rightarrow> int option \<Rightarrow> ResolvedServer \<Rightarrow> ClientToolResponse \<Rightarrow> unit command" where
  "forget_stopped_session tool session_id res resp =
     (if rs_managed res \<and> \<not> ctp_is_error resp \<and> tool = ''gdb_session_manage''
         \<and> tev_action (envelope_from_payload (ctp_payload resp)) = Some ''stop''
      then followed (in_project remembered_session_id) (\<lambda>remembered.
             if session_id = remembered then in_project forget_session_id else yields ())
      else yields ())"

definition session_listed :: "pydict \<Rightarrow> int \<Rightarrow> bool" where
  "session_listed payload i =
     (case tev_result (envelope_from_payload payload) of
        None \<Rightarrow> False
      | Some r \<Rightarrow> (case dget r ''sessions'' of
            PList xs \<Rightarrow> list_ex (\<lambda>x. case x of PDict d \<Rightarrow> dget d ''session_id'' = PInt i | _ \<Rightarrow> False) xs
          | _ \<Rightarrow> False))"

definition default_session_annotation :: "string \<Rightarrow> pydict \<Rightarrow> ResolvedServer \<Rightarrow> string command" where
  "default_session_annotation tool payload res =
     (if \<not> rs_managed res \<or> tool \<noteq> ''gdb_session_query'' \<or> \<not> is_list_action (envelope_from_payload payload)
      then yields []
      else followed (in_project remembered_session_id) (\<lambda>remembered.
        case remembered of
          None \<Rightarrow> yields []
        | Some i \<Rightarrow> yields ([CHR 0x0A] @ ''default session: '' @ show_int i
            @ (if session_listed payload i then [] else '' (not running)''))))"

definition print_answer :: "bool \<Rightarrow> string \<Rightarrow> pydict \<Rightarrow> ResolvedServer \<Rightarrow> unit command" where
  "print_answer json tool payload res =
     (if json then print_out (JsonOut payload)
      else followed (default_session_annotation tool payload res) (\<lambda>note.
        print_out (TextOut (render_human tool payload @ note))))"

text \<open>From the payload to the exit code.\<close>

definition call_and_finish :: "bool \<Rightarrow> string \<Rightarrow> pydict \<Rightarrow> pydict \<Rightarrow> ResolvedServer \<Rightarrow> unit command" where
  "call_and_finish json tool payload args res =
     followed (call_tool res tool payload) (\<lambda>resp.
     followed (remember_new_session tool res resp) (\<lambda>_.
     followed (forget_stopped_session tool (ns_session args) res resp) (\<lambda>_.
     followed (print_answer json tool (ctp_payload resp) res) (\<lambda>_.
       exits (if ctp_is_error resp then 1
              else if payload_reports_step_failures (ctp_payload resp) then 1 else 0)))))"

text \<open>An invocation with flags: a tool by name, or a short command, with the parsed namespace.\<close>

definition run_field_command ::
  "daemon_env \<Rightarrow> (string \<Rightarrow> validator) \<Rightarrow> string option \<Rightarrow> string option \<Rightarrow> bool \<Rightarrow> string \<Rightarrow> FacadeCommand option \<Rightarrow>
     pydict \<Rightarrow> unit command" where
  "run_field_command env models url env_token json tool_name facade args =
     (case normalize_tool_name tool_name of
        None \<Rightarrow> parser_error (''unknown tool: '' @ tool_name)
      | Some tool \<Rightarrow>
          followed (resolve_command env url env_token) (\<lambda>res.
          followed (case facade of
                      None \<Rightarrow> yields args
                    | Some c \<Rightarrow> (case apply_facade_metadata args c of Inl e \<Rightarrow> client_error_exit e | Inr a \<Rightarrow> yields a)) (\<lambda>args1.
          followed (if tool = ''gdb_attach_process'' then ensure_attach_session args1 res else yields args1) (\<lambda>args2.
          followed (build_payload models tool args2 res) (\<lambda>(payload, args3).
            call_and_finish json tool payload args3 res)))))"

text \<open>\<open>--payload-json\<close>: the text is decoded to a value, or the decoder raises; the namespace has no session.\<close>

definition payload_from_json :: "(string \<Rightarrow> validator) \<Rightarrow> string \<Rightarrow> string + pyv \<Rightarrow> pydict command" where
  "payload_from_json models tool parsed =
     (case parsed of
        Inl m \<Rightarrow> parser_error (''--payload-json is not valid JSON: '' @ m)
      | Inr (PDict d) \<Rightarrow>
          (case models tool d of
             Inl errors \<Rightarrow> client_error_exit (ValidationError errors)
           | Inr payload \<Rightarrow> yields payload)
      | Inr v \<Rightarrow> parser_error ''--payload-json must be a JSON object'')"

definition run_payload_command ::
  "daemon_env \<Rightarrow> (string \<Rightarrow> validator) \<Rightarrow> string list \<Rightarrow> string option \<Rightarrow> string option \<Rightarrow> bool \<Rightarrow> string \<Rightarrow> string + pyv \<Rightarrow>
     unit command" where
  "run_payload_command env models tokens url env_token json tool_name parsed =
     (let conflicting = field_flags_requested (strip_tool_prefix tokens) in
      if conflicting \<noteq> []
      then parser_error (''--payload-json cannot be combined with field flags: ''
             @ join '', '' (sort (remdups conflicting)))
      else case normalize_tool_name tool_name of
        None \<Rightarrow> parser_error (''unknown tool: '' @ tool_name)
      | Some tool \<Rightarrow>
          followed (resolve_command env url env_token) (\<lambda>res.
          followed (payload_from_json models tool parsed) (\<lambda>payload.
            call_and_finish json tool payload [] res)))"

end
