(* ===== verification/Client_Daemon_Correct.thy ===== *)
theory Client_Daemon_Correct
  imports Client_Daemon
begin

text \<open>
  Properties of the background server's management: what an invocation may start and what it leaves
  in the cookie, the default session, what a stop request reports, and a race between the status
  command and a start.
\<close>

section \<open>Starting\<close>

text \<open>The part of a project that scripts and time do not touch.\<close>

definition books :: "project \<Rightarrow> int list \<times> int list \<times> int list \<times> pydict option" where
  "books p = (pj_started p, pj_killed p, pj_terminated p, pj_cookie p)"

lemma books_clock [simp]: "books (p\<lparr>pj_clock := n\<rparr>) = books p"
  by (simp add: books_def)

lemma read_ready_total: "\<exists>d p1. read_ready p = (Inr d, p1) \<and> books p1 = books p"
  by (simp add: read_ready_def books_def split: prod.split)

lemma poll_process_total: "\<exists>c p1. poll_process p = (Inr c, p1) \<and> books p1 = books p"
  by (simp add: poll_process_def books_def split: prod.split)

lemma server_reachable_total: "\<exists>b p1. server_reachable p = (Inr b, p1) \<and> books p1 = books p"
  by (simp add: server_reachable_def books_def split: prod.split)

lemma daemon_error_run: "daemon_error m p = (Inl (Exn RuntimeError m), p)"
  by (simp add: daemon_error_def throw_def)

lemma wait_for_ready_books: "books (snd (wait_for_ready env deadline p)) = books p"
proof (induction env deadline p rule: wait_for_ready.induct)
  case (1 env deadline p)
  obtain d p1 where r: "read_ready p = (Inr d, p1)" "books p1 = books p"
    using read_ready_total by blast
  obtain c p2 where q: "poll_process p1 = (Inr c, p2)" "books p2 = books p1"
    using poll_process_total by blast
  show ?case
  proof (cases "pj_clock p < deadline \<and> d = None \<and> c = None")
    case True
    then have "books (snd (wait_for_ready env deadline (p2\<lparr>pj_clock := pj_clock p2 + 50\<rparr>))) = books p"
      using "1.IH" [OF _ r(1) [symmetric] refl _ q(1) [symmetric] refl] r(2) q(2) by simp
    with True r(1) q(1) show ?thesis by (subst wait_for_ready.simps) simp
  next
    case False
    with r q show ?thesis
      by (subst wait_for_ready.simps) (auto simp: daemon_error_run split: option.split)
  qed
qed

lemma wait_until_reachable_books:
  "wait_until_reachable env deadline pid p = (r, p') \<Longrightarrow>
   (case r of Inr u \<Rightarrow> books p' = books p
    | Inl e \<Rightarrow> books p' = (pj_started p, pid # pj_killed p, pj_terminated p, pj_cookie p))"
proof (induction env deadline pid p rule: wait_until_reachable.induct)
  case (1 env deadline pid p)
  obtain ok p1 where o: "server_reachable p = (Inr ok, p1)" "books p1 = books p"
    using server_reachable_total by blast
  obtain c p2 where q: "poll_process p1 = (Inr c, p2)" "books p2 = books p1"
    using poll_process_total by blast
  have step: "wait_until_reachable env deadline pid p =
      (if ok then (Inr (), p1)
       else if c \<noteq> None \<or> deadline \<le> pj_clock p2
       then (Inl (Exn RuntimeError (''background server failed its readiness probe'' @ [CHR 0x0A] @ log_tail env)),
             p2\<lparr>pj_killed := pid # pj_killed p2\<rparr>)
       else wait_until_reachable env deadline pid (p2\<lparr>pj_clock := pj_clock p2 + 100\<rparr>))"
    by (subst wait_until_reachable.simps)
      (simp add: o(1) q(1) thenE_def bindE_def kill_process_def modify_def daemon_error_run)
  have later: "\<not> ok \<Longrightarrow> \<not> (c \<noteq> None \<or> deadline \<le> pj_clock p2) \<Longrightarrow>
      wait_until_reachable env deadline pid (p2\<lparr>pj_clock := pj_clock p2 + 100\<rparr>) = (r, p') \<Longrightarrow> ?case"
    using "1.IH" [OF o(1) [symmetric] refl _ q(1) [symmetric] refl] o(2) q(2)
    by (auto simp: books_def split: sum.splits)
  show ?case
    using "1.prems" later o(2) q(2) unfolding step by (auto simp: books_def split: if_splits)
qed

definition cookie_for :: "daemon_env \<Rightarrow> int \<Rightarrow> string \<Rightarrow> pydict" where
  "cookie_for env pid url =
     [(''pid'', PInt pid), (''url'', PStr url), (''token'', PStr (de_token env)),
      (''log'', PStr (de_log_path env)), (''started_at'', de_time env)]"

lemma wait_for_ready_hoare:
  "hoare (\<lambda>p. books p = b) (wait_for_ready env d) (\<lambda>_ p. books p = b) (\<lambda>_ p. books p = b)"
  by (rule hoareI) (metis wait_for_ready_books snd_conv)+

lemma wait_until_reachable_hoare:
  "hoare (\<lambda>p. books p = (st, k, t, c)) (wait_until_reachable env d pid)
     (\<lambda>_ p. books p = (st, k, t, c)) (\<lambda>_ p. books p = (st, pid # k, t, c))"
  by (rule hoareI) (drule wait_until_reachable_books, simp add: books_def)+

text \<open>Starting a server: it is in the cookie, or nothing was started, or what was started is killed;
  only a ready file without an address leaves it running without a cookie.\<close>

definition spawn_failed :: "int list \<Rightarrow> int list \<Rightarrow> int list \<Rightarrow> pydict option \<Rightarrow> exn \<Rightarrow> project \<Rightarrow> bool" where
  "spawn_failed st k t c e p \<longleftrightarrow>
     books p = (st, k, t, c) \<or> (\<exists>pid. books p = (pid # st, pid # k, t, c))
     \<or> exn_class e = OtherError \<and> (\<exists>pid. books p = (pid # st, k, t, c))"

definition spawned :: "daemon_env \<Rightarrow> int list \<Rightarrow> int list \<Rightarrow> int list \<Rightarrow> ResolvedServer \<Rightarrow> project \<Rightarrow> bool" where
  "spawned env st k t res p \<longleftrightarrow>
     (\<exists>pid. books p = (pid # st, k, t, Some (cookie_for env pid (rs_url res))))
     \<and> rs_token res = Some (de_token env) \<and> rs_spawned res \<and> rs_managed res"

lemma spawn_hoare:
  "hoare (\<lambda>p. books p = (st, k, t, c)) (spawn env) (spawned env st k t) (spawn_failed st k t c)"
proof -
  let ?b = "\<lambda>pid (p :: project). books p = (pid # st, k, t, c)" and ?E = "\<lambda>e p. spawn_failed st k t c e p"
  have start: "hoare (\<lambda>p. books p = (st, k, t, c)) spawn_daemon ?b ?E"
    by (simp add: hoare_def spawn_daemon_def spawn_failed_def books_def split: prod.split sum.split)
  have kill: "hoare (?b pid) (thenE (kill_process pid) (throw e)) Q ?E" for pid e Q
    by (simp add: hoare_def thenE_def bindE_def kill_process_def modify_def throw_def spawn_failed_def books_def)
  have wait: "hoare (?b pid) (catchE (wait_for_ready env d) (\<lambda>e. thenE (kill_process pid) (throw e))) (\<lambda>_. ?b pid) ?E"
    for pid d
    by (rule hoare_catch [OF wait_for_ready_hoare kill])
  have url: "hoare (?b pid) (from_sum (ready_url d)) (\<lambda>_. ?b pid) ?E" for pid d
    by (simp add: hoare_def from_sum_def spawn_failed_def ready_url_def)
  have reach: "hoare (?b pid) (wait_until_reachable env d pid) (\<lambda>_. ?b pid) ?E" for pid d
    by (rule hoare_weaken [OF wait_until_reachable_hoare]) (auto simp: spawn_failed_def)
  have cookie: "hoare (?b pid) (thenE (write_cookie (cookie_for env pid url))
        (ret \<lparr>rs_url = url, rs_token = Some (de_token env), rs_spawned = True, rs_managed = True\<rparr>))
      (spawned env st k t) ?E" for pid url
    by (simp add: hoare_def thenE_def bindE_def write_cookie_def modify_def ret_def spawned_def books_def)
  have clock: "hoare (?b pid) (gets pj_clock) (\<lambda>_. ?b pid) ?E" for pid
    by (simp add: hoare_def gets_def)
  show ?thesis
    unfolding spawn_def
    by (rule hoare_bind [OF start] hoare_bind [OF clock] hoare_bind [OF wait] hoare_bind [OF url]
        hoare_then [OF reach] cookie [unfolded cookie_for_def])+
qed

section \<open>Resolving\<close>

text \<open>What the cookie says of the server an invocation uses.\<close>

definition from_cookie :: "pydict \<Rightarrow> ResolvedServer \<Rightarrow> bool" where
  "from_cookie c res \<longleftrightarrow>
     res = \<lparr>rs_url = rs_url res, rs_token = cookie_token c, rs_spawned = False, rs_managed = True\<rparr>
     \<and> dget c ''url'' = PStr (rs_url res)"

lemma as_text_PStr: "as_text v = Some s \<longleftrightarrow> v = PStr s"
  by (cases v) (simp_all add: as_text_def)

lemma resolved_from_cookie_hoare:
  "hoare (\<lambda>p. books p = b) (resolved_from_cookie c)
     (\<lambda>resolved p. books p = b \<and> (case resolved of Some res \<Rightarrow> from_cookie c res | None \<Rightarrow> True)) (\<lambda>_ _. False)"
proof (cases "as_text (dget c ''url'')")
  case None
  then show ?thesis by (simp add: resolved_from_cookie_def hoare_ret)
next
  case (Some url)
  then have url: "dget c ''url'' = PStr url" by (simp only: as_text_PStr)
  have reach: "hoare (\<lambda>p. books p = b) server_reachable (\<lambda>_ p. books p = b) (\<lambda>_ _. False)"
    by (simp add: hoare_def server_reachable_def books_def split: prod.split)
  show ?thesis
    unfolding resolved_from_cookie_def Some option.case
    by (rule hoare_bind [OF reach hoare_ret]) (simp add: from_cookie_def url)
qed

definition resolved_ok :: "daemon_env \<Rightarrow> project \<Rightarrow> ResolvedServer \<Rightarrow> project \<Rightarrow> bool" where
  "resolved_ok env p0 res p \<longleftrightarrow>
     books p = books p0 \<and> (\<exists>c. pj_cookie p0 = Some c \<and> from_cookie c res)
     \<or> spawned env (pj_started p0) (pj_killed p0) (pj_terminated p0) res p"

definition resolved_failed :: "project \<Rightarrow> exn \<Rightarrow> project \<Rightarrow> bool" where
  "resolved_failed p0 e p \<longleftrightarrow>
     (\<exists>c. (c = pj_cookie p0 \<or> c = None)
          \<and> spawn_failed (pj_started p0) (pj_killed p0) (pj_terminated p0) c e p)"

lemma spawn_resolves:
  assumes "c = pj_cookie p0 \<or> c = None"
  shows "hoare (\<lambda>p. books p = (pj_started p0, pj_killed p0, pj_terminated p0, c)) (spawn env)
    (resolved_ok env p0) (resolved_failed p0)"
  by (rule hoare_weaken [OF spawn_hoare]) (use assms in \<open>auto simp: resolved_ok_def resolved_failed_def\<close>)

text \<open>The cookie's server, if it answers.\<close>

lemma probe_cookie_hoare:
  "hoare (\<lambda>p. books p = books p0 \<and> Some c = pj_cookie p0) (resolved_from_cookie c)
     (\<lambda>r p. books p = books p0 \<and> (case r of Some res \<Rightarrow> from_cookie c res | None \<Rightarrow> True)) (resolved_failed p0)"
  by (rule hoare_weaken [OF resolved_from_cookie_hoare [of "books p0"]]) auto

lemma read_cookie_hoare:
  "hoare (\<lambda>p. books p = books p0) read_cookie (\<lambda>c p. books p = books p0 \<and> c = pj_cookie p0) E"
  by (simp add: hoare_def read_cookie_def gets_def books_def)

lemma use_cookie_hoare:
  assumes "Some c = pj_cookie p0"
    and "hoare (\<lambda>p. books p = books p0) m (resolved_ok env p0) (resolved_failed p0)"
  shows "hoare (\<lambda>p. books p = books p0 \<and> (case r of Some res \<Rightarrow> from_cookie c res | None \<Rightarrow> True))
    (case r of Some res \<Rightarrow> ret res | None \<Rightarrow> m) (resolved_ok env p0) (resolved_failed p0)"
proof (cases r)
  case (Some res)
  show ?thesis unfolding Some option.case
    by (rule hoare_ret) (use assms(1) [symmetric] in \<open>auto simp: resolved_ok_def\<close>)
qed (use assms(2) in simp)

lemma try_cookie_hoare:
  assumes "hoare (\<lambda>p. books p = books p0) m (resolved_ok env p0) (resolved_failed p0)"
  shows "hoare (\<lambda>p. books p = books p0 \<and> Some c = pj_cookie p0)
    (bindE (resolved_from_cookie c) (\<lambda>r. case r of Some res \<Rightarrow> ret res | None \<Rightarrow> m))
    (resolved_ok env p0) (resolved_failed p0)"
proof (cases "Some c = pj_cookie p0")
  case True
  show ?thesis by (rule hoare_bind [OF probe_cookie_hoare use_cookie_hoare [OF True assms]])
qed (simp add: hoare_def)

lemma no_cookie_hoare:
  "hoare (\<lambda>p. books p = books p0) m Q E \<Longrightarrow> hoare (\<lambda>p. books p = books p0 \<and> None = pj_cookie p0) m Q E"
  by (erule hoare_weaken) auto

lemma cookie_cases_hoare:
  assumes "\<And>c. hoare (\<lambda>p. books p = books p0 \<and> Some c = pj_cookie p0) (f c) Q E"
    and "hoare (\<lambda>p. books p = books p0 \<and> None = pj_cookie p0) m Q E"
  shows "hoare (\<lambda>p. books p = books p0) (bindE read_cookie (\<lambda>cookie. case cookie of None \<Rightarrow> m | Some c \<Rightarrow> f c)) Q E"
  by (rule hoare_bind [OF read_cookie_hoare]) (auto split: option.split intro: assms)

lemma resolve_locked_hoare:
  "hoare (\<lambda>p. books p = books p0) (resolve_locked env) (resolved_ok env p0) (resolved_failed p0)"
proof -
  have fresh: "hoare (\<lambda>p. books p = books p0) (thenE remove_cookie (spawn env)) (resolved_ok env p0) (resolved_failed p0)"
    by (rule hoare_then [OF _ spawn_resolves [of None]])
      (simp_all add: hoare_def remove_cookie_def modify_def books_def)
  have start: "hoare (\<lambda>p. books p = books p0 \<and> None = pj_cookie p0) (spawn env) (resolved_ok env p0) (resolved_failed p0)"
    by (rule hoare_weaken [OF spawn_resolves [of "pj_cookie p0"]]) (simp_all add: books_def)
  show ?thesis
    unfolding resolve_locked_def by (rule cookie_cases_hoare [OF try_cookie_hoare [OF fresh] start])
qed

lemma resolve_server_hoare:
  assumes "\<not> str_truthy url"
  shows "hoare (\<lambda>p. books p = books p0) (resolve_server env url tok) (resolved_ok env p0) (resolved_failed p0)"
  using assms unfolding resolve_server_def
  by (simp add: cookie_cases_hoare [OF try_cookie_hoare no_cookie_hoare] resolve_locked_hoare)


definition no_scripts :: project where
  "no_scripts = \<lparr>pj_cookie = None, pj_clock = 0, pj_probes = [], pj_spawns = [], pj_ready = [], pj_polls = [],
     pj_alive = [], pj_posts = [], pj_started = [], pj_killed = [], pj_terminated = []\<rparr>"

definition sample_env :: daemon_env where
  "sample_env = \<lparr>de_root = ''/w'', de_token = ''t'', de_log_path = ''/l'', de_log_lines = [], de_time = PInt 0\<rparr>"

definition ready_file :: pyv where
  "ready_file = PDict [(''host'', PStr ''h''), (''port'', PInt 1), (''path'', PStr ''/mcp'')]"

text \<open>A project whose old server is gone and where a new one starts and answers.\<close>

definition stale_project :: project where
  "stale_project = no_scripts\<lparr>pj_cookie := Some [(''url'', PStr ''http://old'')],
     pj_probes := [(False, 5), (False, 5), (True, 5)], pj_spawns := [Inr 7], pj_ready := [Some ready_file]\<rparr>"

lemma stale_project_resolved:
  "resolve_server sample_env None None stale_project =
     (Inr \<lparr>rs_url = ''http://h:1/mcp'', rs_token = Some ''t'', rs_spawned = True, rs_managed = True\<rparr>,
      no_scripts\<lparr>pj_cookie := Some (cookie_for sample_env 7 ''http://h:1/mcp''), pj_clock := 15, pj_started := [7]\<rparr>)"
  by code_simp

lemma stale_project_books:
  "pj_started stale_project = []" "pj_killed stale_project = []" "pj_terminated stale_project = []"
  "books stale_project = ([], [], [], Some [(''url'', PStr ''http://old'')])"
  "\<not> str_truthy None"
  by (simp_all add: stale_project_def no_scripts_def books_def str_truthy_def)


text \<open>The server stays the same: after an invocation resolved a managed server, a later one whose probe
  of it succeeds resolves to the same address and token and starts nothing.\<close>

theorem resolve_again_same_server:
  assumes "resolve_server env url tok p = (Inr res, p')" and "rs_managed res"
    and "books q = books p'" and "pj_probes q = (True, ms) # rest"
  shows "resolve_server env' None tok' q =
    (Inr (res\<lparr>rs_spawned := False\<rparr>), q\<lparr>pj_probes := rest, pj_clock := pj_clock q + min ms probe_timeout\<rparr>)"
proof -
  obtain c where c: "pj_cookie p' = Some c" "as_text (dget c ''url'') = Some (rs_url res)" "cookie_token c = rs_token res"
  proof (cases "books p' = books p \<and> (\<exists>c. pj_cookie p = Some c \<and> from_cookie c res)")
    case True
    then obtain c where "pj_cookie p = Some c" "from_cookie c res" by blast
    moreover from this(2) have "rs_token res = cookie_token c" unfolding from_cookie_def by (metis ResolvedServer.select_convs(2))
    ultimately show thesis using True that [of c] by (simp add: books_def from_cookie_def as_text_PStr)
  next
    case False
    have "spawned env (pj_started p) (pj_killed p) (pj_terminated p) res p'"
    proof (cases "str_truthy url")
      case True
      with assms(1,2) show ?thesis by (auto simp: resolve_server_def ret_def)
    next
      case t: False
      from hoare_retD [OF resolve_server_hoare [OF t] refl assms(1)] False show ?thesis by (auto simp: resolved_ok_def)
    qed
    then obtain pid where "pj_cookie p' = Some (cookie_for env pid (rs_url res))" "rs_token res = Some (de_token env)"
      by (auto simp: spawned_def books_def)
    then show thesis using that by (simp add: cookie_for_def cookie_token_def as_text_def)
  qed
  have "res\<lparr>rs_spawned := False\<rparr> = \<lparr>rs_url = rs_url res, rs_token = rs_token res, rs_spawned = False, rs_managed = True\<rparr>"
    using assms(2) by (cases res) simp
  moreover have "pj_cookie q = Some c" using assms(3) c(1) by (simp add: books_def)
  ultimately show ?thesis
    using assms(4) c(2,3)
    by (simp add: resolve_server_def str_truthy_def read_cookie_def resolved_from_cookie_def server_reachable_def
        next_answer_def bindE_def gets_def ret_def)
qed

lemma resolve_again_same_server_witness:
  "resolve_server sample_env None None
     (no_scripts\<lparr>pj_cookie := Some (cookie_for sample_env 7 ''http://h:1/mcp''), pj_clock := 90, pj_started := [7],
        pj_probes := [(True, 4)]\<rparr>) =
   (Inr \<lparr>rs_url = ''http://h:1/mcp'', rs_token = Some ''t'', rs_spawned = False, rs_managed = True\<rparr>,
    no_scripts\<lparr>pj_cookie := Some (cookie_for sample_env 7 ''http://h:1/mcp''), pj_clock := 94, pj_started := [7]\<rparr>)"
  using resolve_again_same_server [OF stale_project_resolved, of
      "no_scripts\<lparr>pj_cookie := Some (cookie_for sample_env 7 ''http://h:1/mcp''), pj_clock := 90, pj_started := [7],
        pj_probes := [(True, 4)]\<rparr>" 4 "[]" sample_env None]
  by (simp add: books_def no_scripts_def probe_timeout_def)

text \<open>The status command takes no lock. When another invocation replaces the stale server while the probe of
  the status command runs, the status command removes the new cookie, and the next invocation starts a
  second server beside the first.\<close>

lemma status_can_orphan_server:
  assumes "pj_cookie p = Some old" and "resolve_server env None tok p = (Inr res, p1)" and "rs_spawned res"
    and "status_finish env old False p1 = (m, p2)" and "resolve_server env' None tok p2 = (Inr res', p3)"
  shows "\<exists>first second. pj_started p3 = second # first # pj_started p \<and> pj_killed p3 = pj_killed p
    \<and> pj_terminated p3 = pj_terminated p \<and> pj_cookie p3 = Some (cookie_for env' second (rs_url res'))"
proof -
  have none: "\<not> str_truthy None" by (simp add: str_truthy_def)
  have "spawned env (pj_started p) (pj_killed p) (pj_terminated p) res p1"
    using hoare_retD [OF resolve_server_hoare [OF none] refl assms(2)] assms(3)
    by (auto simp: resolved_ok_def from_cookie_def) (metis ResolvedServer.select_convs(3))
  moreover have "books p2 = (pj_started p1, pj_killed p1, pj_terminated p1, None)"
    using assms(4) by (auto simp: status_finish_def thenE_def bindE_def remove_cookie_def modify_def ret_def books_def)
  moreover have "spawned env' (pj_started p2) (pj_killed p2) (pj_terminated p2) res' p3"
    using hoare_retD [OF resolve_server_hoare [OF none] refl assms(5)] \<open>books p2 = _\<close>
    by (auto simp: resolved_ok_def books_def)
  ultimately show ?thesis by (auto simp: spawned_def books_def)
qed

section \<open>The default session\<close>

definition only_session_key :: "project \<Rightarrow> project \<Rightarrow> bool" where
  "only_session_key p p' \<longleftrightarrow>
     (\<forall>c. pj_cookie p = Some c \<longrightarrow>
        (\<exists>c'. pj_cookie p' = Some c' \<and> (\<forall>k. k \<noteq> ''last_session_id'' \<longrightarrow> dget c' k = dget c k)))
     \<and> pj_started p' = pj_started p \<and> pj_killed p' = pj_killed p \<and> pj_terminated p' = pj_terminated p"

lemma dget_filter_key: "dget (filter (\<lambda>e. fst e \<noteq> k) c) k' = (if k' = k then PNone else dget c k')"
  by (induction c) (auto simp: dget_def)

text \<open>The default session: what is remembered is what a later invocation uses, until it is forgotten;
  neither touches another key of the cookie or starts or stops anything.\<close>

theorem session_memory_roundtrip:
  "(\<exists>p'. remember_session_id i p = (Inr (), p') \<and> remembered_session_id p' = (Inr (Some i), p')
      \<and> only_session_key p p')
   \<and> (\<exists>p'. forget_session_id p = (Inr (), p') \<and> remembered_session_id p' = (Inr None, p')
      \<and> only_session_key p p')"
proof (rule conjI)
  let ?p = "p\<lparr>pj_cookie := Some (dset ''last_session_id'' (PInt i) (case pj_cookie p of None \<Rightarrow> [] | Some c \<Rightarrow> c))\<rparr>"
  have "remember_session_id i p = (Inr (), ?p)" and "remembered_session_id ?p = (Inr (Some i), ?p)"
    by (simp_all add: remember_session_id_def remembered_session_id_def read_cookie_def write_cookie_def int_value_def
        bindE_def gets_def modify_def ret_def)
  then show "\<exists>p'. remember_session_id i p = (Inr (), p') \<and> remembered_session_id p' = (Inr (Some i), p')
      \<and> only_session_key p p'"
    by (intro exI [of _ ?p]) (simp add: only_session_key_def split: option.split)
next
  let ?c = "\<lambda>c. if dhas c ''last_session_id'' then filter (\<lambda>p. fst p \<noteq> ''last_session_id'') c else c"
  let ?p = "p\<lparr>pj_cookie := map_option ?c (pj_cookie p)\<rparr>"
  have other: "k \<noteq> ''last_session_id'' \<Longrightarrow> dget (?c c) k = dget c k" for k c
    by (simp add: dget_filter_key)
  have gone: "dget (?c c) ''last_session_id'' = PNone" for c
    by (cases "dhas c ''last_session_id''") (simp_all add: dget_filter_key, simp add: dget_def dhas_def)
  have "forget_session_id p = (Inr (), ?p)" and "remembered_session_id ?p = (Inr None, ?p)"
    by (cases "pj_cookie p"; simp add: forget_session_id_def remembered_session_id_def read_cookie_def write_cookie_def
        int_value_def gone bindE_def gets_def modify_def ret_def)+
  then show "\<exists>p'. forget_session_id p = (Inr (), p') \<and> remembered_session_id p' = (Inr None, p')
      \<and> only_session_key p p'"
    using other by (intro exI [of _ ?p]) (auto simp: only_session_key_def)
qed

section \<open>Stopping\<close>

lemma process_alive_total: "\<exists>b p1. process_alive pid p = (Inr b, p1) \<and> books p1 = books p"
proof (cases "pid \<le> 0")
  case True
  then show ?thesis by (intro exI [of _ False]) (simp add: process_alive_def)
qed (simp add: process_alive_def books_def split: prod.split)

lemma wait_until_gone_total: "\<exists>p1. wait_until_gone deadline pid p = (Inr (), p1) \<and> books p1 = books p"
proof (induction deadline pid p rule: wait_until_gone.induct)
  case (1 deadline pid p)
  obtain b p1 where a: "process_alive pid p = (Inr b, p1)" "books p1 = books p" using process_alive_total by blast
  show ?case
  proof (cases "pj_clock p < deadline \<and> b")
    case True
    with "1.IH" [OF _ a(1) [symmetric] refl] a(2)
    have "\<exists>p3. wait_until_gone deadline pid (p1\<lparr>pj_clock := pj_clock p1 + 100\<rparr>) = (Inr (), p3) \<and> books p3 = books p" by simp
    with True a(1) show ?thesis by (subst wait_until_gone.simps) simp
  next
    case False
    with a show ?thesis by (subst wait_until_gone.simps) auto
  qed
qed

lemma wait_and_terminate_total:
  "\<exists>p1. wait_and_terminate pid p = (Inr (), p1)
     \<and> (books p1 = books p \<or> books p1 = (pj_started p, pj_killed p, pid # pj_terminated p, pj_cookie p))"
proof -
  obtain p1 where w: "wait_until_gone (pj_clock p + stop_timeout) pid p = (Inr (), p1)" "books p1 = books p"
    using wait_until_gone_total by blast
  obtain b p2 where a: "process_alive pid p1 = (Inr b, p2)" "books p2 = books p1" using process_alive_total by blast
  let ?p = "p2\<lparr>pj_terminated := pid # pj_terminated p2\<rparr>"
  obtain p3 where t: "wait_until_gone (pj_clock ?p + 3000) pid ?p = (Inr (), p3)" "books p3 = books ?p"
    using wait_until_gone_total by blast
  show ?thesis
  proof (cases b)
    case True
    then show ?thesis using w a t
      by (auto simp: wait_and_terminate_def bindE_def thenE_def gets_def terminate_process_def modify_def books_def)
  next
    case False
    then show ?thesis using w a
      by (auto simp: wait_and_terminate_def bindE_def thenE_def gets_def ret_def)
  qed
qed

lemma finish_stop_total:
  "\<exists>res p1. finish_stop env pid req p = (Inr res, p1) \<and> pj_cookie p1 = None
     \<and> pj_started p1 = pj_started p \<and> pj_killed p1 = pj_killed p
     \<and> (pj_terminated p1 = pj_terminated p \<or> (\<exists>n. pid = Some n \<and> pj_terminated p1 = n # pj_terminated p))
     \<and> (sr_stopped res \<or> (\<exists>m n. req = Some m \<and> pid = Some n))"
proof -
  define m1 m2 where "m1 = (case pid of None \<Rightarrow> ret () | Some n \<Rightarrow> wait_and_terminate n)"
    and "m2 = (case (req, pid) of (Some m, Some n) \<Rightarrow> process_alive n | _ \<Rightarrow> ret False)"
  note ms = this
  obtain p1 where w: "m1 p = (Inr (), p1)"
    "pj_started p1 = pj_started p" "pj_killed p1 = pj_killed p"
    "pj_terminated p1 = pj_terminated p \<or> (\<exists>n. pid = Some n \<and> pj_terminated p1 = n # pj_terminated p)"
  proof (cases pid)
    case (Some n)
    with wait_and_terminate_total [of n p] that show thesis by (auto simp: books_def ms)
  qed (use that in \<open>simp add: ret_def ms\<close>)
  let ?p = "p1\<lparr>pj_cookie := None\<rparr>"
  obtain b p2 where a: "m2 ?p = (Inr b, p2)"
    "books p2 = books ?p" "b \<longrightarrow> (\<exists>m n. req = Some m \<and> pid = Some n)"
  proof (cases "\<exists>m n. req = Some m \<and> pid = Some n")
    case True
    then obtain m n where mn: "req = Some m" "pid = Some n" by blast
    with process_alive_total [of n ?p] that show thesis by (auto simp: ms)
  next
    case False
    then show thesis using that [of False ?p] by (auto simp: ret_def ms split: option.split)
  qed
  have remove: "remove_cookie p1 = (Inr (), ?p)" by (simp add: remove_cookie_def modify_def)
  show ?thesis
    unfolding finish_stop_def unfolding ms [symmetric]
    unfolding thenE_step [where m = m1, OF w(1)] thenE_step [where m = remove_cookie, OF remove]
      bindE_step [where m = m2, OF a(1)]
    unfolding ret_def
    using w(2-4) a(2,3) by (auto simp: books_def split: option.split)
qed

text \<open>C23. What a stop request reports. It never starts or kills a server and sends the termination signal at
  most once, to the process the cookie names. Reported as stopped, the cookie is gone. Reported as not
  stopped, either the server refused and cookie and process are untouched, or the request got no
  answer.\<close>

theorem stop_daemon_outcome:
  assumes "stop_daemon env p = (r, p')"
  shows "pj_started p' = pj_started p \<and> pj_killed p' = pj_killed p
    \<and> (pj_terminated p' = pj_terminated p
       \<or> (\<exists>c pid. pj_cookie p = Some c \<and> int_value (dget c ''pid'') = Some pid \<and> pj_terminated p' = pid # pj_terminated p))
    \<and> (case r of
        Inr res \<Rightarrow> if sr_stopped res then pj_cookie p' = None
          else books p' = books p \<and> (\<exists>status body. fst (next_answer (HttpError ''no answer'') (pj_posts p)) = HttpResponse status body \<and> status \<ge> 400)
            \<or> pj_cookie p' = None \<and> (\<exists>m. fst (next_answer (HttpError ''no answer'') (pj_posts p)) = HttpError m)
      | Inl e \<Rightarrow> books p' = books p \<and> (\<exists>body. fst (next_answer (HttpError ''no answer'') (pj_posts p)) = HttpResponse 409 body))"
proof (cases "pj_cookie p")
  case None
  with assms show ?thesis by (auto simp: stop_daemon_def read_cookie_def bindE_def gets_def ret_def)
next
  case (Some c)
  obtain a rest where a: "next_answer (HttpError ''no answer'') (pj_posts p) = (a, rest)" by (metis surj_pair)
  let ?p = "p\<lparr>pj_posts := rest\<rparr>"
  have post: "post_shutdown p = (Inr a, ?p)" by (simp add: post_shutdown_def a)
  have start: "stop_daemon env p = bindE post_shutdown (\<lambda>answer.
      case answer of
        HttpResponse status body \<Rightarrow>
          if status = 409
          then bindE (from_sum (refusal_message body)) (\<lambda>m. ret \<lparr>sr_stopped = False, sr_message = m\<rparr>)
          else if status \<ge> 400
          then ret \<lparr>sr_stopped = False, sr_message = ''background server returned HTTP '' @ show_nat status\<rparr>
          else finish_stop env (int_value (dget c ''pid'')) None
      | HttpError m \<Rightarrow> finish_stop env (int_value (dget c ''pid'')) (Some m)) p"
    if "as_text (dget c ''url'') \<noteq> None"
    using that Some by (auto simp: stop_daemon_def read_cookie_def bindE_gets)
  consider (invalid) "as_text (dget c ''url'') = None"
    | (refused) status body where "as_text (dget c ''url'') \<noteq> None" "a = HttpResponse status body" "status \<ge> 400"
    | (ok) status body where "as_text (dget c ''url'') \<noteq> None" "a = HttpResponse status body" "status < 400"
    | (lost) m where "as_text (dget c ''url'') \<noteq> None" "a = HttpError m"
    by (cases a) (metis not_less)+
  then show ?thesis
  proof cases
    case invalid
    with assms Some show ?thesis
      by (auto simp: stop_daemon_def read_cookie_def bindE_def gets_def thenE_def remove_cookie_def modify_def ret_def)
  next
    case refused
    with assms a show ?thesis unfolding start [OF refused(1)] bindE_step [where m = post_shutdown, OF post]
      by (auto simp: bindE_def from_sum_def ret_def books_def split: sum.splits if_splits)
  next
    case ok
    from finish_stop_total [of env "int_value (dget c ''pid'')" None ?p] assms ok a Some show ?thesis
      unfolding start [OF ok(1)] bindE_step [where m = post_shutdown, OF post] by auto
  next
    case lost
    from finish_stop_total [of env "int_value (dget c ''pid'')" "Some m" ?p] assms lost a Some show ?thesis
      unfolding start [OF lost(1)] bindE_step [where m = post_shutdown, OF post] by auto
  qed
qed

definition busy_project :: project where
  "busy_project = no_scripts\<lparr>pj_cookie := Some [(''url'', PStr ''http://h''), (''pid'', PInt 7)],
     pj_posts := [HttpResponse 409 (PDict [(''message'', PStr ''sessions open'')])]\<rparr>"

lemma busy_project_refuses:
  "stop_daemon sample_env busy_project =
     (Inr \<lparr>sr_stopped = False, sr_message = ''sessions open''\<rparr>, busy_project\<lparr>pj_posts := []\<rparr>)"
  by code_simp

lemma stop_daemon_outcome_witness:
  "pj_started (busy_project\<lparr>pj_posts := []\<rparr>) = pj_started busy_project
   \<and> pj_killed (busy_project\<lparr>pj_posts := []\<rparr>) = pj_killed busy_project"
  using stop_daemon_outcome [OF busy_project_refuses] by (elim conjE, intro conjI)

text \<open>A server that accepts the request but survives both waits and the signal is reported as stopped, and its
  cookie is gone: the process is looked at again only when the request had failed.\<close>

lemma stopped_although_alive:
  "case stop_daemon sample_env (no_scripts\<lparr>pj_cookie := Some [(''url'', PStr ''http://h''), (''pid'', PInt 7)],
       pj_posts := [HttpResponse 200 (PDict [])], pj_alive := replicate 200 True\<rparr>) of
     (Inr res, p') \<Rightarrow> sr_stopped res \<and> pj_cookie p' = None \<and> pj_terminated p' = [7] \<and> hd (pj_alive p')
   | _ \<Rightarrow> False"
  by code_simp

end
