(* ===== verification/Client_Cli_Correct.thy ===== *)
theory Client_Cli_Correct
  imports Client_Cli Client_Daemon_Correct
begin

text \<open>
  Properties of one invocation of the client: what its exit code promises, which calls it makes with which
  payloads, and how it keeps the default session.
\<close>

section \<open>The calls of a command\<close>

text \<open>A command makes some calls, newest first, that are related to how it ends or goes on.\<close>

definition makes :: "'a command \<Rightarrow> (nat + 'a \<Rightarrow> tool_call list \<Rightarrow> bool) \<Rightarrow> bool" where
  "makes m R \<longleftrightarrow> (\<forall>s r s'. m s = (r, s') \<longrightarrow> (\<exists>calls. cl_calls s' = calls @ cl_calls s \<and> R r calls))"

text \<open>A command without calls that does not end the invocation successfully.\<close>

definition quiet :: "'a command \<Rightarrow> bool" where
  "quiet m \<longleftrightarrow> makes m (\<lambda>r calls. calls = [] \<and> r \<noteq> Inl 0)"

named_theorems quiet_intros \<open>commands without calls\<close>

lemma makesI: "(\<And>s r s'. m s = (r, s') \<Longrightarrow> \<exists>calls. cl_calls s' = calls @ cl_calls s \<and> R r calls) \<Longrightarrow> makes m R"
  by (simp add: makes_def)

lemma makesD: "makes m R \<Longrightarrow> m s = (r, s') \<Longrightarrow> \<exists>calls. cl_calls s' = calls @ cl_calls s \<and> R r calls"
  by (simp add: makes_def)

lemma quietD: "quiet m \<Longrightarrow> m s = (r, s') \<Longrightarrow> cl_calls s' = cl_calls s \<and> r \<noteq> Inl 0"
  unfolding quiet_def by (drule makesD, assumption) simp

lemma quietI: "(\<And>s r s'. m s = (r, s') \<Longrightarrow> cl_calls s' = cl_calls s \<and> r \<noteq> Inl 0) \<Longrightarrow> quiet m"
  unfolding quiet_def by (rule makesI) simp

lemma makes_followed:
  assumes "makes m R1" and "\<And>x. makes (f x) (R2 x)"
    and "\<And>code calls. R1 (Inl code) calls \<Longrightarrow> R (Inl code) calls"
    and "\<And>x r c1 c2. R1 (Inr x) c1 \<Longrightarrow> R2 x r c2 \<Longrightarrow> R r (c2 @ c1)"
  shows "makes (followed m f) R"
proof (rule makesI)
  fix s r s' assume run: "followed m f s = (r, s')"
  obtain x s1 where m: "m s = (x, s1)" by (metis surj_pair)
  obtain c1 where c1: "cl_calls s1 = c1 @ cl_calls s" "R1 x c1" using makesD [OF assms(1) m] by blast
  show "\<exists>calls. cl_calls s' = calls @ cl_calls s \<and> R r calls"
  proof (cases x)
    case (Inl code)
    with run m c1 assms(3) show ?thesis by (auto simp: followed_def)
  next
    case (Inr y)
    with run m have "f y s1 = (r, s')" by (simp add: followed_def)
    from makesD [OF assms(2) this] obtain c2 where "cl_calls s' = c2 @ cl_calls s1" "R2 y r c2" by blast
    with c1 Inr assms(4) show ?thesis by (intro exI [of _ "c2 @ c1"]) simp
  qed
qed

lemma quiet_then:
  assumes "quiet m" and "\<And>x. makes (f x) R" and "\<And>code. code \<noteq> 0 \<Longrightarrow> R (Inl code) []"
  shows "makes (followed m f) R"
  by (rule makes_followed [OF assms(1) [unfolded quiet_def] assms(2)]) (use assms(3) in auto)

lemma quiet_followed [quiet_intros]: "quiet m \<Longrightarrow> (\<And>x. quiet (f x)) \<Longrightarrow> quiet (followed m f)"
  unfolding quiet_def by (erule makes_followed) auto

lemma quiet_yields [quiet_intros]: "quiet (yields x)"
  by (rule quietI) (simp add: yields_def)

lemma quiet_report [quiet_intros]: "code \<noteq> 0 \<Longrightarrow> quiet (report line code)"
  by (rule quietI) (auto simp: report_def)

lemma quiet_parser_error [quiet_intros]: "quiet (parser_error m)"
  unfolding parser_error_def by (rule quiet_report) simp

lemma quiet_client_error [quiet_intros]: "quiet (client_error_exit e)"
  by (cases e) (simp_all add: client_error_exit_def quiet_intros)

lemma quiet_print [quiet_intros]: "quiet (print_out p)"
  by (rule quietI) (auto simp: print_out_def)

lemma quiet_project [quiet_intros]: "quiet (in_project m)"
  by (rule quietI) (auto simp: in_project_def split: prod.splits sum.splits)

lemma quiet_resolve_command [quiet_intros]: "quiet (resolve_command env url tok)"
  by (rule quietI) (auto simp: resolve_command_def report_def split: prod.splits sum.splits if_splits)

lemma quiet_if [quiet_intros]: "quiet a \<Longrightarrow> quiet b \<Longrightarrow> quiet (if c then a else b)"
  by simp

lemma quiet_option [quiet_intros]:
  "quiet a \<Longrightarrow> (\<And>x. quiet (f x)) \<Longrightarrow> quiet (case v of None \<Rightarrow> a | Some x \<Rightarrow> f x)"
  by (cases v) auto

lemma quiet_sum [quiet_intros]:
  "(\<And>x. quiet (f x)) \<Longrightarrow> (\<And>x. quiet (g x)) \<Longrightarrow> quiet (case v of Inl x \<Rightarrow> f x | Inr x \<Rightarrow> g x)"
  by (cases v) auto

text \<open>A call as it is recorded.\<close>

definition call_of :: "ResolvedServer \<Rightarrow> string \<Rightarrow> pydict \<Rightarrow> client_exn + ClientToolResponse \<Rightarrow> tool_call" where
  "call_of res tool arguments a =
     \<lparr>tcl_url = rs_url res, tcl_token = rs_token res, tcl_tool = tool, tcl_arguments = arguments, tcl_answer = a\<rparr>"

text \<open>The default session of the project.\<close>

definition last_session :: "cli \<Rightarrow> int option" where
  "last_session s = Option.bind (pj_cookie (cl_project s)) (\<lambda>c. int_value (dget c ''last_session_id''))"

text \<open>The answer a call gets.\<close>

definition heard :: "cli \<Rightarrow> client_exn + ClientToolResponse" where
  "heard s =
     (case fst (next_answer (Inl (Leaf ''ConnectError'' ''no answer'')) (cl_answers s)) of
        Inl e \<Rightarrow> Inl e
      | Inr r \<Rightarrow> (case client_response r of Inl e \<Rightarrow> Inl (Leaf ''ValueError'' (exn_text e)) | Inr resp \<Rightarrow> Inr resp))"

lemma call_tool_heard:
  assumes "call_tool res tool payload s = (x, s1)"
  shows "cl_calls s1 = call_of res tool payload (heard s) # cl_calls s \<and> last_session s1 = last_session s
    \<and> (case heard s of Inl e \<Rightarrow> x = Inl 1 | Inr resp \<Rightarrow> x = Inr resp)"
proof -
  obtain s2 where "invoke_tool (rs_url res) (rs_token res) tool payload s = (Inr (heard s), s2)"
    "cl_calls s2 = call_of res tool payload (heard s) # cl_calls s" "cl_project s2 = cl_project s"
  proof (cases "next_answer (Inl (Leaf ''ConnectError'' ''no answer'')) (cl_answers s)")
    case (Pair a rest)
    have "invoke_tool (rs_url res) (rs_token res) tool payload s =
        (Inr (heard s), s\<lparr>cl_answers := rest, cl_calls := call_of res tool payload (heard s) # cl_calls s\<rparr>)"
      by (simp add: invoke_tool_def Pair heard_def call_of_def Let_def)
    then show thesis by (rule that) simp_all
  qed
  then show ?thesis using assms
    by (auto simp: call_tool_def followed_def report_def yields_def last_session_def split: sum.splits)
qed

lemma call_tool_makes:
  "makes (call_tool res tool args)
     (\<lambda>r calls. \<exists>a. calls = [call_of res tool args a] \<and> (case r of Inl code \<Rightarrow> code = 1 | Inr resp \<Rightarrow> a = Inr resp))"
proof (rule makesI)
  fix s r s' assume "call_tool res tool args s = (r, s')"
  from call_tool_heard [OF this] show "\<exists>calls. cl_calls s' = calls @ cl_calls s \<and>
      (\<exists>a. calls = [call_of res tool args a] \<and> (case r of Inl code \<Rightarrow> code = 1 | Inr resp \<Rightarrow> a = Inr resp))"
    by (intro exI [of _ "[call_of res tool args (heard s)]"]) (auto split: sum.splits)
qed

text \<open>An answer that counts as success.\<close>

definition succeeded :: "tool_call \<Rightarrow> bool" where
  "succeeded c \<longleftrightarrow>
     (case tcl_answer c of
        Inl e \<Rightarrow> False
      | Inr resp \<Rightarrow> \<not> ctp_is_error resp \<and> \<not> payload_reports_step_failures (ctp_payload resp))"

lemma quiet_afterwards [quiet_intros]:
  "quiet (remember_new_session tool res resp)" "quiet (forget_stopped_session tool i res resp)"
  "quiet (print_answer json tool payload res)"
  unfolding remember_new_session_def forget_stopped_session_def print_answer_def default_session_annotation_def
  by (intro quiet_intros)+

lemma call_and_finish_makes:
  "makes (call_and_finish json tool payload args res)
     (\<lambda>r calls. \<exists>a. calls = [call_of res tool payload a] \<and> (r = Inl 0 \<longrightarrow> succeeded (call_of res tool payload a)))"
proof -
  have finish: "makes (followed (remember_new_session tool res resp) (\<lambda>_.
       followed (forget_stopped_session tool (ns_session args) res resp) (\<lambda>_.
       followed (print_answer json tool (ctp_payload resp) res) (\<lambda>_.
         exits (if ctp_is_error resp then 1 else if payload_reports_step_failures (ctp_payload resp) then 1 else 0)))))
     (\<lambda>r calls. calls = [] \<and> (r = Inl 0 \<longrightarrow> \<not> ctp_is_error resp \<and> \<not> payload_reports_step_failures (ctp_payload resp)))"
    for resp
    by (intro quiet_then quiet_intros makesI) (auto simp: exits_def split: if_splits)
  show ?thesis
    unfolding call_and_finish_def
    by (rule makes_followed [OF call_tool_makes finish]) (auto simp: succeeded_def call_of_def)
qed

section \<open>Payloads\<close>

text \<open>A payload that the model of its tool returned; the query of breakpoints loses its empty list of kinds.\<close>

definition validated :: "(string \<Rightarrow> validator) \<Rightarrow> string \<Rightarrow> pydict \<Rightarrow> bool" where
  "validated models tool payload \<longleftrightarrow>
     (\<exists>p d. models tool p = Inr d \<and>
        (payload = d \<or> tool = ''gdb_breakpoint_query'' \<and>
           (\<exists>query. dget d ''query'' = PDict query \<and> payload = dset ''query'' (PDict (without [''kinds''] query)) d)))"

lemma checked_validated: "checked f (models tool) p = Inr d \<Longrightarrow> validated models tool d"
  by (auto simp: checked_def validated_def split: sum.splits)

lemma breakpoint_query_validated:
  "build_breakpoint_query (models ''gdb_breakpoint_query'') i = Inr d \<Longrightarrow> validated models ''gdb_breakpoint_query'' d"
  by (auto simp: build_breakpoint_query_def checked_def validated_def split: sum.splits pyv.splits if_splits)

lemmas builder_defs = build_session_start_def build_session_connect_def build_session_query_def
  build_session_manage_def build_inferior_manage_def build_execution_manage_def build_breakpoint_manage_def
  build_timed_tool_def build_execute_command_def build_attach_process_def build_context_query_def
  build_context_manage_def build_inspect_query_def build_workflow_batch_def build_call_function_def
  build_capture_bundle_def build_run_until_failure_def

lemma client_arguments_validated:
  assumes "client_arguments models tool ns = Inr payload"
  shows "validated models tool payload"
proof (cases "tool = ''gdb_breakpoint_query''")
  case True
  with assms show ?thesis
    unfolding client_arguments_def Let_def by (simp add: breakpoint_query_validated)
next
  case False
  have batch: "(case parse_workflow_batch_input models a b c d of Inl e \<Rightarrow> Inl e | Inr i \<Rightarrow> build_workflow_batch (models t) i)
      = Inr payload \<Longrightarrow> validated models t payload" for a b c d t
    by (auto simp: builder_defs split: sum.splits dest: checked_validated)
  have campaign: "(case parse_run_until_failure_input models a b c of Inl e \<Rightarrow> Inl e | Inr i \<Rightarrow> build_run_until_failure (models t) i)
      = Inr payload \<Longrightarrow> validated models t payload" for a b c t
    by (auto simp: builder_defs split: sum.splits dest: checked_validated)
  show ?thesis
    using assms False unfolding client_arguments_def Let_def
    by (simp only: builder_defs split: if_split_asm) (auto dest: checked_validated batch campaign)
qed

lemma build_payload_makes:
  "makes (build_payload models tool args res)
     (\<lambda>r calls. calls = [] \<and> r \<noteq> Inl 0 \<and> (\<forall>payload (args' :: pydict). r = Inr (payload, args') \<longrightarrow> validated models tool payload))"
proof (cases "client_arguments models tool args")
  case (Inr payload)
  then show ?thesis
    by (auto simp: build_payload_def makes_def yields_def intro: client_arguments_validated)
next
  case (Inl e)
  have stop: "makes (client_error_exit e) (\<lambda>r calls. calls = [] \<and> r \<noteq> Inl 0 \<and>
      (\<forall>payload (args' :: pydict). r = Inr (payload, args') \<longrightarrow> validated models tool payload))" for e
    by (cases e) (auto simp: client_error_exit_def parser_error_def report_def makes_def)
  have error: "makes (parser_error m) (\<lambda>r calls. calls = [] \<and> r \<noteq> Inl 0 \<and>
      (\<forall>payload (args' :: pydict). r = Inr (payload, args') \<longrightarrow> validated models tool payload))" for m
    by (auto simp: parser_error_def report_def makes_def)
  have again: "makes (case client_arguments models tool a of Inr payload \<Rightarrow> yields (payload, a) | Inl e \<Rightarrow> client_error_exit e)
      (\<lambda>r calls. calls = [] \<and> r \<noteq> Inl 0 \<and>
        (\<forall>payload (args' :: pydict). r = Inr (payload, args') \<longrightarrow> validated models tool payload))" for a
    by (cases "client_arguments models tool a")
      (use stop in \<open>auto simp: makes_def yields_def intro: client_arguments_validated\<close>)
  show ?thesis
  proof (cases e)
    case (ValidationError errors)
    have fill: "makes (followed (in_project remembered_session_id) (\<lambda>remembered.
            case remembered of
              None \<Rightarrow> parser_error ''--session-id required: no debug session is recorded for this project yet''
            | Some i \<Rightarrow>
                let args1 = dset ''session_id'' (PInt i) args in
                (case client_arguments models tool args1 of
                   Inr payload \<Rightarrow> yields (payload, args1)
                 | Inl e \<Rightarrow> client_error_exit e)))
        (\<lambda>r calls. calls = [] \<and> r \<noteq> Inl 0 \<and>
          (\<forall>payload (args' :: pydict). r = Inr (payload, args') \<longrightarrow> validated models tool payload))"
    proof (rule quiet_then [OF quiet_project])
      fix remembered :: "int option"
      show "makes (case remembered of
              None \<Rightarrow> parser_error ''--session-id required: no debug session is recorded for this project yet''
            | Some i \<Rightarrow>
                let args1 = dset ''session_id'' (PInt i) args in
                (case client_arguments models tool args1 of
                   Inr payload \<Rightarrow> yields (payload, args1)
                 | Inl e \<Rightarrow> client_error_exit e))
          (\<lambda>r calls. calls = [] \<and> r \<noteq> Inl 0 \<and>
            (\<forall>payload (args' :: pydict). r = Inr (payload, args') \<longrightarrow> validated models tool payload))"
        by (cases remembered) (simp_all only: option.case Let_def error again)
    qed simp
    show ?thesis using stop [of e] fill by (simp add: build_payload_def Inl ValidationError)
  qed (use stop [of e] in \<open>simp_all add: build_payload_def Inl\<close>)
qed

lemma attach_makes:
  "makes (ensure_attach_session args res)
     (\<lambda>r calls. r \<noteq> Inl 0 \<and> (calls = [] \<or> (\<exists>a. calls = [call_of res ''gdb_session_start'' [] a])))"
proof -
  let ?R = "\<lambda>r calls. r \<noteq> Inl 0 \<and> (calls = [] \<or> (\<exists>a. calls = [call_of res ''gdb_session_start'' [] a]))"
  have weak: "makes m ?R" if "quiet m" for m :: "pydict command"
    using that unfolding quiet_def makes_def by fastforce
  have rest: "quiet (if ctp_is_error resp then parser_error (answer_message resp ''could not start a session to attach to'')
       else case session_id_from_payload (ctp_payload resp) of
         None \<Rightarrow> parser_error ''could not start a session to attach to''
       | Some i \<Rightarrow> followed (remember_if_managed res i) (\<lambda>_. yields (dset ''session_id'' (PInt i) args)))" for resp
    unfolding remember_if_managed_def by (intro quiet_intros)
  have start: "makes (start_for_attach args res) ?R"
    unfolding start_for_attach_def
    by (rule makes_followed [OF call_tool_makes rest [unfolded quiet_def]]) auto
  have "makes (followed (if rs_managed res then in_project remembered_session_id else yields None) (\<lambda>remembered.
        case remembered of
          Some i \<Rightarrow> yields (dset ''session_id'' (PInt i) args)
        | None \<Rightarrow> start_for_attach args res)) ?R"
    by (rule quiet_then) (auto split: option.split intro!: quiet_intros start weak)
  then show ?thesis
    using weak [OF quiet_yields] by (simp add: ensure_attach_session_def)
qed

section \<open>Invocations\<close>

text \<open>The calls an invocation of a tool may make: at most one, with a payload the tool's model returned; attaching may
  start an empty session before.\<close>

definition allowed_calls :: "(string \<Rightarrow> validator) \<Rightarrow> string \<Rightarrow> tool_call list \<Rightarrow> bool" where
  "allowed_calls models tool calls \<longleftrightarrow>
     (\<exists>main before. calls = main @ before \<and> length main \<le> 1 \<and> length before \<le> 1
        \<and> (\<forall>c\<in>set main. tcl_tool c = tool \<and> validated models tool (tcl_arguments c))
        \<and> (before \<noteq> [] \<longrightarrow> tool = ''gdb_attach_process''
             \<and> tcl_tool (hd before) = ''gdb_session_start'' \<and> tcl_arguments (hd before) = []))"

lemma allowed_calls_Nil [simp]: "allowed_calls models tool []"
  by (simp add: allowed_calls_def)

lemma payload_and_finish:
  "makes (followed (build_payload models tool args res) (\<lambda>(payload, args3). call_and_finish json tool payload args3 res))
     (\<lambda>r calls. (calls = [] \<and> r \<noteq> Inl 0)
        \<or> (\<exists>c. calls = [c] \<and> tcl_tool c = tool \<and> validated models tool (tcl_arguments c) \<and> (r = Inl 0 \<longrightarrow> succeeded c)))"
proof (rule makesI)
  fix s r s'
  assume run: "followed (build_payload models tool args res) (\<lambda>(payload, args3). call_and_finish json tool payload args3 res) s = (r, s')"
  obtain x s1 where b: "build_payload models tool args res s = (x, s1)" by (metis surj_pair)
  from makesD [OF build_payload_makes b] have s1: "cl_calls s1 = cl_calls s" "x \<noteq> Inl 0"
    "\<And>payload args'. x = Inr (payload, args') \<Longrightarrow> validated models tool payload" by auto
  show "\<exists>calls. cl_calls s' = calls @ cl_calls s \<and>
      ((calls = [] \<and> r \<noteq> Inl 0)
        \<or> (\<exists>c. calls = [c] \<and> tcl_tool c = tool \<and> validated models tool (tcl_arguments c) \<and> (r = Inl 0 \<longrightarrow> succeeded c)))"
  proof (cases x)
    case (Inl code)
    with run b s1 show ?thesis by (auto simp: followed_def)
  next
    case (Inr pa)
    obtain payload args3 where pa: "pa = (payload, args3)" by (metis surj_pair)
    with run b Inr have "call_and_finish json tool payload args3 res s1 = (r, s')" by (simp add: followed_def)
    from makesD [OF call_and_finish_makes this] obtain a where
      a: "cl_calls s' = call_of res tool payload a # cl_calls s1" "r = Inl 0 \<longrightarrow> succeeded (call_of res tool payload a)"
      by auto
    have "validated models tool payload" using s1(3) Inr pa by simp
    with a s1(1) show ?thesis
      by (intro exI [of _ "[call_of res tool payload a]"]) (simp add: call_of_def)
  qed
qed

lemma run_field_makes:
  assumes "normalize_tool_name tool_name = Some tool"
  shows "makes (run_field_command env models url tok json tool_name facade args)
     (\<lambda>r calls. allowed_calls models tool calls \<and> (r = Inl 0 \<longrightarrow> calls \<noteq> [] \<and> tcl_tool (hd calls) = tool \<and> succeeded (hd calls)))"
proof -
  let ?R = "\<lambda>r calls. allowed_calls models tool calls \<and>
      (r = Inl 0 \<longrightarrow> calls \<noteq> [] \<and> tcl_tool (hd calls) = tool \<and> succeeded (hd calls))"
  have attach: "makes (if tool = ''gdb_attach_process'' then ensure_attach_session args1 res else yields args1)
      (\<lambda>r calls. r \<noteq> Inl 0 \<and> (calls = [] \<or> tool = ''gdb_attach_process'' \<and> (\<exists>a. calls = [call_of res ''gdb_session_start'' [] a])))"
    for args1 res
    using attach_makes [of args1 res] quiet_yields [of args1] by (auto simp: quiet_def makes_def)
  have rest: "makes (followed (if tool = ''gdb_attach_process'' then ensure_attach_session args1 res else yields args1) (\<lambda>args2.
          followed (build_payload models tool args2 res) (\<lambda>(payload, args3).
            call_and_finish json tool payload args3 res))) ?R" for args1 res
  proof (rule makes_followed [OF attach payload_and_finish])
    fix code calls
    assume "Inl code \<noteq> (Inl 0 :: nat + pydict) \<and> (calls = [] \<or> tool = ''gdb_attach_process'' \<and> (\<exists>a. calls = [call_of res ''gdb_session_start'' [] a]))"
    then show "?R (Inl code) calls"
      unfolding allowed_calls_def by (intro conjI exI [of _ "[]"] exI [of _ calls]) (auto simp: call_of_def)
  next
    fix x :: pydict and r :: "nat + unit" and c1 c2
    assume before: "Inr x \<noteq> (Inl 0 :: nat + pydict) \<and> (c1 = [] \<or> tool = ''gdb_attach_process'' \<and> (\<exists>a. c1 = [call_of res ''gdb_session_start'' [] a]))"
      and main: "(c2 = [] \<and> r \<noteq> Inl 0)
        \<or> (\<exists>c. c2 = [c] \<and> tcl_tool c = tool \<and> validated models tool (tcl_arguments c) \<and> (r = Inl 0 \<longrightarrow> succeeded c))"
    have "allowed_calls models tool (c2 @ c1)"
      unfolding allowed_calls_def using before main
      by (intro exI [of _ c2] exI [of _ c1]) (auto simp: call_of_def)
    with main show "?R r (c2 @ c1)" by auto
  qed
  have facade: "quiet (case facade of None \<Rightarrow> yields args
      | Some c \<Rightarrow> (case apply_facade_metadata args c of Inl e \<Rightarrow> client_error_exit e | Inr a \<Rightarrow> yields a))"
    by (intro quiet_intros)
  show ?thesis
    unfolding run_field_command_def assms option.case
    by (intro quiet_then [OF quiet_resolve_command] quiet_then [OF facade] rest) simp_all
qed

lemma makes_weaken:
  assumes "makes m R" and "\<And>r calls. R r calls \<Longrightarrow> R' r calls"
  shows "makes m R'"
proof (rule makesI)
  fix s r s' assume "m s = (r, s')"
  from makesD [OF assms(1) this] assms(2) show "\<exists>calls. cl_calls s' = calls @ cl_calls s \<and> R' r calls" by blast
qed

lemma parser_error_fails: "parser_error m s \<noteq> (Inl 0, s')"
  by (simp add: parser_error_def report_def)

lemma run_payload_zero:
  assumes "run_payload_command env models tokens url tok json tool_name parsed s = (Inl 0, s')"
  shows "\<exists>tool. normalize_tool_name tool_name = Some tool \<and>
    followed (resolve_command env url tok) (\<lambda>res.
      followed (payload_from_json models tool parsed) (\<lambda>payload. call_and_finish json tool payload [] res)) s = (Inl 0, s')"
proof (cases "field_flags_requested (strip_tool_prefix tokens) = []")
  case False
  then have "run_payload_command env models tokens url tok json tool_name parsed = parser_error (''--payload-json cannot be combined with field flags: ''
             @ join '', '' (sort (remdups (field_flags_requested (strip_tool_prefix tokens)))))"
    unfolding run_payload_command_def Let_def by (simp only: not_False_eq_True if_True)
  with assms show ?thesis by (simp only: parser_error_fails)
next
  case True
  show ?thesis
  proof (cases "normalize_tool_name tool_name")
    case None
    with True have "run_payload_command env models tokens url tok json tool_name parsed = parser_error (''unknown tool: '' @ tool_name)"
      unfolding run_payload_command_def Let_def by (simp only: refl not_True_eq_False if_False option.case simp_thms)
    with assms show ?thesis by (simp only: parser_error_fails)
  next
    case (Some tool)
    with True assms show ?thesis
      unfolding run_payload_command_def Let_def by (simp only: refl not_True_eq_False if_False option.case simp_thms) blast
  qed
qed

lemma run_field_unknown:
  "normalize_tool_name tool_name = None \<Longrightarrow>
     run_field_command env models url tok json tool_name facade args = parser_error (''unknown tool: '' @ tool_name)"
  unfolding run_field_command_def by (simp only: option.case)



section \<open>The default session\<close>

lemma remembered_run: "in_project remembered_session_id s = (Inr (last_session s), s)"
  by (simp add: in_project_def remembered_session_id_def read_cookie_def bindE_def gets_def ret_def last_session_def)

lemma remember_run: "\<exists>s1. in_project (remember_session_id i) s = (Inr (), s1) \<and> last_session s1 = Some i"
  by (simp add: in_project_def remember_session_id_def read_cookie_def write_cookie_def bindE_def gets_def modify_def
      last_session_def int_value_def)

lemma forget_run: "\<exists>s1. in_project forget_session_id s = (Inr (), s1) \<and> last_session s1 = None"
proof (cases "pj_cookie (cl_project s)")
  case None
  then show ?thesis
    by (simp add: in_project_def forget_session_id_def read_cookie_def bindE_def gets_def ret_def last_session_def)
next
  case (Some c)
  show ?thesis
  proof (cases "dhas c ''last_session_id''")
    case True
    with Some show ?thesis
      by (simp add: in_project_def forget_session_id_def read_cookie_def write_cookie_def bindE_def gets_def modify_def
          last_session_def dget_filter_key int_value_def)
  next
    case False
    with Some show ?thesis
      by (simp add: in_project_def forget_session_id_def read_cookie_def bindE_def gets_def ret_def last_session_def
          int_value_def dget_def dhas_def)
  qed
qed

lemma print_answer_session: "print_answer json tool payload res s = (r, s1) \<Longrightarrow> last_session s1 = last_session s \<and> r = Inr ()"
  by (auto simp: print_answer_def default_session_annotation_def print_out_def followed_def yields_def remembered_run
      last_session_def split: option.splits if_splits)

text \<open>The default session after a call that was answered.\<close>

definition next_default :: "string \<Rightarrow> pydict \<Rightarrow> ResolvedServer \<Rightarrow> ClientToolResponse \<Rightarrow> int option \<Rightarrow> int option" where
  "next_default tool args res resp old =
     (if \<not> rs_managed res \<or> ctp_is_error resp then old
      else if tool = ''gdb_session_start'' \<or> tool = ''gdb_session_connect''
      then (case session_id_from_payload (ctp_payload resp) of None \<Rightarrow> old | Some i \<Rightarrow> Some i)
      else if tool = ''gdb_session_manage'' \<and> tev_action (envelope_from_payload (ctp_payload resp)) = Some ''stop''
              \<and> ns_session args = old
      then None else old)"

lemma default_cases:
  assumes "starts \<Longrightarrow> \<not> manages"
    and "l2 = (if m \<and> \<not> e \<and> starts then f else old)"
    and "l3 = (if m \<and> \<not> e \<and> manages \<and> stops \<and> i = l2 then None else l2)"
  shows "l3 = (if \<not> m \<or> e then old else if starts then f else if manages \<and> stops \<and> i = old then None else old)"
  using assms by (cases m; cases e; cases starts; cases manages) simp_all

lemma start_no_manage: "tool = ''gdb_session_start'' \<or> tool = ''gdb_session_connect'' \<Longrightarrow> tool \<noteq> ''gdb_session_manage''"
  by (elim disjE) simp_all

lemma remember_new_run:
  "\<exists>s1. remember_new_session tool res resp s = (Inr (), s1) \<and>
     last_session s1 = (if rs_managed res \<and> \<not> ctp_is_error resp \<and> (tool = ''gdb_session_start'' \<or> tool = ''gdb_session_connect'')
       then (case session_id_from_payload (ctp_payload resp) of None \<Rightarrow> last_session s | Some i \<Rightarrow> Some i)
       else last_session s)"
  using remember_run by (auto simp: remember_new_session_def yields_def split: option.split)

lemma forget_stopped_run:
  "\<exists>s1. forget_stopped_session tool i res resp s = (Inr (), s1) \<and>
     last_session s1 = (if rs_managed res \<and> \<not> ctp_is_error resp \<and> tool = ''gdb_session_manage''
         \<and> tev_action (envelope_from_payload (ctp_payload resp)) = Some ''stop'' \<and> i = last_session s
       then None else last_session s)"
  using forget_run by (auto simp: forget_stopped_session_def followed_def remembered_run yields_def)

lemma call_and_finish_default:
  assumes "call_and_finish json tool payload args res s = (r, s')"
  shows "cl_calls s' = call_of res tool payload (heard s) # cl_calls s \<and>
    last_session s' = (case heard s of Inl e \<Rightarrow> last_session s | Inr resp \<Rightarrow> next_default tool args res resp (last_session s))"
proof -
  obtain x s1 where call: "call_tool res tool payload s = (x, s1)" by (metis surj_pair)
  note h = call_tool_heard [OF call]
  show ?thesis
  proof (cases "heard s")
    case (Inl e)
    with assms call h show ?thesis by (simp add: call_and_finish_def followed_def)
  next
    case (Inr resp)
    then have x: "x = Inr resp" and same: "last_session s1 = last_session s" using h by simp_all
    obtain s2 where s2: "remember_new_session tool res resp s1 = (Inr (), s2)"
      "last_session s2 = (if rs_managed res \<and> \<not> ctp_is_error resp \<and> (tool = ''gdb_session_start'' \<or> tool = ''gdb_session_connect'')
       then (case session_id_from_payload (ctp_payload resp) of None \<Rightarrow> last_session s1 | Some i \<Rightarrow> Some i)
       else last_session s1)" using remember_new_run by blast
    obtain s3 where s3: "forget_stopped_session tool (ns_session args) res resp s2 = (Inr (), s3)"
      "last_session s3 = (if rs_managed res \<and> \<not> ctp_is_error resp \<and> tool = ''gdb_session_manage''
         \<and> tev_action (envelope_from_payload (ctp_payload resp)) = Some ''stop'' \<and> ns_session args = last_session s2
       then None else last_session s2)" using forget_stopped_run by blast
    obtain y s4 where s4: "print_answer json tool (ctp_payload resp) res s3 = (y, s4)" by (metis surj_pair)
    note p = print_answer_session [OF s4]
    have "s' = s4"
      using assms call x s2(1) s3(1) s4 p by (auto simp: call_and_finish_def followed_def exits_def)
    moreover have "cl_calls s4 = cl_calls s1"
      using quietD [OF quiet_afterwards(1) s2(1)] quietD [OF quiet_afterwards(2) s3(1)] quietD [OF quiet_afterwards(3) s4] by simp
    moreover have "last_session s4 = next_default tool args res resp (last_session s)"
      unfolding next_default_def
      by (rule default_cases [OF start_no_manage s2(2) [unfolded same] s3(2), folded p [THEN conjunct1]])
    ultimately show ?thesis using h Inr by simp
  qed
qed


section \<open>Sample invocations\<close>

text \<open>A project with a running server, models that accept every payload, and one answer of the server.\<close>

definition accept_all :: "string \<Rightarrow> validator" where
  "accept_all tool payload = Inr payload"

definition answered :: "pydict \<Rightarrow> client_exn + received_result" where
  "answered payload = Inr \<lparr>rcv_structured = PDict payload, rcv_content = [], rcv_is_error = False\<rparr>"

definition sample_cli :: "pydict \<Rightarrow> (client_exn + received_result) list \<Rightarrow> cli" where
  "sample_cli cookie answers =
     \<lparr>cl_project = no_scripts\<lparr>pj_cookie := Some cookie, pj_probes := [(True, 4)]\<rparr>, cl_answers = answers, cl_calls = [],
      cl_out = [], cl_err = []\<rparr>"

lemma sample_cli_calls: "cl_calls (sample_cli cookie answers) = []"
  by (simp add: sample_cli_def)

definition started_answer :: pydict where
  "started_answer = [(''status'', PStr ''success''), (''session_id'', PInt 3)]"

definition start_run :: "(nat + unit) \<times> cli" where
  "start_run = run_field_command sample_env accept_all None None True ''session_start'' None []
     (sample_cli [(''url'', PStr ''http://old'')] [answered started_answer])"

lemma start_run_code: "fst start_run = Inl 0"
  by code_simp

lemma start_run_calls: "map tcl_tool (cl_calls (snd start_run)) = [''gdb_session_start'']"
  by code_simp


definition stop_run :: "(nat + unit) \<times> cli" where
  "stop_run = call_and_finish True ''gdb_session_manage'' [] [(''session_id'', PInt 3)]
     \<lparr>rs_url = ''http://old'', rs_token = None, rs_spawned = False, rs_managed = True\<rparr>
     (sample_cli [(''url'', PStr ''http://old''), (''last_session_id'', PInt 3)]
        [answered [(''action'', PStr ''stop''), (''session_id'', PInt 3)]])"


text \<open>Stopping the default session through \<open>--payload-json\<close> leaves it the default: the namespace of that path
  carries no session.\<close>

lemma payload_stop_keeps_default:
  "let run = run_payload_command sample_env accept_all [''--payload-json''] None None True ''session_manage''
       (Inr (PDict [(''action'', PStr ''stop''), (''session_id'', PInt 3)]))
       (sample_cli [(''url'', PStr ''http://old''), (''last_session_id'', PInt 3)]
          [answered [(''action'', PStr ''stop''), (''session_id'', PInt 3)]])
   in fst run = Inl 0 \<and> last_session (snd run) = Some 3"
  by code_simp

text \<open>Attaching without a process id starts a session on the server before the missing id is noticed.\<close>

definition need_pid :: "string \<Rightarrow> validator" where
  "need_pid tool payload = (if dhas payload ''pid'' \<and> dget payload ''pid'' \<noteq> PNone then Inr payload
     else Inl [[(''type'', PStr ''missing''), (''loc'', PTuple [PStr ''pid'']), (''msg'', PStr ''Field required'')]])"

lemma attach_without_pid_starts_session:
  "let run = run_field_command sample_env need_pid None None True ''attach_process'' None []
       (sample_cli [(''url'', PStr ''http://old'')] [answered started_answer])
   in fst run = Inl 2 \<and> map tcl_tool (cl_calls (snd run)) = [''gdb_session_start''] \<and> last_session (snd run) = Some 3"
  by code_simp

end
