(* ===== verification/Client_Server.thy ===== *)
theory Client_Server
  imports Mcp_Server_Correct Server_Process Client_Cli_Correct
begin

text \<open>
  The client and the server together: the process that \<open>client/daemon.py\<close> starts and the command line that
  \<open>server.py\<close> reads, the shutdown request and the endpoint that answers it (\<open>mcp/app.py\<close>), and a tool call
  from the client's payload through the dispatch of the server to the client's default session.
\<close>

section \<open>The server a project starts\<close>

text \<open>The flags of \<open>_spawn\<close>, as the server's parser delivers them.\<close>

definition daemon_flags :: "string \<Rightarrow> int \<Rightarrow> server_flags" where
  "daemon_flags ready_path idle =
     \<lparr>svf_transport = ''streamable-http'', svf_host = Some ''127.0.0.1'', svf_port = Some 0, svf_path = Some ''/mcp'',
      svf_auth_token = None, svf_ready_file = Some ready_path, svf_idle_timeout = Some idle\<rparr>"

text \<open>The headers and the query of the shutdown request.\<close>

definition shutdown_headers :: "pydict \<Rightarrow> (string \<times> string) list" where
  "shutdown_headers cookie =
     (case cookie_token cookie of Some t \<Rightarrow> [(''authorization'', ''Bearer '' @ t)] | None \<Rightarrow> [])"

definition force_parameter :: "bool \<Rightarrow> string" where
  "force_parameter force = (if force then ''1'' else ''0'')"

text \<open>The answer of a server to the request of a client.\<close>

definition shutdown_answer ::
  "string option \<Rightarrow> bool \<Rightarrow> pydict \<Rightarrow> bool \<Rightarrow> http_server \<Rightarrow> http_answer \<times> http_server" where
  "shutdown_answer token active cookie force hs =
     (case shutdown_endpoint token active (shutdown_headers cookie) (Some (force_parameter force)) hs of
        (Some (status, body), hs') \<Rightarrow> (HttpResponse status body, hs')
      | (None, hs') \<Rightarrow> (HttpError [], hs'))"

text \<open>The started server expects the token that the cookie remembers, and the address in its ready file is the
  address the client uses.\<close>

lemma daemon_server_token:
  assumes "0 \<le> idle"
  shows "\<exists>config. parse_server_config (Some (de_token env)) (daemon_flags ready_path idle) = Inr config
    \<and> scc_auth_token config = cookie_token (cookie_for env pid url)"
  using assms by (simp add: parse_server_config_def daemon_flags_def cookie_token_def cookie_for_def as_text_def)

lemma ready_address: "ready_url (ready_payload host port path) = Inr (''http://'' @ host @ '':'' @ show_nat port @ path)"
  by (simp add: ready_url_def ready_payload_def py_str_def show_int_def)

section \<open>Stopping\<close>

lemma shutdown_authorized: "cookie_token c = token \<Longrightarrow> authorized (shutdown_headers c) token"
  by (auto simp: authorized_def shutdown_headers_def str_truthy_def split: option.splits)

lemma shutdown_answer_cases:
  assumes "cookie_token c = token"
  shows "shutdown_answer token active c force hs =
    (if active \<and> \<not> force
     then (HttpResponse 409 (PDict [(''status'', PStr ''error''),
             (''message'', PStr ''active debug sessions; pass force=1 to stop anyway'')]), hs)
     else (HttpResponse 200 (PDict [(''status'', PStr ''success'')]), hs\<lparr>hs_stopping := True\<rparr>))"
  using shutdown_authorized [OF assms]
  by (simp add: shutdown_answer_def shutdown_endpoint_def force_parameter_def)

text \<open>C16. Client and server agree on a stop: with the token both know, an unforced stop of a server with open debug
  sessions is refused, reported as refused with the server's reason, and changes neither side; any other stop
  makes the server end, is reported as done and removes the cookie.\<close>

theorem stop_agrees:
  assumes "pj_cookie p = Some c" and "as_text (dget c ''url'') = Some url" and "cookie_token c = token"
    and "shutdown_answer token active c force hs = (a, hs')"
    and "pj_posts p = a # rest" and "stop_daemon env p = (r, p')"
  shows "if active \<and> \<not> force
    then r = Inr \<lparr>sr_stopped = False, sr_message = ''active debug sessions; pass force=1 to stop anyway''\<rparr>
      \<and> hs' = hs \<and> books p' = books p
    else hs_stopping hs' \<and> (\<exists>res. r = Inr res \<and> sr_stopped res) \<and> pj_cookie p' = None
      \<and> pj_started p' = pj_started p \<and> pj_killed p' = pj_killed p"
proof -
  let ?p = "p\<lparr>pj_posts := rest\<rparr>"
  have post: "post_shutdown p = (Inr a, ?p)" using assms(5) by (simp add: post_shutdown_def next_answer_def)
  have start: "stop_daemon env p = bindE post_shutdown (\<lambda>answer.
      case answer of
        HttpResponse status body \<Rightarrow>
          if status = 409
          then bindE (from_sum (refusal_message body)) (\<lambda>m. ret \<lparr>sr_stopped = False, sr_message = m\<rparr>)
          else if status \<ge> 400
          then ret \<lparr>sr_stopped = False, sr_message = ''background server returned HTTP '' @ show_nat status\<rparr>
          else finish_stop env (int_value (dget c ''pid'')) None
      | HttpError m \<Rightarrow> finish_stop env (int_value (dget c ''pid'')) (Some m)) p"
    using assms(1,2) by (simp add: stop_daemon_def read_cookie_def bindE_gets)
  note run = start [unfolded bindE_step [where m = post_shutdown, OF post]]
  show ?thesis
  proof (cases "active \<and> \<not> force")
    case True
    then have a: "a = HttpResponse 409 (PDict [(''status'', PStr ''error''),
             (''message'', PStr ''active debug sessions; pass force=1 to stop anyway'')])" "hs' = hs"
      using assms(4) unfolding shutdown_answer_cases [OF assms(3)] by simp_all
    have "refusal_message (PDict [(''status'', PStr ''error''),
             (''message'', PStr ''active debug sessions; pass force=1 to stop anyway'')])
        = Inr ''active debug sessions; pass force=1 to stop anyway''"
      by (simp add: refusal_message_def py_str_def)
    with run True a assms(6) show ?thesis by (simp add: bindE_def from_sum_def ret_def books_def)
  next
    case False
    then have a: "a = HttpResponse 200 (PDict [(''status'', PStr ''success'')])" "hs_stopping hs'"
      using assms(4) unfolding shutdown_answer_cases [OF assms(3)] by (auto split: if_splits)
    have "stop_daemon env p = finish_stop env (int_value (dget c ''pid'')) None ?p"
      using run a(1) by simp
    with finish_stop_total [of env "int_value (dget c ''pid'')" None ?p] assms(6) a(2) False
    show ?thesis by auto
  qed
qed

text \<open>A project with a server that has an open session.\<close>

definition served_cookie :: pydict where
  "served_cookie = cookie_for sample_env 7 ''http://h:1/mcp''"

definition idle_http :: http_server where
  "idle_http = \<lparr>hs_last_request = 0, hs_stopping = False, hs_forwarded = 0\<rparr>"

definition stopping_project :: "bool \<Rightarrow> bool \<Rightarrow> project" where
  "stopping_project active force =
     no_scripts\<lparr>pj_cookie := Some served_cookie, pj_posts := [fst (shutdown_answer (Some ''t'') active served_cookie force idle_http)]\<rparr>"

lemma stop_agrees_witness:
  "fst (stop_daemon sample_env (stopping_project True False)) =
     Inr \<lparr>sr_stopped = False, sr_message = ''active debug sessions; pass force=1 to stop anyway''\<rparr>
   \<and> pj_cookie (snd (stop_daemon sample_env (stopping_project True True))) = None"
proof -
  have c: "pj_cookie (stopping_project a f) = Some served_cookie" "as_text (dget served_cookie ''url'') = Some ''http://h:1/mcp''"
    "cookie_token served_cookie = Some ''t''"
    "pj_posts (stopping_project a f) = [fst (shutdown_answer (Some ''t'') a served_cookie f idle_http)]" for a f
    by (simp_all add: stopping_project_def served_cookie_def cookie_for_def cookie_token_def sample_env_def as_text_def)
  note agrees = stop_agrees [OF c(1-3) prod.collapse [symmetric] c(4) prod.collapse [symmetric]]
  show ?thesis using agrees [of True False sample_env] agrees [of True True sample_env] by simp
qed

section \<open>A call from the client to the server\<close>

lemma payload_items_int:
  "payload_items acc fs = Inr d \<Longrightarrow> distinct (map fst fs) \<Longrightarrow> dget fs k = PInt i \<Longrightarrow> dget d k = PInt i"
  "payload_items acc fs = Inr d \<Longrightarrow> k \<notin> fst ` set fs \<Longrightarrow> dget d k = dget acc k"
proof -
  have keep: "payload_items acc fs = Inr d \<Longrightarrow> k \<notin> fst ` set fs \<Longrightarrow> dget d k = dget acc k" for acc fs
    by (induction fs arbitrary: acc) (auto split: sum.splits)
  then show "payload_items acc fs = Inr d \<Longrightarrow> k \<notin> fst ` set fs \<Longrightarrow> dget d k = dget acc k" .
  show "payload_items acc fs = Inr d \<Longrightarrow> distinct (map fst fs) \<Longrightarrow> dget fs k = PInt i \<Longrightarrow> dget d k = PInt i"
  proof (induction fs arbitrary: acc)
    case (Cons p fs)
    obtain key v where p: "p = (key, v)" by (metis surj_pair)
    obtain j where j: "payload_to_mapping v = Inr j" "payload_items (dset key j acc) fs = Inr d"
      using Cons.prems(1) by (auto simp: p split: sum.splits)
    show ?case
    proof (cases "key = k")
      case True
      then have "k \<notin> fst ` set fs" using Cons.prems(2) by (simp add: p)
      from keep [OF j(2) this] have "dget d k = j" using True by simp
      with j(1) Cons.prems(3) True show ?thesis by (simp add: p)
    next
      case False
      from Cons.IH [OF j(2)] Cons.prems(2,3) False show ?thesis by (simp add: p)
    qed
  qed simp
qed

text \<open>An integer of a result is in the payload of the client.\<close>

lemma result_integer:
  assumes "serialize_result (op_success (PDict d)) = Inr w" and "distinct (map fst d)" and "dget d k = PInt i"
  shows "dget (ctr_structuredContent w) k = PInt i"
proof -
  obtain j where j: "payload_items [] d = Inr j"
    using assms(1) by (cases "payload_items [] d") (auto simp: serialize_result_def result_to_mapping_def op_success_def)
  from payload_items_int(1) [OF this assms(2,3)] have get: "dget j k = PInt i" .
  then have "dhas j k" by (cases "map_of j k") (simp_all add: dhas_def dget_def)
  with get j assms(1) show ?thesis
    by (auto simp: serialize_result_def result_to_mapping_def op_success_def Let_def split: if_splits)
qed

lemma published_integer:
  assumes "publish_session_result (Some i) (Success info ws) = Inr r" and "serialize_result r = Inr w"
    and "\<not> ctr_isError w"
  shows "dget (ctr_structuredContent w) ''session_id'' = PInt i"
proof -
  have notfail: "\<not> is_failure r" using serialize_shape [OF assms(2)] assms(3) by simp
  obtain payload where p: "payload_to_mapping (start_info_pyv info) = Inr (PDict payload)"
    "r = op_success (PDict (dset ''session_id'' (PInt i) payload))"
    using assms(1) notfail by (auto simp: publish_session_result_def op_error_def split: sum.splits pyv.splits)
  have "is_json (PDict payload)" using payload_json_aux(1) [OF p(1)] .
  then have "distinct (map fst (dset ''session_id'' (PInt i) payload))" by (simp add: distinct_update)
  from result_integer [OF assms(2) [unfolded p(2)] this] show ?thesis by simp
qed

text \<open>Starting in a world, published: a success has the next id, which names the new session from then on.\<close>

lemma start_published:
  assumes "bindE (start_in_world senv cfg) (\<lambda>(session_id, result). from_sum (publish_session_result session_id result)) sv
      = (Inr r, sv')"
    and "serialize_result r = Inr w" and "\<not> ctr_isError w"
  shows "dget (ctr_structuredContent w) ''session_id'' = PInt (reg_next_session_id (sv_registry sv))
    \<and> get_session (reg_next_session_id (sv_registry sv)) (sv_registry sv') = Some (reg_fresh (sv_registry sv))"
proof -
  let ?reg = "sv_registry sv"
  obtain res rt where run: "start_session cfg (se_world senv (reg_fresh ?reg)) ?reg =
       (if is_failure res
        then (Inr (None, res), ?reg\<lparr>reg_next_session_id := reg_next_session_id ?reg + 1,
                reg_fresh := reg_fresh ?reg + 1, reg_store := (reg_store ?reg)(reg_fresh ?reg := rt)\<rparr>)
        else (Inr (Some (reg_next_session_id ?reg), res),
              ?reg\<lparr>reg_next_session_id := reg_next_session_id ?reg + 1,
                reg_fresh := reg_fresh ?reg + 1, reg_store := (reg_store ?reg)(reg_fresh ?reg := rt),
                reg_sessions := AList.update (reg_next_session_id ?reg) (reg_fresh ?reg) (reg_sessions ?reg)\<rparr>))"
    by (rule start_session_cases)
  have notfail: "\<not> is_failure r" using serialize_shape [OF assms(2)] assms(3) by simp
  show ?thesis
  proof (cases res)
    case (Failure e)
    then have "Inr r = publish_session_result None res"
      using assms(1) run by (auto simp: start_in_world_def on_registry_def exec_defs from_sum_def split: sum.splits)
    with Failure notfail show ?thesis by (simp add: publish_session_result_def)
  next
    case (Success info ws)
    then have pub: "publish_session_result (Some (reg_next_session_id ?reg)) (Success info ws) = Inr r"
      and reg: "reg_sessions (sv_registry sv') = AList.update (reg_next_session_id ?reg) (reg_fresh ?reg) (reg_sessions ?reg)"
      using assms(1) run by (auto simp: start_in_world_def on_registry_def exec_defs from_sum_def split: sum.splits)
    from published_integer [OF pub assms(2,3)] reg show ?thesis by (simp add: get_session_def update_conv')
  qed
qed

text \<open>What the two tools that create sessions are validated to.\<close>

definition creates_session :: "tool_args \<Rightarrow> bool" where
  "creates_session a = (case a of SessionStartTool x \<Rightarrow> True | SessionConnectTool x \<Rightarrow> True | _ \<Rightarrow> False)"

lemma run_creates:
  assumes "creates_session a" and "run_tool senv a sv = (Inr r, sv')"
    and "serialize_result r = Inr w" and "\<not> ctr_isError w"
  shows "dget (ctr_structuredContent w) ''session_id'' = PInt (reg_next_session_id (sv_registry sv))
    \<and> get_session (reg_next_session_id (sv_registry sv)) (sv_registry sv') = Some (reg_fresh (sv_registry sv))"
proof -
  have notfail: "\<not> is_failure r" using serialize_shape [OF assms(3)] assms(4) by simp
  have unwrap: "m sv = (Inr r, sv')" if "wrapped a m sv = (Inr r, sv')" "request_action a = None" for m
    using that by (auto simp: wrapped_def wrap_action_result_for_def exec_defs from_sum_def split: prod.splits sum.splits)
  from assms(1) consider (start) x where "a = SessionStartTool x" | (connect) x where "a = SessionConnectTool x"
    by (cases a) (simp_all add: creates_session_def)
  then show ?thesis
  proof cases
    case start
    then have h: "handle_start_session senv x sv = (Inr r, sv')" using assms(2) unwrap by simp
    show ?thesis
    proof (cases "normalize_run_args (ssa_args x)")
      case (Inl e)
      with h notfail show ?thesis by (auto simp: handle_start_session_def ret_def)
    next
      case (Inr argv)
      with h have "bindE (start_in_world senv (start_config x argv)) (\<lambda>(session_id, result).
          from_sum (publish_session_result session_id result)) sv = (Inr r, sv')"
        by (simp add: handle_start_session_def)
      from start_published [OF this assms(3,4)] show ?thesis .
    qed
  next
    case connect
    then have "handle_connect_session senv x sv = (Inr r, sv')" using assms(2) unwrap by simp
    from start_published [OF this [unfolded handle_connect_session_def] assms(3,4)] show ?thesis .
  qed
qed

lemma dispatch_creates:
  assumes "se_validate senv tool payload = Inr a" and "creates_session a" and "tool \<in> set public_tool_names"
    and "dispatch_tool_call senv tool (PDict payload) sv = (Inr w, sv')" and "\<not> ctr_isError w"
  shows "dget (ctr_structuredContent w) ''session_id'' = PInt (reg_next_session_id (sv_registry sv))
    \<and> get_session (reg_next_session_id (sv_registry sv)) (sv_registry sv') = Some (reg_fresh (sv_registry sv))"
proof -
  obtain x s1 where run: "run_tool senv a sv = (x, s1)" by (metis surj_pair)
  have exn: "\<not> serialize_exception tool e = Inr w" for e
    using assms(5) serialize_shape [where c = w] by (force simp: serialize_exception_def)
  note d = assms(4) [unfolded dispatch_tool_call_def normalize_arguments_def pyv.case sum.case dispatch_tool_def]
  show ?thesis
  proof (cases x)
    case (Inl e)
    with d run assms(1,3) exn show ?thesis by (auto simp: exec_defs from_sum_def)
  next
    case (Inr r)
    show ?thesis
    proof (cases "serialize_result r")
      case (Inl e)
      with d run Inr assms(1,3) exn show ?thesis by (auto simp: exec_defs from_sum_def)
    next
      case (Inr w')
      with d run \<open>x = Inr r\<close> assms(1,3) have "w' = w" "s1 = sv'" by (auto simp: exec_defs from_sum_def)
      with run_creates [OF assms(2) _ _ assms(5)] run \<open>x = Inr r\<close> Inr show ?thesis by blast
    qed
  qed
qed

lemma next_id_unused: "server_ok sv \<Longrightarrow> get_session (reg_next_session_id (sv_registry sv)) (sv_registry sv) = None"
  by (auto simp: server_ok_def reg_ok_def published_ok_def get_session_def map_of_eq_None_iff)

text \<open>The last answer of the server is the one the client hears.\<close>

lemma heard_wire:
  "cl_answers s = Inr (on_the_wire w) # rest \<Longrightarrow>
     heard s = Inr \<lparr>ctp_payload = ctr_structuredContent w, ctp_is_error = ctr_isError w\<rparr>"
  by (simp add: heard_def next_answer_def client_response_def parse_tool_payload_def on_the_wire_def)

text \<open>C9. A session that was started or connected through the client is the one the project uses from then on: when a
  sound server answers the call without an error and the client handles this answer, the client's
  default session is an id that no session had before and under which the server now tracks the new one.\<close>

theorem new_session_is_default:
  assumes "se_validate senv tool payload = Inr a" and "creates_session a"
    and "tool = ''gdb_session_start'' \<or> tool = ''gdb_session_connect''" and "server_ok sv"
    and "dispatch_tool_call senv tool (PDict payload) sv = (Inr w, sv')" and "\<not> ctr_isError w"
    and "rs_managed res" and "cl_answers s = Inr (on_the_wire w) # rest"
    and "call_and_finish json tool payload args res s = (r, s')"
  shows "\<exists>i h. last_session s' = Some i \<and> get_session i (sv_registry sv) = None
    \<and> get_session i (sv_registry sv') = Some h"
proof -
  have "''gdb_session_start'' \<in> set public_tool_names" "''gdb_session_connect'' \<in> set public_tool_names" by code_simp+
  with assms(3) have public: "tool \<in> set public_tool_names" by (elim disjE) (simp_all only:)
  note served = dispatch_creates [OF assms(1,2) public assms(5,6)]
  let ?resp = "\<lparr>ctp_payload = ctr_structuredContent w, ctp_is_error = ctr_isError w\<rparr>"
  from served have "session_id_from_payload (ctp_payload ?resp) = Some (reg_next_session_id (sv_registry sv))"
    by (simp add: session_id_from_payload_def envelope_from_payload_def as_int_def)
  moreover have "last_session s' = next_default tool args res ?resp (last_session s)"
    using call_and_finish_default [OF assms(9)] heard_wire [OF assms(8)] by simp
  ultimately have "last_session s' = Some (reg_next_session_id (sv_registry sv))"
    using assms(3,6,7) by (simp only: next_default_def ClientToolResponse.simps option.case simp_thms if_True if_False)
  with served next_id_unused [OF assms(4)] show ?thesis by blast
qed

text \<open>A server whose GDB answers its first command, and the answer a client gets from it.\<close>

definition plain_start :: StartSessionArgs where
  "plain_start = \<lparr>ssa_program = Some ''/bin/true'', ssa_args = None, ssa_init_commands = None, ssa_env = None,
     ssa_gdb_path = None, ssa_gdb_args = None, ssa_working_dir = None, ssa_rr_replay = None, ssa_core = None\<rparr>"

definition starting_env :: server_env where
  "starting_env = sample_server_env\<lparr>
     se_world := (\<lambda>_. sample_world [Records 5 [], Records 5 [sample_result 1000 ''done''],
       ReadRaises 5 (Exn OSError ''pipe closed'')]),
     se_validate := (\<lambda>_ _. Inr (SessionStartTool plain_start))\<rparr>"

lemma plain_start_succeeds:
  "\<exists>w sv'. dispatch_tool_call starting_env ''gdb_session_start'' (PDict []) (new_server empty_disk) = (Inr w, sv')
     \<and> \<not> ctr_isError w"
proof -
  let ?reg = "sv_registry (new_server empty_disk)"
  have "create_default_session_service (se_world starting_env (reg_fresh ?reg)) = lost_start"
    by (simp add: create_default_session_service_def starting_env_def lost_start_def idle_runtime_def sample_client_def
        initial_command_token_def poll_timeout_usec_def)
  moreover have "start_config plain_start None = sample_config"
    by (simp add: start_config_def plain_start_def sample_config_def argv_or_empty_def)
  ultimately obtain info ws rt tx ws' where run:
    "start_session_op (start_config plain_start None) (create_default_session_service (se_world starting_env (reg_fresh ?reg)))
       = (Inr (Success info ws), rt)" "info = start_info lost_config tx ws' [] [] rt"
    using lost_start_run by auto
  obtain d where d: "payload_to_mapping (start_info_pyv info) = Inr (PDict d)"
  proof -
    have "\<not> has_opaque (start_info_pyv info)"
    proof -
      have "\<not> has_opaque (opt_str v)" "\<not> has_opaque (opt_int j)"
        "\<not> has_opaque (opt_pyv (\<lambda>ws. PList (map PStr ws)) texts)" for v j texts
        by (auto simp: opt_str_def opt_int_def opt_pyv_def list_ex_iff split: option.split)
      moreover have "list_or_none ([] :: pyv list) = None" by (simp add: list_or_none_def)
      ultimately show ?thesis
        by (simp add: run(2) start_info_pyv_def start_info_def exec_state_pyv_def opt_pyv_def)
    qed
    then show thesis using payload_opaque_aux(1) [of "start_info_pyv info"] that
      by (auto simp: start_info_pyv_def split: sum.splits)
  qed
  have json: "is_json (PDict (dset ''session_id'' (PInt i) d))" for i
    using json_dset payload_json_aux(1) [OF d] by simp
  obtain w where w: "serialize_result (op_success (PDict (dset ''session_id'' (PInt (reg_next_session_id ?reg)) d))) = Inr w"
    using payload_id_aux(1) [OF json] by (auto simp: serialize_result_def result_to_mapping_def op_success_def Let_def)
  have "\<not> ctr_isError w" using serialize_shape [OF w] by (simp add: op_success_def)
  moreover have "\<exists>sv'. dispatch_tool_call starting_env ''gdb_session_start'' (PDict []) (new_server empty_disk) = (Inr w, sv')"
  proof -
    have "\<exists>reg'. start_session (start_config plain_start None) (se_world starting_env (reg_fresh ?reg)) ?reg =
        (Inr (Some (reg_next_session_id ?reg), Success info ws), reg')"
      using run(1) by (simp add: start_session_def allocate_session_id_def create_session_def on_session_def
          publish_session_def exec_defs)
    then obtain reg' where s: "start_session (start_config plain_start None) (se_world starting_env (reg_fresh ?reg)) ?reg =
        (Inr (Some (reg_next_session_id ?reg), Success info ws), reg')" by blast
    let ?r = "op_success (PDict (dset ''session_id'' (PInt (reg_next_session_id ?reg)) d))"
    have "start_in_world starting_env (start_config plain_start None) (new_server empty_disk) =
        (Inr (Some (reg_next_session_id ?reg), Success info ws), (new_server empty_disk)\<lparr>sv_registry := reg'\<rparr>)"
      using s by (simp add: start_in_world_def on_registry_def exec_defs)
    moreover have "publish_session_result (Some (reg_next_session_id ?reg)) (Success info ws) = Inr ?r"
      by (simp add: publish_session_result_def d)
    moreover have "normalize_run_args (ssa_args plain_start) = Inr None"
      by (simp add: normalize_run_args_def plain_start_def)
    ultimately have "handle_start_session starting_env plain_start (new_server empty_disk) =
        (Inr ?r, (new_server empty_disk)\<lparr>sv_registry := reg'\<rparr>)"
      by (simp add: handle_start_session_def bindE_def from_sum_def ret_def)
    then have r: "run_tool starting_env (SessionStartTool plain_start) (new_server empty_disk) =
        (Inr ?r, (new_server empty_disk)\<lparr>sv_registry := reg'\<rparr>)"
      by (simp add: wrapped_def wrap_action_result_for_def bindE_def from_sum_def ret_def)
    have "''gdb_session_start'' \<in> set public_tool_names" by code_simp
    moreover have "se_validate starting_env ''gdb_session_start'' [] = Inr (SessionStartTool plain_start)"
      by (simp add: starting_env_def)
    ultimately have "dispatch_tool starting_env ''gdb_session_start'' [] (new_server empty_disk) =
        (Inr (Inr ?r), (new_server empty_disk)\<lparr>sv_registry := reg'\<rparr>)"
      unfolding dispatch_tool_def using r by (simp add: bindE_def ret_def)
    then show ?thesis
      unfolding dispatch_tool_call_def normalize_arguments_def pyv.case sum.case
      using w by (auto simp: bindE_def catchE_def from_sum_def ret_def)
  qed
  ultimately show ?thesis by blast
qed

lemma new_session_is_default_witness:
  "\<exists>w sv' r s' i h.
     dispatch_tool_call starting_env ''gdb_session_start'' (PDict []) (new_server empty_disk) = (Inr w, sv')
     \<and> call_and_finish True ''gdb_session_start'' [] [] \<lparr>rs_url = ''http://old'', rs_token = None, rs_spawned = False, rs_managed = True\<rparr>
          (sample_cli [] [Inr (on_the_wire w)]) = (r, s')
     \<and> last_session s' = Some i \<and> get_session i (sv_registry sv') = Some h"
proof -
  obtain w sv' where w: "dispatch_tool_call starting_env ''gdb_session_start'' (PDict []) (new_server empty_disk) = (Inr w, sv')"
    "\<not> ctr_isError w" using plain_start_succeeds by blast
  let ?res = "\<lparr>rs_url = ''http://old'', rs_token = None, rs_spawned = False, rs_managed = True\<rparr>"
  have "se_validate starting_env ''gdb_session_start'' [] = Inr (SessionStartTool plain_start)"
    by (simp add: starting_env_def)
  moreover have "creates_session (SessionStartTool plain_start)" by (simp add: creates_session_def)
  moreover have "rs_managed ?res" "cl_answers (sample_cli [] [Inr (on_the_wire w)]) = Inr (on_the_wire w) # []"
    by (simp_all add: sample_cli_def)
  ultimately show ?thesis
    using new_session_is_default [OF _ _ disjI1 [OF refl] new_server_ok w _ _ prod.collapse [symmetric]] w(1)
    by (metis prod.collapse)
qed

text \<open>A campaign leaves the registry as it is, from its start to its end: it does not count as an open session.\<close>

lemma campaign_looks_idle:
  "has_active_sessions (sv_registry (snd (handle_run_until_failure senv a sv))) = has_active_sessions (sv_registry sv)"
  by (simp add: handle_run_until_failure_def run_campaign_def ret_def split: sum.split prod.split)

end
