(* ===== verification/External_Endpoint.thy ===== *)
theory External_Endpoint
  imports Exec_Monad "HOL-Library.Word"
begin

unbundle bit_operations_syntax

text \<open>
  Debuggers that another process started (\<open>transport/external.py\<close>): the text that names an endpoint,
  the stream that hides the carriage returns of a terminal, the terminal's raw mode, and the controller
  that only detaches. Opening a socket or a terminal is the operating system's: an outcome of the
  model. A byte is a character.
\<close>

section \<open>Endpoints\<close>

datatype endpoint_kind = Tcp | Unix | Pty

record MiEndpoint =
  ep_kind :: endpoint_kind
  ep_display :: string
  ep_host :: "string option"
  ep_port :: "int option"
  ep_path :: "string option"

text \<open>\<open>s.partition(sep)\<close> without the separator: the text before its first occurrence, and after it.\<close>

fun partition_text :: "string \<Rightarrow> string \<Rightarrow> string \<times> string" where
  "partition_text sep [] = ([], [])"
| "partition_text sep (c # cs) =
     (if startswith (c # cs) sep then ([], drop (length sep) (c # cs))
      else apfst (Cons c) (partition_text sep cs))"

text \<open>\<open>s.rpartition(c)\<close> for one character: \<open>None\<close> when it does not occur.\<close>

fun rpartition_char :: "char \<Rightarrow> string \<Rightarrow> (string \<times> string) option" where
  "rpartition_char c [] = None"
| "rpartition_char c (x # xs) =
     (case rpartition_char c xs of
        Some (a, b) \<Rightarrow> Some (x # a, b)
      | None \<Rightarrow> if x = c then Some ([], xs) else None)"

definition in_quotes :: "string \<Rightarrow> string" where
  "in_quotes s = [CHR 0x27] @ s @ [CHR 0x27]"

definition endpoint_help :: string where
  "endpoint_help = ''Unsupported endpoint. Use '' @ in_quotes ''tcp://host:port'' @ '', '' @ in_quotes ''unix:///path/to/socket''
     @ '', or '' @ in_quotes ''pty:///dev/pts/N'' @ ''.''"

definition endpoint_error :: "string \<Rightarrow> exn + 'a" where
  "endpoint_error m = Inl (Exn EndpointError m)"

definition parse_tcp :: "string \<Rightarrow> exn + MiEndpoint" where
  "parse_tcp remainder =
     (case rpartition_char (CHR '':'') remainder of
        None \<Rightarrow> endpoint_error (''tcp endpoint must look like '' @ in_quotes ''tcp://host:port'')
      | Some (host, port_text) \<Rightarrow>
          if host = [] \<or> \<not> isdigit port_text
          then endpoint_error (''tcp endpoint must look like '' @ in_quotes ''tcp://host:port'')
          else Inr \<lparr>ep_kind = Tcp, ep_display = ''tcp://'' @ host @ '':'' @ show_int (nat_of_digits port_text),
                 ep_host = Some host, ep_port = Some (nat_of_digits port_text), ep_path = None\<rparr>)"

definition parse_path_endpoint :: "string \<Rightarrow> string \<Rightarrow> exn + MiEndpoint" where
  "parse_path_endpoint scheme path =
     (if \<not> startswith path ''/''
      then endpoint_error (scheme @ '' endpoint must look like '' @ in_quotes (scheme @ '':///path/to/endpoint''))
      else Inr \<lparr>ep_kind = (if scheme = ''unix'' then Unix else Pty), ep_display = scheme @ ''://'' @ path,
             ep_host = None, ep_port = None, ep_path = Some path\<rparr>)"

definition parse_mi_endpoint :: "string \<Rightarrow> exn + MiEndpoint" where
  "parse_mi_endpoint endpoint =
     (let raw = strip endpoint in
      if raw = [] then endpoint_error ''endpoint must be a non-empty string''
      else case partition_text ''://'' raw of
        (scheme0, remainder) \<Rightarrow>
          let scheme = lower scheme0 in
          if scheme = ''tcp'' then parse_tcp remainder
          else if scheme = ''unix'' \<or> scheme = ''pty'' then parse_path_endpoint scheme remainder
          else endpoint_error endpoint_help)"

section \<open>Streams and terminals\<close>

text \<open>One read: no data yet, or bytes, from which carriage returns are dropped.\<close>

definition crlf_read :: "string option \<Rightarrow> string option" where
  "crlf_read data =
     (case data of
        None \<Rightarrow> None
      | Some d \<Rightarrow> if d \<noteq> [] \<and> CHR 0x0D \<in> set d then Some (filter (\<lambda>c. c \<noteq> CHR 0x0D) d) else Some d)"

text \<open>The flag words of a terminal, and the bits of the operating system's header that are cleared.\<close>

record tty_bits =
  bit_icrnl :: "32 word"
  bit_ixon :: "32 word"
  bit_opost :: "32 word"
  bit_echo :: "32 word"
  bit_icanon :: "32 word"
  bit_isig :: "32 word"
  bit_iexten :: "32 word"

record tty_attrs =
  tty_iflag :: "32 word"
  tty_oflag :: "32 word"
  tty_cflag :: "32 word"
  tty_lflag :: "32 word"

definition raw_attrs :: "tty_bits \<Rightarrow> tty_attrs \<Rightarrow> tty_attrs" where
  "raw_attrs b a =
     a\<lparr>tty_iflag := tty_iflag a AND NOT (bit_icrnl b OR bit_ixon b),
       tty_oflag := tty_oflag a AND NOT (bit_opost b),
       tty_lflag := tty_lflag a AND NOT (bit_echo b OR bit_icanon b OR bit_isig b OR bit_iexten b)\<rparr>"

text \<open>\<open>_configure_raw_tty\<close>: a terminal that cannot be read or set is left as it is.\<close>

definition configure_raw_tty :: "tty_bits \<Rightarrow> bool \<Rightarrow> tty_attrs option \<Rightarrow> tty_attrs option" where
  "configure_raw_tty b settable attrs =
     (case attrs of None \<Rightarrow> None | Some a \<Rightarrow> Some (if settable then raw_attrs b a else a))"

section \<open>The controller\<close>

text \<open>A controller and how often the connection was closed; the flag \<open>_closed\<close>.\<close>

record external_controller =
  xc_endpoint :: MiEndpoint
  xc_closed :: bool
  xc_close_calls :: nat

text \<open>\<open>open_endpoint\<close> is a parameter: the failure of the operating system, or success.\<close>

definition create_external_controller ::
  "(MiEndpoint \<Rightarrow> exn option) \<Rightarrow> string \<Rightarrow> exn + external_controller" where
  "create_external_controller open_endpoint endpoint =
     (case parse_mi_endpoint endpoint of
        Inl e \<Rightarrow> Inl e
      | Inr ep \<Rightarrow>
          (case open_endpoint ep of
             None \<Rightarrow> Inr \<lparr>xc_endpoint = ep, xc_closed = False, xc_close_calls = 0\<rparr>
           | Some e \<Rightarrow>
               if is_os_error e
               then endpoint_error (''Could not reach MI endpoint '' @ ep_display ep @ '': '' @ exn_text e)
               else Inl e))"

definition external_exit :: "external_controller \<Rightarrow> external_controller" where
  "external_exit c = (if xc_closed c then c else c\<lparr>xc_closed := True, xc_close_calls := xc_close_calls c + 1\<rparr>)"

section \<open>Facts\<close>

lemma partition_text_parts:
  "partition_text sep s = (a, b) \<Longrightarrow> s = a @ sep @ b \<or> s = a \<and> b = []"
proof (induction s arbitrary: a b)
  case (Cons c cs)
  show ?case
  proof (cases "startswith (c # cs) sep")
    case True
    with Cons.prems show ?thesis by (auto simp: startswith_def) (metis append_take_drop_id)
  next
    case False
    with Cons.prems Cons.IH [of "fst (partition_text sep cs)" "snd (partition_text sep cs)"] show ?thesis
      by (cases "partition_text sep cs") auto
  qed
qed simp

lemma rpartition_char_parts: "rpartition_char c s = Some (a, b) \<Longrightarrow> s = a @ c # b \<and> c \<notin> set b"
proof (induction s arbitrary: a b)
  case (Cons x xs)
  have "rpartition_char c xs = None \<longleftrightarrow> c \<notin> set xs" by (induction xs) (auto split: option.splits)
  with Cons show ?case by (auto split: option.splits if_splits)
qed simp

lemma rpartition_char_append: "c \<notin> set b \<Longrightarrow> rpartition_char c (a @ c # b) = Some (a, b)"
proof (induction a)
  case Nil
  have "c \<notin> set b \<Longrightarrow> rpartition_char c b = None" by (induction b) auto
  with Nil show ?case by simp
qed simp

lemma strip_ends:
  assumes "strip t \<noteq> []"
  shows "\<not> is_space (last (strip t))"
proof -
  let ?r = "dropWhile is_space (rev (lstrip t))"
  have "?r \<noteq> []" using assms by (simp add: strip_def rstrip_def)
  then have "\<not> is_space (hd ?r)" by (rule hd_dropWhile)
  then show ?thesis using assms by (simp add: strip_def rstrip_def last_rev)
qed

lemma strip_same: "s \<noteq> [] \<Longrightarrow> \<not> is_space (hd s) \<Longrightarrow> \<not> is_space (last s) \<Longrightarrow> strip s = s"
  by (simp add: strip_def rstrip_def lstrip_def dropWhile_eq_self_iff [THEN iffD2] hd_rev)

lemma digits_no_colon: "isdigit s \<Longrightarrow> CHR '':'' \<notin> set s"
proof -
  assume "isdigit s"
  moreover have "\<not> is_digit (CHR '':'')" by code_simp
  ultimately show ?thesis by (auto simp: isdigit_def list_all_iff)
qed

lemma tcp_display:
  assumes "parse_tcp rest = Inr ep"
  shows "parse_mi_endpoint (ep_display ep) = Inr ep"
proof -
  obtain host d where d: "host \<noteq> []" "isdigit d" "ep = \<lparr>ep_kind = Tcp,
      ep_display = ''tcp://'' @ host @ '':'' @ show_int (nat_of_digits d), ep_host = Some host,
      ep_port = Some (nat_of_digits d), ep_path = None\<rparr>"
    using assms by (auto simp: parse_tcp_def endpoint_error_def split: option.splits if_splits)
  let ?n = "show_int (nat_of_digits d)" and ?m = "nat (nat_of_digits d)"
  have n: "?n = show_nat ?m" using nat_of_digits_nonneg [of d] by (simp add: show_int_def)
  have dig: "isdigit ?n" by (simp add: n isdigit_def show_nat_digits)
  have last: "\<not> is_space (last ?n)"
    using digits_not_space [OF dig, of "last ?n"] dig by (simp add: isdigit_def)
  have strip: "strip (ep_display ep) = ep_display ep"
    by (rule strip_same) (use last dig in \<open>simp_all add: d(3) is_space_def isdigit_def\<close>)
  have "rpartition_char (CHR '':'') (host @ CHR '':'' # ?n) = Some (host, ?n)"
    by (rule rpartition_char_append [OF digits_no_colon [OF dig]])
  then have "parse_tcp (host @ CHR '':'' # ?n) = Inr ep"
    using d(1) dig nat_of_digits_nonneg [of d] by (simp add: parse_tcp_def d(3) nat_of_digits_show_int)
  then show ?thesis unfolding parse_mi_endpoint_def Let_def strip
    by (simp add: d(3) lower_def to_lower_def startswith_def)
qed

lemma path_display:
  assumes "parse_path_endpoint k rest = Inr ep" and "k = ''unix'' \<or> k = ''pty''" and "\<not> is_space (last rest)"
  shows "parse_mi_endpoint (ep_display ep) = Inr ep"
proof -
  have e: "startswith rest ''/''" "ep_display ep = k @ ''://'' @ rest"
    using assms(1) by (auto simp: parse_path_endpoint_def endpoint_error_def split: if_splits)
  have "rest \<noteq> []" using e(1) by (cases rest) (simp_all add: startswith_def)
  then have strip: "strip (ep_display ep) = ep_display ep"
    by (intro strip_same) (use assms(2,3) in \<open>auto simp: e(2) is_space_def\<close>)
  show ?thesis using assms(2)
  proof
    assume k: "k = ''unix''"
    show ?thesis unfolding parse_mi_endpoint_def Let_def strip
      using assms(1) by (simp add: e(2) k lower_def to_lower_def startswith_def)
  next
    assume k: "k = ''pty''"
    show ?thesis unfolding parse_mi_endpoint_def Let_def strip
      using assms(1) by (simp add: e(2) k lower_def to_lower_def startswith_def)
  qed
qed

text \<open>C36. An endpoint is shown in the form in which it is accepted: parsing what is displayed gives the same
  endpoint again.\<close>

theorem endpoint_roundtrip:
  assumes "parse_mi_endpoint s = Inr ep"
  shows "parse_mi_endpoint (ep_display ep) = Inr ep"
proof -
  obtain scheme0 rest where p: "partition_text ''://'' (strip s) = (scheme0, rest)" by (metis surj_pair)
  have raw: "strip s \<noteq> []" using assms by (auto simp: parse_mi_endpoint_def endpoint_error_def)
  consider (tcp) "parse_tcp rest = Inr ep"
    | (path) k where "k = ''unix'' \<or> k = ''pty''" "parse_path_endpoint k rest = Inr ep"
    using assms raw p by (auto simp: parse_mi_endpoint_def Let_def endpoint_error_def split: if_splits)
  then show ?thesis
  proof cases
    case tcp
    then show ?thesis by (rule tcp_display)
  next
    case path
    then have "rest \<noteq> []"
      by (cases rest) (auto simp: parse_path_endpoint_def endpoint_error_def startswith_def split: if_splits)
    then have "\<not> is_space (last rest)" using partition_text_parts [OF p] strip_ends [OF raw] by auto
    with path show ?thesis by (intro path_display)
  qed
qed

lemma endpoint_roundtrip_witness:
  "parse_mi_endpoint ''tcp://h:12'' =
     Inr \<lparr>ep_kind = Tcp, ep_display = ''tcp://h:12'', ep_host = Some ''h'', ep_port = Some 12, ep_path = None\<rparr>"
proof -
  have "parse_mi_endpoint '' TCP://h:012'' =
     Inr \<lparr>ep_kind = Tcp, ep_display = ''tcp://h:12'', ep_host = Some ''h'', ep_port = Some 12, ep_path = None\<rparr>"
    by code_simp
  from endpoint_roundtrip [OF this] show ?thesis by simp
qed

text \<open>Carriage returns disappear whatever the boundaries of the reads are.\<close>

lemma crlf_stream:
  "concat (map (\<lambda>d. case crlf_read d of None \<Rightarrow> [] | Some t \<Rightarrow> t) chunks) =
     filter (\<lambda>c. c \<noteq> CHR 0x0D) (concat (map (\<lambda>d. case d of None \<Rightarrow> [] | Some t \<Rightarrow> t) chunks))"
  by (induction chunks) (auto simp: crlf_read_def split: option.splits intro!: filter_True [symmetric])

text \<open>Raw mode switches off exactly the named bits: echo and line editing are off, every other bit stays.\<close>

lemma raw_attrs_bits:
  "bit (tty_lflag (raw_attrs b a)) n \<longleftrightarrow>
     bit (tty_lflag a) n \<and> \<not> bit (bit_echo b) n \<and> \<not> bit (bit_icanon b) n \<and> \<not> bit (bit_isig b) n \<and> \<not> bit (bit_iexten b) n"
  "bit (tty_iflag (raw_attrs b a)) n \<longleftrightarrow>
     bit (tty_iflag a) n \<and> \<not> bit (bit_icrnl b) n \<and> \<not> bit (bit_ixon b) n"
  "bit (tty_oflag (raw_attrs b a)) n \<longleftrightarrow> bit (tty_oflag a) n \<and> \<not> bit (bit_opost b) n"
  "tty_cflag (raw_attrs b a) = tty_cflag a"
  by (auto simp: raw_attrs_def bit_simps dest: bit_imp_le_length)

text \<open>A controller closes its connection once, however often it is told to exit.\<close>

lemma external_exit_once:
  assumes "create_external_controller op s = Inr c"
  shows "xc_close_calls ((external_exit ^^ Suc n) c) = 1"
proof -
  have c: "\<not> xc_closed c" "xc_close_calls c = 0"
    using assms by (auto simp: create_external_controller_def endpoint_error_def split: sum.splits option.splits if_splits)
  have "(external_exit ^^ Suc n) c = c\<lparr>xc_closed := True, xc_close_calls := 1\<rparr>"
    by (induction n) (use c in \<open>simp_all add: external_exit_def\<close>)
  then show ?thesis by simp
qed

end
