(* ===== verification/Spec2Isabelle.thy ===== *)
theory Spec2Isabelle
  imports Mcp_Server_Correct Code_Inspection_Correct Client_Correct Client_Server External_Endpoint
begin

text \<open>
  A development about \<open>gdb-mcp\<close> (\<open>src/src/gdb_mcp\<close>): a server that drives GDB through its machine
  interface (MI) and offers this as MCP tools, and a command line client for it. All paths below are
  relative to \<open>src/src/gdb_mcp\<close>.

  \<^bold>\<open>The program.\<close> A tool call reaches the server as a name and a JSON object. The dispatcher
  (\<open>mcp/handlers/dispatch.py\<close>) has pydantic validate it against the tool's request model, resolves the
  session it names in the registry (\<open>session/registry.py\<close>), runs the tool's handler (\<open>mcp/handlers\<close>) and
  turns the result, or the exception, into an envelope. A handler calls the services of a session
  (\<open>session/service.py\<close>): life cycle, execution, breakpoints, inspection, batches, capture and campaigns.
  These go through the command runner (\<open>session/command_runner.py\<close>), which sends one command at a time to
  the transport client (\<open>transport/mi_client.py\<close>) and follows what the answers say about the debugged
  program in the session's runtime (\<open>session/runtime.py\<close>). The client (\<open>client/cli.py\<close>) turns flags into the
  payload of a tool, finds or starts a background server of the project (\<open>client/daemon.py\<close>), calls it, and
  remembers a default session in the project's cookie.

  \<^bold>\<open>How the code is modelled.\<close> A Python value is a \<open>pyv\<close>, a dictionary an association list in insertion
  order, a dataclass a record, a text a list of characters. A method that changes state is a function in
  the state monad with exceptions of \<open>Exec_Monad\<close>: it maps a state to a value or an exception, together with
  the state it leaves in both cases. Definitions keep the names of the source where Isabelle allows it, and
  are executable.

  \<^item> \<open>Gdb_Prelude\<close>, \<open>Exec_Monad\<close>, \<open>Text_Match\<close>, \<open>Shlex\<close>: Python values, string methods, exceptions, the monad and
    its triples, matchers for the regular expressions, \<open>shlex.split\<close>.
  \<^item> \<open>Mi_Protocol\<close>, \<open>Mi_Client\<close>, \<open>External_Endpoint\<close>: \<open>transport/mi_commands.py\<close>, \<open>mi_models.py\<close>, \<open>mi_parser.py\<close>;
    \<open>mi_client.py\<close> (state \<open>MiClient\<close>: controller, token, lock, world); \<open>external.py\<close>.
  \<^item> \<open>Domain\<close>, \<open>Results\<close>: \<open>domain/models.py\<close>, \<open>parsing.py\<close>, \<open>adapters.py\<close>, \<open>results.py\<close>.
  \<^item> \<open>Session_Runtime\<close>, \<open>Inferiors\<close>, \<open>Command_Runner\<close>, \<open>Execution\<close>, \<open>Lifecycle\<close>, \<open>Breakpoints\<close>, \<open>Inspection\<close>,
    \<open>Code_Inspection\<close>, \<open>Workflow\<close>, \<open>Capture\<close>, \<open>Campaign\<close>, \<open>Session_Service\<close>, \<open>Registry\<close>: the modules of
    \<open>session\<close> of the same names; state \<open>SessionRuntime\<close>, for captures also a \<open>disk\<close>, and \<open>registry\<close>.
  \<^item> \<open>Mcp_Requests\<close>, \<open>Schema_Normalizer\<close>, \<open>Validation_Errors\<close>, \<open>Mcp_Common\<close>, \<open>Mcp_Handlers\<close>, \<open>Mcp_Server\<close>:
    \<open>mcp/schemas\<close>, \<open>schema_normalizer.py\<close>, \<open>validation_errors.py\<close>, \<open>serializer.py\<close>, \<open>contracts.py\<close>, the handlers
    and the dispatch; state \<open>server_state\<close>, the registry and the file system.
  \<^item> \<open>Server_Process\<close>: \<open>server.py\<close> (command line), \<open>mcp/app.py\<close> (token, shutdown request, idle watchdog, ready
    file), \<open>mcp/runtime.py\<close>, \<open>mcp/stdio_input.py\<close>.
  \<^item> \<open>Client_Parsers\<close>, \<open>Client_Inputs\<close>: \<open>client/parsers.py\<close>, \<open>inputs.py\<close>, \<open>input_parsers.py\<close>, \<open>specs\<close>, \<open>builders\<close>.
    \<open>Client_Output\<close>: \<open>results.py\<close>, \<open>renderers.py\<close> and the payload of \<open>runtime.py\<close>. \<open>Client_Tools\<close>: the tool table
    of \<open>specs/registry.py\<close> and the short commands of \<open>facade.py\<close>. \<open>Client_Daemon\<close>: \<open>daemon.py\<close> (state \<open>project\<close>).
    \<open>Client_Cli\<close>: \<open>cli.py\<close>, an invocation as a \<open>command\<close> that goes on or ends with an exit code (state \<open>cli\<close>).
  \<^item> \<open>Client_Server\<close>: client and server together.
  \<^item> A theory \<open>X_Correct\<close> holds the properties of the theory \<open>X\<close>; the other properties stand in the theory of
    their definitions.

  \<^bold>\<open>The outside world.\<close> Whatever GDB, the operating system and other processes do comes from scripts of
  outcomes that a run consumes: the reads, writes, polls, exits, spawns and kills of a session's \<open>world\<close>, the
  outcomes of the \<open>disk\<close>, the probes, spawned processes, ready files, polls and shutdown answers of a
  \<open>project\<close>, and the answers of a server in \<open>cl_answers\<close>. Theorems hold for every script. The clock is part
  of these states and passes in reads, probes and sleeps. An exhausted script gives a silent debugger, a
  dead process or no answer.

  Parameters, because their code is not in \<open>src\<close>: pygdbmi's controller (the outcomes of its reads and
  writes), pydantic's validation and schema of a request model, the regular expression engine of campaigns,
  file names and file contents, the decoding of bytes, opening an endpoint and the bits of a terminal, what
  argparse delivers (a namespace is a dictionary). Python's logging is left out.

  \<^bold>\<open>Loops.\<close> The read loops of the transport, the waits of the client and the loops of the normaliser are total
  functions with a measure: the time to the deadline, or the entries still to do. The idle watchdog, which
  waits for other parts of the process, carries fuel; \<open>watchdog_exact\<close> shows how much is enough.

  \<^bold>\<open>Interfaces.\<close> \<open>mi_operation\<close> states what an operation of the transport may do to the controller, with the
  three MI operations as interpretations. \<open>tracking_invariant\<close>, \<open>answer_invariant\<close>, \<open>session_invariant\<close>,
  \<open>command_invariant\<close> and \<open>service_invariant\<close> state what a predicate on the runtime must survive so that every
  operation of the session keeps it; they are interpreted for the well-formed runtime, the live session,
  the settled session, the transcript and the selection of GDB. \<open>bounded_history\<close> is the contract of the two
  histories of a session. The calls of an invocation of the client are followed by \<open>makes\<close> and \<open>quiet\<close>, the
  records of a project by triples over \<open>books\<close>.

  \<^bold>\<open>What is shown.\<close>
  Transport: an answer belongs to its command, loops end in time, the controller is dropped exactly on a fatal
  error, quoting and the parser of responses are exact.
  Session: a well-formed runtime in every reachable state; starting ends in a live session or leaves no
  debugger; inspection restores the selection; breakpoints that are reported exist; a batch is the sequence of
  its steps; a bundle holds what its manifest lists; a campaign leaves no debugger and stops at the first
  match.
  Server: every call is answered, calls on one session leave the others alone, the registry stays sound under
  any interleaving; the normalised schema is flat and admits what it admitted; the watchdog and the reader of
  standard input do exactly what they should.
  Client: at most one server is started per invocation, its state is in the cookie; a payload was validated by
  its model; accepted flags are sent; exit code 0 means success; the default session follows what the server
  confirms.
  Together: a session started through the client is tracked by the server under the id the client remembers;
  client and server agree about a stop. Some theorems show behaviour that is probably not meant: a start
  that succeeds on a dead debugger, a status command that orphans a server, a campaign that looks idle.

  \<^bold>\<open>Not modelled.\<close> The registration of flags with argparse, the wiring of the MCP library and uvicorn, the HTTP
  exchange itself, signals and logging: calls into libraries without logic of their own. The descriptions and
  examples of the tools (\<open>mcp/schemas/tools.py\<close>, \<open>mcp/tool_examples.py\<close>): constant text. JSON encoding and
  decoding: a text is the value it encodes. Locks: a locked section is one step, and who waits for a lock is
  not followed; the registry's steps and the status command interleave where the code lets them. The Windows
  branches of \<open>client/daemon.py\<close>, its paths and its log file. Typing protocols and re-exports.
\<close>

end
